(* ===== verification/Prelude.thy ===== *)
theory Prelude
  imports Main "HOL-Library.Monad_Syntax" "HOL-Library.List_Lexorder" "HOL-Library.Char_ord"
begin

text \<open>
  What every component shares: the relational view of a PostgreSQL table as the list of its
  rows (SELECT, EXISTS, UPDATE, DELETE as list functions, with the lemmas that let the
  component proofs treat them algebraically), the signed 64-bit arithmetic of the Rust code and
  of the \<open>bigint\<close> columns, instants and durations, the JSON values the code stores, and the
  result type of a database operation.
\<close>

named_theorems table_simps \<open>how SELECT, UPDATE and DELETE compose\<close>
named_theorems op_defs \<open>definitions of the database operations\<close>

subsection \<open>Names used throughout\<close>

text \<open>
  A \<open>Uuid\<close> is its canonical lower-case text, so \<open>Uuid::to_string\<close> is the identity and
  PostgreSQL's order on \<open>uuid\<close> is the order of these texts. Values made by
  \<open>Uuid::new_v4()\<close> or \<open>gen_random_uuid()\<close> are arguments of the operation that draws them.
  An instant is a number of microseconds, PostgreSQL's resolution.
\<close>

type_synonym uuid = string
type_synonym instant = int
type_synonym bytes = "nat list"

definition seconds :: "int \<Rightarrow> int" where
  "seconds n = n * 1000000"

definition minutes :: "int \<Rightarrow> int" where
  "minutes n = seconds (60 * n)"

definition hours :: "int \<Rightarrow> int" where
  "hours n = minutes (60 * n)"

definition days :: "int \<Rightarrow> int" where
  "days n = hours (24 * n)"

lemmas duration_defs = seconds_def minutes_def hours_def days_def

text \<open>
  The two clocks an operation reads: \<open>CURRENT_TIMESTAMP\<close>, fixed for a transaction, and
  \<open>OffsetDateTime::now_utc()\<close> of the application process.
\<close>

record env =
  db_now :: instant
  app_now :: instant

subsection \<open>Signed 64-bit numbers\<close>

definition i64_max :: int where
  "i64_max = 9223372036854775807"

definition i64_wrap :: "int \<Rightarrow> int" where
  "i64_wrap x = (x + 9223372036854775808) mod 18446744073709551616 - 9223372036854775808"

lemma i64_wrap_id: "- 9223372036854775808 \<le> x \<Longrightarrow> x \<le> i64_max \<Longrightarrow> i64_wrap x = x"
  by (simp add: i64_wrap_def i64_max_def)

lemma i64_wrap_max: "i64_wrap (i64_max + 1) = - 9223372036854775808"
  by (simp add: i64_wrap_def i64_max_def)

text \<open>\<open>saturating_add\<close> of two numbers of which the second is not negative.\<close>

definition i64_saturating_add :: "int \<Rightarrow> int \<Rightarrow> int" where
  "i64_saturating_add a b = min i64_max (a + b)"

subsection \<open>Tables as lists of rows\<close>

text \<open>
  A table is the list of its rows in insertion order. \<open>fetch_optional\<close> of a query that selects
  by a key is \<open>List.find\<close>, \<open>fetch_all\<close> is \<open>filter\<close>, \<open>SELECT EXISTS\<close> is \<open>list_ex\<close>.
\<close>

definition update_where :: "('r \<Rightarrow> bool) \<Rightarrow> ('r \<Rightarrow> 'r) \<Rightarrow> 'r list \<Rightarrow> 'r list" where
  "update_where P f t = map (\<lambda>r. if P r then f r else r) t"

definition delete_where :: "('r \<Rightarrow> bool) \<Rightarrow> 'r list \<Rightarrow> 'r list" where
  "delete_where P t = filter (\<lambda>r. \<not> P r) t"

definition rows_affected :: "('r \<Rightarrow> bool) \<Rightarrow> 'r list \<Rightarrow> nat" where
  "rows_affected P t = length (filter P t)"

lemma update_where_Nil [simp]: "update_where P f [] = []"
  by (simp add: update_where_def)

lemma update_where_Cons [simp]:
  "update_where P f (r # t) = (if P r then f r else r) # update_where P f t"
  by (simp add: update_where_def)

lemma update_where_append [simp]:
  "update_where P f (t @ u) = update_where P f t @ update_where P f u"
  by (simp add: update_where_def)

lemma length_update_where [simp]: "length (update_where P f t) = length t"
  by (simp add: update_where_def)

lemma set_update_where: "set (update_where P f t) = (\<lambda>r. if P r then f r else r) ` set t"
  by (simp add: update_where_def)

lemma in_update_whereE:
  assumes "r \<in> set (update_where P f t)"
  obtains r0 where "r0 \<in> set t" and "r = (if P r0 then f r0 else r0)"
  using assms by (auto simp: set_update_where)

lemma in_update_whereI: "r \<in> set t \<Longrightarrow> P r \<Longrightarrow> f r \<in> set (update_where P f t)"
  by (force simp: set_update_where)

lemma delete_where_append [simp]:
  "delete_where P (t @ u) = delete_where P t @ delete_where P u"
  by (simp add: delete_where_def)

lemma set_delete_where [simp]: "set (delete_where P t) = {r \<in> set t. \<not> P r}"
  by (auto simp: delete_where_def)

lemma map_update_where [table_simps]:
  "(\<And>r. P r \<Longrightarrow> key (f r) = key r) \<Longrightarrow> map key (update_where P f t) = map key t"
  by (simp add: update_where_def)

lemma update_where_none [table_simps]:
  "(\<And>r. r \<in> set t \<Longrightarrow> \<not> P r) \<Longrightarrow> update_where P f t = t"
  by (induction t) auto

lemma delete_where_none [table_simps]:
  "(\<And>r. r \<in> set t \<Longrightarrow> \<not> P r) \<Longrightarrow> delete_where P t = t"
  by (simp add: delete_where_def filter_id_conv)

text \<open>A selection that an UPDATE or DELETE of other rows does not touch is unchanged.\<close>

lemma filter_update_where_disjoint [table_simps]:
  assumes "\<And>r. P r \<Longrightarrow> \<not> Q r" and "\<And>r. P r \<Longrightarrow> \<not> Q (f r)"
  shows "filter Q (update_where P f t) = filter Q t"
  using assms by (induction t) auto

lemma filter_delete_where_disjoint [table_simps]:
  assumes "\<And>r. P r \<Longrightarrow> \<not> Q r"
  shows "filter Q (delete_where P t) = filter Q t"
  using assms by (induction t) (auto simp: delete_where_def)

lemma filter_update_where_same [table_simps]:
  assumes "\<And>r. P r \<Longrightarrow> Q (f r) = Q r"
  shows "filter Q (update_where P f t) = update_where P f (filter Q t)"
  using assms by (induction t) auto

lemma find_append: "List.find P (t @ u) = (case List.find P t of None \<Rightarrow> List.find P u | Some r \<Rightarrow> Some r)"
  by (induction t) auto

lemma find_update_where [table_simps]:
  assumes "\<And>r. P r \<Longrightarrow> Q (f r) = Q r"
  shows "List.find Q (update_where P f t) =
    map_option (\<lambda>r. if P r then f r else r) (List.find Q t)"
  using assms by (induction t) auto

lemma find_update_where_disjoint:
  assumes "\<And>r. P r \<Longrightarrow> \<not> Q r" and "\<And>r. P r \<Longrightarrow> \<not> Q (f r)"
  shows "List.find Q (update_where P f t) = List.find Q t"
  using assms by (induction t) auto

lemma find_SomeD: "List.find P t = Some r \<Longrightarrow> r \<in> set t \<and> P r"
  by (induction t) (auto split: if_splits)

lemma find_NoneD: "List.find P t = None \<Longrightarrow> r \<in> set t \<Longrightarrow> \<not> P r"
  by (auto simp: find_None_iff)

lemma find_None_filter: "List.find P t = None \<longleftrightarrow> filter P t = []"
  by (induction t) auto

lemma find_conv_filter:
  "List.find P t = (case filter P t of [] \<Rightarrow> None | r # _ \<Rightarrow> Some r)"
  by (induction t) auto

lemma rows_affected_append [simp]:
  "rows_affected P (t @ u) = rows_affected P t + rows_affected P u"
  by (simp add: rows_affected_def)

lemma rows_affected_0: "rows_affected P t = 0 \<longleftrightarrow> (\<forall>r \<in> set t. \<not> P r)"
  by (simp add: rows_affected_def filter_empty_conv)

lemma list_ex_update_where:
  assumes "\<And>r. P r \<Longrightarrow> Q (f r) = Q r"
  shows "list_ex Q (update_where P f t) = list_ex Q t"
  using assms by (induction t) auto

subsection \<open>Tables with a primary key\<close>

lemma list_ex_key: "list_ex (\<lambda>x. f x = k) xs \<longleftrightarrow> k \<in> f ` set xs"
  by (auto simp: list_ex_iff)

lemma keyed_table_inj:
  "distinct (map key t) \<Longrightarrow> r \<in> set t \<Longrightarrow> r' \<in> set t \<Longrightarrow> key r = key r' \<Longrightarrow> r = r'"
  by (meson distinct_map inj_onD)

lemma keyed_table_find:
  assumes "distinct (map key t)" and "r \<in> set t" and "key r = k"
  shows "List.find (\<lambda>x. key x = k) t = Some r"
proof -
  from assms obtain r' where "List.find (\<lambda>x. key x = k) t = Some r'"
    by (cases "List.find (\<lambda>x. key x = k) t") (auto dest: find_NoneD)
  with assms show ?thesis by (auto dest!: find_SomeD intro: keyed_table_inj)
qed

text \<open>
  The contract of an UPDATE on a keyed table: its SET clause keeps the key. Every SET clause
  of the model is an interpretation, in the theory that declares it; the client gets that the
  key stays unique and that rows are found by their key as before.
\<close>

locale key_update =
  fixes key :: "'r \<Rightarrow> 'k" and upd :: "'r \<Rightarrow> 'r"
  assumes key_upd: "key (upd r) = key r"
begin

lemma keys_update: "map key (update_where P upd t) = map key t"
  by (simp add: update_where_def key_upd)

lemma distinct_update: "distinct (map key t) \<Longrightarrow> distinct (map key (update_where P upd t))"
  by (simp only: keys_update)

lemma find_update:
  "List.find (\<lambda>r. key r = k) (update_where P upd t) =
    map_option (\<lambda>r. if P r then upd r else r) (List.find (\<lambda>r. key r = k) t)"
  by (rule find_update_where) (simp add: key_upd)

lemma filter_update:
  "filter (\<lambda>r. Q (key r)) (update_where P upd t) = update_where P upd (filter (\<lambda>r. Q (key r)) t)"
  by (rule filter_update_where_same) (simp add: key_upd)

end

subsection \<open>Histories\<close>

text \<open>
  A component as a system of events: each admissible event preserves the invariant, so every
  history of admissible events does.
\<close>

locale event_system =
  fixes step :: "'e \<Rightarrow> 's \<Rightarrow> 's" and admissible :: "'e \<Rightarrow> bool" and inv :: "'s \<Rightarrow> bool"
  assumes step_inv: "admissible ev \<Longrightarrow> inv s \<Longrightarrow> inv (step ev s)"
begin

lemma run_inv: "\<forall>ev \<in> set evs. admissible ev \<Longrightarrow> inv s \<Longrightarrow> inv (fold step evs s)"
  by (induction evs arbitrary: s) (auto intro: step_inv)

end

subsection \<open>Leases\<close>

text \<open>
  The contract of the operations a worker runs under its lease: without the lease they leave
  the database as it is. A worker that has lost its lease can run any of them, as often as it
  likes.
\<close>

locale leased =
  fixes op :: "uuid \<Rightarrow> uuid \<Rightarrow> 's \<Rightarrow> 's" and held :: "uuid \<Rightarrow> uuid \<Rightarrow> 's \<Rightarrow> bool"
  assumes fenced: "\<not> held job lease s \<Longrightarrow> op job lease s = s"
begin

lemma fenced_repeat: "\<not> held job lease s \<Longrightarrow> (op job lease ^^ n) s = s"
  by (induction n) (auto simp: fenced)

end

subsection \<open>Results and optional values\<close>

text \<open>\<open>Option::ok_or\<close>.\<close>

definition ok_or :: "'a option \<Rightarrow> 'e \<Rightarrow> 'e + 'a" where
  "ok_or x e = (case x of None \<Rightarrow> Inl e | Some v \<Rightarrow> Inr v)"

lemma ok_or_simps [simp]: "ok_or None e = Inl e" "ok_or (Some v) e = Inr v"
  by (simp_all add: ok_or_def)

lemma ok_or_eq_Inr [simp]: "ok_or x e = Inr v \<longleftrightarrow> x = Some v"
  by (cases x) auto

lemma ok_or_eq_Inl [simp]: "ok_or x e = Inl e' \<longleftrightarrow> x = None \<and> e' = e"
  by (cases x) auto

text \<open>The \<open>?\<close> operator of Rust: the first error of a sequence of fallible calls.\<close>

definition try_bind :: "'e + 'a \<Rightarrow> ('a \<Rightarrow> 'e + 'b) \<Rightarrow> 'e + 'b" where
  "try_bind x f = (case x of Inl e \<Rightarrow> Inl e | Inr v \<Rightarrow> f v)"

lemma try_bind_simps [simp]: "try_bind (Inl e) f = Inl e" "try_bind (Inr v) f = f v"
  by (simp_all add: try_bind_def)

lemma try_bind_eq_Inr: "try_bind x f = Inr w \<longleftrightarrow> (\<exists>v. x = Inr v \<and> f v = Inr w)"
  by (cases x) auto

lemma try_bind_eq_Inl: "try_bind x f = Inl e \<longleftrightarrow> x = Inl e \<or> (\<exists>v. x = Inr v \<and> f v = Inl e)"
  by (cases x) auto

subsection \<open>JSON values\<close>

text \<open>
  \<open>serde_json::Value\<close>. An object is the list of its members in the order \<open>json!\<close> lists them;
  a timestamp that the server writes is kept as the instant it denotes (a request keeps its times as
  text, which the RFC 3339 parser reads).
\<close>

datatype json =
    JNull
  | JBool bool
  | JNum int
  | JStr string
  | JTime instant
  | JArr "json list"
  | JObj "(string \<times> json) list"

text \<open>\<open>Value::get\<close> with a key, \<open>as_str\<close>, \<open>as_bool\<close>, \<open>as_array\<close>.\<close>

fun json_get :: "string \<Rightarrow> json \<Rightarrow> json option" where
  "json_get k (JObj ms) = map_of ms k"
| "json_get k _ = None"

fun json_as_str :: "json \<Rightarrow> string option" where
  "json_as_str (JStr s) = Some s"
| "json_as_str _ = None"

fun json_as_bool :: "json \<Rightarrow> bool option" where
  "json_as_bool (JBool b) = Some b"
| "json_as_bool _ = None"

fun json_as_array :: "json \<Rightarrow> json list option" where
  "json_as_array (JArr xs) = Some xs"
| "json_as_array _ = None"

fun json_opt :: "('a \<Rightarrow> json) \<Rightarrow> 'a option \<Rightarrow> json" where
  "json_opt f None = JNull"
| "json_opt f (Some x) = f x"

subsection \<open>Text\<close>

text \<open>
  A Rust \<open>str\<close> is a list of \<open>char\<close>s, each standing for the Unicode scalar value with its code
  (U+0000 to U+00FF); scalars above U+00FF are outside the model. Methods that Rust defines on
  scalars (\<open>trim\<close>, \<open>to_lowercase\<close>, \<open>chars().count()\<close>) work on this list, those defined on
  bytes (\<open>len()\<close>) on its UTF-8 encoding.
\<close>

definition is_whitespace :: "char \<Rightarrow> bool" where
  "is_whitespace c = (let n = of_char c :: nat in (9 \<le> n \<and> n \<le> 13) \<or> n = 32 \<or> n = 133 \<or> n = 160)"

definition to_lowercase_char :: "char \<Rightarrow> char" where
  "to_lowercase_char c =
    (let n = of_char c :: nat in
      if (65 \<le> n \<and> n \<le> 90) \<or> (192 \<le> n \<and> n \<le> 222 \<and> n \<noteq> 215) then char_of (n + 32) else c)"

definition to_lowercase :: "string \<Rightarrow> string" where
  "to_lowercase = map to_lowercase_char"

definition is_ascii_alphabetic :: "char \<Rightarrow> bool" where
  "is_ascii_alphabetic c =
    (let n = of_char c :: nat in (65 \<le> n \<and> n \<le> 90) \<or> (97 \<le> n \<and> n \<le> 122))"

definition is_ascii_digit :: "char \<Rightarrow> bool" where
  "is_ascii_digit c = (let n = of_char c :: nat in 48 \<le> n \<and> n \<le> 57)"

definition to_ascii_lowercase :: "string \<Rightarrow> string" where
  "to_ascii_lowercase = map (\<lambda>c. let n = of_char c :: nat in
      if 65 \<le> n \<and> n \<le> 90 then char_of (n + 32) else c)"

definition trim :: "string \<Rightarrow> string" where
  "trim s = rev (dropWhile is_whitespace (rev (dropWhile is_whitespace s)))"

definition utf8_len :: "string \<Rightarrow> nat" where
  "utf8_len s = sum_list (map (\<lambda>c. if (of_char c :: nat) < 128 then 1 else 2) s)"

fun split_once :: "char \<Rightarrow> string \<Rightarrow> (string \<times> string) option" where
  "split_once d [] = None"
| "split_once d (c # s) =
    (if c = d then Some ([], s) else map_option (\<lambda>(a, b). (c # a, b)) (split_once d s))"

fun split_on :: "char \<Rightarrow> string \<Rightarrow> string list" where
  "split_on d [] = [[]]"
| "split_on d (c # s) =
    (if c = d then [] # split_on d s
     else (case split_on d s of [] \<Rightarrow> [[c]] | p # ps \<Rightarrow> (c # p) # ps))"

text \<open>\<open>str::rsplit_once\<close>, and \<open>str::replacen\<close> of one character once.\<close>

definition rsplit_once :: "char \<Rightarrow> string \<Rightarrow> (string \<times> string) option" where
  "rsplit_once d s = map_option (\<lambda>(a, b). (rev b, rev a)) (split_once d (rev s))"

definition replace_first :: "char \<Rightarrow> char \<Rightarrow> string \<Rightarrow> string" where
  "replace_first d c s = (case split_once d s of None \<Rightarrow> s | Some (a, b) \<Rightarrow> a @ c # b)"

definition starts_with :: "string \<Rightarrow> string \<Rightarrow> bool" where
  "starts_with p s = (take (length p) s = p)"

lemma split_once_SomeD: "split_once d s = Some (a, b) \<Longrightarrow> s = a @ d # b \<and> d \<notin> set a"
  by (induction s arbitrary: a) (auto split: if_splits)

lemma split_once_append: "d \<notin> set a \<Longrightarrow> split_once d (a @ d # b) = Some (a, b)"
  by (induction a) auto

lemma split_once_None: "split_once d s = None \<longleftrightarrow> d \<notin> set s"
  by (induction s) auto

lemma split_on_nonempty [simp]: "split_on d s \<noteq> []"
  by (induction s) (auto split: list.splits)

lemma split_on_no_sep: "d \<notin> set s \<Longrightarrow> split_on d s = [s]"
  by (induction s) auto

lemma split_on_append: "d \<notin> set a \<Longrightarrow> split_on d (a @ d # b) = a # split_on d b"
  by (induction a) auto

lemma trim_Nil [simp]: "trim [] = []"
  by (simp add: trim_def)

lemma dropWhile_rev_dropWhile_idem:
  "dropWhile P (rev (dropWhile P (rev (dropWhile P s)))) = rev (dropWhile P (rev (dropWhile P s)))"
proof (cases "dropWhile P s")
  case Nil
  show ?thesis unfolding Nil by simp
next
  case (Cons c t)
  then have "\<not> P c" using hd_dropWhile [of P s] by simp
  moreover from this have "\<exists>u. dropWhile P (rev t @ [c]) = u @ [c]"
    by (simp add: dropWhile_append)
  ultimately show ?thesis using Cons by auto
qed

lemma trim_idem [simp]: "trim (trim s) = trim s"
  by (simp add: trim_def dropWhile_rev_dropWhile_idem)

lemma dropWhile_map_inv: "(\<And>c. P (f c) = P c) \<Longrightarrow> dropWhile P (map f s) = map f (dropWhile P s)"
  by (induction s) auto

lemma trim_map: "(\<And>c. is_whitespace (f c) = is_whitespace c) \<Longrightarrow> trim (map f s) = map f (trim s)"
  by (simp add: trim_def dropWhile_map_inv rev_map)

lemma to_lowercase_whitespace: "is_whitespace (to_lowercase_char c) = is_whitespace c"
  by (auto simp: is_whitespace_def to_lowercase_char_def Let_def)

lemma to_lowercase_char_idem: "to_lowercase_char (to_lowercase_char c) = to_lowercase_char c"
proof (cases "(65 \<le> (of_char c::nat) \<and> (of_char c::nat) \<le> 90) \<or>
    (192 \<le> (of_char c::nat) \<and> (of_char c::nat) \<le> 222 \<and> (of_char c::nat) \<noteq> 215)")
  case True
  then have "of_char (char_of (of_char c + 32 :: nat)) = (of_char c + 32 :: nat)" by auto
  with True show ?thesis by (auto simp: to_lowercase_char_def Let_def)
next
  case False
  then have "to_lowercase_char c = c" by (auto simp: to_lowercase_char_def Let_def)
  then show ?thesis by simp
qed

lemma to_lowercase_idem: "to_lowercase (to_lowercase s) = to_lowercase s"
  by (simp add: to_lowercase_def to_lowercase_char_idem)

lemma trim_to_lowercase: "trim (to_lowercase s) = to_lowercase (trim s)"
  by (simp add: to_lowercase_def trim_map to_lowercase_whitespace)

end
