(* ===== verification/Domain.thy ===== *)
theory Domain
  imports Prelude
begin

text \<open>
  \<open>crates/domain/src/lib.rs\<close> and \<open>crates/application/src/lib.rs\<close>: the enums shared by every
  layer with their text forms, the normalisation of email addresses, the password policy, the
  size limit of each kind of object, and the two request policies of the application crate.
\<close>

subsection \<open>Enums\<close>

datatype user_role = User | SystemAdmin

fun role_as_str :: "user_role \<Rightarrow> string" where
  "role_as_str User = ''user''"
| "role_as_str SystemAdmin = ''system_admin''"

datatype account_status = Active | Disabled | Pending | Deleting | Deleted

fun account_status_as_str :: "account_status \<Rightarrow> string" where
  "account_status_as_str Active = ''active''"
| "account_status_as_str Disabled = ''disabled''"
| "account_status_as_str Pending = ''pending''"
| "account_status_as_str Deleting = ''deleting''"
| "account_status_as_str Deleted = ''deleted''"

datatype project_status = PActive | PMaintenance | PDisabled | PDeleting

fun project_status_as_str :: "project_status \<Rightarrow> string" where
  "project_status_as_str PActive = ''active''"
| "project_status_as_str PMaintenance = ''maintenance''"
| "project_status_as_str PDisabled = ''disabled''"
| "project_status_as_str PDeleting = ''deleting''"

datatype object_kind = Todo | Classification | Index | Image

fun kind_as_str :: "object_kind \<Rightarrow> string" where
  "kind_as_str Todo = ''todo''"
| "kind_as_str Classification = ''classification''"
| "kind_as_str Index = ''index''"
| "kind_as_str Image = ''image''"

text \<open>\<open>ObjectKind::max_payload_bytes\<close>, in bytes.\<close>

fun max_payload_bytes :: "object_kind \<Rightarrow> int" where
  "max_payload_bytes Todo = 8 * 1024 * 1024"
| "max_payload_bytes Classification = 5 * 1024 * 1024"
| "max_payload_bytes Index = 5 * 1024 * 1024"
| "max_payload_bytes Image = 10 * 1024 * 1024"

text \<open>
  The declaration order of the PostgreSQL enum \<open>sync_object_kind\<close>, which is the order
  \<open>ORDER BY kind\<close> uses on the column itself.
\<close>

fun kind_rank :: "object_kind \<Rightarrow> nat" where
  "kind_rank Todo = 0"
| "kind_rank Classification = 1"
| "kind_rank Index = 2"
| "kind_rank Image = 3"

lemma kind_rank_inj: "kind_rank k = kind_rank k' \<Longrightarrow> k = k'"
  by (cases k; cases k') auto

instantiation object_kind :: linorder
begin

definition less_eq_object_kind :: "object_kind \<Rightarrow> object_kind \<Rightarrow> bool" where
  "less_eq_object_kind k k' \<longleftrightarrow> kind_rank k \<le> kind_rank k'"

definition less_object_kind :: "object_kind \<Rightarrow> object_kind \<Rightarrow> bool" where
  "less_object_kind k k' \<longleftrightarrow> kind_rank k < kind_rank k'"

instance
  by standard (auto simp: less_eq_object_kind_def less_object_kind_def dest: kind_rank_inj)

end

subsection \<open>The text forms are unambiguous\<close>

lemma role_as_str_inj: "role_as_str r = role_as_str r' \<longleftrightarrow> r = r'"
  by (cases r; cases r') auto

lemma account_status_as_str_inj: "account_status_as_str a = account_status_as_str b \<longleftrightarrow> a = b"
  by (cases a; cases b) auto

lemma project_status_as_str_inj: "project_status_as_str a = project_status_as_str b \<longleftrightarrow> a = b"
  by (cases a; cases b) auto

lemma kind_as_str_inj: "kind_as_str k = kind_as_str k' \<longleftrightarrow> k = k'"
  by (cases k; cases k') auto

subsection \<open>Email addresses and passwords\<close>

definition normalize_email :: "string \<Rightarrow> string option" where
  "normalize_email email =
    (let normalized = to_lowercase (trim email) in
     case split_once (CHR ''@'') normalized of
       None \<Rightarrow> None
     | Some (local_part, domain) \<Rightarrow>
         if local_part = [] \<or> domain = [] \<or> hd domain = CHR ''.'' \<or> last domain = CHR ''.''
         then None else Some normalized)"

definition min_password_length :: nat where
  "min_password_length = 12"

definition valid_password :: "string \<Rightarrow> bool" where
  "valid_password password \<longleftrightarrow>
     length password \<ge> min_password_length
   \<and> list_ex is_ascii_alphabetic password
   \<and> list_ex is_ascii_digit password"

text \<open>A normalised address is a fixed point: two spellings of an address meet in one row.\<close>

lemma normalize_email_value: "normalize_email e = Some n \<Longrightarrow> n = to_lowercase (trim e)"
  by (auto simp: normalize_email_def Let_def split: option.splits if_splits)

lemma normalized_form: "to_lowercase (trim (to_lowercase (trim e))) = to_lowercase (trim e)"
  by (simp add: trim_to_lowercase to_lowercase_idem)

lemma normalize_email_idem: "normalize_email e = Some n \<Longrightarrow> normalize_email n = Some n"
proof -
  assume n: "normalize_email e = Some n"
  have "to_lowercase (trim n) = to_lowercase (trim e)"
    using normalize_email_value [OF n] normalized_form by simp
  then have "normalize_email n = normalize_email e" by (simp add: normalize_email_def)
  with n show ?thesis by simp
qed

lemma normalize_email_shape:
  assumes "normalize_email e = Some n"
  shows "\<exists>l d. n = l @ CHR ''@'' # d \<and> l \<noteq> [] \<and> d \<noteq> [] \<and> CHR ''@'' \<notin> set l
    \<and> hd d \<noteq> CHR ''.'' \<and> last d \<noteq> CHR ''.''"
proof -
  from assms obtain l d where "split_once (CHR ''@'') n = Some (l, d)"
    and "l \<noteq> []" "d \<noteq> []" "hd d \<noteq> CHR ''.''" "last d \<noteq> CHR ''.''"
    by (auto simp: normalize_email_def Let_def split: option.splits if_splits)
  then show ?thesis by (auto dest!: split_once_SomeD)
qed

subsection \<open>Request policies\<close>

datatype policy_error = InvalidRestoreTargetPolicy | InvalidAccountPurgePhase

definition validate_restore_target :: "uuid option \<Rightarrow> int option \<Rightarrow> policy_error + unit" where
  "validate_restore_target snapshot_id target_change_sequence =
    (if ((snapshot_id = None) = (target_change_sequence = None))
        \<or> (case target_change_sequence of None \<Rightarrow> False | Some sequence \<Rightarrow> sequence < 0)
     then Inl InvalidRestoreTargetPolicy else Inr ())"

definition validate_account_purge_phase :: "uuid option \<Rightarrow> bool \<Rightarrow> policy_error + unit" where
  "validate_account_purge_phase export_id confirmed =
    (if confirmed \<noteq> (export_id \<noteq> None) then Inl InvalidAccountPurgePhase else Inr ())"

lemma validate_restore_target_ok:
  "validate_restore_target sn ts = Inr () \<longleftrightarrow>
    (\<exists>x. sn = Some x \<and> ts = None) \<or> (\<exists>n. sn = None \<and> ts = Some n \<and> 0 \<le> n)"
  by (cases sn; cases ts) (auto simp: validate_restore_target_def)

lemma validate_account_purge_phase_ok:
  "validate_account_purge_phase ex c = Inr () \<longleftrightarrow> (if c then ex \<noteq> None else ex = None)"
  by (auto simp: validate_account_purge_phase_def)

end
