(* ===== verification/Schema.thy ===== *)
theory Schema
  imports Domain
begin

text \<open>
  The state of the system: the rows of the PostgreSQL tables of \<open>migrations/0001_init.sql\<close> that
  \<open>crates/persistence/src/lib.rs\<close> reads and writes, one record per table and the record \<open>db\<close>
  of all tables; the error enum of the persistence crate; and the private helpers that most
  operations call (the guards on accounts, devices and projects, the audit insert).

  A transaction is a function from the state before it to the state its COMMIT leaves and its
  result; a branch that returns an error without COMMIT gives back the state it was given,
  which is what dropping an uncommitted transaction does. A failing connection is such a branch
  at every statement and is not written out; the failures of the statements themselves
  (violated UNIQUE and CHECK constraints, failed casts, \<open>bigint\<close> overflow) are.
\<close>

subsection \<open>Errors\<close>

datatype persistence_error =
    Database
  | Conflict
  | NotFound
  | AccountDisabled
  | DeviceRevoked
  | InvalidRefreshToken
  | RefreshTokenReuse
  | InvalidInvitation
  | AdminRequired
  | InvalidAccountTransition
  | ProjectMaintenance
  | GenerationMismatch int int
  | BootstrapRequired
  | IdempotencyConflict
  | IdempotencyReplay json int
  | PayloadNotFound
  | InvalidPayload
  | InvalidRestoreTarget
  | RestoreNotReopenable
  | RestoreCancelled
  | AccountPurgeNotReady

text \<open>
  How a statement fails: a duplicate key (SQLSTATE 23505), or anything else. Most callers turn
  both into \<open>Database\<close> with \<open>?\<close>; the others call \<open>map_sqlx_conflict\<close>.
\<close>

datatype sql_error = UniqueViolation | OtherSqlError

fun map_sqlx_conflict :: "sql_error \<Rightarrow> persistence_error" where
  "map_sqlx_conflict UniqueViolation = Conflict"
| "map_sqlx_conflict OtherSqlError = Database"

definition as_database :: "sql_error + 'a \<Rightarrow> persistence_error + 'a" where
  "as_database x = (case x of Inl _ \<Rightarrow> Inl Database | Inr v \<Rightarrow> Inr v)"

definition as_conflict :: "sql_error + 'a \<Rightarrow> persistence_error + 'a" where
  "as_conflict x = (case x of Inl e \<Rightarrow> Inl (map_sqlx_conflict e) | Inr v \<Rightarrow> Inr v)"

lemma as_database_eq_Inr [simp]: "as_database x = Inr v \<longleftrightarrow> x = Inr v"
  by (cases x) (auto simp: as_database_def)

lemma as_database_eq_Inl: "as_database x = Inl er \<longleftrightarrow> er = Database \<and> (\<exists>e. x = Inl e)"
  by (cases x) (auto simp: as_database_def)

lemma as_conflict_eq_Inr [simp]: "as_conflict x = Inr v \<longleftrightarrow> x = Inr v"
  by (cases x) (auto simp: as_conflict_def)

subsection \<open>Accounts, devices and sessions\<close>

record user_row =
  u_id :: uuid
  u_email_normalized :: string
  u_email_display :: string
  u_password_hash :: string
  u_role :: user_role
  u_status :: account_status
  u_created_at :: instant
  u_last_login_at :: "instant option"

record device_row =
  d_id :: uuid
  d_owner :: uuid
  d_display_name :: string
  d_platform :: string
  d_app_version :: string
  d_created_at :: instant
  d_last_seen_at :: "instant option"
  d_last_login_at :: "instant option"
  d_last_pull_at :: "instant option"
  d_last_push_at :: "instant option"
  d_revoked_at :: "instant option"

record refresh_row =
  rt_user :: uuid
  rt_device :: uuid
  rt_hash :: bytes
  rt_family :: uuid
  rt_expires_at :: instant
  rt_used_at :: "instant option"
  rt_revoked_at :: "instant option"

record invitation_row =
  inv_id :: uuid
  inv_email_normalized :: string
  inv_email_display :: string
  inv_hash :: bytes
  inv_expires_at :: instant
  inv_created_at :: instant
  inv_used_at :: "instant option"
  inv_revoked_at :: "instant option"

record nonce_row =
  an_hash :: bytes
  an_user :: uuid
  an_device :: uuid
  an_expires_at :: instant

record audit_row =
  au_actor :: "uuid option"
  au_subject :: "uuid option"
  au_project :: "uuid option"
  au_action :: string
  au_metadata :: json
  au_request_id :: "string option"
  au_created_at :: instant

subsection \<open>Projects and synchronised objects\<close>

record project_row =
  p_id :: uuid
  p_owner :: uuid
  p_name :: string
  p_generation :: int
  p_status :: project_status
  p_change_seq :: int
  p_created_at :: instant
  p_updated_at :: instant

record payload_row =
  pl_id :: uuid
  pl_project :: uuid
  pl_owner :: uuid
  pl_hash :: string
  pl_bucket :: string
  pl_key :: string
  pl_size :: int
  pl_media_type :: string
  pl_created_at :: instant

record revision_row =
  rv_id :: uuid
  rv_project :: uuid
  rv_owner :: uuid
  rv_kind :: object_kind
  rv_object :: string
  rv_revision :: int
  rv_base :: "int option"
  rv_schema_version :: "int option"
  rv_payload :: "uuid option"
  rv_hash :: "string option"
  rv_tombstone :: bool
  rv_changed_at :: instant
  rv_device :: uuid

record head_row =
  h_project :: uuid
  h_owner :: uuid
  h_kind :: object_kind
  h_object :: string
  h_revision :: int
  h_revision_id :: uuid

record change_row =
  cl_project :: uuid
  cl_owner :: uuid
  cl_sequence :: int
  cl_revision_id :: uuid
  cl_created_at :: instant

record completion_row =
  bc_project :: uuid
  bc_owner :: uuid
  bc_device :: uuid
  bc_generation :: int
  bc_sequence :: int

record manifest_row =
  bm_id :: uuid
  bm_project :: uuid
  bm_owner :: uuid
  bm_generation :: int
  bm_sequence :: int
  bm_hash :: string
  bm_bucket :: string
  bm_key :: string
  bm_manifest :: json
  bm_expires_at :: instant

record idempotency_row =
  ir_owner :: uuid
  ir_device :: uuid
  ir_project :: uuid
  ir_key :: string
  ir_hash :: string
  ir_response :: json
  ir_status :: int
  ir_expires_at :: instant

subsection \<open>Snapshots, restores and background jobs\<close>

datatype snapshot_status = SnPending | SnReady | SnFailed

record snapshot_row =
  sn_id :: uuid
  sn_project :: uuid
  sn_owner :: uuid
  sn_generation :: int
  sn_sequence :: int
  sn_hash :: string
  sn_bucket :: string
  sn_key :: string
  sn_manifest :: json
  sn_status :: snapshot_status
  sn_created_by :: uuid
  sn_created_at :: instant

datatype restore_status = RQueued | RRunning | RSucceeded | RFailed | RCancelled

record restore_row =
  rj_id :: uuid
  rj_project :: uuid
  rj_owner :: uuid
  rj_requested_by :: uuid
  rj_snapshot :: "uuid option"
  rj_target :: "int option"
  rj_reason :: string
  rj_request_id :: "string option"
  rj_status :: restore_status
  rj_pre_snapshot :: "uuid option"
  rj_generation_before :: "int option"
  rj_generation_after :: "int option"
  rj_objects :: int
  rj_tombstones :: int
  rj_error :: "string option"
  rj_created_at :: instant
  rj_started_at :: "instant option"
  rj_finished_at :: "instant option"
  rj_lease :: "uuid option"
  rj_lease_expires_at :: "instant option"
  rj_attempts :: int
  rj_run_after :: instant
  rj_cancel_requested :: bool

datatype job_status = JQueued | JRunning | JSucceeded | JFailed

datatype job_kind = ProjectPurge | AccountPurge | SnapshotCleanup | Statistics

record job_row =
  j_id :: uuid
  j_kind :: job_kind
  j_owner :: "uuid option"
  j_project :: "uuid option"
  j_payload :: json
  j_status :: job_status
  j_attempts :: int
  j_run_after :: instant
  j_lease :: "uuid option"
  j_lease_expires_at :: "instant option"
  j_error :: "string option"
  j_created_at :: instant
  j_started_at :: "instant option"
  j_finished_at :: "instant option"

datatype export_status = ExPending | ExReady | ExPurging | ExCompleted | ExFailed | ExExpired

record export_row =
  ex_id :: uuid
  ex_user :: uuid
  ex_job :: uuid
  ex_key :: string
  ex_hash :: "string option"
  ex_size :: "int option"
  ex_status :: export_status
  ex_created_at :: instant
  ex_expires_at :: instant
  ex_completed_at :: "instant option"

record attempt_row =
  sa_id :: uuid
  sa_owner :: uuid
  sa_project :: uuid
  sa_device :: "uuid option"
  sa_operation :: string
  sa_status :: string
  sa_error :: "string option"
  sa_item_count :: int
  sa_latency_ms :: "int option"
  sa_created_at :: instant

record bucket_row =
  rb_hash :: bytes
  rb_window_started :: instant
  rb_count :: int

record setting_row =
  st_key :: string
  st_value :: json

subsection \<open>The database\<close>

record db =
  users :: "user_row list"
  devices :: "device_row list"
  refresh_tokens :: "refresh_row list"
  invitations :: "invitation_row list"
  reauth_nonces :: "nonce_row list"
  audit_events :: "audit_row list"
  projects :: "project_row list"
  payloads :: "payload_row list"
  object_revisions :: "revision_row list"
  object_heads :: "head_row list"
  change_log :: "change_row list"
  bootstrap_completions :: "completion_row list"
  bootstrap_manifests :: "manifest_row list"
  idempotency_records :: "idempotency_row list"
  snapshots :: "snapshot_row list"
  restore_jobs :: "restore_row list"
  jobs :: "job_row list"
  account_purge_exports :: "export_row list"
  sync_attempts :: "attempt_row list"
  rate_buckets :: "bucket_row list"
  instance_settings :: "setting_row list"

text \<open>The state after the init migration, without its version markers.\<close>

definition empty_db :: db where
  "empty_db = \<lparr>users = [], devices = [], refresh_tokens = [], invitations = [],
     reauth_nonces = [], audit_events = [], projects = [], payloads = [], object_revisions = [],
     object_heads = [], change_log = [], bootstrap_completions = [], bootstrap_manifests = [],
     idempotency_records = [], snapshots = [], restore_jobs = [], jobs = [],
     account_purge_exports = [], sync_attempts = [], rate_buckets = [], instance_settings = []\<rparr>"

type_synonym 'a outcome = "persistence_error + 'a"
type_synonym 'a txn = "db \<Rightarrow> db \<times> 'a outcome"

subsection \<open>Guards shared by the operations\<close>

definition lock_active_user :: "uuid \<Rightarrow> db \<Rightarrow> user_row outcome" where
  "lock_active_user user_id s =
    (case List.find (\<lambda>u. u_id u = user_id) (users s) of
       None \<Rightarrow> Inl NotFound
     | Some user \<Rightarrow> if u_status user \<noteq> Active then Inl AccountDisabled else Inr user)"

text \<open>
  Under \<open>begin_user\<close> the role \<open>tasktips_app\<close> sees the rows its row-level security policies
  admit: those whose owner is the \<open>app.user_id\<close> of the transaction. Such a query is a filter
  by owner before the query's own condition.
\<close>

definition visible_projects :: "uuid \<Rightarrow> db \<Rightarrow> project_row list" where
  "visible_projects user_id s = filter (\<lambda>p. p_owner p = user_id) (projects s)"

definition project_state :: "uuid \<Rightarrow> uuid \<Rightarrow> db \<Rightarrow> (int \<times> int) outcome" where
  "project_state user_id project_id s =
    (case List.find (\<lambda>p. p_id p = project_id) (visible_projects user_id s) of
       None \<Rightarrow> Inl NotFound
     | Some p \<Rightarrow> if p_status p \<noteq> PActive then Inl ProjectMaintenance
                else Inr (p_generation p, p_change_seq p))"

text \<open>
  \<open>require_active_project\<close> and \<open>require_active_project_for_update\<close> differ in the row lock
  only, which a sequential model of transactions does not show.
\<close>

definition require_active_project :: "uuid \<Rightarrow> uuid \<Rightarrow> db \<Rightarrow> (int \<times> int) outcome" where
  "require_active_project user_id project_id s = project_state user_id project_id s"

definition require_active_project_for_update :: "uuid \<Rightarrow> uuid \<Rightarrow> db \<Rightarrow> (int \<times> int) outcome" where
  "require_active_project_for_update user_id project_id s = project_state user_id project_id s"

definition ensure_project_visible :: "uuid \<Rightarrow> uuid \<Rightarrow> db \<Rightarrow> unit outcome" where
  "ensure_project_visible user_id project_id s =
    (if list_ex (\<lambda>p. p_id p = project_id \<and> p_status p \<notin> {PDisabled, PDeleting})
          (visible_projects user_id s)
     then Inr () else Inl NotFound)"

definition require_admin :: "uuid \<Rightarrow> db \<Rightarrow> unit outcome" where
  "require_admin user_id s =
    (case List.find (\<lambda>u. u_id u = user_id) (users s) of
       None \<Rightarrow> Inl AdminRequired
     | Some u \<Rightarrow> if u_role u \<noteq> SystemAdmin \<or> u_status u \<noteq> Active then Inl AdminRequired else Inr ())"

definition verify_admin :: "uuid \<Rightarrow> db \<Rightarrow> unit outcome" where
  "verify_admin actor_user_id s = require_admin actor_user_id s"

definition new_device :: "env \<Rightarrow> uuid \<Rightarrow> uuid \<Rightarrow> device_row" where
  "new_device e user_id device_id =
    \<lparr>d_id = device_id, d_owner = user_id, d_display_name = ''Unnamed device'',
     d_platform = ''unknown'', d_app_version = ''unknown'', d_created_at = db_now e,
     d_last_seen_at = None, d_last_login_at = None, d_last_pull_at = None,
     d_last_push_at = None, d_revoked_at = None\<rparr>"

definition ensure_device :: "env \<Rightarrow> uuid \<Rightarrow> uuid \<Rightarrow> db \<Rightarrow> db outcome" where
  "ensure_device e user_id device_id s =
    (case List.find (\<lambda>d. d_id d = device_id) (devices s) of
       Some d \<Rightarrow> if d_owner d \<noteq> user_id then Inl NotFound
                 else if d_revoked_at d \<noteq> None then Inl DeviceRevoked
                 else Inr s
     | None \<Rightarrow> Inr (s\<lparr>devices := devices s @ [new_device e user_id device_id]\<rparr>))"

definition ensure_existing_device :: "uuid \<Rightarrow> uuid \<Rightarrow> db \<Rightarrow> unit outcome" where
  "ensure_existing_device user_id device_id s =
    (case List.find (\<lambda>d. d_id d = device_id \<and> d_owner d = user_id) (devices s) of
       None \<Rightarrow> Inl InvalidRefreshToken
     | Some d \<Rightarrow> if d_revoked_at d \<noteq> None then Inl DeviceRevoked else Inr ())"

definition insert_audit_nullable ::
    "env \<Rightarrow> uuid option \<Rightarrow> uuid option \<Rightarrow> string \<Rightarrow> json \<Rightarrow> string \<Rightarrow> db \<Rightarrow> db" where
  "insert_audit_nullable e actor subject action metadata request_id s =
    s\<lparr>audit_events := audit_events s @
      [\<lparr>au_actor = actor, au_subject = subject, au_project = None, au_action = action,
        au_metadata = metadata, au_request_id = Some request_id, au_created_at = db_now e\<rparr>]\<rparr>"

definition insert_audit ::
    "env \<Rightarrow> uuid \<Rightarrow> uuid option \<Rightarrow> string \<Rightarrow> json \<Rightarrow> string \<Rightarrow> db \<Rightarrow> db" where
  "insert_audit e actor subject action metadata request_id s =
    insert_audit_nullable e (Some actor) subject action metadata request_id s"

subsection \<open>Facts about the guards\<close>

lemma lock_active_userD:
  "lock_active_user uid s = Inr u \<Longrightarrow> u \<in> set (users s) \<and> u_id u = uid \<and> u_status u = Active"
  by (auto simp: lock_active_user_def split: option.splits if_splits dest: find_SomeD)

lemma project_stateD:
  assumes "project_state uid pid s = Inr (g, n)"
  obtains p where "p \<in> set (projects s)" and "p_id p = pid" and "p_owner p = uid"
    and "p_status p = PActive" and "p_generation p = g" and "p_change_seq p = n"
    and "List.find (\<lambda>p. p_id p = pid) (visible_projects uid s) = Some p"
proof -
  from assms obtain p where f: "List.find (\<lambda>p. p_id p = pid) (visible_projects uid s) = Some p"
    and p: "p_status p = PActive" "p_generation p = g" "p_change_seq p = n"
    by (auto simp: project_state_def split: option.splits if_splits)
  from f have "p \<in> set (visible_projects uid s) \<and> p_id p = pid" by (rule find_SomeD)
  with f p show thesis by (intro that) (auto simp: visible_projects_def)
qed

lemma require_adminD:
  "require_admin uid s = Inr () \<Longrightarrow>
    \<exists>u \<in> set (users s). u_id u = uid \<and> u_role u = SystemAdmin \<and> u_status u = Active"
  by (auto simp: require_admin_def split: option.splits if_splits dest!: find_SomeD)

lemma ensure_existing_deviceD:
  "ensure_existing_device uid did s = Inr () \<Longrightarrow>
    \<exists>d \<in> set (devices s). d_id d = did \<and> d_owner d = uid \<and> d_revoked_at d = None"
  by (auto simp: ensure_existing_device_def split: option.splits if_splits dest!: find_SomeD)

lemma ensure_device_devices:
  "ensure_device e uid did s = Inr s' \<Longrightarrow>
    (\<exists>d \<in> set (devices s'). d_id d = did \<and> d_owner d = uid \<and> d_revoked_at d = None)"
  by (auto simp: ensure_device_def new_device_def split: option.splits if_splits dest!: find_SomeD)

text \<open>The audit insert writes no other table.\<close>

lemma insert_audit_select [simp]:
  "users (insert_audit e a b c m r s) = users s"
  "devices (insert_audit e a b c m r s) = devices s"
  "refresh_tokens (insert_audit e a b c m r s) = refresh_tokens s"
  "invitations (insert_audit e a b c m r s) = invitations s"
  "reauth_nonces (insert_audit e a b c m r s) = reauth_nonces s"
  "projects (insert_audit e a b c m r s) = projects s"
  "payloads (insert_audit e a b c m r s) = payloads s"
  "object_revisions (insert_audit e a b c m r s) = object_revisions s"
  "object_heads (insert_audit e a b c m r s) = object_heads s"
  "change_log (insert_audit e a b c m r s) = change_log s"
  "bootstrap_completions (insert_audit e a b c m r s) = bootstrap_completions s"
  "bootstrap_manifests (insert_audit e a b c m r s) = bootstrap_manifests s"
  "idempotency_records (insert_audit e a b c m r s) = idempotency_records s"
  "snapshots (insert_audit e a b c m r s) = snapshots s"
  "restore_jobs (insert_audit e a b c m r s) = restore_jobs s"
  "jobs (insert_audit e a b c m r s) = jobs s"
  "account_purge_exports (insert_audit e a b c m r s) = account_purge_exports s"
  "sync_attempts (insert_audit e a b c m r s) = sync_attempts s"
  "rate_buckets (insert_audit e a b c m r s) = rate_buckets s"
  "instance_settings (insert_audit e a b c m r s) = instance_settings s"
  by (simp_all add: insert_audit_def insert_audit_nullable_def)

lemma insert_audit_nullable_select [simp]:
  "users (insert_audit_nullable e a b c m r s) = users s"
  "devices (insert_audit_nullable e a b c m r s) = devices s"
  "refresh_tokens (insert_audit_nullable e a b c m r s) = refresh_tokens s"
  "invitations (insert_audit_nullable e a b c m r s) = invitations s"
  "projects (insert_audit_nullable e a b c m r s) = projects s"
  by (simp_all add: insert_audit_nullable_def)

lemma audit_events_insert_audit [simp]:
  "audit_events (insert_audit e a b c m r s) = audit_events s @
    [\<lparr>au_actor = Some a, au_subject = b, au_project = None, au_action = c,
      au_metadata = m, au_request_id = Some r, au_created_at = db_now e\<rparr>]"
  by (simp add: insert_audit_def insert_audit_nullable_def)

end
