(* ===== verification/Store.thy ===== *)
theory Store
  imports Schema
begin

text \<open>
  The versioned object store of a project: the four tables \<open>projects\<close>, \<open>object_revisions\<close>,
  \<open>object_heads\<close> and \<open>change_log\<close>, the statements that append to them (shared by the push and
  the restore), and the invariant that ties them together: the sequences of a project's log
  are \<open>1, 2, ..., change_seq\<close>, the log lists the project's revisions in the order they were
  made, the revisions of an object are numbered \<open>1, 2, ...\<close>, and its head is the last of them.
\<close>

subsection \<open>Keys and queries\<close>

type_synonym object_key = "uuid \<times> object_kind \<times> string"

definition head_key :: "head_row \<Rightarrow> object_key" where
  "head_key h = (h_project h, h_kind h, h_object h)"

definition rev_key :: "revision_row \<Rightarrow> object_key" where
  "rev_key r = (rv_project r, rv_kind r, rv_object r)"

definition find_head :: "uuid \<Rightarrow> object_key \<Rightarrow> db \<Rightarrow> head_row option" where
  "find_head user_id k s = List.find (\<lambda>h. h_owner h = user_id \<and> head_key h = k) (object_heads s)"

definition project_log :: "uuid \<Rightarrow> db \<Rightarrow> change_row list" where
  "project_log project_id s = filter (\<lambda>c. cl_project c = project_id) (change_log s)"

definition project_revisions :: "uuid \<Rightarrow> db \<Rightarrow> revision_row list" where
  "project_revisions project_id s = filter (\<lambda>r. rv_project r = project_id) (object_revisions s)"

definition object_history :: "object_key \<Rightarrow> db \<Rightarrow> revision_row list" where
  "object_history k s = filter (\<lambda>r. rev_key r = k) (object_revisions s)"

subsection \<open>The statements that append a revision\<close>

text \<open>
  \<open>UPDATE projects SET change_seq = change_seq + 1, updated_at = CURRENT_TIMESTAMP\<close>
  \<open>WHERE id = $1 RETURNING change_seq\<close>, under the caller's row visibility. The column is a
  \<open>bigint\<close>: an increment beyond its range is an error.
\<close>

definition bump_row :: "env \<Rightarrow> project_row \<Rightarrow> project_row" where
  "bump_row e p = p\<lparr>p_change_seq := p_change_seq p + 1, p_updated_at := db_now e\<rparr>"

definition bump_change_seq ::
    "env \<Rightarrow> (project_row \<Rightarrow> bool) \<Rightarrow> uuid \<Rightarrow> db \<Rightarrow> (db \<times> int) outcome" where
  "bump_change_seq e visible project_id s =
    (case List.find (\<lambda>p. p_id p = project_id \<and> visible p) (projects s) of
       None \<Rightarrow> Inl Database
     | Some p \<Rightarrow>
         if p_change_seq p + 1 > i64_max then Inl Database
         else Inr (s\<lparr>projects := update_where (\<lambda>p. p_id p = project_id \<and> visible p)
                      (bump_row e) (projects s)\<rparr>,
                   p_change_seq p + 1))"

text \<open>
  The constraints of \<open>object_revisions\<close>: primary key, the UNIQUE revision number of an object,
  the CHECK clauses, and the foreign keys to the project, the payload and the device.
\<close>

definition revision_checks :: "revision_row \<Rightarrow> bool" where
  "revision_checks r \<longleftrightarrow>
     rv_revision r > 0
   \<and> (case rv_base r of None \<Rightarrow> True | Some b \<Rightarrow> b > 0)
   \<and> (case rv_schema_version r of None \<Rightarrow> True | Some v \<Rightarrow> v > 0)
   \<and> (if rv_tombstone r
      then rv_payload r = None \<and> rv_hash r = None \<and> rv_schema_version r = None
      else rv_payload r \<noteq> None \<and> rv_hash r \<noteq> None \<and> rv_schema_version r \<noteq> None)"

definition revision_refs :: "db \<Rightarrow> revision_row \<Rightarrow> bool" where
  "revision_refs s r \<longleftrightarrow>
     list_ex (\<lambda>p. p_id p = rv_project r \<and> p_owner p = rv_owner r) (projects s)
   \<and> (case rv_payload r of None \<Rightarrow> True
      | Some pl \<Rightarrow> list_ex (\<lambda>x. pl_id x = pl \<and> pl_project x = rv_project r) (payloads s))
   \<and> list_ex (\<lambda>d. d_id d = rv_device r \<and> d_owner d = rv_owner r) (devices s)"

definition insert_revision :: "revision_row \<Rightarrow> db \<Rightarrow> db outcome" where
  "insert_revision r s =
    (if list_ex (\<lambda>x. rv_id x = rv_id r) (object_revisions s)
        \<or> list_ex (\<lambda>x. rev_key x = rev_key r \<and> rv_revision x = rv_revision r) (object_revisions s)
        \<or> \<not> revision_checks r \<or> \<not> revision_refs s r
     then Inl Database
     else Inr (s\<lparr>object_revisions := object_revisions s @ [r]\<rparr>))"

text \<open>\<open>INSERT INTO object_heads ... ON CONFLICT ... DO UPDATE\<close>.\<close>

definition set_head :: "int \<Rightarrow> uuid \<Rightarrow> head_row \<Rightarrow> head_row" where
  "set_head n rid h = h\<lparr>h_revision := n, h_revision_id := rid\<rparr>"

definition upsert_head :: "head_row \<Rightarrow> db \<Rightarrow> db" where
  "upsert_head h s =
    s\<lparr>object_heads :=
       (if list_ex (\<lambda>x. head_key x = head_key h) (object_heads s)
        then update_where (\<lambda>x. head_key x = head_key h) (set_head (h_revision h) (h_revision_id h))
               (object_heads s)
        else object_heads s @ [h])\<rparr>"

definition insert_change :: "change_row \<Rightarrow> db \<Rightarrow> db outcome" where
  "insert_change c s =
    (if list_ex (\<lambda>x. cl_project x = cl_project c \<and> cl_sequence x = cl_sequence c) (change_log s)
        \<or> list_ex (\<lambda>x. cl_revision_id x = cl_revision_id c) (change_log s)
        \<or> cl_sequence c \<le> 0
     then Inl Database
     else Inr (s\<lparr>change_log := change_log s @ [c]\<rparr>))"

text \<open>
  The four statements in the order both callers issue them; the result is the new change
  sequence.
\<close>

definition head_of_revision :: "revision_row \<Rightarrow> head_row" where
  "head_of_revision r =
    \<lparr>h_project = rv_project r, h_owner = rv_owner r, h_kind = rv_kind r, h_object = rv_object r,
     h_revision = rv_revision r, h_revision_id = rv_id r\<rparr>"

definition append_revision ::
    "env \<Rightarrow> (project_row \<Rightarrow> bool) \<Rightarrow> revision_row \<Rightarrow> db \<Rightarrow> (db \<times> int) outcome" where
  "append_revision e visible r s =
    try_bind (bump_change_seq e visible (rv_project r) s) (\<lambda>(s1, seq).
    try_bind (insert_revision r s1) (\<lambda>s2.
    try_bind (insert_change \<lparr>cl_project = rv_project r, cl_owner = rv_owner r,
                cl_sequence = seq, cl_revision_id = rv_id r, cl_created_at = db_now e\<rparr>
                (upsert_head (head_of_revision r) s2)) (\<lambda>s3.
    Inr (s3, seq))))"

interpretation bump_row: key_update p_id "bump_row e" for e
  by unfold_locales (simp add: bump_row_def)

interpretation set_head: key_update head_key "set_head n i" for n i
  by unfold_locales (simp add: set_head_def head_key_def)

subsection \<open>The invariant\<close>

definition keys_ok :: "db \<Rightarrow> bool" where
  "keys_ok s \<longleftrightarrow> distinct (map p_id (projects s)) \<and> distinct (map rv_id (object_revisions s))
     \<and> distinct (map head_key (object_heads s))"

definition owned :: "db \<Rightarrow> uuid \<Rightarrow> uuid \<Rightarrow> bool" where
  "owned s pid uid \<longleftrightarrow> list_ex (\<lambda>p. p_id p = pid \<and> p_owner p = uid) (projects s)"

definition owners_ok :: "db \<Rightarrow> bool" where
  "owners_ok s \<longleftrightarrow>
     list_all (\<lambda>r. owned s (rv_project r) (rv_owner r)) (object_revisions s)
   \<and> list_all (\<lambda>h. owned s (h_project h) (h_owner h)) (object_heads s)
   \<and> list_all (\<lambda>c. owned s (cl_project c) (cl_owner c)) (change_log s)"

definition log_ok :: "db \<Rightarrow> project_row \<Rightarrow> bool" where
  "log_ok s p \<longleftrightarrow>
     0 \<le> p_change_seq p
   \<and> map cl_sequence (project_log (p_id p) s) = [1..p_change_seq p]
   \<and> map cl_revision_id (project_log (p_id p) s) = map rv_id (project_revisions (p_id p) s)"

definition history_ok :: "revision_row list \<Rightarrow> bool" where
  "history_ok rs \<longleftrightarrow> map rv_revision rs = [1..int (length rs)]"

definition head_ok :: "db \<Rightarrow> head_row \<Rightarrow> bool" where
  "head_ok s h \<longleftrightarrow>
    (let rs = object_history (head_key h) s in
      rs \<noteq> [] \<and> h_revision h = rv_revision (last rs) \<and> h_revision_id h = rv_id (last rs))"

definition store_inv :: "db \<Rightarrow> bool" where
  "store_inv s \<longleftrightarrow>
     keys_ok s \<and> owners_ok s
   \<and> list_all (log_ok s) (projects s)
   \<and> list_all (head_ok s) (object_heads s)
   \<and> list_all (\<lambda>r. history_ok (object_history (rev_key r) s)
        \<and> list_ex (\<lambda>h. head_key h = rev_key r) (object_heads s)) (object_revisions s)"

lemma store_inv_empty: "store_inv empty_db"
  by (simp add: store_inv_def empty_db_def keys_ok_def owners_ok_def)

text \<open>The invariant reads these four tables only.\<close>

definition store_view :: "db \<Rightarrow> project_row list \<times> revision_row list \<times> head_row list \<times> change_row list" where
  "store_view s = (projects s, object_revisions s, object_heads s, change_log s)"

lemma store_inv_view:
  assumes "store_view s = store_view s'" shows "store_inv s = store_inv s'"
proof -
  from assms have eq: "projects s = projects s'" "object_revisions s = object_revisions s'"
    "object_heads s = object_heads s'" "change_log s = change_log s'"
    by (simp_all add: store_view_def)
  then have "owned s = owned s'" "log_ok s = log_ok s'"
    "head_ok s = head_ok s'" "\<And>k. object_history k s = object_history k s'"
    by (auto simp: fun_eq_iff owned_def log_ok_def head_ok_def object_history_def project_log_def
        project_revisions_def)
  with eq show ?thesis by (simp add: store_inv_def keys_ok_def owners_ok_def)
qed

subsection \<open>What appending a revision does\<close>

lemma append_revisionE:
  assumes "append_revision e visible r s = Inr (s', n)"
  obtains p where "p \<in> set (projects s)" and "p_id p = rv_project r" and "visible p"
    and "n = p_change_seq p + 1" and "n \<le> i64_max"
    and "rv_id r \<notin> rv_id ` set (object_revisions s)"
    and "revision_checks r" and "owned s (rv_project r) (rv_owner r)"
    and "projects s' = update_where (\<lambda>p. p_id p = rv_project r \<and> visible p) (bump_row e) (projects s)"
    and "object_revisions s' = object_revisions s @ [r]"
    and "object_heads s' = object_heads (upsert_head (head_of_revision r) s)"
    and "change_log s' = change_log s @ [\<lparr>cl_project = rv_project r, cl_owner = rv_owner r,
           cl_sequence = n, cl_revision_id = rv_id r, cl_created_at = db_now e\<rparr>]"
proof -
  from assms obtain s1 where b: "bump_change_seq e visible (rv_project r) s = Inr (s1, n)"
    and rest: "try_bind (insert_revision r s1) (\<lambda>s2.
        try_bind (insert_change \<lparr>cl_project = rv_project r, cl_owner = rv_owner r,
                cl_sequence = n, cl_revision_id = rv_id r, cl_created_at = db_now e\<rparr>
                (upsert_head (head_of_revision r) s2)) (\<lambda>s3. Inr (s3, n))) = Inr (s', n)"
    by (auto simp: append_revision_def try_bind_eq_Inr)
  from b obtain p where p: "List.find (\<lambda>p. p_id p = rv_project r \<and> visible p) (projects s) = Some p"
    and le: "p_change_seq p + 1 \<le> i64_max" and n: "n = p_change_seq p + 1"
    and s1: "s1 = s\<lparr>projects := update_where (\<lambda>p. p_id p = rv_project r \<and> visible p)
                      (bump_row e) (projects s)\<rparr>"
    by (auto simp: bump_change_seq_def split: option.splits if_splits)
  from find_SomeD [OF p] have pin: "p \<in> set (projects s)" "p_id p = rv_project r" "visible p" by auto
  from rest obtain s2 where s2: "insert_revision r s1 = Inr s2"
    and s3: "insert_change \<lparr>cl_project = rv_project r, cl_owner = rv_owner r,
                cl_sequence = n, cl_revision_id = rv_id r, cl_created_at = db_now e\<rparr> (upsert_head (head_of_revision r) s2) = Inr s'"
    by (auto simp: try_bind_eq_Inr)
  from s2 have r: "rv_id r \<notin> rv_id ` set (object_revisions s)" "revision_checks r"
      "revision_refs s1 r" "s2 = s1\<lparr>object_revisions := object_revisions s1 @ [r]\<rparr>"
    by (auto simp: insert_revision_def list_ex_iff s1 split: if_splits)
  have "owned s1 (rv_project r) (rv_owner r) = owned s (rv_project r) (rv_owner r)"
    unfolding owned_def s1 by (simp add: list_ex_update_where bump_row_def)
  with r have "owned s (rv_project r) (rv_owner r)" by (simp add: revision_refs_def owned_def)
  then show thesis
    using r s3 n le pin
    by (intro that [of p]) (auto simp: insert_change_def upsert_head_def s1 split: if_splits)
qed

lemma object_history_append:
  "object_revisions s' = object_revisions s @ [r] \<Longrightarrow>
    object_history k s' = object_history k s @ (if rev_key r = k then [r] else [])"
  by (simp add: object_history_def)

lemma project_revisions_append:
  "object_revisions s' = object_revisions s @ [r] \<Longrightarrow>
    project_revisions pid s' = project_revisions pid s @ (if rv_project r = pid then [r] else [])"
  by (simp add: project_revisions_def)

lemma project_log_append:
  "change_log s' = change_log s @ [c] \<Longrightarrow>
    project_log pid s' = project_log pid s @ (if cl_project c = pid then [c] else [])"
  by (simp add: project_log_def)

lemma upto_snoc: "0 \<le> (n::int) \<Longrightarrow> [1..n + 1] = [1..n] @ [n + 1]"
  by (simp add: upto_rec2)

lemma history_ok_append:
  "history_ok (rs @ [r]) \<longleftrightarrow> history_ok rs \<and> rv_revision r = int (length rs) + 1"
  using upto_snoc [of "int (length rs)"] by (auto simp: history_ok_def add.commute)

lemma history_ok_Nil [simp]: "history_ok []"
  by (simp add: history_ok_def)

lemma history_ok_last: "history_ok rs \<Longrightarrow> rs \<noteq> [] \<Longrightarrow> rv_revision (last rs) = int (length rs)"
  by (cases rs rule: rev_cases) (auto simp: history_ok_append)

lemma head_key_of_revision [simp]: "head_key (head_of_revision r) = rev_key r"
  by (simp add: head_of_revision_def head_key_def rev_key_def)

lemma owned_bump: "projects s' = update_where P (bump_row e) (projects s) \<Longrightarrow> owned s' = owned s"
  by (simp add: fun_eq_iff owned_def list_ex_update_where bump_row_def)

lemma log_ok_append:
  assumes keys: "distinct (map p_id (projects s))"
    and logs: "list_all (log_ok s) (projects s)"
    and p: "p \<in> set (projects s)" "p_id p = rv_project r" "visible p" "n = p_change_seq p + 1"
    and eqs: "projects s' = update_where (\<lambda>p. p_id p = rv_project r \<and> visible p) (bump_row e) (projects s)"
      "object_revisions s' = object_revisions s @ [r]"
      "change_log s' = change_log s @ [c]" "cl_project c = rv_project r" "cl_sequence c = n"
      "cl_revision_id c = rv_id r"
  shows "list_all (log_ok s') (projects s')"
proof (unfold list_all_iff, intro ballI)
  fix q' assume "q' \<in> set (projects s')"
  then obtain q where q: "q \<in> set (projects s)"
    and q': "q' = (if p_id q = rv_project r \<and> visible q then bump_row e q else q)"
    unfolding eqs by (rule in_update_whereE)
  from logs q have old: "log_ok s q" by (simp add: list_all_iff)
  show "log_ok s' q'"
  proof (cases "p_id q = rv_project r")
    case True
    with keys p q have "q = p" by (metis keyed_table_inj)
    with old p q' eqs True show ?thesis
      by (simp add: log_ok_def bump_row_def project_log_append [OF eqs(3)]
          project_revisions_append [OF eqs(2)] upto_snoc)
  next
    case False
    with old q' eqs show ?thesis
      by (auto simp: log_ok_def project_log_append [OF eqs(3)] project_revisions_append [OF eqs(2)])
  qed
qed

lemma head_ok_unchanged:
  assumes "object_revisions s' = object_revisions s @ [r]" and "head_key h \<noteq> rev_key r"
  shows "head_ok s' h = head_ok s h"
  using assms by (simp add: head_ok_def object_history_append [OF assms(1)])

lemma head_ok_new:
  assumes "object_revisions s' = object_revisions (s::db) @ [r]"
    and "head_key h = rev_key r" "h_revision h = rv_revision r" "h_revision_id h = rv_id r"
  shows "head_ok s' h"
  using assms by (simp add: head_ok_def object_history_append [OF assms(1)])

lemma heads_upsert:
  assumes "x \<in> set (object_heads (upsert_head h s))"
  shows "x \<in> set (object_heads s) \<and> head_key x \<noteq> head_key h
    \<or> head_key x = head_key h \<and> h_revision x = h_revision h \<and> h_revision_id x = h_revision_id h"
proof (cases "list_ex (\<lambda>y. head_key y = head_key h) (object_heads s)")
  case True
  with assms obtain y where "y \<in> set (object_heads s)"
    and "x = (if head_key y = head_key h then set_head (h_revision h) (h_revision_id h) y else y)"
    by (auto simp: upsert_head_def elim: in_update_whereE)
  then show ?thesis by (auto simp: set_head_def head_key_def)
next
  case False
  with assms show ?thesis by (auto simp: upsert_head_def list_ex_iff)
qed

lemma heads_owner_upsert:
  assumes "list_all (\<lambda>h. Q (h_project h) (h_owner h)) (object_heads s)" and "Q (h_project h) (h_owner h)"
  shows "list_all (\<lambda>h. Q (h_project h) (h_owner h)) (object_heads (upsert_head h s))"
  using assms by (auto simp: upsert_head_def list_all_iff set_update_where set_head_def)

lemma head_keys_upsert:
  "head_key ` set (object_heads (upsert_head h s)) = insert (head_key h) (head_key ` set (object_heads s))"
proof -
  have "head_key ` set (update_where P (set_head n i) t) = head_key ` set t" for P n i t
    using set_head.keys_update [of P n i t] by (metis list.set_map)
  then show ?thesis by (auto simp: upsert_head_def list_ex_iff intro: rev_image_eqI)
qed

lemma distinct_heads_upsert:
  "distinct (map head_key (object_heads s)) \<Longrightarrow>
    distinct (map head_key (object_heads (upsert_head h s)))"
  by (auto simp: upsert_head_def set_head.keys_update list_ex_iff)

lemma owned_unique:
  assumes "distinct (map p_id (projects s))" "owned s pid u" "owned s pid v" shows "u = v"
  using assms by (auto simp: owned_def list_ex_iff dest: keyed_table_inj)

theorem append_revision_inv:
  assumes inv: "store_inv s" and step: "append_revision e visible r s = Inr (s', n)"
    and fresh: "rv_revision r = int (length (object_history (rev_key r) s)) + 1"
  shows "store_inv s'"
  using step
proof (rule append_revisionE)
  fix p
  assume p: "p \<in> set (projects s)" "p_id p = rv_project r" "visible p" "n = p_change_seq p + 1"
    and id: "rv_id r \<notin> rv_id ` set (object_revisions s)"
    and own: "owned s (rv_project r) (rv_owner r)"
    and pr: "projects s' = update_where (\<lambda>p. p_id p = rv_project r \<and> visible p) (bump_row e) (projects s)"
    and rv: "object_revisions s' = object_revisions s @ [r]"
    and hd: "object_heads s' = object_heads (upsert_head (head_of_revision r) s)"
    and cl: "change_log s' = change_log s @ [\<lparr>cl_project = rv_project r, cl_owner = rv_owner r,
           cl_sequence = n, cl_revision_id = rv_id r, cl_created_at = db_now e\<rparr>]"
  from inv have k: "keys_ok s" and o: "owners_ok s" and l: "list_all (log_ok s) (projects s)"
    and h: "list_all (head_ok s) (object_heads s)"
    and hist: "list_all (\<lambda>r. history_ok (object_history (rev_key r) s)
        \<and> list_ex (\<lambda>h. head_key h = rev_key r) (object_heads s)) (object_revisions s)"
    by (simp_all add: store_inv_def)
  have "keys_ok s'"
    using k id by (simp add: keys_ok_def pr rv hd bump_row.distinct_update distinct_heads_upsert)
  moreover have "owners_ok s'"
  proof -
    have "list_all (\<lambda>h. owned s (h_project h) (h_owner h))
        (object_heads (upsert_head (head_of_revision r) s))"
      using o own by (intro heads_owner_upsert) (simp_all add: owners_ok_def head_of_revision_def)
    with o own show ?thesis by (simp add: owners_ok_def rv hd cl owned_bump [OF pr])
  qed
  moreover have "list_all (log_ok s') (projects s')"
    using k by (intro log_ok_append [OF _ l p pr rv cl]) (simp_all add: keys_ok_def)
  moreover have "list_all (head_ok s') (object_heads s')"
  proof (unfold list_all_iff, intro ballI)
    fix x assume "x \<in> set (object_heads s')"
    with heads_upsert [of x "head_of_revision r" s] hd
    consider "x \<in> set (object_heads s)" "head_key x \<noteq> rev_key r"
      | "head_key x = rev_key r" "h_revision x = rv_revision r" "h_revision_id x = rv_id r"
      by (auto simp: head_of_revision_def head_key_def rev_key_def)
    then show "head_ok s' x"
      using h by cases (auto simp: list_all_iff head_ok_unchanged [OF rv] intro: head_ok_new [OF rv])
  qed
  moreover have "history_ok (object_history (rev_key x) s')" if "x \<in> set (object_revisions s')" for x
  proof -
    have old: "history_ok (object_history (rev_key x) s)"
      using hist that by (cases "object_history (rev_key x) s = []")
        (auto simp: rv list_all_iff object_history_def filter_empty_conv)
    then show ?thesis
      using fresh by (auto simp: object_history_append [OF rv] history_ok_append)
  qed
  moreover have "list_ex (\<lambda>h. head_key h = rev_key x) (object_heads s')"
    if "x \<in> set (object_revisions s')" for x
    using hist that head_keys_upsert [of "head_of_revision r" s]
    by (simp only: list_ex_key hd) (auto simp: rv list_all_iff list_ex_key)
  ultimately show ?thesis by (simp add: store_inv_def list_all_iff)
qed

subsection \<open>Heads are the last revisions\<close>

lemma store_head:
  assumes "store_inv s"
  shows "map_option (\<lambda>h. (h_revision h, h_revision_id h))
      (List.find (\<lambda>h. head_key h = k) (object_heads s)) =
    (let rs = object_history k s in
      if rs = [] then None else Some (int (length rs), rv_id (last rs)))"
proof (cases "List.find (\<lambda>h. head_key h = k) (object_heads s)")
  case None
  have "object_history k s = []"
  proof (rule ccontr)
    assume "object_history k s \<noteq> []"
    then obtain r where "r \<in> set (object_revisions s)" "rev_key r = k"
      by (auto simp: object_history_def filter_empty_conv)
    with assms have "list_ex (\<lambda>h. head_key h = k) (object_heads s)"
      by (auto simp: store_inv_def list_all_iff)
    with None show False by (auto simp: list_ex_iff dest: find_NoneD)
  qed
  with None show ?thesis by simp
next
  case (Some h)
  then have h: "h \<in> set (object_heads s)" "head_key h = k" by (auto dest: find_SomeD)
  with assms have ok: "head_ok s h" by (auto simp: store_inv_def list_all_iff)
  then obtain r where r: "r \<in> set (object_revisions s)" "rev_key r = k"
    using h by (auto simp: head_ok_def Let_def object_history_def filter_empty_conv)
  with assms have "history_ok (object_history k s)" by (auto simp: store_inv_def list_all_iff)
  with ok h Some show ?thesis by (auto simp: head_ok_def Let_def history_ok_last)
qed

lemma find_head_owner:
  assumes inv: "store_inv s" and own: "owned s (fst k) uid"
  shows "find_head uid k s = List.find (\<lambda>h. head_key h = k) (object_heads s)"
proof -
  have "h_owner h = uid" if "h \<in> set (object_heads s)" "head_key h = k" for h
    using inv own that owned_unique [of s "fst k"]
    by (auto simp: store_inv_def owners_ok_def keys_ok_def list_all_iff head_key_def)
  then have "filter (\<lambda>h. h_owner h = uid \<and> head_key h = k) (object_heads s)
      = filter (\<lambda>h. head_key h = k) (object_heads s)"
    by (intro filter_cong) auto
  then show ?thesis by (simp add: find_head_def find_conv_filter)
qed

text \<open>What appending a revision leaves alone.\<close>

lemma append_revision_frame:
  assumes "append_revision e visible r s = Inr (s', n)"
  shows "s' = s\<lparr>projects := projects s', object_revisions := object_revisions s',
    object_heads := object_heads s', change_log := change_log s'\<rparr>"
  using assms
  by (auto simp: append_revision_def try_bind_eq_Inr bump_change_seq_def insert_revision_def
      insert_change_def upsert_head_def split: option.splits if_splits)

lemma append_revision_frame_select:
  assumes "append_revision e visible r s = Inr (s', n)"
  shows "users s' = users s" "devices s' = devices s" "payloads s' = payloads s"
    "bootstrap_completions s' = bootstrap_completions s"
    "idempotency_records s' = idempotency_records s" "snapshots s' = snapshots s"
    "restore_jobs s' = restore_jobs s" "jobs s' = jobs s"
  by (subst append_revision_frame [OF assms], simp)+

lemma append_revision_owned:
  assumes "append_revision e visible r s = Inr (s', n)"
  shows "owned s' = owned s"
  using assms by (rule append_revisionE) (rule owned_bump)

text \<open>The head of an object, read by its owner, gives the length of its history.\<close>

lemma find_head_revision:
  assumes "store_inv s" and "owned s (fst k) uid"
  shows "map_option h_revision (find_head uid k s) =
    (if object_history k s = [] then None else Some (int (length (object_history k s))))"
proof -
  have "map_option h_revision (find_head uid k s) =
      map_option fst (map_option (\<lambda>h. (h_revision h, h_revision_id h)) (find_head uid k s))"
    by (simp add: option.map_comp comp_def)
  also have "\<dots> = (if object_history k s = [] then None else Some (int (length (object_history k s))))"
    using assms by (simp add: find_head_owner store_head Let_def)
  finally show ?thesis .
qed

lemma log_length:
  assumes "store_inv s" and "p \<in> set (projects s)"
  shows "p_change_seq p = int (length (project_revisions (p_id p) s))"
proof -
  from assms have l: "log_ok s p" by (auto simp: store_inv_def list_all_iff)
  then have "length (map cl_sequence (project_log (p_id p) s)) = nat (p_change_seq p)"
    by (simp add: log_ok_def)
  moreover from l have "length (project_log (p_id p) s) = length (project_revisions (p_id p) s)"
    unfolding log_ok_def by (metis length_map)
  ultimately show ?thesis using l by (simp add: log_ok_def)
qed

lemma append_revision_error: "append_revision e visible r s = Inl er \<Longrightarrow> er = Database"
  by (auto simp: append_revision_def try_bind_eq_Inl bump_change_seq_def insert_revision_def
      insert_change_def split: option.splits if_splits)

text \<open>
  Updates of project rows that leave the key, the owner and the counter alone (renaming, a new
  status or generation) keep the invariant.
\<close>

lemma store_inv_project_update:
  assumes inv: "store_inv s"
    and f: "\<And>p. p_id (f p) = p_id p \<and> p_owner (f p) = p_owner p \<and> p_change_seq (f p) = p_change_seq p"
  shows "store_inv (s\<lparr>projects := update_where P f (projects s)\<rparr>)" (is "store_inv ?s")
proof -
  have "map p_id (projects ?s) = map p_id (projects s)" using f by (simp add: map_update_where)
  moreover have "owned ?s = owned s" using f by (simp add: fun_eq_iff owned_def list_ex_update_where)
  moreover have "list_all (log_ok ?s) (projects ?s)"
    using inv f
    by (auto simp: store_inv_def list_all_iff log_ok_def project_log_def project_revisions_def
        set_update_where)
  moreover have "head_ok ?s = head_ok s" "\<And>k. object_history k ?s = object_history k s"
    by (auto simp: fun_eq_iff head_ok_def object_history_def)
  ultimately show ?thesis using inv by (simp add: store_inv_def keys_ok_def owners_ok_def)
qed

end
