(* ===== verification/Sample.thy ===== *)
theory Sample
  imports Store
begin

text \<open>
  A small state on which the properties are instantiated: two accounts, an administrator, a
  device and a project of each account, one payload, and a device that has bootstrapped.
\<close>

definition sample_user :: "uuid \<Rightarrow> user_role \<Rightarrow> user_row" where
  "sample_user i role = \<lparr>u_id = i, u_email_normalized = i @ ''@a.io'', u_email_display = i @ ''@a.io'',
     u_password_hash = ''h'', u_role = role, u_status = Active, u_created_at = 0,
     u_last_login_at = None\<rparr>"

definition sample_device :: "uuid \<Rightarrow> uuid \<Rightarrow> device_row" where
  "sample_device i owner = \<lparr>d_id = i, d_owner = owner, d_display_name = ''n'', d_platform = ''p'',
     d_app_version = ''v'', d_created_at = 0, d_last_seen_at = None, d_last_login_at = None,
     d_last_pull_at = None, d_last_push_at = None, d_revoked_at = None\<rparr>"

definition sample_project :: "uuid \<Rightarrow> uuid \<Rightarrow> project_row" where
  "sample_project i owner = \<lparr>p_id = i, p_owner = owner, p_name = ''n'', p_generation = 1,
     p_status = PActive, p_change_seq = 0, p_created_at = 0, p_updated_at = 0\<rparr>"

definition sample_db :: db where
  "sample_db = empty_db\<lparr>
     users := [sample_user ''u'' User, sample_user ''v'' User, sample_user ''a'' SystemAdmin],
     devices := [sample_device ''d'' ''u'', sample_device ''e'' ''v'', sample_device ''b'' ''a''],
     projects := [sample_project ''p'' ''u'', sample_project ''q'' ''v''],
     payloads := [\<lparr>pl_id = ''l'', pl_project = ''p'', pl_owner = ''u'', pl_hash = ''x'', pl_bucket = ''k'',
       pl_key = ''o'', pl_size = 3, pl_media_type = ''text/plain'', pl_created_at = 0\<rparr>],
     bootstrap_completions := [\<lparr>bc_project = ''p'', bc_owner = ''u'', bc_device = ''d'',
       bc_generation = 1, bc_sequence = 0\<rparr>]\<rparr>"

definition sample_env :: env where
  "sample_env = \<lparr>db_now = hours 1, app_now = hours 1\<rparr>"

lemmas sample_defs = sample_db_def sample_user_def sample_device_def sample_project_def
  sample_env_def empty_db_def

lemma sample_store_inv: "store_inv sample_db"
  by (simp add: sample_defs store_inv_def keys_ok_def owners_ok_def log_ok_def project_log_def
      project_revisions_def)

end
