(* ===== verification/Push.thy ===== *)
theory Push
  imports Store
begin

text \<open>
  The push of a synchronising client (\<open>Store::push_with_outcome\<close> and its helpers in
  \<open>crates/persistence/src/lib.rs\<close>): the request-level idempotency record, the guards on
  project, generation and bootstrap with their stored failures, the compare-and-swap of each
  item, and the migration of responses stored in the old encoding.
\<close>

subsection \<open>Requests and results\<close>

record new_revision =
  nr_kind :: object_kind
  nr_object :: string
  nr_schema_version :: "int option"
  nr_base :: "int option"
  nr_hash :: "string option"
  nr_changed_at :: instant
  nr_tombstone :: bool

text \<open>The fixed Chinese \<open>message\<close> of a rejection is left out; its code determines it.\<close>

datatype push_item_result =
    Applied object_kind string int int instant
  | ItemConflict object_kind string "int option" "int option"
  | Rejected object_kind string string "json option"

fun item_json :: "push_item_result \<Rightarrow> json" where
  "item_json (Applied k i n seq t) =
    JObj [(''status'', JStr ''applied''), (''kind'', JStr (kind_as_str k)), (''id'', JStr i),
      (''revision'', JNum n), (''changeSequence'', JNum seq), (''changedAt'', JTime t)]"
| "item_json (ItemConflict k i ex ac) =
    JObj [(''status'', JStr ''conflict''), (''kind'', JStr (kind_as_str k)), (''id'', JStr i),
      (''expectedRevision'', json_opt JNum ex), (''actualRevision'', json_opt JNum ac)]"
| "item_json (Rejected k i code details) =
    JObj ([(''status'', JStr ''rejected''), (''kind'', JStr (kind_as_str k)), (''id'', JStr i),
      (''code'', JStr code)] @ (case details of None \<Rightarrow> [] | Some d \<Rightarrow> [(''details'', d)]))"

definition push_response :: "int \<Rightarrow> push_item_result list \<Rightarrow> json" where
  "push_response generation results =
    JObj [(''generation'', JNum generation), (''results'', JArr (map item_json results))]"

definition valid_media_type :: "object_kind \<Rightarrow> string \<Rightarrow> bool" where
  "valid_media_type kind media_type =
    (let essence = to_ascii_lowercase (trim (hd (split_on (CHR '';'') media_type))) in
     case kind of
       Todo \<Rightarrow> essence = ''text/markdown'' \<or> essence = ''text/plain''
     | Classification \<Rightarrow> essence = ''application/json''
     | Index \<Rightarrow> essence = ''application/json''
     | Image \<Rightarrow> starts_with ''image/'' essence \<or> essence = ''application/octet-stream'')"

subsection \<open>Responses stored in the old encoding\<close>

text \<open>
  The RFC 3339 parser of the \<open>time\<close> crate is the parameter \<open>is_rfc3339\<close>. A timestamp that the
  current code stored is a \<open>JTime\<close>, which is its RFC 3339 text already.
\<close>

definition migrate_legacy_timestamp :: "(string \<Rightarrow> bool) \<Rightarrow> json \<Rightarrow> json" where
  "migrate_legacy_timestamp is_rfc3339 v =
    (case json_as_str v of
       None \<Rightarrow> v
     | Some raw \<Rightarrow>
         if is_rfc3339 raw then v
         else (case rsplit_once (CHR '' '') raw of
             None \<Rightarrow> v
           | Some (stamp, offset) \<Rightarrow>
               if offset \<noteq> ''+00:00:00'' then v
               else (let candidate = replace_first (CHR '' '') (CHR ''T'') stamp @ ''Z'' in
                     if is_rfc3339 candidate then JStr candidate else v)))"

text \<open>\<open>Map::insert\<close>: a key that is present gets the new value.\<close>

fun map_insert :: "string \<Rightarrow> json \<Rightarrow> (string \<times> json) list \<Rightarrow> (string \<times> json) list" where
  "map_insert k v [] = [(k, v)]"
| "map_insert k v ((k', v') # ms) = (if k' = k then (k, v) # ms else (k', v') # map_insert k v ms)"

definition migrate_member :: "(string \<Rightarrow> bool) \<Rightarrow> string \<times> json \<Rightarrow> string \<times> json" where
  "migrate_member is_rfc3339 m =
    (case m of (key, v) \<Rightarrow>
      if key = ''change_sequence'' then (''changeSequence'', v)
      else if key = ''expected_revision'' then (''expectedRevision'', v)
      else if key = ''actual_revision'' then (''actualRevision'', v)
      else if key = ''changed_at'' then (''changedAt'', migrate_legacy_timestamp is_rfc3339 v)
      else (key, v))"

definition migrate_result_object ::
    "(string \<Rightarrow> bool) \<Rightarrow> (string \<times> json) list \<Rightarrow> (string \<times> json) list" where
  "migrate_result_object is_rfc3339 ms =
    fold (\<lambda>m acc. (case migrate_member is_rfc3339 m of (k, v) \<Rightarrow> map_insert k v acc)) ms []"

fun migrate_item :: "(string \<Rightarrow> bool) \<Rightarrow> json \<Rightarrow> json" where
  "migrate_item is_rfc3339 (JObj ms) = JObj (migrate_result_object is_rfc3339 ms)"
| "migrate_item is_rfc3339 other = other"

definition migrate_stored_push_response :: "(string \<Rightarrow> bool) \<Rightarrow> json \<Rightarrow> json" where
  "migrate_stored_push_response is_rfc3339 response =
    (case Option.bind (json_get ''results'' response) json_as_array of
       None \<Rightarrow> response
     | Some results \<Rightarrow>
         (case response of
            JObj ms \<Rightarrow> JObj (map_insert ''results'' (JArr (map (migrate_item is_rfc3339) results)) ms)
          | other \<Rightarrow> other))"

subsection \<open>Idempotency records\<close>

definition same_request :: "uuid \<Rightarrow> uuid \<Rightarrow> uuid \<Rightarrow> string \<Rightarrow> idempotency_row \<Rightarrow> bool" where
  "same_request user_id device_id project_id request_key r \<longleftrightarrow>
     ir_owner r = user_id \<and> ir_device r = device_id \<and> ir_project r = project_id
   \<and> ir_key r = request_key"

definition insert_idempotency :: "idempotency_row \<Rightarrow> db \<Rightarrow> sql_error + db" where
  "insert_idempotency r s =
    (if list_ex (same_request (ir_owner r) (ir_device r) (ir_project r) (ir_key r))
          (idempotency_records s)
     then Inl UniqueViolation
     else if \<not> list_ex (\<lambda>d. d_id d = ir_device r \<and> d_owner d = ir_owner r) (devices s)
        \<or> \<not> list_ex (\<lambda>p. p_id p = ir_project r \<and> p_owner p = ir_owner r) (projects s)
        \<or> ir_status r < 200 \<or> ir_status r > 599
     then Inl OtherSqlError
     else Inr (s\<lparr>idempotency_records := idempotency_records s @ [r]\<rparr>))"

definition idempotency_row_of ::
    "env \<Rightarrow> uuid \<Rightarrow> uuid \<Rightarrow> uuid \<Rightarrow> string \<Rightarrow> string \<Rightarrow> json \<Rightarrow> int \<Rightarrow> idempotency_row" where
  "idempotency_row_of e user_id device_id project_id request_key request_hash response status =
    \<lparr>ir_owner = user_id, ir_device = device_id, ir_project = project_id, ir_key = request_key,
     ir_hash = request_hash, ir_response = response, ir_status = status,
     ir_expires_at = db_now e + days 30\<rparr>"

fun push_failure_response :: "persistence_error \<Rightarrow> (int \<times> json) option" where
  "push_failure_response ProjectMaintenance =
    Some (423, JObj [(''code'', JStr ''PROJECT_MAINTENANCE''), (''retryable'', JBool True)])"
| "push_failure_response (GenerationMismatch expected actual) =
    Some (409, JObj [(''code'', JStr ''GENERATION_MISMATCH''), (''retryable'', JBool False),
      (''details'', JObj [(''expectedGeneration'', JNum expected), (''actualGeneration'', JNum actual)])])"
| "push_failure_response BootstrapRequired =
    Some (409, JObj [(''code'', JStr ''CURSOR_INVALID''), (''retryable'', JBool False)])"
| "push_failure_response _ = None"

definition store_push_failure ::
    "env \<Rightarrow> uuid \<Rightarrow> uuid \<Rightarrow> uuid \<Rightarrow> string \<Rightarrow> string \<Rightarrow> persistence_error \<Rightarrow> db \<Rightarrow> (db \<times> bool) outcome" where
  "store_push_failure e user_id device_id project_id request_key request_hash err s =
    (case push_failure_response err of
       None \<Rightarrow> Inr (s, False)
     | Some (status, response) \<Rightarrow>
         try_bind (as_conflict (insert_idempotency
           (idempotency_row_of e user_id device_id project_id request_key request_hash response status) s))
         (\<lambda>s1. Inr (s1, True)))"

subsection \<open>One item\<close>

text \<open>The part of the loop body that decides whether the item's payload may be attached.\<close>

definition resolve_payload ::
    "uuid \<Rightarrow> uuid \<Rightarrow> new_revision \<Rightarrow> db \<Rightarrow> push_item_result + uuid option" where
  "resolve_payload user_id project_id r s =
    (if nr_tombstone r then Inr None
     else (case nr_hash r of
         None \<Rightarrow> Inl (Rejected (nr_kind r) (nr_object r) ''PAYLOAD_NOT_FOUND'' None)
       | Some content_hash \<Rightarrow>
           (case List.find (\<lambda>p. pl_owner p = user_id \<and> pl_project p = project_id
                              \<and> pl_hash p = content_hash) (payloads s) of
              None \<Rightarrow> Inl (Rejected (nr_kind r) (nr_object r) ''PAYLOAD_NOT_FOUND'' None)
            | Some p \<Rightarrow>
                if \<not> (0 \<le> pl_size p \<and> pl_size p \<le> max_payload_bytes (nr_kind r))
                then Inl (Rejected (nr_kind r) (nr_object r) ''PAYLOAD_TOO_LARGE''
                      (Some (JObj [(''kind'', JStr (kind_as_str (nr_kind r))),
                        (''maxBytes'', JNum (max_payload_bytes (nr_kind r))),
                        (''actualBytes'', JNum (pl_size p))])))
                else if \<not> valid_media_type (nr_kind r) (pl_media_type p)
                then Inl (Rejected (nr_kind r) (nr_object r) ''INVALID_REQUEST'' None)
                else Inr (Some (pl_id p)))))"

definition revision_of ::
    "uuid \<Rightarrow> uuid \<Rightarrow> uuid \<Rightarrow> uuid \<Rightarrow> int \<Rightarrow> uuid option \<Rightarrow> new_revision \<Rightarrow> revision_row" where
  "revision_of user_id device_id project_id revision_id n payload_id r =
    \<lparr>rv_id = revision_id, rv_project = project_id, rv_owner = user_id, rv_kind = nr_kind r,
     rv_object = nr_object r, rv_revision = n, rv_base = nr_base r,
     rv_schema_version = nr_schema_version r, rv_payload = payload_id, rv_hash = nr_hash r,
     rv_tombstone = nr_tombstone r, rv_changed_at = nr_changed_at r, rv_device = device_id\<rparr>"

definition push_item ::
    "env \<Rightarrow> uuid \<Rightarrow> uuid \<Rightarrow> uuid \<Rightarrow> uuid \<Rightarrow> new_revision \<Rightarrow> db \<Rightarrow> (db \<times> push_item_result) outcome" where
  "push_item e user_id device_id project_id revision_id r s =
    (let actual_revision = map_option h_revision
           (find_head user_id (project_id, nr_kind r, nr_object r) s) in
     if nr_base r \<noteq> actual_revision
     then Inr (s, ItemConflict (nr_kind r) (nr_object r) (nr_base r) actual_revision)
     else (case resolve_payload user_id project_id r s of
         Inl rejected \<Rightarrow> Inr (s, rejected)
       | Inr payload_id \<Rightarrow>
           (let next_revision = i64_wrap ((case actual_revision of None \<Rightarrow> 0 | Some n \<Rightarrow> n) + 1) in
            try_bind (append_revision e (\<lambda>p. p_owner p = user_id)
                (revision_of user_id device_id project_id revision_id next_revision payload_id r) s)
              (\<lambda>(s1, change_sequence).
                Inr (s1, Applied (nr_kind r) (nr_object r) next_revision change_sequence
                           (nr_changed_at r))))))"

text \<open>The loop; \<open>ids\<close> gives the \<open>gen_random_uuid()\<close> drawn for the item at each position.\<close>

fun push_items ::
    "env \<Rightarrow> uuid \<Rightarrow> uuid \<Rightarrow> uuid \<Rightarrow> (nat \<Rightarrow> uuid) \<Rightarrow> nat \<Rightarrow> new_revision list \<Rightarrow> db
      \<Rightarrow> (db \<times> push_item_result list) outcome" where
  "push_items e user_id device_id project_id ids i [] s = Inr (s, [])"
| "push_items e user_id device_id project_id ids i (r # rs) s =
    try_bind (push_item e user_id device_id project_id (ids i) r s) (\<lambda>(s1, result).
    try_bind (push_items e user_id device_id project_id ids (Suc i) rs s1) (\<lambda>(s2, results).
    Inr (s2, result # results)))"

subsection \<open>The operation\<close>

definition touch_push :: "env \<Rightarrow> device_row \<Rightarrow> device_row" where
  "touch_push e d = d\<lparr>d_last_push_at := Some (db_now e)\<rparr>"

interpretation touch_push: key_update d_id "touch_push e" for e
  by unfold_locales (simp add: touch_push_def)

definition apply_push ::
    "env \<Rightarrow> uuid \<Rightarrow> uuid \<Rightarrow> uuid \<Rightarrow> (nat \<Rightarrow> uuid) \<Rightarrow> int \<Rightarrow> string \<Rightarrow> string \<Rightarrow> new_revision list \<Rightarrow> db
      \<Rightarrow> (db \<times> json) outcome" where
  "apply_push e user_id device_id project_id ids generation request_key request_hash revisions s =
    try_bind (push_items e user_id device_id project_id ids 0 revisions s) (\<lambda>(s1, results).
    let response = push_response generation results in
    try_bind (as_database (insert_idempotency
        (idempotency_row_of e user_id device_id project_id request_key request_hash response 200) s1)) (\<lambda>s2.
    Inr (s2\<lparr>devices := update_where (\<lambda>d. d_id d = device_id \<and> d_owner d = user_id)
               (touch_push e) (devices s2)\<rparr>, response)))"

text \<open>A request-level failure: stored when it is one to replay, then returned.\<close>

definition fail_push ::
    "env \<Rightarrow> uuid \<Rightarrow> uuid \<Rightarrow> uuid \<Rightarrow> string \<Rightarrow> string \<Rightarrow> persistence_error \<Rightarrow> db \<Rightarrow> db
      \<Rightarrow> db \<times> (json \<times> bool) outcome" where
  "fail_push e user_id device_id project_id request_key request_hash err before s =
    (case store_push_failure e user_id device_id project_id request_key request_hash err s of
       Inl er \<Rightarrow> (before, Inl er)
     | Inr (s1, stored) \<Rightarrow> if stored then (s1, Inl err) else (before, Inl err))"

definition is_bootstrapped :: "uuid \<Rightarrow> uuid \<Rightarrow> uuid \<Rightarrow> int \<Rightarrow> db \<Rightarrow> bool" where
  "is_bootstrapped user_id device_id project_id generation s \<longleftrightarrow>
    list_ex (\<lambda>c. bc_owner c = user_id \<and> bc_project c = project_id \<and> bc_device c = device_id
      \<and> bc_generation c = generation) (bootstrap_completions s)"

definition push_with_outcome ::
    "(string \<Rightarrow> bool) \<Rightarrow> env \<Rightarrow> uuid \<Rightarrow> uuid \<Rightarrow> uuid \<Rightarrow> (nat \<Rightarrow> uuid) \<Rightarrow> int \<Rightarrow> string \<Rightarrow> string
      \<Rightarrow> new_revision list \<Rightarrow> (json \<times> bool) txn" where
  "push_with_outcome is_rfc3339 e user_id device_id project_id ids expected_generation
      request_key request_hash revisions s =
    (let s0 = s\<lparr>idempotency_records := delete_where
                 (\<lambda>r. same_request user_id device_id project_id request_key r
                    \<and> ir_expires_at r \<le> db_now e) (idempotency_records s)\<rparr> in
     case List.find (same_request user_id device_id project_id request_key)
            (idempotency_records s0) of
       Some stored \<Rightarrow>
         if ir_hash stored = request_hash
         then (s0, if ir_status stored = 200
                   then Inr (migrate_stored_push_response is_rfc3339 (ir_response stored), True)
                   else Inl (IdempotencyReplay (ir_response stored) (ir_status stored)))
         else (s, Inl IdempotencyConflict)
     | None \<Rightarrow>
         (case require_active_project_for_update user_id project_id s0 of
            Inl err \<Rightarrow> fail_push e user_id device_id project_id request_key request_hash err s s0
          | Inr (generation, _) \<Rightarrow>
              if expected_generation \<noteq> generation
              then fail_push e user_id device_id project_id request_key request_hash
                     (GenerationMismatch expected_generation generation) s s0
              else if \<not> is_bootstrapped user_id device_id project_id generation s0
              then fail_push e user_id device_id project_id request_key request_hash
                     BootstrapRequired s s0
              else (case apply_push e user_id device_id project_id ids generation request_key
                          request_hash revisions s0 of
                  Inl er \<Rightarrow> (s, Inl er)
                | Inr (s1, response) \<Rightarrow> (s1, Inr (response, False)))))"

definition push ::
    "(string \<Rightarrow> bool) \<Rightarrow> env \<Rightarrow> uuid \<Rightarrow> uuid \<Rightarrow> uuid \<Rightarrow> (nat \<Rightarrow> uuid) \<Rightarrow> int \<Rightarrow> string \<Rightarrow> string
      \<Rightarrow> new_revision list \<Rightarrow> json txn" where
  "push is_rfc3339 e user_id device_id project_id ids expected_generation request_key
      request_hash revisions s =
    (case push_with_outcome is_rfc3339 e user_id device_id project_id ids expected_generation
            request_key request_hash revisions s of
       (s1, Inl er) \<Rightarrow> (s1, Inl er)
     | (s1, Inr (response, _)) \<Rightarrow> (s1, Inr response))"

end
