(* ===== verification/Push_Spec.thy ===== *)
theory Push_Spec
  imports Push
begin

text \<open>
  What a push promises. The abstract store of a project is nothing but the list of the changes
  ever accepted; the revision of an object is the number of its changes in that list, and a
  push item is a compare-and-swap against this number. The tables refine it.
\<close>

subsection \<open>The abstract store\<close>

record log_entry =
  le_kind :: object_kind
  le_object :: string
  le_schema_version :: "int option"
  le_hash :: "string option"
  le_tombstone :: bool
  le_changed_at :: instant
  le_device :: uuid

definition entry_of :: "revision_row \<Rightarrow> log_entry" where
  "entry_of r = \<lparr>le_kind = rv_kind r, le_object = rv_object r, le_schema_version = rv_schema_version r,
     le_hash = rv_hash r, le_tombstone = rv_tombstone r, le_changed_at = rv_changed_at r,
     le_device = rv_device r\<rparr>"

definition abs_log :: "uuid \<Rightarrow> db \<Rightarrow> log_entry list" where
  "abs_log project_id s = map entry_of (project_revisions project_id s)"

definition spec_revision :: "object_kind \<Rightarrow> string \<Rightarrow> log_entry list \<Rightarrow> int" where
  "spec_revision k i log = int (length (filter (\<lambda>x. le_kind x = k \<and> le_object x = i) log))"

definition spec_head :: "object_kind \<Rightarrow> string \<Rightarrow> log_entry list \<Rightarrow> int option" where
  "spec_head k i log = (let n = spec_revision k i log in if n = 0 then None else Some n)"

definition entry_of_request :: "uuid \<Rightarrow> new_revision \<Rightarrow> log_entry" where
  "entry_of_request device_id r = \<lparr>le_kind = nr_kind r, le_object = nr_object r,
     le_schema_version = nr_schema_version r, le_hash = nr_hash r, le_tombstone = nr_tombstone r,
     le_changed_at = nr_changed_at r, le_device = device_id\<rparr>"

definition spec_item ::
    "(new_revision \<Rightarrow> push_item_result + uuid option) \<Rightarrow> uuid \<Rightarrow> new_revision \<Rightarrow> log_entry list
      \<Rightarrow> log_entry list \<times> push_item_result" where
  "spec_item payload_check device_id r log =
    (if nr_base r \<noteq> spec_head (nr_kind r) (nr_object r) log
     then (log, ItemConflict (nr_kind r) (nr_object r) (nr_base r)
                  (spec_head (nr_kind r) (nr_object r) log))
     else (case payload_check r of
         Inl rejected \<Rightarrow> (log, rejected)
       | Inr _ \<Rightarrow> (log @ [entry_of_request device_id r],
           Applied (nr_kind r) (nr_object r) (spec_revision (nr_kind r) (nr_object r) log + 1)
             (int (length log) + 1) (nr_changed_at r))))"

fun spec_push ::
    "(new_revision \<Rightarrow> push_item_result + uuid option) \<Rightarrow> uuid \<Rightarrow> new_revision list \<Rightarrow> log_entry list
      \<Rightarrow> log_entry list \<times> push_item_result list" where
  "spec_push payload_check device_id [] log = (log, [])"
| "spec_push payload_check device_id (r # rs) log =
    (let (log1, result) = spec_item payload_check device_id r log;
         (log2, results) = spec_push payload_check device_id rs log1 in
     (log2, result # results))"

subsection \<open>One item refines its specification\<close>

lemma length_object_history:
  "int (length (object_history (pid, k, i) s)) = spec_revision k i (abs_log pid s)"
proof -
  have "object_history (pid, k, i) s =
      filter (\<lambda>r. rv_kind r = k \<and> rv_object r = i) (project_revisions pid s)"
    by (auto simp: object_history_def project_revisions_def rev_key_def intro: filter_cong)
  then show ?thesis
    by (simp add: spec_revision_def abs_log_def filter_map comp_def entry_of_def)
qed

lemma head_is_spec_head:
  assumes "store_inv s" and "owned s pid uid"
  shows "map_option h_revision (find_head uid (pid, k, i) s) = spec_head k i (abs_log pid s)"
  using assms length_object_history [of pid k i s, symmetric]
  by (cases "object_history (pid, k, i) s") (simp_all add: find_head_revision spec_head_def Let_def)

lemma abs_log_append:
  "object_revisions s' = object_revisions s @ [r] \<Longrightarrow>
    abs_log pid s' = abs_log pid s @ (if rv_project r = pid then [entry_of r] else [])"
  by (simp add: abs_log_def project_revisions_append)

lemma entry_of_revision_of:
  "entry_of (revision_of uid did pid rid n pl r) = entry_of_request did r"
  by (simp add: entry_of_def revision_of_def entry_of_request_def)

lemma revision_of_key: "rev_key (revision_of uid did pid rid n pl r) = (pid, nr_kind r, nr_object r)"
  by (simp add: revision_of_def rev_key_def)

lemma revision_of_select:
  "rv_revision (revision_of uid did pid rid n pl r) = n"
  "rv_project (revision_of uid did pid rid n pl r) = pid"
  "rv_owner (revision_of uid did pid rid n pl r) = uid"
  by (simp_all add: revision_of_def)

text \<open>What the caller of a push knows of the state, and each item keeps.\<close>

definition push_pre :: "uuid \<Rightarrow> uuid \<Rightarrow> db \<Rightarrow> bool" where
  "push_pre uid pid s \<longleftrightarrow> store_inv s \<and> owned s pid uid"

lemma spec_revision_le: "spec_revision k i log \<le> int (length log)"
  by (simp add: spec_revision_def)

lemma spec_revision_nonneg [simp]: "0 \<le> spec_revision k i log"
  by (simp add: spec_revision_def)

lemma project_seq_is_length:
  assumes "store_inv s" and "p \<in> set (projects s)" and "p_id p = pid"
  shows "p_change_seq p = int (length (abs_log pid s))"
  using assms log_length by (auto simp: abs_log_def)

lemma push_item_refines:
  assumes pre: "push_pre uid pid s" and step: "push_item e uid did pid rid r s = Inr (s', res)"
  shows "push_pre uid pid s' \<and> payloads s' = payloads s
    \<and> (abs_log pid s', res) = spec_item (\<lambda>r. resolve_payload uid pid r s) did r (abs_log pid s)
    \<and> (\<forall>q. q \<noteq> pid \<longrightarrow> abs_log q s' = abs_log q s)"
proof -
  define actual where "actual = spec_head (nr_kind r) (nr_object r) (abs_log pid s)"
  define m where "m = spec_revision (nr_kind r) (nr_object r) (abs_log pid s)"
  have act: "map_option h_revision (find_head uid (pid, nr_kind r, nr_object r) s) = actual"
    using pre by (simp add: head_is_spec_head push_pre_def actual_def)
  have n0: "(case actual of None \<Rightarrow> 0 | Some n \<Rightarrow> n) = m"
    by (simp add: actual_def m_def spec_head_def Let_def)
  show ?thesis
  proof (cases "nr_base r = actual")
    case False
    with step pre show ?thesis
      by (auto simp: push_item_def act spec_item_def actual_def)
  next
    case base: True
    show ?thesis
    proof (cases "resolve_payload uid pid r s")
      case (Inl x)
      with base step pre show ?thesis
        by (auto simp: push_item_def act spec_item_def actual_def)
    next
      case (Inr pl)
      define row where "row = revision_of uid did pid rid (i64_wrap (m + 1)) pl r"
      from base step Inr obtain n where app: "append_revision e (\<lambda>p. p_owner p = uid) row s = Inr (s', n)"
        and res: "res = Applied (nr_kind r) (nr_object r) (i64_wrap (m + 1)) n (nr_changed_at r)"
        by (auto simp: push_item_def act Let_def n0 row_def try_bind_eq_Inr)
      from app show ?thesis
      proof (rule append_revisionE)
        fix p
        assume p: "p \<in> set (projects s)" "p_id p = rv_project row" "n = p_change_seq p + 1" "n \<le> i64_max"
          and rv: "object_revisions s' = object_revisions s @ [row]"
        have seq: "n = int (length (abs_log pid s)) + 1"
          using p pre project_seq_is_length [of s p pid] by (simp add: push_pre_def row_def revision_of_def)
        have "m \<le> int (length (abs_log pid s))" by (simp add: m_def spec_revision_le)
        with seq p have m1: "i64_wrap (m + 1) = m + 1"
          by (intro i64_wrap_id) (auto simp: m_def intro: order_trans)
        have "store_inv s'"
          using pre m1 by (intro append_revision_inv [OF _ app])
            (simp_all add: push_pre_def row_def revision_of_key length_object_history m_def revision_of_select)
        moreover have "owned s' pid uid" using pre append_revision_owned [OF app] by (simp add: push_pre_def)
        moreover have "abs_log q s' = abs_log q s @ (if q = pid then [entry_of_request did r] else [])" for q
          using abs_log_append [OF rv, of q] by (simp add: row_def entry_of_revision_of revision_of_select)
        ultimately show ?thesis
          using base Inr res m1 seq append_revision_frame_select(3) [OF app]
          by (simp add: push_pre_def spec_item_def actual_def m_def)
      qed
    qed
  qed
qed

lemma resolve_payload_cong: "payloads s' = payloads s \<Longrightarrow> resolve_payload uid pid r s' = resolve_payload uid pid r s"
  by (cases "nr_hash r") (simp_all add: resolve_payload_def)

lemma push_items_refine:
  assumes "push_pre uid pid s" and "push_items e uid did pid ids i revs s = Inr (s', results)"
  shows "push_pre uid pid s' \<and> payloads s' = payloads s
    \<and> (abs_log pid s', results) = spec_push (\<lambda>r. resolve_payload uid pid r s) did revs (abs_log pid s)
    \<and> (\<forall>q. q \<noteq> pid \<longrightarrow> abs_log q s' = abs_log q s)"
  using assms
proof (induction revs arbitrary: i s results)
  case Nil
  then show ?case by simp
next
  case (Cons r rs)
  from Cons.prems obtain s1 res rest where one: "push_item e uid did pid (ids i) r s = Inr (s1, res)"
    and more: "push_items e uid did pid ids (Suc i) rs s1 = Inr (s', rest)"
    and results: "results = res # rest"
    by (auto simp: try_bind_eq_Inr)
  note item = push_item_refines [OF Cons.prems(1) one]
  then have "push_pre uid pid s1" and pay: "payloads s1 = payloads s" by auto
  from Cons.IH [OF this(1) more] item results pay show ?case
    by (auto simp: resolve_payload_cong [OF pay] split: prod.splits)
qed

subsection \<open>The whole operation\<close>

lemma store_view_idempotency [simp]: "store_view (s\<lparr>idempotency_records := x\<rparr>) = store_view s"
  by (simp add: store_view_def)

lemma store_view_devices [simp]: "store_view (s\<lparr>devices := x\<rparr>) = store_view s"
  by (simp add: store_view_def)

lemma store_view_insert_idempotency: "insert_idempotency r s = Inr s' \<Longrightarrow> store_view s' = store_view s"
  by (auto simp: insert_idempotency_def split: if_splits)

lemma store_view_fail_push:
  "store_view before = store_view s \<Longrightarrow>
    store_view (fst (fail_push e uid did pid key hash err before s)) = store_view s"
  by (auto simp: fail_push_def store_push_failure_def try_bind_eq_Inr store_view_insert_idempotency
      split: sum.splits option.splits prod.splits)

lemma fail_push_error: "\<exists>er. snd (fail_push e uid did pid key hash err before s) = Inl er"
  by (auto simp: fail_push_def split: sum.splits prod.splits)

lemma owned_view: "store_view s = store_view s' \<Longrightarrow> owned s = owned s'"
  by (simp add: store_view_def owned_def fun_eq_iff)

lemma abs_log_view: "store_view s = store_view s' \<Longrightarrow> abs_log pid s = abs_log pid s'"
  by (simp add: store_view_def abs_log_def project_revisions_def)

lemma require_for_updateD:
  "require_active_project_for_update uid pid s = Inr (g, n) \<Longrightarrow> owned s pid uid"
  unfolding require_active_project_for_update_def
  by (erule project_stateD) (auto simp: owned_def list_ex_iff)

text \<open>The three ways a push can end.\<close>

lemma push_cases:
  assumes "push_with_outcome tm e uid did pid ids expected key hash revs s = (s', out)"
  obtains (replay) "store_view s' = store_view s" and "\<And>x. out \<noteq> Inr (x, False)"
  | (applied) s0 g n response where "store_view s0 = store_view s" and "payloads s0 = payloads s"
      and "require_active_project_for_update uid pid s0 = Inr (g, n)" and "g = expected"
      and "is_bootstrapped uid did pid g s"
      and "apply_push e uid did pid ids g key hash revs s0 = Inr (s', response)"
      and "out = Inr (response, False)"
proof -
  define s0 where "s0 = s\<lparr>idempotency_records := delete_where
      (\<lambda>r. same_request uid did pid key r \<and> ir_expires_at r \<le> db_now e) (idempotency_records s)\<rparr>"
  have v0: "store_view s0 = store_view s" and p0: "payloads s0 = payloads s"
    and c0: "bootstrap_completions s0 = bootstrap_completions s" by (simp_all add: s0_def)
  have fails: "store_view s' = store_view s \<and> (\<exists>er. out = Inl er)"
    if "(s', out) = fail_push e uid did pid key hash err s s0" for err
    using that store_view_fail_push [OF v0 [symmetric], of e uid did pid key hash err]
      fail_push_error [of e uid did pid key hash err s s0] v0 by (metis fst_conv snd_conv)
  show thesis
  proof (cases "List.find (same_request uid did pid key) (idempotency_records s0)")
    case (Some stored)
    with assms v0 show thesis
      by (intro replay) (auto simp: push_with_outcome_def s0_def [symmetric] Let_def split: if_splits)
  next
    case None
    show thesis
    proof (cases "require_active_project_for_update uid pid s0")
      case (Inl err)
      with None assms fails [of err] show thesis
        by (intro replay) (auto simp: push_with_outcome_def s0_def [symmetric] Let_def)
    next
      case (Inr gn)
      obtain g n where gn: "gn = (g, n)" by (cases gn)
      show thesis
      proof (cases "expected = g \<and> is_bootstrapped uid did pid g s0")
        case False
        with None assms Inr gn fails [of "GenerationMismatch expected g"] fails [of BootstrapRequired]
        show thesis
          by (intro replay) (auto simp: push_with_outcome_def s0_def [symmetric] Let_def split: if_splits)
      next
        case True
        show thesis
        proof (cases "apply_push e uid did pid ids g key hash revs s0")
          case (Inl err)
          with True None assms Inr gn show thesis
            by (intro replay) (auto simp: push_with_outcome_def s0_def [symmetric] Let_def)
        next
          case ok: (Inr x)
          obtain s1 response where "x = (s1, response)" by (cases x)
          with ok True None assms Inr gn v0 p0 c0 show thesis
            by (intro applied [of s0 g n response])
              (auto simp: push_with_outcome_def s0_def [symmetric] Let_def is_bootstrapped_def)
        qed
      qed
    qed
  qed
qed

lemma apply_push_items:
  assumes "apply_push e uid did pid ids g key hash revs s = Inr (s', response)"
  obtains s1 results where "push_items e uid did pid ids 0 revs s = Inr (s1, results)"
    and "response = push_response g results" and "store_view s' = store_view s1"
  using assms
  by (auto simp: apply_push_def try_bind_eq_Inr Let_def store_view_insert_idempotency)

end
