(* ===== verification/Push_Props.thy ===== *)
theory Push_Props
  imports Push_Spec Sample
begin

text \<open>
  The properties of the push: the store invariant, the refinement of the abstract log, the
  compare-and-swap, the exactly-once effect under retries, and the conditions under which a
  push is not refused for a reason of the storage.
\<close>

subsection \<open>The invariant and the refinement\<close>

lemma apply_push_refines:
  assumes "push_pre uid pid s" and "apply_push e uid did pid ids g key hash revs s = Inr (s', response)"
  shows "push_pre uid pid s' \<and>
    (\<exists>results. spec_push (\<lambda>r. resolve_payload uid pid r s) did revs (abs_log pid s) = (abs_log pid s', results)
      \<and> response = push_response g results \<and> (\<forall>q. q \<noteq> pid \<longrightarrow> abs_log q s' = abs_log q s))"
  using assms(2)
proof (rule apply_push_items)
  fix s1 results
  assume items: "push_items e uid did pid ids 0 revs s = Inr (s1, results)"
    and resp: "response = push_response g results" and v: "store_view s' = store_view s1"
  have "push_pre uid pid s' = push_pre uid pid s1" "\<And>q. abs_log q s' = abs_log q s1"
    using store_inv_view [OF v] owned_view [OF v] abs_log_view [OF v] by (simp_all add: push_pre_def)
  with push_items_refine [OF assms(1) items] resp show ?thesis
    by (intro conjI exI [of _ results]) simp_all
qed

lemma resolve_payload_fun: "payloads s' = payloads s \<Longrightarrow>
    (\<lambda>r. resolve_payload uid pid r s') = (\<lambda>r. resolve_payload uid pid r s)"
  by (intro ext resolve_payload_cong)

lemma push_pre_after_guard:
  assumes "store_inv s" and v: "store_view s0 = store_view s"
    and "require_active_project_for_update uid pid s0 = Inr (g, n)"
  shows "push_pre uid pid s0"
  using assms(1,3) store_inv_view [OF v] by (simp add: push_pre_def require_for_updateD)

lemma push_keeps_store_helper:
  assumes "store_inv s"
    and run: "push_with_outcome tm e uid did pid ids expected key hash revs s = (s', out)"
  shows "store_inv s'"
  using run
proof (cases rule: push_cases)
  case replay
  with assms show ?thesis using store_inv_view [of s' s] by simp
next
  case (applied s0 g n response)
  with assms have "push_pre uid pid s0" by (intro push_pre_after_guard)
  from apply_push_refines [OF this applied(6)] show ?thesis by (simp add: push_pre_def)
qed

text \<open>C1. Every outcome of a push, whatever the request, leaves the versioned store well formed:
  sequences without gaps, revision numbers without gaps, heads that are the last revisions.\<close>

theorem push_keeps_store:
  assumes "store_inv s"
  shows "store_inv (fst (push_with_outcome tm e uid did pid ids expected key hash revs s))"
  using push_keeps_store_helper [OF assms] by (metis prod.collapse)

text \<open>C2. A push that is answered afresh does to the tables what the abstract log specifies:
  each item is a compare-and-swap on the number of changes of its object, accepted items are
  appended in the order of the request, the response lists exactly these outcomes, and no
  other project's log changes.\<close>

theorem push_refines_log:
  assumes "store_inv s"
    and "push_with_outcome tm e uid did pid ids expected key hash revs s = (s', Inr (response, False))"
  shows "\<exists>results. spec_push (\<lambda>r. resolve_payload uid pid r s) did revs (abs_log pid s)
        = (abs_log pid s', results)
      \<and> response = push_response expected results
      \<and> (\<forall>q. q \<noteq> pid \<longrightarrow> abs_log q s' = abs_log q s)"
  using assms(2)
proof (cases rule: push_cases)
  case replay
  from replay(2) [of response] show ?thesis by simp
next
  case (applied s0 g n response)
  with assms(1) have "push_pre uid pid s0" by (intro push_pre_after_guard)
  from apply_push_refines [OF this applied(6)] applied show ?thesis
    by (simp add: resolve_payload_fun [OF applied(2)] abs_log_view [OF applied(1)])
qed

subsection \<open>Retries\<close>

lemma push_item_frame:
  assumes "push_item e uid did pid rid r s = Inr (s', res)"
  shows "s' = s \<or> (\<exists>row n. append_revision e (\<lambda>p. p_owner p = uid) row s = Inr (s', n))"
  using assms
  by (auto simp: push_item_def Let_def try_bind_eq_Inr split: if_splits sum.splits)

lemma push_items_frame:
  "push_items e uid did pid ids i revs s = Inr (s', results) \<Longrightarrow>
    idempotency_records s' = idempotency_records s \<and> devices s' = devices s \<and> users s' = users s"
proof (induction revs arbitrary: i s results)
  case (Cons r rs)
  then obtain s1 res rest where one: "push_item e uid did pid (ids i) r s = Inr (s1, res)"
    and more: "push_items e uid did pid ids (Suc i) rs s1 = Inr (s', rest)"
    by (auto simp: try_bind_eq_Inr)
  have "idempotency_records s1 = idempotency_records s \<and> devices s1 = devices s \<and> users s1 = users s"
    using push_item_frame [OF one] append_revision_frame_select by fastforce
  with Cons.IH [OF more] show ?case by simp
qed simp

lemma migrate_current_item: "migrate_item tm (item_json x) = item_json x"
  by (cases x)
    (auto simp: migrate_result_object_def migrate_member_def migrate_legacy_timestamp_def
      split: option.splits)

lemma migrate_current_response:
  "migrate_stored_push_response tm (push_response g results) = push_response g results"
  by (simp add: migrate_stored_push_response_def push_response_def migrate_current_item comp_def)

lemma insert_idempotencyD:
  assumes "insert_idempotency r s = Inr s'"
  shows "s' = s\<lparr>idempotency_records := idempotency_records s @ [r]\<rparr>"
    and "x \<in> set (idempotency_records s) \<Longrightarrow>
      \<not> same_request (ir_owner r) (ir_device r) (ir_project r) (ir_key r) x"
  using assms by (auto simp: insert_idempotency_def list_ex_iff split: if_splits)

text \<open>The state a push leaves when it has stored its answer.\<close>

definition answered :: "env \<Rightarrow> uuid \<Rightarrow> uuid \<Rightarrow> uuid \<Rightarrow> string \<Rightarrow> string \<Rightarrow> json \<Rightarrow> int \<Rightarrow> db \<Rightarrow> bool" where
  "answered e uid did pid key hash response status s \<longleftrightarrow>
    (\<exists>rs. idempotency_records s = rs @ [idempotency_row_of e uid did pid key hash response status]
      \<and> (\<forall>x \<in> set rs. \<not> same_request uid did pid key x))"

lemma answered_insert:
  assumes "insert_idempotency (idempotency_row_of e uid did pid key hash response status) s = Inr s'"
  shows "answered e uid did pid key hash response status s'"
  using insert_idempotencyD [OF assms]
  by (auto simp: answered_def idempotency_row_of_def)

lemma answered_replay:
  assumes ans: "answered e uid did pid key hash response status s" and soon: "db_now e2 < db_now e + days 30"
  shows "push_with_outcome tm e2 uid did pid ids g key hash revs s =
    (s, if status = 200 then Inr (migrate_stored_push_response tm response, True)
        else Inl (IdempotencyReplay response status))"
proof -
  define row where "row = idempotency_row_of e uid did pid key hash response status"
  from ans obtain rs where rs: "idempotency_records s = rs @ [row]"
      "\<forall>x \<in> set rs. \<not> same_request uid did pid key x"
    by (auto simp: answered_def row_def)
  have row: "same_request uid did pid key row" "ir_hash row = hash" "ir_status row = status"
      "ir_response row = response" "\<not> ir_expires_at row \<le> db_now e2"
    using soon by (simp_all add: row_def idempotency_row_of_def same_request_def)
  have keep: "delete_where (\<lambda>r. same_request uid did pid key r \<and> ir_expires_at r \<le> db_now e2)
      (idempotency_records s) = idempotency_records s"
    using rs row by (intro delete_where_none) auto
  have "List.find (same_request uid did pid key) rs = None"
    using rs by (simp add: find_None_iff)
  then have "List.find (same_request uid did pid key) (idempotency_records s) = Some row"
    using rs row by (simp add: find_append)
  with row show ?thesis by (simp add: push_with_outcome_def keep Let_def)
qed

lemma apply_push_answered:
  assumes "apply_push e uid did pid ids g key hash revs s = Inr (s', response)"
  shows "answered e uid did pid key hash response 200 s' \<and> (\<exists>results. response = push_response g results)"
  using assms answered_insert
  by (fastforce simp: apply_push_def try_bind_eq_Inr Let_def answered_def)

text \<open>C3. Exactly once: when a push has been answered, the same request key with the same
  content gets the same answer for 30 days, whatever else it carries, and changes nothing.\<close>

theorem push_retry_replays:
  assumes "push_with_outcome tm e uid did pid ids expected key hash revs s = (s1, Inr (response, False))"
    and "db_now e2 < db_now e + days 30"
  shows "push_with_outcome tm e2 uid did pid ids2 expected2 key hash revs2 s1 = (s1, Inr (response, True))"
  using assms(1)
proof (cases rule: push_cases)
  case replay
  from replay(2) [of response] show ?thesis by simp
next
  case (applied s0 g n response')
  from apply_push_answered [OF applied(6)] applied(7) show ?thesis
    using answered_replay [OF _ assms(2), of uid did pid key hash response 200 s1 tm]
    by (auto simp: migrate_current_response)
qed

subsection \<open>A push on the sample state\<close>

definition sample_revision :: "int option \<Rightarrow> new_revision" where
  "sample_revision base = \<lparr>nr_kind = Todo, nr_object = ''t'', nr_schema_version = Some 1,
     nr_base = base, nr_hash = Some ''x'', nr_changed_at = 5, nr_tombstone = False\<rparr>"

definition sample_push :: "string \<Rightarrow> int \<Rightarrow> uuid \<Rightarrow> new_revision list \<Rightarrow> (json \<times> bool) txn" where
  "sample_push key generation rid revs = push_with_outcome (\<lambda>_. True) sample_env ''u'' ''d'' ''p''
     (\<lambda>i. rid @ replicate i (CHR ''0'')) generation key ''h'' revs"

definition sample_pushed :: db where
  "sample_pushed = fst (sample_push ''k'' 1 ''r'' [sample_revision None, sample_revision None] sample_db)"

lemma sample_push_result:
  "snd (sample_push ''k'' 1 ''r'' [sample_revision None, sample_revision None] sample_db) =
    Inr (push_response 1 [Applied Todo ''t'' 1 1 5, ItemConflict Todo ''t'' None (Some 1)], False)"
  by code_simp

lemma sample_push_run:
  "push_with_outcome (\<lambda>_. True) sample_env ''u'' ''d'' ''p'' (\<lambda>i. ''r'' @ replicate i (CHR ''0'')) 1
     ''k'' ''h'' [sample_revision None, sample_revision None] sample_db =
    (sample_pushed, Inr (push_response 1 [Applied Todo ''t'' 1 1 5, ItemConflict Todo ''t'' None (Some 1)], False))"
  using sample_push_result
  by (simp add: sample_pushed_def sample_push_def prod_eq_iff)

lemma sample_pushed_inv: "store_inv sample_pushed"
  using sample_push_run by (rule push_keeps_store_helper [OF sample_store_inv])

theorem push_keeps_store_witness: "store_inv sample_pushed"
  using push_keeps_store [OF sample_store_inv] by (simp add: sample_pushed_def sample_push_def)

theorem push_refines_log_witness:
  "\<exists>results. spec_push (\<lambda>r. resolve_payload ''u'' ''p'' r sample_db) ''d''
      [sample_revision None, sample_revision None] (abs_log ''p'' sample_db)
      = (abs_log ''p'' sample_pushed, results)
    \<and> push_response 1 [Applied Todo ''t'' 1 1 5, ItemConflict Todo ''t'' None (Some 1)]
      = push_response 1 results"
  using push_refines_log [OF sample_store_inv sample_push_run] by blast

theorem push_retry_replays_witness:
  "push_with_outcome (\<lambda>_. True) sample_env ''u'' ''d'' ''p'' (\<lambda>_. ''s'') 7 ''k'' ''h'' [] sample_pushed =
    (sample_pushed, Inr (push_response 1 [Applied Todo ''t'' 1 1 5, ItemConflict Todo ''t'' None (Some 1)], True))"
  by (rule push_retry_replays [OF sample_push_run]) (simp add: sample_env_def duration_defs)

subsection \<open>Failures are replayed too\<close>

lemma fail_push_answered:
  assumes "fail_push e uid did pid key hash err before s = (s1, Inl er)"
    and "push_failure_response er = Some (status, response)"
  shows "answered e uid did pid key hash response status s1"
proof (cases "push_failure_response err")
  case None
  with assms show ?thesis by (auto simp: fail_push_def store_push_failure_def)
next
  case (Some sr)
  then show ?thesis
    using assms answered_insert
    by (cases "insert_idempotency (idempotency_row_of e uid did pid key hash (snd sr) (fst sr)) s")
      (auto simp: fail_push_def store_push_failure_def as_conflict_def split: prod.splits
        elim!: push_failure_response.elims map_sqlx_conflict.elims)
qed

lemma push_failure_status: "push_failure_response er = Some (status, response) \<Longrightarrow> status \<noteq> 200"
  by (cases er) auto

lemma push_item_error: "push_item e uid did pid rid r s = Inl er \<Longrightarrow> er = Database"
  by (auto simp: push_item_def Let_def try_bind_eq_Inl append_revision_error split: if_splits sum.splits)

lemma push_items_error: "push_items e uid did pid ids i revs s = Inl er \<Longrightarrow> er = Database"
  by (induction revs arbitrary: i s) (auto simp: try_bind_eq_Inl push_item_error)

lemma apply_push_error: "apply_push e uid did pid ids g key hash revs s = Inl er \<Longrightarrow> er = Database"
  by (auto simp: apply_push_def try_bind_eq_Inl push_items_error as_database_eq_Inl Let_def)

lemma push_items_owned: "push_items e uid did pid ids j revs s = Inr (s', results) \<Longrightarrow> owned s' = owned s"
proof (induction revs arbitrary: j s results)
  case (Cons r rs)
  then obtain s1 res rest where one: "push_item e uid did pid (ids j) r s = Inr (s1, res)"
    and more: "push_items e uid did pid ids (Suc j) rs s1 = Inr (s', rest)"
    by (auto simp: try_bind_eq_Inr)
  from push_item_frame [OF one] have "owned s1 = owned s" by (auto dest: append_revision_owned)
  with Cons.IH [OF more] show ?case by simp
qed simp

text \<open>A request-level refusal (maintenance, changed generation, missing bootstrap) is stored
  with its key: the same request is refused again with the same status and body for 30 days,
  even when the project has become writable in between, and the store is untouched.\<close>

theorem push_refusal_replays:
  assumes run: "push_with_outcome tm e uid did pid ids expected key hash revs s = (s1, Inl er)"
    and stored: "push_failure_response er = Some (status, response)"
    and soon: "db_now e2 < db_now e + days 30"
  shows "push_with_outcome tm e2 uid did pid ids2 expected2 key hash revs2 s1
      = (s1, Inl (IdempotencyReplay response status))
    \<and> store_view s1 = store_view s"
proof -
  define s0 where "s0 = s\<lparr>idempotency_records := delete_where
      (\<lambda>r. same_request uid did pid key r \<and> ir_expires_at r \<le> db_now e) (idempotency_records s)\<rparr>"
  have er: "er \<noteq> IdempotencyConflict" "er \<noteq> Database" "\<And>x n. er \<noteq> IdempotencyReplay x n"
    using stored by auto
  have "\<exists>err. fail_push e uid did pid key hash err s s0 = (s1, Inl er)"
  proof (cases "List.find (same_request uid did pid key) (idempotency_records s0)")
    case (Some r)
    with run er show ?thesis
      by (auto simp: push_with_outcome_def s0_def [symmetric] Let_def split: if_splits)
  next
    case None
    with run er(2) show ?thesis
      by (auto simp: push_with_outcome_def s0_def [symmetric] Let_def
          split: sum.splits prod.splits if_splits dest: apply_push_error)
  qed
  then have "answered e uid did pid key hash response status s1"
    using fail_push_answered stored by blast
  from answered_replay [OF this soon] push_failure_status [OF stored]
  have "push_with_outcome tm e2 uid did pid ids2 expected2 key hash revs2 s1
      = (s1, Inl (IdempotencyReplay response status))" by simp
  moreover from run have "store_view s1 = store_view s"
    by (cases rule: push_cases) simp_all
  ultimately show ?thesis by simp
qed

lemma sample_refusal_run:
  "push_with_outcome (\<lambda>_. True) sample_env ''u'' ''d'' ''p'' (\<lambda>i. ''r'' @ replicate i (CHR ''0'')) 2
     ''k'' ''h'' [] sample_db =
    (fst (sample_push ''k'' 2 ''r'' [] sample_db), Inl (GenerationMismatch 2 1))"
proof -
  have "snd (sample_push ''k'' 2 ''r'' [] sample_db) = Inl (GenerationMismatch 2 1)" by code_simp
  then show ?thesis by (simp add: sample_push_def prod_eq_iff)
qed

theorem push_refusal_replays_witness:
  "\<exists>s1 response. push_with_outcome (\<lambda>_. True) sample_env ''u'' ''d'' ''p'' (\<lambda>_. ''x'') 1 ''k'' ''h''
      [sample_revision None] s1 = (s1, Inl (IdempotencyReplay response 409))
    \<and> store_view s1 = store_view sample_db"
proof -
  have "db_now sample_env < db_now sample_env + days 30" by (simp add: duration_defs)
  from push_refusal_replays [OF sample_refusal_run push_failure_response.simps(2) this]
  show ?thesis by blast
qed

subsection \<open>Compare and swap\<close>

lemma spec_item_mono: "spec_item chk did r log = (log', res) \<Longrightarrow> spec_revision k i log \<le> spec_revision k i log'"
  by (auto simp: spec_item_def spec_revision_def split: if_splits sum.splits)

lemma spec_push_mono: "spec_push chk did revs log = (log', results) \<Longrightarrow>
    spec_revision k i log \<le> spec_revision k i log'"
  by (induction revs arbitrary: log results)
    (fastforce split: prod.splits dest: spec_item_mono [where k = k and i = i] intro: order_trans)+

lemma spec_item_applied:
  assumes "\<And>x. chk r = Inl x \<Longrightarrow> \<exists>k i c d. x = Rejected k i c d"
    and "spec_item chk did r log = (log', Applied k i n q t)"
  shows "spec_revision k i log' = spec_revision k i log + 1 \<and> n = spec_revision k i log'"
  using assms(2) by (auto dest!: assms(1) simp: spec_item_def spec_revision_def entry_of_request_def split: if_splits sum.splits)

lemma resolve_payload_rejects: "resolve_payload uid pid r s = Inl x \<Longrightarrow> \<exists>k i c d. x = Rejected k i c d"
  by (auto simp: resolve_payload_def split: if_splits option.splits)

lemma spec_push_applied:
  assumes "\<And>r x. chk r = Inl x \<Longrightarrow> \<exists>k i c d. x = Rejected k i c d"
    and "spec_push chk did revs log = (log', results)" and "Applied k i n q t \<in> set results"
  shows "spec_revision k i log < n \<and> n \<le> spec_revision k i log'"
  using assms(2,3)
proof (induction revs arbitrary: log results)
  case (Cons r rs)
  then obtain log1 res rest where one: "spec_item chk did r log = (log1, res)"
    and more: "spec_push chk did rs log1 = (log', rest)" and results: "results = res # rest"
    by (auto split: prod.splits)
  show ?case
  proof (cases "res = Applied k i n q t")
    case True
    with one spec_item_applied assms(1)
    have "spec_revision k i log1 = spec_revision k i log + 1 \<and> n = spec_revision k i log1" by blast
    with spec_push_mono [OF more, of k i] show ?thesis by simp
  next
    case False
    with results Cons.prems have "Applied k i n q t \<in> set rest" by auto
    with Cons.IH [OF more] spec_item_mono [OF one, of k i] show ?thesis by simp
  qed
qed simp

text \<open>C4. No lost update: once a push has changed an object, every item that still names the
  revision the object had before is answered with a conflict and changes nothing; the revision
  in the answer is the one of the object's head at that moment, at least the one just written.\<close>

theorem push_stale_base_conflicts:
  assumes "store_inv s" and "owned s pid uid"
    and "push_items e uid did pid ids j revs s = Inr (s1, results)"
    and "Applied k i n q t \<in> set results"
    and "nr_kind r = k" and "nr_object r = i"
    and "nr_base r = map_option h_revision (find_head uid (pid, k, i) s)"
  shows "\<exists>m \<ge> n. map_option h_revision (find_head uid (pid, k, i) s1) = Some m
    \<and> push_item e2 uid did2 pid rid r s1 = Inr (s1, ItemConflict k i (nr_base r) (Some m))"
proof -
  have pre: "push_pre uid pid s" using assms by (simp add: push_pre_def)
  from push_items_refine [OF this assms(3)] have pre1: "push_pre uid pid s1"
    and spec: "spec_push (\<lambda>r. resolve_payload uid pid r s) did revs (abs_log pid s) = (abs_log pid s1, results)"
    by auto
  have n: "spec_revision k i (abs_log pid s) < n" "n \<le> spec_revision k i (abs_log pid s1)"
    using spec_push_applied [OF resolve_payload_rejects spec assms(4)] by auto
  from n spec_revision_nonneg [of k i "abs_log pid s"] have "spec_revision k i (abs_log pid s1) \<noteq> 0"
    by linarith
  then have head1: "spec_head k i (abs_log pid s1) = Some (spec_revision k i (abs_log pid s1))"
    by (simp add: spec_head_def Let_def)
  have "nr_base r = spec_head k i (abs_log pid s)"
    using assms(7) pre by (simp add: head_is_spec_head push_pre_def)
  with n head1 have "nr_base r \<noteq> spec_head k i (abs_log pid s1)"
    by (auto simp: spec_head_def Let_def split: if_splits)
  with pre1 head1 assms(5,6) n show ?thesis
    by (intro exI [of _ "spec_revision k i (abs_log pid s1)"])
      (simp add: push_item_def Let_def head_is_spec_head push_pre_def)
qed

theorem push_stale_base_conflicts_witness:
  "\<exists>s1 results. push_items sample_env ''u'' ''d'' ''p'' (\<lambda>_. ''r'') 0 [sample_revision None] sample_db
        = Inr (s1, results)
    \<and> (\<exists>m \<ge> 1. map_option h_revision (find_head ''u'' (''p'', Todo, ''t'') s1) = Some m
      \<and> push_item sample_env ''u'' ''d'' ''p'' ''z'' (sample_revision None) s1
          = Inr (s1, ItemConflict Todo ''t'' None (Some m)))"
proof -
  have "map_sum id snd (push_items sample_env ''u'' ''d'' ''p'' (\<lambda>_. ''r'') 0 [sample_revision None] sample_db)
      = Inr [Applied Todo ''t'' 1 1 5]"
    by code_simp
  then obtain s1 where run: "push_items sample_env ''u'' ''d'' ''p'' (\<lambda>_. ''r'') 0 [sample_revision None] sample_db
      = Inr (s1, [Applied Todo ''t'' 1 1 5])"
    by (cases "push_items sample_env ''u'' ''d'' ''p'' (\<lambda>_. ''r'') 0 [sample_revision None] sample_db") auto
  have own: "owned sample_db ''p'' ''u''" by (simp add: owned_def sample_defs)
  have base: "nr_base (sample_revision None) = map_option h_revision (find_head ''u'' (''p'', Todo, ''t'') sample_db)"
    by (simp add: sample_revision_def find_head_def sample_defs)
  have applied: "Applied Todo ''t'' 1 1 5 \<in> set [Applied Todo ''t'' 1 1 5]"
    and kind: "nr_kind (sample_revision None) = Todo" "nr_object (sample_revision None) = ''t''"
    and b: "nr_base (sample_revision None) = None"
    by (simp_all add: sample_revision_def)
  from push_stale_base_conflicts [OF sample_store_inv own run applied kind base] run b
  show ?thesis by auto
qed

subsection \<open>Change sequences\<close>

fun applied_sequences :: "push_item_result list \<Rightarrow> int list" where
  "applied_sequences [] = []"
| "applied_sequences (Applied k i n seq t # rs) = seq # applied_sequences rs"
| "applied_sequences (_ # rs) = applied_sequences rs"

lemma spec_push_length: "spec_push chk did revs log = (log', results) \<Longrightarrow> length log \<le> length log'"
  by (induction revs arbitrary: log results)
    (fastforce simp: spec_item_def split: prod.splits if_splits sum.splits dest: Suc_leD)+

lemma spec_push_sequences:
  assumes "\<And>r x. chk r = Inl x \<Longrightarrow> \<exists>k i c d. x = Rejected k i c d"
    and "spec_push chk did revs log = (log', results)"
  shows "applied_sequences results = [int (length log) + 1..int (length log')]"
  using assms(2)
proof (induction revs arbitrary: log results)
  case (Cons r rs)
  then obtain log1 res rest where one: "spec_item chk did r log = (log1, res)"
    and more: "spec_push chk did rs log1 = (log', rest)" and results: "results = res # rest"
    by (auto split: prod.splits)
  note IH = Cons.IH [OF more] and le = spec_push_length [OF more]
  from one consider "log1 = log" "applied_sequences results = applied_sequences rest"
    | "length log1 = length log + 1" "applied_sequences results = (int (length log) + 1) # applied_sequences rest"
    using assms(1) results by (fastforce simp: spec_item_def split: if_splits sum.splits)
  then show ?case
  proof cases
    case 2
    with IH le upto_rec1 [of "int (length log) + 1" "int (length log')"] show ?thesis
      by (simp add: algebra_simps)
  qed (simp add: IH)
qed simp

definition change_seq_of :: "uuid \<Rightarrow> db \<Rightarrow> int" where
  "change_seq_of pid s = (case List.find (\<lambda>p. p_id p = pid) (projects s) of None \<Rightarrow> 0 | Some p \<Rightarrow> p_change_seq p)"

lemma change_seq_of_length:
  assumes "store_inv s" and "owned s pid uid"
  shows "change_seq_of pid s = int (length (abs_log pid s))"
proof -
  from assms(2) obtain p where "List.find (\<lambda>p. p_id p = pid) (projects s) = Some p"
    by (cases "List.find (\<lambda>p. p_id p = pid) (projects s)")
      (auto simp: owned_def list_ex_iff dest: find_NoneD)
  with assms(1) show ?thesis
    by (auto simp: change_seq_of_def dest!: find_SomeD intro: project_seq_is_length)
qed

text \<open>C5. The accepted items of a push get consecutive change sequences, in the order of the
  request, from the project's counter on, and the counter ends at the last of them.\<close>

theorem push_sequences_contiguous:
  assumes "store_inv s" and "owned s pid uid"
    and "push_items e uid did pid ids j revs s = Inr (s1, results)"
  shows "applied_sequences results = [change_seq_of pid s + 1..change_seq_of pid s1]"
proof -
  have "push_pre uid pid s" using assms by (simp add: push_pre_def)
  from push_items_refine [OF this assms(3)] have "store_inv s1" "owned s1 pid uid"
    and "spec_push (\<lambda>r. resolve_payload uid pid r s) did revs (abs_log pid s) = (abs_log pid s1, results)"
    by (auto simp: push_pre_def)
  with assms spec_push_sequences [OF resolve_payload_rejects] show ?thesis
    by (simp add: change_seq_of_length)
qed

lemma sample_items_run:
  "push_items sample_env ''u'' ''d'' ''p'' (\<lambda>i. ''r'' @ replicate i (CHR ''0'')) 0
      [sample_revision None, sample_revision (Some 1)] sample_db =
    Inr (projr (map_sum id fst (push_items sample_env ''u'' ''d'' ''p'' (\<lambda>i. ''r'' @ replicate i (CHR ''0'')) 0
      [sample_revision None, sample_revision (Some 1)] sample_db)), [Applied Todo ''t'' 1 1 5, Applied Todo ''t'' 2 2 5])"
proof -
  have "map_sum id snd (push_items sample_env ''u'' ''d'' ''p'' (\<lambda>i. ''r'' @ replicate i (CHR ''0'')) 0
      [sample_revision None, sample_revision (Some 1)] sample_db)
    = Inr [Applied Todo ''t'' 1 1 5, Applied Todo ''t'' 2 2 5]"
    by code_simp
  then show ?thesis
    by (cases "push_items sample_env ''u'' ''d'' ''p'' (\<lambda>i. ''r'' @ replicate i (CHR ''0'')) 0
      [sample_revision None, sample_revision (Some 1)] sample_db") auto
qed

lemma sample_owned: "owned sample_db ''p'' ''u''"
  by (simp add: owned_def sample_defs)

theorem push_sequences_contiguous_witness:
  "\<exists>s1. [1, 2] = [change_seq_of ''p'' sample_db + 1..change_seq_of ''p'' s1]"
  using push_sequences_contiguous [OF sample_store_inv sample_owned sample_items_run] by auto

subsection \<open>When a push is carried out\<close>

text \<open>What the API checks of an item before it calls the store.\<close>

definition request_ok :: "new_revision \<Rightarrow> bool" where
  "request_ok r \<longleftrightarrow>
    (if nr_tombstone r then nr_hash r = None \<and> nr_schema_version r = None
     else (case nr_schema_version r of None \<Rightarrow> False | Some v \<Rightarrow> v > 0))"

lemma fresh_in_log:
  assumes inv: "store_inv s" and "rid \<notin> rv_id ` set (object_revisions s)"
  shows "rid \<notin> cl_revision_id ` set (change_log s)"
proof
  assume "rid \<in> cl_revision_id ` set (change_log s)"
  then obtain c where c: "c \<in> set (change_log s)" "rid = cl_revision_id c" by auto
  with inv obtain p where p: "p \<in> set (projects s)" "p_id p = cl_project c"
    by (auto simp: store_inv_def owners_ok_def list_all_iff owned_def list_ex_iff)
  with inv have "map cl_revision_id (project_log (p_id p) s) = map rv_id (project_revisions (p_id p) s)"
    by (auto simp: store_inv_def list_all_iff log_ok_def)
  moreover have "rid \<in> set (map cl_revision_id (project_log (p_id p) s))"
    using c p by (auto simp: project_log_def)
  ultimately show False using assms(2) by (auto simp: project_revisions_def)
qed

lemma next_sequence_free:
  assumes inv: "store_inv s" and p: "p \<in> set (projects s)" and c: "c \<in> set (change_log s)"
    and "cl_project c = p_id p"
  shows "cl_sequence c \<noteq> p_change_seq p + 1"
proof -
  from inv p have "set (map cl_sequence (project_log (p_id p) s)) = {1..p_change_seq p}"
    by (auto simp: store_inv_def list_all_iff log_ok_def)
  moreover have "cl_sequence c \<in> set (map cl_sequence (project_log (p_id p) s))"
    using c assms(4) by (simp add: project_log_def)
  ultimately show ?thesis by simp
qed

lemma append_revision_total:
  assumes inv: "store_inv s" and own: "owned s (rv_project r) uid" and o: "rv_owner r = uid"
    and room: "change_seq_of (rv_project r) s < i64_max"
    and id: "rv_id r \<notin> rv_id ` set (object_revisions s)"
    and n: "rv_revision r = int (length (object_history (rev_key r) s)) + 1"
    and chk: "revision_checks r" and refs: "revision_refs s r"
  shows "\<exists>s' k. append_revision e (\<lambda>p. p_owner p = uid) r s = Inr (s', k)"
proof -
  from own obtain p where p: "p \<in> set (projects s)" "p_id p = rv_project r" "p_owner p = uid"
    by (auto simp: owned_def list_ex_iff)
  have keys: "distinct (map p_id (projects s))" using inv by (simp add: store_inv_def keys_ok_def)
  have f: "List.find (\<lambda>x. p_id x = rv_project r \<and> p_owner x = uid) (projects s) = Some p"
  proof -
    obtain q where q: "List.find (\<lambda>x. p_id x = rv_project r \<and> p_owner x = uid) (projects s) = Some q"
      using p by (cases "List.find (\<lambda>x. p_id x = rv_project r \<and> p_owner x = uid) (projects s)")
        (auto dest: find_NoneD)
    with p keys show ?thesis by (auto dest!: find_SomeD intro: keyed_table_inj)
  qed
  have seq: "p_change_seq p < i64_max" "0 \<le> p_change_seq p"
    using room p inv keys keyed_table_find [OF keys p(1) p(2)]
    by (auto simp: change_seq_of_def store_inv_def list_all_iff log_ok_def)
  define s1 where "s1 = s\<lparr>projects := update_where (\<lambda>p. p_id p = rv_project r \<and> p_owner p = uid)
      (bump_row e) (projects s)\<rparr>"
  have bump: "bump_change_seq e (\<lambda>p. p_owner p = uid) (rv_project r) s = Inr (s1, p_change_seq p + 1)"
    using f seq by (simp add: bump_change_seq_def s1_def)
  have fresh_rev: "rv_revision x \<noteq> rv_revision r" if "x \<in> set (object_revisions s)" "rev_key x = rev_key r" for x
  proof -
    have "history_ok (object_history (rev_key r) s)"
      using inv that by (auto simp: store_inv_def list_all_iff)
    then have "set (map rv_revision (object_history (rev_key r) s)) = {1..int (length (object_history (rev_key r) s))}"
      by (simp add: history_ok_def)
    moreover have "rv_revision x \<in> set (map rv_revision (object_history (rev_key r) s))"
      using that by (simp add: object_history_def)
    ultimately show ?thesis using n by simp
  qed
  have "revision_refs s1 r"
    using refs by (auto simp: revision_refs_def s1_def list_ex_update_where bump_row_def split: option.splits)
  have ins: "insert_revision r s1 = Inr (s1\<lparr>object_revisions := object_revisions s1 @ [r]\<rparr>)"
  proof -
    have "\<not> list_ex (\<lambda>x. rv_id x = rv_id r) (object_revisions s)" using id by (simp add: list_ex_key)
    moreover have "\<not> list_ex (\<lambda>x. rev_key x = rev_key r \<and> rv_revision x = rv_revision r) (object_revisions s)"
      using fresh_rev by (auto simp: list_ex_iff)
    ultimately show ?thesis using chk \<open>revision_refs s1 r\<close> by (simp add: insert_revision_def s1_def)
  qed
  have "\<not> list_ex (\<lambda>x. cl_project x = rv_project r \<and> cl_sequence x = p_change_seq p + 1) (change_log s)"
    using next_sequence_free [OF inv p(1)] p by (auto simp: list_ex_iff)
  moreover have "\<not> list_ex (\<lambda>x. cl_revision_id x = rv_id r) (change_log s)"
    using fresh_in_log [OF inv id] by (simp add: list_ex_key)
  ultimately show ?thesis
    using seq by (simp add: append_revision_def bump ins insert_change_def upsert_head_def) (simp add: s1_def)
qed

lemma push_item_total:
  assumes pre: "push_pre uid pid s" and req: "request_ok r"
    and dev: "list_ex (\<lambda>d. d_id d = did \<and> d_owner d = uid) (devices s)"
    and id: "rid \<notin> rv_id ` set (object_revisions s)" and room: "change_seq_of pid s < i64_max"
  shows "\<exists>s' res. push_item e uid did pid rid r s = Inr (s', res)"
proof (cases "nr_base r = map_option h_revision (find_head uid (pid, nr_kind r, nr_object r) s)")
  case False
  then show ?thesis by (auto simp: push_item_def Let_def)
next
  case base: True
  show ?thesis
  proof (cases "resolve_payload uid pid r s")
    case (Inl x)
    with base show ?thesis by (simp add: push_item_def)
  next
    case (Inr pl)
    define m where "m = spec_revision (nr_kind r) (nr_object r) (abs_log pid s)"
    have m: "(case nr_base r of None \<Rightarrow> 0 | Some n \<Rightarrow> n) = m" "0 \<le> m"
      using base pre by (auto simp: head_is_spec_head push_pre_def m_def spec_head_def Let_def)
    have "m \<le> change_seq_of pid s"
      using pre change_seq_of_length [of s pid uid] spec_revision_le [of "nr_kind r" "nr_object r" "abs_log pid s"]
      by (simp add: push_pre_def m_def)
    with room m have m1: "i64_wrap (m + 1) = m + 1" by (intro i64_wrap_id) auto
    define row where "row = revision_of uid did pid rid (i64_wrap (m + 1)) pl r"
    have pl: "case pl of None \<Rightarrow> nr_tombstone r | Some i \<Rightarrow> \<not> nr_tombstone r \<and> nr_hash r \<noteq> None
        \<and> list_ex (\<lambda>x. pl_id x = i \<and> pl_project x = pid) (payloads s)"
      using Inr by (auto simp: resolve_payload_def list_ex_iff split: if_splits option.splits dest!: find_SomeD)
    have base_ok: "case nr_base r of None \<Rightarrow> True | Some b \<Rightarrow> b > 0"
      using base pre by (auto simp: head_is_spec_head push_pre_def spec_head_def Let_def spec_revision_def
          split: if_splits)
    have "\<exists>s' k. append_revision e (\<lambda>p. p_owner p = uid) row s = Inr (s', k)"
    proof (rule append_revision_total)
      show "revision_checks row"
        using req pl m m1 base_ok
        by (auto simp: row_def revision_of_def revision_checks_def request_ok_def split: option.splits if_splits)
      show "revision_refs s row"
        using pre dev pl by (auto simp: row_def revision_of_def revision_refs_def push_pre_def owned_def
            split: option.splits)
      show "rv_revision row = int (length (object_history (rev_key row) s)) + 1"
        by (simp add: row_def revision_of_key length_object_history revision_of_select m1) (simp add: m_def)
    qed (use pre id room in \<open>simp_all add: push_pre_def row_def revision_of_def\<close>)
    with base Inr m show ?thesis
      by (auto simp: push_item_def Let_def row_def simp flip: base)
  qed
qed

lemma push_item_effect:
  assumes pre: "push_pre uid pid s" and step: "push_item e uid did pid rid r s = Inr (s', res)"
  shows "rv_id ` set (object_revisions s') \<subseteq> insert rid (rv_id ` set (object_revisions s))"
    and "change_seq_of pid s' \<le> change_seq_of pid s + 1"
proof -
  from step have "s' = s \<or> (\<exists>row n. rv_id row = rid \<and> object_revisions s' = object_revisions s @ [row])"
    by (auto simp: push_item_def Let_def try_bind_eq_Inr revision_of_def split: if_splits sum.splits
        elim!: append_revisionE)
  then show "rv_id ` set (object_revisions s') \<subseteq> insert rid (rv_id ` set (object_revisions s))" by auto
  from push_item_refines [OF pre step] have "push_pre uid pid s'"
    and "(abs_log pid s', res) = spec_item (\<lambda>r. resolve_payload uid pid r s) did r (abs_log pid s)" by auto
  then show "change_seq_of pid s' \<le> change_seq_of pid s + 1"
    using pre by (auto simp: push_pre_def change_seq_of_length spec_item_def split: if_splits sum.splits)
qed

lemma push_items_total:
  assumes "push_pre uid pid s" and "list_ex (\<lambda>d. d_id d = did \<and> d_owner d = uid) (devices s)"
    and "\<forall>r \<in> set revs. request_ok r" and "inj ids"
    and "\<forall>m \<ge> j. ids m \<notin> rv_id ` set (object_revisions s)"
    and "change_seq_of pid s + int (length revs) \<le> i64_max"
  shows "\<exists>s' results. push_items e uid did pid ids j revs s = Inr (s', results)"
  using assms
proof (induction revs arbitrary: j s)
  case (Cons r rs)
  have "\<exists>s1 res. push_item e uid did pid (ids j) r s = Inr (s1, res)"
    using Cons.prems by (intro push_item_total) auto
  then obtain s1 res where one: "push_item e uid did pid (ids j) r s = Inr (s1, res)" by auto
  have "devices s1 = devices s"
    using push_item_frame [OF one] append_revision_frame_select(2) by metis
  moreover have "push_pre uid pid s1" using push_item_refines [OF Cons.prems(1) one] by simp
  moreover have "\<forall>m \<ge> Suc j. ids m \<notin> rv_id ` set (object_revisions s1)"
  proof (intro allI impI)
    fix m assume m: "Suc j \<le> m"
    then have "ids m \<noteq> ids j" using \<open>inj ids\<close> by (auto dest: injD)
    with m Cons.prems(5) push_item_effect(1) [OF Cons.prems(1) one]
    show "ids m \<notin> rv_id ` set (object_revisions s1)" by (metis Suc_leD insertE subsetD)
  qed
  moreover have "change_seq_of pid s1 + int (length rs) \<le> i64_max"
    using push_item_effect(2) [OF Cons.prems(1) one] Cons.prems(6) by simp
  ultimately obtain s2 results where "push_items e uid did pid ids (Suc j) rs s1 = Inr (s2, results)"
    using Cons.IH [of s1 "Suc j"] Cons.prems by auto
  with one show ?case by simp
qed simp

lemma push_items_length: "push_items e uid did pid ids j revs s = Inr (s', results) \<Longrightarrow> length results = length revs"
  by (induction revs arbitrary: j s results) (auto simp: try_bind_eq_Inr)

lemma push_answers:
  assumes "store_inv s"
    and "project_state uid pid s = Inr (g, n)" and "is_bootstrapped uid did pid g s"
    and "list_ex (\<lambda>d. d_id d = did \<and> d_owner d = uid) (devices s)"
    and "\<forall>x \<in> set (idempotency_records s). \<not> same_request uid did pid key x"
    and "\<forall>r \<in> set revs. request_ok r" and "inj ids"
    and "\<forall>m. ids m \<notin> rv_id ` set (object_revisions s)"
    and "n + int (length revs) \<le> i64_max"
  shows "\<exists>s' results. push_with_outcome tm e uid did pid ids g key hash revs s
    = (s', Inr (push_response g results, False)) \<and> length results = length revs"
proof -
  have none: "List.find (same_request uid did pid key) (idempotency_records s) = None"
    using assms(5) by (simp add: find_None_iff)
  have del: "delete_where (\<lambda>r. same_request uid did pid key r \<and> ir_expires_at r \<le> db_now e)
      (idempotency_records s) = idempotency_records s"
    using assms(5) by (intro delete_where_none) auto
  from assms(2) obtain p where p: "p \<in> set (projects s)" "p_id p = pid" "p_owner p = uid" "p_change_seq p = n"
    by (rule project_stateD)
  then have pre: "push_pre uid pid s"
    using assms(1) by (auto simp: push_pre_def owned_def list_ex_iff)
  have "n = change_seq_of pid s"
    using p assms(1) keyed_table_find [of p_id "projects s" p pid]
    by (simp add: change_seq_of_def store_inv_def keys_ok_def)
  with assms pre obtain s1 results where items: "push_items e uid did pid ids 0 revs s = Inr (s1, results)"
    using push_items_total [of uid pid s did revs ids 0 e] by auto
  from push_items_length [OF items] have len: "length results = length revs" .
  have fr: "idempotency_records s1 = idempotency_records s" "devices s1 = devices s"
    using push_items_frame [OF items] by auto
  have "owned s1 pid uid" using push_items_refine [OF pre items] by (simp add: push_pre_def)
  then have "\<exists>s2. insert_idempotency (idempotency_row_of e uid did pid key hash (push_response g results) 200) s1 = Inr s2"
    using fr assms(4,5) by (auto simp: insert_idempotency_def idempotency_row_of_def owned_def list_ex_iff)
  then obtain s2 where "insert_idempotency (idempotency_row_of e uid did pid key hash (push_response g results) 200) s1 = Inr s2" ..
  then have "\<exists>s3. apply_push e uid did pid ids g key hash revs s = Inr (s3, push_response g results)"
    by (simp add: apply_push_def items Let_def as_database_def)
  with none del len assms(2,3) show ?thesis
    by (auto simp: push_with_outcome_def require_active_project_for_update_def)
qed

text \<open>C6. A push is carried out, never failed by a constraint of the database: for a device that
  has bootstrapped in the project's generation, a new request key, items of a valid shape, and
  fresh revision ids, it returns an answer as long as the change counter has room.\<close>

theorem push_is_carried_out:
  assumes "store_inv s"
    and "project_state uid pid s = Inr (g, n)" and "is_bootstrapped uid did pid g s"
    and "list_ex (\<lambda>d. d_id d = did \<and> d_owner d = uid) (devices s)"
    and "\<forall>x \<in> set (idempotency_records s). \<not> same_request uid did pid key x"
    and "\<forall>r \<in> set revs. request_ok r" and "inj ids"
    and "\<forall>m. ids m \<notin> rv_id ` set (object_revisions s)"
    and "n + int (length revs) \<le> i64_max"
  shows "\<exists>s' results. push_with_outcome tm e uid did pid ids g key hash revs s
    = (s', Inr (push_response g results, False))"
  using push_answers [OF assms] by blast

theorem push_is_carried_out_witness:
  "\<exists>s' results. push_with_outcome (\<lambda>_. True) sample_env ''u'' ''d'' ''p'' (\<lambda>i. ''r'' @ replicate i (CHR ''0''))
     1 ''k'' ''h'' [sample_revision None, sample_revision (Some 1)] sample_db
    = (s', Inr (push_response 1 results, False))"
proof (rule push_is_carried_out [OF sample_store_inv])
  show "project_state ''u'' ''p'' sample_db = Inr (1, 0)"
    by (simp add: project_state_def visible_projects_def sample_defs)
  show "inj (\<lambda>i. ''r'' @ replicate i (CHR ''0''))"
    by (auto intro!: injI dest: arg_cong [where f = length])
qed (simp_all add: sample_defs is_bootstrapped_def request_ok_def sample_revision_def i64_max_def)

end
