(* ===== verification/Pull.thy ===== *)
theory Pull
  imports Push_Spec Sample
begin

text \<open>
  The reading half of synchronisation (\<open>pull_page\<close>, \<open>bootstrap_page\<close>, the bootstrap manifests
  of \<open>crates/persistence/src/lib.rs\<close>): the pages of the change log, the heads as of a sequence,
  the stored manifests and their JSON form, and the completion mark that lets a device push.
\<close>

subsection \<open>Records on the wire\<close>

record sync_record =
  sr_kind :: string
  sr_id :: string
  sr_schema_version :: "int option"
  sr_revision :: int
  sr_base_revision :: "int option"
  sr_content_hash :: "string option"
  sr_changed_at :: instant
  sr_device_id :: uuid
  sr_tombstone :: bool
  sr_change_sequence :: int

definition record_of :: "change_row \<Rightarrow> revision_row \<Rightarrow> sync_record" where
  "record_of c r = \<lparr>sr_kind = kind_as_str (rv_kind r), sr_id = rv_object r,
     sr_schema_version = rv_schema_version r, sr_revision = rv_revision r,
     sr_base_revision = rv_base r, sr_content_hash = rv_hash r, sr_changed_at = rv_changed_at r,
     sr_device_id = rv_device r, sr_tombstone = rv_tombstone r, sr_change_sequence = cl_sequence c\<rparr>"

definition sync_record_json :: "sync_record \<Rightarrow> json" where
  "sync_record_json r = JObj [(''kind'', JStr (sr_kind r)), (''id'', JStr (sr_id r)),
     (''schemaVersion'', json_opt JNum (sr_schema_version r)), (''revision'', JNum (sr_revision r)),
     (''baseRevision'', json_opt JNum (sr_base_revision r)),
     (''contentHash'', json_opt JStr (sr_content_hash r)), (''changedAt'', JTime (sr_changed_at r)),
     (''deviceId'', JStr (sr_device_id r)), (''tombstone'', JBool (sr_tombstone r)),
     (''changeSequence'', JNum (sr_change_sequence r))]"

text \<open>
  The derived deserialisers: a required member must be there with its type, an optional one may
  be missing or \<open>null\<close>. \<open>parse_uuid\<close> stands for the parser of the \<open>uuid\<close> crate.
\<close>

definition member_of :: "string \<Rightarrow> (json \<Rightarrow> 'a option) \<Rightarrow> json \<Rightarrow> 'a option" where
  "member_of k f v = Option.bind (json_get k v) f"

definition optional_member :: "string \<Rightarrow> (json \<Rightarrow> 'a option) \<Rightarrow> json \<Rightarrow> 'a option option" where
  "optional_member k f v =
    (case json_get k v of None \<Rightarrow> Some None | Some JNull \<Rightarrow> Some None
     | Some x \<Rightarrow> map_option Some (f x))"

fun json_num :: "json \<Rightarrow> int option" where
  "json_num (JNum n) = Some n"
| "json_num _ = None"

fun json_time :: "json \<Rightarrow> instant option" where
  "json_time (JTime t) = Some t"
| "json_time _ = None"

definition sync_record_of_json :: "(string \<Rightarrow> uuid option) \<Rightarrow> json \<Rightarrow> sync_record option" where
  "sync_record_of_json parse_uuid v =
    do {
      kind \<leftarrow> member_of ''kind'' json_as_str v;
      i \<leftarrow> member_of ''id'' json_as_str v;
      schema \<leftarrow> optional_member ''schemaVersion'' json_num v;
      n \<leftarrow> member_of ''revision'' json_num v;
      base \<leftarrow> optional_member ''baseRevision'' json_num v;
      hash \<leftarrow> optional_member ''contentHash'' json_as_str v;
      changed \<leftarrow> member_of ''changedAt'' json_time v;
      device \<leftarrow> Option.bind (member_of ''deviceId'' json_as_str v) parse_uuid;
      tombstone \<leftarrow> member_of ''tombstone'' json_as_bool v;
      seq \<leftarrow> member_of ''changeSequence'' json_num v;
      Some \<lparr>sr_kind = kind, sr_id = i, sr_schema_version = schema, sr_revision = n,
        sr_base_revision = base, sr_content_hash = hash, sr_changed_at = changed,
        sr_device_id = device, sr_tombstone = tombstone, sr_change_sequence = seq\<rparr>
    }"

text \<open>\<open>Vec<T>\<close> from a JSON array: every element must decode.\<close>

fun decode_all :: "(json \<Rightarrow> 'a option) \<Rightarrow> json list \<Rightarrow> 'a list option" where
  "decode_all f [] = Some []"
| "decode_all f (x # xs) = do { y \<leftarrow> f x; ys \<leftarrow> decode_all f xs; Some (y # ys) }"

subsection \<open>Pulling changes\<close>

text \<open>
  \<open>change_log c JOIN object_revisions r ON r.id = c.revision_id WHERE c.project_id = $1\<close>
  \<open>AND c.sequence > $2 ORDER BY c.sequence\<close>, under the caller's row visibility.
\<close>

definition pull_rows :: "uuid \<Rightarrow> uuid \<Rightarrow> int \<Rightarrow> db \<Rightarrow> sync_record list" where
  "pull_rows user_id project_id after s =
    sort_key sr_change_sequence (concat (map
      (\<lambda>c. map (record_of c) (filter (\<lambda>r. rv_owner r = user_id \<and> rv_id r = cl_revision_id c)
              (object_revisions s)))
      (filter (\<lambda>c. cl_owner c = user_id \<and> cl_project c = project_id \<and> cl_sequence c > after)
         (change_log s))))"

record pull_page_result =
  pp_generation :: int
  pp_records :: "sync_record list"
  pp_has_more :: bool
  pp_next_sequence :: int

text \<open>
  \<open>LIMIT\<close> of the requested number and one more; the extra row only tells that there is more.
  PostgreSQL rejects a negative \<open>LIMIT\<close>.
\<close>

definition page_of :: "int \<Rightarrow> 'r list \<Rightarrow> ('r list \<times> bool) outcome" where
  "page_of limit rows =
    (if i64_wrap (limit + 1) < 0 then Inl Database
     else (let records = take (nat (i64_wrap (limit + 1))) rows;
               has_more = int (length records) > limit in
           Inr (if has_more then butlast records else records, has_more)))"

definition touch_pull :: "env \<Rightarrow> device_row \<Rightarrow> device_row" where
  "touch_pull e d = d\<lparr>d_last_pull_at := Some (db_now e)\<rparr>"

interpretation touch_pull: key_update d_id "touch_pull e" for e
  by unfold_locales (simp add: touch_pull_def)

definition pull_page ::
    "env \<Rightarrow> uuid \<Rightarrow> uuid \<Rightarrow> uuid \<Rightarrow> int \<Rightarrow> int \<Rightarrow> int \<Rightarrow> pull_page_result txn" where
  "pull_page e user_id device_id project_id expected_generation after_sequence limit s =
    (case require_active_project user_id project_id s of
       Inl er \<Rightarrow> (s, Inl er)
     | Inr (generation, current_sequence) \<Rightarrow>
         if expected_generation \<noteq> generation
         then (s, Inl (GenerationMismatch expected_generation generation))
         else if after_sequence < 0 \<or> after_sequence > current_sequence
         then (s, Inl NotFound)
         else (case page_of limit (pull_rows user_id project_id after_sequence s) of
             Inl er \<Rightarrow> (s, Inl er)
           | Inr (records, has_more) \<Rightarrow>
               (s\<lparr>devices := update_where (\<lambda>d. d_id d = device_id \<and> d_owner d = user_id)
                    (touch_pull e) (devices s)\<rparr>,
                Inr \<lparr>pp_generation = generation, pp_records = records, pp_has_more = has_more,
                  pp_next_sequence = (if records = [] then after_sequence
                                      else sr_change_sequence (last records))\<rparr>)))"

subsection \<open>Heads as of a sequence\<close>

text \<open>
  The rows numbered 1 by \<open>ROW_NUMBER() OVER (PARTITION BY kind, object_id ORDER BY sequence DESC)\<close>.
\<close>

definition same_object :: "sync_record \<Rightarrow> sync_record \<Rightarrow> bool" where
  "same_object x y \<longleftrightarrow> sr_kind x = sr_kind y \<and> sr_id x = sr_id y"

definition latest :: "sync_record list \<Rightarrow> sync_record list" where
  "latest rows = filter (\<lambda>x. \<not> list_ex (\<lambda>y. same_object x y \<and> sr_change_sequence y > sr_change_sequence x) rows) rows"

definition ranked_rows :: "(uuid \<Rightarrow> bool) \<Rightarrow> uuid \<Rightarrow> int \<Rightarrow> db \<Rightarrow> sync_record list" where
  "ranked_rows visible project_id upto_sequence s =
    latest (concat (map
      (\<lambda>r. map (\<lambda>c. record_of c r) (filter (\<lambda>c. visible (cl_owner c) \<and> cl_revision_id c = rv_id r
                \<and> cl_project c = rv_project r \<and> cl_sequence c \<le> upto_sequence) (change_log s)))
      (filter (\<lambda>r. visible (rv_owner r) \<and> rv_project r = project_id) (object_revisions s))))"

text \<open>
  \<open>ORDER BY kind, id\<close> of the selected text columns, by code point (the collation of the
  deployment's database is a choice of its administrator).
\<close>

definition bootstrap_rows :: "uuid \<Rightarrow> uuid \<Rightarrow> int \<Rightarrow> db \<Rightarrow> sync_record list" where
  "bootstrap_rows user_id project_id snapshot_sequence s =
    sort_key sr_kind (sort_key sr_id
      (ranked_rows (\<lambda>owner. owner = user_id) project_id snapshot_sequence s))"

record bootstrap_page_result =
  bp_manifest_id :: uuid
  bp_generation :: int
  bp_snapshot_sequence :: int
  bp_records :: "sync_record list"
  bp_has_more :: bool

definition same_completion :: "uuid \<Rightarrow> uuid \<Rightarrow> int \<Rightarrow> completion_row \<Rightarrow> bool" where
  "same_completion project_id device_id generation c \<longleftrightarrow>
    bc_project c = project_id \<and> bc_device c = device_id \<and> bc_generation c = generation"

definition complete_bootstrap ::
    "uuid \<Rightarrow> uuid \<Rightarrow> uuid \<Rightarrow> int \<Rightarrow> int \<Rightarrow> db \<Rightarrow> db outcome" where
  "complete_bootstrap user_id device_id project_id generation snapshot_sequence s =
    (if \<not> list_ex (\<lambda>d. d_id d = device_id \<and> d_owner d = user_id) (devices s)
        \<or> snapshot_sequence < 0 \<or> generation \<le> 0
     then Inl Database
     else Inr (s\<lparr>bootstrap_completions :=
       (if list_ex (same_completion project_id device_id generation) (bootstrap_completions s)
        then update_where (same_completion project_id device_id generation)
               (\<lambda>c. c\<lparr>bc_sequence := snapshot_sequence\<rparr>) (bootstrap_completions s)
        else bootstrap_completions s @ [\<lparr>bc_project = project_id, bc_owner = user_id,
               bc_device = device_id, bc_generation = generation, bc_sequence = snapshot_sequence\<rparr>])\<rparr>))"

definition nil_uuid :: uuid where
  "nil_uuid = ''00000000-0000-0000-0000-000000000000''"

definition bootstrap_page ::
    "uuid \<Rightarrow> uuid \<Rightarrow> uuid \<Rightarrow> int option \<Rightarrow> int option \<Rightarrow> int \<Rightarrow> int \<Rightarrow> bootstrap_page_result txn" where
  "bootstrap_page user_id device_id project_id expected_generation snapshot_sequence offset limit s =
    (case require_active_project user_id project_id s of
       Inl er \<Rightarrow> (s, Inl er)
     | Inr (generation, current_sequence) \<Rightarrow>
         if (case expected_generation of None \<Rightarrow> False | Some expected \<Rightarrow> expected \<noteq> generation)
         then (s, Inl (GenerationMismatch (the expected_generation) generation))
         else (let seq = (case snapshot_sequence of None \<Rightarrow> current_sequence | Some n \<Rightarrow> n) in
           if seq > current_sequence \<or> seq < 0
           then (s, Inl (GenerationMismatch generation generation))
           else if offset < 0 then (s, Inl Database)
           else (case page_of limit (drop (nat offset) (bootstrap_rows user_id project_id seq s)) of
               Inl er \<Rightarrow> (s, Inl er)
             | Inr (records, has_more) \<Rightarrow>
                 (case (if has_more then Inr s
                        else complete_bootstrap user_id device_id project_id generation seq s) of
                    Inl er \<Rightarrow> (s, Inl er)
                  | Inr s1 \<Rightarrow> (s1, Inr \<lparr>bp_manifest_id = nil_uuid, bp_generation = generation,
                      bp_snapshot_sequence = seq, bp_records = records, bp_has_more = has_more\<rparr>)))))"

subsection \<open>Bootstrap manifests\<close>

record bootstrap_manifest =
  mf_id :: uuid
  mf_generation :: int
  mf_snapshot_sequence :: int
  mf_records :: "sync_record list"
  mf_bytes :: bytes
  mf_hash :: string

definition manifest_json :: "uuid \<Rightarrow> uuid \<Rightarrow> int \<Rightarrow> int \<Rightarrow> json list \<Rightarrow> json" where
  "manifest_json manifest_id project_id generation sequence items =
    JObj [(''version'', JNum 1), (''manifestId'', JStr manifest_id), (''projectId'', JStr project_id),
      (''generation'', JNum generation), (''changeSequence'', JNum sequence), (''items'', JArr items)]"

text \<open>\<open>to_vec\<close> is \<open>serde_json::to_vec\<close>, \<open>sha256_hex\<close> the hexadecimal SHA-256 digest.\<close>

definition prepare_bootstrap_manifest ::
    "(json \<Rightarrow> bytes) \<Rightarrow> (bytes \<Rightarrow> string) \<Rightarrow> uuid \<Rightarrow> uuid \<Rightarrow> uuid \<Rightarrow> bootstrap_manifest txn" where
  "prepare_bootstrap_manifest to_vec sha256_hex user_id project_id manifest_id s =
    (case require_active_project_for_update user_id project_id s of
       Inl er \<Rightarrow> (s, Inl er)
     | Inr (generation, sequence) \<Rightarrow>
         (let records = bootstrap_rows user_id project_id sequence s;
              body = to_vec (manifest_json manifest_id project_id generation sequence
                               (map sync_record_json records)) in
          (s, Inr \<lparr>mf_id = manifest_id, mf_generation = generation, mf_snapshot_sequence = sequence,
             mf_records = records, mf_bytes = body, mf_hash = sha256_hex body\<rparr>)))"

definition insert_manifest :: "manifest_row \<Rightarrow> db \<Rightarrow> sql_error + db" where
  "insert_manifest m s =
    (if list_ex (\<lambda>x. bm_id x = bm_id m \<or> (bm_project x = bm_project m \<and> bm_hash x = bm_hash m))
          (bootstrap_manifests s)
     then Inl UniqueViolation
     else if \<not> list_ex (\<lambda>p. p_id p = bm_project m \<and> p_owner p = bm_owner m) (projects s)
        \<or> bm_sequence m < 0 \<or> bm_generation m \<le> 0
     then Inl OtherSqlError
     else Inr (s\<lparr>bootstrap_manifests := bootstrap_manifests s @ [m]\<rparr>))"

definition record_bootstrap_manifest ::
    "env \<Rightarrow> uuid \<Rightarrow> uuid \<Rightarrow> bootstrap_manifest \<Rightarrow> string \<Rightarrow> string \<Rightarrow> unit txn" where
  "record_bootstrap_manifest e user_id project_id m bucket key s =
    (case as_conflict (insert_manifest
        \<lparr>bm_id = mf_id m, bm_project = project_id, bm_owner = user_id, bm_generation = mf_generation m,
         bm_sequence = mf_snapshot_sequence m, bm_hash = mf_hash m, bm_bucket = bucket, bm_key = key,
         bm_manifest = manifest_json (mf_id m) project_id (mf_generation m) (mf_snapshot_sequence m)
           (map sync_record_json (mf_records m)),
         bm_expires_at = db_now e + hours 24\<rparr> s) of
       Inl er \<Rightarrow> (s, Inl er)
     | Inr s1 \<Rightarrow> (s1, Inr ()))"

text \<open>The slice of the stored items: \<open>skip\<close>, \<open>take\<close> one more than the page, \<open>take\<close> the page.\<close>

definition manifest_slice :: "int \<Rightarrow> int \<Rightarrow> 'r list \<Rightarrow> 'r list \<times> bool" where
  "manifest_slice offset limit all_records =
    (let page_limit = nat (max limit 0);
         records = take (page_limit + 1) (drop (nat offset) all_records);
         has_more = length records > page_limit in
     (if has_more then take page_limit records else records, has_more))"

text \<open>\<open>manifest->'items'\<close> and its deserialisation as \<open>Vec<SyncRecord>\<close>.\<close>

definition manifest_records :: "(string \<Rightarrow> uuid option) \<Rightarrow> json \<Rightarrow> sync_record list option" where
  "manifest_records parse_uuid manifest =
    Option.bind (Option.bind (json_get ''items'' manifest) json_as_array)
      (decode_all (sync_record_of_json parse_uuid))"

definition bootstrap_manifest_page ::
    "(string \<Rightarrow> uuid option) \<Rightarrow> env \<Rightarrow> uuid \<Rightarrow> uuid \<Rightarrow> uuid \<Rightarrow> uuid \<Rightarrow> int \<Rightarrow> int
      \<Rightarrow> bootstrap_page_result txn" where
  "bootstrap_manifest_page parse_uuid e user_id device_id project_id manifest_id offset limit s =
    (case require_active_project user_id project_id s of
       Inl er \<Rightarrow> (s, Inl er)
     | Inr (generation, current_sequence) \<Rightarrow>
         (case List.find (\<lambda>m. bm_id m = manifest_id \<and> bm_project m = project_id \<and> bm_owner m = user_id
                    \<and> bm_expires_at m > db_now e) (bootstrap_manifests s) of
            None \<Rightarrow> (s, Inl NotFound)
          | Some m \<Rightarrow>
              if bm_generation m \<noteq> generation
              then (s, Inl (GenerationMismatch (bm_generation m) generation))
              else if bm_sequence m > current_sequence \<or> offset < 0 then (s, Inl NotFound)
              else (case manifest_records parse_uuid (bm_manifest m) of
                  None \<Rightarrow> (s, Inl InvalidPayload)
                | Some all_records \<Rightarrow>
                    (let (records, has_more) = manifest_slice offset limit all_records in
                     case (if has_more then Inr s
                           else complete_bootstrap user_id device_id project_id generation (bm_sequence m) s) of
                       Inl er \<Rightarrow> (s, Inl er)
                     | Inr s1 \<Rightarrow> (s1, Inr \<lparr>bp_manifest_id = manifest_id, bp_generation = generation,
                         bp_snapshot_sequence = bm_sequence m, bp_records = records,
                         bp_has_more = has_more\<rparr>)))))"

text \<open>
  \<open>expire_bootstrap_manifests\<close>: the \<open>LIMIT\<close> oldest expired rows are deleted and their keys
  returned, in the order of the deletion.
\<close>

definition expired_manifests :: "env \<Rightarrow> int \<Rightarrow> db \<Rightarrow> manifest_row list" where
  "expired_manifests e limit s = take (nat (max limit 1))
    (sort_key bm_expires_at (sort_key bm_id (filter (\<lambda>m. bm_expires_at m \<le> db_now e) (bootstrap_manifests s))))"

definition expire_bootstrap_manifests :: "env \<Rightarrow> int \<Rightarrow> string list txn" where
  "expire_bootstrap_manifests e limit s =
    (let expired = expired_manifests e limit s;
         doomed = (\<lambda>m. bm_id m \<in> set (map bm_id expired)) in
     (s\<lparr>bootstrap_manifests := delete_where doomed (bootstrap_manifests s)\<rparr>,
      Inr (map bm_key (filter doomed (bootstrap_manifests s)))))"

end
