(* ===== verification/Pull_Props.thy ===== *)
theory Pull_Props
  imports Pull Push_Props
begin

text \<open>
  What the reading operations promise: the pages of the change log are exactly the accepted
  changes in order, a bootstrap gives the state as of its sequence, and a client that applies
  a bootstrap and then the pulled changes holds the heads of the project.
\<close>

subsection \<open>The joined log\<close>

definition all_rows :: "uuid \<Rightarrow> db \<Rightarrow> sync_record list" where
  "all_rows pid s = map2 record_of (project_log pid s) (project_revisions pid s)"

lemma record_of_select [simp]:
  "sr_change_sequence (record_of c r) = cl_sequence c" "sr_kind (record_of c r) = kind_as_str (rv_kind r)"
  "sr_id (record_of c r) = rv_object r" "sr_revision (record_of c r) = rv_revision r"
  "sr_schema_version (record_of c r) = rv_schema_version r" "sr_content_hash (record_of c r) = rv_hash r"
  "sr_tombstone (record_of c r) = rv_tombstone r"
  by (simp_all add: record_of_def)

lemma filter_by_key:
  assumes "distinct (map key t)" and "x \<in> set t" and "key x = k"
  shows "filter (\<lambda>y. key y = k) t = [x]"
  using assms
proof (induction t)
  case (Cons y t)
  show ?case
  proof (cases "y = x")
    case True
    with Cons.prems have "filter (\<lambda>y. key y = k) t = []" by (auto simp: filter_empty_conv image_iff)
    with True Cons.prems show ?thesis by simp
  next
    case False
    with Cons show ?thesis by auto
  qed
qed simp

lemma concat_map_filter:
  assumes "\<And>c x. c \<in> set cs \<Longrightarrow> x \<in> set (f c) \<Longrightarrow> P x = Q c"
  shows "concat (map f (filter Q cs)) = filter P (concat (map f cs))"
  using assms
proof (induction cs)
  case (Cons c cs)
  have "filter P (f c) = (if Q c then f c else [])"
    using Cons.prems [of c] by (auto simp: filter_id_conv filter_empty_conv)
  with Cons show ?case by auto
qed simp

lemma join_by_id:
  assumes "map f cs = map g rs" and "distinct (map g all)" and "set rs \<subseteq> set all"
  shows "concat (map (\<lambda>c. map (h c) (filter (\<lambda>r. g r = f c) all)) cs) = map2 h cs rs"
  using assms
proof (induction cs arbitrary: rs)
  case (Cons c cs)
  then obtain r rs' where rs: "rs = r # rs'" "g r = f c" "map f cs = map g rs'" by (cases rs) auto
  with Cons.prems have "filter (\<lambda>x. g x = f c) all = [r]"
    by (intro filter_by_key) auto
  with Cons.IH [of rs'] Cons.prems rs show ?case by simp
qed simp

lemma map2_left: "length xs = length ys \<Longrightarrow> map2 (\<lambda>x y. f x) xs ys = map f xs"
  by (induction xs ys rule: list_induct2) auto

lemma project_rows_owner:
  assumes inv: "store_inv s" and own: "owned s pid uid"
  shows "r \<in> set (project_revisions pid s) \<Longrightarrow> rv_owner r = uid"
    and "c \<in> set (project_log pid s) \<Longrightarrow> cl_owner c = uid"
  using inv own owned_unique [of s pid]
  by (auto simp: store_inv_def owners_ok_def keys_ok_def list_all_iff project_revisions_def project_log_def)

lemma owned_log_ok:
  assumes "store_inv s" and "owned s pid uid"
  shows "map cl_sequence (project_log pid s) = [1..change_seq_of pid s]"
    and "map cl_revision_id (project_log pid s) = map rv_id (project_revisions pid s)"
proof -
  from assms(2) obtain p where p: "p \<in> set (projects s)" "p_id p = pid"
    by (auto simp: owned_def list_ex_iff)
  then have l: "log_ok s p" using assms(1) by (auto simp: store_inv_def list_all_iff)
  have "change_seq_of pid s = p_change_seq p"
    using p assms(1) keyed_table_find [of p_id "projects s" p pid]
    by (simp add: change_seq_of_def store_inv_def keys_ok_def)
  with l p show "map cl_sequence (project_log pid s) = [1..change_seq_of pid s]"
    "map cl_revision_id (project_log pid s) = map rv_id (project_revisions pid s)"
    by (simp_all add: log_ok_def)
qed

lemma all_rows_sequences:
  assumes "store_inv s" and "owned s pid uid"
  shows "map sr_change_sequence (all_rows pid s) = [1..change_seq_of pid s]"
proof -
  have len: "length (project_log pid s) = length (project_revisions pid s)"
    using owned_log_ok(2) [OF assms] by (metis length_map)
  have "map sr_change_sequence (all_rows pid s) =
      map2 (\<lambda>c r. cl_sequence c) (project_log pid s) (project_revisions pid s)"
    by (simp add: all_rows_def comp_def split_def)
  also have "\<dots> = map cl_sequence (project_log pid s)"
    using len by (rule map2_left)
  finally show ?thesis by (simp add: owned_log_ok(1) [OF assms])
qed

lemma pull_rows_eq:
  assumes "store_inv s" and "owned s pid uid"
  shows "pull_rows uid pid after s = filter (\<lambda>r. sr_change_sequence r > after) (all_rows pid s)"
proof -
  have log: "filter (\<lambda>c. cl_owner c = uid \<and> cl_project c = pid \<and> cl_sequence c > after) (change_log s)
      = filter (\<lambda>c. cl_sequence c > after) (project_log pid s)"
    using project_rows_owner(2) [OF assms] by (auto simp: project_log_def intro: filter_cong)
  have inner: "filter (\<lambda>r. rv_owner r = uid \<and> rv_id r = cl_revision_id c) (object_revisions s)
      = filter (\<lambda>r. rv_id r = cl_revision_id c) (object_revisions s)" if "c \<in> set (project_log pid s)" for c
  proof (rule filter_cong [OF refl])
    fix r assume r: "r \<in> set (object_revisions s)"
    show "(rv_owner r = uid \<and> rv_id r = cl_revision_id c) = (rv_id r = cl_revision_id c)"
    proof
      assume id: "rv_id r = cl_revision_id c"
      have "cl_revision_id c \<in> set (map rv_id (project_revisions pid s))"
        using that owned_log_ok(2) [OF assms] by (metis image_eqI list.set_map)
      then obtain r' where r': "r' \<in> set (project_revisions pid s)" "rv_id r' = cl_revision_id c" by auto
      with r id assms(1) have "r = r'"
        by (auto simp: store_inv_def keys_ok_def project_revisions_def intro: keyed_table_inj)
      with r' id project_rows_owner(1) [OF assms] show "rv_owner r = uid \<and> rv_id r = cl_revision_id c" by simp
    qed simp
  qed
  have join: "concat (map (\<lambda>c. map (record_of c) (filter (\<lambda>r. rv_owner r = uid \<and> rv_id r = cl_revision_id c)
      (object_revisions s))) (project_log pid s)) = all_rows pid s"
  proof -
    have "concat (map (\<lambda>c. map (record_of c) (filter (\<lambda>r. rv_owner r = uid \<and> rv_id r = cl_revision_id c)
        (object_revisions s))) (project_log pid s))
      = concat (map (\<lambda>c. map (record_of c) (filter (\<lambda>r. rv_id r = cl_revision_id c) (object_revisions s)))
          (project_log pid s))"
      using inner by (intro arg_cong [where f = concat] map_cong) simp_all
    also have "\<dots> = all_rows pid s"
      unfolding all_rows_def using assms(1)
      by (intro join_by_id [OF owned_log_ok(2) [OF assms]])
        (auto simp: store_inv_def keys_ok_def project_revisions_def)
    finally show ?thesis .
  qed
  have "sorted (map sr_change_sequence (filter (\<lambda>r. sr_change_sequence r > after) (all_rows pid s)))"
    using all_rows_sequences [OF assms] sorted_filter [of sr_change_sequence "all_rows pid s"]
    by (simp add: sorted_upto)
  moreover have "concat (map (\<lambda>c. map (record_of c) (filter (\<lambda>r. rv_owner r = uid \<and> rv_id r = cl_revision_id c)
      (object_revisions s))) (filter (\<lambda>c. cl_sequence c > after) (project_log pid s)))
      = filter (\<lambda>r. sr_change_sequence r > after) (all_rows pid s)"
    unfolding join [symmetric] by (rule concat_map_filter) auto
  ultimately show ?thesis by (simp add: pull_rows_def log sort_key_id_if_sorted)
qed

lemma join_by_id_flipped:
  assumes "map f cs = map g rs" and "distinct (map f cs)"
  shows "concat (map (\<lambda>r. map (\<lambda>c. h c r) (filter (\<lambda>c. f c = g r) cs)) rs) = map2 h cs rs"
proof -
  have "concat (map (\<lambda>r. map (\<lambda>c. h c r) (filter (\<lambda>c. f c = g r) cs)) rs) = map2 (\<lambda>r c. h c r) rs cs"
    using join_by_id [of g rs f cs cs "\<lambda>r c. h c r"] assms by simp
  also have "\<dots> = map2 h cs rs"
    by (induction rs cs rule: list_induct2') auto
  finally show ?thesis .
qed

lemma ranked_rows_eq:
  assumes "store_inv s" and "owned s pid uid"
  shows "ranked_rows (\<lambda>owner. owner = uid) pid n s =
    latest (filter (\<lambda>r. sr_change_sequence r \<le> n) (all_rows pid s))"
proof -
  have revs: "filter (\<lambda>r. rv_owner r = uid \<and> rv_project r = pid) (object_revisions s) = project_revisions pid s"
    using project_rows_owner(1) [OF assms] by (auto simp: project_revisions_def intro: filter_cong)
  have inner: "filter (\<lambda>c. cl_owner c = uid \<and> cl_revision_id c = rv_id r \<and> cl_project c = rv_project r
        \<and> cl_sequence c \<le> n) (change_log s)
      = filter (\<lambda>c. cl_sequence c \<le> n) (filter (\<lambda>c. cl_revision_id c = rv_id r) (project_log pid s))"
    if "r \<in> set (project_revisions pid s)" for r
    using that project_rows_owner(2) [OF assms]
    by (auto simp: project_revisions_def project_log_def intro: filter_cong)
  have "concat (map (\<lambda>r. map (\<lambda>c. record_of c r) (filter (\<lambda>c. cl_owner c = uid \<and> cl_revision_id c = rv_id r
        \<and> cl_project c = rv_project r \<and> cl_sequence c \<le> n) (change_log s))) (project_revisions pid s))
    = concat (map (\<lambda>r. filter (\<lambda>x. sr_change_sequence x \<le> n)
        (map (\<lambda>c. record_of c r) (filter (\<lambda>c. cl_revision_id c = rv_id r) (project_log pid s))))
        (project_revisions pid s))"
    using inner by (intro arg_cong [where f = concat] map_cong) (simp_all add: filter_map comp_def)
  also have "\<dots> = filter (\<lambda>x. sr_change_sequence x \<le> n) (all_rows pid s)"
  proof -
    have "distinct (map cl_revision_id (project_log pid s))"
      using assms(1) by (simp add: owned_log_ok(2) [OF assms] store_inv_def keys_ok_def project_revisions_def
          distinct_map_filter)
    note join = join_by_id_flipped [OF owned_log_ok(2) [OF assms] this, of record_of]
    show ?thesis
      unfolding all_rows_def join [symmetric] by (simp add: filter_concat comp_def)
  qed
  finally show ?thesis by (simp add: ranked_rows_def revs)
qed

subsection \<open>A client's copy\<close>

type_synonym replica = "string \<times> string \<Rightarrow> sync_record option"

definition wire_key :: "sync_record \<Rightarrow> string \<times> string" where
  "wire_key r = (sr_kind r, sr_id r)"

definition apply_records :: "replica \<Rightarrow> sync_record list \<Rightarrow> replica" where
  "apply_records m rs = fold (\<lambda>r m. m(wire_key r \<mapsto> r)) rs m"

lemma apply_records_eq:
  "apply_records m rs k =
    (let xs = filter (\<lambda>r. wire_key r = k) rs in if xs = [] then m k else Some (last xs))"
  by (induction rs rule: rev_induct) (auto simp: apply_records_def)

lemma apply_records_append: "apply_records m (xs @ ys) = apply_records (apply_records m xs) ys"
  by (simp add: apply_records_def)

definition ascending :: "sync_record list \<Rightarrow> bool" where
  "ascending rows \<longleftrightarrow> sorted_wrt (<) (map sr_change_sequence rows)"

lemma ascending_filter: "ascending rows \<Longrightarrow> ascending (filter P rows)"
  by (simp add: ascending_def strict_sorted_iff sorted_filter distinct_map_filter)

lemma greatest_is_last:
  "ascending xs \<Longrightarrow> xs \<noteq> [] \<Longrightarrow>
    filter (\<lambda>x. \<not> (\<exists>y \<in> set xs. sr_change_sequence y > sr_change_sequence x)) xs = [last xs]"
proof (induction xs rule: rev_induct)
  case (snoc z ys)
  then have less: "\<forall>y \<in> set ys. sr_change_sequence y < sr_change_sequence z"
    by (simp add: ascending_def sorted_wrt_append)
  then have "filter (\<lambda>x. \<not> (\<exists>y \<in> set (ys @ [z]). sr_change_sequence y > sr_change_sequence x)) ys = []"
    by (auto simp: filter_empty_conv)
  moreover from less have "\<not> (\<exists>y \<in> set (ys @ [z]). sr_change_sequence y > sr_change_sequence z)"
    by (auto simp: not_less dest: less_imp_le)
  ultimately show ?case by simp
qed simp

lemma latest_key:
  assumes "ascending rows"
  shows "filter (\<lambda>r. wire_key r = k) (latest rows) =
    (let xs = filter (\<lambda>r. wire_key r = k) rows in if xs = [] then [] else [last xs])"
proof -
  define xs where "xs = filter (\<lambda>r. wire_key r = k) rows"
  have "filter (\<lambda>r. wire_key r = k) (latest rows) =
      filter (\<lambda>x. \<not> (\<exists>y \<in> set xs. sr_change_sequence y > sr_change_sequence x)) xs"
    unfolding latest_def xs_def filter_filter
    by (rule filter_cong) (auto simp: list_ex_iff same_object_def wire_key_def)
  moreover have "ascending xs" unfolding xs_def by (rule ascending_filter [OF assms])
  ultimately show ?thesis
    using greatest_is_last [of xs] by (cases "xs = []") (simp_all add: Let_def flip: xs_def)
qed

lemma apply_latest:
  assumes "ascending rows"
  shows "apply_records m (sort_key f (sort_key g (latest rows))) = apply_records m rows"
proof
  fix k
  have "filter (\<lambda>r. wire_key r = k) (sort_key f (sort_key g (latest rows))) =
      sort_key f (sort_key g (filter (\<lambda>r. wire_key r = k) (latest rows)))"
    by (simp add: filter_sort)
  then show "apply_records m (sort_key f (sort_key g (latest rows))) k = apply_records m rows k"
    by (simp add: apply_records_eq latest_key [OF assms] Let_def)
qed

lemma all_rows_ascending:
  assumes "store_inv s" and "owned s pid uid" shows "ascending (all_rows pid s)"
  using all_rows_sequences [OF assms] by (simp add: ascending_def)

lemma split_ascending:
  assumes "ascending rows"
  shows "filter (\<lambda>r. sr_change_sequence r \<le> n) rows @ filter (\<lambda>r. sr_change_sequence r > n) rows = rows"
  using assms
proof (induction rows)
  case (Cons r rows)
  then have "ascending rows" by (simp add: ascending_def)
  moreover have "filter (\<lambda>r. sr_change_sequence r \<le> n) rows = []" if "sr_change_sequence r > n"
    using that Cons.prems by (auto simp: ascending_def filter_empty_conv)
  ultimately show ?case using Cons.IH by auto
qed simp

text \<open>What a client holds after a bootstrap at sequence \<open>n\<close> and all changes after it.\<close>

lemma bootstrap_then_pull:
  assumes "store_inv s" and "owned s pid uid"
  shows "apply_records (apply_records m (bootstrap_rows uid pid n s)) (pull_rows uid pid n s)
    = apply_records m (all_rows pid s)"
proof -
  note asc = all_rows_ascending [OF assms]
  show ?thesis
    by (simp add: bootstrap_rows_def ranked_rows_eq [OF assms] pull_rows_eq [OF assms]
        apply_latest [OF ascending_filter [OF asc]] split_ascending [OF asc] flip: apply_records_append)
qed

definition head_state :: "uuid \<Rightarrow> uuid \<Rightarrow> object_kind \<Rightarrow> string \<Rightarrow> db
    \<Rightarrow> (int \<times> int option \<times> string option \<times> bool) option" where
  "head_state uid pid k i s =
    Option.bind (find_head uid (pid, k, i) s) (\<lambda>h.
      map_option (\<lambda>r. (rv_revision r, rv_schema_version r, rv_hash r, rv_tombstone r))
        (List.find (\<lambda>r. rv_id r = h_revision_id h) (object_revisions s)))"

definition wire_state :: "sync_record \<Rightarrow> int \<times> int option \<times> string option \<times> bool" where
  "wire_state r = (sr_revision r, sr_schema_version r, sr_content_hash r, sr_tombstone r)"

lemma filter_map2:
  "length xs = length ys \<Longrightarrow> (\<And>x y. P (f x y) = Q y) \<Longrightarrow>
    \<exists>zs. length zs = length (filter Q ys) \<and> filter P (map2 f xs ys) = map2 f zs (filter Q ys)"
proof (induction xs ys rule: list_induct2)
  case (Cons x xs y ys)
  then obtain zs where zs: "length zs = length (filter Q ys)" "filter P (map2 f xs ys) = map2 f zs (filter Q ys)"
    by auto
  show ?case
  proof (cases "Q y")
    case True
    with zs Cons.prems show ?thesis by (intro exI [of _ "x # zs"]) simp
  next
    case False
    with zs Cons.prems show ?thesis by (intro exI [of _ zs]) simp
  qed
qed simp

lemma last_map2: "length zs = length ys \<Longrightarrow> ys \<noteq> [] \<Longrightarrow> last (map2 f zs ys) = f (last zs) (last ys)"
  by (induction zs ys rule: list_induct2) auto

lemma object_rows:
  assumes "store_inv s" and "owned s pid uid"
  shows "\<exists>cs. length cs = length (object_history (pid, k, i) s) \<and>
    filter (\<lambda>r. wire_key r = (kind_as_str k, i)) (all_rows pid s) = map2 record_of cs (object_history (pid, k, i) s)"
proof -
  have len: "length (project_log pid s) = length (project_revisions pid s)"
    using owned_log_ok(2) [OF assms] by (metis length_map)
  have "object_history (pid, k, i) s = filter (\<lambda>r. rv_kind r = k \<and> rv_object r = i) (project_revisions pid s)"
    by (auto simp: object_history_def project_revisions_def rev_key_def intro: filter_cong)
  then show ?thesis
    unfolding all_rows_def
    using filter_map2 [OF len, of "\<lambda>r. wire_key r = (kind_as_str k, i)" record_of "\<lambda>r. rv_kind r = k \<and> rv_object r = i"]
    by (simp add: wire_key_def kind_as_str_inj)
qed

text \<open>C7. Replica convergence: a client that applies the bootstrap as of any sequence \<open>n\<close> and then
  the changes pulled after \<open>n\<close> holds, for every object, the revision number, schema version,
  content hash and deletion mark of the object's head, and nothing for objects without one.\<close>

theorem replica_convergence:
  assumes "store_inv s" and "owned s pid uid"
  shows "map_option wire_state
      (apply_records (apply_records Map.empty (bootstrap_rows uid pid n s)) (pull_rows uid pid n s) (kind_as_str k, i))
    = head_state uid pid k i s"
proof -
  define rs where "rs = object_history (pid, k, i) s"
  from object_rows [OF assms] obtain cs where cs: "length cs = length rs"
    "filter (\<lambda>r. wire_key r = (kind_as_str k, i)) (all_rows pid s) = map2 record_of cs rs"
    unfolding rs_def by blast
  have head: "map_option (\<lambda>h. (h_revision h, h_revision_id h)) (find_head uid (pid, k, i) s)
      = (if rs = [] then None else Some (int (length rs), rv_id (last rs)))"
    using store_head [OF assms(1), of "(pid, k, i)"] assms
    by (simp add: find_head_owner rs_def Let_def)
  show ?thesis
  proof (cases "rs = []")
    case True
    with cs head show ?thesis
      by (simp add: bootstrap_then_pull [OF assms] apply_records_eq head_state_def)
  next
    case False
    then have "last rs \<in> set (object_revisions s)"
      using last_in_set [of rs] by (auto simp: rs_def object_history_def)
    then have "List.find (\<lambda>r. rv_id r = rv_id (last rs)) (object_revisions s) = Some (last rs)"
      using assms(1) by (intro keyed_table_find) (auto simp: store_inv_def keys_ok_def)
    moreover from False head obtain h where "find_head uid (pid, k, i) s = Some h"
      "h_revision_id h = rv_id (last rs)" by (auto split: if_splits)
    moreover from False cs have "cs \<noteq> []" by auto
    ultimately show ?thesis
      using False cs last_map2 [OF cs(1) False, of record_of]
      by (simp add: bootstrap_then_pull [OF assms] apply_records_eq head_state_def wire_state_def)
  qed
qed

theorem replica_convergence_witness:
  "map_option wire_state
      (apply_records (apply_records Map.empty (bootstrap_rows ''u'' ''p'' 1 sample_pushed))
        (pull_rows ''u'' ''p'' 1 sample_pushed) (kind_as_str Todo, ''t''))
    = head_state ''u'' ''p'' Todo ''t'' sample_pushed"
proof (rule replica_convergence)
  show "store_inv sample_pushed" by (rule sample_pushed_inv)
  show "owned sample_pushed ''p'' ''u''" by code_simp
qed

subsection \<open>Paging through the changes\<close>

text \<open>A client's loop: pull from its cursor until a page says that there is no more.\<close>

fun pull_all ::
    "nat \<Rightarrow> env \<Rightarrow> uuid \<Rightarrow> uuid \<Rightarrow> uuid \<Rightarrow> int \<Rightarrow> int \<Rightarrow> int \<Rightarrow> db \<Rightarrow> sync_record list option" where
  "pull_all 0 e uid did pid g after limit s = None"
| "pull_all (Suc fuel) e uid did pid g after limit s =
    (case pull_page e uid did pid g after limit s of
       (_, Inl _) \<Rightarrow> None
     | (s1, Inr page) \<Rightarrow>
         if pp_has_more page
         then map_option (\<lambda>rs. pp_records page @ rs)
                (pull_all fuel e uid did pid g (pp_next_sequence page) limit s1)
         else Some (pp_records page))"

lemma page_of_eq:
  assumes "0 \<le> limit" and "limit < i64_max"
  shows "page_of limit rows = Inr (take (nat limit) rows, length rows > nat limit)"
proof -
  have "i64_wrap (limit + 1) = limit + 1" using assms by (intro i64_wrap_id) auto
  moreover have "nat (limit + 1) = Suc (nat limit)" using assms by simp
  moreover have "int (length (take (Suc (nat limit)) rows)) > limit \<longleftrightarrow> length rows > nat limit"
    using assms by auto
  moreover have "butlast (take (Suc (nat limit)) rows) = take (nat limit) rows" if "length rows > nat limit"
    using that by (simp add: butlast_take)
  ultimately show ?thesis using assms by (auto simp: page_of_def Let_def)
qed

lemma pull_rows_devices [simp]: "pull_rows uid pid after (s\<lparr>devices := x\<rparr>) = pull_rows uid pid after s"
  by (simp add: pull_rows_def)

lemma project_state_devices [simp]: "project_state uid pid (s\<lparr>devices := x\<rparr>) = project_state uid pid s"
  by (simp add: project_state_def visible_projects_def)

lemma drop_ascending:
  assumes "ascending rows" and "m < length rows"
  shows "filter (\<lambda>r. sr_change_sequence r > sr_change_sequence (rows ! m)) rows = drop (Suc m) rows"
proof -
  have less: "sr_change_sequence (rows ! i) < sr_change_sequence (rows ! j)" if "i < j" "j < length rows" for i j
    using assms(1) that by (simp add: ascending_def sorted_wrt_iff_nth_less)
  have "\<not> sr_change_sequence r > sr_change_sequence (rows ! m)" if r: "r \<in> set (take (Suc m) rows)" for r
  proof -
    from r obtain i where i: "i \<le> m" "r = rows ! i" by (auto simp: in_set_conv_nth less_Suc_eq_le)
    then show ?thesis using less [of i m] assms(2) by (cases "i = m") auto
  qed
  then have "filter (\<lambda>r. sr_change_sequence r > sr_change_sequence (rows ! m)) (take (Suc m) rows) = []"
    by (simp add: filter_empty_conv)
  moreover have "filter (\<lambda>r. sr_change_sequence r > sr_change_sequence (rows ! m)) (drop (Suc m) rows) = drop (Suc m) rows"
    using less assms(2) by (auto simp: filter_id_conv in_set_conv_nth)
  moreover have "filter P rows = filter P (take (Suc m) rows) @ filter P (drop (Suc m) rows)" for P
    by (simp only: filter_append [symmetric] append_take_drop_id)
  ultimately show ?thesis by simp
qed

lemma pull_rows_after:
  assumes "store_inv s" and "owned s pid uid" and "m < length (pull_rows uid pid after s)"
  shows "pull_rows uid pid (sr_change_sequence (pull_rows uid pid after s ! m)) s
    = drop (Suc m) (pull_rows uid pid after s)"
proof -
  define rows where "rows = pull_rows uid pid after s"
  have asc: "ascending rows"
    unfolding rows_def pull_rows_eq [OF assms(1,2)]
    by (rule ascending_filter [OF all_rows_ascending [OF assms(1,2)]])
  define b where "b = sr_change_sequence (rows ! m)"
  have "rows ! m \<in> set rows" using assms(3) by (simp add: rows_def)
  then have "after < b" by (auto simp: rows_def pull_rows_eq [OF assms(1,2)] b_def)
  then have "pull_rows uid pid b s = filter (\<lambda>r. sr_change_sequence r > b) rows"
    by (auto simp: pull_rows_eq [OF assms(1,2)] rows_def intro: filter_cong)
  also have "\<dots> = drop (Suc m) rows"
    unfolding b_def using assms(3) by (intro drop_ascending asc) (simp add: rows_def)
  finally show ?thesis by (simp add: rows_def b_def)
qed

lemma length_pull_rows:
  assumes "store_inv s" and "owned s pid uid"
  shows "r \<in> set (pull_rows uid pid after s) \<Longrightarrow> after < sr_change_sequence r \<and> sr_change_sequence r \<le> change_seq_of pid s"
proof -
  assume "r \<in> set (pull_rows uid pid after s)"
  then have r: "r \<in> set (all_rows pid s)" "after < sr_change_sequence r"
    by (auto simp: pull_rows_eq [OF assms])
  then have "sr_change_sequence r \<in> set (map sr_change_sequence (all_rows pid s))" by simp
  with r show ?thesis by (simp add: all_rows_sequences [OF assms])
qed

lemma project_state_counter:
  assumes "store_inv s" and "project_state uid pid s = Inr (g, n)"
  shows "owned s pid uid \<and> n = change_seq_of pid s"
  using assms(2)
proof (rule project_stateD)
  fix p assume p: "p \<in> set (projects s)" "p_id p = pid" "p_owner p = uid" "p_change_seq p = n"
  then show ?thesis
    using assms(1) keyed_table_find [of p_id "projects s" p pid]
    by (auto simp: change_seq_of_def store_inv_def keys_ok_def owned_def list_ex_iff)
qed

lemma pull_page_run:
  assumes "project_state uid pid s = Inr (g, n)" and "0 \<le> after" and "after \<le> n"
    and "1 \<le> limit" and "limit < i64_max"
  shows "pull_page e uid did pid g after limit s =
    (s\<lparr>devices := update_where (\<lambda>d. d_id d = did \<and> d_owner d = uid) (touch_pull e) (devices s)\<rparr>,
     Inr \<lparr>pp_generation = g, pp_records = take (nat limit) (pull_rows uid pid after s),
       pp_has_more = (length (pull_rows uid pid after s) > nat limit),
       pp_next_sequence = (if take (nat limit) (pull_rows uid pid after s) = [] then after
         else sr_change_sequence (last (take (nat limit) (pull_rows uid pid after s))))\<rparr>)"
  using assms page_of_eq [of limit "pull_rows uid pid after s"]
  by (simp add: pull_page_def require_active_project_def)

lemma pull_page_next:
  assumes "store_inv s" and "project_state uid pid s = Inr (g, n)" and "1 \<le> limit"
    and more: "length (pull_rows uid pid after s) > nat limit"
    and nxt: "nxt = (if take (nat limit) (pull_rows uid pid after s) = [] then after
         else sr_change_sequence (last (take (nat limit) (pull_rows uid pid after s))))"
  shows "pull_rows uid pid nxt s = drop (nat limit) (pull_rows uid pid after s) \<and> after < nxt \<and> nxt \<le> n"
proof -
  define rows where "rows = pull_rows uid pid after s"
  from project_state_counter [OF assms(1,2)] have own: "owned s pid uid" and n: "n = change_seq_of pid s" by auto
  define m where "m = nat limit - 1"
  have m: "Suc m = nat limit" "m < length rows" using more assms(3) by (simp_all add: m_def rows_def)
  then have "last (take (nat limit) rows) = rows ! m" by (metis last_snoc take_Suc_conv_app_nth)
  moreover have "take (nat limit) rows \<noteq> []" using m by auto
  ultimately have at: "nxt = sr_change_sequence (rows ! m)" using nxt by (simp add: rows_def)
  have "rows ! m \<in> set rows" using m by simp
  then have "after < nxt" "nxt \<le> n"
    using length_pull_rows [OF assms(1) own] n by (auto simp: at rows_def)
  moreover have "pull_rows uid pid nxt s = drop (nat limit) rows"
    using pull_rows_after [OF assms(1) own, of m after] m by (simp add: at flip: rows_def)
  ultimately show ?thesis by (simp add: rows_def)
qed

text \<open>The number of pages of \<open>l\<close> rows that \<open>k\<close> rows need, one also when there is none.\<close>

abbreviation pages_of :: "nat \<Rightarrow> nat \<Rightarrow> nat" where
  "pages_of l k \<equiv> Suc ((k - 1) div l)"

lemma pages_of_more:
  assumes "0 < l" and "l < k"
  shows "pages_of l k = Suc (pages_of l (k - l))"
proof -
  have "k - 1 = (k - l - 1) + l" using assms by simp
  then have "(k - 1) div l = Suc ((k - l - 1) div l)" using assms by (metis div_add_self2 Suc_eq_plus1 neq0_conv)
  then show ?thesis by simp
qed

lemma pages_of_last: "k \<le> l \<Longrightarrow> pages_of l k = 1"
  by (cases "l = 0") (auto simp: div_eq_0_iff)

lemma pull_all_complete:
  assumes "store_inv s" and "project_state uid pid s = Inr (g, n)"
    and "0 \<le> after" and "after \<le> n" and "1 \<le> limit" and "limit < i64_max"
  shows "pull_all fuel e uid did pid g after limit s =
    (if pages_of (nat limit) (length (pull_rows uid pid after s)) \<le> fuel
     then Some (pull_rows uid pid after s) else None)"
  using assms
proof (induction fuel arbitrary: after s)
  case (Suc fuel)
  define rows where "rows = pull_rows uid pid after s"
  define s1 where "s1 = s\<lparr>devices := update_where (\<lambda>d. d_id d = did \<and> d_owner d = uid) (touch_pull e) (devices s)\<rparr>"
  define nxt where "nxt = (if take (nat limit) rows = [] then after else sr_change_sequence (last (take (nat limit) rows)))"
  note page = pull_page_run [OF Suc.prems(2-6), of e did, folded s1_def rows_def, folded nxt_def]
  show ?case
  proof (cases "length rows > nat limit")
    case False
    then have "pages_of (nat limit) (length rows) = 1" by (intro pages_of_last) simp
    then show ?thesis using False by (simp add: page flip: rows_def)
  next
    case True
    from pull_page_next [OF Suc.prems(1,2,5) True [unfolded rows_def], OF nxt_def [unfolded rows_def]]
    have rest: "pull_rows uid pid nxt s1 = drop (nat limit) rows" and nb: "after < nxt" "nxt \<le> n"
      unfolding rows_def [symmetric] by (simp_all add: s1_def)
    have inv1: "store_inv s1" using Suc.prems(1) store_inv_view [of s1 s] by (simp add: s1_def store_view_def)
    have pages: "pages_of (nat limit) (length rows) = Suc (pages_of (nat limit) (length rows - nat limit))"
      using Suc.prems(5) True by (intro pages_of_more) simp_all
    have "pull_all fuel e uid did pid g nxt limit s1 = (if pages_of (nat limit) (length (pull_rows uid pid nxt s1)) \<le> fuel
        then Some (pull_rows uid pid nxt s1) else None)"
      by (rule Suc.IH [OF inv1]) (use Suc.prems nb in \<open>simp_all add: s1_def\<close>)
    then show ?thesis using True pages by (simp add: page rest flip: rows_def)
  qed
qed simp

lemma filter_upto_greater: "0 \<le> (a::int) \<Longrightarrow> filter (\<lambda>x. x > a) [1..n] = [a + 1..n]"
proof (cases "a \<le> n")
  case True
  assume a: "0 \<le> a"
  have "[1..n] = [1..a] @ [a + 1..n]"
    using a True upto_split2 [of 1 a n] by (cases "a = 0") simp_all
  then have "filter (\<lambda>x. x > a) [1..n] = filter (\<lambda>x. x > a) ([1..a] @ [a + 1..n])" by simp
  also have "\<dots> = [a + 1..n]" by (auto simp: filter_id_conv filter_empty_conv)
  finally show ?thesis .
next
  case False
  then show ?thesis by (auto simp: filter_empty_conv)
qed

lemma pull_rows_sequences:
  assumes "store_inv s" and "owned s pid uid" and "0 \<le> after"
  shows "map sr_change_sequence (pull_rows uid pid after s) = [after + 1..change_seq_of pid s]"
proof -
  have "map sr_change_sequence (pull_rows uid pid after s)
      = filter (\<lambda>x. x > after) (map sr_change_sequence (all_rows pid s))"
    by (simp add: pull_rows_eq [OF assms(1,2)] filter_map comp_def)
  then show ?thesis by (simp add: all_rows_sequences [OF assms(1,2)] filter_upto_greater [OF assms(3)])
qed

text \<open>C8. Paging loses and repeats nothing and asks for no page too many: from any valid cursor and with
  any page size the client's loop needs exactly the missing changes divided by the page size, rounded
  up, as its number of pages (one page when nothing is missing). With fewer it has not ended, with
  that many or more it has received exactly the changes with the sequences after its cursor up to
  the counter, in order.\<close>

theorem pull_pages_complete:
  assumes "store_inv s" and "project_state uid pid s = Inr (g, n)"
    and "0 \<le> after" and "after \<le> n" and "1 \<le> limit" and "limit < i64_max"
  shows "pull_all fuel e uid did pid g after limit s =
      (if Suc ((nat (n - after) - 1) div nat limit) \<le> fuel then Some (pull_rows uid pid after s) else None)
    \<and> map sr_change_sequence (pull_rows uid pid after s) = [after + 1..n]"
proof -
  from project_state_counter [OF assms(1,2)] have own: "owned s pid uid" and n: "change_seq_of pid s = n" by auto
  note seqs = pull_rows_sequences [OF assms(1) own assms(3), unfolded n]
  have "length (pull_rows uid pid after s) = length [after + 1..n]"
    unfolding seqs [symmetric] by simp
  then have len: "length (pull_rows uid pid after s) = nat (n - after)" by simp
  from pull_all_complete [OF assms, of fuel e did] seqs show ?thesis unfolding len by simp
qed

theorem pull_pages_complete_witness:
  "\<exists>rows. pull_all 0 sample_env ''u'' ''d'' ''p'' 1 0 1 sample_pushed = None
    \<and> pull_all 1 sample_env ''u'' ''d'' ''p'' 1 0 1 sample_pushed = Some rows
    \<and> map sr_change_sequence rows = [1]"
proof -
  have "store_inv sample_pushed" by (rule sample_pushed_inv)
  moreover have "project_state ''u'' ''p'' sample_pushed = Inr (1, 1)" by code_simp
  ultimately show ?thesis
    using pull_pages_complete [of sample_pushed "''u''" "''p''" 1 1 0 1 0 sample_env "''d''"]
      pull_pages_complete [of sample_pushed "''u''" "''p''" 1 1 0 1 1 sample_env "''d''"]
    by (simp add: i64_max_def)
qed

subsection \<open>A bootstrap is a snapshot\<close>

lemma zip_append_same: "length xs = length ys \<Longrightarrow> zip (xs @ us) (ys @ vs) = zip xs ys @ zip us vs"
  by simp

lemma append_revision_rows:
  assumes inv: "store_inv s" and own: "owned s pid uid"
    and step: "append_revision e visible r s = Inr (s', n)"
  shows "\<exists>new. all_rows pid s' = all_rows pid s @ new
    \<and> (\<forall>x \<in> set new. sr_change_sequence x > change_seq_of pid s)"
  using step
proof (rule append_revisionE)
  fix p assume p: "p \<in> set (projects s)" "p_id p = rv_project r" "n = p_change_seq p + 1"
    and rv: "object_revisions s' = object_revisions s @ [r]"
    and cl: "change_log s' = change_log s @ [\<lparr>cl_project = rv_project r, cl_owner = rv_owner r,
           cl_sequence = n, cl_revision_id = rv_id r, cl_created_at = db_now e\<rparr>]"
  have len: "length (project_log pid s) = length (project_revisions pid s)"
    using owned_log_ok(2) [OF inv own] by (metis length_map)
  show ?thesis
  proof (cases "rv_project r = pid")
    case True
    then have "change_seq_of pid s = p_change_seq p"
      using p inv keyed_table_find [of p_id "projects s" p pid]
      by (simp add: change_seq_of_def store_inv_def keys_ok_def)
    with True len p show ?thesis
      by (simp add: all_rows_def project_log_append [OF cl] project_revisions_append [OF rv])
  next
    case False
    then show ?thesis
      by (simp add: all_rows_def project_log_append [OF cl] project_revisions_append [OF rv])
  qed
qed

lemma push_items_rows:
  assumes "push_pre uid pid s" and "push_items e uid did pid ids j revs s = Inr (s', results)"
    and "owned s q v"
  shows "\<exists>new. all_rows q s' = all_rows q s @ new \<and> (\<forall>x \<in> set new. sr_change_sequence x > change_seq_of q s)"
  using assms
proof (induction revs arbitrary: j s results)
  case (Cons r rs)
  then obtain s1 res rest where one: "push_item e uid did pid (ids j) r s = Inr (s1, res)"
    and more: "push_items e uid did pid ids (Suc j) rs s1 = Inr (s', rest)"
    by (auto simp: try_bind_eq_Inr)
  have pre1: "push_pre uid pid s1" using push_item_refines [OF Cons.prems(1) one] by simp
  have inv: "store_inv s" using Cons.prems(1) by (simp add: push_pre_def)
  from push_item_frame [OF one] have first: "owned s1 q v \<and> (\<exists>new. all_rows q s1 = all_rows q s @ new
      \<and> (\<forall>x \<in> set new. sr_change_sequence x > change_seq_of q s))"
  proof
    assume "s1 = s" with Cons.prems(3) show ?thesis by simp
  next
    assume "\<exists>row n. append_revision e (\<lambda>p. p_owner p = uid) row s = Inr (s1, n)"
    then obtain row n where app: "append_revision e (\<lambda>p. p_owner p = uid) row s = Inr (s1, n)" by blast
    from append_revision_rows [OF inv Cons.prems(3) app] append_revision_owned [OF app] Cons.prems(3)
    show ?thesis by simp
  qed
  then have own1: "owned s1 q v" and inv1: "store_inv s1" using pre1 by (auto simp: push_pre_def)
  obtain new where new: "all_rows q s1 = all_rows q s @ new" "\<forall>x \<in> set new. sr_change_sequence x > change_seq_of q s"
    using first by blast
  obtain new' where new': "all_rows q s' = all_rows q s1 @ new'" "\<forall>x \<in> set new'. sr_change_sequence x > change_seq_of q s1"
    using Cons.IH [OF pre1 more own1] by blast
  have "length (all_rows q s) \<le> length (all_rows q s1)" using new by simp
  moreover have "length (all_rows q s) = nat (change_seq_of q s)" "length (all_rows q s1) = nat (change_seq_of q s1)"
    using all_rows_sequences [OF inv Cons.prems(3)] all_rows_sequences [OF inv1 own1]
    by (metis length_map length_upto diff_add_cancel)+
  moreover have "0 \<le> change_seq_of q s" using change_seq_of_length [OF inv Cons.prems(3)] by simp
  moreover have "0 \<le> change_seq_of q s1" using change_seq_of_length [OF inv1 own1] by simp
  ultimately have "change_seq_of q s \<le> change_seq_of q s1" by simp
  with new new' show ?case by (intro exI [of _ "new @ new'"]) auto
qed simp

text \<open>C9. A bootstrap is a snapshot: the pages as of a sequence that the project has reached are
  the same after any later push to any project.\<close>

theorem bootstrap_stable:
  assumes "store_inv s" and "owned s q v" and "n \<le> change_seq_of q s"
  shows "bootstrap_rows v q n (fst (push_with_outcome tm e uid did pid ids expected key hash revs s))
    = bootstrap_rows v q n s"
proof -
  obtain s' out where run: "push_with_outcome tm e uid did pid ids expected key hash revs s = (s', out)"
    by (cases "push_with_outcome tm e uid did pid ids expected key hash revs s")
  have inv': "store_inv s'"
    using push_keeps_store_helper [OF assms(1) run] .
  have view: "all_rows q x = all_rows q y" if "store_view x = store_view y" for x y
    using that by (simp add: store_view_def all_rows_def project_log_def project_revisions_def)
  have "owned s' q v \<and> (\<exists>new. all_rows q s' = all_rows q s @ new
      \<and> (\<forall>x \<in> set new. sr_change_sequence x > change_seq_of q s))"
    using run
  proof (cases rule: push_cases)
    case replay
    with assms(2) view [OF replay(1)] owned_view [OF replay(1)] show ?thesis by simp
  next
    case (applied s0 g m response)
    from applied(6) obtain s1 results where items: "push_items e uid did pid ids 0 revs s0 = Inr (s1, results)"
      and v1: "store_view s' = store_view s1" by (rule apply_push_items)
    have pre: "push_pre uid pid s0" by (rule push_pre_after_guard [OF assms(1) applied(1,3)])
    have own0: "owned s0 q v" using assms(2) owned_view [OF applied(1)] by simp
    have seq0: "change_seq_of q s0 = change_seq_of q s"
      using applied(1) by (simp add: change_seq_of_def store_view_def)
    have "owned s1 q v" using push_items_owned [OF items] own0 by simp
    with push_items_rows [OF pre items own0] view [OF v1] view [OF applied(1)] seq0 owned_view [OF v1]
    show ?thesis by simp
  qed
  then obtain new where own': "owned s' q v" and new: "all_rows q s' = all_rows q s @ new"
    "\<forall>x \<in> set new. sr_change_sequence x > change_seq_of q s" by blast
  have "filter (\<lambda>r. sr_change_sequence r \<le> n) new = []"
    using new(2) assms(3) by (auto simp: filter_empty_conv)
  then have "bootstrap_rows v q n s' = bootstrap_rows v q n s"
    by (simp add: bootstrap_rows_def ranked_rows_eq [OF inv' own'] ranked_rows_eq [OF assms(1,2)] new(1))
  with run show ?thesis by simp
qed

theorem bootstrap_stable_witness:
  "bootstrap_rows ''u'' ''p'' 1 (fst (sample_push ''k2'' 1 ''z'' [sample_revision (Some 1)] sample_pushed))
    = bootstrap_rows ''u'' ''p'' 1 sample_pushed"
  unfolding sample_push_def
proof (rule bootstrap_stable)
  show "store_inv sample_pushed" by (rule sample_pushed_inv)
  show "owned sample_pushed ''p'' ''u''" by code_simp
  show "1 \<le> change_seq_of ''p'' sample_pushed" by code_simp
qed

subsection \<open>Manifests\<close>

lemma sync_record_roundtrip:
  "parse_uuid (sr_device_id r) = Some (sr_device_id r) \<Longrightarrow>
    sync_record_of_json parse_uuid (sync_record_json r) = Some r"
  by (cases "sr_schema_version r"; cases "sr_base_revision r"; cases "sr_content_hash r")
    (simp_all add: sync_record_of_json_def sync_record_json_def member_of_def optional_member_def)

lemma decode_all_roundtrip:
  "(\<And>x. x \<in> set xs \<Longrightarrow> dec (enc x) = Some x) \<Longrightarrow> decode_all dec (map enc xs) = Some xs"
  by (induction xs) auto

lemma manifest_slice_eq:
  "manifest_slice offset limit rs =
    (take (nat limit) (drop (nat offset) rs), nat offset + nat limit < length rs)"
  by (auto simp: manifest_slice_def Let_def max_def)

lemma complete_bootstrap_marks:
  assumes "list_ex (\<lambda>d. d_id d = did \<and> d_owner d = uid) (devices s)" and "0 \<le> seq" and "0 < g"
    and own: "\<forall>c \<in> set (bootstrap_completions s). bc_project c = pid \<longrightarrow> bc_owner c = uid"
  shows "\<exists>s'. complete_bootstrap uid did pid g seq s = Inr s' \<and> is_bootstrapped uid did pid g s'"
proof -
  obtain s' where s': "complete_bootstrap uid did pid g seq s = Inr s'"
    using assms by (simp add: complete_bootstrap_def)
  have "is_bootstrapped uid did pid g s'"
  proof (cases "list_ex (same_completion pid did g) (bootstrap_completions s)")
    case True
    then obtain c where c: "c \<in> set (bootstrap_completions s)" "same_completion pid did g c"
      by (auto simp: list_ex_iff)
    then have "c\<lparr>bc_sequence := seq\<rparr> \<in> set (bootstrap_completions s')"
      using True s' by (auto simp: complete_bootstrap_def set_update_where split: if_splits)
    moreover have "bc_owner c = uid" using c own by (auto simp: same_completion_def)
    ultimately show ?thesis
      using c(2) unfolding is_bootstrapped_def list_ex_iff
      by (intro bexI [of _ "c\<lparr>bc_sequence := seq\<rparr>"]) (simp_all add: same_completion_def)
  next
    case False
    with s' show ?thesis by (auto simp: complete_bootstrap_def is_bootstrapped_def split: if_splits)
  qed
  with s' show ?thesis by blast
qed

text \<open>A page of a stored manifest is a slice of exactly the records that were captured: what
  \<open>record_bootstrap_manifest\<close> wrote, \<open>bootstrap_manifest_page\<close> decodes back, and the device may
  push only from the page that reaches the end.\<close>

theorem manifest_page_is_slice:
  assumes "record_bootstrap_manifest e uid pid m bucket key s = (s1, Inr ())"
    and "db_now e2 < db_now e + hours 24" and "project_state uid pid s = Inr (mf_generation m, n)"
    and "mf_snapshot_sequence m \<le> n" and "0 \<le> offset"
    and "\<forall>x \<in> set (bootstrap_manifests s). bm_id x \<noteq> mf_id m"
    and "\<forall>r \<in> set (mf_records m). parse_uuid (sr_device_id r) = Some (sr_device_id r)"
    and "list_ex (\<lambda>d. d_id d = did \<and> d_owner d = uid) (devices s)"
    and "\<forall>c \<in> set (bootstrap_completions s). bc_project c = pid \<longrightarrow> bc_owner c = uid"
  shows "\<exists>s2 page. bootstrap_manifest_page parse_uuid e2 uid did pid (mf_id m) offset limit s1 = (s2, Inr page)
    \<and> bp_records page = take (nat limit) (drop (nat offset) (mf_records m))
    \<and> bp_has_more page = (nat offset + nat limit < length (mf_records m))
    \<and> is_bootstrapped uid did pid (mf_generation m) s2
        = (is_bootstrapped uid did pid (mf_generation m) s \<or> \<not> bp_has_more page)"
proof -
  define row where "row = \<lparr>bm_id = mf_id m, bm_project = pid, bm_owner = uid, bm_generation = mf_generation m,
    bm_sequence = mf_snapshot_sequence m, bm_hash = mf_hash m, bm_bucket = bucket, bm_key = key,
    bm_manifest = manifest_json (mf_id m) pid (mf_generation m) (mf_snapshot_sequence m)
      (map sync_record_json (mf_records m)), bm_expires_at = db_now e + hours 24\<rparr>"
  from assms(1) have ins: "insert_manifest row s = Inr s1"
    by (cases "insert_manifest row s")
      (auto simp: record_bootstrap_manifest_def as_conflict_def simp flip: row_def)
  then have s1: "s1 = s\<lparr>bootstrap_manifests := bootstrap_manifests s @ [row]\<rparr>"
    and pos: "0 \<le> mf_snapshot_sequence m" "0 < mf_generation m"
    by (auto simp: insert_manifest_def row_def split: if_splits)
  have "List.find (\<lambda>x. bm_id x = mf_id m \<and> bm_project x = pid \<and> bm_owner x = uid \<and> bm_expires_at x > db_now e2)
      (bootstrap_manifests s) = None"
    using assms(6) by (auto simp: find_None_iff)
  then have f: "List.find (\<lambda>x. bm_id x = mf_id m \<and> bm_project x = pid \<and> bm_owner x = uid \<and> bm_expires_at x > db_now e2)
      (bootstrap_manifests s1) = Some row"
    using assms(2) by (simp add: s1 find_append row_def)
  have st: "project_state uid pid s1 = Inr (mf_generation m, n)"
    using assms(3) by (simp add: s1 project_state_def visible_projects_def)
  have dec: "manifest_records parse_uuid (bm_manifest row) = Some (mf_records m)"
    using assms(7) by (simp add: manifest_records_def row_def manifest_json_def decode_all_roundtrip sync_record_roundtrip)
  obtain s3 where s3: "complete_bootstrap uid did pid (mf_generation m) (mf_snapshot_sequence m) s1 = Inr s3"
    "is_bootstrapped uid did pid (mf_generation m) s3"
    using complete_bootstrap_marks [of did uid s1 "mf_snapshot_sequence m" "mf_generation m" pid] assms(8,9) pos
    by (auto simp: s1)
  have same: "is_bootstrapped uid did pid (mf_generation m) s1 = is_bootstrapped uid did pid (mf_generation m) s"
    by (simp add: s1 is_bootstrapped_def)
  have row: "bm_generation row = mf_generation m" "bm_sequence row = mf_snapshot_sequence m" by (simp_all add: row_def)
  show ?thesis
    using assms(4,5) s3 same
    by (auto simp: bootstrap_manifest_page_def require_active_project_def st f dec row manifest_slice_eq)
qed

definition sample_manifest :: bootstrap_manifest where
  "sample_manifest = projr (snd (prepare_bootstrap_manifest (\<lambda>_. []) (\<lambda>_. ''h'') ''u'' ''p'' ''m'' sample_pushed))"

theorem manifest_page_is_slice_witness:
  "\<exists>s1 s2 page. bootstrap_manifest_page Some sample_env ''u'' ''d'' ''p'' ''m'' 0 5 s1 = (s2, Inr page)
    \<and> bp_records page = mf_records sample_manifest \<and> length (bp_records page) = 1"
proof -
  have m: "mf_generation sample_manifest = 1" "mf_snapshot_sequence sample_manifest = 1"
    "mf_id sample_manifest = ''m''" "length (mf_records sample_manifest) = 1"
    by code_simp+
  have "snd (record_bootstrap_manifest sample_env ''u'' ''p'' sample_manifest ''b'' ''k'' sample_pushed) = Inr ()"
    by code_simp
  then have run: "record_bootstrap_manifest sample_env ''u'' ''p'' sample_manifest ''b'' ''k'' sample_pushed
      = (fst (record_bootstrap_manifest sample_env ''u'' ''p'' sample_manifest ''b'' ''k'' sample_pushed), Inr ())"
    by (simp add: prod_eq_iff)
  have st: "project_state ''u'' ''p'' sample_pushed = Inr (1, 1)" by code_simp
  have rest: "bootstrap_manifests sample_pushed = []"
    "list_ex (\<lambda>d. d_id d = ''d'' \<and> d_owner d = ''u'') (devices sample_pushed)"
    "list_all (\<lambda>c. bc_project c = ''p'' \<longrightarrow> bc_owner c = ''u'') (bootstrap_completions sample_pushed)"
    by code_simp+
  have "db_now sample_env < db_now sample_env + hours 24" by (simp add: duration_defs)
  from manifest_page_is_slice [OF run this, of 1 0 Some "''d''" 5] st rest m
  obtain s2 page where p: "bootstrap_manifest_page Some sample_env ''u'' ''d'' ''p'' ''m'' 0 5
      (fst (record_bootstrap_manifest sample_env ''u'' ''p'' sample_manifest ''b'' ''k'' sample_pushed)) = (s2, Inr page)"
    "bp_records page = take 5 (mf_records sample_manifest)"
    by (auto simp: list_all_iff)
  with m(4) show ?thesis by (intro exI conjI) (assumption, simp_all)
qed

end
