(* ===== verification/Sessions.thy ===== *)
theory Sessions
  imports Schema
begin

text \<open>
  Login sessions and devices (\<open>crates/persistence/src/lib.rs\<close>): refresh tokens in families with
  rotation, the grace window for concurrent rotations, reuse detection, logout, access
  validation, password change, the devices of an account and the one-time nonces that
  re-authenticate an administrator.
\<close>

subsection \<open>Refresh tokens\<close>

definition refresh_rotation_grace_seconds :: int where
  "refresh_rotation_grace_seconds = 30"

definition refresh_family_active_limit :: int where
  "refresh_family_active_limit = 4"

record new_refresh_token =
  nt_hash :: bytes
  nt_family :: uuid
  nt_expires_at :: instant

record session_record =
  ss_user :: user_row
  ss_device :: uuid
  ss_family :: uuid

definition device_json :: "uuid \<Rightarrow> json" where
  "device_json device_id = JObj [(''deviceId'', JStr device_id)]"

definition insert_refresh :: "uuid \<Rightarrow> uuid \<Rightarrow> new_refresh_token \<Rightarrow> db \<Rightarrow> db outcome" where
  "insert_refresh user_id device_id refresh s =
    (if list_ex (\<lambda>t. rt_hash t = nt_hash refresh) (refresh_tokens s)
        \<or> \<not> list_ex (\<lambda>d. d_id d = device_id \<and> d_owner d = user_id) (devices s)
     then Inl Database
     else Inr (s\<lparr>refresh_tokens := refresh_tokens s @
       [\<lparr>rt_user = user_id, rt_device = device_id, rt_hash = nt_hash refresh,
         rt_family = nt_family refresh, rt_expires_at = nt_expires_at refresh,
         rt_used_at = None, rt_revoked_at = None\<rparr>]\<rparr>))"

text \<open>\<open>SET revoked_at = COALESCE(revoked_at, CURRENT_TIMESTAMP)\<close>, and the other SET clauses.\<close>

definition revoke_token :: "env \<Rightarrow> refresh_row \<Rightarrow> refresh_row" where
  "revoke_token e t = (case rt_revoked_at t of None \<Rightarrow> t\<lparr>rt_revoked_at := Some (db_now e)\<rparr> | Some _ \<Rightarrow> t)"

definition use_token :: "env \<Rightarrow> refresh_row \<Rightarrow> refresh_row" where
  "use_token e t = t\<lparr>rt_used_at := Some (db_now e), rt_revoked_at := Some (db_now e)\<rparr>"

definition touch_seen :: "env \<Rightarrow> device_row \<Rightarrow> device_row" where
  "touch_seen e d = d\<lparr>d_last_seen_at := Some (db_now e)\<rparr>"

definition touch_login :: "env \<Rightarrow> device_row \<Rightarrow> device_row" where
  "touch_login e d = d\<lparr>d_last_seen_at := Some (db_now e), d_last_login_at := Some (db_now e)\<rparr>"

definition create_login_session ::
    "env \<Rightarrow> uuid \<Rightarrow> uuid \<Rightarrow> new_refresh_token \<Rightarrow> string \<Rightarrow> session_record txn" where
  "create_login_session e user_id device_id refresh request_id s =
    (case try_bind (lock_active_user user_id s) (\<lambda>user.
          try_bind (ensure_device e user_id device_id s) (\<lambda>s1.
          try_bind (insert_refresh user_id device_id refresh s1) (\<lambda>s2.
          Inr (user, s2)))) of
       Inl er \<Rightarrow> (s, Inl er)
     | Inr (user, s2) \<Rightarrow>
         (insert_audit e user_id (Some user_id) ''auth.login'' (device_json device_id) request_id
            (s2\<lparr>users := update_where (\<lambda>u. u_id u = user_id)
                   (\<lambda>u. u\<lparr>u_last_login_at := Some (db_now e)\<rparr>) (users s2),
                devices := update_where (\<lambda>d. d_id d = device_id \<and> d_owner d = user_id)
                   (touch_login e) (devices s2)\<rparr>),
          Inr \<lparr>ss_user = user\<lparr>u_last_login_at := Some (app_now e)\<rparr>, ss_device = device_id,
            ss_family = nt_family refresh\<rparr>))"

subsection \<open>Rotation\<close>

text \<open>The condition of the \<open>SELECT COUNT(*)\<close> over a family, as of an instant.\<close>

definition active_token :: "instant \<Rightarrow> refresh_row \<Rightarrow> bool" where
  "active_token now t \<longleftrightarrow> rt_used_at t = None \<and> rt_revoked_at t = None \<and> rt_expires_at t > now"

definition active_members :: "instant \<Rightarrow> uuid \<Rightarrow> db \<Rightarrow> nat" where
  "active_members now family s =
    rows_affected (\<lambda>t. rt_family t = family \<and> active_token now t) (refresh_tokens s)"

definition in_grace_window :: "env \<Rightarrow> refresh_row \<Rightarrow> bool" where
  "in_grace_window e t =
    (case rt_used_at t of None \<Rightarrow> False
     | Some used \<Rightarrow> app_now e - used \<le> seconds refresh_rotation_grace_seconds)"

definition family_healthy :: "env \<Rightarrow> refresh_row \<Rightarrow> db \<Rightarrow> bool" where
  "family_healthy e t s \<longleftrightarrow>
     in_grace_window e t
   \<and> active_members (db_now e) (rt_family t) s > 0
   \<and> int (active_members (db_now e) (rt_family t) s) < refresh_family_active_limit"

definition revoke_family :: "env \<Rightarrow> uuid \<Rightarrow> db \<Rightarrow> db" where
  "revoke_family e family s =
    s\<lparr>refresh_tokens := update_where (\<lambda>t. rt_family t = family) (revoke_token e) (refresh_tokens s)\<rparr>"

text \<open>
  The branch for a token that was used or revoked and whose family gets no grace: the family is
  revoked and the failure audited, both committed although the call fails.
\<close>

definition detect_reuse :: "env \<Rightarrow> refresh_row \<Rightarrow> string option \<Rightarrow> string \<Rightarrow> db \<Rightarrow> db" where
  "detect_reuse e t expected_role request_id s =
    insert_audit_nullable e (Some (rt_user t)) (Some (rt_user t)) ''auth.refresh_failed''
      (JObj [(''reason'', JStr ''token_reuse''),
        (''source'', JStr (case expected_role of None \<Rightarrow> ''refresh'' | Some r \<Rightarrow> r)),
        (''deviceId'', JStr (rt_device t))]) request_id (revoke_family e (rt_family t) s)"

text \<open>The branch that issues the replacement; \<open>grace\<close> leaves the presented token as it is.\<close>

definition issue_replacement ::
    "env \<Rightarrow> refresh_row \<Rightarrow> new_refresh_token \<Rightarrow> bool \<Rightarrow> string option \<Rightarrow> string \<Rightarrow> session_record txn" where
  "issue_replacement e t replacement grace expected_role request_id s =
    (case try_bind (lock_active_user (rt_user t) s) (\<lambda>user.
          if (case expected_role of None \<Rightarrow> False | Some expected \<Rightarrow> role_as_str (u_role user) \<noteq> expected)
          then Inl InvalidRefreshToken
          else try_bind (ensure_existing_device (rt_user t) (rt_device t) s) (\<lambda>_.
            let s1 = (if grace then s
                      else s\<lparr>refresh_tokens := update_where (\<lambda>x. rt_hash x = rt_hash t)
                               (use_token e) (refresh_tokens s)\<rparr>) in
            try_bind (insert_refresh (rt_user t) (rt_device t)
                        (replacement\<lparr>nt_family := rt_family t\<rparr>) s1) (\<lambda>s2. Inr (user, s2)))) of
       Inl er \<Rightarrow> (s, Inl er)
     | Inr (user, s2) \<Rightarrow>
         (insert_audit e (rt_user t) (Some (rt_user t)) ''auth.refresh''
            (JObj [(''deviceId'', JStr (rt_device t)), (''graceRotation'', JBool grace)]) request_id
            (s2\<lparr>devices := update_where (\<lambda>d. d_id d = rt_device t) (touch_seen e) (devices s2)\<rparr>),
          Inr \<lparr>ss_user = user, ss_device = rt_device t, ss_family = rt_family t\<rparr>))"

definition rotate_refresh_token_inner ::
    "env \<Rightarrow> bytes \<Rightarrow> new_refresh_token \<Rightarrow> string option \<Rightarrow> string \<Rightarrow> session_record txn" where
  "rotate_refresh_token_inner e old_token_hash replacement expected_role request_id s =
    (case List.find (\<lambda>t. rt_hash t = old_token_hash) (refresh_tokens s) of
       None \<Rightarrow> (s, Inl InvalidRefreshToken)
     | Some t \<Rightarrow>
         (let spent = (rt_used_at t \<noteq> None \<or> rt_revoked_at t \<noteq> None) in
          if spent \<and> \<not> family_healthy e t s
          then (detect_reuse e t expected_role request_id s, Inl RefreshTokenReuse)
          else if rt_expires_at t \<le> app_now e then (s, Inl InvalidRefreshToken)
          else issue_replacement e t replacement spent expected_role request_id s))"

definition rotate_refresh_token ::
    "env \<Rightarrow> bytes \<Rightarrow> new_refresh_token \<Rightarrow> string \<Rightarrow> session_record txn" where
  "rotate_refresh_token e old_token_hash replacement request_id s =
    rotate_refresh_token_inner e old_token_hash replacement None request_id s"

definition rotate_refresh_token_for_role ::
    "env \<Rightarrow> bytes \<Rightarrow> new_refresh_token \<Rightarrow> string \<Rightarrow> string \<Rightarrow> session_record txn" where
  "rotate_refresh_token_for_role e old_token_hash replacement expected_role request_id s =
    rotate_refresh_token_inner e old_token_hash replacement (Some expected_role) request_id s"

subsection \<open>Logout, access, password\<close>

definition logout_device :: "env \<Rightarrow> uuid \<Rightarrow> uuid \<Rightarrow> string \<Rightarrow> unit txn" where
  "logout_device e user_id device_id request_id s =
    (insert_audit e user_id (Some user_id) ''auth.logout'' (device_json device_id) request_id
      (s\<lparr>refresh_tokens := update_where (\<lambda>t. rt_user t = user_id \<and> rt_device t = device_id)
           (revoke_token e) (refresh_tokens s)\<rparr>), Inr ())"

definition logout_device_by_refresh_token :: "env \<Rightarrow> bytes \<Rightarrow> string \<Rightarrow> unit txn" where
  "logout_device_by_refresh_token e token_hash request_id s =
    (case List.find (\<lambda>t. rt_hash t = token_hash) (refresh_tokens s) of
       None \<Rightarrow> (s, Inr ())
     | Some token \<Rightarrow>
         (let live = (\<lambda>t. rt_user t = rt_user token \<and> rt_device t = rt_device token
                        \<and> rt_revoked_at t = None);
              s1 = s\<lparr>refresh_tokens := update_where live
                       (\<lambda>t. t\<lparr>rt_revoked_at := Some (db_now e)\<rparr>) (refresh_tokens s)\<rparr> in
          (if rows_affected live (refresh_tokens s) > 0
           then insert_audit e (rt_user token) (Some (rt_user token)) ''auth.web.logout''
                  (device_json (rt_device token)) request_id s1
           else s1, Inr ())))"

definition validate_access :: "env \<Rightarrow> uuid \<Rightarrow> uuid \<Rightarrow> string \<Rightarrow> unit txn" where
  "validate_access e user_id device_id token_role s =
    (case try_bind (lock_active_user user_id s) (\<lambda>user.
          if role_as_str (u_role user) \<noteq> token_role then Inl InvalidRefreshToken
          else ensure_existing_device user_id device_id s) of
       Inl er \<Rightarrow> (s, Inl er)
     | Inr _ \<Rightarrow> (s\<lparr>devices := update_where (\<lambda>d. d_id d = device_id) (touch_seen e) (devices s)\<rparr>, Inr ()))"

definition change_password :: "env \<Rightarrow> uuid \<Rightarrow> string \<Rightarrow> unit txn" where
  "change_password e user_id password_hash s =
    (if rows_affected (\<lambda>u. u_id u = user_id) (users s) \<noteq> 1 then (s, Inl NotFound)
     else (s\<lparr>users := update_where (\<lambda>u. u_id u = user_id)
                (\<lambda>u. u\<lparr>u_password_hash := password_hash\<rparr>) (users s),
             refresh_tokens := update_where (\<lambda>t. rt_user t = user_id) (revoke_token e)
                (refresh_tokens s)\<rparr>, Inr ()))"

subsection \<open>Devices\<close>

record device_profile =
  dp_display_name :: string
  dp_platform :: string
  dp_app_version :: string

definition apply_profile :: "env \<Rightarrow> device_profile \<Rightarrow> device_row \<Rightarrow> device_row" where
  "apply_profile e profile d = d\<lparr>d_display_name := dp_display_name profile,
     d_platform := dp_platform profile, d_app_version := dp_app_version profile,
     d_last_seen_at := Some (db_now e)\<rparr>"

text \<open>
  \<open>INSERT ... ON CONFLICT (id) DO UPDATE ... WHERE devices.revoked_at IS NULL\<close>: an existing row
  of another account is rejected by its row-level security policy, a revoked one is not
  returned.
\<close>

definition register_device :: "env \<Rightarrow> uuid \<Rightarrow> uuid \<Rightarrow> device_profile \<Rightarrow> device_row txn" where
  "register_device e user_id device_id profile s =
    (case List.find (\<lambda>d. d_id d = device_id) (devices s) of
       None \<Rightarrow>
         (let d = apply_profile e profile (new_device e user_id device_id) in
          (s\<lparr>devices := devices s @ [d]\<rparr>, Inr d))
     | Some d \<Rightarrow>
         if d_owner d \<noteq> user_id then (s, Inl Database)
         else if d_revoked_at d \<noteq> None then (s, Inl DeviceRevoked)
         else (s\<lparr>devices := update_where (\<lambda>d. d_id d = device_id) (apply_profile e profile) (devices s)\<rparr>,
               Inr (apply_profile e profile d)))"

definition rename_device :: "string \<Rightarrow> device_row \<Rightarrow> device_row" where
  "rename_device display_name d = d\<lparr>d_display_name := display_name\<rparr>"

definition update_device :: "uuid \<Rightarrow> uuid \<Rightarrow> string \<Rightarrow> device_row txn" where
  "update_device user_id device_id display_name s =
    (case List.find (\<lambda>d. d_id d = device_id \<and> d_owner d = user_id \<and> d_revoked_at d = None) (devices s) of
       None \<Rightarrow> (s, Inl NotFound)
     | Some d \<Rightarrow>
         (s\<lparr>devices := update_where (\<lambda>d. d_id d = device_id \<and> d_owner d = user_id \<and> d_revoked_at d = None)
              (rename_device display_name) (devices s)\<rparr>,
          Inr (rename_device display_name d)))"

definition revoke_device_row :: "env \<Rightarrow> device_row \<Rightarrow> device_row" where
  "revoke_device_row e d =
    (case d_revoked_at d of None \<Rightarrow> d\<lparr>d_revoked_at := Some (db_now e)\<rparr> | Some _ \<Rightarrow> d)"

definition revoke_device :: "env \<Rightarrow> uuid \<Rightarrow> uuid \<Rightarrow> string \<Rightarrow> device_row txn" where
  "revoke_device e user_id device_id request_id s =
    (case List.find (\<lambda>d. d_id d = device_id \<and> d_owner d = user_id) (devices s) of
       None \<Rightarrow> (s, Inl NotFound)
     | Some d \<Rightarrow>
         (insert_audit e user_id (Some user_id) ''device.revoked''
            (JObj [(''deviceId'', JStr device_id), (''source'', JStr ''user'')]) request_id
            (s\<lparr>devices := update_where (\<lambda>d. d_id d = device_id \<and> d_owner d = user_id)
                  (revoke_device_row e) (devices s),
               refresh_tokens := update_where (\<lambda>t. rt_user t = user_id \<and> rt_device t = device_id)
                  (revoke_token e) (refresh_tokens s)\<rparr>),
          Inr (revoke_device_row e d)))"

subsection \<open>Re-authentication nonces\<close>

definition create_reauth_nonce :: "env \<Rightarrow> uuid \<Rightarrow> uuid \<Rightarrow> bytes \<Rightarrow> instant \<Rightarrow> unit txn" where
  "create_reauth_nonce e actor device_id nonce_hash expires_at s =
    (case verify_admin actor s of
       Inl er \<Rightarrow> (s, Inl er)
     | Inr _ \<Rightarrow>
         (let live = delete_where (\<lambda>n. an_expires_at n \<le> db_now e) (reauth_nonces s) in
          if list_ex (\<lambda>n. an_hash n = nonce_hash) live then (s, Inl Conflict)
          else if \<not> list_ex (\<lambda>d. d_id d = device_id \<and> d_owner d = actor) (devices s) then (s, Inl Database)
          else (s\<lparr>reauth_nonces := live @ [\<lparr>an_hash = nonce_hash, an_user = actor,
                  an_device = device_id, an_expires_at = expires_at\<rparr>]\<rparr>, Inr ())))"

definition nonce_matches :: "env \<Rightarrow> uuid \<Rightarrow> uuid \<Rightarrow> bytes \<Rightarrow> nonce_row \<Rightarrow> bool" where
  "nonce_matches e actor device_id nonce_hash n \<longleftrightarrow>
     an_hash n = nonce_hash \<and> an_user n = actor \<and> an_device n = device_id \<and> an_expires_at n > db_now e"

definition consume_reauth_nonce :: "env \<Rightarrow> uuid \<Rightarrow> uuid \<Rightarrow> bytes \<Rightarrow> bool txn" where
  "consume_reauth_nonce e actor device_id nonce_hash s =
    (case verify_admin actor s of
       Inl er \<Rightarrow> (s, Inl er)
     | Inr _ \<Rightarrow>
         (s\<lparr>reauth_nonces := delete_where (nonce_matches e actor device_id nonce_hash) (reauth_nonces s)\<rparr>,
          Inr (rows_affected (nonce_matches e actor device_id nonce_hash) (reauth_nonces s) = 1)))"

definition revoke_reauth_nonces :: "uuid \<Rightarrow> uuid \<Rightarrow> unit txn" where
  "revoke_reauth_nonces actor device_id s =
    (case verify_admin actor s of
       Inl er \<Rightarrow> (s, Inl er)
     | Inr _ \<Rightarrow>
         (s\<lparr>reauth_nonces := delete_where (\<lambda>n. an_user n = actor \<and> an_device n = device_id)
              (reauth_nonces s)\<rparr>, Inr ()))"

interpretation revoke_token: key_update rt_hash "revoke_token e" for e
  by unfold_locales (simp add: revoke_token_def split: option.splits)

interpretation use_token: key_update rt_hash "use_token e" for e
  by unfold_locales (simp add: use_token_def)

interpretation touch_seen: key_update d_id "touch_seen e" for e
  by unfold_locales (simp add: touch_seen_def)

interpretation touch_login: key_update d_id "touch_login e" for e
  by unfold_locales (simp add: touch_login_def)

interpretation apply_profile: key_update d_id "apply_profile e profile" for e profile
  by unfold_locales (simp add: apply_profile_def)

interpretation rename_device: key_update d_id "rename_device name" for name
  by unfold_locales (simp add: rename_device_def)

interpretation revoke_device_row: key_update d_id "revoke_device_row e" for e
  by unfold_locales (simp add: revoke_device_row_def split: option.splits)

end
