(* ===== verification/Sessions_Props.thy ===== *)
theory Sessions_Props
  imports Sessions Sample
begin

text \<open>
  What the session operations promise: a family of refresh tokens never has more than four
  members that could be used, a replayed token ends its family for good, revocations take
  effect, and a session is only ever given to an active account on an unrevoked device.
\<close>

subsection \<open>Counting the usable members of a family\<close>

lemma rows_affected_update_le:
  "(\<And>r. Q r \<Longrightarrow> P (f r) \<Longrightarrow> P r) \<Longrightarrow> rows_affected P (update_where Q f t) \<le> rows_affected P t"
  by (induction t) (auto simp: rows_affected_def)

lemma rows_affected_update_less:
  assumes "\<And>r. Q r \<Longrightarrow> \<not> P (f r)" and "r \<in> set t" and "Q r" and "P r"
  shows "rows_affected P (update_where Q f t) < rows_affected P t"
  using assms(2-4)
proof (induction t)
  case (Cons x t)
  have le: "rows_affected P (update_where Q f t) \<le> rows_affected P t"
    by (rule rows_affected_update_le) (use assms(1) in blast)
  show ?case
  proof (cases "x = r")
    case True
    with le Cons.prems assms(1) show ?thesis by (simp add: rows_affected_def)
  next
    case False
    with Cons.prems have "r \<in> set t" by simp
    with Cons.IH Cons.prems assms(1) show ?thesis by (auto simp: rows_affected_def)
  qed
qed simp

definition family_bounded :: "instant \<Rightarrow> db \<Rightarrow> bool" where
  "family_bounded now s \<longleftrightarrow> (\<forall>family. int (active_members now family s) \<le> refresh_family_active_limit)"

lemma active_members_mono: "now \<le> later \<Longrightarrow> active_members later family s \<le> active_members now family s"
proof -
  assume "now \<le> later"
  then have "length (filter (\<lambda>t. rt_family t = family \<and> active_token later t) ts)
      \<le> length (filter (\<lambda>t. rt_family t = family \<and> active_token now t) ts)" for ts
    by (induction ts) (auto simp: active_token_def)
  then show ?thesis by (simp add: active_members_def rows_affected_def)
qed

lemma detect_reuse_tokens [simp]:
  "refresh_tokens (detect_reuse e t role rid s) =
    update_where (\<lambda>x. rt_family x = rt_family t) (revoke_token e) (refresh_tokens s)"
  by (simp add: detect_reuse_def insert_audit_nullable_def revoke_family_def)

lemma issue_replacement_tokens:
  assumes "issue_replacement e t replacement grace role rid s = (s', out)"
  shows "refresh_tokens s' = refresh_tokens s \<or>
    refresh_tokens s' = (if grace then refresh_tokens s
       else update_where (\<lambda>x. rt_hash x = rt_hash t) (use_token e) (refresh_tokens s)) @
     [\<lparr>rt_user = rt_user t, rt_device = rt_device t, rt_hash = nt_hash replacement,
       rt_family = rt_family t, rt_expires_at = nt_expires_at replacement,
       rt_used_at = None, rt_revoked_at = None\<rparr>]"
  using assms
  by (auto simp: issue_replacement_def try_bind_eq_Inr try_bind_eq_Inl insert_refresh_def Let_def
      split: sum.splits if_splits)

lemma tokens_shrink:
  assumes "\<And>x. rt_family (g x) = rt_family x \<and> (active_token now (g x) \<longrightarrow> active_token now x)"
  shows "rows_affected (\<lambda>x. rt_family x = f \<and> active_token now x) (update_where P g (refresh_tokens s))
    \<le> active_members now f s"
  unfolding active_members_def using assms by (intro rows_affected_update_le) auto

lemma use_shrinks:
  "rows_affected (\<lambda>x. rt_family x = f \<and> active_token now x) (update_where P (use_token e) (refresh_tokens s))
    \<le> active_members now f s"
  by (rule tokens_shrink) (simp add: use_token_def active_token_def)

lemma revoke_shrinks:
  "rows_affected (\<lambda>x. rt_family x = f \<and> active_token now x) (update_where P (revoke_token e) (refresh_tokens s))
    \<le> active_members now f s"
  by (rule tokens_shrink) (simp add: revoke_token_def active_token_def split: option.splits)

lemma spent_room:
  assumes t: "t \<in> set (refresh_tokens s)" "rt_family t = f"
    and le: "int (active_members now f s) \<le> refresh_family_active_limit"
    and ok: "if grace then int (active_members now f s) < refresh_family_active_limit else active_token now t"
  shows "int (rows_affected (\<lambda>x. rt_family x = f \<and> active_token now x)
      (if grace then refresh_tokens s
       else update_where (\<lambda>x. rt_hash x = rt_hash t) (use_token e) (refresh_tokens s)))
    < refresh_family_active_limit"
proof (cases grace)
  case True
  with ok show ?thesis by (simp add: active_members_def)
next
  case False
  have "rows_affected (\<lambda>x. rt_family x = f \<and> active_token now x)
      (update_where (\<lambda>x. rt_hash x = rt_hash t) (use_token e) (refresh_tokens s))
    < rows_affected (\<lambda>x. rt_family x = f \<and> active_token now x) (refresh_tokens s)"
    by (rule rows_affected_update_less [of _ _ _ t])
      (use False t ok in \<open>auto simp: use_token_def active_token_def\<close>)
  with False le show ?thesis by (simp add: active_members_def)
qed

lemma issue_bounded:
  assumes bound: "family_bounded now s" and t: "t \<in> set (refresh_tokens s)"
    and ok: "if grace then int (active_members now (rt_family t) s) < refresh_family_active_limit
             else active_token now t"
    and run: "issue_replacement e t replacement grace role rid s = (s', out)"
  shows "family_bounded now s'"
proof -
  have le: "int (active_members now f s) \<le> refresh_family_active_limit" for f
    using bound by (simp add: family_bounded_def)
  have "int (active_members now f s') \<le> refresh_family_active_limit" for f
    using issue_replacement_tokens [OF run]
  proof
    assume "refresh_tokens s' = refresh_tokens s"
    then show ?thesis using le [of f] by (simp add: active_members_def)
  next
    define base where "base = (if grace then refresh_tokens s
      else update_where (\<lambda>x. rt_hash x = rt_hash t) (use_token e) (refresh_tokens s))"
    assume "refresh_tokens s' = (if grace then refresh_tokens s
        else update_where (\<lambda>x. rt_hash x = rt_hash t) (use_token e) (refresh_tokens s)) @
      [\<lparr>rt_user = rt_user t, rt_device = rt_device t, rt_hash = nt_hash replacement,
        rt_family = rt_family t, rt_expires_at = nt_expires_at replacement,
        rt_used_at = None, rt_revoked_at = None\<rparr>]"
    then have new: "active_members now f s' \<le>
        rows_affected (\<lambda>x. rt_family x = f \<and> active_token now x) base + (if rt_family t = f then 1 else 0)"
      by (simp add: active_members_def base_def rows_affected_def)
    show ?thesis
    proof (cases "rt_family t = f")
      case True
      have "int (rows_affected (\<lambda>x. rt_family x = f \<and> active_token now x) base) < refresh_family_active_limit"
        unfolding base_def using ok True by (intro spent_room [OF t True le]) (cases grace, simp_all)
      with new True show ?thesis by simp
    next
      case False
      have "rows_affected (\<lambda>x. rt_family x = f \<and> active_token now x) base \<le> active_members now f s"
      proof (cases grace)
        case True
        then show ?thesis by (simp add: base_def active_members_def)
      next
        case False
        then show ?thesis by (simp add: base_def use_shrinks)
      qed
      with False new le [of f] show ?thesis by simp
    qed
  qed
  then show ?thesis by (simp add: family_bounded_def)
qed

lemma rotate_unfold:
  assumes "List.find (\<lambda>t. rt_hash t = hash) (refresh_tokens s) = Some t"
    and "spent = (rt_used_at t \<noteq> None \<or> rt_revoked_at t \<noteq> None)"
  shows "rotate_refresh_token_inner e hash replacement role rid s =
    (if spent \<and> \<not> family_healthy e t s then (detect_reuse e t role rid s, Inl RefreshTokenReuse)
     else if rt_expires_at t \<le> app_now e then (s, Inl InvalidRefreshToken)
     else issue_replacement e t replacement spent role rid s)"
  by (simp add: rotate_refresh_token_inner_def assms Let_def)

text \<open>C17. No rotation, successful or not, leaves a family with more than four members that could
  be used at the time of the transaction, however often a token is replayed in the grace window.\<close>

theorem rotate_keeps_family_bound:
  assumes bound: "family_bounded (db_now e) s" and clock: "db_now e \<le> app_now e"
  shows "family_bounded (db_now e) (fst (rotate_refresh_token_inner e hash replacement role rid s))"
proof (cases "List.find (\<lambda>t. rt_hash t = hash) (refresh_tokens s)")
  case None
  with bound show ?thesis by (simp add: rotate_refresh_token_inner_def)
next
  case (Some t)
  then have t: "t \<in> set (refresh_tokens s)" by (auto dest: find_SomeD)
  define spent where "spent = (rt_used_at t \<noteq> None \<or> rt_revoked_at t \<noteq> None)"
  note eq = rotate_unfold [OF Some spent_def, of e replacement role rid]
  consider "spent \<and> \<not> family_healthy e t s"
    | "\<not> (spent \<and> \<not> family_healthy e t s)" "rt_expires_at t \<le> app_now e"
    | "\<not> (spent \<and> \<not> family_healthy e t s)" "\<not> rt_expires_at t \<le> app_now e"
    by blast
  then show ?thesis
  proof cases
    case 1
    have "active_members (db_now e) f (detect_reuse e t role rid s) \<le> active_members (db_now e) f s" for f
      using revoke_shrinks by (subst active_members_def) (simp only: detect_reuse_tokens)
    then have "family_bounded (db_now e) (detect_reuse e t role rid s)"
      using bound by (meson family_bounded_def of_nat_mono order_trans)
    with 1 show ?thesis by (simp add: eq)
  next
    case 2
    then show ?thesis using bound by (auto simp: eq)
  next
    case 3
    obtain s' out where run: "issue_replacement e t replacement spent role rid s = (s', out)"
      by (cases "issue_replacement e t replacement spent role rid s")
    have "family_bounded (db_now e) s'"
    proof (rule issue_bounded [OF bound t _ run])
      show "if spent then int (active_members (db_now e) (rt_family t) s) < refresh_family_active_limit
          else active_token (db_now e) t"
        using 3 clock by (auto simp: family_healthy_def spent_def active_token_def)
    qed
    with 3 run show ?thesis by (auto simp: eq)
  qed
qed

text \<open>The bound only gets easier with time.\<close>

lemma family_bounded_mono: "family_bounded now s \<Longrightarrow> now \<le> later \<Longrightarrow> family_bounded later s"
  by (meson active_members_mono family_bounded_def of_nat_mono order_trans)

definition sample_token :: "bytes \<Rightarrow> instant option \<Rightarrow> refresh_row" where
  "sample_token h used = \<lparr>rt_user = ''u'', rt_device = ''d'', rt_hash = h, rt_family = ''f'',
     rt_expires_at = days 30, rt_used_at = used, rt_revoked_at = used\<rparr>"

definition sample_session_db :: db where
  "sample_session_db = sample_db\<lparr>refresh_tokens := [sample_token [1] (Some (hours 1 - seconds 5)), sample_token [2] None]\<rparr>"

definition sample_replacement :: new_refresh_token where
  "sample_replacement = \<lparr>nt_hash = [3], nt_family = ''g'', nt_expires_at = days 30\<rparr>"

lemmas sample_session_defs = sample_session_db_def sample_token_def sample_replacement_def sample_defs
  duration_defs

theorem rotate_keeps_family_bound_witness:
  "family_bounded (hours 1) (fst (rotate_refresh_token_inner sample_env [1] sample_replacement None ''r'' sample_session_db))
   \<and> active_members (hours 1) ''f'' (fst (rotate_refresh_token_inner sample_env [1] sample_replacement None ''r'' sample_session_db)) = 2"
proof -
  have "family_bounded (db_now sample_env) sample_session_db"
    by (simp add: family_bounded_def active_members_def rows_affected_def sample_session_defs
        active_token_def refresh_family_active_limit_def)
  moreover have "db_now sample_env \<le> app_now sample_env" by (simp add: sample_env_def)
  ultimately have "family_bounded (db_now sample_env)
      (fst (rotate_refresh_token_inner sample_env [1] sample_replacement None ''r'' sample_session_db))"
    by (rule rotate_keeps_family_bound)
  moreover have "db_now sample_env = hours 1" by (simp add: sample_env_def)
  moreover have "active_members (hours 1) ''f''
      (fst (rotate_refresh_token_inner sample_env [1] sample_replacement None ''r'' sample_session_db)) = 2"
    by code_simp
  ultimately show ?thesis by simp
qed

subsection \<open>The end of a family\<close>

datatype session_event =
    Login env uuid uuid new_refresh_token string
  | Rotate env bytes new_refresh_token "string option" string
  | Logout env uuid uuid string
  | WebLogout env bytes string
  | ChangePassword env uuid string
  | RevokeDevice env uuid uuid string
  | Access env uuid uuid string

fun session_step :: "session_event \<Rightarrow> db \<Rightarrow> db" where
  "session_step (Login e u d r i) s = fst (create_login_session e u d r i s)"
| "session_step (Rotate e h r role i) s = fst (rotate_refresh_token_inner e h r role i s)"
| "session_step (Logout e u d i) s = fst (logout_device e u d i s)"
| "session_step (WebLogout e h i) s = fst (logout_device_by_refresh_token e h i s)"
| "session_step (ChangePassword e u h) s = fst (change_password e u h s)"
| "session_step (RevokeDevice e u d i) s = fst (revoke_device e u d i s)"
| "session_step (Access e u d r) s = fst (validate_access e u d r s)"

text \<open>A login draws a new family, so it is never the one in question.\<close>

fun other_family :: "uuid \<Rightarrow> session_event \<Rightarrow> bool" where
  "other_family f (Login e u d r i) \<longleftrightarrow> nt_family r \<noteq> f"
| "other_family f _ \<longleftrightarrow> True"

definition family_dead :: "uuid \<Rightarrow> db \<Rightarrow> bool" where
  "family_dead f s \<longleftrightarrow> (\<forall>t \<in> set (refresh_tokens s). rt_family t = f \<longrightarrow> rt_revoked_at t \<noteq> None)"

lemma family_dead_update:
  assumes "\<And>t. rt_family (g t) = rt_family t \<and> (rt_revoked_at t \<noteq> None \<longrightarrow> rt_revoked_at (g t) \<noteq> None)"
    and "\<forall>t \<in> set ts. rt_family t = f \<longrightarrow> rt_revoked_at t \<noteq> None"
  shows "\<forall>t \<in> set (update_where P g ts). rt_family t = f \<longrightarrow> rt_revoked_at t \<noteq> None"
  using assms by (auto simp: set_update_where)

lemma revoke_token_dead: "rt_family (revoke_token e t) = rt_family t"
  "\<exists>x. rt_revoked_at (revoke_token e t) = Some x"
  by (auto simp: revoke_token_def split: option.splits)

lemma dead_family_no_rotation:
  assumes dead: "family_dead f s"
    and t: "List.find (\<lambda>t. rt_hash t = hash) (refresh_tokens s) = Some t" "rt_family t = f"
  shows "rotate_refresh_token_inner e hash replacement role rid s
    = (detect_reuse e t role rid s, Inl RefreshTokenReuse)"
proof -
  from t have tin: "t \<in> set (refresh_tokens s)" by (auto dest: find_SomeD)
  with dead t have spent: "rt_revoked_at t \<noteq> None" by (auto simp: family_dead_def)
  have "active_members (db_now e) f s = 0"
    using dead by (auto simp: active_members_def rows_affected_0 family_dead_def active_token_def)
  then have "\<not> family_healthy e t s" using t by (simp add: family_healthy_def)
  with spent show ?thesis by (simp add: rotate_unfold [OF t(1) refl])
qed

lemma rotate_keeps_dead:
  assumes dead: "family_dead f s"
  shows "family_dead f (fst (rotate_refresh_token_inner e hash replacement role rid s))"
proof (cases "List.find (\<lambda>t. rt_hash t = hash) (refresh_tokens s)")
  case None
  with dead show ?thesis by (simp add: rotate_refresh_token_inner_def)
next
  case (Some t)
  have detect: "family_dead f (detect_reuse e t role rid s)"
    using dead revoke_token_dead
    by (auto simp: family_dead_def set_update_where)
  show ?thesis
  proof (cases "rt_family t = f")
    case True
    with dead_family_no_rotation [OF dead Some] detect show ?thesis by simp
  next
    case False
    have "family_dead f s'" if "issue_replacement e t replacement g role rid s = (s', out)" for g s' out
      using issue_replacement_tokens [OF that] dead False
      by (auto simp: family_dead_def use_token_def set_update_where split: if_splits)
    then have "family_dead f (fst (issue_replacement e t replacement g role rid s))" for g
      by (cases "issue_replacement e t replacement g role rid s") auto
    with detect dead show ?thesis by (simp add: rotate_unfold [OF Some refl])
  qed
qed

lemma session_step_keeps_dead: "other_family f ev \<Longrightarrow> family_dead f s \<Longrightarrow> family_dead f (session_step ev s)"
proof (cases ev)
  case (Login e u d r i)
  assume "other_family f ev" "family_dead f s"
  with Login show ?thesis
    by (auto simp: create_login_session_def try_bind_eq_Inr ensure_device_def insert_refresh_def family_dead_def
        split: sum.splits option.splits if_splits)
next
  case (Rotate e h r role i)
  assume "family_dead f s"
  with Rotate show ?thesis by (simp add: rotate_keeps_dead)
next
  case (Logout e u d i)
  assume "family_dead f s"
  with Logout revoke_token_dead show ?thesis
    by (auto simp: logout_device_def family_dead_def set_update_where)
next
  case (WebLogout e h i)
  assume "family_dead f s"
  with WebLogout show ?thesis
    by (auto simp: logout_device_by_refresh_token_def family_dead_def set_update_where Let_def split: option.splits)
next
  case (ChangePassword e u h)
  assume "family_dead f s"
  with ChangePassword revoke_token_dead show ?thesis
    by (auto simp: change_password_def family_dead_def set_update_where)
next
  case (RevokeDevice e u d i)
  assume "family_dead f s"
  with RevokeDevice revoke_token_dead show ?thesis
    by (auto simp: revoke_device_def family_dead_def set_update_where split: option.splits)
next
  case (Access e u d r)
  assume "family_dead f s"
  with Access show ?thesis by (auto simp: validate_access_def family_dead_def split: sum.splits)
qed

interpretation dead: event_system session_step "other_family f" "family_dead f" for f
  by unfold_locales (rule session_step_keeps_dead)

lemma detect_reuse_audited:
  "audit_events (detect_reuse e t role rid s) = audit_events s @
    [\<lparr>au_actor = Some (rt_user t), au_subject = Some (rt_user t), au_project = None,
      au_action = ''auth.refresh_failed'',
      au_metadata = JObj [(''reason'', JStr ''token_reuse''),
        (''source'', JStr (case role of None \<Rightarrow> ''refresh'' | Some r \<Rightarrow> r)), (''deviceId'', JStr (rt_device t))],
      au_request_id = Some rid, au_created_at = db_now e\<rparr>]"
  by (simp add: detect_reuse_def insert_audit_nullable_def revoke_family_def)

text \<open>C18. Replaying a used or revoked token outside the grace conditions ends its family: the call
  fails, its only new audit event reports the reuse of a token of this account and device, and after any further logins (each starts a family of its own), rotations, logouts, password changes,
  device revocations and accesses, no token of the family can be rotated.\<close>

theorem reuse_ends_family:
  assumes t: "List.find (\<lambda>t. rt_hash t = hash) (refresh_tokens s) = Some t"
    and spent: "rt_used_at t \<noteq> None \<or> rt_revoked_at t \<noteq> None" and "\<not> family_healthy e t s"
    and later: "\<forall>ev \<in> set events. other_family (rt_family t) ev"
    and member: "List.find (\<lambda>t. rt_hash t = hash2)
        (refresh_tokens (fold session_step events (fst (rotate_refresh_token_inner e hash r role rid s)))) = Some t2"
      "rt_family t2 = rt_family t"
  shows "snd (rotate_refresh_token_inner e hash r role rid s) = Inl RefreshTokenReuse
    \<and> audit_events (fst (rotate_refresh_token_inner e hash r role rid s)) = audit_events s @
      [\<lparr>au_actor = Some (rt_user t), au_subject = Some (rt_user t), au_project = None,
        au_action = ''auth.refresh_failed'',
        au_metadata = JObj [(''reason'', JStr ''token_reuse''),
          (''source'', JStr (case role of None \<Rightarrow> ''refresh'' | Some r \<Rightarrow> r)), (''deviceId'', JStr (rt_device t))],
        au_request_id = Some rid, au_created_at = db_now e\<rparr>]
    \<and> snd (rotate_refresh_token_inner e2 hash2 r2 role2 rid2
        (fold session_step events (fst (rotate_refresh_token_inner e hash r role rid s)))) = Inl RefreshTokenReuse"
proof -
  have run: "rotate_refresh_token_inner e hash r role rid s = (detect_reuse e t role rid s, Inl RefreshTokenReuse)"
    using assms(2,3) by (auto simp: rotate_unfold [OF t refl])
  have "family_dead (rt_family t) (detect_reuse e t role rid s)"
    using revoke_token_dead by (auto simp: family_dead_def set_update_where)
  then have "family_dead (rt_family t)
      (fold session_step events (fst (rotate_refresh_token_inner e hash r role rid s)))"
    using dead.run_inv [OF later] run by simp
  from dead_family_no_rotation [OF this member] run show ?thesis by (simp add: detect_reuse_audited)
qed

definition sample_stolen_db :: db where
  "sample_stolen_db = sample_db\<lparr>refresh_tokens := [sample_token [1] (Some 0), sample_token [2] None]\<rparr>"

theorem reuse_ends_family_witness:
  "snd (rotate_refresh_token_inner sample_env [1] sample_replacement None ''r'' sample_stolen_db) = Inl RefreshTokenReuse
   \<and> map au_action (audit_events (fst (rotate_refresh_token_inner sample_env [1] sample_replacement None ''r'' sample_stolen_db)))
     = map au_action (audit_events sample_stolen_db) @ [''auth.refresh_failed'']
   \<and> snd (rotate_refresh_token_inner sample_env [2] sample_replacement None ''r''
      (fold session_step [Login sample_env ''u'' ''d'' sample_replacement ''r'']
        (fst (rotate_refresh_token_inner sample_env [1] sample_replacement None ''r'' sample_stolen_db)))) = Inl RefreshTokenReuse"
proof -
  have f: "List.find (\<lambda>t. rt_hash t = [1]) (refresh_tokens sample_stolen_db) = Some (sample_token [1] (Some 0))"
    by (simp add: sample_stolen_db_def sample_token_def)
  have sp: "rt_used_at (sample_token [1] (Some 0)) \<noteq> None \<or> rt_revoked_at (sample_token [1] (Some 0)) \<noteq> None"
    by (simp add: sample_token_def)
  have h: "\<not> family_healthy sample_env (sample_token [1] (Some 0)) sample_stolen_db" by code_simp
  have ev: "\<forall>ev \<in> set [Login sample_env ''u'' ''d'' sample_replacement ''r'']. other_family (rt_family (sample_token [1] (Some 0))) ev"
    by (simp add: sample_replacement_def sample_token_def)
  have m: "map_option rt_family (List.find (\<lambda>t. rt_hash t = [2])
        (refresh_tokens (fold session_step [Login sample_env ''u'' ''d'' sample_replacement ''r'']
          (fst (rotate_refresh_token_inner sample_env [1] sample_replacement None ''r'' sample_stolen_db))))) = Some ''f''"
    by code_simp
  then obtain t2 where t2: "List.find (\<lambda>t. rt_hash t = [2])
        (refresh_tokens (fold session_step [Login sample_env ''u'' ''d'' sample_replacement ''r'']
          (fst (rotate_refresh_token_inner sample_env [1] sample_replacement None ''r'' sample_stolen_db)))) = Some t2"
      "rt_family t2 = rt_family (sample_token [1] (Some 0))"
    by (auto simp: sample_token_def)
  note run = reuse_ends_family [OF f sp h ev t2, of sample_env sample_replacement None "''r''"]
  show ?thesis
    by (intro conjI run [THEN conjunct1] run [THEN conjunct2, THEN conjunct2])
      (subst run [THEN conjunct2, THEN conjunct1], simp)
qed

subsection \<open>Access\<close>

lemma rotation_grantedE:
  assumes "snd (rotate_refresh_token_inner e hash r role rid s) = Inr session"
  obtains t d where "t \<in> set (refresh_tokens s)" "rt_hash t = hash" "rt_expires_at t > app_now e"
    and "u_id (ss_user session) = rt_user t" "ss_device session = rt_device t" "ss_family session = rt_family t"
    and "ss_user session \<in> set (users s)" "u_status (ss_user session) = Active"
    and "\<And>expected. role = Some expected \<Longrightarrow> role_as_str (u_role (ss_user session)) = expected"
    and "d \<in> set (devices s)" "d_id d = rt_device t" "d_owner d = rt_user t" "d_revoked_at d = None"
proof -
  from assms obtain t where t: "List.find (\<lambda>t. rt_hash t = hash) (refresh_tokens s) = Some t"
    by (cases "List.find (\<lambda>t. rt_hash t = hash) (refresh_tokens s)") (auto simp: rotate_refresh_token_inner_def)
  define spent where "spent = (rt_used_at t \<noteq> None \<or> rt_revoked_at t \<noteq> None)"
  from assms have "snd (issue_replacement e t r spent role rid s) = Inr session" "rt_expires_at t > app_now e"
    by (simp_all add: rotate_unfold [OF t spent_def] split: if_splits)
  with find_SomeD [OF t] that show thesis
    by (auto simp: issue_replacement_def try_bind_eq_Inr Let_def split: sum.splits if_splits option.splits
        dest!: lock_active_userD ensure_existing_deviceD)
qed

text \<open>A session is granted by a rotation only to an active account in the role that was asked
  for, on a device of this account that is not revoked, from a stored token that has not expired;
  and the session stays in the family, account and device of that token.\<close>

theorem rotation_granted_only_to_active:
  assumes "snd (rotate_refresh_token_inner e hash r (Some role) rid s) = Inr session"
  shows "(\<exists>t \<in> set (refresh_tokens s). rt_hash t = hash \<and> rt_expires_at t > app_now e
      \<and> rt_family t = ss_family session \<and> rt_device t = ss_device session \<and> rt_user t = u_id (ss_user session))
    \<and> ss_user session \<in> set (users s) \<and> u_status (ss_user session) = Active
    \<and> role_as_str (u_role (ss_user session)) = role
    \<and> (\<exists>d \<in> set (devices s). d_id d = ss_device session \<and> d_owner d = u_id (ss_user session)
        \<and> d_revoked_at d = None)"
  using assms
proof (rule rotation_grantedE)
  fix t d
  assume "t \<in> set (refresh_tokens s)" "rt_hash t = hash" "rt_expires_at t > app_now e"
    "u_id (ss_user session) = rt_user t" "ss_device session = rt_device t" "ss_family session = rt_family t"
    "ss_user session \<in> set (users s)" "u_status (ss_user session) = Active"
    "\<And>expected. Some role = Some expected \<Longrightarrow> role_as_str (u_role (ss_user session)) = expected"
    "d \<in> set (devices s)" "d_id d = rt_device t" "d_owner d = rt_user t" "d_revoked_at d = None"
  then show ?thesis by (intro conjI bexI [of _ t] bexI [of _ d]) simp_all
qed

theorem rotation_granted_only_to_active_witness:
  "\<exists>session. snd (rotate_refresh_token_inner sample_env [2] sample_replacement (Some ''user'') ''r'' sample_session_db) = Inr session
    \<and> u_status (ss_user session) = Active \<and> role_as_str (u_role (ss_user session)) = ''user''"
proof -
  have "map_sum id ss_device (snd (rotate_refresh_token_inner sample_env [2] sample_replacement (Some ''user'') ''r'' sample_session_db))
      = Inr ''d''"
    by code_simp
  then obtain session where run: "snd (rotate_refresh_token_inner sample_env [2] sample_replacement (Some ''user'') ''r'' sample_session_db)
      = Inr session"
    by (cases "snd (rotate_refresh_token_inner sample_env [2] sample_replacement (Some ''user'') ''r'' sample_session_db)") auto
  from rotation_granted_only_to_active [OF run] run show ?thesis by blast
qed

lemma validate_accessD:
  "snd (validate_access e uid did role s) = Inr () \<Longrightarrow>
    (\<exists>u \<in> set (users s). u_id u = uid \<and> u_status u = Active \<and> role_as_str (u_role u) = role)
    \<and> (\<exists>d \<in> set (devices s). d_id d = did \<and> d_owner d = uid \<and> d_revoked_at d = None)"
  by (auto simp: validate_access_def try_bind_eq_Inr split: sum.splits if_splits
      dest!: lock_active_userD ensure_existing_deviceD)

text \<open>C19. Revoking a device takes effect at once: in the state it leaves, no access check on the
  device succeeds and no refresh token of the device can be rotated into a session, whatever
  the role, clock and replacement.\<close>

theorem revoked_device_locked_out:
  assumes "distinct (map d_id (devices s))" and "snd (revoke_device e uid did rid s) = Inr d"
  shows "snd (validate_access e2 uid did role (fst (revoke_device e uid did rid s))) \<noteq> Inr ()
    \<and> (\<forall>session. snd (rotate_refresh_token_inner e2 hash r role2 rid2 (fst (revoke_device e uid did rid s))) = Inr session
        \<longrightarrow> ss_device session \<noteq> did)"
proof -
  define s' where "s' = fst (revoke_device e uid did rid s)"
  have f: "List.find (\<lambda>d. d_id d = did \<and> d_owner d = uid) (devices s) \<noteq> None"
    using assms(2) by (auto simp: revoke_device_def split: option.splits)
  then have dev: "devices s' = update_where (\<lambda>d. d_id d = did \<and> d_owner d = uid) (revoke_device_row e) (devices s)"
    by (auto simp: s'_def revoke_device_def)
  from f obtain d0 where d0: "d0 \<in> set (devices s)" "d_id d0 = did" "d_owner d0 = uid"
    by (auto dest: find_SomeD)
  have revoked: "d_revoked_at x \<noteq> None" if "x \<in> set (devices s')" "d_id x = did" for x
  proof -
    from that obtain y where y: "y \<in> set (devices s)"
        "x = (if d_id y = did \<and> d_owner y = uid then revoke_device_row e y else y)"
      unfolding dev by (auto elim: in_update_whereE)
    then have "d_id y = did" using that by (auto simp: revoke_device_row_def split: option.splits if_splits)
    with y d0 assms(1) have "y = d0" by (metis keyed_table_inj)
    with y d0 show ?thesis by (auto simp: revoke_device_row_def split: option.splits)
  qed
  have "snd (validate_access e2 uid did role s') \<noteq> Inr ()"
    using revoked validate_accessD by blast
  moreover have "ss_device session \<noteq> did"
    if "snd (rotate_refresh_token_inner e2 hash r role2 rid2 s') = Inr session" for session
    using that
  proof (rule rotation_grantedE)
    fix t d assume "ss_device session = rt_device t" "d \<in> set (devices s')" "d_id d = rt_device t" "d_revoked_at d = None"
    with revoked show ?thesis by metis
  qed
  ultimately show ?thesis by (simp flip: s'_def)
qed

theorem revoked_device_locked_out_witness:
  "snd (validate_access sample_env ''u'' ''d'' ''user'' (fst (revoke_device sample_env ''u'' ''d'' ''r'' sample_session_db))) \<noteq> Inr ()
   \<and> snd (validate_access sample_env ''u'' ''d'' ''user'' sample_session_db) = Inr ()"
proof
  have "distinct (map d_id (devices sample_session_db))" by (simp add: sample_session_defs)
  moreover have "snd (revoke_device sample_env ''u'' ''d'' ''r'' sample_session_db)
      = Inr (revoke_device_row sample_env (sample_device ''d'' ''u''))"
    by (simp add: revoke_device_def sample_session_defs)
  ultimately show "snd (validate_access sample_env ''u'' ''d'' ''user''
      (fst (revoke_device sample_env ''u'' ''d'' ''r'' sample_session_db))) \<noteq> Inr ()"
    using revoked_device_locked_out by blast
  show "snd (validate_access sample_env ''u'' ''d'' ''user'' sample_session_db) = Inr ()" by code_simp
qed

subsection \<open>One-time nonces\<close>

text \<open>After its consumption no row has the hash of the nonce.\<close>

lemma consumed_nonce_gone:
  assumes "distinct (map an_hash (reauth_nonces s))"
    and "consume_reauth_nonce e actor did hash s = (s', Inr True)"
  shows "\<forall>n \<in> set (reauth_nonces s'). an_hash n \<noteq> hash"
proof -
  from assms(2) have s': "reauth_nonces s' = delete_where (nonce_matches e actor did hash) (reauth_nonces s)"
    and one: "rows_affected (nonce_matches e actor did hash) (reauth_nonces s) = 1"
    by (auto simp: consume_reauth_nonce_def split: sum.splits)
  from one obtain n where n: "n \<in> set (reauth_nonces s)" "nonce_matches e actor did hash n"
    by (metis rows_affected_0 zero_neq_one)
  have "an_hash x \<noteq> hash" if "x \<in> set (reauth_nonces s')" for x
  proof
    assume "an_hash x = hash"
    with that n assms(1) have "x = n"
      by (auto simp: s' nonce_matches_def intro: keyed_table_inj)
    with that n show False by (simp add: s')
  qed
  then show ?thesis by blast
qed

definition sample_nonce_db :: db where
  "sample_nonce_db = sample_db\<lparr>reauth_nonces := [\<lparr>an_hash = [9], an_user = ''a'', an_device = ''b'',
     an_expires_at = hours 2\<rparr>]\<rparr>"

end
