(* ===== verification/Projects.thy ===== *)
theory Projects
  imports Schema
begin

text \<open>
  The projects of an account (\<open>crates/persistence/src/lib.rs\<close>): creation, listing, renaming,
  disabling, and the request that queues a project for deletion.
\<close>

definition create_project :: "env \<Rightarrow> uuid \<Rightarrow> uuid \<Rightarrow> string \<Rightarrow> project_row txn" where
  "create_project e new_id user_id name s =
    (if list_ex (\<lambda>p. p_id p = new_id) (projects s) \<or> \<not> list_ex (\<lambda>u. u_id u = user_id) (users s)
     then (s, Inl Database)
     else (let p = \<lparr>p_id = new_id, p_owner = user_id, p_name = name, p_generation = 1,
                    p_status = PActive, p_change_seq = 0, p_created_at = db_now e,
                    p_updated_at = db_now e\<rparr> in
           (s\<lparr>projects := projects s @ [p]\<rparr>, Inr p)))"

definition list_projects :: "uuid \<Rightarrow> db \<Rightarrow> project_row list" where
  "list_projects user_id s = sort_key p_created_at (sort_key p_id (visible_projects user_id s))"

definition get_project :: "uuid \<Rightarrow> uuid \<Rightarrow> db \<Rightarrow> project_row outcome" where
  "get_project user_id project_id s =
    ok_or (List.find (\<lambda>p. p_id p = project_id) (visible_projects user_id s)) NotFound"

text \<open>\<open>UPDATE projects SET ... WHERE id = $1 RETURNING ...\<close> on the caller's rows.\<close>

definition update_project ::
    "(project_row \<Rightarrow> project_row) \<Rightarrow> uuid \<Rightarrow> uuid \<Rightarrow> project_row txn" where
  "update_project f user_id project_id s =
    (case List.find (\<lambda>p. p_id p = project_id) (visible_projects user_id s) of
       None \<Rightarrow> (s, Inl NotFound)
     | Some p \<Rightarrow>
         (s\<lparr>projects := update_where (\<lambda>p. p_id p = project_id \<and> p_owner p = user_id) f (projects s)\<rparr>,
          Inr (f p)))"

definition set_name :: "env \<Rightarrow> string \<Rightarrow> project_row \<Rightarrow> project_row" where
  "set_name e name p = p\<lparr>p_name := name, p_updated_at := db_now e\<rparr>"

definition set_status :: "env \<Rightarrow> project_status \<Rightarrow> project_row \<Rightarrow> project_row" where
  "set_status e status p = p\<lparr>p_status := status, p_updated_at := db_now e\<rparr>"

definition rename_project :: "env \<Rightarrow> uuid \<Rightarrow> uuid \<Rightarrow> string \<Rightarrow> project_row txn" where
  "rename_project e user_id project_id name s = update_project (set_name e name) user_id project_id s"

definition disable_project :: "env \<Rightarrow> uuid \<Rightarrow> uuid \<Rightarrow> project_row txn" where
  "disable_project e user_id project_id s =
    update_project (set_status e PDisabled) user_id project_id s"

text \<open>A queued or running restore of a project, among the caller's rows.\<close>

definition active_restore :: "uuid \<Rightarrow> uuid \<Rightarrow> db \<Rightarrow> bool" where
  "active_restore user_id project_id s \<longleftrightarrow>
    list_ex (\<lambda>j. rj_owner j = user_id \<and> rj_project j = project_id
      \<and> rj_status j \<in> {RQueued, RRunning}) (restore_jobs s)"

definition new_job :: "env \<Rightarrow> uuid \<Rightarrow> job_kind \<Rightarrow> uuid \<Rightarrow> uuid option \<Rightarrow> json \<Rightarrow> job_row" where
  "new_job e job_id kind owner project payload =
    \<lparr>j_id = job_id, j_kind = kind, j_owner = Some owner, j_project = project, j_payload = payload,
     j_status = JQueued, j_attempts = 0, j_run_after = db_now e, j_lease = None,
     j_lease_expires_at = None, j_error = None, j_created_at = db_now e, j_started_at = None,
     j_finished_at = None\<rparr>"

text \<open>
  The primary key of \<open>jobs\<close> and the partial unique index on live account purges.
\<close>

definition insert_job :: "job_row \<Rightarrow> db \<Rightarrow> db outcome" where
  "insert_job j s =
    (if list_ex (\<lambda>x. j_id x = j_id j) (jobs s)
        \<or> (j_kind j = AccountPurge \<and> list_ex (\<lambda>x. j_kind x = AccountPurge \<and> j_owner x = j_owner j
             \<and> j_status x \<in> {JQueued, JRunning}) (jobs s))
     then Inl Database
     else Inr (s\<lparr>jobs := jobs s @ [j]\<rparr>))"

definition enqueue_project_purge ::
    "env \<Rightarrow> uuid \<Rightarrow> uuid \<Rightarrow> uuid \<Rightarrow> string \<Rightarrow> string \<Rightarrow> job_row txn" where
  "enqueue_project_purge e job_id user_id project_id reason request_id s =
    (case List.find (\<lambda>p. p_id p = project_id) (visible_projects user_id s) of
       None \<Rightarrow> (s, Inl NotFound)
     | Some p \<Rightarrow>
         if p_status p \<notin> {PActive, PDisabled} then (s, Inl Conflict)
         else if active_restore user_id project_id s then (s, Inl Conflict)
         else (let s1 = s\<lparr>projects := update_where (\<lambda>p. p_id p = project_id \<and> p_owner p = user_id)
                            (set_status e PDeleting) (projects s)\<rparr>;
                   job = new_job e job_id ProjectPurge user_id (Some project_id)
                           (JObj [(''reason'', JStr reason), (''requestedBy'', JStr user_id)]) in
               case insert_job job s1 of
                 Inl er \<Rightarrow> (s, Inl er)
               | Inr s2 \<Rightarrow>
                   (insert_audit e user_id (Some user_id) ''project.purge_requested''
                      (JObj [(''projectId'', JStr project_id), (''jobId'', JStr job_id),
                        (''reason'', JStr reason)]) request_id s2, Inr job)))"

interpretation set_name: key_update p_id "set_name e name" for e name
  by unfold_locales (simp add: set_name_def)

interpretation set_status: key_update p_id "set_status e st" for e st
  by unfold_locales (simp add: set_status_def)

end
