(* ===== verification/Restore.thy ===== *)
theory Restore
  imports Pull Projects
begin

text \<open>
  Snapshots and restores (\<open>crates/persistence/src/lib.rs\<close>): the snapshot manifests, the queue of
  restore jobs with its lease, and the restore itself, which appends revisions until the heads
  equal the target and moves the project to the next generation.
\<close>

subsection \<open>Manifests\<close>

text \<open>
  The columns of \<open>ManifestRow\<close> are those of \<open>SyncRecord\<close>, and the rows are joined in the same
  way: heads with their revisions and the log entries of these.
\<close>

definition head_rows :: "(uuid \<Rightarrow> bool) \<Rightarrow> uuid \<Rightarrow> db \<Rightarrow> (head_row \<times> sync_record) list" where
  "head_rows visible project_id s =
    concat (map (\<lambda>h. concat (map (\<lambda>r. map (\<lambda>c. (h, record_of c r))
          (filter (\<lambda>c. visible (cl_owner c) \<and> cl_revision_id c = rv_id r \<and> cl_project c = rv_project r)
             (change_log s)))
        (filter (\<lambda>r. visible (rv_owner r) \<and> rv_id r = h_revision_id h) (object_revisions s))))
      (filter (\<lambda>h. visible (h_owner h) \<and> h_project h = project_id) (object_heads s)))"

definition snapshot_rows :: "(uuid \<Rightarrow> bool) \<Rightarrow> uuid \<Rightarrow> db \<Rightarrow> sync_record list" where
  "snapshot_rows visible project_id s =
    map snd (sort_key (\<lambda>x. h_kind (fst x)) (sort_key (\<lambda>x. h_object (fst x))
      (head_rows visible project_id s)))"

definition manifest_item_json :: "sync_record \<Rightarrow> json" where
  "manifest_item_json row = JObj [(''kind'', JStr (sr_kind row)), (''id'', JStr (sr_id row)),
     (''schemaVersion'', json_opt JNum (sr_schema_version row)), (''revision'', JNum (sr_revision row)),
     (''baseRevision'', json_opt JNum (sr_base_revision row)),
     (''contentHash'', json_opt JStr (sr_content_hash row)), (''changedAt'', JTime (sr_changed_at row)),
     (''deviceId'', JStr (sr_device_id row)), (''tombstone'', JBool (sr_tombstone row)),
     (''changeSequence'', JNum (sr_change_sequence row))]"

record manifest_item =
  mi_kind :: string
  mi_id :: string
  mi_schema_version :: "int option"
  mi_revision :: int
  mi_content_hash :: "string option"
  mi_device_id :: uuid
  mi_tombstone :: bool

definition manifest_item_from_row :: "sync_record \<Rightarrow> manifest_item" where
  "manifest_item_from_row row = \<lparr>mi_kind = sr_kind row, mi_id = sr_id row,
     mi_schema_version = sr_schema_version row, mi_revision = sr_revision row,
     mi_content_hash = sr_content_hash row, mi_device_id = sr_device_id row,
     mi_tombstone = sr_tombstone row\<rparr>"

definition manifest_item_of_json :: "(string \<Rightarrow> uuid option) \<Rightarrow> json \<Rightarrow> manifest_item option" where
  "manifest_item_of_json parse_uuid v =
    do {
      kind \<leftarrow> member_of ''kind'' json_as_str v;
      i \<leftarrow> member_of ''id'' json_as_str v;
      schema \<leftarrow> optional_member ''schemaVersion'' json_num v;
      n \<leftarrow> member_of ''revision'' json_num v;
      hash \<leftarrow> optional_member ''contentHash'' json_as_str v;
      device \<leftarrow> Option.bind (member_of ''deviceId'' json_as_str v) parse_uuid;
      tombstone \<leftarrow> member_of ''tombstone'' json_as_bool v;
      Some \<lparr>mi_kind = kind, mi_id = i, mi_schema_version = schema, mi_revision = n,
        mi_content_hash = hash, mi_device_id = device, mi_tombstone = tombstone\<rparr>
    }"

definition manifest_items :: "(string \<Rightarrow> uuid option) \<Rightarrow> json \<Rightarrow> manifest_item list outcome" where
  "manifest_items parse_uuid manifest =
    try_bind (ok_or (json_get ''items'' manifest) InvalidPayload) (\<lambda>items.
      ok_or (Option.bind (json_as_array items) (decode_all (manifest_item_of_json parse_uuid)))
        InvalidPayload)"

definition same_manifest_state :: "sync_record \<Rightarrow> manifest_item \<Rightarrow> bool" where
  "same_manifest_state row item \<longleftrightarrow>
     sr_kind row = mi_kind item \<and> sr_id row = mi_id item \<and> sr_tombstone row = mi_tombstone item
   \<and> sr_schema_version row = mi_schema_version item \<and> sr_content_hash row = mi_content_hash item
   \<and> sr_revision row = mi_revision item"

definition snapshot_json :: "uuid \<Rightarrow> int \<Rightarrow> int \<Rightarrow> sync_record list \<Rightarrow> json" where
  "snapshot_json snapshot_id generation sequence rows =
    JObj [(''version'', JNum 1), (''snapshotId'', JStr snapshot_id), (''generation'', JNum generation),
      (''changeSequence'', JNum sequence), (''items'', JArr (map manifest_item_json rows))]"

definition snapshot_key :: "uuid \<Rightarrow> uuid \<Rightarrow> uuid \<Rightarrow> string" where
  "snapshot_key user_id project_id snapshot_id =
    ''users/'' @ user_id @ ''/projects/'' @ project_id @ ''/snapshots/'' @ snapshot_id @ ''/manifest.json''"

definition insert_snapshot :: "snapshot_row \<Rightarrow> db \<Rightarrow> sql_error + db" where
  "insert_snapshot x s =
    (if list_ex (\<lambda>y. sn_id y = sn_id x \<or> (sn_project y = sn_project x \<and> sn_hash y = sn_hash x)) (snapshots s)
     then Inl UniqueViolation
     else if \<not> list_ex (\<lambda>p. p_id p = sn_project x \<and> p_owner p = sn_owner x) (projects s)
        \<or> \<not> list_ex (\<lambda>u. u_id u = sn_created_by x) (users s)
        \<or> sn_sequence x < 0 \<or> sn_generation x \<le> 0
     then Inl OtherSqlError
     else Inr (s\<lparr>snapshots := snapshots s @ [x]\<rparr>))"

definition pending_snapshot ::
    "env \<Rightarrow> uuid \<Rightarrow> uuid \<Rightarrow> uuid \<Rightarrow> int \<Rightarrow> int \<Rightarrow> string \<Rightarrow> json \<Rightarrow> snapshot_row" where
  "pending_snapshot e snapshot_id project_id user_id generation sequence hash manifest =
    \<lparr>sn_id = snapshot_id, sn_project = project_id, sn_owner = user_id, sn_generation = generation,
     sn_sequence = sequence, sn_hash = hash, sn_bucket = ''pending'',
     sn_key = snapshot_key user_id project_id snapshot_id, sn_manifest = manifest,
     sn_status = SnPending, sn_created_by = user_id, sn_created_at = db_now e\<rparr>"

definition snapshot_manifest ::
    "(json \<Rightarrow> bytes) \<Rightarrow> (bytes \<Rightarrow> string) \<Rightarrow> env \<Rightarrow> uuid \<Rightarrow> uuid \<Rightarrow> uuid
      \<Rightarrow> (int \<times> int \<times> json \<times> bytes) txn" where
  "snapshot_manifest to_vec sha256_hex e user_id project_id snapshot_id s =
    (case require_active_project_for_update user_id project_id s of
       Inl er \<Rightarrow> (s, Inl er)
     | Inr (generation, sequence) \<Rightarrow>
         (let manifest = snapshot_json snapshot_id generation sequence
                           (snapshot_rows (\<lambda>owner. owner = user_id) project_id s);
              body = to_vec manifest in
          case as_conflict (insert_snapshot (pending_snapshot e snapshot_id project_id user_id
                 generation sequence (sha256_hex body) manifest) s) of
            Inl er \<Rightarrow> (s, Inl er)
          | Inr s1 \<Rightarrow> (s1, Inr (generation, sequence, manifest, body))))"

definition finish_snapshot :: "string \<Rightarrow> string \<Rightarrow> snapshot_row \<Rightarrow> snapshot_row" where
  "finish_snapshot bucket key x = x\<lparr>sn_bucket := bucket, sn_key := key, sn_status := SnReady\<rparr>"

definition record_snapshot ::
    "env \<Rightarrow> uuid \<Rightarrow> uuid \<Rightarrow> uuid \<Rightarrow> int \<Rightarrow> int \<Rightarrow> string \<Rightarrow> string \<Rightarrow> string \<Rightarrow> json \<Rightarrow> snapshot_row txn" where
  "record_snapshot e user_id project_id snapshot_id generation change_sequence manifest_hash
      bucket key manifest s =
    (case ensure_project_visible user_id project_id s of
       Inl er \<Rightarrow> (s, Inl er)
     | Inr _ \<Rightarrow>
         (let this_one = (\<lambda>x. sn_id x = snapshot_id \<and> sn_project x = project_id \<and> sn_owner x = user_id
                  \<and> sn_generation x = generation \<and> sn_sequence x = change_sequence
                  \<and> sn_hash x = manifest_hash \<and> sn_status x = SnPending);
              finish = (\<lambda>x. (finish_snapshot bucket key x)\<lparr>sn_manifest := manifest\<rparr>) in
          case List.find this_one (snapshots s) of
            None \<Rightarrow> (s, Inl NotFound)
          | Some x \<Rightarrow>
              (insert_audit e user_id (Some user_id) ''snapshot.created''
                 (JObj [(''projectId'', JStr project_id), (''snapshotId'', JStr snapshot_id),
                   (''generation'', JNum generation)]) ''snapshot''
                 (s\<lparr>snapshots := update_where this_one finish (snapshots s)\<rparr>),
               Inr (finish x))))"

definition list_snapshots :: "uuid \<Rightarrow> uuid \<Rightarrow> db \<Rightarrow> snapshot_row list outcome" where
  "list_snapshots user_id project_id s =
    try_bind (ensure_project_visible user_id project_id s) (\<lambda>_.
      Inr (rev (sort_key sn_created_at (sort_key sn_id
        (filter (\<lambda>x. sn_owner x = user_id \<and> sn_project x = project_id) (snapshots s))))))"

definition list_history ::
    "uuid \<Rightarrow> uuid \<Rightarrow> object_kind option \<Rightarrow> string option \<Rightarrow> int \<Rightarrow> int \<Rightarrow> db
      \<Rightarrow> (sync_record list \<times> bool) outcome" where
  "list_history user_id project_id kind object_id after_sequence limit s =
    try_bind (ensure_project_visible user_id project_id s) (\<lambda>_.
      page_of limit (filter (\<lambda>r. case kind of None \<Rightarrow> True
          | Some k \<Rightarrow> sr_kind r = kind_as_str k \<and> (case object_id of None \<Rightarrow> True | Some i \<Rightarrow> sr_id r = i))
        (pull_rows user_id project_id after_sequence s)))"

end
