(* ===== verification/Restore_Jobs.thy ===== *)
theory Restore_Jobs
  imports Restore
begin

text \<open>
  The restore jobs (\<open>crates/persistence/src/lib.rs\<close>): the requests of the owner, the lease under
  which a worker runs a job, its failure, retry and cancellation, the reopening of a project
  after a failure, and the execution that appends the restored revisions.
\<close>

subsection \<open>Requests\<close>

definition restore_live :: "restore_row \<Rightarrow> bool" where
  "restore_live j \<longleftrightarrow> rj_status j \<in> {RQueued, RRunning}"

definition new_restore ::
    "env \<Rightarrow> uuid \<Rightarrow> uuid \<Rightarrow> uuid \<Rightarrow> uuid option \<Rightarrow> int option \<Rightarrow> string \<Rightarrow> string \<Rightarrow> restore_row" where
  "new_restore e job_id user_id project_id snapshot_id target reason request_id =
    \<lparr>rj_id = job_id, rj_project = project_id, rj_owner = user_id, rj_requested_by = user_id,
     rj_snapshot = snapshot_id, rj_target = target, rj_reason = reason,
     rj_request_id = Some request_id, rj_status = RQueued, rj_pre_snapshot = None,
     rj_generation_before = None, rj_generation_after = None, rj_objects = 0, rj_tombstones = 0,
     rj_error = None, rj_created_at = db_now e, rj_started_at = None, rj_finished_at = None,
     rj_lease = None, rj_lease_expires_at = None, rj_attempts = 0, rj_run_after = db_now e,
     rj_cancel_requested = False\<rparr>"

text \<open>Primary key, one live restore per project, and the CHECK on the length of the reason.\<close>

definition insert_restore :: "restore_row \<Rightarrow> db \<Rightarrow> db outcome" where
  "insert_restore j s =
    (if list_ex (\<lambda>x. rj_id x = rj_id j) (restore_jobs s)
        \<or> (restore_live j \<and> list_ex (\<lambda>x. rj_project x = rj_project j \<and> restore_live x) (restore_jobs s))
        \<or> rj_reason j = [] \<or> length (rj_reason j) > 512
     then Inl Database
     else Inr (s\<lparr>restore_jobs := restore_jobs s @ [j]\<rparr>))"

definition enqueue_restore ::
    "env \<Rightarrow> uuid \<Rightarrow> uuid \<Rightarrow> uuid \<Rightarrow> uuid option \<Rightarrow> int option \<Rightarrow> string \<Rightarrow> string \<Rightarrow> restore_row txn" where
  "enqueue_restore e job_id user_id project_id snapshot_id target reason request_id s =
    (case validate_restore_target snapshot_id target of
       Inl _ \<Rightarrow> (s, Inl InvalidRestoreTarget)
     | Inr _ \<Rightarrow>
    (case require_active_project_for_update user_id project_id s of
       Inl er \<Rightarrow> (s, Inl er)
     | Inr (_, current_sequence) \<Rightarrow>
         if active_restore user_id project_id s then (s, Inl Conflict)
         else if (case target of None \<Rightarrow> False | Some sequence \<Rightarrow> sequence > current_sequence)
         then (s, Inl InvalidRestoreTarget)
         else if (case snapshot_id of None \<Rightarrow> False
                  | Some i \<Rightarrow> \<not> list_ex (\<lambda>x. sn_owner x = user_id \<and> sn_id x = i
                      \<and> sn_project x = project_id \<and> sn_status x = SnReady) (snapshots s))
         then (s, Inl NotFound)
         else (let job = new_restore e job_id user_id project_id snapshot_id target reason request_id in
               case insert_restore job s of
                 Inl er \<Rightarrow> (s, Inl er)
               | Inr s1 \<Rightarrow>
                   (insert_audit e user_id (Some user_id) ''restore.requested''
                      (JObj [(''projectId'', JStr project_id), (''restoreId'', JStr job_id)])
                      request_id s1, Inr job))))"

definition get_restore_job :: "uuid \<Rightarrow> uuid \<Rightarrow> uuid \<Rightarrow> db \<Rightarrow> restore_row outcome" where
  "get_restore_job user_id project_id restore_id s =
    ok_or (List.find (\<lambda>j. rj_owner j = user_id \<and> rj_id j = restore_id \<and> rj_project j = project_id)
      (restore_jobs s)) NotFound"

definition cancel_queued :: "env \<Rightarrow> restore_row \<Rightarrow> restore_row" where
  "cancel_queued e j = j\<lparr>rj_status := RCancelled, rj_finished_at := Some (db_now e)\<rparr>"

definition request_cancel :: "restore_row \<Rightarrow> restore_row" where
  "request_cancel j = j\<lparr>rj_cancel_requested := True\<rparr>"

definition update_restore :: "(restore_row \<Rightarrow> bool) \<Rightarrow> (restore_row \<Rightarrow> restore_row) \<Rightarrow> db \<Rightarrow> db" where
  "update_restore P f s = s\<lparr>restore_jobs := update_where P f (restore_jobs s)\<rparr>"

definition cancel_restore ::
    "env \<Rightarrow> uuid \<Rightarrow> uuid \<Rightarrow> uuid \<Rightarrow> string \<Rightarrow> string \<Rightarrow> restore_row txn" where
  "cancel_restore e user_id project_id restore_id reason request_id s =
    (case List.find (\<lambda>j. rj_owner j = user_id \<and> rj_id j = restore_id \<and> rj_project j = project_id)
            (restore_jobs s) of
       None \<Rightarrow> (s, Inl NotFound)
     | Some j \<Rightarrow>
         (let audit = (\<lambda>action. insert_audit e user_id (Some user_id) action
                (JObj [(''projectId'', JStr project_id), (''restoreId'', JStr restore_id),
                  (''reason'', JStr reason)]) request_id) in
          case rj_status j of
            RQueued \<Rightarrow> (audit ''restore.cancelled'' (update_restore
                (\<lambda>x. rj_owner x = user_id \<and> rj_id x = restore_id \<and> rj_status x = RQueued)
                (cancel_queued e) s), Inr (cancel_queued e j))
          | RRunning \<Rightarrow> (audit ''restore.cancel_requested'' (update_restore
                (\<lambda>x. rj_owner x = user_id \<and> rj_id x = restore_id \<and> rj_status x = RRunning)
                request_cancel s), Inr (request_cancel j))
          | _ \<Rightarrow> (s, Inl Conflict)))"

subsection \<open>The lease\<close>

definition lease_minutes :: "instant \<Rightarrow> instant" where
  "lease_minutes now = now + minutes 5"

definition claimable_restore :: "env \<Rightarrow> restore_row \<Rightarrow> bool" where
  "claimable_restore e j \<longleftrightarrow>
     (rj_status j = RQueued \<and> rj_run_after j \<le> db_now e)
   \<or> (rj_status j = RRunning \<and> (case rj_lease_expires_at j of None \<Rightarrow> False | Some t \<Rightarrow> t < db_now e))"

definition claim_restore_row :: "env \<Rightarrow> uuid \<Rightarrow> int \<Rightarrow> restore_row \<Rightarrow> restore_row" where
  "claim_restore_row e lease generation j = j\<lparr>rj_status := RRunning,
     rj_generation_before := (case rj_generation_before j of None \<Rightarrow> Some generation | Some g \<Rightarrow> Some g),
     rj_lease := Some lease, rj_lease_expires_at := Some (lease_minutes (db_now e)),
     rj_started_at := (case rj_started_at j of None \<Rightarrow> Some (db_now e) | Some t \<Rightarrow> Some t)\<rparr>"

definition fail_restore_row :: "env \<Rightarrow> string \<Rightarrow> restore_row \<Rightarrow> restore_row" where
  "fail_restore_row e code j =
    j\<lparr>rj_status := RFailed, rj_error := Some code, rj_finished_at := Some (db_now e)\<rparr>"

text \<open>\<open>ORDER BY created_at, id LIMIT 1\<close>; the lease token is the \<open>Uuid::new_v4()\<close> of the call.\<close>

definition claim_restore_job :: "env \<Rightarrow> uuid \<Rightarrow> restore_row option txn" where
  "claim_restore_job e lease s =
    (case sort_key rj_created_at (sort_key rj_id (filter (claimable_restore e) (restore_jobs s))) of
       [] \<Rightarrow> (s, Inr None)
     | job # _ \<Rightarrow>
         (let openable = (if rj_status job = RQueued then {PActive, PMaintenance} else {PMaintenance});
              this_project = (\<lambda>p. p_id p = rj_project job \<and> p_status p \<in> openable) in
          case List.find this_project (projects s) of
            None \<Rightarrow> (update_restore (\<lambda>j. rj_id j = rj_id job)
                      (fail_restore_row e ''PROJECT_MAINTENANCE'') s, Inl ProjectMaintenance)
          | Some p \<Rightarrow>
              (let s1 = (if rj_status job = RQueued
                         then s\<lparr>projects := update_where this_project (set_status e PMaintenance) (projects s)\<rparr>
                         else s) in
               (update_restore (\<lambda>j. rj_id j = rj_id job)
                  (claim_restore_row e lease (p_generation p)) s1,
                Inr (Some (claim_restore_row e lease (p_generation p) job))))))"

text \<open>The row a worker may touch: running, and under the token the worker was given.\<close>

definition holds_lease :: "uuid \<Rightarrow> uuid \<Rightarrow> restore_row \<Rightarrow> bool" where
  "holds_lease job_id lease j \<longleftrightarrow> rj_id j = job_id \<and> rj_status j = RRunning \<and> rj_lease j = Some lease"

definition create_pre_restore_snapshot ::
    "(json \<Rightarrow> bytes) \<Rightarrow> (bytes \<Rightarrow> string) \<Rightarrow> env \<Rightarrow> uuid \<Rightarrow> restore_row
      \<Rightarrow> (uuid \<times> uuid \<times> bytes) txn" where
  "create_pre_restore_snapshot to_vec sha256_hex e snapshot_id job s =
    (case List.find (\<lambda>j. rj_id j = rj_id job \<and> rj_project j = rj_project job \<and> rj_status j = RRunning
              \<and> rj_lease job \<noteq> None \<and> rj_lease j = rj_lease job) (restore_jobs s) of
       None \<Rightarrow> (s, Inl NotFound)
     | Some j \<Rightarrow>
    (case List.find (\<lambda>p. p_id p = rj_project job) (projects s) of
       None \<Rightarrow> (s, Inl NotFound)
     | Some p \<Rightarrow>
         if rj_cancel_requested j then (s, Inl RestoreCancelled)
         else (let manifest = snapshot_json snapshot_id (p_generation p) (p_change_seq p)
                       (snapshot_rows (\<lambda>_. True) (rj_project job) s);
                   body = to_vec manifest in
               case as_conflict (insert_snapshot (pending_snapshot e snapshot_id (rj_project job) (p_owner p)
                      (p_generation p) (p_change_seq p) (sha256_hex body) manifest) s) of
                 Inl er \<Rightarrow> (s, Inl er)
               | Inr s1 \<Rightarrow>
                   (update_restore (\<lambda>x. rj_id x = rj_id job \<and> rj_status x = RRunning \<and> rj_lease x = rj_lease job)
                      (\<lambda>x. x\<lparr>rj_pre_snapshot := Some snapshot_id\<rparr>) s1,
                    Inr (snapshot_id, p_owner p, body)))))"

definition mark_snapshot_ready :: "uuid \<Rightarrow> string \<Rightarrow> string \<Rightarrow> unit txn" where
  "mark_snapshot_ready snapshot_id bucket key s =
    (s\<lparr>snapshots := update_where (\<lambda>x. sn_id x = snapshot_id \<and> sn_status x = SnPending)
         (finish_snapshot bucket key) (snapshots s)\<rparr>, Inr ())"

definition mark_snapshot_ready_for_job ::
    "uuid \<Rightarrow> uuid \<Rightarrow> uuid \<Rightarrow> string \<Rightarrow> string \<Rightarrow> unit txn" where
  "mark_snapshot_ready_for_job job_id lease snapshot_id bucket key s =
    (s\<lparr>snapshots := update_where (\<lambda>x. sn_id x = snapshot_id \<and> sn_status x = SnPending
           \<and> list_ex (holds_lease job_id lease) (restore_jobs s))
         (finish_snapshot bucket key) (snapshots s)\<rparr>, Inr ())"

text \<open>The update commits before the count of its rows is looked at.\<close>

definition renew_restore_lease :: "env \<Rightarrow> uuid \<Rightarrow> uuid \<Rightarrow> unit txn" where
  "renew_restore_lease e job_id lease s =
    (update_restore (holds_lease job_id lease)
       (\<lambda>j. j\<lparr>rj_lease_expires_at := Some (lease_minutes (db_now e))\<rparr>) s,
     if rows_affected (holds_lease job_id lease) (restore_jobs s) \<noteq> 1 then Inl Conflict else Inr ())"

definition drop_lease :: "restore_row \<Rightarrow> restore_row" where
  "drop_lease j = j\<lparr>rj_lease := None, rj_lease_expires_at := None\<rparr>"

definition cancel_restore_with_lease :: "env \<Rightarrow> uuid \<Rightarrow> uuid \<Rightarrow> unit txn" where
  "cancel_restore_with_lease e job_id lease s =
    (case List.find (holds_lease job_id lease) (restore_jobs s) of
       None \<Rightarrow> (s, Inl NotFound)
     | Some j \<Rightarrow>
         if \<not> rj_cancel_requested j then (s, Inl Conflict)
         else (let s1 = update_restore (holds_lease job_id lease) (\<lambda>j. drop_lease (cancel_queued e j)) s in
           (insert_audit e (rj_requested_by j) (Some (rj_owner j)) ''restore.cancelled''
              (JObj [(''projectId'', JStr (rj_project j)), (''restoreId'', JStr job_id)]) []
              (s1\<lparr>projects := update_where (\<lambda>p. p_id p = rj_project j \<and> p_status p = PMaintenance)
                    (set_status e PActive) (projects s1)\<rparr>),
            Inr ())))"

definition fail_restore_job :: "env \<Rightarrow> uuid \<Rightarrow> string \<Rightarrow> unit txn" where
  "fail_restore_job e job_id code s =
    (update_restore (\<lambda>j. rj_id j = job_id \<and> rj_status j = RRunning) (fail_restore_row e code) s, Inr ())"

definition fail_restore_job_with_lease :: "env \<Rightarrow> uuid \<Rightarrow> uuid \<Rightarrow> string \<Rightarrow> unit txn" where
  "fail_restore_job_with_lease e job_id lease code s =
    (update_restore (holds_lease job_id lease) (\<lambda>j. drop_lease (fail_restore_row e code j)) s, Inr ())"

definition retry_restore_row :: "env \<Rightarrow> string \<Rightarrow> restore_row \<Rightarrow> restore_row" where
  "retry_restore_row e code j = drop_lease (j\<lparr>rj_attempts := rj_attempts j + 1, rj_error := Some code,
     rj_status := (if rj_attempts j + 1 < 3 then RQueued else RFailed),
     rj_run_after := db_now e + minutes 1,
     rj_finished_at := (if rj_attempts j + 1 < 3 then None else Some (db_now e))\<rparr>)"

definition retry_restore_job_with_lease :: "env \<Rightarrow> uuid \<Rightarrow> uuid \<Rightarrow> string \<Rightarrow> bool txn" where
  "retry_restore_job_with_lease e job_id lease code s =
    (update_restore (holds_lease job_id lease) (retry_restore_row e code) s,
     Inr (case List.find (holds_lease job_id lease) (restore_jobs s) of
            None \<Rightarrow> False | Some j \<Rightarrow> rj_attempts j + 1 < 3))"

definition reopen_failed_restore :: "env \<Rightarrow> uuid \<Rightarrow> uuid \<Rightarrow> string \<Rightarrow> string \<Rightarrow> unit txn" where
  "reopen_failed_restore e actor project_id reason request_id s =
    (case verify_admin actor s of
       Inl er \<Rightarrow> (s, Inl er)
     | Inr _ \<Rightarrow>
    (case List.find (\<lambda>p. p_id p = project_id) (projects s) of
       None \<Rightarrow> (s, Inl NotFound)
     | Some p \<Rightarrow>
         if p_status p \<noteq> PMaintenance then (s, Inl RestoreNotReopenable)
         else if \<not> list_ex (\<lambda>j. rj_project j = project_id \<and> rj_status j = RFailed) (restore_jobs s)
         then (s, Inl RestoreNotReopenable)
         else (insert_audit e actor None ''restore.reopened''
                 (JObj [(''projectId'', JStr project_id), (''reason'', JStr reason)]) request_id
                 (s\<lparr>projects := update_where (\<lambda>p. p_id p = project_id) (set_status e PActive) (projects s)\<rparr>),
               Inr ())))"

subsection \<open>Execution\<close>

text \<open>The cast of the stored text to \<open>sync_object_kind\<close>.\<close>

definition kind_of_str :: "string \<Rightarrow> object_kind option" where
  "kind_of_str t = List.find (\<lambda>k. kind_as_str k = t) [Todo, Classification, Index, Image]"

definition restore_target ::
    "(string \<Rightarrow> uuid option) \<Rightarrow> restore_row \<Rightarrow> db \<Rightarrow> manifest_item list outcome" where
  "restore_target parse_uuid job s =
    (case rj_snapshot job of
       Some snapshot_id \<Rightarrow>
         try_bind (ok_or (List.find (\<lambda>x. sn_id x = snapshot_id \<and> sn_project x = rj_project job
             \<and> sn_status x = SnReady) (snapshots s)) NotFound)
           (\<lambda>x. manifest_items parse_uuid (sn_manifest x))
     | None \<Rightarrow>
         (case rj_target job of
            Some sequence \<Rightarrow> Inr (map manifest_item_from_row
              (ranked_rows (\<lambda>_. True) (rj_project job) sequence s))
          | None \<Rightarrow> Inl InvalidRestoreTarget))"

definition tombstone_item :: "sync_record \<Rightarrow> manifest_item" where
  "tombstone_item row = \<lparr>mi_kind = sr_kind row, mi_id = sr_id row, mi_schema_version = None,
     mi_revision = 0, mi_content_hash = None, mi_device_id = sr_device_id row, mi_tombstone = True\<rparr>"

definition same_item :: "sync_record \<Rightarrow> manifest_item \<Rightarrow> bool" where
  "same_item row item \<longleftrightarrow> mi_kind item = sr_kind row \<and> mi_id item = sr_id row"

text \<open>Objects that the target does not name are deleted: the loop that extends the target.\<close>

fun complete_target :: "sync_record list \<Rightarrow> manifest_item list \<Rightarrow> manifest_item list" where
  "complete_target [] target = target"
| "complete_target (row # current) target =
    complete_target current
      (if list_ex (same_item row) target then target else target @ [tombstone_item row])"

definition restored_revision ::
    "env \<Rightarrow> uuid \<Rightarrow> uuid \<Rightarrow> uuid \<Rightarrow> object_kind \<Rightarrow> int \<Rightarrow> uuid option \<Rightarrow> manifest_item \<Rightarrow> revision_row" where
  "restored_revision e owner project_id revision_id kind actual payload item =
    \<lparr>rv_id = revision_id, rv_project = project_id, rv_owner = owner, rv_kind = kind,
     rv_object = mi_id item, rv_revision = i64_wrap (actual + 1),
     rv_base = (if actual > 0 then Some actual else None),
     rv_schema_version = mi_schema_version item, rv_payload = payload,
     rv_hash = mi_content_hash item, rv_tombstone = mi_tombstone item, rv_changed_at = db_now e,
     rv_device = mi_device_id item\<rparr>"

definition restore_payload :: "uuid \<Rightarrow> manifest_item \<Rightarrow> db \<Rightarrow> uuid option outcome" where
  "restore_payload project_id item s =
    (if mi_tombstone item then Inr None
     else try_bind (ok_or (mi_content_hash item) InvalidPayload) (\<lambda>hash.
       try_bind (ok_or (List.find (\<lambda>p. pl_project p = project_id \<and> pl_hash p = hash) (payloads s))
                  PayloadNotFound) (\<lambda>p. Inr (Some (pl_id p)))))"

text \<open>One iteration; the result tells whether a revision was appended.\<close>

definition restore_item ::
    "env \<Rightarrow> uuid \<Rightarrow> uuid \<Rightarrow> sync_record list \<Rightarrow> uuid \<Rightarrow> manifest_item \<Rightarrow> db \<Rightarrow> (db \<times> bool) outcome" where
  "restore_item e owner project_id current revision_id item s =
    (let existing = List.find (\<lambda>row. same_item row item) current in
     if (case existing of None \<Rightarrow> False | Some row \<Rightarrow> same_manifest_state row item)
     then Inr (s, False)
     else (let actual = (case existing of None \<Rightarrow> 0 | Some row \<Rightarrow> sr_revision row) in
       try_bind (restore_payload project_id item s) (\<lambda>payload.
       try_bind (ok_or (kind_of_str (mi_kind item)) Database) (\<lambda>kind.
       try_bind (append_revision e (\<lambda>_. True)
           (restored_revision e owner project_id revision_id kind actual payload item) s)
         (\<lambda>(s1, _). Inr (s1, True))))))"

fun restore_items ::
    "env \<Rightarrow> uuid \<Rightarrow> uuid \<Rightarrow> sync_record list \<Rightarrow> (nat \<Rightarrow> uuid) \<Rightarrow> nat \<Rightarrow> manifest_item list \<Rightarrow> db
      \<Rightarrow> (db \<times> int \<times> int) outcome" where
  "restore_items e owner project_id current ids i [] s = Inr (s, 0, 0)"
| "restore_items e owner project_id current ids i (item # items) s =
    try_bind (restore_item e owner project_id current (ids i) item s) (\<lambda>(s1, applied).
    try_bind (restore_items e owner project_id current ids (Suc i) items s1) (\<lambda>(s2, objects, tombstones).
    Inr (s2, objects + (if applied \<and> \<not> mi_tombstone item then 1 else 0),
             tombstones + (if applied \<and> mi_tombstone item then 1 else 0))))"

definition reopen_project :: "env \<Rightarrow> int \<Rightarrow> project_row \<Rightarrow> project_row" where
  "reopen_project e generation p =
    p\<lparr>p_generation := generation, p_status := PActive, p_updated_at := db_now e\<rparr>"

definition finish_restore :: "env \<Rightarrow> int \<Rightarrow> int \<Rightarrow> int \<Rightarrow> restore_row \<Rightarrow> restore_row" where
  "finish_restore e generation objects tombstones j =
    drop_lease (j\<lparr>rj_status := RSucceeded, rj_generation_after := Some generation, rj_objects := objects,
      rj_tombstones := tombstones, rj_finished_at := Some (db_now e)\<rparr>)"

definition restore_audit :: "env \<Rightarrow> restore_row \<Rightarrow> int \<Rightarrow> int \<Rightarrow> int \<Rightarrow> db \<Rightarrow> db" where
  "restore_audit e job generation objects tombstones s =
    s\<lparr>audit_events := audit_events s @
      [\<lparr>au_actor = Some (rj_requested_by job), au_subject = Some (rj_requested_by job),
        au_project = Some (rj_project job), au_action = ''restore.completed'',
        au_metadata = JObj [(''restoreId'', JStr (rj_id job)), (''generation'', JNum generation),
          (''objects'', JNum objects), (''tombstones'', JNum tombstones)],
        au_request_id = None, au_created_at = db_now e\<rparr>]\<rparr>"

definition execute_restore_with_lease ::
    "(string \<Rightarrow> uuid option) \<Rightarrow> env \<Rightarrow> (nat \<Rightarrow> uuid) \<Rightarrow> uuid \<Rightarrow> uuid \<Rightarrow> unit txn" where
  "execute_restore_with_lease parse_uuid e ids job_id lease s =
    (case List.find (holds_lease job_id lease) (restore_jobs s) of
       None \<Rightarrow> (s, Inl NotFound)
     | Some job \<Rightarrow>
         if rj_cancel_requested job then (s, Inl RestoreCancelled)
         else
    (case List.find (\<lambda>p. p_id p = rj_project job \<and> p_status p = PMaintenance) (projects s) of
       None \<Rightarrow> (s, Inl ProjectMaintenance)
     | Some p \<Rightarrow>
    (case restore_target parse_uuid job s of
       Inl er \<Rightarrow> (s, Inl er)
     | Inr target \<Rightarrow>
         (let current = map snd (head_rows (\<lambda>_. True) (rj_project job) s);
              generation_after = i64_wrap (p_generation p + 1) in
          case restore_items e (p_owner p) (rj_project job) current ids 0
                 (complete_target current target) s of
            Inl er \<Rightarrow> (s, Inl er)
          | Inr (s1, objects, tombstones) \<Rightarrow>
              if generation_after \<le> 0 then (s, Inl Database)
              else (let s2 = s1\<lparr>projects := update_where (\<lambda>p. p_id p = rj_project job)
                               (reopen_project e generation_after) (projects s1)\<rparr>;
                        s3 = update_restore (holds_lease job_id lease)
                               (finish_restore e generation_after objects tombstones) s2 in
                    (restore_audit e job generation_after objects tombstones s3, Inr ()))))))"

definition execute_restore ::
    "(string \<Rightarrow> uuid option) \<Rightarrow> env \<Rightarrow> (nat \<Rightarrow> uuid) \<Rightarrow> uuid \<Rightarrow> unit txn" where
  "execute_restore parse_uuid e ids job_id s =
    (case List.find (\<lambda>j. rj_id j = job_id \<and> rj_status j = RRunning \<and> rj_lease j \<noteq> None) (restore_jobs s) of
       None \<Rightarrow> (s, Inl Conflict)
     | Some j \<Rightarrow> execute_restore_with_lease parse_uuid e ids job_id (the (rj_lease j)) s)"

interpretation cancel_queued: key_update rj_id "cancel_queued e" for e
  by unfold_locales (simp add: cancel_queued_def)

interpretation request_cancel: key_update rj_id request_cancel
  by unfold_locales (simp add: request_cancel_def)

interpretation claim_restore_row: key_update rj_id "claim_restore_row e l g" for e l g
  by unfold_locales (simp add: claim_restore_row_def)

interpretation fail_restore_row: key_update rj_id "fail_restore_row e c" for e c
  by unfold_locales (simp add: fail_restore_row_def)

interpretation retry_restore_row: key_update rj_id "retry_restore_row e c" for e c
  by unfold_locales (simp add: retry_restore_row_def drop_lease_def)

interpretation reopen_project: key_update p_id "reopen_project e g" for e g
  by unfold_locales (simp add: reopen_project_def)

interpretation finish_snapshot: key_update sn_id "finish_snapshot b k" for b k
  by unfold_locales (simp add: finish_snapshot_def)

end
