(* ===== verification/Purge.thy ===== *)
theory Purge
  imports Projects
begin

text \<open>
  Deletion of projects and accounts (\<open>crates/persistence/src/lib.rs\<close>): the lease under which the
  worker runs a purge job, the detachment that removes the rows and leaves the object keys on the
  job, the completion, the bounded retry, and the two phases of an account purge, the verified
  export and the confirmed deletion.
\<close>

subsection \<open>Permissions of the worker\<close>

text \<open>
  The worker's transactions run as \<open>tasktips_worker\<close>. The grants of the migrations on the two
  tables where a statement of the worker asks for a privilege the role does not have; every other
  statement of the model is covered by the grants. \<open>SELECT ... FOR UPDATE\<close> needs both SELECT and
  UPDATE, a DELETE whose condition reads columns needs SELECT and DELETE.
\<close>

datatype privilege = PrivSelect | PrivInsert | PrivUpdate | PrivDelete

datatype granted_table = PayloadsTable | AuditEventsTable

fun worker_grants :: "granted_table \<Rightarrow> privilege list" where
  "worker_grants PayloadsTable = [PrivSelect, PrivDelete]"
| "worker_grants AuditEventsTable = [PrivInsert, PrivUpdate, PrivDelete]"

definition permitted :: "granted_table \<Rightarrow> privilege list \<Rightarrow> bool" where
  "permitted t ps \<longleftrightarrow> list_all (\<lambda>p. p \<in> set (worker_grants t)) ps"

subsection \<open>Leases\<close>

definition update_job :: "(job_row \<Rightarrow> bool) \<Rightarrow> (job_row \<Rightarrow> job_row) \<Rightarrow> db \<Rightarrow> db" where
  "update_job P f s = s\<lparr>jobs := update_where P f (jobs s)\<rparr>"

definition claimable_job :: "env \<Rightarrow> job_kind \<Rightarrow> job_row \<Rightarrow> bool" where
  "claimable_job e kind j \<longleftrightarrow>
     j_kind j = kind \<and> j_run_after j \<le> db_now e
   \<and> (j_status j = JQueued
      \<or> (j_status j = JRunning \<and> (case j_lease_expires_at j of None \<Rightarrow> False | Some t \<Rightarrow> t < db_now e)))"

definition claim_job_row :: "env \<Rightarrow> uuid \<Rightarrow> job_row \<Rightarrow> job_row" where
  "claim_job_row e lease j = j\<lparr>j_status := JRunning, j_attempts := j_attempts j + 1,
     j_lease := Some lease, j_lease_expires_at := Some (db_now e + minutes 5),
     j_started_at := (case j_started_at j of None \<Rightarrow> Some (db_now e) | Some t \<Rightarrow> Some t),
     j_error := None\<rparr>"

definition claim_purge_job :: "job_kind \<Rightarrow> env \<Rightarrow> uuid \<Rightarrow> job_row option txn" where
  "claim_purge_job kind e lease s =
    (case sort_key j_run_after (sort_key j_created_at (sort_key j_id (filter (claimable_job e kind) (jobs s)))) of
       [] \<Rightarrow> (s, Inr None)
     | job # _ \<Rightarrow>
         (update_job (\<lambda>j. j_id j = j_id job) (claim_job_row e lease) s, Inr (Some (claim_job_row e lease job))))"

definition claim_project_purge_job :: "env \<Rightarrow> uuid \<Rightarrow> job_row option txn" where
  "claim_project_purge_job = claim_purge_job ProjectPurge"

definition claim_account_purge_job :: "env \<Rightarrow> uuid \<Rightarrow> job_row option txn" where
  "claim_account_purge_job = claim_purge_job AccountPurge"

text \<open>The job a worker's token names, and the same while the lease has not expired.\<close>

definition holds_job :: "uuid \<Rightarrow> uuid \<Rightarrow> job_row \<Rightarrow> bool" where
  "holds_job job_id lease j \<longleftrightarrow> j_id j = job_id \<and> j_status j = JRunning \<and> j_lease j = Some lease"

definition live_job :: "env \<Rightarrow> job_kind \<Rightarrow> uuid \<Rightarrow> uuid \<Rightarrow> job_row \<Rightarrow> bool" where
  "live_job e kind job_id lease j \<longleftrightarrow>
     holds_job job_id lease j \<and> j_kind j = kind
   \<and> (case j_lease_expires_at j of None \<Rightarrow> False | Some t \<Rightarrow> t > db_now e)"

definition drop_job_lease :: "job_row \<Rightarrow> job_row" where
  "drop_job_lease j = j\<lparr>j_lease := None, j_lease_expires_at := None\<rparr>"

definition succeed_job :: "env \<Rightarrow> job_row \<Rightarrow> job_row" where
  "succeed_job e j = drop_job_lease (j\<lparr>j_status := JSucceeded, j_finished_at := Some (db_now e)\<rparr>)"

definition retry_job :: "env \<Rightarrow> string \<Rightarrow> job_row \<Rightarrow> job_row" where
  "retry_job e code j = drop_job_lease (j\<lparr>j_status := (if j_attempts j < 5 then JQueued else JFailed),
     j_error := Some code, j_run_after := db_now e + minutes 1,
     j_finished_at := (if j_attempts j < 5 then None else Some (db_now e))\<rparr>)"

definition set_job_payload :: "json \<Rightarrow> job_row \<Rightarrow> job_row" where
  "set_job_payload payload j = j\<lparr>j_payload := payload\<rparr>"

interpretation claim_job_row: key_update j_id "claim_job_row e lease" for e lease
  by unfold_locales (simp add: claim_job_row_def)

interpretation succeed_job: key_update j_id "succeed_job e" for e
  by unfold_locales (simp add: succeed_job_def drop_job_lease_def)

interpretation retry_job: key_update j_id "retry_job e code" for e code
  by unfold_locales (simp add: retry_job_def drop_job_lease_def)

interpretation set_job_payload: key_update j_id "set_job_payload p" for p
  by unfold_locales (simp add: set_job_payload_def)

subsection \<open>Detachment\<close>

text \<open>
  The DELETE statements of a purge, children before parents, over the rows that a condition on
  their owner and project selects. Deleting a project sets \<open>audit_events.project_id\<close> to NULL
  (\<open>ON DELETE SET NULL\<close>).
\<close>

definition forget_project :: "(uuid \<Rightarrow> bool) \<Rightarrow> audit_row \<Rightarrow> audit_row" where
  "forget_project gone a =
    (case au_project a of None \<Rightarrow> a | Some pid \<Rightarrow> if gone pid then a\<lparr>au_project := None\<rparr> else a)"

definition delete_owned_rows :: "(uuid \<Rightarrow> uuid \<Rightarrow> bool) \<Rightarrow> db \<Rightarrow> db" where
  "delete_owned_rows doomed s = s\<lparr>
     bootstrap_completions := delete_where (\<lambda>r. doomed (bc_owner r) (bc_project r)) (bootstrap_completions s),
     idempotency_records := delete_where (\<lambda>r. doomed (ir_owner r) (ir_project r)) (idempotency_records s),
     sync_attempts := delete_where (\<lambda>r. doomed (sa_owner r) (sa_project r)) (sync_attempts s),
     restore_jobs := delete_where (\<lambda>r. doomed (rj_owner r) (rj_project r)) (restore_jobs s),
     snapshots := delete_where (\<lambda>r. doomed (sn_owner r) (sn_project r)) (snapshots s),
     bootstrap_manifests := delete_where (\<lambda>r. doomed (bm_owner r) (bm_project r)) (bootstrap_manifests s),
     change_log := delete_where (\<lambda>r. doomed (cl_owner r) (cl_project r)) (change_log s),
     object_heads := delete_where (\<lambda>r. doomed (h_owner r) (h_project r)) (object_heads s),
     object_revisions := delete_where (\<lambda>r. doomed (rv_owner r) (rv_project r)) (object_revisions s),
     payloads := delete_where (\<lambda>r. doomed (pl_owner r) (pl_project r)) (payloads s),
     projects := delete_where (\<lambda>p. doomed (p_owner p) (p_id p)) (projects s),
     audit_events := map (forget_project (\<lambda>pid. list_ex (\<lambda>p. p_id p = pid \<and> doomed (p_owner p) pid) (projects s)))
       (audit_events s)\<rparr>"

text \<open>The keys a UNION of the three tables returns, each once; their order is not specified.\<close>

definition object_keys :: "(uuid \<Rightarrow> uuid \<Rightarrow> bool) \<Rightarrow> db \<Rightarrow> string list" where
  "object_keys doomed s = remdups
    (map pl_key (filter (\<lambda>r. doomed (pl_owner r) (pl_project r)) (payloads s))
     @ map sn_key (filter (\<lambda>r. doomed (sn_owner r) (sn_project r)) (snapshots s))
     @ map bm_key (filter (\<lambda>r. doomed (bm_owner r) (bm_project r)) (bootstrap_manifests s)))"

text \<open>The payload of a job whose detachment has been committed.\<close>

definition is_detached :: "json \<Rightarrow> bool" where
  "is_detached payload \<longleftrightarrow> Option.bind (json_get ''detached'' payload) json_as_bool = Some True"

definition detached_keys :: "json \<Rightarrow> string list outcome" where
  "detached_keys payload =
    try_bind (ok_or (Option.bind (json_get ''objectKeys'' payload) json_as_array) InvalidPayload) (\<lambda>xs.
      ok_or (those (map json_as_str xs)) InvalidPayload)"

definition prepare_project_purge :: "env \<Rightarrow> uuid \<Rightarrow> uuid \<Rightarrow> string list txn" where
  "prepare_project_purge e job_id lease s =
    (case List.find (live_job e ProjectPurge job_id lease) (jobs s) of
       None \<Rightarrow> (s, Inl NotFound)
     | Some job \<Rightarrow>
    (case (j_owner job, j_project job) of
       (Some owner, Some pid) \<Rightarrow>
         if is_detached (j_payload job) then (s, detached_keys (j_payload job))
         else if map_option p_status (List.find (\<lambda>p. p_id p = pid \<and> p_owner p = owner) (projects s)) \<noteq> Some PDeleting
         then (s, Inl Conflict)
         else (let keys = object_keys (\<lambda>_ p. p = pid) s in
           (update_job (holds_job job_id lease)
              (set_job_payload (JObj [(''detached'', JBool True), (''objectKeys'', JArr (map JStr keys))]))
              (delete_owned_rows (\<lambda>_ p. p = pid) s), Inr keys))
     | _ \<Rightarrow> (s, Inl Database)))"

definition complete_project_purge :: "env \<Rightarrow> uuid \<Rightarrow> uuid \<Rightarrow> unit txn" where
  "complete_project_purge e job_id lease s =
    (case List.find (live_job e ProjectPurge job_id lease) (jobs s) of
       None \<Rightarrow> (s, Inl NotFound)
     | Some job \<Rightarrow>
    (case (j_owner job, j_project job) of
       (Some owner, Some pid) \<Rightarrow>
         (let s1 = update_job (\<lambda>j. j_id j = job_id \<and> j_lease j = Some lease) (succeed_job e) s in
          (s1\<lparr>audit_events := audit_events s1 @ [\<lparr>au_actor = Some owner, au_subject = Some owner,
              au_project = None, au_action = ''project.purge_completed'',
              au_metadata = JObj [(''projectId'', JStr pid), (''jobId'', JStr job_id)],
              au_request_id = None, au_created_at = db_now e\<rparr>]\<rparr>, Inr ()))
     | _ \<Rightarrow> (s, Inl Database)))"

definition fail_project_purge :: "env \<Rightarrow> uuid \<Rightarrow> uuid \<Rightarrow> string \<Rightarrow> unit txn" where
  "fail_project_purge e job_id lease code s =
    (if rows_affected (holds_job job_id lease) (jobs s) \<noteq> 1 then (s, Inl NotFound)
     else (update_job (holds_job job_id lease) (retry_job e code) s, Inr ()))"

end
