(* ===== verification/Account_Purge.thy ===== *)
theory Account_Purge
  imports Purge
begin

text \<open>
  The two phases of an account purge (\<open>crates/persistence/src/lib.rs\<close>): the administrator's request,
  the export the worker archives, the confirmation that makes the deletion irreversible, the
  detachment of everything the account owns, and the completion.
\<close>

record account_purge_response =
  ap_job :: uuid
  ap_export :: uuid
  ap_status :: string
  ap_confirmation_required :: bool

fun job_status_as_str :: "job_status \<Rightarrow> string" where
  "job_status_as_str JQueued = ''queued''"
| "job_status_as_str JRunning = ''running''"
| "job_status_as_str JSucceeded = ''succeeded''"
| "job_status_as_str JFailed = ''failed''"

subsection \<open>Requests of the administrator\<close>

text \<open>The account of a purge: an ordinary user that is active or disabled.\<close>

definition purgeable_user :: "uuid \<Rightarrow> db \<Rightarrow> unit outcome" where
  "purgeable_user subject s =
    (case List.find (\<lambda>u. u_id u = subject) (users s) of
       None \<Rightarrow> Inl NotFound
     | Some u \<Rightarrow> if u_role u \<noteq> User \<or> u_status u \<notin> {Active, Disabled}
                 then Inl InvalidAccountTransition else Inr ())"

definition active_project_purge :: "uuid \<Rightarrow> db \<Rightarrow> bool" where
  "active_project_purge subject s \<longleftrightarrow>
    list_ex (\<lambda>j. j_owner j = Some subject \<and> j_kind j = ProjectPurge \<and> j_status j \<in> {JQueued, JRunning}) (jobs s)"

text \<open>
  The join of an export with its job, and the newest open one of an account
  (\<open>ORDER BY created_at DESC LIMIT 1\<close>).
\<close>

definition open_exports :: "env \<Rightarrow> uuid \<Rightarrow> db \<Rightarrow> (export_row \<times> job_row) list" where
  "open_exports e subject s =
    concat (map (\<lambda>x. map (\<lambda>j. (x, j)) (filter (\<lambda>j. j_id j = ex_job x) (jobs s)))
      (filter (\<lambda>x. ex_user x = subject \<and> ex_expires_at x > db_now e \<and> ex_status x \<in> {ExPending, ExReady})
        (account_purge_exports s)))"

definition new_export :: "env \<Rightarrow> uuid \<Rightarrow> uuid \<Rightarrow> uuid \<Rightarrow> export_row" where
  "new_export e export_id subject job_id =
    \<lparr>ex_id = export_id, ex_user = subject, ex_job = job_id,
     ex_key = ''users/'' @ subject @ ''/exports/'' @ export_id @ ''.tar.zst'',
     ex_hash = None, ex_size = None, ex_status = ExPending, ex_created_at = db_now e,
     ex_expires_at = db_now e + days 7, ex_completed_at = None\<rparr>"

definition insert_export :: "export_row \<Rightarrow> db \<Rightarrow> db outcome" where
  "insert_export x s =
    (if list_ex (\<lambda>y. ex_id y = ex_id x) (account_purge_exports s) then Inl Database
     else Inr (s\<lparr>account_purge_exports := account_purge_exports s @ [x]\<rparr>))"

definition purge_payload :: "string \<Rightarrow> uuid \<Rightarrow> uuid \<Rightarrow> string \<Rightarrow> json" where
  "purge_payload phase export_id actor reason =
    JObj [(''phase'', JStr phase), (''exportId'', JStr export_id), (''requestedBy'', JStr actor),
      (''reason'', JStr reason)]"

definition purge_audit_metadata :: "uuid \<Rightarrow> uuid \<Rightarrow> string \<Rightarrow> json" where
  "purge_audit_metadata job_id export_id reason =
    JObj [(''jobId'', JStr job_id), (''exportId'', JStr export_id), (''reason'', JStr reason)]"

definition request_account_purge_export ::
    "env \<Rightarrow> uuid \<Rightarrow> uuid \<Rightarrow> uuid \<Rightarrow> uuid \<Rightarrow> string \<Rightarrow> string \<Rightarrow> account_purge_response txn" where
  "request_account_purge_export e job_id export_id actor subject reason request_id s =
    (case verify_admin actor s of
       Inl er \<Rightarrow> (s, Inl er)
     | Inr _ \<Rightarrow>
    if actor = subject then (s, Inl InvalidAccountTransition)
    else (case purgeable_user subject s of
       Inl er \<Rightarrow> (s, Inl er)
     | Inr _ \<Rightarrow>
    if active_project_purge subject s then (s, Inl Conflict)
    else (case rev (sort_key (\<lambda>(x, j). ex_created_at x) (open_exports e subject s)) of
       (x, j) # _ \<Rightarrow>
         (s, Inr \<lparr>ap_job = j_id j, ap_export = ex_id x,
            ap_status = (if ex_status x = ExReady then ''ready'' else job_status_as_str (j_status j)),
            ap_confirmation_required = True\<rparr>)
     | [] \<Rightarrow>
    (case try_bind (insert_job (new_job e job_id AccountPurge subject None
              (purge_payload ''export'' export_id actor reason)) s)
            (insert_export (new_export e export_id subject job_id)) of
       Inl er \<Rightarrow> (s, Inl er)
     | Inr s1 \<Rightarrow>
         (insert_audit e actor (Some subject) ''account.purge_export_requested''
            (purge_audit_metadata job_id export_id reason) request_id s1,
          Inr \<lparr>ap_job = job_id, ap_export = export_id, ap_status = ''queued'',
            ap_confirmation_required = True\<rparr>)))))"

definition set_export_status :: "export_status \<Rightarrow> export_row \<Rightarrow> export_row" where
  "set_export_status st x = x\<lparr>ex_status := st\<rparr>"

definition set_user_status :: "account_status \<Rightarrow> user_row \<Rightarrow> user_row" where
  "set_user_status st u = u\<lparr>u_status := st\<rparr>"

interpretation set_export_status: key_update ex_id "set_export_status st" for st
  by unfold_locales (simp add: set_export_status_def)

interpretation set_user_status: key_update u_id "set_user_status st" for st
  by unfold_locales (simp add: set_user_status_def)

text \<open>A queued or running restore of any project of the account.\<close>

definition active_account_restore :: "uuid \<Rightarrow> db \<Rightarrow> bool" where
  "active_account_restore subject s \<longleftrightarrow>
    list_ex (\<lambda>r. rj_status r \<in> {RQueued, RRunning}
      \<and> list_ex (\<lambda>p. p_id p = rj_project r \<and> p_owner p = subject) (projects s)) (restore_jobs s)"

definition confirm_account_purge ::
    "env \<Rightarrow> uuid \<Rightarrow> uuid \<Rightarrow> uuid \<Rightarrow> uuid \<Rightarrow> string \<Rightarrow> string \<Rightarrow> account_purge_response txn" where
  "confirm_account_purge e job_id actor subject export_id reason request_id s =
    (case verify_admin actor s of
       Inl er \<Rightarrow> (s, Inl er)
     | Inr _ \<Rightarrow>
    if actor = subject then (s, Inl InvalidAccountTransition)
    else (case purgeable_user subject s of
       Inl er \<Rightarrow> (s, Inl er)
     | Inr _ \<Rightarrow>
    (case List.find (\<lambda>x. ex_id x = export_id \<and> ex_user x = subject \<and> ex_expires_at x > db_now e
              \<and> list_ex (\<lambda>j. j_id j = ex_job x) (jobs s)) (account_purge_exports s) of
       None \<Rightarrow> (s, Inl AccountPurgeNotReady)
     | Some x \<Rightarrow>
    if ex_status x \<noteq> ExReady \<or> map_option j_status (List.find (\<lambda>j. j_id j = ex_job x) (jobs s)) \<noteq> Some JSucceeded
    then (s, Inl AccountPurgeNotReady)
    else if active_account_restore subject s then (s, Inl Conflict)
    else if active_project_purge subject s then (s, Inl Conflict)
    else (let s1 = s\<lparr>
              users := update_where (\<lambda>u. u_id u = subject \<and> u_status u \<in> {Active, Disabled})
                (set_user_status Deleting) (users s),
              projects := update_where (\<lambda>p. p_owner p = subject \<and> p_status p \<in> {PActive, PDisabled, PMaintenance})
                (set_status e PDeleting) (projects s),
              account_purge_exports := update_where (\<lambda>x. ex_id x = export_id)
                (set_export_status ExPurging) (account_purge_exports s)\<rparr> in
      case insert_job (new_job e job_id AccountPurge subject None
             (purge_payload ''purge'' export_id actor reason)) s1 of
        Inl er \<Rightarrow> (s, Inl er)
      | Inr s2 \<Rightarrow>
          (insert_audit e actor (Some subject) ''account.purge_requested''
             (purge_audit_metadata job_id export_id reason) request_id s2,
           Inr \<lparr>ap_job = job_id, ap_export = export_id, ap_status = ''queued'',
             ap_confirmation_required = False\<rparr>)))))"

subsection \<open>The worker\<close>

text \<open>\<open>COALESCE(payload->>'phase', '')\<close>; the phases that are written are strings.\<close>

definition payload_phase :: "json \<Rightarrow> string" where
  "payload_phase payload =
    (case Option.bind (json_get ''phase'' payload) json_as_str of None \<Rightarrow> [] | Some p \<Rightarrow> p)"

definition payload_uuid :: "(string \<Rightarrow> uuid option) \<Rightarrow> string \<Rightarrow> json \<Rightarrow> uuid option" where
  "payload_uuid parse_uuid member payload =
    Option.bind (Option.bind (json_get member payload) json_as_str) parse_uuid"

definition account_purge_phase :: "env \<Rightarrow> uuid \<Rightarrow> uuid \<Rightarrow> db \<Rightarrow> string outcome" where
  "account_purge_phase e job_id lease s =
    (case List.find (live_job e AccountPurge job_id lease) (jobs s) of
       None \<Rightarrow> Inl NotFound
     | Some job \<Rightarrow>
         if payload_phase (j_payload job) \<in> {''export'', ''purge''}
         then Inr (payload_phase (j_payload job)) else Inl InvalidPayload)"

definition renew_account_purge_lease :: "env \<Rightarrow> uuid \<Rightarrow> uuid \<Rightarrow> unit txn" where
  "renew_account_purge_lease e job_id lease s =
    (if rows_affected (live_job e AccountPurge job_id lease) (jobs s) \<noteq> 1 then (s, Inl NotFound)
     else (update_job (live_job e AccountPurge job_id lease)
             (\<lambda>j. j\<lparr>j_lease_expires_at := Some (db_now e + minutes 5)\<rparr>) s, Inr ()))"

definition ready_export :: "env \<Rightarrow> string \<Rightarrow> int \<Rightarrow> export_row \<Rightarrow> export_row" where
  "ready_export e hash sz x =
    x\<lparr>ex_status := ExReady, ex_hash := Some hash, ex_size := Some sz, ex_completed_at := Some (db_now e)\<rparr>"

text \<open>The size is a \<open>u64\<close> that must fit a \<open>bigint\<close>.\<close>

definition complete_account_export ::
    "(string \<Rightarrow> uuid option) \<Rightarrow> env \<Rightarrow> uuid \<Rightarrow> uuid \<Rightarrow> uuid \<Rightarrow> string \<Rightarrow> int \<Rightarrow> unit txn" where
  "complete_account_export parse_uuid e job_id lease export_id hash sz s =
    (case List.find (live_job e AccountPurge job_id lease) (jobs s) of
       None \<Rightarrow> (s, Inl NotFound)
     | Some job \<Rightarrow>
    (case j_owner job of
       None \<Rightarrow> (s, Inl Database)
     | Some owner \<Rightarrow>
         if sz > i64_max then (s, Inl InvalidPayload)
         else (let requested_by = (case payload_uuid parse_uuid ''requestedBy'' (j_payload job) of
                     None \<Rightarrow> owner | Some u \<Rightarrow> u);
                   s1 = update_job (\<lambda>j. j_id j = job_id \<and> j_lease j = Some lease) (succeed_job e)
                     (s\<lparr>account_purge_exports := update_where
                        (\<lambda>x. ex_id x = export_id \<and> ex_user x = owner \<and> ex_status x = ExPending)
                        (ready_export e hash sz) (account_purge_exports s)\<rparr>) in
               (insert_audit e requested_by (Some owner) ''account.purge_export_ready''
                  (JObj [(''jobId'', JStr job_id), (''exportId'', JStr export_id)]) [] s1, Inr ()))))"

text \<open>What is left of an account after its owned rows: sessions, devices and its invitation.\<close>

definition delete_account_rows :: "uuid \<Rightarrow> string \<Rightarrow> db \<Rightarrow> db" where
  "delete_account_rows owner email s = s\<lparr>
     refresh_tokens := delete_where (\<lambda>t. rt_user t = owner) (refresh_tokens s),
     devices := delete_where (\<lambda>d. d_owner d = owner) (devices s),
     invitations := delete_where (\<lambda>i. inv_email_normalized i = email) (invitations s)\<rparr>"

definition prepare_account_purge ::
    "(string \<Rightarrow> uuid option) \<Rightarrow> env \<Rightarrow> uuid \<Rightarrow> uuid \<Rightarrow> string list txn" where
  "prepare_account_purge parse_uuid e job_id lease s =
    (case List.find (live_job e AccountPurge job_id lease) (jobs s) of
       None \<Rightarrow> (s, Inl NotFound)
     | Some job \<Rightarrow>
    (case j_owner job of
       None \<Rightarrow> (s, Inl Database)
     | Some owner \<Rightarrow>
         if is_detached (j_payload job) then (s, detached_keys (j_payload job))
         else (case payload_uuid parse_uuid ''exportId'' (j_payload job) of
            None \<Rightarrow> (s, Inl InvalidPayload)
          | Some export_id \<Rightarrow>
         (case List.find (\<lambda>u. u_id u = owner) (users s) of
            None \<Rightarrow> (s, Inl NotFound)
          | Some user \<Rightarrow>
              if u_status user \<noteq> Deleting then (s, Inl InvalidAccountTransition)
              else (let keys = sort (remdups (object_keys (\<lambda>o' _. o' = owner) s
                             @ map ex_key (filter (\<lambda>x. ex_id x = export_id) (account_purge_exports s)))) in
                (update_job (holds_job job_id lease)
                   (set_job_payload (JObj [(''detached'', JBool True), (''exportId'', JStr export_id),
                      (''objectKeys'', JArr (map JStr keys))]))
                   (delete_account_rows owner (u_email_normalized user)
                     (delete_owned_rows (\<lambda>o' _. o' = owner) s)), Inr keys))))))"

definition delete_user :: "user_row \<Rightarrow> user_row" where
  "delete_user u = u\<lparr>u_status := Deleted,
     u_email_normalized := ''deleted+'' @ u_id u @ ''@invalid.tasktips'', u_email_display := ''deleted'',
     u_password_hash := ''!deleted!'' @ u_id u, u_last_login_at := None\<rparr>"

definition complete_export_row :: "env \<Rightarrow> export_row \<Rightarrow> export_row" where
  "complete_export_row e x = x\<lparr>ex_status := ExCompleted, ex_completed_at := Some (db_now e)\<rparr>"

definition complete_account_purge :: "(string \<Rightarrow> uuid option) \<Rightarrow> env \<Rightarrow> uuid \<Rightarrow> uuid \<Rightarrow> unit txn" where
  "complete_account_purge parse_uuid e job_id lease s =
    (case List.find (live_job e AccountPurge job_id lease) (jobs s) of
       None \<Rightarrow> (s, Inl NotFound)
     | Some job \<Rightarrow>
    (case (j_owner job, payload_uuid parse_uuid ''exportId'' (j_payload job)) of
       (None, _) \<Rightarrow> (s, Inl Database)
     | (Some owner, None) \<Rightarrow> (s, Inl InvalidPayload)
     | (Some owner, Some export_id) \<Rightarrow>
         if list_ex (\<lambda>u. u_id u = owner \<and> u_status u = Deleting) (users s)
            \<and> list_ex (\<lambda>u. u_id u \<noteq> owner \<and> u_email_normalized u = ''deleted+'' @ owner @ ''@invalid.tasktips'') (users s)
         then (s, Inl Database)
         else (let requested_by = (case payload_uuid parse_uuid ''requestedBy'' (j_payload job) of
                     None \<Rightarrow> owner | Some u \<Rightarrow> u);
                   s1 = update_job (\<lambda>j. j_id j = job_id \<and> j_lease j = Some lease) (succeed_job e)
                     (s\<lparr>users := update_where (\<lambda>u. u_id u = owner \<and> u_status u = Deleting) delete_user (users s),
                        account_purge_exports := update_where (\<lambda>x. ex_id x = export_id \<and> ex_user x = owner)
                          (complete_export_row e) (account_purge_exports s)\<rparr>) in
               (insert_audit e requested_by (Some owner) ''account.purge_completed''
                  (JObj [(''jobId'', JStr job_id), (''exportId'', JStr export_id)]) [] s1, Inr ()))))"

definition fail_account_purge :: "env \<Rightarrow> uuid \<Rightarrow> uuid \<Rightarrow> string \<Rightarrow> unit txn" where
  "fail_account_purge e job_id lease code s =
    (case List.find (\<lambda>j. holds_job job_id lease j \<and> j_kind j = AccountPurge) (jobs s) of
       None \<Rightarrow> (s, Inl NotFound)
     | Some job \<Rightarrow>
         (let s1 = update_job (holds_job job_id lease) (retry_job e code) s in
          (if payload_phase (j_payload job) = ''export''
           then s1\<lparr>account_purge_exports := update_where (\<lambda>x. ex_job x = job_id \<and> ex_status x = ExPending)
                  (set_export_status (if j_status (retry_job e code job) = JFailed then ExFailed else ExPending))
                  (account_purge_exports s1)\<rparr>
           else s1, Inr ())))"

subsection \<open>Expiry of exports\<close>

text \<open>
  The statement of \<open>expire_account_purge_exports\<close>, line by line as the source has it. A backslash
  at the end of a line of a Rust string literal drops the line break and the blanks that the next
  line starts with.
\<close>

definition continued :: "string list \<Rightarrow> string" where
  "continued ls = concat (map (dropWhile is_whitespace) ls)"

definition quoted :: "string \<Rightarrow> string" where
  "quoted w = CHR 0x27 # w @ [CHR 0x27]"

definition expire_exports_lines :: "string list" where
  "expire_exports_lines =
    [''WITH expired AS ('',
     ''                 SELECT e.id FROM account_purge_exports e'',
     ''                 WHERE e.expires_at <= CURRENT_TIMESTAMP'',
     ''                   AND e.status IN ('' @ quoted ''pending'' @ '', '' @ quoted ''ready'' @ '', '' @ quoted ''failed'' @ '')'',
     ''                 ORDER BY e.expires_at, e.id LIMIT $1'',
     ''             )'',
     ''             UPDATE account_purge_exports e SET status = '' @ quoted ''expired'',
     ''             FROM expired WHERE e.id = expired.id RETURNING e.object_key'']"

definition expire_exports_sql :: string where
  "expire_exports_sql = continued expire_exports_lines"

text \<open>
  What PostgreSQL makes of a statement, as far as it matters here: a literal stands in quotes, a word
  is a longest run of letters, digits, underscores and dollars, every other character but a blank
  is a token of its own. A table is a name and at most one alias, so a third name in a row after
  \<open>FROM\<close> or \<open>UPDATE\<close> is a syntax error and the statement is rejected. A statement that passes
  this check is taken to mean what its author meant.
\<close>

datatype sql_token = SqlWord string | SqlMark char | SqlText string

definition word_char :: "char \<Rightarrow> bool" where
  "word_char c \<longleftrightarrow> is_ascii_alphabetic c \<or> is_ascii_digit c \<or> c = CHR ''_'' \<or> c = CHR ''$''"

definition end_word :: "string \<Rightarrow> sql_token list \<Rightarrow> sql_token list" where
  "end_word acc ts = (if acc = [] then ts else SqlWord (rev acc) # ts)"

fun sql_tokens :: "bool \<Rightarrow> string \<Rightarrow> string \<Rightarrow> sql_token list" where
  "sql_tokens True acc [] = [SqlText (rev acc)]"
| "sql_tokens True acc (c # cs) =
    (if c = CHR 0x27 then SqlText (rev acc) # sql_tokens False [] cs else sql_tokens True (c # acc) cs)"
| "sql_tokens False acc [] = end_word acc []"
| "sql_tokens False acc (c # cs) =
    (if word_char c then sql_tokens False (c # acc) cs
     else end_word acc
       (if c = CHR 0x27 then sql_tokens True [] cs
        else if is_whitespace c then sql_tokens False [] cs
        else SqlMark c # sql_tokens False [] cs))"

definition sql_keywords :: "string list" where
  "sql_keywords = [''WITH'', ''AS'', ''SELECT'', ''FROM'', ''WHERE'', ''AND'', ''IN'', ''ORDER'', ''BY'', ''LIMIT'',
     ''UPDATE'', ''SET'', ''RETURNING'', ''CURRENT_TIMESTAMP'']"

definition is_name :: "sql_token \<Rightarrow> bool" where
  "is_name t = (case t of SqlWord w \<Rightarrow> w \<notin> set sql_keywords | _ \<Rightarrow> False)"

fun tables_readable :: "sql_token list \<Rightarrow> bool" where
  "tables_readable (t # table # alias # following # ts) \<longleftrightarrow>
     \<not> (t \<in> {SqlWord ''FROM'', SqlWord ''UPDATE''} \<and> is_name table \<and> is_name alias \<and> is_name following)
   \<and> tables_readable (table # alias # following # ts)"
| "tables_readable _ \<longleftrightarrow> True"

definition readable_statement :: "string \<Rightarrow> bool" where
  "readable_statement sql \<longleftrightarrow> tables_readable (sql_tokens False [] sql)"

definition expired_exports :: "env \<Rightarrow> int \<Rightarrow> db \<Rightarrow> export_row list" where
  "expired_exports e limit s = take (nat (max limit 1))
    (sort_key ex_expires_at (sort_key ex_id (filter (\<lambda>x. ex_expires_at x \<le> db_now e
      \<and> ex_status x \<in> {ExPending, ExReady, ExFailed}) (account_purge_exports s))))"

definition expire_account_purge_exports :: "env \<Rightarrow> int \<Rightarrow> string list txn" where
  "expire_account_purge_exports e limit s =
    (if \<not> readable_statement expire_exports_sql then (s, Inl Database)
     else (let due = (\<lambda>x. ex_id x \<in> set (map ex_id (expired_exports e limit s))) in
       (s\<lparr>account_purge_exports := update_where due (set_export_status ExExpired) (account_purge_exports s)\<rparr>,
        Inr (map ex_key (filter due (account_purge_exports s))))))"

interpretation ready_export: key_update ex_id "ready_export e h n" for e h n
  by unfold_locales (simp add: ready_export_def)

interpretation delete_user: key_update u_id delete_user
  by unfold_locales (simp add: delete_user_def)

interpretation complete_export_row: key_update ex_id "complete_export_row e" for e
  by unfold_locales (simp add: complete_export_row_def)

text \<open>With a blank before each backslash, as in the other statements, this one would be accepted.\<close>

lemma expire_statement_unreadable:
  "\<not> readable_statement expire_exports_sql"
  "readable_statement (continued (map (\<lambda>l. l @ '' '') expire_exports_lines))"
  by code_simp+

lemma expire_account_purge_exports_fails: "expire_account_purge_exports e limit s = (s, Inl Database)"
  by (simp add: expire_account_purge_exports_def expire_statement_unreadable(1))

end
