(* ===== verification/Accounts.thy ===== *)
theory Accounts
  imports Account_Purge Sessions Restore_Jobs
begin

text \<open>
  Accounts and their administration (\<open>crates/persistence/src/lib.rs\<close>): the first administrator,
  self-service registration and its switch, invitations and their activation, accounts made by
  an administrator, the transitions of an account's status, the audit of failed logins and the
  diagnostics of the sync endpoints. An account is unique by its normalised address, an
  invitation by its address and by the hash of its token.
\<close>

subsection \<open>Rows\<close>

definition new_user ::
    "env \<Rightarrow> uuid \<Rightarrow> string \<Rightarrow> string \<Rightarrow> string \<Rightarrow> user_role \<Rightarrow> account_status \<Rightarrow> user_row" where
  "new_user e user_id email_normalized email_display password_hash role status =
    \<lparr>u_id = user_id, u_email_normalized = email_normalized, u_email_display = email_display,
     u_password_hash = password_hash, u_role = role, u_status = status,
     u_created_at = db_now e, u_last_login_at = None\<rparr>"

definition insert_user :: "user_row \<Rightarrow> db \<Rightarrow> sql_error + db" where
  "insert_user u s =
    (if list_ex (\<lambda>x. u_id x = u_id u) (users s)
        \<or> list_ex (\<lambda>x. u_email_normalized x = u_email_normalized u) (users s)
     then Inl UniqueViolation
     else Inr (s\<lparr>users := users s @ [u]\<rparr>))"

definition set_display :: "string \<Rightarrow> user_row \<Rightarrow> user_row" where
  "set_display email_display u = u\<lparr>u_email_display := email_display\<rparr>"

definition activate_user :: "env \<Rightarrow> string \<Rightarrow> user_row \<Rightarrow> user_row" where
  "activate_user e password_hash u =
    u\<lparr>u_password_hash := password_hash, u_status := Active, u_last_login_at := Some (db_now e)\<rparr>"

interpretation set_display: key_update u_id "set_display n" for n
  by unfold_locales (simp add: set_display_def)

interpretation activate_user: key_update u_id "activate_user e h" for e h
  by unfold_locales (simp add: activate_user_def)

record new_invitation =
  ni_email_normalized :: string
  ni_email_display :: string
  ni_hash :: bytes
  ni_expires_at :: instant

definition invitation_expiry :: "env \<Rightarrow> instant" where
  "invitation_expiry e = app_now e + days 7"

definition refresh_expiry :: "env \<Rightarrow> int \<Rightarrow> instant" where
  "refresh_expiry e ttl_seconds = app_now e + seconds ttl_seconds"

text \<open>The SET clauses on an invitation: a new token by upsert, by resend, the revocation, the use.\<close>

definition reissue :: "new_invitation \<Rightarrow> invitation_row \<Rightarrow> invitation_row" where
  "reissue invitation i = i\<lparr>inv_hash := ni_hash invitation, inv_email_display := ni_email_display invitation,
     inv_expires_at := ni_expires_at invitation, inv_used_at := None, inv_revoked_at := None\<rparr>"

definition resend :: "bytes \<Rightarrow> instant \<Rightarrow> invitation_row \<Rightarrow> invitation_row" where
  "resend token_hash expires_at i =
    i\<lparr>inv_hash := token_hash, inv_expires_at := expires_at, inv_revoked_at := None\<rparr>"

definition revoke_invitation :: "env \<Rightarrow> invitation_row \<Rightarrow> invitation_row" where
  "revoke_invitation e i = i\<lparr>inv_revoked_at := Some (db_now e)\<rparr>"

definition use_invitation :: "env \<Rightarrow> invitation_row \<Rightarrow> invitation_row" where
  "use_invitation e i = i\<lparr>inv_used_at := Some (db_now e)\<rparr>"

interpretation reissue: key_update inv_id "reissue n" for n
  by unfold_locales (simp add: reissue_def)

interpretation resend: key_update inv_id "resend h t" for h t
  by unfold_locales (simp add: resend_def)

interpretation revoke_invitation: key_update inv_id "revoke_invitation e" for e
  by unfold_locales (simp add: revoke_invitation_def)

interpretation use_invitation: key_update inv_id "use_invitation e" for e
  by unfold_locales (simp add: use_invitation_def)

subsection \<open>New accounts\<close>

definition create_initial_admin :: "env \<Rightarrow> uuid \<Rightarrow> string \<Rightarrow> string \<Rightarrow> string \<Rightarrow> user_row txn" where
  "create_initial_admin e user_id email_normalized email_display password_hash s =
    (let u = new_user e user_id email_normalized email_display password_hash SystemAdmin Active in
     case as_conflict (insert_user u s) of Inl er \<Rightarrow> (s, Inl er) | Inr s1 \<Rightarrow> (s1, Inr u))"

definition find_login_user :: "string \<Rightarrow> db \<Rightarrow> user_row option" where
  "find_login_user email_normalized s =
    List.find (\<lambda>u. u_email_normalized u = email_normalized) (users s)"

definition register_user :: "env \<Rightarrow> uuid \<Rightarrow> string \<Rightarrow> string \<Rightarrow> string \<Rightarrow> string \<Rightarrow> user_row txn" where
  "register_user e user_id email_normalized email_display password_hash request_id s =
    (let u = new_user e user_id email_normalized email_display password_hash User Pending in
     case as_conflict (insert_user u s) of
       Inl er \<Rightarrow> (s, Inl er)
     | Inr s1 \<Rightarrow>
         (insert_audit e user_id (Some user_id) ''auth.registered'' (JObj []) request_id s1, Inr u))"

definition admin_create_user ::
    "env \<Rightarrow> uuid \<Rightarrow> uuid \<Rightarrow> string \<Rightarrow> string \<Rightarrow> string \<Rightarrow> string \<Rightarrow> user_row txn" where
  "admin_create_user e user_id actor email_normalized email_display password_hash request_id s =
    (case require_admin actor s of
       Inl er \<Rightarrow> (s, Inl er)
     | Inr _ \<Rightarrow>
    (let u = new_user e user_id email_normalized email_display password_hash User Active in
     case as_conflict (insert_user u s) of
       Inl er \<Rightarrow> (s, Inl er)
     | Inr s1 \<Rightarrow>
         (insert_audit e actor (Some user_id) ''user.created_by_admin'' (JObj []) request_id s1, Inr u)))"

text \<open>Under \<open>begin_user\<close> an account sees its own row.\<close>

definition current_user :: "uuid \<Rightarrow> db \<Rightarrow> user_row outcome" where
  "current_user user_id s = ok_or (List.find (\<lambda>u. u_id u = user_id) (users s)) NotFound"

subsection \<open>The registration switch\<close>

definition registration_key :: string where
  "registration_key = ''registration.enabled''"

definition registration_enabled :: "db \<Rightarrow> bool" where
  "registration_enabled s =
    (case List.find (\<lambda>x. st_key x = registration_key) (instance_settings s) of
       None \<Rightarrow> False
     | Some x \<Rightarrow> Option.bind (json_get ''enabled'' (st_value x)) json_as_bool = Some True)"

definition upsert_setting :: "string \<Rightarrow> json \<Rightarrow> db \<Rightarrow> db" where
  "upsert_setting k v s =
    s\<lparr>instance_settings :=
       (if list_ex (\<lambda>x. st_key x = k) (instance_settings s)
        then update_where (\<lambda>x. st_key x = k) (\<lambda>x. x\<lparr>st_value := v\<rparr>) (instance_settings s)
        else instance_settings s @ [\<lparr>st_key = k, st_value = v\<rparr>])\<rparr>"

definition set_registration_enabled :: "env \<Rightarrow> uuid \<Rightarrow> bool \<Rightarrow> string \<Rightarrow> bool txn" where
  "set_registration_enabled e actor enabled request_id s =
    (case verify_admin actor s of
       Inl er \<Rightarrow> (s, Inl er)
     | Inr _ \<Rightarrow>
         (insert_audit e actor None ''settings.registration_changed''
            (JObj [(''enabled'', JBool enabled)]) request_id
            (upsert_setting registration_key (JObj [(''enabled'', JBool enabled)]) s),
          Inr enabled))"

subsection \<open>Invitations\<close>

record invitation_record =
  ic_id :: uuid
  ic_email :: string
  ic_expires_at :: instant

definition invitation_record_of :: "invitation_row \<Rightarrow> invitation_record" where
  "invitation_record_of i = \<lparr>ic_id = inv_id i, ic_email = inv_email_display i, ic_expires_at = inv_expires_at i\<rparr>"

text \<open>
  The two upserts on the address. A clash of the new primary key or of the token's hash with
  another row is an error that is not a conflict for the caller.
\<close>

definition upsert_pending_user :: "env \<Rightarrow> uuid \<Rightarrow> new_invitation \<Rightarrow> db \<Rightarrow> db outcome" where
  "upsert_pending_user e user_id invitation s =
    (if list_ex (\<lambda>x. u_email_normalized x = ni_email_normalized invitation) (users s)
     then Inr (s\<lparr>users := update_where (\<lambda>x. u_email_normalized x = ni_email_normalized invitation)
                 (set_display (ni_email_display invitation)) (users s)\<rparr>)
     else as_database (insert_user (new_user e user_id (ni_email_normalized invitation)
            (ni_email_display invitation) [] User Pending) s))"

definition new_invitation_row :: "env \<Rightarrow> uuid \<Rightarrow> new_invitation \<Rightarrow> invitation_row" where
  "new_invitation_row e invitation_id invitation =
    \<lparr>inv_id = invitation_id, inv_email_normalized = ni_email_normalized invitation,
     inv_email_display = ni_email_display invitation, inv_hash = ni_hash invitation,
     inv_expires_at = ni_expires_at invitation, inv_created_at = db_now e,
     inv_used_at = None, inv_revoked_at = None\<rparr>"

definition upsert_invitation ::
    "env \<Rightarrow> uuid \<Rightarrow> new_invitation \<Rightarrow> db \<Rightarrow> (db \<times> invitation_row) outcome" where
  "upsert_invitation e invitation_id invitation s =
    (let same = (\<lambda>i. inv_email_normalized i = ni_email_normalized invitation) in
     if list_ex (\<lambda>i. inv_hash i = ni_hash invitation \<and> \<not> same i) (invitations s) then Inl Database
     else (case List.find same (invitations s) of
       Some i \<Rightarrow> Inr (s\<lparr>invitations := update_where same (reissue invitation) (invitations s)\<rparr>,
                     reissue invitation i)
     | None \<Rightarrow>
         if list_ex (\<lambda>i. inv_id i = invitation_id) (invitations s) then Inl Database
         else (let i = new_invitation_row e invitation_id invitation in
           Inr (s\<lparr>invitations := invitations s @ [i]\<rparr>, i))))"

definition create_invitation ::
    "env \<Rightarrow> uuid \<Rightarrow> uuid \<Rightarrow> uuid \<Rightarrow> new_invitation \<Rightarrow> string \<Rightarrow> invitation_record txn" where
  "create_invitation e user_id invitation_id actor invitation request_id s =
    (case try_bind (require_admin actor s) (\<lambda>_.
          if (case find_login_user (ni_email_normalized invitation) s of
                None \<Rightarrow> False | Some u \<Rightarrow> u_status u \<noteq> Pending)
          then Inl Conflict
          else try_bind (upsert_pending_user e user_id invitation s) (\<lambda>s1.
               upsert_invitation e invitation_id invitation s1)) of
       Inl er \<Rightarrow> (s, Inl er)
     | Inr (s2, i) \<Rightarrow>
         (insert_audit e actor None ''invitation.created''
            (JObj [(''invitationId'', JStr (inv_id i)), (''email'', JStr (ni_email_normalized invitation))])
            request_id s2,
          Inr (invitation_record_of i)))"

definition admin_revoke_invitation :: "env \<Rightarrow> uuid \<Rightarrow> uuid \<Rightarrow> string \<Rightarrow> string \<Rightarrow> unit txn" where
  "admin_revoke_invitation e actor invitation_id reason request_id s =
    (case require_admin actor s of
       Inl er \<Rightarrow> (s, Inl er)
     | Inr _ \<Rightarrow>
    (let open = (\<lambda>i. inv_id i = invitation_id \<and> inv_used_at i = None \<and> inv_revoked_at i = None) in
     if rows_affected open (invitations s) \<noteq> 1 then (s, Inl NotFound)
     else (insert_audit e actor None ''invitation.revoked''
             (JObj [(''invitationId'', JStr invitation_id), (''reason'', JStr reason)]) request_id
             (s\<lparr>invitations := update_where open (revoke_invitation e) (invitations s)\<rparr>), Inr ())))"

definition admin_resend_invitation ::
    "env \<Rightarrow> uuid \<Rightarrow> uuid \<Rightarrow> bytes \<Rightarrow> instant \<Rightarrow> string \<Rightarrow> invitation_record txn" where
  "admin_resend_invitation e actor invitation_id token_hash expires_at request_id s =
    (case require_admin actor s of
       Inl er \<Rightarrow> (s, Inl er)
     | Inr _ \<Rightarrow>
    (let unused = (\<lambda>i. inv_id i = invitation_id \<and> inv_used_at i = None) in
     case List.find unused (invitations s) of
       None \<Rightarrow> (s, Inl NotFound)
     | Some i \<Rightarrow>
         if list_ex (\<lambda>x. inv_hash x = token_hash \<and> inv_id x \<noteq> invitation_id) (invitations s)
         then (s, Inl Database)
         else (insert_audit e actor None ''invitation.resent''
                 (JObj [(''invitationId'', JStr invitation_id)]) request_id
                 (s\<lparr>invitations := update_where unused (resend token_hash expires_at) (invitations s)\<rparr>),
               Inr (invitation_record_of (resend token_hash expires_at i)))))"

subsection \<open>Activation\<close>

definition redeemable :: "env \<Rightarrow> invitation_row \<Rightarrow> bool" where
  "redeemable e i \<longleftrightarrow> inv_used_at i = None \<and> inv_revoked_at i = None \<and> inv_expires_at i > app_now e"

definition activate_invitation ::
    "env \<Rightarrow> bytes \<Rightarrow> string \<Rightarrow> uuid \<Rightarrow> new_refresh_token \<Rightarrow> string \<Rightarrow> session_record txn" where
  "activate_invitation e token_hash password_hash device_id refresh request_id s =
    (case List.find (\<lambda>i. inv_hash i = token_hash) (invitations s) of
       None \<Rightarrow> (s, Inl InvalidInvitation)
     | Some i \<Rightarrow>
    if \<not> redeemable e i then (s, Inl InvalidInvitation)
    else (let waiting = (\<lambda>u. u_email_normalized u = inv_email_normalized i \<and> u_status u = Pending) in
      case List.find waiting (users s) of
        None \<Rightarrow> (s, Inl InvalidInvitation)
      | Some u \<Rightarrow>
     (let s1 = s\<lparr>users := update_where waiting (activate_user e password_hash) (users s),
                invitations := update_where (\<lambda>x. inv_id x = inv_id i) (use_invitation e) (invitations s)\<rparr> in
      case try_bind (ensure_device e (u_id u) device_id s1) (\<lambda>s2.
           insert_refresh (u_id u) device_id refresh
             (s2\<lparr>devices := update_where (\<lambda>d. d_id d = device_id \<and> d_owner d = u_id u)
                   (touch_login e) (devices s2)\<rparr>)) of
        Inl er \<Rightarrow> (s, Inl er)
      | Inr s3 \<Rightarrow>
          (insert_audit e (u_id u) (Some (u_id u)) ''auth.invitation_activated'' (device_json device_id)
             request_id s3,
           Inr \<lparr>ss_user = activate_user e password_hash u, ss_device = device_id,
             ss_family = nt_family refresh\<rparr>))))"

subsection \<open>The status of an account\<close>

fun allowed_transition :: "account_status \<Rightarrow> account_status \<Rightarrow> bool" where
  "allowed_transition Active Disabled = True"
| "allowed_transition Disabled Active = True"
| "allowed_transition Pending Active = True"
| "allowed_transition _ _ = False"

definition admin_set_account_status ::
    "env \<Rightarrow> uuid \<Rightarrow> uuid \<Rightarrow> account_status \<Rightarrow> string \<Rightarrow> string \<Rightarrow> unit txn" where
  "admin_set_account_status e actor subject status reason request_id s =
    (case require_admin actor s of
       Inl er \<Rightarrow> (s, Inl er)
     | Inr _ \<Rightarrow>
    (case List.find (\<lambda>u. u_id u = subject) (users s) of
       None \<Rightarrow> (s, Inl NotFound)
     | Some u \<Rightarrow>
    if \<not> allowed_transition (u_status u) status then (s, Inl InvalidAccountTransition)
    else if rows_affected (\<lambda>u. u_id u = subject) (users s) \<noteq> 1 then (s, Inl NotFound)
    else (insert_audit e actor (Some subject) ''account.status_changed''
            (JObj [(''status'', JStr (account_status_as_str status)), (''reason'', JStr reason)]) request_id
            (s\<lparr>users := update_where (\<lambda>u. u_id u = subject) (set_user_status status) (users s),
               refresh_tokens :=
                 (if status \<noteq> Active
                  then update_where (\<lambda>t. rt_user t = subject) (revoke_token e) (refresh_tokens s)
                  else refresh_tokens s)\<rparr>), Inr ())))"

subsection \<open>Diagnostics\<close>

definition known_user :: "db \<Rightarrow> uuid option \<Rightarrow> bool" where
  "known_user s i = (case i of None \<Rightarrow> True | Some user_id \<Rightarrow> list_ex (\<lambda>u. u_id u = user_id) (users s))"

definition auth_failure_metadata ::
    "string \<Rightarrow> string \<Rightarrow> string option \<Rightarrow> uuid option \<Rightarrow> string option \<Rightarrow> json" where
  "auth_failure_metadata reason source email_hash device_id client_hash =
    JObj ([(''reason'', JStr reason), (''source'', JStr source)]
      @ (case email_hash of None \<Rightarrow> [] | Some h \<Rightarrow> [(''emailHash'', JStr h)])
      @ (case device_id of None \<Rightarrow> [] | Some d \<Rightarrow> [(''deviceId'', JStr d)])
      @ (case client_hash of None \<Rightarrow> [] | Some h \<Rightarrow> [(''clientHash'', JStr h)]))"

definition record_auth_failure ::
    "env \<Rightarrow> uuid option \<Rightarrow> uuid option \<Rightarrow> string \<Rightarrow> string \<Rightarrow> string \<Rightarrow> string option \<Rightarrow> uuid option \<Rightarrow>
     string option \<Rightarrow> string \<Rightarrow> unit txn" where
  "record_auth_failure e actor subject action reason source email_hash device_id client_hash request_id s =
    (if \<not> known_user s actor \<or> \<not> known_user s subject then (s, Inl Database)
     else (insert_audit_nullable e actor subject action
             (auth_failure_metadata reason source email_hash device_id client_hash) request_id s, Inr ()))"

definition attempt_checks :: "attempt_row \<Rightarrow> bool" where
  "attempt_checks a \<longleftrightarrow>
     sa_item_count a \<ge> 0
   \<and> (case sa_latency_ms a of None \<Rightarrow> True | Some n \<Rightarrow> n \<ge> 0)
   \<and> sa_operation a \<in> {''bootstrap'', ''pull'', ''push''}
   \<and> sa_status a \<in> {''succeeded'', ''conflict'', ''rejected'', ''failed''}"

definition attempt_refs :: "db \<Rightarrow> attempt_row \<Rightarrow> bool" where
  "attempt_refs s a \<longleftrightarrow>
     list_ex (\<lambda>u. u_id u = sa_owner a) (users s)
   \<and> list_ex (\<lambda>p. p_id p = sa_project a \<and> p_owner p = sa_owner a) (projects s)
   \<and> (case sa_device a of None \<Rightarrow> True
      | Some device_id \<Rightarrow> list_ex (\<lambda>d. d_id d = device_id \<and> d_owner d = sa_owner a) (devices s))"

definition record_sync_attempt :: "env \<Rightarrow> uuid \<Rightarrow> attempt_row \<Rightarrow> unit txn" where
  "record_sync_attempt e user_id attempt s =
    (let a = attempt\<lparr>sa_owner := user_id, sa_created_at := db_now e\<rparr> in
     if list_ex (\<lambda>x. sa_id x = sa_id a) (sync_attempts s) \<or> \<not> attempt_checks a \<or> \<not> attempt_refs s a
     then (s, Inl Database)
     else (s\<lparr>sync_attempts := sync_attempts s @ [a]\<rparr>, Inr ()))"

end
