(* ===== verification/Admin.thy ===== *)
theory Admin
  imports Accounts Pull
begin

text \<open>
  The administrator's view of the instance (\<open>crates/persistence/src/lib.rs\<close>): the paged lists over
  the metadata views, the search of projects, the operational counts, the history of a project
  without payloads, and the restore an administrator requests. Every operation first checks that
  its caller is an active administrator. The daily trends (\<open>admin_sync_trends\<close>) are in
  the theory \<open>Trends\<close>.
\<close>

subsection \<open>Pages\<close>

text \<open>
  \<open>LIMIT limit + 1 OFFSET offset\<close>, and the row in excess popped: it only tells that there are
  more. PostgreSQL refuses a negative LIMIT.
\<close>

definition limit_page :: "int \<Rightarrow> int \<Rightarrow> 'r list \<Rightarrow> ('r list \<times> bool) outcome" where
  "limit_page sql_limit limit rows =
    (if sql_limit < 0 then Inl Database
     else (let xs = take (nat sql_limit) rows; has_more = int (length xs) > limit in
       Inr (if has_more then butlast xs else xs, has_more)))"

definition admin_page :: "int \<Rightarrow> int \<Rightarrow> 'r list \<Rightarrow> ('r list \<times> bool) outcome" where
  "admin_page limit offset rows =
    limit_page (i64_saturating_add limit 1) limit (drop (nat (max offset 0)) rows)"

definition admin_list :: "uuid \<Rightarrow> int \<Rightarrow> int \<Rightarrow> (db \<Rightarrow> 'r list) \<Rightarrow> ('r list \<times> bool) txn" where
  "admin_list actor limit offset query s =
    (s, try_bind (verify_admin actor s) (\<lambda>_. admin_page limit offset (query s)))"

definition first_page :: "('r list \<times> bool) txn \<Rightarrow> 'r list txn" where
  "first_page op s = (case op s of (s', r) \<Rightarrow> (s', try_bind r (\<lambda>(rows, _). Inr rows)))"

subsection \<open>Invitations\<close>

record admin_invitation_record =
  ai_id :: uuid
  ai_email :: string
  ai_created_at :: instant
  ai_expires_at :: instant
  ai_used_at :: "instant option"
  ai_revoked_at :: "instant option"
  ai_status :: string

definition invitation_status :: "env \<Rightarrow> invitation_row \<Rightarrow> string" where
  "invitation_status e i =
    (if inv_revoked_at i \<noteq> None then ''revoked''
     else if inv_used_at i \<noteq> None then ''used''
     else if inv_expires_at i \<le> db_now e then ''expired'' else ''pending'')"

definition admin_invitation_of :: "env \<Rightarrow> invitation_row \<Rightarrow> admin_invitation_record" where
  "admin_invitation_of e i =
    \<lparr>ai_id = inv_id i, ai_email = inv_email_display i, ai_created_at = inv_created_at i,
     ai_expires_at = inv_expires_at i, ai_used_at = inv_used_at i, ai_revoked_at = inv_revoked_at i,
     ai_status = invitation_status e i\<rparr>"

text \<open>\<open>ORDER BY created_at DESC, id DESC\<close>.\<close>

definition newest_first :: "('r \<Rightarrow> instant) \<Rightarrow> ('r \<Rightarrow> uuid) \<Rightarrow> 'r list \<Rightarrow> 'r list" where
  "newest_first created ident rows = rev (sort_key created (sort_key ident rows))"

definition oldest_first :: "('r \<Rightarrow> instant) \<Rightarrow> ('r \<Rightarrow> uuid) \<Rightarrow> 'r list \<Rightarrow> 'r list" where
  "oldest_first created ident rows = sort_key created (sort_key ident rows)"

definition admin_list_invitations_page ::
    "env \<Rightarrow> uuid \<Rightarrow> int \<Rightarrow> int \<Rightarrow> (admin_invitation_record list \<times> bool) txn" where
  "admin_list_invitations_page e actor limit offset s =
    (s, try_bind (require_admin actor s) (\<lambda>_. admin_page limit offset
          (map (admin_invitation_of e) (newest_first inv_created_at inv_id (invitations s)))))"

definition admin_list_invitations :: "env \<Rightarrow> uuid \<Rightarrow> admin_invitation_record list txn" where
  "admin_list_invitations e actor s = first_page (admin_list_invitations_page e actor 200 0) s"

subsection \<open>Accounts, projects, devices\<close>

text \<open>The view of an account carries no password hash.\<close>

definition without_password :: "user_row \<Rightarrow> user_row" where
  "without_password u = u\<lparr>u_password_hash := []\<rparr>"

definition admin_list_users_page :: "uuid \<Rightarrow> int \<Rightarrow> int \<Rightarrow> (user_row list \<times> bool) txn" where
  "admin_list_users_page actor limit offset s =
    admin_list actor limit offset (\<lambda>s. map without_password (oldest_first u_created_at u_id (users s))) s"

definition admin_list_users :: "uuid \<Rightarrow> user_row list txn" where
  "admin_list_users actor s = first_page (admin_list_users_page actor 500 0) s"

text \<open>
  \<open>LIKE ... ESCAPE\<close> of PostgreSQL: the percent sign matches any text, the underscore one
  character, a character after the backslash itself; \<open>ILIKE\<close> folds the case of both sides. A
  pattern that ends in its escape character is an error, here a pattern that matches nothing; the
  patterns of the search end in a percent sign.
\<close>

fun like :: "string \<Rightarrow> string \<Rightarrow> bool" where
  "like [] t \<longleftrightarrow> t = []"
| "like (p # ps) [] \<longleftrightarrow> p = CHR ''%'' \<and> like ps []"
| "like (p # ps) (c # t) \<longleftrightarrow>
     (if p = CHR ''%'' then like ps (c # t) \<or> like (p # ps) t
      else if p = CHR ''_'' then like ps t
      else if p = CHR 0x5C then (case ps of [] \<Rightarrow> False | q # qs \<Rightarrow> q = c \<and> like qs t)
      else p = c \<and> like ps t)"

definition ilike :: "string \<Rightarrow> string \<Rightarrow> bool" where
  "ilike t pat \<longleftrightarrow> like (to_lowercase pat) (to_lowercase t)"

definition search_pattern :: "string \<Rightarrow> string" where
  "search_pattern search = ''%'' @ search @ ''%''"

definition project_matches :: "string option \<Rightarrow> project_row \<Rightarrow> bool" where
  "project_matches search p =
    (case search of None \<Rightarrow> True
     | Some t \<Rightarrow> ilike (p_name p) (search_pattern t) \<or> ilike (p_id p) (search_pattern t))"

definition admin_list_all_projects_page ::
    "uuid \<Rightarrow> int \<Rightarrow> int \<Rightarrow> string option \<Rightarrow> (project_row list \<times> bool) txn" where
  "admin_list_all_projects_page actor limit offset search s =
    admin_list actor limit offset
      (\<lambda>s. oldest_first p_created_at p_id (filter (project_matches search) (projects s))) s"

definition admin_list_projects_page :: "uuid \<Rightarrow> uuid \<Rightarrow> int \<Rightarrow> int \<Rightarrow> (project_row list \<times> bool) txn" where
  "admin_list_projects_page actor subject limit offset s =
    admin_list actor limit offset
      (\<lambda>s. oldest_first p_created_at p_id (filter (\<lambda>p. p_owner p = subject) (projects s))) s"

definition admin_list_projects :: "uuid \<Rightarrow> uuid \<Rightarrow> project_row list txn" where
  "admin_list_projects actor subject s = first_page (admin_list_projects_page actor subject 500 0) s"

definition admin_list_all_devices_page :: "uuid \<Rightarrow> int \<Rightarrow> int \<Rightarrow> (device_row list \<times> bool) txn" where
  "admin_list_all_devices_page actor limit offset s =
    admin_list actor limit offset (\<lambda>s. oldest_first d_created_at d_id (devices s)) s"

definition admin_list_devices_page :: "uuid \<Rightarrow> uuid \<Rightarrow> int \<Rightarrow> int \<Rightarrow> (device_row list \<times> bool) txn" where
  "admin_list_devices_page actor subject limit offset s =
    admin_list actor limit offset
      (\<lambda>s. oldest_first d_created_at d_id (filter (\<lambda>d. d_owner d = subject) (devices s))) s"

definition admin_list_devices :: "uuid \<Rightarrow> uuid \<Rightarrow> device_row list txn" where
  "admin_list_devices actor subject s = first_page (admin_list_devices_page actor subject 500 0) s"

text \<open>An account lists its own devices; row-level security is the only filter.\<close>

definition list_devices :: "uuid \<Rightarrow> db \<Rightarrow> device_row list" where
  "list_devices user_id s = oldest_first d_created_at d_id (filter (\<lambda>d. d_owner d = user_id) (devices s))"

subsection \<open>Counts and history\<close>

record admin_overview_record =
  ao_users :: nat
  ao_active_users :: nat
  ao_projects :: nat
  ao_devices :: nat
  ao_revisions :: nat
  ao_tombstones :: nat
  ao_payload_bytes :: int
  ao_queued_restores :: nat

definition admin_overview :: "uuid \<Rightarrow> admin_overview_record txn" where
  "admin_overview actor s =
    (s, try_bind (verify_admin actor s) (\<lambda>_.
      let payload_bytes = sum_list (map pl_size (payloads s)) in
      if payload_bytes > i64_max then Inl Database
      else Inr \<lparr>ao_users = length (users s),
          ao_active_users = rows_affected (\<lambda>u. u_status u = Active) (users s),
          ao_projects = length (projects s), ao_devices = length (devices s),
          ao_revisions = length (object_revisions s),
          ao_tombstones = rows_affected rv_tombstone (object_revisions s),
          ao_payload_bytes = payload_bytes,
          ao_queued_restores = rows_affected restore_live (restore_jobs s)\<rparr>))"

record admin_history_record =
  ah_kind :: string
  ah_object :: string
  ah_revision :: int
  ah_base :: "int option"
  ah_changed_at :: instant
  ah_device :: uuid
  ah_tombstone :: bool
  ah_sequence :: int

definition admin_history_of :: "change_row \<Rightarrow> revision_row \<Rightarrow> admin_history_record" where
  "admin_history_of c r =
    \<lparr>ah_kind = kind_as_str (rv_kind r), ah_object = rv_object r, ah_revision = rv_revision r,
     ah_base = rv_base r, ah_changed_at = rv_changed_at r, ah_device = rv_device r,
     ah_tombstone = rv_tombstone r, ah_sequence = cl_sequence c\<rparr>"

text \<open>The join of the log of every account with its revisions.\<close>

definition admin_history_rows :: "uuid \<Rightarrow> int \<Rightarrow> db \<Rightarrow> admin_history_record list" where
  "admin_history_rows project_id after_sequence s =
    concat (map (\<lambda>c. map (admin_history_of c) (filter (\<lambda>r. rv_id r = cl_revision_id c) (object_revisions s)))
      (filter (\<lambda>c. cl_project c = project_id \<and> cl_sequence c > after_sequence) (change_log s)))"

definition admin_history_metadata ::
    "uuid \<Rightarrow> uuid \<Rightarrow> int \<Rightarrow> int \<Rightarrow> (admin_history_record list \<times> bool) txn" where
  "admin_history_metadata actor project_id after_sequence limit s =
    (s, try_bind (verify_admin actor s) (\<lambda>_.
      page_of limit (sort_key ah_sequence (admin_history_rows project_id after_sequence s))))"

subsection \<open>Operations and audit\<close>

fun restore_status_as_str :: "restore_status \<Rightarrow> string" where
  "restore_status_as_str RQueued = ''queued''"
| "restore_status_as_str RRunning = ''running''"
| "restore_status_as_str RSucceeded = ''succeeded''"
| "restore_status_as_str RFailed = ''failed''"
| "restore_status_as_str RCancelled = ''cancelled''"

fun job_kind_as_str :: "job_kind \<Rightarrow> string" where
  "job_kind_as_str ProjectPurge = ''project_purge''"
| "job_kind_as_str AccountPurge = ''account_purge''"
| "job_kind_as_str SnapshotCleanup = ''snapshot_cleanup''"
| "job_kind_as_str Statistics = ''statistics''"

record admin_operation_record =
  op_id :: uuid
  op_operation :: string
  op_status :: string
  op_attempts :: int
  op_run_after :: "instant option"
  op_cancel_requested :: bool
  op_project :: "uuid option"
  op_device :: "uuid option"
  op_item_count :: "int option"
  op_latency_ms :: "int option"
  op_error :: "string option"
  op_created_at :: instant

definition operation_of_attempt :: "attempt_row \<Rightarrow> admin_operation_record" where
  "operation_of_attempt a =
    \<lparr>op_id = sa_id a, op_operation = sa_operation a, op_status = sa_status a, op_attempts = 0,
     op_run_after = None, op_cancel_requested = False, op_project = Some (sa_project a),
     op_device = sa_device a, op_item_count = Some (sa_item_count a), op_latency_ms = sa_latency_ms a,
     op_error = sa_error a, op_created_at = sa_created_at a\<rparr>"

definition operation_of_restore :: "restore_row \<Rightarrow> admin_operation_record" where
  "operation_of_restore j =
    \<lparr>op_id = rj_id j, op_operation = ''restore'', op_status = restore_status_as_str (rj_status j),
     op_attempts = rj_attempts j, op_run_after = Some (rj_run_after j),
     op_cancel_requested = rj_cancel_requested j, op_project = Some (rj_project j), op_device = None,
     op_item_count = Some (rj_objects j), op_latency_ms = None, op_error = rj_error j,
     op_created_at = rj_created_at j\<rparr>"

definition operation_of_job :: "job_row \<Rightarrow> admin_operation_record" where
  "operation_of_job j =
    \<lparr>op_id = j_id j, op_operation = job_kind_as_str (j_kind j), op_status = job_status_as_str (j_status j),
     op_attempts = j_attempts j, op_run_after = Some (j_run_after j), op_cancel_requested = False,
     op_project = j_project j, op_device = None, op_item_count = None, op_latency_ms = None,
     op_error = j_error j, op_created_at = j_created_at j\<rparr>"

definition admin_list_operations_page ::
    "uuid \<Rightarrow> int \<Rightarrow> int \<Rightarrow> (admin_operation_record list \<times> bool) txn" where
  "admin_list_operations_page actor limit offset s =
    admin_list actor limit offset (\<lambda>s. newest_first op_created_at op_id
      (map operation_of_attempt (sync_attempts s) @ map operation_of_restore (restore_jobs s)
        @ map operation_of_job (jobs s))) s"

text \<open>The identity column of \<open>audit_events\<close> grows with the order of insertion.\<close>

definition admin_list_audit_events_page_filtered ::
    "uuid \<Rightarrow> int \<Rightarrow> int \<Rightarrow> string option \<Rightarrow> (audit_row list \<times> bool) txn" where
  "admin_list_audit_events_page_filtered actor limit offset action_filter s =
    admin_list actor limit offset (\<lambda>s. rev (sort_key au_created_at
      (filter (\<lambda>a. action_filter = None \<or> action_filter = Some (au_action a)) (audit_events s)))) s"

definition admin_list_audit_events_page :: "uuid \<Rightarrow> int \<Rightarrow> int \<Rightarrow> (audit_row list \<times> bool) txn" where
  "admin_list_audit_events_page actor limit offset s =
    admin_list_audit_events_page_filtered actor limit offset None s"

definition admin_list_audit_events :: "uuid \<Rightarrow> audit_row list txn" where
  "admin_list_audit_events actor s = first_page (admin_list_audit_events_page actor 200 0) s"

subsection \<open>The restore of an administrator\<close>

definition admin_restore_row ::
    "env \<Rightarrow> uuid \<Rightarrow> uuid \<Rightarrow> uuid \<Rightarrow> uuid \<Rightarrow> uuid option \<Rightarrow> int option \<Rightarrow> string \<Rightarrow> string \<Rightarrow> restore_row" where
  "admin_restore_row e job_id project_id owner actor snapshot_id target reason request_id =
    (new_restore e job_id owner project_id snapshot_id target reason request_id)\<lparr>rj_requested_by := actor\<rparr>"

definition admin_enqueue_restore ::
    "env \<Rightarrow> uuid \<Rightarrow> uuid \<Rightarrow> uuid \<Rightarrow> uuid option \<Rightarrow> int option \<Rightarrow> string \<Rightarrow> string \<Rightarrow> restore_row txn" where
  "admin_enqueue_restore e job_id actor project_id snapshot_id target reason request_id s =
    (case try_bind (case validate_restore_target snapshot_id target of
              Inl _ \<Rightarrow> Inl InvalidRestoreTarget | Inr _ \<Rightarrow> verify_admin actor s) (\<lambda>_.
          ok_or (List.find (\<lambda>p. p_id p = project_id) (projects s)) NotFound) of
       Inl er \<Rightarrow> (s, Inl er)
     | Inr p \<Rightarrow>
    if p_status p \<noteq> PActive
       \<or> (case target of None \<Rightarrow> False | Some sequence \<Rightarrow> sequence > p_change_seq p)
    then (s, Inl InvalidRestoreTarget)
    else if list_ex (\<lambda>j. rj_project j = project_id \<and> restore_live j) (restore_jobs s) then (s, Inl Conflict)
    else if (case snapshot_id of None \<Rightarrow> False
             | Some i \<Rightarrow> \<not> list_ex (\<lambda>x. sn_id x = i \<and> sn_project x = project_id \<and> sn_status x = SnReady)
                 (snapshots s))
    then (s, Inl NotFound)
    else (let job = admin_restore_row e job_id project_id (p_owner p) actor snapshot_id target reason request_id in
      case insert_restore job s of
        Inl er \<Rightarrow> (s, Inl er)
      | Inr s1 \<Rightarrow>
          (insert_audit e actor (Some (p_owner p)) ''restore.requested''
             (JObj [(''projectId'', JStr project_id), (''restoreId'', JStr job_id),
               (''source'', JStr ''admin'')]) request_id s1, Inr job)))"

end
