(* ===== verification/Restore_Props.thy ===== *)
theory Restore_Props
  imports Restore_Jobs Admin Pull_Props
begin

text \<open>
  What a restore promises: the heads become the target, nothing of the history is lost, the
  generation moves on, only the worker that holds the lease acts; and the states in which a
  project stays closed.
\<close>

subsection \<open>The history of an object in the abstract log\<close>

definition object_log :: "object_kind \<Rightarrow> string \<Rightarrow> log_entry list \<Rightarrow> log_entry list" where
  "object_log k i log = filter (\<lambda>x. le_kind x = k \<and> le_object x = i) log"

type_synonym content = "int option \<times> string option \<times> bool"

definition entry_content :: "log_entry \<Rightarrow> content" where
  "entry_content x = (le_schema_version x, le_hash x, le_tombstone x)"

definition item_content :: "manifest_item \<Rightarrow> content" where
  "item_content x = (mi_schema_version x, mi_content_hash x, mi_tombstone x)"

definition row_content :: "sync_record \<Rightarrow> content" where
  "row_content r = (sr_schema_version r, sr_content_hash r, sr_tombstone r)"

definition current_content :: "object_kind \<Rightarrow> string \<Rightarrow> log_entry list \<Rightarrow> content option" where
  "current_content k i log =
    (if object_log k i log = [] then None else Some (entry_content (last (object_log k i log))))"

lemma object_log_history:
  "object_log k i (abs_log pid s) = map entry_of (object_history (pid, k, i) s)"
proof -
  have "object_history (pid, k, i) s = filter (\<lambda>r. rv_kind r = k \<and> rv_object r = i) (project_revisions pid s)"
    by (auto simp: object_history_def project_revisions_def rev_key_def intro: filter_cong)
  then show ?thesis by (simp add: object_log_def abs_log_def filter_map comp_def entry_of_def)
qed

lemma object_log_append:
  "object_log k i (log @ [x]) = object_log k i log @ (if le_kind x = k \<and> le_object x = i then [x] else [])"
  by (simp add: object_log_def)

text \<open>The head of an object carries the content of the last entry of its log.\<close>

lemma head_state_content:
  assumes "store_inv s" and "owned s pid uid"
  shows "map_option snd (head_state uid pid k i s) = current_content k i (abs_log pid s)"
proof -
  define rs where "rs = object_history (pid, k, i) s"
  have head: "map_option (\<lambda>h. (h_revision h, h_revision_id h)) (find_head uid (pid, k, i) s)
      = (if rs = [] then None else Some (int (length rs), rv_id (last rs)))"
    using store_head [OF assms(1), of "(pid, k, i)"] assms
    by (simp add: find_head_owner rs_def Let_def)
  show ?thesis
  proof (cases "rs = []")
    case True
    with head show ?thesis by (simp add: head_state_def current_content_def object_log_history flip: rs_def)
  next
    case False
    then have "last rs \<in> set (object_revisions s)"
      using last_in_set [of rs] by (auto simp: rs_def object_history_def)
    then have f: "List.find (\<lambda>r. rv_id r = rv_id (last rs)) (object_revisions s) = Some (last rs)"
      using assms(1) by (intro keyed_table_find) (auto simp: store_inv_def keys_ok_def)
    from False head obtain h where "find_head uid (pid, k, i) s = Some h" "h_revision_id h = rv_id (last rs)"
      by (auto split: if_splits)
    with False f show ?thesis
      by (simp add: head_state_def current_content_def object_log_history last_map entry_content_def entry_of_def
          flip: rs_def)
  qed
qed

subsection \<open>The rows of the heads\<close>

lemma head_rows_in:
  assumes "x \<in> set (head_rows visible pid s)"
  obtains c r h where "x = (h, record_of c r)" "h \<in> set (object_heads s)" "h_project h = pid"
    "r \<in> set (object_revisions s)" "rv_id r = h_revision_id h"
  using assms by (auto simp: head_rows_def)

lemma in_concat_map: "y \<in> set ys \<Longrightarrow> x \<in> set (f y) \<Longrightarrow> x \<in> set (concat (map f ys))"
  by auto

lemma head_rowsI:
  assumes "h \<in> set (object_heads s)" "h_project h = pid" "r \<in> set (object_revisions s)" "rv_id r = h_revision_id h"
    "c \<in> set (change_log s)" "cl_revision_id c = rv_id r" "cl_project c = rv_project r"
  shows "(h, record_of c r) \<in> set (head_rows (\<lambda>_. True) pid s)"
  unfolding head_rows_def
  by (intro in_concat_map [of h] in_concat_map [of r]) (use assms in auto)

lemma head_row_last:
  assumes inv: "store_inv s" and x: "row \<in> set (map snd (head_rows visible pid s))"
  obtains k where "sr_kind row = kind_as_str k" "object_log k (sr_id row) (abs_log pid s) \<noteq> []"
    "sr_revision row = int (length (object_log k (sr_id row) (abs_log pid s)))"
    "row_content row = entry_content (last (object_log k (sr_id row) (abs_log pid s)))"
proof -
  from x obtain c r h where x: "row = record_of c r" "h \<in> set (object_heads s)" "h_project h = pid"
    "r \<in> set (object_revisions s)" "rv_id r = h_revision_id h"
    by (auto elim: head_rows_in)
  define rs where "rs = object_history (head_key h) s"
  from inv x have "head_ok s h" by (auto simp: store_inv_def list_all_iff)
  then have rs: "rs \<noteq> []" "h_revision_id h = rv_id (last rs)" by (simp_all add: head_ok_def rs_def Let_def)
  have last: "last rs \<in> set (object_revisions s)" "rev_key (last rs) = head_key h"
    using last_in_set [OF rs(1)] by (auto simp: rs_def object_history_def)
  have r: "r = last rs"
    using inv x rs last by (intro keyed_table_inj [of rv_id "object_revisions s"]) (auto simp: store_inv_def keys_ok_def)
  have key: "head_key h = (pid, rv_kind r, rv_object r)"
    using last r x by (auto simp: rev_key_def head_key_def)
  have "history_ok rs"
    using inv last by (auto simp: store_inv_def list_all_iff rs_def)
  then have "rv_revision r = int (length rs)" using rs r by (simp add: history_ok_last)
  moreover have "object_log (rv_kind r) (rv_object r) (abs_log pid s) = map entry_of rs"
    using key by (simp add: object_log_history rs_def)
  ultimately show thesis
    using that [of "rv_kind r"] rs r x(1)
    by (simp add: last_map row_content_def entry_content_def entry_of_def)
qed

lemma head_row_exists:
  assumes inv: "store_inv s" and own: "owned s pid uid" and ne: "object_log k i (abs_log pid s) \<noteq> []"
  shows "\<exists>row \<in> set (map snd (head_rows (\<lambda>_. True) pid s)). sr_kind row = kind_as_str k \<and> sr_id row = i"
proof -
  from ne have "object_history (pid, k, i) s \<noteq> []" by (simp add: object_log_history)
  with store_head [OF inv, of "(pid, k, i)"] obtain h where
    "List.find (\<lambda>h. head_key h = (pid, k, i)) (object_heads s) = Some h"
    by (auto simp: Let_def split: if_splits)
  then have h: "h \<in> set (object_heads s)" "head_key h = (pid, k, i)" by (auto dest: find_SomeD)
  with inv have ok: "head_ok s h" by (auto simp: store_inv_def list_all_iff)
  define r where "r = last (object_history (head_key h) s)"
  from ok have rs: "object_history (head_key h) s \<noteq> []" "h_revision_id h = rv_id r"
    by (simp_all add: head_ok_def r_def Let_def)
  from last_in_set [OF rs(1)] h have r: "r \<in> set (object_revisions s)" "rev_key r = (pid, k, i)"
    by (auto simp: r_def object_history_def)
  then have "rv_id r \<in> set (map rv_id (project_revisions pid s))"
    by (auto simp: project_revisions_def rev_key_def)
  then have "rv_id r \<in> set (map cl_revision_id (project_log pid s))"
    by (simp add: owned_log_ok(2) [OF inv own])
  then obtain c where c: "c \<in> set (change_log s)" "cl_project c = pid" "cl_revision_id c = rv_id r"
    by (auto simp: project_log_def)
  have "(h, record_of c r) \<in> set (head_rows (\<lambda>_. True) pid s)"
    using h r c rs by (intro head_rowsI) (auto simp: head_key_def rev_key_def)
  then have "record_of c r \<in> set (map snd (head_rows (\<lambda>_. True) pid s))" by (metis image_eqI list.set_map snd_conv)
  moreover have "sr_kind (record_of c r) = kind_as_str k" "sr_id (record_of c r) = i"
    using r by (simp_all add: rev_key_def)
  ultimately show ?thesis by blast
qed

definition prefix_log :: "log_entry list \<Rightarrow> log_entry list \<Rightarrow> bool" where
  "prefix_log old new \<longleftrightarrow> take (length old) new = old"

subsection \<open>The loop over the target\<close>

definition item_key :: "manifest_item \<Rightarrow> string \<times> string" where
  "item_key x = (mi_kind x, mi_id x)"

text \<open>The rows read before the loop describe the object of an item as the log has it.\<close>

definition current_ok :: "sync_record list \<Rightarrow> log_entry list \<Rightarrow> manifest_item \<Rightarrow> bool" where
  "current_ok current log item \<longleftrightarrow>
    (\<forall>k. kind_as_str k = mi_kind item \<longrightarrow>
      (case List.find (\<lambda>row. same_item row item) current of
         None \<Rightarrow> object_log k (mi_id item) log = []
       | Some row \<Rightarrow> object_log k (mi_id item) log \<noteq> []
           \<and> sr_revision row = int (length (object_log k (mi_id item) log))
           \<and> row_content row = entry_content (last (object_log k (mi_id item) log))))
    \<and> (\<forall>row. List.find (\<lambda>row. same_item row item) current = Some row \<longrightarrow> (\<exists>k. kind_as_str k = mi_kind item))"

lemma current_ok_heads:
  assumes "store_inv s" and "owned s pid uid"
  shows "current_ok (map snd (head_rows (\<lambda>_. True) pid s)) (abs_log pid s) item"
proof (cases "List.find (\<lambda>row. same_item row item) (map snd (head_rows (\<lambda>_. True) pid s))")
  case None
  have "object_log k (mi_id item) (abs_log pid s) = []" if "kind_as_str k = mi_kind item" for k
  proof (rule ccontr)
    assume "object_log k (mi_id item) (abs_log pid s) \<noteq> []"
    from head_row_exists [OF assms this] obtain row where
      "row \<in> set (map snd (head_rows (\<lambda>_. True) pid s))" "sr_kind row = kind_as_str k" "sr_id row = mi_id item"
      by blast
    with find_NoneD [OF None, of row] that show False by (simp add: same_item_def)
  qed
  with None show ?thesis by (simp add: current_ok_def)
next
  case (Some row)
  then have row: "row \<in> set (map snd (head_rows (\<lambda>_. True) pid s))" "same_item row item"
    by (auto dest: find_SomeD simp del: set_map)
  from head_row_last [OF assms(1) row(1)] obtain k where k: "sr_kind row = kind_as_str k"
    "object_log k (sr_id row) (abs_log pid s) \<noteq> []"
    "sr_revision row = int (length (object_log k (sr_id row) (abs_log pid s)))"
    "row_content row = entry_content (last (object_log k (sr_id row) (abs_log pid s)))" .
  with row(2) have "kind_as_str k' = mi_kind item \<longleftrightarrow> k' = k" for k'
    by (auto simp: same_item_def kind_as_str_inj)
  with k row(2) Some show ?thesis by (auto simp: current_ok_def same_item_def)
qed

lemma kind_of_strD: "kind_of_str t = Some k \<Longrightarrow> kind_as_str k = t"
  unfolding kind_of_str_def by (drule find_SomeD) simp

definition restore_pre :: "uuid \<Rightarrow> uuid \<Rightarrow> db \<Rightarrow> bool" where
  "restore_pre owner pid s \<longleftrightarrow> store_inv s \<and> owned s pid owner"

lemma same_state_content: "same_manifest_state row item \<Longrightarrow> row_content row = item_content item"
  by (simp add: same_manifest_state_def row_content_def item_content_def)

lemma restore_item_spec:
  assumes pre: "restore_pre owner pid s" and cur: "current_ok current (abs_log pid s) item"
    and step: "restore_item e owner pid current rid item s = Inr (s', applied)"
  shows "restore_pre owner pid s' \<and> (\<exists>k. kind_as_str k = mi_kind item
      \<and> current_content k (mi_id item) (abs_log pid s') = Some (item_content item)
      \<and> (\<exists>new. abs_log pid s' = abs_log pid s @ new
          \<and> list_all (\<lambda>x. le_kind x = k \<and> le_object x = mi_id item) new))
    \<and> (\<forall>q. q \<noteq> pid \<longrightarrow> abs_log q s' = abs_log q s)"
proof -
  define existing where "existing = List.find (\<lambda>row. same_item row item) current"
  show ?thesis
  proof (cases "case existing of None \<Rightarrow> False | Some row \<Rightarrow> same_manifest_state row item")
    case True
    then obtain row where row: "existing = Some row" "same_manifest_state row item"
      by (cases existing) auto
    with cur obtain k where "kind_as_str k = mi_kind item" by (auto simp: current_ok_def existing_def)
    moreover from this cur row have "current_content k (mi_id item) (abs_log pid s) = Some (item_content item)"
      by (auto simp: current_ok_def existing_def current_content_def same_state_content)
    moreover from True step have "s' = s" by (simp add: restore_item_def flip: existing_def)
    ultimately show ?thesis using pre by auto
  next
    case False
    define actual where "actual = (case existing of None \<Rightarrow> 0 | Some row \<Rightarrow> sr_revision row)"
    from False step obtain payload k n where k: "kind_of_str (mi_kind item) = Some k"
      and app: "append_revision e (\<lambda>_. True) (restored_revision e owner pid rid k actual payload item) s = Inr (s', n)"
      by (auto simp: restore_item_def Let_def try_bind_eq_Inr actual_def simp flip: existing_def)
    define r where "r = restored_revision e owner pid rid k actual payload item"
    from k have kind: "kind_as_str k = mi_kind item" by (rule kind_of_strD)
    have act: "actual = int (length (object_log k (mi_id item) (abs_log pid s)))"
      using cur kind by (auto simp: current_ok_def actual_def existing_def split: option.splits)
    have sel: "rv_project r = pid" "rev_key r = (pid, k, mi_id item)" "rv_revision r = i64_wrap (actual + 1)"
      "le_kind (entry_of r) = k" "le_object (entry_of r) = mi_id item" "entry_content (entry_of r) = item_content item"
      by (simp_all add: r_def restored_revision_def rev_key_def entry_of_def entry_content_def item_content_def)
    from app [folded r_def] show ?thesis
    proof (rule append_revisionE)
      fix p assume p: "p \<in> set (projects s)" "p_id p = rv_project r" "n = p_change_seq p + 1" "n \<le> i64_max"
        and rv: "object_revisions s' = object_revisions s @ [r]"
      have "n = int (length (abs_log pid s)) + 1"
        using p sel(1) pre project_seq_is_length [of s p pid] by (simp add: restore_pre_def)
      moreover have "length (object_log k (mi_id item) (abs_log pid s)) \<le> length (abs_log pid s)"
        by (simp add: object_log_def)
      ultimately have rev: "rv_revision r = actual + 1"
        using p(4) act unfolding sel(3) by (intro i64_wrap_id) auto
      have "store_inv s'"
        using pre rev sel(2) by (intro append_revision_inv [OF _ app [folded r_def]])
          (simp_all add: restore_pre_def act object_log_history)
      moreover have "owned s' pid owner"
        using pre append_revision_owned [OF app] by (simp add: restore_pre_def)
      moreover have new: "abs_log pid s' = abs_log pid s @ [entry_of r]"
        using abs_log_append [OF rv, of pid] sel(1) by simp
      moreover have "abs_log q s' = abs_log q s" if "q \<noteq> pid" for q
        using abs_log_append [OF rv, of q] sel(1) that by simp
      moreover have "current_content k (mi_id item) (abs_log pid s') = Some (item_content item)"
        using sel by (simp add: new current_content_def object_log_append)
      ultimately show ?thesis
        using kind sel by (auto simp: restore_pre_def)
    qed
  qed
qed

lemma object_log_unchanged:
  assumes "list_all (\<lambda>x. le_kind x = k \<and> le_object x = i) new" and "(k', i') \<noteq> (k, i)"
  shows "object_log k' i' (log @ new) = object_log k' i' log"
  using assms by (auto simp: object_log_def list_all_iff filter_empty_conv)

lemma current_ok_cong:
  assumes "\<And>k. kind_as_str k = mi_kind item \<Longrightarrow> object_log k (mi_id item) log' = object_log k (mi_id item) log"
  shows "current_ok current log' item = current_ok current log item"
  using assms by (simp add: current_ok_def split: option.split)

lemma restore_items_spec:
  assumes "restore_pre owner pid s" and "\<forall>item \<in> set items. current_ok current (abs_log pid s) item"
    and "distinct (map item_key items)"
    and "restore_items e owner pid current ids j items s = Inr (s', objects, tombstones)"
  shows "restore_pre owner pid s' \<and> (\<exists>new. abs_log pid s' = abs_log pid s @ new)
    \<and> (\<forall>item \<in> set items. \<exists>k. kind_as_str k = mi_kind item
        \<and> current_content k (mi_id item) (abs_log pid s') = Some (item_content item))
    \<and> (\<forall>k i. (kind_as_str k, i) \<notin> item_key ` set items \<longrightarrow> object_log k i (abs_log pid s') = object_log k i (abs_log pid s))
    \<and> (\<forall>q. q \<noteq> pid \<longrightarrow> abs_log q s' = abs_log q s)"
  using assms
proof (induction items arbitrary: j s objects tombstones)
  case (Cons item items)
  from Cons.prems(4) obtain s1 applied ob tb
    where one: "restore_item e owner pid current (ids j) item s = Inr (s1, applied)"
      and more: "restore_items e owner pid current ids (Suc j) items s1 = Inr (s', ob, tb)"
    by (auto simp: try_bind_eq_Inr)
  from restore_item_spec [OF Cons.prems(1) _ one] Cons.prems(2) obtain k new where
    pre1: "restore_pre owner pid s1" and k: "kind_as_str k = mi_kind item"
    and content: "current_content k (mi_id item) (abs_log pid s1) = Some (item_content item)"
    and new: "abs_log pid s1 = abs_log pid s @ new" "list_all (\<lambda>x. le_kind x = k \<and> le_object x = mi_id item) new"
    and others: "\<forall>q. q \<noteq> pid \<longrightarrow> abs_log q s1 = abs_log q s"
    by auto
  have keep: "object_log k' i (abs_log pid s1) = object_log k' i (abs_log pid s)"
    if "(kind_as_str k', i) \<noteq> item_key item" for k' i
    unfolding new(1) using that k by (intro object_log_unchanged [OF new(2)]) (auto simp: item_key_def)
  have cur1: "\<forall>x \<in> set items. current_ok current (abs_log pid s1) x"
  proof
    fix x assume x: "x \<in> set items"
    then have "item_key x \<in> item_key ` set items" by (rule imageI)
    with Cons.prems(3) have "item_key x \<noteq> item_key item" by auto
    then have "current_ok current (abs_log pid s1) x = current_ok current (abs_log pid s) x"
      by (intro current_ok_cong keep) (simp add: item_key_def)
    with x Cons.prems(2) show "current_ok current (abs_log pid s1) x" by simp
  qed
  have "distinct (map item_key items)" using Cons.prems(3) by simp
  note IH = Cons.IH [OF pre1 cur1 this more]
  have "(kind_as_str k, mi_id item) \<notin> item_key ` set items"
    using Cons.prems(3) k by (auto simp: item_key_def)
  with IH have "object_log k (mi_id item) (abs_log pid s') = object_log k (mi_id item) (abs_log pid s1)" by blast
  with content have fin: "current_content k (mi_id item) (abs_log pid s') = Some (item_content item)"
    by (simp add: current_content_def split: if_splits)
  show ?case
  proof (intro conjI ballI allI impI)
    show "restore_pre owner pid s'" using IH by blast
    from IH new(1) show "\<exists>new. abs_log pid s' = abs_log pid s @ new" by auto
  next
    fix x assume "x \<in> set (item # items)"
    with IH fin k show "\<exists>k. kind_as_str k = mi_kind x \<and> current_content k (mi_id x) (abs_log pid s') = Some (item_content x)"
      by auto
  next
    fix k' i assume "(kind_as_str k', i) \<notin> item_key ` set (item # items)"
    with IH keep show "object_log k' i (abs_log pid s') = object_log k' i (abs_log pid s)" by auto
  next
    fix q assume "q \<noteq> pid"
    with IH others show "abs_log q s' = abs_log q s" by simp
  qed
qed auto

subsection \<open>The whole restore\<close>

definition row_key :: "sync_record \<Rightarrow> string \<times> string" where
  "row_key r = (sr_kind r, sr_id r)"

definition deleted_content :: content where
  "deleted_content = (None, None, True)"

lemma same_item_key: "same_item row item \<longleftrightarrow> item_key item = row_key row"
  by (auto simp: same_item_def item_key_def row_key_def)

lemma tombstone_item_key [simp]: "item_key (tombstone_item row) = row_key row"
  by (simp add: tombstone_item_def item_key_def row_key_def)

lemma tombstone_item_content [simp]: "item_content (tombstone_item row) = deleted_content"
  by (simp add: tombstone_item_def item_content_def deleted_content_def)

lemma complete_target_spec:
  assumes "distinct (map item_key target)"
  shows "\<exists>extra. complete_target current target = target @ extra
    \<and> distinct (map item_key (target @ extra))
    \<and> list_all (\<lambda>x. item_content x = deleted_content) extra
    \<and> list_all (\<lambda>row. row_key row \<in> item_key ` set (target @ extra)) current"
  using assms
proof (induction current arbitrary: target)
  case (Cons row current)
  show ?case
  proof (cases "list_ex (same_item row) target")
    case True
    then have "row_key row \<in> item_key ` set target" by (force simp: list_ex_iff same_item_key)
    with Cons.IH [OF Cons.prems] True show ?thesis by auto
  next
    case False
    then have "row_key row \<notin> item_key ` set target" by (auto simp: list_ex_iff same_item_key)
    with Cons.prems have "distinct (map item_key (target @ [tombstone_item row]))" by auto
    from Cons.IH [OF this] obtain extra where
      "complete_target current (target @ [tombstone_item row]) = (target @ [tombstone_item row]) @ extra"
      "distinct (map item_key ((target @ [tombstone_item row]) @ extra))"
      "list_all (\<lambda>x. item_content x = deleted_content) extra"
      "list_all (\<lambda>x. row_key x \<in> item_key ` set ((target @ [tombstone_item row]) @ extra)) current"
      by blast
    with False show ?thesis
      by (intro exI [of _ "tombstone_item row # extra"])
        simp
  qed
qed simp

text \<open>A revision leaves the generations of the projects alone, and so does the loop.\<close>

definition generations :: "db \<Rightarrow> (uuid \<times> int) list" where
  "generations s = map (\<lambda>p. (p_id p, p_generation p)) (projects s)"

lemma append_revision_generations:
  "append_revision e visible r s = Inr (s', n) \<Longrightarrow> generations s' = generations s"
  by (erule append_revisionE) (simp add: generations_def update_where_def bump_row_def)

lemma restore_item_frame:
  assumes "restore_item e owner pid current rid item s = Inr (s', applied)"
  shows "generations s' = generations s \<and> restore_jobs s' = restore_jobs s"
  using assms
  by (auto simp: restore_item_def Let_def try_bind_eq_Inr append_revision_frame_select
      dest: append_revision_generations split: if_splits)

lemma restore_items_frame:
  assumes "restore_items e owner pid current ids j items s = Inr (s', objects, tombstones)"
  shows "generations s' = generations s \<and> restore_jobs s' = restore_jobs s"
  using assms
  by (induction items arbitrary: j s objects tombstones)
    (auto simp: try_bind_eq_Inr dest: restore_item_frame)

lemma execute_restoreE:
  assumes "execute_restore_with_lease parse_uuid e ids job_id lease s = (s', Inr ())"
    and "List.find (holds_lease job_id lease) (restore_jobs s) = Some job"
    and "restore_target parse_uuid job s = Inr target"
  obtains p s1 objects tombstones where
    "p \<in> set (projects s)" "p_id p = rj_project job" "p_status p = PMaintenance"
    "restore_items e (p_owner p) (rj_project job) (map snd (head_rows (\<lambda>_. True) (rj_project job) s)) ids 0
       (complete_target (map snd (head_rows (\<lambda>_. True) (rj_project job) s)) target) s = Inr (s1, objects, tombstones)"
    "s' = restore_audit e job (i64_wrap (p_generation p + 1)) objects tombstones
      (update_restore (holds_lease job_id lease)
        (finish_restore e (i64_wrap (p_generation p + 1)) objects tombstones)
        (s1\<lparr>projects := update_where (\<lambda>x. p_id x = rj_project job)
          (reopen_project e (i64_wrap (p_generation p + 1))) (projects s1)\<rparr>))"
  using assms
  by (auto simp: execute_restore_with_lease_def Let_def simp del: set_map
      split: option.splits sum.splits if_splits dest!: find_SomeD [of "\<lambda>p. p_id p = _ \<and> _ p"])

text \<open>The loop over the completed target makes the heads equal to the target.\<close>

lemma restore_items_reach:
  assumes inv: "store_inv s" and own: "owned s pid owner" and dist: "distinct (map item_key target)"
    and current: "current = map snd (head_rows (\<lambda>_. True) pid s)"
    and items: "restore_items e owner pid current ids 0 (complete_target current target) s = Inr (s1, ob, tb)"
  shows "store_inv s1 \<and> prefix_log (abs_log pid s) (abs_log pid s1)
    \<and> (\<forall>item \<in> set target. \<exists>k. kind_as_str k = mi_kind item
        \<and> current_content k (mi_id item) (abs_log pid s1) = Some (item_content item))
    \<and> (\<forall>k i. (kind_as_str k, i) \<notin> item_key ` set target \<longrightarrow>
        current_content k i (abs_log pid s1) \<in> {None, Some deleted_content})
    \<and> (\<forall>q. q \<noteq> pid \<longrightarrow> abs_log q s1 = abs_log q s)"
proof -
  from complete_target_spec [OF dist, of current] obtain extra where
    full: "complete_target current target = target @ extra" "distinct (map item_key (target @ extra))"
      "list_all (\<lambda>x. item_content x = deleted_content) extra"
      "list_all (\<lambda>row. row_key row \<in> item_key ` set (target @ extra)) current"
    by blast
  have pre: "restore_pre owner pid s" using inv own by (simp add: restore_pre_def)
  have ok: "\<forall>item \<in> set (target @ extra). current_ok current (abs_log pid s) item"
    using current_ok_heads [OF inv own] by (simp only: current) blast
  note spec = restore_items_spec [OF pre ok full(2) items [unfolded full(1)]]
  from spec have done_all: "\<exists>k. kind_as_str k = mi_kind x
      \<and> current_content k (mi_id x) (abs_log pid s1) = Some (item_content x)" if "x \<in> set (target @ extra)" for x
    using that by blast
  have "current_content k i (abs_log pid s1) \<in> {None, Some deleted_content}"
    if out: "(kind_as_str k, i) \<notin> item_key ` set target" for k i
  proof (cases "(kind_as_str k, i) \<in> item_key ` set extra")
    case True
    then obtain x where x: "x \<in> set extra" "mi_kind x = kind_as_str k" "mi_id x = i" by (auto simp: item_key_def)
    with done_all [of x] full(3) show ?thesis by (auto simp: kind_as_str_inj list_all_iff)
  next
    case False
    with out have "(kind_as_str k, i) \<notin> item_key ` set (target @ extra)" by (simp add: image_Un)
    with spec have same: "object_log k i (abs_log pid s1) = object_log k i (abs_log pid s)" by blast
    have "object_log k i (abs_log pid s) = []"
    proof (rule ccontr)
      assume "object_log k i (abs_log pid s) \<noteq> []"
      from head_row_exists [OF inv own this] obtain row where
        "row \<in> set current" "sr_kind row = kind_as_str k" "sr_id row = i"
        unfolding current by blast
      with full(4) out False show False by (auto simp: list_all_iff row_key_def)
    qed
    with same show ?thesis by (simp add: current_content_def)
  qed
  with spec done_all show ?thesis by (auto simp: restore_pre_def prefix_log_def)
qed

lemma reopened_project:
  assumes "generations s1 = generations s" and "p \<in> set (projects s)" "p_id p = pid"
  shows "\<exists>q \<in> set (update_where (\<lambda>x. p_id x = pid) (reopen_project e g) (projects s1)).
    p_id q = pid \<and> p_status q = PActive \<and> p_generation q = g"
proof -
  have "map fst (generations t) = map p_id (projects t)" for t by (simp add: generations_def)
  then have "map p_id (projects s1) = map p_id (projects s)" using assms(1) by metis
  then have "p_id ` set (projects s1) = p_id ` set (projects s)" by (metis list.set_map)
  with assms(2,3) have "pid \<in> p_id ` set (projects s1)" by auto
  then obtain q where q: "q \<in> set (projects s1)" "p_id q = pid" by auto
  then have "reopen_project e g q \<in> set (update_where (\<lambda>x. p_id x = pid) (reopen_project e g) (projects s1))"
    by (rule in_update_whereI)
  with q show ?thesis by (intro bexI [of _ "reopen_project e g q"]) (simp_all add: reopen_project_def)
qed

lemma finished_job:
  assumes "List.find (holds_lease job_id lease) js = Some job"
  shows "\<not> list_ex (holds_lease job_id lease) (update_where (holds_lease job_id lease) (finish_restore e g ob tb) js)
    \<and> list_ex (\<lambda>j. rj_id j = job_id \<and> rj_status j = RSucceeded)
        (update_where (holds_lease job_id lease) (finish_restore e g ob tb) js)"
proof
  show "\<not> list_ex (holds_lease job_id lease) (update_where (holds_lease job_id lease) (finish_restore e g ob tb) js)"
    by (auto simp: list_ex_iff holds_lease_def finish_restore_def drop_lease_def elim!: in_update_whereE split: if_splits)
  from find_SomeD [OF assms] have h: "job \<in> set js" "holds_lease job_id lease job" by auto
  then have "finish_restore e g ob tb job \<in> set (update_where (holds_lease job_id lease) (finish_restore e g ob tb) js)"
    by (rule in_update_whereI)
  with h show "list_ex (\<lambda>j. rj_id j = job_id \<and> rj_status j = RSucceeded)
        (update_where (holds_lease job_id lease) (finish_restore e g ob tb) js)"
    unfolding list_ex_iff by (intro bexI) (simp_all add: holds_lease_def finish_restore_def drop_lease_def)
qed

text \<open>C22. A restore that commits reaches its target. Whatever the store held, afterwards every
  object the target names has the target's content (schema version, hash, tombstone) at its
  head, every other object of the project is deleted or never existed, the invariant of the
  store holds, the project's history before the restore is still there as a prefix, other
  projects are untouched, the project is active again under the next generation, and the lease
  is gone with the job marked as succeeded.\<close>

theorem restore_reaches_target:
  assumes inv: "store_inv s"
    and job: "List.find (holds_lease job_id lease) (restore_jobs s) = Some job"
    and target: "restore_target parse_uuid job s = Inr target" "distinct (map item_key target)"
    and run: "execute_restore_with_lease parse_uuid e ids job_id lease s = (s', Inr ())"
  shows "store_inv s' \<and> prefix_log (abs_log (rj_project job) s) (abs_log (rj_project job) s')
    \<and> (\<forall>item \<in> set target. \<exists>k. kind_as_str k = mi_kind item
        \<and> current_content k (mi_id item) (abs_log (rj_project job) s') = Some (item_content item))
    \<and> (\<forall>k i. (kind_as_str k, i) \<notin> item_key ` set target \<longrightarrow>
        current_content k i (abs_log (rj_project job) s') \<in> {None, Some deleted_content})
    \<and> (\<forall>q. q \<noteq> rj_project job \<longrightarrow> abs_log q s' = abs_log q s)
    \<and> (\<exists>p \<in> set (projects s). \<exists>p' \<in> set (projects s'). p_id p = rj_project job \<and> p_id p' = rj_project job
        \<and> p_status p' = PActive \<and> p_generation p' = i64_wrap (p_generation p + 1))
    \<and> \<not> list_ex (holds_lease job_id lease) (restore_jobs s')
    \<and> list_ex (\<lambda>j. rj_id j = job_id \<and> rj_status j = RSucceeded) (restore_jobs s')"
proof -
  define pid where "pid = rj_project job"
  define current where "current = map snd (head_rows (\<lambda>_. True) pid s)"
  from execute_restoreE [OF run job target(1)] obtain p s1 ob tb where
    p: "p \<in> set (projects s)" "p_id p = pid" and
    items: "restore_items e (p_owner p) pid current ids 0 (complete_target current target) s = Inr (s1, ob, tb)" and
    s': "s' = restore_audit e job (i64_wrap (p_generation p + 1)) ob tb
      (update_restore (holds_lease job_id lease) (finish_restore e (i64_wrap (p_generation p + 1)) ob tb)
        (s1\<lparr>projects := update_where (\<lambda>x. p_id x = pid) (reopen_project e (i64_wrap (p_generation p + 1))) (projects s1)\<rparr>))"
    unfolding pid_def current_def .
  let ?gen = "i64_wrap (p_generation p + 1)"
  have "owned s pid (p_owner p)" using p by (auto simp: owned_def list_ex_iff)
  note reach = restore_items_reach [OF inv this target(2) current_def items]
  note frame = restore_items_frame [OF items]
  have log: "abs_log q s' = abs_log q s1" for q
    by (simp add: abs_log_def project_revisions_def s' restore_audit_def update_restore_def)
  have "store_inv (s1\<lparr>projects := update_where (\<lambda>x. p_id x = pid) (reopen_project e ?gen) (projects s1)\<rparr>)"
    using reach by (intro store_inv_project_update) (simp_all add: reopen_project_def)
  then have "store_inv s'"
    by (rule store_inv_view [THEN iffD1, rotated]) (simp add: s' store_view_def restore_audit_def update_restore_def)
  moreover have "\<exists>p \<in> set (projects s). \<exists>p' \<in> set (projects s'). p_id p = pid \<and> p_id p' = pid
        \<and> p_status p' = PActive \<and> p_generation p' = i64_wrap (p_generation p + 1)"
    using reopened_project [OF conjunct1 [OF frame] p, of e ?gen] p
    by (auto simp: s' restore_audit_def update_restore_def)
  moreover have "\<not> list_ex (holds_lease job_id lease) (restore_jobs s')
      \<and> list_ex (\<lambda>j. rj_id j = job_id \<and> rj_status j = RSucceeded) (restore_jobs s')"
    using frame finished_job [OF job] by (simp add: s' restore_audit_def update_restore_def)
  ultimately show ?thesis using reach by (simp add: log flip: pid_def)
qed

subsection \<open>The queue of restores\<close>

datatype restore_event =
    EvEnqueue uuid uuid uuid "uuid option" "int option" string string
  | EvAdminEnqueue uuid uuid uuid "uuid option" "int option" string string
  | EvCancel uuid uuid uuid string string
  | EvClaim uuid
  | EvPreSnapshot uuid restore_row
  | EvRenew uuid uuid
  | EvCancelLeased uuid uuid
  | EvFail uuid string
  | EvFailLeased uuid uuid string
  | EvRetryLeased uuid uuid string
  | EvReopen uuid uuid string string
  | EvExecute "nat \<Rightarrow> uuid" uuid uuid

fun restore_step ::
    "(json \<Rightarrow> bytes) \<Rightarrow> (bytes \<Rightarrow> string) \<Rightarrow> (string \<Rightarrow> uuid option) \<Rightarrow> env \<times> restore_event \<Rightarrow> db \<Rightarrow> db" where
  "restore_step tv sha pu (e, EvEnqueue j u pid sn ts reason rid) s = fst (enqueue_restore e j u pid sn ts reason rid s)"
| "restore_step tv sha pu (e, EvAdminEnqueue j actor pid sn ts reason rid) s =
    fst (admin_enqueue_restore e j actor pid sn ts reason rid s)"
| "restore_step tv sha pu (e, EvCancel u pid j reason rid) s = fst (cancel_restore e u pid j reason rid s)"
| "restore_step tv sha pu (e, EvClaim lease) s = fst (claim_restore_job e lease s)"
| "restore_step tv sha pu (e, EvPreSnapshot sn job) s = fst (create_pre_restore_snapshot tv sha e sn job s)"
| "restore_step tv sha pu (e, EvRenew j lease) s = fst (renew_restore_lease e j lease s)"
| "restore_step tv sha pu (e, EvCancelLeased j lease) s = fst (cancel_restore_with_lease e j lease s)"
| "restore_step tv sha pu (e, EvFail j code) s = fst (fail_restore_job e j code s)"
| "restore_step tv sha pu (e, EvFailLeased j lease code) s = fst (fail_restore_job_with_lease e j lease code s)"
| "restore_step tv sha pu (e, EvRetryLeased j lease code) s = fst (retry_restore_job_with_lease e j lease code s)"
| "restore_step tv sha pu (e, EvReopen actor pid reason rid) s = fst (reopen_failed_restore e actor pid reason rid s)"
| "restore_step tv sha pu (e, EvExecute ids j lease) s = fst (execute_restore_with_lease pu e ids j lease s)"

definition attempts_ok :: "restore_row \<Rightarrow> bool" where
  "attempts_ok j \<longleftrightarrow> 0 \<le> rj_attempts j \<and> rj_attempts j \<le> 3 \<and> (restore_live j \<longrightarrow> rj_attempts j < 3)"

definition live_projects :: "restore_row list \<Rightarrow> uuid list" where
  "live_projects js = map rj_project (filter restore_live js)"

definition queue_ok :: "restore_row list \<Rightarrow> bool" where
  "queue_ok js \<longleftrightarrow> distinct (map rj_id js) \<and> distinct (live_projects js) \<and> list_all attempts_ok js"

text \<open>What a step may do to a row, and to the queue.\<close>

definition row_change :: "restore_row \<Rightarrow> restore_row \<Rightarrow> bool" where
  "row_change j j' \<longleftrightarrow> restore_live j \<and> rj_id j' = rj_id j \<and> rj_project j' = rj_project j \<and> attempts_ok j'"

definition queue_change :: "restore_row list \<Rightarrow> restore_row list \<Rightarrow> bool" where
  "queue_change js js' \<longleftrightarrow>
    (\<exists>P f. js' = update_where P f js \<and> (\<forall>j \<in> set js. P j \<longrightarrow> row_change j (f j)))
  \<or> (\<exists>j. js' = js @ [j] \<and> attempts_ok j \<and> rj_id j \<notin> rj_id ` set js \<and> rj_project j \<notin> set (live_projects js))"

lemma queue_change_refl [simp]: "queue_change js js"
proof -
  have "js = update_where (\<lambda>_. False) id js" by (simp add: update_where_def)
  then show ?thesis unfolding queue_change_def by blast
qed

lemma queue_changeI:
  "(\<And>j. j \<in> set js \<Longrightarrow> P j \<Longrightarrow> row_change j (f j)) \<Longrightarrow> queue_change js (update_where P f js)"
  unfolding queue_change_def by blast

lemma live_projects_update:
  assumes "\<forall>j \<in> set js. P j \<longrightarrow> row_change j (f j)"
  shows "set (live_projects (update_where P f js)) \<subseteq> set (live_projects js)
    \<and> (distinct (live_projects js) \<longrightarrow> distinct (live_projects (update_where P f js)))"
  using assms by (induction js) (auto simp: live_projects_def row_change_def)

lemma queue_change_ok:
  assumes "queue_ok js" and "queue_change js js'"
  shows "queue_ok js'"
  using assms(2) unfolding queue_change_def
proof (elim disjE exE conjE)
  fix P f assume js': "js' = update_where P f js" and ch: "\<forall>j \<in> set js. P j \<longrightarrow> row_change j (f j)"
  have "map rj_id (update_where P f js) = map rj_id js"
    using ch by (auto simp: update_where_def row_change_def)
  moreover have "list_all attempts_ok (update_where P f js)"
    using assms(1) ch by (auto simp: queue_ok_def list_all_iff row_change_def elim!: in_update_whereE split: if_splits)
  ultimately show ?thesis
    using assms(1) live_projects_update [OF ch] by (simp add: queue_ok_def js')
next
  fix j assume "js' = js @ [j]" "attempts_ok j" "rj_id j \<notin> rj_id ` set js" "rj_project j \<notin> set (live_projects js)"
  with assms(1) show ?thesis by (auto simp: queue_ok_def live_projects_def)
qed

lemma queue_change_final:
  assumes "queue_change js js'" and "j \<in> set js" and "\<not> restore_live j"
  shows "j \<in> set js'"
  using assms unfolding queue_change_def
  by (auto simp: set_update_where row_change_def intro!: rev_image_eqI [of j])

lemma holds_lease_live: "holds_lease j l x \<Longrightarrow> restore_live x"
  by (simp add: holds_lease_def restore_live_def)

lemmas row_change_defs = row_change_def attempts_ok_def restore_live_def holds_lease_def drop_lease_def
  cancel_queued_def request_cancel_def claim_restore_row_def fail_restore_row_def retry_restore_row_def finish_restore_def

lemma queue_okD: "queue_ok js \<Longrightarrow> j \<in> set js \<Longrightarrow> attempts_ok j"
  by (simp add: queue_ok_def list_all_iff)

text \<open>Both ways to ask for a restore insert one new row.\<close>

lemma insert_restore_change:
  assumes "insert_restore row s = Inr s1" and "rj_status row = RQueued" and "rj_attempts row = 0"
  shows "queue_change (restore_jobs s) (restore_jobs s1)"
proof -
  from assms have "restore_jobs s1 = restore_jobs s @ [row]" "rj_id row \<notin> rj_id ` set (restore_jobs s)"
    "rj_project row \<notin> set (live_projects (restore_jobs s))"
    by (auto simp: insert_restore_def restore_live_def live_projects_def list_ex_iff split: if_splits)
  moreover have "attempts_ok row" using assms by (simp add: attempts_ok_def)
  ultimately show ?thesis unfolding queue_change_def by blast
qed

lemma enqueue_change: "queue_change (restore_jobs s) (restore_jobs (fst (enqueue_restore e j u pid sn ts reason rid s)))"
  by (auto simp: enqueue_restore_def Let_def new_restore_def split: sum.split option.split
      intro!: insert_restore_change [of "new_restore e j u pid sn ts reason rid", unfolded new_restore_def])

lemma admin_enqueue_change:
  "queue_change (restore_jobs s) (restore_jobs (fst (admin_enqueue_restore e j u pid sn ts reason rid s)))"
  by (auto simp: admin_enqueue_restore_def Let_def split: sum.split option.split
      intro!: insert_restore_change) (simp_all add: admin_restore_row_def new_restore_def)

lemma claim_change:
  assumes "queue_ok (restore_jobs s)"
  shows "queue_change (restore_jobs s) (restore_jobs (fst (claim_restore_job e lease s)))"
proof (cases "sort_key rj_created_at (sort_key rj_id (filter (claimable_restore e) (restore_jobs s)))")
  case Nil
  then show ?thesis by (simp add: claim_restore_job_def)
next
  case (Cons job more)
  then have "job \<in> set (sort_key rj_created_at (sort_key rj_id (filter (claimable_restore e) (restore_jobs s))))" by simp
  then have job: "job \<in> set (restore_jobs s)" "restore_live job" by (auto simp: claimable_restore_def restore_live_def)
  have "j = job" if "j \<in> set (restore_jobs s)" "rj_id j = rj_id job" for j
    using that job assms by (auto simp: queue_ok_def intro: keyed_table_inj)
  then have "queue_change (restore_jobs s) (update_where (\<lambda>j. rj_id j = rj_id job) f (restore_jobs s))"
    if "row_change job (f job)" for f using that by (intro queue_changeI) blast
  moreover have "row_change job (fail_restore_row e c job)" "row_change job (claim_restore_row e lease g job)" for c g
    using job queue_okD [OF assms job(1)] by (auto simp: row_change_defs)
  ultimately show ?thesis
    using Cons by (simp add: claim_restore_job_def Let_def update_restore_def split: option.splits)
qed

lemma cancel_change:
  assumes "queue_ok (restore_jobs s)"
  shows "queue_change (restore_jobs s) (restore_jobs (fst (cancel_restore e u pid j reason rid s)))"
  using queue_okD [OF assms]
  by (auto simp: cancel_restore_def Let_def update_restore_def row_change_defs split: option.splits restore_status.splits
      intro!: queue_changeI)

lemma execute_change:
  assumes "queue_ok (restore_jobs s)"
  shows "queue_change (restore_jobs s) (restore_jobs (fst (execute_restore_with_lease pu e ids j lease s)))"
  using queue_okD [OF assms]
  by (auto simp: execute_restore_with_lease_def Let_def update_restore_def restore_audit_def simp del: set_map
      split: option.splits sum.splits if_splits dest!: restore_items_frame
      intro!: queue_changeI) (auto simp: row_change_defs)

lemma restore_step_change:
  assumes "queue_ok (restore_jobs s)"
  shows "queue_change (restore_jobs s) (restore_jobs (restore_step tv sha pu ev s))"
proof (cases ev)
  case (Pair e b)
  show ?thesis
  proof (cases b)
    case (EvPreSnapshot sn job)
    then show ?thesis using queue_okD [OF assms] Pair
      by (auto simp: create_pre_restore_snapshot_def insert_snapshot_def Let_def update_restore_def row_change_defs
          split: option.splits sum.splits if_splits intro!: queue_changeI)
  next
    case (EvCancelLeased j lease)
    then show ?thesis using queue_okD [OF assms] Pair
      by (auto simp: cancel_restore_with_lease_def Let_def update_restore_def row_change_defs
          split: option.splits if_splits intro!: queue_changeI)
  next
    case (EvRetryLeased j lease code)
    then show ?thesis using queue_okD [OF assms] Pair
      by (auto simp: retry_restore_job_with_lease_def update_restore_def row_change_defs intro!: queue_changeI)
        fastforce
  next
    case (EvReopen actor pid reason rid)
    then show ?thesis using Pair
      by (auto simp: reopen_failed_restore_def split: option.splits sum.splits if_splits)
  qed (use queue_okD [OF assms] Pair enqueue_change admin_enqueue_change claim_change [OF assms] cancel_change [OF assms]
      execute_change [OF assms] in \<open>auto simp: renew_restore_lease_def fail_restore_job_def
        fail_restore_job_with_lease_def update_restore_def row_change_defs intro!: queue_changeI\<close>)
qed

interpretation restore_queue: event_system "restore_step tv sha pu" "\<lambda>_. True" "\<lambda>s. queue_ok (restore_jobs s)" for tv sha pu
  by unfold_locales (rule queue_change_ok [OF _ restore_step_change])

interpretation finished_restore: event_system "restore_step tv sha pu" "\<lambda>_. True"
    "\<lambda>s. queue_ok (restore_jobs s) \<and> j \<in> set (restore_jobs s) \<and> \<not> restore_live j" for tv sha pu j
  by unfold_locales (auto intro: queue_change_ok queue_change_final restore_step_change)

text \<open>Every one of these operations keeps the invariant of the store.\<close>

lemma store_inv_select:
  assumes "store_inv s" and "projects s' = projects s" "object_revisions s' = object_revisions s"
    "object_heads s' = object_heads s" "change_log s' = change_log s"
  shows "store_inv s'"
  using assms by (intro store_inv_view [THEN iffD1, OF _ assms(1)]) (simp add: store_view_def)

lemma store_inv_status:
  assumes "store_inv s" and "projects s' = update_where P (set_status e st) (projects s)"
    "object_revisions s' = object_revisions s" "object_heads s' = object_heads s" "change_log s' = change_log s"
  shows "store_inv s'"
proof -
  have "store_inv (s\<lparr>projects := update_where P (set_status e st) (projects s)\<rparr>)"
    by (intro store_inv_project_update assms) (simp add: set_status_def)
  then show ?thesis by (rule store_inv_select) (use assms in simp_all)
qed

lemma claim_keeps_store: "store_inv s \<Longrightarrow> store_inv (fst (claim_restore_job e lease s))"
  by (auto simp: claim_restore_job_def Let_def update_restore_def split: list.splits option.splits
      intro: store_inv_select store_inv_status)

lemma enqueue_keeps_store: "store_inv s \<Longrightarrow> store_inv (fst (enqueue_restore e j u pid sn ts reason rid s))"
  by (auto simp: enqueue_restore_def Let_def insert_restore_def split: sum.splits if_splits option.splits
      intro: store_inv_select)

definition sample_requested :: db where
  "sample_requested = fst (enqueue_restore sample_env ''j'' ''u'' ''p'' None (Some 0) ''why'' ''r'' sample_pushed)"

definition sample_claimed :: db where
  "sample_claimed = fst (claim_restore_job sample_env ''L'' sample_requested)"

lemma sample_claimed_inv: "store_inv sample_claimed"
  unfolding sample_claimed_def sample_requested_def
  by (intro claim_keeps_store enqueue_keeps_store sample_pushed_inv)

definition sample_restored :: db where
  "sample_restored = fst (execute_restore_with_lease Some sample_env (\<lambda>i. ''n'') ''j'' ''L'' sample_claimed)"

definition sample_claimed_job :: restore_row where
  "sample_claimed_job = claim_restore_row sample_env ''L'' 1
     (new_restore sample_env ''j'' ''u'' ''p'' None (Some 0) ''why'' ''r'')"

lemma sample_claimed_find: "List.find (holds_lease ''j'' ''L'') (restore_jobs sample_claimed) = Some sample_claimed_job"
  by code_simp

theorem restore_reaches_target_witness:
  "current_content Todo ''t'' (abs_log ''p'' sample_restored) \<in> {None, Some deleted_content}
    \<and> store_inv sample_restored \<and> prefix_log (abs_log ''p'' sample_pushed) (abs_log ''p'' sample_restored)
    \<and> current_content Todo ''t'' (abs_log ''p'' sample_pushed) \<noteq> Some deleted_content"
proof -
  have t: "restore_target Some sample_claimed_job sample_claimed = Inr []" by code_simp
  have "snd (execute_restore_with_lease Some sample_env (\<lambda>i. ''n'') ''j'' ''L'' sample_claimed) = Inr ()" by code_simp
  then have run: "execute_restore_with_lease Some sample_env (\<lambda>i. ''n'') ''j'' ''L'' sample_claimed = (sample_restored, Inr ())"
    by (simp add: sample_restored_def prod_eq_iff)
  have pid: "rj_project sample_claimed_job = ''p''" by code_simp
  have same: "abs_log ''p'' sample_claimed = abs_log ''p'' sample_pushed" by code_simp
  have "current_content Todo ''t'' (abs_log ''p'' sample_pushed) \<noteq> Some deleted_content" by code_simp
  with restore_reaches_target [OF sample_claimed_inv sample_claimed_find t _ run] show ?thesis
    by (simp add: pid same)
qed

text \<open>Along every run of the restore operations, by owners, workers and administrators in any
  order, at any times and with any arguments, at most one restore of a project is queued or
  running, job ids stay unique, and the counter of failed attempts of a job is at most three, below
  three while the job is live. (A claim after an expired lease is not counted as an attempt.)\<close>

theorem restore_queue_bounded:
  assumes "queue_ok (restore_jobs s)"
  shows "distinct (live_projects (restore_jobs (fold (restore_step tv sha pu) evs s)))
    \<and> distinct (map rj_id (restore_jobs (fold (restore_step tv sha pu) evs s)))
    \<and> list_all attempts_ok (restore_jobs (fold (restore_step tv sha pu) evs s))"
  using restore_queue.run_inv [of evs s tv sha pu] assms by (simp add: queue_ok_def)

theorem restore_queue_bounded_witness:
  "distinct (live_projects (restore_jobs (fold (restore_step (\<lambda>_. []) (\<lambda>_. ''h'') Some)
     [(sample_env, EvRetryLeased ''j'' ''L'' ''code''), (sample_env, EvClaim ''M'')] sample_claimed)))"
proof -
  have "queue_ok (restore_jobs sample_claimed)" by code_simp
  from restore_queue_bounded [OF this] show ?thesis by blast
qed

text \<open>C24. A restore that has succeeded, failed or been cancelled is final: no sequence of restore
  operations changes its row in any column, so a result once reported stays what it was.\<close>

theorem finished_restore_is_final:
  assumes "queue_ok (restore_jobs s)" and "j \<in> set (restore_jobs s)" and "\<not> restore_live j"
  shows "j \<in> set (restore_jobs (fold (restore_step tv sha pu) evs s))"
  using finished_restore.run_inv [of evs s j tv sha pu] assms by simp

theorem finished_restore_is_final_witness:
  "\<exists>j \<in> set (restore_jobs sample_restored). rj_status j = RSucceeded
    \<and> j \<in> set (restore_jobs (fold (restore_step (\<lambda>_. []) (\<lambda>_. ''h'') Some)
        [(sample_env, EvCancel ''u'' ''p'' ''j'' ''x'' ''r''), (sample_env, EvFail ''j'' ''c'')] sample_restored))"
proof -
  have "queue_ok (restore_jobs sample_restored)" by code_simp
  moreover have "map rj_status (restore_jobs sample_restored) = [RSucceeded]" by code_simp
  then obtain j where "j \<in> set (restore_jobs sample_restored)" "rj_status j = RSucceeded" by auto
  ultimately show ?thesis using finished_restore_is_final [of sample_restored j]
    by (intro bexI [of _ j] conjI) (auto simp: restore_live_def simp del: fold.simps)
qed

subsection \<open>Leases\<close>

definition restore_held :: "uuid \<Rightarrow> uuid \<Rightarrow> db \<Rightarrow> bool" where
  "restore_held job_id lease s \<longleftrightarrow> list_ex (holds_lease job_id lease) (restore_jobs s)"

lemma not_held_find: "\<not> restore_held j l s \<Longrightarrow> List.find (holds_lease j l) (restore_jobs s) = None"
  by (auto simp: restore_held_def list_ex_iff find_None_iff)

lemma not_held_update: "\<not> restore_held j l s \<Longrightarrow> update_restore (holds_lease j l) f s = s"
  by (auto simp: restore_held_def list_ex_iff update_restore_def update_where_none)

interpretation execute_leased: leased "\<lambda>j l s. fst (execute_restore_with_lease pu e ids j l s)" restore_held for pu e ids
  by unfold_locales (simp add: execute_restore_with_lease_def not_held_find)

interpretation cancel_leased: leased "\<lambda>j l s. fst (cancel_restore_with_lease e j l s)" restore_held for e
  by unfold_locales (simp add: cancel_restore_with_lease_def not_held_find)

interpretation fail_leased: leased "\<lambda>j l s. fst (fail_restore_job_with_lease e j l code s)" restore_held for e code
  by unfold_locales (simp add: fail_restore_job_with_lease_def not_held_update)

interpretation retry_leased: leased "\<lambda>j l s. fst (retry_restore_job_with_lease e j l code s)" restore_held for e code
  by unfold_locales (simp add: retry_restore_job_with_lease_def not_held_update)

interpretation renew_leased: leased "\<lambda>j l s. fst (renew_restore_lease e j l s)" restore_held for e
  by unfold_locales (simp add: renew_restore_lease_def not_held_update)

interpretation snapshot_leased: leased "\<lambda>j l s. fst (mark_snapshot_ready_for_job j l sn b k s)" restore_held for sn b k
  by unfold_locales (simp add: mark_snapshot_ready_for_job_def restore_held_def update_where_none)

text \<open>C25. A lease that expires fences its old holder off: once another worker has claimed a job,
  nothing the worker with the old token does under that token (executing, cancelling, failing,
  retrying, renewing, marking the snapshot) changes the database.\<close>

theorem reclaimed_restore_is_fenced:
  assumes "claim_restore_job e new_lease s = (s', Inr (Some job))" and "old_lease \<noteq> new_lease"
  shows "fst (execute_restore_with_lease pu e2 ids (rj_id job) old_lease s') = s'
    \<and> fst (cancel_restore_with_lease e2 (rj_id job) old_lease s') = s'
    \<and> fst (fail_restore_job_with_lease e2 (rj_id job) old_lease code s') = s'
    \<and> fst (retry_restore_job_with_lease e2 (rj_id job) old_lease code s') = s'
    \<and> fst (renew_restore_lease e2 (rj_id job) old_lease s') = s'
    \<and> fst (mark_snapshot_ready_for_job (rj_id job) old_lease sn b k s') = s'"
proof -
  from assms(1) obtain row g where "job = claim_restore_row e new_lease g row"
    "restore_jobs s' = update_where (\<lambda>j. rj_id j = rj_id row) (claim_restore_row e new_lease g) (restore_jobs s)"
    by (auto simp: claim_restore_job_def Let_def update_restore_def split: list.splits option.splits)
  then have "\<not> restore_held (rj_id job) old_lease s'"
    using assms(2)
    by (auto simp: restore_held_def list_ex_iff holds_lease_def claim_restore_row_def elim!: in_update_whereE split: if_splits)
  then show ?thesis
    by (simp add: execute_leased.fenced cancel_leased.fenced fail_leased.fenced retry_leased.fenced
        renew_leased.fenced snapshot_leased.fenced)
qed

definition sample_later :: env where
  "sample_later = \<lparr>db_now = hours 2, app_now = hours 2\<rparr>"

theorem reclaimed_restore_is_fenced_witness:
  "\<exists>s' job. claim_restore_job sample_later ''M'' sample_claimed = (s', Inr (Some job))
    \<and> fst (execute_restore_with_lease Some sample_later (\<lambda>i. ''n'') (rj_id job) ''L'' s') = s'"
proof -
  have "map_sum id (map_option rj_id) (snd (claim_restore_job sample_later ''M'' sample_claimed)) = Inr (Some ''j'')"
    by code_simp
  then obtain s' job where run: "claim_restore_job sample_later ''M'' sample_claimed = (s', Inr (Some job))"
    by (cases "claim_restore_job sample_later ''M'' sample_claimed"; cases "snd (claim_restore_job sample_later ''M'' sample_claimed)") auto
  have "''L'' \<noteq> ''M''" by simp
  from reclaimed_restore_is_fenced [OF run this] run show ?thesis by blast
qed

subsection \<open>A project that stays closed\<close>

text \<open>C26. A project can be left in maintenance with nobody able to open it. When a restore has been
  claimed and put back into the queue for a retry, its project is in maintenance; if the owner
  cancels the queued restore, the project stays in maintenance with no live restore, synchronisation
  and new restores are refused, and the administrator's reopening is refused too, because it asks
  for a failed restore and the restore is cancelled.\<close>

theorem cancelled_retry_strands_project:
  assumes keys: "distinct (map p_id (projects s))" "queue_ok (restore_jobs s)"
    and p: "p \<in> set (projects s)" "p_id p = pid" "p_owner p = uid" "p_status p = PMaintenance"
    and j: "j \<in> set (restore_jobs s)" "rj_project j = pid" "rj_owner j = uid" "rj_status j = RQueued"
    and none_failed: "\<not> list_ex (\<lambda>x. rj_project x = pid \<and> rj_status x = RFailed) (restore_jobs s)"
    and s': "s' = fst (cancel_restore e uid pid (rj_id j) reason rid s)"
  shows "snd (cancel_restore e uid pid (rj_id j) reason rid s) = Inr (cancel_queued e j)
    \<and> p \<in> set (projects s') \<and> pid \<notin> set (live_projects (restore_jobs s'))
    \<and> project_state uid pid s' = Inl ProjectMaintenance
    \<and> snd (enqueue_restore e2 new_id uid pid sn ts reason2 rid2 s') \<in> {Inl InvalidRestoreTarget, Inl ProjectMaintenance}
    \<and> snd (reopen_failed_restore e2 actor pid reason2 rid2 s') \<in> {Inl AdminRequired, Inl RestoreNotReopenable}"
proof -
  have uniq: "x = j" if "x \<in> set (restore_jobs s)" "rj_id x = rj_id j" for x
    using that j keys(2) by (auto simp: queue_ok_def intro: keyed_table_inj)
  have f: "List.find (\<lambda>x. rj_owner x = uid \<and> rj_id x = rj_id j \<and> rj_project x = pid) (restore_jobs s) = Some j"
  proof (cases "List.find (\<lambda>x. rj_owner x = uid \<and> rj_id x = rj_id j \<and> rj_project x = pid) (restore_jobs s)")
    case None
    from find_NoneD [OF this j(1)] j show ?thesis by simp
  next
    case (Some x)
    from find_SomeD [OF this] uniq have "x = j" by blast
    with Some show ?thesis by simp
  qed
  then have run: "snd (cancel_restore e uid pid (rj_id j) reason rid s) = Inr (cancel_queued e j)"
    and jobs: "restore_jobs s' = update_where (\<lambda>x. rj_owner x = uid \<and> rj_id x = rj_id j \<and> rj_status x = RQueued)
      (cancel_queued e) (restore_jobs s)" and proj: "projects s' = projects s"
    using j by (simp_all add: cancel_restore_def s' update_restore_def)
  have "\<not> restore_live x" if "x \<in> set (restore_jobs s')" "rj_project x = pid" for x
  proof
    assume live: "restore_live x"
    from that(1) obtain y where y: "y \<in> set (restore_jobs s)"
      "x = (if rj_owner y = uid \<and> rj_id y = rj_id j \<and> rj_status y = RQueued then cancel_queued e y else y)"
      unfolding jobs by (rule in_update_whereE)
    have "\<not> restore_live (cancel_queued e y)" by (simp add: cancel_queued_def restore_live_def)
    with y(2) live have xy: "x = y" and no: "\<not> (rj_owner y = uid \<and> rj_id y = rj_id j \<and> rj_status y = RQueued)"
      by metis+
    have "distinct (live_projects (restore_jobs s))" using keys(2) by (simp add: queue_ok_def)
    then have "x = j" using y(1) xy that live j
      by (intro keyed_table_inj [of rj_project "filter restore_live (restore_jobs s)"])
        (simp_all add: live_projects_def restore_live_def)
    with xy no j show False by simp
  qed
  then have live: "pid \<notin> set (live_projects (restore_jobs s'))" by (auto simp: live_projects_def)
  have "List.find (\<lambda>x. p_id x = pid) (projects s) = Some p"
    using keys(1) p(1,2) by (rule keyed_table_find)
  moreover have vis: "List.find (\<lambda>x. p_id x = pid) (visible_projects uid s') = Some p"
    using keys(1) p by (intro keyed_table_find) (auto simp: visible_projects_def proj distinct_map inj_on_def)
  moreover from vis p have state: "project_state uid pid s' = Inl ProjectMaintenance" by (simp add: project_state_def)
  moreover have "snd (enqueue_restore e2 new_id uid pid sn ts reason2 rid2 s') \<in> {Inl InvalidRestoreTarget, Inl ProjectMaintenance}"
    by (simp add: enqueue_restore_def require_active_project_for_update_def state split: sum.split)
  moreover have "\<not> list_ex (\<lambda>x. rj_project x = pid \<and> rj_status x = RFailed) (restore_jobs s')"
    using none_failed by (auto simp: jobs list_ex_iff cancel_queued_def elim!: in_update_whereE split: if_splits)
  moreover have "verify_admin actor s' = Inl AdminRequired \<or> verify_admin actor s' = Inr ()"
    by (auto simp: verify_admin_def require_admin_def split: option.splits)
  ultimately show ?thesis
    using run live p proj by (auto simp: reopen_failed_restore_def)
qed

definition sample_retried :: db where
  "sample_retried = fst (retry_restore_job_with_lease sample_env ''j'' ''L'' ''code'' sample_claimed)"

theorem cancelled_retry_strands_project_witness:
  "project_state ''u'' ''p'' (fst (cancel_restore sample_env ''u'' ''p'' ''j'' ''x'' ''r'' sample_retried)) = Inl ProjectMaintenance
    \<and> snd (reopen_failed_restore sample_env ''a'' ''p'' ''x'' ''r''
        (fst (cancel_restore sample_env ''u'' ''p'' ''j'' ''x'' ''r'' sample_retried))) \<in> {Inl AdminRequired, Inl RestoreNotReopenable}"
proof -
  define p where "p = hd (projects sample_retried)"
  define j where "j = hd (restore_jobs sample_retried)"
  have keys: "distinct (map p_id (projects sample_retried))" "queue_ok (restore_jobs sample_retried)" by code_simp+
  have ne: "projects sample_retried \<noteq> []" "restore_jobs sample_retried \<noteq> []" by code_simp+
  then have p: "p \<in> set (projects sample_retried)" "p_id p = ''p''" "p_owner p = ''u''" "p_status p = PMaintenance"
    unfolding p_def by simp (code_simp+)
  have j: "j \<in> set (restore_jobs sample_retried)" "rj_project j = ''p''" "rj_owner j = ''u''" "rj_status j = RQueued"
    using ne unfolding j_def by simp (code_simp+)
  have none_failed: "\<not> list_ex (\<lambda>x. rj_project x = ''p'' \<and> rj_status x = RFailed) (restore_jobs sample_retried)" by code_simp
  have id: "rj_id j = ''j''" unfolding j_def by code_simp
  show ?thesis
    using cancelled_retry_strands_project [OF keys p j none_failed refl, where e = sample_env and reason = "''x''" and rid = "''r''"]
    unfolding id by simp
qed

end
