(* ===== verification/Account_Export.thy ===== *)
theory Account_Export
  imports Account_Purge
begin

text \<open>
  The data of an account export (\<open>prepare_account_export\<close> of \<open>crates/persistence/src/lib.rs\<close>): the
  JSON manifest of everything the account owns and the list of the payload objects that go into
  the archive.
\<close>

record account_export_payload =
  xp_object_key :: string
  xp_archive_path :: string

record account_export_data =
  xd_export :: uuid
  xd_owner :: uuid
  xd_key :: string
  xd_manifest :: bytes
  xd_payloads :: "account_export_payload list"

fun snapshot_status_as_str :: "snapshot_status \<Rightarrow> string" where
  "snapshot_status_as_str SnPending = ''pending''"
| "snapshot_status_as_str SnReady = ''ready''"
| "snapshot_status_as_str SnFailed = ''failed''"

text \<open>The \<open>jsonb_build_object\<close> of each table, and \<open>jsonb_agg\<close> with its ORDER BY.\<close>

definition export_project_json :: "project_row \<Rightarrow> json" where
  "export_project_json p = JObj [(''id'', JStr (p_id p)), (''name'', JStr (p_name p)),
     (''generation'', JNum (p_generation p)), (''status'', JStr (project_status_as_str (p_status p))),
     (''changeSequence'', JNum (p_change_seq p)), (''createdAt'', JTime (p_created_at p)),
     (''updatedAt'', JTime (p_updated_at p))]"

definition export_device_json :: "device_row \<Rightarrow> json" where
  "export_device_json d = JObj [(''id'', JStr (d_id d)), (''displayName'', JStr (d_display_name d)),
     (''platform'', JStr (d_platform d)), (''appVersion'', JStr (d_app_version d)),
     (''createdAt'', JTime (d_created_at d)), (''lastSeenAt'', json_opt JTime (d_last_seen_at d))]"

definition export_payload_json :: "payload_row \<Rightarrow> json" where
  "export_payload_json p = JObj [(''projectId'', JStr (pl_project p)), (''contentHash'', JStr (pl_hash p)),
     (''sizeBytes'', JNum (pl_size p)), (''mediaType'', JStr (pl_media_type p)),
     (''createdAt'', JTime (pl_created_at p))]"

definition export_revision_json :: "revision_row \<Rightarrow> json" where
  "export_revision_json r = JObj [(''projectId'', JStr (rv_project r)), (''kind'', JStr (kind_as_str (rv_kind r))),
     (''objectId'', JStr (rv_object r)), (''revision'', JNum (rv_revision r)),
     (''baseRevision'', json_opt JNum (rv_base r)), (''schemaVersion'', json_opt JNum (rv_schema_version r)),
     (''contentHash'', json_opt JStr (rv_hash r)), (''isTombstone'', JBool (rv_tombstone r)),
     (''changedAt'', JTime (rv_changed_at r)), (''deviceId'', JStr (rv_device r))]"

definition export_change_json :: "change_row \<Rightarrow> json" where
  "export_change_json c = JObj [(''projectId'', JStr (cl_project c)), (''sequence'', JNum (cl_sequence c)),
     (''revisionId'', JStr (cl_revision_id c)), (''createdAt'', JTime (cl_created_at c))]"

definition export_snapshot_json :: "snapshot_row \<Rightarrow> json" where
  "export_snapshot_json x = JObj [(''id'', JStr (sn_id x)), (''projectId'', JStr (sn_project x)),
     (''generation'', JNum (sn_generation x)), (''changeSequence'', JNum (sn_sequence x)),
     (''manifestHash'', JStr (sn_hash x)), (''status'', JStr (snapshot_status_as_str (sn_status x))),
     (''createdBy'', JStr (sn_created_by x)), (''createdAt'', JTime (sn_created_at x)),
     (''manifest'', sn_manifest x)]"

definition sorted_payloads :: "uuid \<Rightarrow> db \<Rightarrow> payload_row list" where
  "sorted_payloads owner s =
    sort_key pl_project (sort_key pl_hash (filter (\<lambda>p. pl_owner p = owner) (payloads s)))"

definition export_manifest :: "uuid \<Rightarrow> db \<Rightarrow> json" where
  "export_manifest owner s = JObj [(''format'', JStr ''tasktips-account-export-v1''), (''userId'', JStr owner),
     (''projects'', JArr (map export_project_json
        (sort_key p_id (filter (\<lambda>p. p_owner p = owner) (projects s))))),
     (''devices'', JArr (map export_device_json
        (sort_key d_id (filter (\<lambda>d. d_owner d = owner) (devices s))))),
     (''payloads'', JArr (map export_payload_json (sorted_payloads owner s))),
     (''revisions'', JArr (map export_revision_json
        (sort_key rv_project (sort_key rv_kind (sort_key rv_object (sort_key rv_revision
          (filter (\<lambda>r. rv_owner r = owner) (object_revisions s)))))))),
     (''changeLog'', JArr (map export_change_json
        (sort_key cl_project (sort_key cl_sequence (filter (\<lambda>c. cl_owner c = owner) (change_log s)))))),
     (''snapshots'', JArr (map export_snapshot_json
        (sort_key sn_project (sort_key sn_created_at (sort_key sn_id
          (filter (\<lambda>x. sn_owner x = owner) (snapshots s)))))))]"

definition prepare_account_export ::
    "(json \<Rightarrow> bytes) \<Rightarrow> (string \<Rightarrow> uuid option) \<Rightarrow> env \<Rightarrow> uuid \<Rightarrow> uuid \<Rightarrow> db \<Rightarrow> account_export_data outcome" where
  "prepare_account_export to_vec parse_uuid e job_id lease s =
    (case List.find (live_job e AccountPurge job_id lease) (jobs s) of
       None \<Rightarrow> Inl NotFound
     | Some job \<Rightarrow>
    (case (j_owner job, payload_uuid parse_uuid ''exportId'' (j_payload job)) of
       (None, _) \<Rightarrow> Inl Database
     | (Some owner, None) \<Rightarrow> Inl InvalidPayload
     | (Some owner, Some export_id) \<Rightarrow>
    (case List.find (\<lambda>x. ex_id x = export_id \<and> ex_user x = owner \<and> ex_status x = ExPending
              \<and> ex_expires_at x > db_now e) (account_purge_exports s) of
       None \<Rightarrow> Inl AccountPurgeNotReady
     | Some x \<Rightarrow> Inr \<lparr>xd_export = export_id, xd_owner = owner, xd_key = ex_key x,
          xd_manifest = to_vec (export_manifest owner s),
          xd_payloads = map (\<lambda>p. \<lparr>xp_object_key = pl_key p,
            xp_archive_path = ''payloads/'' @ pl_project p @ ''/'' @ pl_hash p\<rparr>) (sorted_payloads owner s)\<rparr>)))"

end
