(* ===== verification/Purge_Props.thy ===== *)
theory Purge_Props
  imports Account_Purge Store Sample
begin

text \<open>
  What a purge promises: the detachment removes every row of the project or account and no row of
  another one, leaves the object keys on the job for the retries, and is reserved to the worker
  that holds the lease; and the project that a request to disable it brings back.
\<close>

subsection \<open>The rows of a project or an account\<close>

type_synonym owned_rows = "project_row list \<times> payload_row list \<times> revision_row list \<times> head_row list
  \<times> change_row list \<times> snapshot_row list \<times> manifest_row list \<times> restore_row list \<times> completion_row list
  \<times> idempotency_row list \<times> attempt_row list"

definition selected :: "(uuid \<Rightarrow> uuid \<Rightarrow> bool) \<Rightarrow> db \<Rightarrow> owned_rows" where
  "selected sel s =
    (filter (\<lambda>p. sel (p_owner p) (p_id p)) (projects s),
     filter (\<lambda>r. sel (pl_owner r) (pl_project r)) (payloads s),
     filter (\<lambda>r. sel (rv_owner r) (rv_project r)) (object_revisions s),
     filter (\<lambda>r. sel (h_owner r) (h_project r)) (object_heads s),
     filter (\<lambda>r. sel (cl_owner r) (cl_project r)) (change_log s),
     filter (\<lambda>r. sel (sn_owner r) (sn_project r)) (snapshots s),
     filter (\<lambda>r. sel (bm_owner r) (bm_project r)) (bootstrap_manifests s),
     filter (\<lambda>r. sel (rj_owner r) (rj_project r)) (restore_jobs s),
     filter (\<lambda>r. sel (bc_owner r) (bc_project r)) (bootstrap_completions s),
     filter (\<lambda>r. sel (ir_owner r) (ir_project r)) (idempotency_records s),
     filter (\<lambda>r. sel (sa_owner r) (sa_project r)) (sync_attempts s))"

definition no_rows :: owned_rows where
  "no_rows = ([], [], [], [], [], [], [], [], [], [], [])"

definition rows_of_project :: "uuid \<Rightarrow> db \<Rightarrow> owned_rows" where
  "rows_of_project pid s = selected (\<lambda>_ p. p = pid) s"

definition rows_of_account :: "uuid \<Rightarrow> db \<Rightarrow> owned_rows" where
  "rows_of_account uid s = selected (\<lambda>owner _. owner = uid) s"

lemma selected_delete:
  "selected sel (delete_owned_rows doomed s) = selected (\<lambda>owner p. sel owner p \<and> \<not> doomed owner p) s"
  by (simp add: selected_def delete_owned_rows_def delete_where_def conj_commute)

lemma selected_none: "selected (\<lambda>_ _. False) s = no_rows"
  by (simp add: selected_def no_rows_def)

lemma selected_update_job [simp]: "selected sel (update_job P f s) = selected sel s"
  by (simp add: selected_def update_job_def)

lemma selected_account_rows [simp]: "selected sel (delete_account_rows owner email s) = selected sel s"
  by (simp add: selected_def delete_account_rows_def)

text \<open>Deleting whole projects keeps the invariant of the versioned store.\<close>

lemma delete_keeps_store:
  assumes inv: "store_inv s"
    and gone: "\<And>p. p \<in> set (projects s) \<Longrightarrow> doomed (p_owner p) (p_id p) \<longleftrightarrow> gone (p_id p)"
  shows "store_inv (delete_owned_rows doomed s)"
proof -
  let ?s = "delete_owned_rows doomed s"
  have own: "doomed u pid \<longleftrightarrow> gone pid" if "owned s pid u" for pid u
    using that gone by (auto simp: owned_def list_ex_iff)
  have o: "owners_ok s" using inv by (simp add: store_inv_def)
  have rv: "object_revisions ?s = filter (\<lambda>r. \<not> gone (rv_project r)) (object_revisions s)"
    using o own by (auto simp: delete_owned_rows_def delete_where_def owners_ok_def list_all_iff intro!: filter_cong)
  have hd: "object_heads ?s = filter (\<lambda>r. \<not> gone (h_project r)) (object_heads s)"
    using o own by (auto simp: delete_owned_rows_def delete_where_def owners_ok_def list_all_iff intro!: filter_cong)
  have cl: "change_log ?s = filter (\<lambda>r. \<not> gone (cl_project r)) (change_log s)"
    using o own by (auto simp: delete_owned_rows_def delete_where_def owners_ok_def list_all_iff intro!: filter_cong)
  have pr: "projects ?s = filter (\<lambda>p. \<not> gone (p_id p)) (projects s)"
    using gone by (auto simp: delete_owned_rows_def delete_where_def intro!: filter_cong)
  have log: "project_log pid ?s = project_log pid s" "project_revisions pid ?s = project_revisions pid s"
    if "\<not> gone pid" for pid
    using that by (auto simp: project_log_def project_revisions_def rv cl intro!: filter_cong)
  have hist: "object_history k ?s = object_history k s" if "\<not> gone (fst k)" for k
    using that by (auto simp: object_history_def rv rev_key_def intro!: filter_cong)
  have "owned ?s pid u \<longleftrightarrow> owned s pid u \<and> \<not> gone pid" for pid u
    by (auto simp: owned_def list_ex_iff pr)
  then have "owners_ok ?s" using o by (auto simp: owners_ok_def rv hd cl list_all_iff)
  moreover have "keys_ok ?s" using inv by (simp add: store_inv_def keys_ok_def rv hd pr distinct_map_filter)
  moreover have "list_all (log_ok ?s) (projects ?s)"
    using inv log by (auto simp: store_inv_def log_ok_def pr list_all_iff)
  moreover have "list_all (head_ok ?s) (object_heads ?s)"
    using inv hist by (auto simp: store_inv_def head_ok_def hd list_all_iff head_key_def)
  moreover have "list_all (\<lambda>r. history_ok (object_history (rev_key r) ?s)
        \<and> list_ex (\<lambda>h. head_key h = rev_key r) (object_heads ?s)) (object_revisions ?s)"
    unfolding list_all_iff
  proof (intro ballI conjI)
    fix r assume r: "r \<in> set (object_revisions ?s)"
    then have r0: "r \<in> set (object_revisions s)" and ng: "\<not> gone (rv_project r)" by (simp_all add: rv)
    from inv r0 have ok: "history_ok (object_history (rev_key r) s)"
      and ex: "list_ex (\<lambda>h. head_key h = rev_key r) (object_heads s)"
      by (simp_all add: store_inv_def list_all_iff)
    show "history_ok (object_history (rev_key r) ?s)" using ok ng hist by (simp add: rev_key_def)
    from ex obtain h where "h \<in> set (object_heads s)" and k: "head_key h = rev_key r" by (auto simp: list_ex_iff)
    moreover from k ng have "\<not> gone (h_project h)" by (simp add: head_key_def rev_key_def)
    ultimately show "list_ex (\<lambda>h. head_key h = rev_key r) (object_heads ?s)" by (auto simp: list_ex_iff hd)
  qed
  ultimately show ?thesis by (simp add: store_inv_def)
qed

lemma detached_keys_roundtrip:
  "detached_keys (JObj ((''detached'', JBool True) # ms)) = Inr keys"
  if "map_of ms ''objectKeys'' = Some (JArr (map JStr keys))"
proof -
  have "those (map json_as_str (map JStr keys)) = Some keys" by (induction keys) auto
  with that show ?thesis by (simp add: detached_keys_def)
qed

lemma find_live_after:
  assumes "List.find (live_job e kind jid lease) js = Some job"
  shows "List.find (live_job e kind jid lease) (update_where (holds_job jid lease) (set_job_payload p) js)
    = Some (set_job_payload p job)"
proof -
  have "List.find (live_job e kind jid lease) (update_where (holds_job jid lease) (set_job_payload p) js)
      = map_option (\<lambda>r. if holds_job jid lease r then set_job_payload p r else r) (List.find (live_job e kind jid lease) js)"
    by (rule find_update_where) (simp add: live_job_def holds_job_def set_job_payload_def)
  with assms show ?thesis by (auto simp: live_job_def dest: find_SomeD)
qed

lemma set_job_payload_select [simp]:
  "j_payload (set_job_payload p j) = p" "j_owner (set_job_payload p j) = j_owner j" "j_project (set_job_payload p j) = j_project j"
  by (simp_all add: set_job_payload_def)

lemma set_object_keys:
  "set (object_keys doomed s) =
    pl_key ` {r \<in> set (payloads s). doomed (pl_owner r) (pl_project r)}
    \<union> sn_key ` {r \<in> set (snapshots s). doomed (sn_owner r) (sn_project r)}
    \<union> bm_key ` {r \<in> set (bootstrap_manifests s). doomed (bm_owner r) (bm_project r)}"
  by (auto simp: object_keys_def)

text \<open>C29. The detachment of a project removes exactly the project: no table keeps a row of it, the
  rows of every other project are the same, the store's invariant holds, the returned keys are
  those of its payloads, snapshots and manifests, each once, and a repetition under the lease
  returns the same keys and changes nothing.\<close>

theorem project_purge_erases:
  assumes inv: "store_inv s" and job: "List.find (live_job e ProjectPurge jid lease) (jobs s) = Some job"
    and fresh: "\<not> is_detached (j_payload job)" and pid: "j_project job = Some pid"
    and run: "prepare_project_purge e jid lease s = (s', Inr keys)"
  shows "rows_of_project pid s' = no_rows
    \<and> (\<forall>q. q \<noteq> pid \<longrightarrow> rows_of_project q s' = rows_of_project q s)
    \<and> store_inv s'
    \<and> distinct keys
    \<and> set keys = pl_key ` {r \<in> set (payloads s). pl_project r = pid}
        \<union> sn_key ` {r \<in> set (snapshots s). sn_project r = pid}
        \<union> bm_key ` {r \<in> set (bootstrap_manifests s). bm_project r = pid}
    \<and> prepare_project_purge e jid lease s' = (s', Inr keys)"
proof -
  let ?payload = "JObj [(''detached'', JBool True), (''objectKeys'', JArr (map JStr keys))]"
  obtain owner where owner: "j_owner job = Some owner"
    and keys: "keys = object_keys (\<lambda>_ p. p = pid) s"
    and s': "s' = update_job (holds_job jid lease) (set_job_payload ?payload) (delete_owned_rows (\<lambda>_ p. p = pid) s)"
  proof (cases "j_owner job")
    case None
    with run job show ?thesis by (simp add: prepare_project_purge_def)
  next
    case (Some owner)
    with run job fresh pid show ?thesis
      by (intro that [of owner]) (auto simp: prepare_project_purge_def Let_def split: if_splits)
  qed
  have "rows_of_project pid s' = no_rows"
    by (simp add: s' rows_of_project_def selected_delete selected_none)
  moreover have "rows_of_project q s' = rows_of_project q s" if "q \<noteq> pid" for q
  proof -
    have "(\<lambda>(_::uuid) p. p = q \<and> p \<noteq> pid) = (\<lambda>_ p. p = q)" using that by (auto simp: fun_eq_iff)
    then show ?thesis by (simp add: s' rows_of_project_def selected_delete)
  qed
  moreover have "store_inv s'"
  proof (rule store_inv_view [THEN iffD1])
    show "store_inv (delete_owned_rows (\<lambda>_ p. p = pid) s)" by (rule delete_keeps_store [OF inv]) (rule refl)
    show "store_view (delete_owned_rows (\<lambda>_ p. p = pid) s) = store_view s'" by (simp add: s' store_view_def update_job_def)
  qed
  moreover have "prepare_project_purge e jid lease s' = (s', Inr keys)"
  proof -
    have "List.find (live_job e ProjectPurge jid lease) (jobs s') = Some (set_job_payload ?payload job)"
      using find_live_after [OF job] by (simp add: s' update_job_def delete_owned_rows_def)
    moreover have "is_detached ?payload" by (simp add: is_detached_def)
    ultimately show ?thesis using owner pid by (simp add: prepare_project_purge_def detached_keys_roundtrip)
  qed
  ultimately show ?thesis by (simp add: keys set_object_keys object_keys_def Un_assoc)
qed

definition sample_purging :: db where
  "sample_purging = fst (claim_project_purge_job sample_env ''L''
     (fst (enqueue_project_purge sample_env ''j'' ''u'' ''p'' ''why'' ''r'' sample_db)))"

lemma sample_purging_inv: "store_inv sample_purging"
proof -
  have "projects sample_purging = update_where (\<lambda>p. p_id p = ''p'' \<and> p_owner p = ''u'') (set_status sample_env PDeleting) (projects sample_db)"
    by code_simp
  moreover have "object_revisions sample_purging = object_revisions sample_db"
    "object_heads sample_purging = object_heads sample_db" "change_log sample_purging = change_log sample_db" by code_simp+
  moreover have "store_inv (sample_db\<lparr>projects := update_where (\<lambda>p. p_id p = ''p'' \<and> p_owner p = ''u'')
      (set_status sample_env PDeleting) (projects sample_db)\<rparr>)"
    by (intro store_inv_project_update sample_store_inv) (simp add: set_status_def)
  ultimately show ?thesis
    by (intro store_inv_view [THEN iffD1, of _ sample_purging]) (simp_all add: store_view_def)
qed

theorem project_purge_erases_witness:
  "\<exists>s' keys. prepare_project_purge sample_env ''j'' ''L'' sample_purging = (s', Inr keys)
    \<and> rows_of_project ''p'' s' = no_rows \<and> set keys = {''o''}"
proof -
  have run: "snd (prepare_project_purge sample_env ''j'' ''L'' sample_purging) = Inr [''o'']" by code_simp
  define job where "job = hd (jobs sample_purging)"
  have job: "List.find (live_job sample_env ProjectPurge ''j'' ''L'') (jobs sample_purging) = Some job" unfolding job_def by code_simp
  have fresh: "\<not> is_detached (j_payload job)" and pid: "j_project job = Some ''p''" unfolding job_def by code_simp+
  obtain s' where run': "prepare_project_purge sample_env ''j'' ''L'' sample_purging = (s', Inr [''o''])"
    using run by (cases "prepare_project_purge sample_env ''j'' ''L'' sample_purging") auto
  have "rows_of_project ''p'' s' = no_rows"
    by (rule project_purge_erases [OF sample_purging_inv job fresh pid run', THEN conjunct1])
  then show ?thesis by (intro exI [of _ s'] exI [of _ "[''o'']"]) (simp add: run')
qed

subsection \<open>The detachment of an account\<close>

lemma store_view_delete_account_rows [simp]: "store_view (delete_account_rows owner email s) = store_view s"
  by (simp add: store_view_def delete_account_rows_def)

lemma store_view_update_job [simp]: "store_view (update_job P f s) = store_view s"
  by (simp add: store_view_def update_job_def)

lemma delete_account_keeps_store:
  assumes inv: "store_inv s"
  shows "store_inv (delete_owned_rows (\<lambda>u _. u = uid) s)"
proof (rule delete_keeps_store [OF inv])
  fix p assume p: "p \<in> set (projects s)"
  have "distinct (map p_id (projects s))" using inv by (simp add: store_inv_def keys_ok_def)
  then show "p_owner p = uid \<longleftrightarrow> p_id p \<in> p_id ` {q \<in> set (projects s). p_owner q = uid}"
    using p by (auto dest: keyed_table_inj)
qed

text \<open>C30. The detachment of an account removes exactly the account: no table keeps a row, a session
  or a device of it, the rows, sessions and devices of every other account are the same, the
  store's invariant holds, the keys returned are exactly those of all its payloads, snapshots and
  manifests and of the export that the job names, and a repetition under the lease returns the same keys and changes nothing.\<close>

theorem account_purge_erases:
  assumes inv: "store_inv s" and job: "List.find (live_job e AccountPurge jid lease) (jobs s) = Some job"
    and fresh: "\<not> is_detached (j_payload job)" and owner: "j_owner job = Some uid"
    and run: "prepare_account_purge pu e jid lease s = (s', Inr keys)"
  shows "rows_of_account uid s' = no_rows
    \<and> devices s' = filter (\<lambda>d. d_owner d \<noteq> uid) (devices s)
    \<and> refresh_tokens s' = filter (\<lambda>t. rt_user t \<noteq> uid) (refresh_tokens s)
    \<and> (\<forall>v. v \<noteq> uid \<longrightarrow> rows_of_account v s' = rows_of_account v s)
    \<and> store_inv s'
    \<and> pl_key ` {r \<in> set (payloads s). pl_owner r = uid}
        \<union> sn_key ` {r \<in> set (snapshots s). sn_owner r = uid}
        \<union> bm_key ` {r \<in> set (bootstrap_manifests s). bm_owner r = uid}
        \<union> ex_key ` {x \<in> set (account_purge_exports s). payload_uuid pu ''exportId'' (j_payload job) = Some (ex_id x)}
      = set keys
    \<and> prepare_account_purge pu e jid lease s' = (s', Inr keys)"
proof -
  obtain export_id user where export: "payload_uuid pu ''exportId'' (j_payload job) = Some export_id"
    and user: "List.find (\<lambda>u. u_id u = uid) (users s) = Some user"
    using run job fresh owner
    by (cases "payload_uuid pu ''exportId'' (j_payload job)"; cases "List.find (\<lambda>u. u_id u = uid) (users s)")
      (simp_all add: prepare_account_purge_def)
  let ?payload = "JObj [(''detached'', JBool True), (''exportId'', JStr export_id), (''objectKeys'', JArr (map JStr keys))]"
  let ?keys = "sort (remdups (object_keys (\<lambda>u _. u = uid) s
    @ map ex_key (filter (\<lambda>x. ex_id x = export_id) (account_purge_exports s))))"
  have keys: "keys = ?keys"
    and s': "s' = update_job (holds_job jid lease) (set_job_payload ?payload)
      (delete_account_rows uid (u_email_normalized user) (delete_owned_rows (\<lambda>u _. u = uid) s))"
    using run job fresh owner export user by (auto simp: prepare_account_purge_def Let_def split: if_splits)
  have "rows_of_account uid s' = no_rows" by (simp add: s' rows_of_account_def selected_delete selected_none)
  moreover have "rows_of_account v s' = rows_of_account v s" if "v \<noteq> uid" for v
  proof -
    have "(\<lambda>u (_::uuid). u = v \<and> u \<noteq> uid) = (\<lambda>u _. u = v)" using that by (auto simp: fun_eq_iff)
    then show ?thesis by (simp add: s' rows_of_account_def selected_delete)
  qed
  moreover have "devices s' = filter (\<lambda>d. d_owner d \<noteq> uid) (devices s)"
    "refresh_tokens s' = filter (\<lambda>t. rt_user t \<noteq> uid) (refresh_tokens s)"
    by (simp_all add: s' update_job_def delete_account_rows_def delete_owned_rows_def delete_where_def)
  moreover have "store_inv s'"
    by (rule store_inv_view [THEN iffD1, OF _ delete_account_keeps_store [OF inv]]) (simp add: s')
  moreover have "prepare_account_purge pu e jid lease s' = (s', Inr keys)"
  proof -
    have "List.find (live_job e AccountPurge jid lease) (jobs s') = Some (set_job_payload ?payload job)"
      using find_live_after [OF job] by (simp add: s' update_job_def delete_account_rows_def delete_owned_rows_def)
    moreover have "is_detached ?payload" by (simp add: is_detached_def)
    ultimately show ?thesis using owner by (simp add: prepare_account_purge_def detached_keys_roundtrip)
  qed
  moreover have "ex_key ` {x \<in> set (account_purge_exports s). payload_uuid pu ''exportId'' (j_payload job) = Some (ex_id x)}
      = set (map ex_key (filter (\<lambda>x. ex_id x = export_id) (account_purge_exports s)))"
    using export by auto
  ultimately show ?thesis by (simp add: keys set_object_keys Un_assoc)
qed

definition sample_parse_uuid :: "string \<Rightarrow> uuid option" where
  "sample_parse_uuid t = Some t"

text \<open>The export of the sample account is ready, the deletion confirmed and claimed.\<close>

definition sample_exported :: db where
  "sample_exported = fst (complete_account_export sample_parse_uuid sample_env ''j'' ''L'' ''x'' ''h'' 1
     (fst (claim_account_purge_job sample_env ''L''
       (fst (request_account_purge_export sample_env ''j'' ''x'' ''a'' ''u'' ''why'' ''r'' sample_db)))))"

definition sample_account_purging :: db where
  "sample_account_purging = fst (claim_account_purge_job sample_env ''M''
     (fst (confirm_account_purge sample_env ''k'' ''a'' ''u'' ''x'' ''why'' ''r'' sample_exported)))"

lemma sample_account_purging_inv: "store_inv sample_account_purging"
proof (rule store_inv_view [THEN iffD1])
  show "store_inv (sample_db\<lparr>projects := update_where (\<lambda>p. p_owner p = ''u'') (set_status sample_env PDeleting) (projects sample_db)\<rparr>)"
    by (intro store_inv_project_update sample_store_inv) (simp add: set_status_def)
  show "store_view (sample_db\<lparr>projects := update_where (\<lambda>p. p_owner p = ''u'') (set_status sample_env PDeleting) (projects sample_db)\<rparr>)
      = store_view sample_account_purging"
    by code_simp
qed

theorem account_purge_erases_witness:
  "\<exists>s' keys. prepare_account_purge sample_parse_uuid sample_env ''k'' ''M'' sample_account_purging = (s', Inr keys)
    \<and> rows_of_account ''u'' s' = no_rows \<and> set keys = {''o'', ''users/u/exports/x.tar.zst''}"
proof -
  define job where "job = last (jobs sample_account_purging)"
  have job: "List.find (live_job sample_env AccountPurge ''k'' ''M'') (jobs sample_account_purging) = Some job"
    unfolding job_def by code_simp
  have fresh: "\<not> is_detached (j_payload job)" and owner: "j_owner job = Some ''u''" unfolding job_def by code_simp+
  let ?run = "prepare_account_purge sample_parse_uuid sample_env ''k'' ''M'' sample_account_purging"
  have "snd ?run = Inr [''o'', ''users/u/exports/x.tar.zst'']" by code_simp
  then obtain s' where run: "?run = (s', Inr [''o'', ''users/u/exports/x.tar.zst''])" by (cases ?run) auto
  have "rows_of_account ''u'' s' = no_rows"
    by (rule account_purge_erases [OF sample_account_purging_inv job fresh owner run, THEN conjunct1])
  then show ?thesis by (intro exI [of _ s'] exI [of _ "[''o'', ''users/u/exports/x.tar.zst'']"]) (simp add: run)
qed

subsection \<open>Leases of purge jobs\<close>

definition job_held :: "uuid \<Rightarrow> uuid \<Rightarrow> db \<Rightarrow> bool" where
  "job_held job lease s \<longleftrightarrow> list_ex (holds_job job lease) (jobs s)"

lemma not_held_live: "\<not> job_held job lease s \<Longrightarrow> List.find (live_job e kind job lease) (jobs s) = None"
  by (auto simp: job_held_def list_ex_iff find_None_iff live_job_def)

lemma not_held_kind: "\<not> job_held job lease s \<Longrightarrow> List.find (\<lambda>j. holds_job job lease j \<and> j_kind j = kind) (jobs s) = None"
  by (auto simp: job_held_def list_ex_iff find_None_iff)

lemma not_held_rows: "\<not> job_held job lease s \<Longrightarrow> rows_affected (holds_job job lease) (jobs s) = 0"
  by (simp add: job_held_def list_ex_iff rows_affected_0)

lemma not_live_rows: "\<not> job_held job lease s \<Longrightarrow> rows_affected (live_job e kind job lease) (jobs s) = 0"
  by (simp add: job_held_def list_ex_iff rows_affected_0 live_job_def)

interpretation project_prepare_leased: leased "\<lambda>j l s. fst (prepare_project_purge e j l s)" job_held for e
  by unfold_locales (simp add: prepare_project_purge_def not_held_live)

interpretation project_complete_leased: leased "\<lambda>j l s. fst (complete_project_purge e j l s)" job_held for e
  by unfold_locales (simp add: complete_project_purge_def not_held_live)

interpretation project_fail_leased: leased "\<lambda>j l s. fst (fail_project_purge e j l code s)" job_held for e code
  by unfold_locales (simp add: fail_project_purge_def not_held_rows)

interpretation account_renew_leased: leased "\<lambda>j l s. fst (renew_account_purge_lease e j l s)" job_held for e
  by unfold_locales (simp add: renew_account_purge_lease_def not_live_rows)

interpretation account_export_leased: leased "\<lambda>j l s. fst (complete_account_export pu e j l x h n s)" job_held for pu e x h n
  by unfold_locales (simp add: complete_account_export_def not_held_live)

interpretation account_prepare_leased: leased "\<lambda>j l s. fst (prepare_account_purge pu e j l s)" job_held for pu e
  by unfold_locales (simp add: prepare_account_purge_def not_held_live)

interpretation account_complete_leased: leased "\<lambda>j l s. fst (complete_account_purge pu e j l s)" job_held for pu e
  by unfold_locales (simp add: complete_account_purge_def not_held_live)

interpretation account_fail_leased: leased "\<lambda>j l s. fst (fail_account_purge e j l code s)" job_held for e code
  by unfold_locales (simp add: fail_account_purge_def not_held_kind)

lemma claimed_job_not_held:
  assumes "claim_purge_job kind e new_lease s = (s', Inr (Some job))" and "old_lease \<noteq> new_lease"
  shows "\<not> job_held (j_id job) old_lease s'"
proof -
  let ?due = "sort_key j_run_after (sort_key j_created_at (sort_key j_id (filter (claimable_job e kind) (jobs s))))"
  from assms(1) obtain row where "?due \<noteq> []" and row: "row = hd ?due"
    and job: "job = claim_job_row e new_lease row"
    and s': "s' = update_job (\<lambda>j. j_id j = j_id row) (claim_job_row e new_lease) s"
    by (cases ?due) (auto simp: claim_purge_job_def)
  have id: "j_id job = j_id row" by (simp add: job claim_job_row_def)
  show ?thesis
    using assms(2) unfolding job_held_def s' id
    by (auto simp: list_ex_iff update_job_def set_update_where holds_job_def claim_job_row_def)
qed

text \<open>C32. A purge job that another worker has claimed again, because its lease expired, is out of the
  reach of the worker with the old token: neither the detachment nor the export, the completion,
  the retry or the renewal under that token changes the database, however often it is called.\<close>

theorem reclaimed_purge_is_fenced:
  assumes "claim_purge_job kind e new_lease s = (s', Inr (Some job))" and "old_lease \<noteq> new_lease"
  shows "fst (prepare_project_purge e2 (j_id job) old_lease s') = s'
    \<and> fst (complete_project_purge e2 (j_id job) old_lease s') = s'
    \<and> fst (fail_project_purge e2 (j_id job) old_lease code s') = s'
    \<and> fst (renew_account_purge_lease e2 (j_id job) old_lease s') = s'
    \<and> fst (complete_account_export pu e2 (j_id job) old_lease x h n s') = s'
    \<and> fst (prepare_account_purge pu e2 (j_id job) old_lease s') = s'
    \<and> fst (complete_account_purge pu e2 (j_id job) old_lease s') = s'
    \<and> ((\<lambda>s. fst (fail_account_purge e2 (j_id job) old_lease code s)) ^^ m) s' = s'"
proof -
  have "\<not> job_held (j_id job) old_lease s'" by (rule claimed_job_not_held [OF assms])
  then show ?thesis
    by (simp add: project_prepare_leased.fenced project_complete_leased.fenced project_fail_leased.fenced
        account_renew_leased.fenced account_export_leased.fenced account_prepare_leased.fenced
        account_complete_leased.fenced account_fail_leased.fenced_repeat)
qed

text \<open>An hour later the lease of \<open>sample_purging\<close> has run out, and a second worker claims the job.\<close>

theorem reclaimed_purge_is_fenced_witness:
  "\<exists>s' job. claim_purge_job ProjectPurge \<lparr>db_now = hours 2, app_now = hours 2\<rparr> ''M'' sample_purging = (s', Inr (Some job))
    \<and> fst (prepare_project_purge sample_env (j_id job) ''L'' s') = s'"
proof -
  let ?run = "claim_purge_job ProjectPurge \<lparr>db_now = hours 2, app_now = hours 2\<rparr> ''M'' sample_purging"
  have "case snd ?run of Inr (Some _) \<Rightarrow> True | _ \<Rightarrow> False" by code_simp
  then obtain s' job where run: "?run = (s', Inr (Some job))"
    by (cases ?run) (auto split: sum.splits option.splits)
  have "''L'' \<noteq> ''M''" by simp
  from reclaimed_purge_is_fenced [OF run this, THEN conjunct1] run show ?thesis by (intro exI conjI)
qed

subsection \<open>A deletion that a request to disable undoes\<close>

lemma find_project_updated:
  assumes "List.find (\<lambda>p. p_id p = pid) (visible_projects uid s) = Some p"
  shows "List.find (\<lambda>p. p_id p = pid \<and> p_owner p = uid)
      (update_where (\<lambda>p. p_id p = pid \<and> p_owner p = uid) (set_status e st) (projects s)) = Some (set_status e st p)"
proof -
  have "List.find (\<lambda>p. p_id p = pid \<and> p_owner p = uid) (projects s) = Some p"
    using assms by (induction "projects s" arbitrary: s)
      (auto simp: visible_projects_def find_conv_filter conj_commute)
  moreover have "List.find (\<lambda>p. p_id p = pid \<and> p_owner p = uid)
      (update_where (\<lambda>p. p_id p = pid \<and> p_owner p = uid) (set_status e st) (projects s))
    = map_option (\<lambda>p. if p_id p = pid \<and> p_owner p = uid then set_status e st p else p)
        (List.find (\<lambda>p. p_id p = pid \<and> p_owner p = uid) (projects s))"
    by (rule find_update_where) (simp add: set_status_def)
  ultimately show ?thesis by (auto dest: find_SomeD)
qed

text \<open>C33. Disabling a project does not look at its status: a project whose deletion is already
  queued becomes disabled, and the purge job that the worker then runs under its lease is refused
  with a conflict and removes nothing.\<close>

theorem disable_revives_deleting:
  assumes p: "List.find (\<lambda>p. p_id p = pid) (visible_projects uid s) = Some p" and "p_status p = PDeleting"
    and job: "List.find (live_job e2 ProjectPurge jid lease) (jobs s) = Some job"
    and own: "j_owner job = Some uid" "j_project job = Some pid" and fresh: "\<not> is_detached (j_payload job)"
  shows "\<exists>s'. disable_project e uid pid s = (s', Inr (set_status e PDisabled p))
    \<and> prepare_project_purge e2 jid lease s' = (s', Inl Conflict)"
proof -
  let ?s = "s\<lparr>projects := update_where (\<lambda>p. p_id p = pid \<and> p_owner p = uid) (set_status e PDisabled) (projects s)\<rparr>"
  have "disable_project e uid pid s = (?s, Inr (set_status e PDisabled p))"
    using p by (simp add: disable_project_def update_project_def)
  moreover have "p_status (set_status e PDisabled p) = PDisabled" by (simp add: set_status_def)
  then have "prepare_project_purge e2 jid lease ?s = (?s, Inl Conflict)"
    using job own fresh find_project_updated [OF p] by (simp add: prepare_project_purge_def)
  ultimately show ?thesis by blast
qed

theorem disable_revives_deleting_witness:
  "\<exists>s' p. disable_project sample_env ''u'' ''p'' sample_purging = (s', Inr (set_status sample_env PDisabled p))
    \<and> prepare_project_purge sample_env ''j'' ''L'' s' = (s', Inl Conflict)"
proof -
  define job where "job = hd (jobs sample_purging)"
  define p where "p = hd (projects sample_purging)"
  have p: "List.find (\<lambda>p. p_id p = ''p'') (visible_projects ''u'' sample_purging) = Some p" unfolding p_def by code_simp
  have st: "p_status p = PDeleting" unfolding p_def by code_simp
  have job: "List.find (live_job sample_env ProjectPurge ''j'' ''L'') (jobs sample_purging) = Some job" unfolding job_def by code_simp
  have own: "j_owner job = Some ''u''" "j_project job = Some ''p''" and fresh: "\<not> is_detached (j_payload job)"
    unfolding job_def by code_simp+
  show ?thesis using disable_revives_deleting [OF p st job own fresh, of sample_env] by (elim exE) (intro exI)
qed

end
