(* ===== verification/Payloads.thy ===== *)
theory Payloads
  imports Purge
begin

text \<open>
  The catalog of payload objects (\<open>PayloadLock\<close> and the maintenance queries of
  \<open>crates/persistence/src/lib.rs\<close>). The advisory lock of a project and hash serialises what runs
  under it; each call below is one such step.
\<close>

record stored_payload =
  st_hash :: string
  st_bucket :: string
  st_object_key :: string
  st_size :: int
  st_media_type :: string

definition insert_payload :: "env \<Rightarrow> uuid \<Rightarrow> uuid \<Rightarrow> uuid \<Rightarrow> stored_payload \<Rightarrow> db \<Rightarrow> db outcome" where
  "insert_payload e new_id user_id project_id payload s =
    (if list_ex (\<lambda>p. pl_project p = project_id \<and> pl_hash p = st_hash payload) (payloads s) then Inr s
     else if st_size payload < 0 \<or> list_ex (\<lambda>p. pl_id p = new_id) (payloads s) then Inl Database
     else Inr (s\<lparr>payloads := payloads s @ [\<lparr>pl_id = new_id, pl_project = project_id, pl_owner = user_id,
            pl_hash = st_hash payload, pl_bucket = st_bucket payload, pl_key = st_object_key payload,
            pl_size = st_size payload, pl_media_type = st_media_type payload, pl_created_at = db_now e\<rparr>]\<rparr>))"

definition register_payload :: "env \<Rightarrow> uuid \<Rightarrow> uuid \<Rightarrow> uuid \<Rightarrow> stored_payload \<Rightarrow> unit txn" where
  "register_payload e new_id user_id project_id payload s =
    (case List.find (\<lambda>p. p_id p = project_id) (visible_projects user_id s) of
       None \<Rightarrow> (s, Inl NotFound)
     | Some p \<Rightarrow>
         if p_status p \<noteq> PActive then (s, Inl ProjectMaintenance)
         else (case insert_payload e new_id user_id project_id payload s of
             Inl er \<Rightarrow> (s, Inl er)
           | Inr s1 \<Rightarrow> (s1, Inr ())))"

definition validate_sync_project :: "uuid \<Rightarrow> uuid \<Rightarrow> db \<Rightarrow> (int \<times> int) outcome" where
  "validate_sync_project user_id project_id s = require_active_project user_id project_id s"

definition unreferenced :: "db \<Rightarrow> payload_row \<Rightarrow> bool" where
  "unreferenced s p \<longleftrightarrow> \<not> list_ex (\<lambda>r. rv_payload r = Some (pl_id p)) (object_revisions s)"

definition unreferenced_payload_keys :: "instant \<Rightarrow> db \<Rightarrow> (uuid \<times> string) list" where
  "unreferenced_payload_keys older_than s =
    map (\<lambda>p. (pl_project p, pl_hash p))
      (sort_key pl_created_at (sort_key pl_id
        (filter (\<lambda>p. pl_created_at p < older_than \<and> unreferenced s p) (payloads s))))"

text \<open>
  \<open>SELECT ... FOR UPDATE\<close> on \<open>payloads\<close> as \<open>tasktips_worker\<close>: the row lock asks for UPDATE.
\<close>

definition unreferenced_payload_key :: "uuid \<Rightarrow> string \<Rightarrow> instant \<Rightarrow> db \<Rightarrow> string option outcome" where
  "unreferenced_payload_key project_id content_hash older_than s =
    (if \<not> permitted PayloadsTable [PrivSelect, PrivUpdate] then Inl Database
     else Inr (map_option pl_key (List.find (\<lambda>p. pl_project p = project_id \<and> pl_hash p = content_hash
            \<and> pl_created_at p < older_than \<and> unreferenced s p) (payloads s))))"

definition payload_is_referenced :: "uuid \<Rightarrow> string \<Rightarrow> db \<Rightarrow> bool" where
  "payload_is_referenced project_id content_hash s \<longleftrightarrow>
    list_ex (\<lambda>p. pl_project p = project_id \<and> pl_hash p = content_hash) (payloads s)"

definition delete_payload_row :: "uuid \<Rightarrow> string \<Rightarrow> unit txn" where
  "delete_payload_row project_id content_hash s =
    (s\<lparr>payloads := delete_where (\<lambda>p. pl_project p = project_id \<and> pl_hash p = content_hash \<and> unreferenced s p)
        (payloads s)\<rparr>, Inr ())"

definition fail_snapshot :: "snapshot_row \<Rightarrow> snapshot_row" where
  "fail_snapshot x = x\<lparr>sn_status := SnFailed\<rparr>"

interpretation fail_snapshot: key_update sn_id fail_snapshot
  by unfold_locales (simp add: fail_snapshot_def)

definition expire_pending_snapshots :: "instant \<Rightarrow> string list txn" where
  "expire_pending_snapshots older_than s =
    (let stale = (\<lambda>x. sn_status x = SnPending \<and> sn_created_at x < older_than) in
     (s\<lparr>snapshots := update_where stale fail_snapshot (snapshots s)\<rparr>,
      Inr (map sn_key (filter stale (snapshots s)))))"

definition same_idempotency_key :: "idempotency_row \<Rightarrow> idempotency_row \<Rightarrow> bool" where
  "same_idempotency_key x y \<longleftrightarrow> ir_owner x = ir_owner y \<and> ir_device x = ir_device y
    \<and> ir_project x = ir_project y \<and> ir_key x = ir_key y"

definition purge_expired_idempotency_records :: "env \<Rightarrow> int \<Rightarrow> nat txn" where
  "purge_expired_idempotency_records e limit s =
    (let expired = take (nat (max limit 1)) (sort_key ir_expires_at (sort_key ir_key
           (filter (\<lambda>r. ir_expires_at r \<le> db_now e) (idempotency_records s))));
         doomed = (\<lambda>r. list_ex (same_idempotency_key r) expired) in
     (s\<lparr>idempotency_records := delete_where doomed (idempotency_records s)\<rparr>,
      Inr (rows_affected doomed (idempotency_records s))))"

text \<open>The result is used as a set of keys.\<close>

definition referenced_payload_keys :: "env \<Rightarrow> db \<Rightarrow> string list" where
  "referenced_payload_keys e s = map pl_key (payloads s)
    @ map sn_key (filter (\<lambda>x. sn_status x \<in> {SnPending, SnReady}) (snapshots s))
    @ map bm_key (filter (\<lambda>m. bm_expires_at m > db_now e) (bootstrap_manifests s))"

text \<open>
  The deletion of old authentication failures filters on columns of \<open>audit_events\<close>, which
  \<open>tasktips_worker\<close> may insert into, update and delete from, but not read.
\<close>

definition auth_failure_actions :: "string list" where
  "auth_failure_actions = [''auth.login_failed'', ''auth.refresh_failed'', ''auth.reauth_failed'']"

definition prune_old_auth_failures :: "env \<Rightarrow> int \<Rightarrow> int \<Rightarrow> nat txn" where
  "prune_old_auth_failures e retention_days limit s =
    (if \<not> permitted AuditEventsTable [PrivSelect, PrivDelete] then (s, Inl Database)
     else (let old = (\<lambda>a. au_action a \<in> set auth_failure_actions
                  \<and> au_created_at a < db_now e - days (max retention_days 1));
               expired = take (nat (max limit 1)) (sort_key au_created_at (filter old (audit_events s))) in
       (s\<lparr>audit_events := foldl (\<lambda>rows a. remove1 a rows) (audit_events s) expired\<rparr>, Inr (length expired))))"

lemma worker_may_not_lock_payloads: "\<not> permitted PayloadsTable [PrivSelect, PrivUpdate]"
  by code_simp

lemma worker_may_not_read_audit: "\<not> permitted AuditEventsTable [PrivSelect, PrivDelete]"
  by code_simp

end
