(* ===== verification/Object_Store.thy ===== *)
theory Object_Store
  imports Prelude
begin

text \<open>
  \<open>crates/object-store/src/lib.rs\<close>: the layout of the object keys, and the operations on the S3
  service, which is code outside the repository and a parameter: a record of its requests over a
  state \<open>'w\<close>. Uploads, copies and deletions change the state and may fail; reads do not change it.
\<close>

subsection \<open>The service\<close>

datatype head_reply = HeadFound "int option" "string option" | HeadNotFound | HeadFailed

text \<open>A body is the list of its chunks, \<open>None\<close> for a chunk whose transfer failed.\<close>

record get_body =
  gb_chunks :: "bytes option list"
  gb_content_length :: "int option"
  gb_content_range :: "string option"
  gb_content_type :: "string option"

datatype get_reply = GetFound get_body | GetNoSuchKey | GetInvalidRange | GetFailed

record listed_object =
  lo_key :: "string option"
  lo_modified_secs :: "int option"

record list_page =
  pg_objects :: "listed_object list"
  pg_next :: "string option"

record 'w s3_service =
  s3_put :: "string \<Rightarrow> int \<Rightarrow> string \<Rightarrow> bytes \<Rightarrow> 'w \<Rightarrow> 'w \<times> bool"
  s3_copy :: "string \<Rightarrow> string \<Rightarrow> string \<Rightarrow> 'w \<Rightarrow> 'w \<times> bool"
  s3_delete :: "string \<Rightarrow> 'w \<Rightarrow> 'w \<times> bool"
  s3_head :: "string \<Rightarrow> 'w \<Rightarrow> head_reply"
  s3_get :: "string \<Rightarrow> string option \<Rightarrow> 'w \<Rightarrow> get_reply"
  s3_list :: "string option \<Rightarrow> 'w \<Rightarrow> list_page option"

datatype object_store_error = ObjNotFound | HashMismatch | InvalidRange | Backend

record payload_info =
  pi_bucket :: string
  pi_key :: string
  pi_content_hash :: string
  pi_size :: int
  pi_media_type :: string

record payload_download =
  pd_chunks :: "bytes option list"
  pd_content_length :: "int option"
  pd_content_range :: "string option"
  pd_media_type :: string

subsection \<open>Keys\<close>

text \<open>\<open>content_hash.get(..2)\<close>: the first two bytes, if they end at a character boundary.\<close>

definition is_ascii :: "char \<Rightarrow> bool" where
  "is_ascii c \<longleftrightarrow> (of_char c :: nat) < 128"

fun shard_of :: "string \<Rightarrow> string" where
  "shard_of [] = []"
| "shard_of [c] = [c]"
| "shard_of (c # d # rest) =
    (if \<not> is_ascii c then [c] else if is_ascii d then [c, d] else c # d # rest)"

definition payload_key :: "uuid \<Rightarrow> uuid \<Rightarrow> string \<Rightarrow> string" where
  "payload_key owner project content_hash =
    ''users/'' @ owner @ ''/projects/'' @ project @ ''/payloads/sha256/''
      @ shard_of content_hash @ ''/'' @ content_hash"

definition parse_payload_key :: "(string \<Rightarrow> uuid option) \<Rightarrow> string \<Rightarrow> (uuid \<times> uuid \<times> string) option" where
  "parse_payload_key parse_uuid key =
    (case split_on (CHR ''/'') key of
       [a, owner, b, project, c, d, shard, content_hash] \<Rightarrow>
         if a \<noteq> ''users'' \<or> b \<noteq> ''projects'' \<or> c \<noteq> ''payloads'' \<or> d \<noteq> ''sha256''
            \<or> utf8_len content_hash \<noteq> 64 then None
         else do { u \<leftarrow> parse_uuid owner; p \<leftarrow> parse_uuid project; Some (u, p, content_hash) }
     | _ \<Rightarrow> None)"

definition manifest_key :: "uuid \<Rightarrow> uuid \<Rightarrow> uuid \<Rightarrow> string" where
  "manifest_key owner project snapshot =
    ''users/'' @ owner @ ''/projects/'' @ project @ ''/snapshots/'' @ snapshot @ ''/manifest.json''"

definition bootstrap_manifest_key :: "uuid \<Rightarrow> uuid \<Rightarrow> uuid \<Rightarrow> string" where
  "bootstrap_manifest_key owner project manifest =
    ''users/'' @ owner @ ''/projects/'' @ project @ ''/bootstrap/'' @ manifest @ ''.json''"

definition export_key :: "uuid \<Rightarrow> uuid \<Rightarrow> string" where
  "export_key owner export = ''users/'' @ owner @ ''/exports/'' @ export @ ''.tar.zst''"

definition upload_key :: "uuid \<Rightarrow> uuid \<Rightarrow> uuid \<Rightarrow> string" where
  "upload_key owner project upload =
    ''users/'' @ owner @ ''/projects/'' @ project @ ''/uploads/'' @ upload"

subsection \<open>Reading\<close>

definition head_key_info :: "'w s3_service \<Rightarrow> string \<Rightarrow> 'w \<Rightarrow> object_store_error + (int \<times> string option) option" where
  "head_key_info s3 key w =
    (case s3_head s3 key w of
       HeadFound len media \<Rightarrow>
         (let n = (case len of None \<Rightarrow> 0 | Some n \<Rightarrow> n) in
          if n < 0 then Inl Backend else Inr (Some (n, media)))
     | HeadNotFound \<Rightarrow> Inr None
     | HeadFailed \<Rightarrow> Inl Backend)"

text \<open>The loop over the chunks: the size counted as a \<open>u64\<close> and the bytes hashed so far.\<close>

definition u64_max :: int where
  "u64_max = 18446744073709551615"

fun read_chunks :: "bytes option list \<Rightarrow> int \<Rightarrow> bytes \<Rightarrow> object_store_error + (int \<times> bytes)" where
  "read_chunks [] n acc = Inr (n, acc)"
| "read_chunks (None # cs) n acc = Inl Backend"
| "read_chunks (Some c # cs) n acc =
    (if n + int (length c) > u64_max then Inl Backend
     else read_chunks cs (n + int (length c)) (acc @ c))"

definition verify_key_hash ::
    "'w s3_service \<Rightarrow> (bytes \<Rightarrow> string) \<Rightarrow> string \<Rightarrow> string \<Rightarrow> int \<Rightarrow> 'w \<Rightarrow> object_store_error + unit" where
  "verify_key_hash s3 sha key expected_hash expected_size w =
    (case s3_get s3 key None w of
       GetFound b \<Rightarrow> try_bind (read_chunks (gb_chunks b) 0 []) (\<lambda>(n, body).
         if n \<noteq> expected_size \<or> sha body \<noteq> expected_hash then Inl HashMismatch else Inr ())
     | _ \<Rightarrow> Inl Backend)"

definition get_key_range ::
    "'w s3_service \<Rightarrow> string \<Rightarrow> string option \<Rightarrow> 'w \<Rightarrow> object_store_error + payload_download" where
  "get_key_range s3 key byte_range w =
    (case s3_get s3 key byte_range w of
       GetFound b \<Rightarrow> Inr \<lparr>pd_chunks = gb_chunks b, pd_content_length = gb_content_length b,
         pd_content_range = gb_content_range b,
         pd_media_type = (case gb_content_type b of None \<Rightarrow> ''application/octet-stream'' | Some t \<Rightarrow> t)\<rparr>
     | GetNoSuchKey \<Rightarrow> Inl ObjNotFound
     | GetInvalidRange \<Rightarrow> Inl InvalidRange
     | GetFailed \<Rightarrow> Inl Backend)"

definition get_key :: "'w s3_service \<Rightarrow> string \<Rightarrow> 'w \<Rightarrow> object_store_error + payload_download" where
  "get_key s3 key w = get_key_range s3 key None w"

definition get_payload ::
    "'w s3_service \<Rightarrow> uuid \<Rightarrow> uuid \<Rightarrow> string \<Rightarrow> string option \<Rightarrow> 'w \<Rightarrow> object_store_error + payload_download" where
  "get_payload s3 owner project content_hash byte_range w =
    get_key_range s3 (payload_key owner project content_hash) byte_range w"

definition payload_info_of :: "string \<Rightarrow> string \<Rightarrow> string \<Rightarrow> int \<Rightarrow> string option \<Rightarrow> string \<Rightarrow> payload_info" where
  "payload_info_of bucket key content_hash sz media dflt =
    \<lparr>pi_bucket = bucket, pi_key = key, pi_content_hash = content_hash, pi_size = sz,
     pi_media_type = (case media of None \<Rightarrow> dflt | Some m \<Rightarrow> m)\<rparr>"

definition head_payload ::
    "'w s3_service \<Rightarrow> string \<Rightarrow> uuid \<Rightarrow> uuid \<Rightarrow> string \<Rightarrow> 'w \<Rightarrow> object_store_error + payload_info option" where
  "head_payload s3 bucket owner project content_hash w =
    try_bind (head_key_info s3 (payload_key owner project content_hash) w) (\<lambda>found.
      Inr (map_option (\<lambda>(sz, media). payload_info_of bucket (payload_key owner project content_hash)
        content_hash sz media ''application/octet-stream'') found))"

subsection \<open>Writing\<close>

type_synonym ('w, 'a) store_op = "'w \<Rightarrow> 'w \<times> (object_store_error + 'a)"

text \<open>
  The object is there: its bytes are verified against the hash and it is kept as it is.
\<close>

definition accept_existing ::
    "'w s3_service \<Rightarrow> (bytes \<Rightarrow> string) \<Rightarrow> string \<Rightarrow> string \<Rightarrow> string \<Rightarrow> int \<Rightarrow> string option \<Rightarrow> string \<Rightarrow> ('w, payload_info) store_op" where
  "accept_existing s3 sha bucket key expected_hash sz media dflt w =
    (w, try_bind (verify_key_hash s3 sha key expected_hash sz w) (\<lambda>_.
      Inr (payload_info_of bucket key expected_hash sz media dflt)))"

text \<open>
  The end of every upload: the metadata of the stored object is read back, its size accepted or
  not, and its bytes are verified.
\<close>

definition verify_stored ::
    "'w s3_service \<Rightarrow> (bytes \<Rightarrow> string) \<Rightarrow> string \<Rightarrow> string \<Rightarrow> string \<Rightarrow> (int \<Rightarrow> bool) \<Rightarrow> string \<Rightarrow> 'w
      \<Rightarrow> object_store_error + payload_info" where
  "verify_stored s3 sha bucket key expected_hash size_ok media_type w =
    try_bind (head_key_info s3 key w) (\<lambda>stored.
      case stored of
        None \<Rightarrow> Inl Backend
      | Some (n, media) \<Rightarrow>
          if \<not> size_ok n then Inl Backend
          else try_bind (verify_key_hash s3 sha key expected_hash n w) (\<lambda>_.
            Inr (payload_info_of bucket key expected_hash n media media_type)))"

text \<open>
  The part \<open>put_payload\<close> and \<open>put_payload_file\<close> share: upload under a fresh temporary key, copy
  to the content-addressed key, remove the temporary object, and verify what is stored. \<open>body\<close> is
  \<open>None\<close> when the file cannot be opened.
\<close>

definition store_content ::
    "'w s3_service \<Rightarrow> (bytes \<Rightarrow> string) \<Rightarrow> string \<Rightarrow> uuid \<Rightarrow> uuid \<Rightarrow> uuid \<Rightarrow> string \<Rightarrow> string \<Rightarrow> bytes option \<Rightarrow> int
      \<Rightarrow> ('w, payload_info) store_op" where
  "store_content s3 sha bucket upload owner project expected_hash media_type body sz w =
    (let final_key = payload_key owner project expected_hash;
         temporary_key = upload_key owner project upload in
     case head_key_info s3 final_key w of
       Inl er \<Rightarrow> (w, Inl er)
     | Inr (Some (n, media)) \<Rightarrow> accept_existing s3 sha bucket final_key expected_hash n media media_type w
     | Inr None \<Rightarrow>
    (case body of
       None \<Rightarrow> (w, Inl Backend)
     | Some content \<Rightarrow>
    if sz > i64_max then (w, Inl Backend)
    else
    (case s3_put s3 temporary_key sz media_type content w of
       (w1, False) \<Rightarrow> (w1, Inl Backend)
     | (w1, True) \<Rightarrow>
    (let (w2, copied) = s3_copy s3 temporary_key final_key media_type w1;
         (w3, _) = s3_delete s3 temporary_key w2 in
     if \<not> copied then (w3, Inl Backend)
     else (w3, verify_stored s3 sha bucket final_key expected_hash (\<lambda>n. n = sz) media_type w3)))))"

definition put_payload ::
    "'w s3_service \<Rightarrow> (bytes \<Rightarrow> string) \<Rightarrow> string \<Rightarrow> uuid \<Rightarrow> uuid \<Rightarrow> uuid \<Rightarrow> string \<Rightarrow> string \<Rightarrow> bytes
      \<Rightarrow> ('w, payload_info) store_op" where
  "put_payload s3 sha bucket upload owner project expected_hash media_type content w =
    (if sha content \<noteq> expected_hash then (w, Inl HashMismatch)
     else store_content s3 sha bucket upload owner project expected_hash media_type
            (Some content) (int (length content)) w)"

definition put_payload_file ::
    "'w s3_service \<Rightarrow> (bytes \<Rightarrow> string) \<Rightarrow> string \<Rightarrow> uuid \<Rightarrow> uuid \<Rightarrow> uuid \<Rightarrow> string \<Rightarrow> string \<Rightarrow> bytes option \<Rightarrow> int
      \<Rightarrow> ('w, payload_info) store_op" where
  "put_payload_file s3 sha bucket upload owner project expected_hash media_type file sz w =
    store_content s3 sha bucket upload owner project expected_hash media_type file sz w"

text \<open>
  The immutable objects written under their final key: the branch for an existing object checks
  its size, and \<open>size_checked\<close> tells whether the size is checked again after the upload.
\<close>

definition put_immutable ::
    "'w s3_service \<Rightarrow> (bytes \<Rightarrow> string) \<Rightarrow> string \<Rightarrow> string \<Rightarrow> string \<Rightarrow> string \<Rightarrow> bytes option \<Rightarrow> int \<Rightarrow> bool
      \<Rightarrow> ('w, payload_info) store_op" where
  "put_immutable s3 sha bucket key expected_hash media_type body sz size_checked w =
    (case head_key_info s3 key w of
       Inl er \<Rightarrow> (w, Inl er)
     | Inr (Some (n, media)) \<Rightarrow>
         if n \<noteq> sz then (w, Inl Backend)
         else accept_existing s3 sha bucket key expected_hash n media media_type w
     | Inr None \<Rightarrow>
    (case body of
       None \<Rightarrow> (w, Inl Backend)
     | Some content \<Rightarrow>
    if sz > i64_max then (w, Inl Backend)
    else
    (case s3_put s3 key sz media_type content w of
       (w1, False) \<Rightarrow> (w1, Inl Backend)
     | (w1, True) \<Rightarrow> (w1, verify_stored s3 sha bucket key expected_hash
          (\<lambda>n. size_checked \<longrightarrow> n = sz) media_type w1))))"

definition put_export_file ::
    "'w s3_service \<Rightarrow> (bytes \<Rightarrow> string) \<Rightarrow> string \<Rightarrow> uuid \<Rightarrow> uuid \<Rightarrow> string \<Rightarrow> bytes option \<Rightarrow> int
      \<Rightarrow> ('w, payload_info) store_op" where
  "put_export_file s3 sha bucket owner export expected_hash file sz w =
    put_immutable s3 sha bucket (export_key owner export) expected_hash ''application/zstd'' file sz True w"

definition put_manifest ::
    "'w s3_service \<Rightarrow> (bytes \<Rightarrow> string) \<Rightarrow> string \<Rightarrow> uuid \<Rightarrow> uuid \<Rightarrow> uuid \<Rightarrow> string \<Rightarrow> bytes
      \<Rightarrow> ('w, payload_info) store_op" where
  "put_manifest s3 sha bucket owner project snapshot expected_hash content w =
    (if sha content \<noteq> expected_hash then (w, Inl HashMismatch)
     else put_immutable s3 sha bucket (manifest_key owner project snapshot) expected_hash
            ''application/json'' (Some content) (int (length content)) False w)"

definition put_bootstrap_manifest ::
    "'w s3_service \<Rightarrow> (bytes \<Rightarrow> string) \<Rightarrow> string \<Rightarrow> uuid \<Rightarrow> uuid \<Rightarrow> uuid \<Rightarrow> string \<Rightarrow> bytes
      \<Rightarrow> ('w, payload_info) store_op" where
  "put_bootstrap_manifest s3 sha bucket owner project manifest expected_hash content w =
    (if sha content \<noteq> expected_hash then (w, Inl HashMismatch)
     else put_immutable s3 sha bucket (bootstrap_manifest_key owner project manifest) expected_hash
            ''application/json'' (Some content) (int (length content)) False w)"

definition delete_key :: "'w s3_service \<Rightarrow> string \<Rightarrow> ('w, unit) store_op" where
  "delete_key s3 key w =
    (let (w1, done') = s3_delete s3 key w in (w1, if done' then Inr () else Inl Backend))"

subsection \<open>Orphans\<close>

text \<open>\<open>str::contains\<close>, and \<open>OffsetDateTime::from_unix_timestamp\<close> with its range.\<close>

fun contains :: "string \<Rightarrow> string \<Rightarrow> bool" where
  "contains needle [] = (needle = [])"
| "contains needle (c # s) = (starts_with needle (c # s) \<or> contains needle s)"

definition from_unix_timestamp :: "int \<Rightarrow> instant option" where
  "from_unix_timestamp secs =
    (if - 377705116800 \<le> secs \<and> secs \<le> 253402300799 then Some (seconds secs) else None)"

definition managed_object :: "string \<Rightarrow> bool" where
  "managed_object key \<longleftrightarrow>
    contains ''/uploads/'' key \<or> contains ''/snapshots/'' key \<or> contains ''/bootstrap/'' key"

definition old_enough :: "instant \<Rightarrow> listed_object \<Rightarrow> bool" where
  "old_enough older_than object =
    (case Option.bind (lo_modified_secs object) from_unix_timestamp of
       None \<Rightarrow> False | Some modified \<Rightarrow> modified < older_than)"

definition orphan :: "string list \<Rightarrow> instant \<Rightarrow> listed_object \<Rightarrow> bool" where
  "orphan referenced older_than object =
    (case lo_key object of None \<Rightarrow> False
     | Some key \<Rightarrow> managed_object key \<and> old_enough older_than object \<and> key \<notin> set referenced)"

fun delete_page ::
    "'w s3_service \<Rightarrow> string list \<Rightarrow> instant \<Rightarrow> listed_object list \<Rightarrow> int \<Rightarrow> ('w, int) store_op" where
  "delete_page s3 referenced older_than [] n w = (w, Inr n)"
| "delete_page s3 referenced older_than (object # objects) n w =
    (if orphan referenced older_than object
     then (case delete_key s3 (the (lo_key object)) w of
             (w1, Inl er) \<Rightarrow> (w1, Inl er)
           | (w1, Inr _) \<Rightarrow> delete_page s3 referenced older_than objects (n + 1) w1)
     else delete_page s3 referenced older_than objects n w)"

text \<open>
  The loops over the pages of the listing. How many pages there are is up to the service: the
  fuel bounds them, and running out of it is \<open>None\<close>.
\<close>

fun delete_orphans_loop ::
    "'w s3_service \<Rightarrow> string list \<Rightarrow> instant \<Rightarrow> nat \<Rightarrow> string option \<Rightarrow> int \<Rightarrow> 'w
      \<Rightarrow> ('w \<times> (object_store_error + int)) option" where
  "delete_orphans_loop s3 referenced older_than 0 token n w = None"
| "delete_orphans_loop s3 referenced older_than (Suc fuel) token n w =
    (case s3_list s3 token w of
       None \<Rightarrow> Some (w, Inl Backend)
     | Some page \<Rightarrow>
         (case delete_page s3 referenced older_than (pg_objects page) n w of
            (w1, Inl er) \<Rightarrow> Some (w1, Inl er)
          | (w1, Inr n1) \<Rightarrow>
              (case pg_next page of
                 None \<Rightarrow> Some (w1, Inr n1)
               | Some t \<Rightarrow> delete_orphans_loop s3 referenced older_than fuel (Some t) n1 w1)))"

definition delete_orphans ::
    "'w s3_service \<Rightarrow> nat \<Rightarrow> string list \<Rightarrow> instant \<Rightarrow> 'w \<Rightarrow> ('w \<times> (object_store_error + int)) option" where
  "delete_orphans s3 fuel referenced older_than w = delete_orphans_loop s3 referenced older_than fuel None 0 w"

definition stale_payload :: "string list \<Rightarrow> instant \<Rightarrow> listed_object \<Rightarrow> bool" where
  "stale_payload referenced older_than object =
    (case lo_key object of None \<Rightarrow> False
     | Some key \<Rightarrow> contains ''/payloads/sha256/'' key \<and> old_enough older_than object \<and> key \<notin> set referenced)"

fun stale_payload_loop ::
    "'w s3_service \<Rightarrow> string list \<Rightarrow> instant \<Rightarrow> nat \<Rightarrow> string option \<Rightarrow> 'w
      \<Rightarrow> (object_store_error + string list) option" where
  "stale_payload_loop s3 referenced older_than 0 token w = None"
| "stale_payload_loop s3 referenced older_than (Suc fuel) token w =
    (case s3_list s3 token w of
       None \<Rightarrow> Some (Inl Backend)
     | Some page \<Rightarrow>
         (let keys = map (\<lambda>x. the (lo_key x)) (filter (stale_payload referenced older_than) (pg_objects page)) in
          case pg_next page of
            None \<Rightarrow> Some (Inr keys)
          | Some t \<Rightarrow> map_option (map_sum id ((@) keys)) (stale_payload_loop s3 referenced older_than fuel (Some t) w)))"

definition stale_payload_keys ::
    "'w s3_service \<Rightarrow> nat \<Rightarrow> string list \<Rightarrow> instant \<Rightarrow> 'w \<Rightarrow> (object_store_error + string list) option" where
  "stale_payload_keys s3 fuel referenced older_than w = stale_payload_loop s3 referenced older_than fuel None w"

end
