(* ===== verification/Object_Store_Props.thy ===== *)
theory Object_Store_Props
  imports Object_Store
begin

text \<open>
  What the object store promises: keys that identify their owner, project and content; uploads
  that succeed only with verified bytes and never touch another object; and a cleanup that ends
  and deletes only what nothing refers to.
\<close>

subsection \<open>Keys\<close>

lemma shard_no_slash: "CHR ''/'' \<notin> set h \<Longrightarrow> CHR ''/'' \<notin> set (shard_of h)"
  by (induction h rule: shard_of.induct) auto

text \<open>The key of a payload determines its owner, its project and its content hash: parsing the
  key that \<open>payload_key\<close> builds gives them back, so no two payloads of different tenants, projects
  or contents share an object.\<close>

theorem payload_key_roundtrip:
  assumes "parse_uuid owner = Some owner" "parse_uuid project = Some project"
    and "CHR ''/'' \<notin> set owner" "CHR ''/'' \<notin> set project" "CHR ''/'' \<notin> set h" "utf8_len h = 64"
  shows "parse_payload_key parse_uuid (payload_key owner project h) = Some (owner, project, h)"
proof -
  have key: "payload_key owner project h = ''users'' @ CHR ''/'' # (owner @ CHR ''/'' # (''projects'' @ CHR ''/''
      # (project @ CHR ''/'' # (''payloads'' @ CHR ''/'' # (''sha256'' @ CHR ''/''
      # (shard_of h @ CHR ''/'' # h))))))"
    by (simp add: payload_key_def)
  have "split_on (CHR ''/'') (payload_key owner project h)
      = [''users'', owner, ''projects'', project, ''payloads'', ''sha256'', shard_of h, h]"
    unfolding key using assms(3-5) shard_no_slash [OF assms(5)]
    by (subst split_on_append, simp)+ (simp add: split_on_no_sep)
  then show ?thesis using assms by (simp add: parse_payload_key_def)
qed

definition sample_hash :: string where
  "sample_hash = replicate 64 (CHR ''a'')"

theorem payload_key_roundtrip_witness:
  "parse_payload_key Some (payload_key ''u'' ''p'' sample_hash) = Some (''u'', ''p'', sample_hash)"
  by (rule payload_key_roundtrip) (simp_all add: sample_hash_def utf8_len_def sum_list_replicate)

subsection \<open>Uploads\<close>

text \<open>The bytes of an object as a reader gets them.\<close>

definition stored_bytes :: "'w s3_service \<Rightarrow> string \<Rightarrow> 'w \<Rightarrow> bytes option" where
  "stored_bytes s3 key w =
    (case s3_get s3 key None w of
       GetFound b \<Rightarrow> map_option concat (those (gb_chunks b))
     | _ \<Rightarrow> None)"

text \<open>
  What S3 documents of its writes and is used here: a request on a key changes what is read
  under that key only.
\<close>

definition s3_local :: "'w s3_service \<Rightarrow> bool" where
  "s3_local s3 \<longleftrightarrow>
    (\<forall>key key' n t b w. key' \<noteq> key \<longrightarrow> stored_bytes s3 key' (fst (s3_put s3 key n t b w)) = stored_bytes s3 key' w)
  \<and> (\<forall>src dst key' t w. key' \<noteq> dst \<longrightarrow> stored_bytes s3 key' (fst (s3_copy s3 src dst t w)) = stored_bytes s3 key' w)
  \<and> (\<forall>key key' w. key' \<noteq> key \<longrightarrow> stored_bytes s3 key' (fst (s3_delete s3 key w)) = stored_bytes s3 key' w)"

lemma read_chunks_concat:
  "read_chunks cs n acc = Inr (m, body) \<Longrightarrow>
    \<exists>bs. those cs = Some bs \<and> body = acc @ concat bs \<and> m = n + int (length (concat bs))"
  by (induction cs n acc arbitrary: m body rule: read_chunks.induct) (fastforce split: if_splits)+

lemma verified:
  assumes "verify_key_hash s3 sha key h n w = Inr ()"
  obtains body where "stored_bytes s3 key w = Some body" "sha body = h" "int (length body) = n"
proof -
  from assms obtain b body where "s3_get s3 key None w = GetFound b"
    and r: "read_chunks (gb_chunks b) 0 [] = Inr (n, body)" "sha body = h"
    by (auto simp: verify_key_hash_def try_bind_eq_Inr split: get_reply.splits if_splits)
  with read_chunks_concat [OF r(1)] show thesis by (intro that [of body]) (auto simp: stored_bytes_def)
qed

lemma payload_info_of_select [simp]:
  "pi_key (payload_info_of b k h n m d) = k" "pi_size (payload_info_of b k h n m d) = n"
  "pi_content_hash (payload_info_of b k h n m d) = h"
  by (simp_all add: payload_info_of_def)

lemma verify_stored_result:
  assumes "verify_stored s3 sha bucket key h ok media_type w = Inr info"
  shows "verify_key_hash s3 sha key h (pi_size info) w = Inr () \<and> pi_key info = key \<and> pi_content_hash info = h"
proof -
  from assms obtain n media where "head_key_info s3 key w = Inr (Some (n, media))"
    by (cases "head_key_info s3 key w") (auto simp: verify_stored_def split: option.splits)
  with assms show ?thesis by (auto simp: verify_stored_def try_bind_eq_Inr split: if_splits)
qed

lemma accept_existing_result:
  "accept_existing s3 sha bucket key h n media d w = (w', Inr info) \<Longrightarrow>
    verify_key_hash s3 sha key h (pi_size info) w' = Inr () \<and> pi_key info = key \<and> pi_content_hash info = h"
  by (auto simp: accept_existing_def try_bind_eq_Inr)

lemma store_content_result:
  assumes "store_content s3 sha bucket upload owner project h media_type body sz w = (w', Inr info)"
  shows "verify_key_hash s3 sha (payload_key owner project h) h (pi_size info) w' = Inr ()
    \<and> pi_key info = payload_key owner project h \<and> pi_content_hash info = h"
  using assms
  by (auto simp: store_content_def Let_def dest: accept_existing_result verify_stored_result
      split: sum.splits option.splits if_splits prod.splits bool.splits)

lemma store_content_local:
  assumes "s3_local s3" and "k \<noteq> payload_key owner project h" "k \<noteq> upload_key owner project upload"
  shows "stored_bytes s3 k (fst (store_content s3 sha bucket upload owner project h media_type body sz w)) = stored_bytes s3 k w"
proof -
  have p: "stored_bytes s3 k w1 = stored_bytes s3 k w" if "s3_put s3 (upload_key owner project upload) n t b w = (w1, r)" for n t b w w1 r
    using assms that unfolding s3_local_def by (metis fst_conv)
  have c: "stored_bytes s3 k w1 = stored_bytes s3 k w" if "s3_copy s3 src (payload_key owner project h) t w = (w1, r)" for src t w w1 r
    using assms that unfolding s3_local_def by (metis fst_conv)
  have d: "stored_bytes s3 k w1 = stored_bytes s3 k w" if "s3_delete s3 (upload_key owner project upload) w = (w1, r)" for w w1 r
    using assms that unfolding s3_local_def by (metis fst_conv)
  show ?thesis
    by (auto simp: store_content_def Let_def accept_existing_def split: sum.splits option.splits if_splits prod.splits bool.splits
        dest!: p c d)
qed

text \<open>C27. An upload that is acknowledged is verified: after \<open>put_payload\<close> succeeds, what a reader gets
  under the payload's key are bytes with the expected SHA-256 and the reported size; and whatever
  the outcome, no other object than this key and the temporary upload has changed.\<close>

theorem put_payload_verified:
  assumes "s3_local s3"
    and "put_payload s3 sha bucket upload owner project h media_type content w = (w', result)"
  shows "(\<forall>info. result = Inr info \<longrightarrow> pi_key info = payload_key owner project h
      \<and> (\<exists>body. stored_bytes s3 (payload_key owner project h) w' = Some body \<and> sha body = h
          \<and> int (length body) = pi_size info))
    \<and> (sha content \<noteq> h \<longrightarrow> result = Inl HashMismatch)
    \<and> (\<forall>k. k \<noteq> payload_key owner project h \<and> k \<noteq> upload_key owner project upload \<longrightarrow>
        stored_bytes s3 k w' = stored_bytes s3 k w)"
proof (cases "sha content = h")
  case False
  with assms(2) show ?thesis by (auto simp: put_payload_def)
next
  case True
  with assms(2) have run: "store_content s3 sha bucket upload owner project h media_type (Some content)
      (int (length content)) w = (w', result)" by (simp add: put_payload_def)
  have frame: "stored_bytes s3 k w' = stored_bytes s3 k w"
    if "k \<noteq> payload_key owner project h" "k \<noteq> upload_key owner project upload" for k
    using store_content_local [OF assms(1) that, of sha bucket media_type "Some content" "int (length content)" w] run by simp
  have ok: "pi_key info = payload_key owner project h \<and> (\<exists>body. stored_bytes s3 (payload_key owner project h) w' = Some body
      \<and> sha body = h \<and> int (length body) = pi_size info)" if "result = Inr info" for info
  proof -
    note r = store_content_result [OF run [unfolded that]]
    obtain body where "stored_bytes s3 (payload_key owner project h) w' = Some body" "sha body = h"
      "int (length body) = pi_size info" by (rule verified [OF conjunct1 [OF r]])
    with r show ?thesis by blast
  qed
  show ?thesis
  proof (intro conjI allI impI)
    show "pi_key info = payload_key owner project h" if "result = Inr info" for info
      using ok [OF that] by (rule conjunct1)
    show "\<exists>body. stored_bytes s3 (payload_key owner project h) w' = Some body \<and> sha body = h
      \<and> int (length body) = pi_size info" if "result = Inr info" for info
      using ok [OF that] by (rule conjunct2)
    show "result = Inl HashMismatch" if "sha content \<noteq> h" using that True by contradiction
    show "stored_bytes s3 k w' = stored_bytes s3 k w"
      if "k \<noteq> payload_key owner project h \<and> k \<noteq> upload_key owner project upload" for k
      using that by (elim conjE) (rule frame)
  qed
qed

text \<open>A service that keeps its objects in a map, with a listing in one page.\<close>

definition map_service :: "(string \<rightharpoonup> bytes) s3_service" where
  "map_service = \<lparr>s3_put = (\<lambda>k n t b w. (w(k \<mapsto> b), True)),
     s3_copy = (\<lambda>src dst t w. case w src of None \<Rightarrow> (w, False) | Some b \<Rightarrow> (w(dst \<mapsto> b), True)),
     s3_delete = (\<lambda>k w. (w(k := None), True)),
     s3_head = (\<lambda>k w. case w k of None \<Rightarrow> HeadNotFound | Some b \<Rightarrow> HeadFound (Some (int (length b))) None),
     s3_get = (\<lambda>k r w. case w k of None \<Rightarrow> GetNoSuchKey
       | Some b \<Rightarrow> GetFound \<lparr>gb_chunks = [Some b], gb_content_length = Some (int (length b)),
           gb_content_range = None, gb_content_type = None\<rparr>),
     s3_list = (\<lambda>t w. Some \<lparr>pg_objects = [\<lparr>lo_key = Some ''users/u/projects/p/uploads/x'', lo_modified_secs = Some 0\<rparr>,
         \<lparr>lo_key = Some ''users/u/projects/p/payloads/sha256/ab/abc'', lo_modified_secs = Some 0\<rparr>], pg_next = None\<rparr>)\<rparr>"

lemma map_service_local: "s3_local map_service"
  by (auto simp: s3_local_def map_service_def stored_bytes_def split: option.splits)

theorem put_payload_verified_witness:
  "\<exists>w' info. put_payload map_service (\<lambda>b. if b = [1, 2] then sample_hash else []) ''bk'' ''x'' ''u'' ''p'' sample_hash ''t'' [1, 2] Map.empty
      = (w', Inr info) \<and> stored_bytes map_service (payload_key ''u'' ''p'' sample_hash) w' = Some [1, 2]"
proof -
  let ?put = "put_payload map_service (\<lambda>b. if b = [1, 2] then sample_hash else []) ''bk'' ''x'' ''u'' ''p'' sample_hash ''t'' [1, 2] Map.empty"
  have ne: "payload_key ''u'' ''p'' sample_hash \<noteq> upload_key ''u'' ''p'' ''x''"
    by (simp add: payload_key_def upload_key_def)
  then have "\<exists>info. snd ?put = Inr info"
    by (simp add: put_payload_def store_content_def map_service_def head_key_info_def Let_def verify_stored_def verify_key_hash_def i64_max_def u64_max_def)
  then obtain w' info where run: "?put = (w', Inr info)" by (cases ?put) auto
  from put_payload_verified [OF map_service_local run, THEN conjunct1, rule_format, OF refl] have
    "\<exists>body. stored_bytes map_service (payload_key ''u'' ''p'' sample_hash) w' = Some body
      \<and> (if body = [1, 2] then sample_hash else []) = sample_hash" by blast
  then obtain body where "stored_bytes map_service (payload_key ''u'' ''p'' sample_hash) w' = Some body"
    "(if body = [1, 2] then sample_hash else []) = sample_hash" by (elim exE conjE)
  moreover have "sample_hash \<noteq> []" by (simp add: sample_hash_def)
  ultimately have "stored_bytes map_service (payload_key ''u'' ''p'' sample_hash) w' = Some [1, 2]"
    by (simp split: if_splits)
  with run show ?thesis by (intro exI conjI)
qed

subsection \<open>Orphans\<close>

lemma delete_page_changes:
  assumes "s3_local s3" and "delete_page s3 refs older objects n w = (w', r)"
    and "stored_bytes s3 k w' \<noteq> stored_bytes s3 k w"
  shows "managed_object k \<and> k \<notin> set refs"
  using assms(2,3)
proof (induction objects arbitrary: n w)
  case (Cons x objects)
  show ?case
  proof (cases "orphan refs older x")
    case False
    with Cons show ?thesis by auto
  next
    case True
    then obtain key where key: "lo_key x = Some key" "managed_object key" "key \<notin> set refs"
      by (auto simp: orphan_def split: option.splits)
    obtain w1 d where del: "delete_key s3 key w = (w1, d)" by (cases "delete_key s3 key w")
    show ?thesis
    proof (cases "k = key")
      case True
      with key show ?thesis by simp
    next
      case False
      then have same: "stored_bytes s3 k w1 = stored_bytes s3 k w"
        using assms(1) del unfolding s3_local_def delete_key_def by (auto split: prod.splits) (metis fst_conv)
      with True key del Cons.prems Cons.IH [of "n + 1" w1] show ?thesis by (auto split: sum.splits)
    qed
  qed
qed simp

text \<open>A listing that ends within \<open>n\<close> pages, whatever state the service is in.\<close>

fun listing_ends :: "'w s3_service \<Rightarrow> nat \<Rightarrow> string option \<Rightarrow> bool" where
  "listing_ends s3 0 token = False"
| "listing_ends s3 (Suc n) token =
    (\<forall>w page t. s3_list s3 token w = Some page \<longrightarrow> pg_next page = Some t \<longrightarrow> listing_ends s3 n (Some t))"

lemma delete_loop_ends:
  assumes "s3_local s3" and "listing_ends s3 fuel token"
  shows "\<exists>w' r. delete_orphans_loop s3 refs older fuel token n w = Some (w', r)
    \<and> (\<forall>k. stored_bytes s3 k w' \<noteq> stored_bytes s3 k w \<longrightarrow> managed_object k \<and> k \<notin> set refs)"
  using assms(2)
proof (induction fuel arbitrary: token n w)
  case (Suc fuel)
  show ?case
  proof (cases "s3_list s3 token w")
    case None
    then show ?thesis by simp
  next
    case (Some page)
    obtain w1 r1 where del: "delete_page s3 refs older (pg_objects page) n w = (w1, r1)"
      by (cases "delete_page s3 refs older (pg_objects page) n w")
    note changed = delete_page_changes [OF assms(1) del]
    show ?thesis
    proof (cases "(\<exists>er. r1 = Inl er) \<or> pg_next page = None")
      case True
      with Some del changed show ?thesis by (auto split: sum.splits)
    next
      case False
      then obtain n1 t where r1: "r1 = Inr n1" and t: "pg_next page = Some t" by (cases r1) auto
      with Suc.prems Some have "listing_ends s3 fuel (Some t)" by auto
      from Suc.IH [OF this, of n1 w1] obtain w' r where
        run: "delete_orphans_loop s3 refs older fuel (Some t) n1 w1 = Some (w', r)"
        and rest: "\<forall>k. stored_bytes s3 k w' \<noteq> stored_bytes s3 k w1 \<longrightarrow> managed_object k \<and> k \<notin> set refs"
        by blast
      have "managed_object k \<and> k \<notin> set refs" if "stored_bytes s3 k w' \<noteq> stored_bytes s3 k w" for k
        using that rest changed [of k] by (cases "stored_bytes s3 k w' = stored_bytes s3 k w1") auto
      with run r1 t Some del show ?thesis by auto
    qed
  qed
qed simp

text \<open>C28. The cleanup of orphans ends and is safe: if the listing of the bucket ends within \<open>n\<close>
  pages, so does the loop, with a count or an error, and the only objects it can have removed are
  uploads, snapshots and bootstrap manifests that no catalog row refers to; no referenced object is
  touched, also when it fails half way.\<close>

theorem delete_orphans_safe:
  assumes "s3_local s3" and "listing_ends s3 n None"
  shows "\<exists>w' result. delete_orphans s3 n referenced older_than w = Some (w', result)
    \<and> (\<forall>k. stored_bytes s3 k w' \<noteq> stored_bytes s3 k w \<longrightarrow> managed_object k \<and> k \<notin> set referenced)"
  using delete_loop_ends [OF assms] by (simp add: delete_orphans_def)

theorem delete_orphans_safe_witness:
  "\<exists>w' result. delete_orphans map_service 1 [''users/u/projects/p/snapshots/s''] (hours 1)
      [''users/u/projects/p/uploads/x'' \<mapsto> [1]] = Some (w', result)
    \<and> stored_bytes map_service ''users/u/projects/p/snapshots/s'' w'
      = stored_bytes map_service ''users/u/projects/p/snapshots/s'' [''users/u/projects/p/uploads/x'' \<mapsto> [1]]"
proof -
  have "listing_ends map_service 1 None" by (simp add: map_service_def)
  from delete_orphans_safe [OF map_service_local this, of "[''users/u/projects/p/snapshots/s'']" "hours 1"
      "[''users/u/projects/p/uploads/x'' \<mapsto> [1]]"]
  show ?thesis by (elim exE conjE allE [of _ "''users/u/projects/p/snapshots/s''"]) auto
qed

end
