(* ===== verification/Limits.thy ===== *)
theory Limits
  imports Schema "HOL-Library.AList"
begin

text \<open>
  The limits on requests: the fixed-window limiter each API process keeps in memory
  (\<open>crates/api/src/auth.rs\<close>), the limiter all processes share through the table
  \<open>distributed_rate_limit_buckets\<close> (\<open>crates/persistence/src/lib.rs\<close>), and the budget of temporary
  bytes that concurrent uploads reserve (\<open>crates/api/src/lib.rs\<close>).
\<close>

subsection \<open>The limiter of a process\<close>

datatype auth_operation =
    Login
  | Refresh
  | AdminLogin
  | AdminRefresh
  | AdminReauth
  | PayloadUpload
  | PurgeOperation
  | InvitationActivation
  | Register
  | WebLogin
  | WebRefresh
  | WebInvitationActivation
  | WebLogout

fun operation_as_str :: "auth_operation \<Rightarrow> string" where
  "operation_as_str Login = ''login''"
| "operation_as_str Refresh = ''refresh''"
| "operation_as_str AdminLogin = ''admin_login''"
| "operation_as_str AdminRefresh = ''admin_refresh''"
| "operation_as_str AdminReauth = ''admin_reauth''"
| "operation_as_str PayloadUpload = ''payload_upload''"
| "operation_as_str PurgeOperation = ''purge''"
| "operation_as_str InvitationActivation = ''invitation_activation''"
| "operation_as_str Register = ''register''"
| "operation_as_str WebLogin = ''web_login''"
| "operation_as_str WebRefresh = ''web_refresh''"
| "operation_as_str WebInvitationActivation = ''web_invitation_activation''"
| "operation_as_str WebLogout = ''web_logout''"

definition auth_rate_limit :: int where
  "auth_rate_limit = 120"

definition auth_rate_period :: int where
  "auth_rate_period = minutes 1"

definition auth_rate_max_keys :: nat where
  "auth_rate_max_keys = 10000"

record rate_window =
  rw_started_at :: instant
  rw_requests :: int

text \<open>A \<open>HashMap\<close> as an association list, one entry per key.\<close>

record auth_rate_limiter =
  al_windows :: "(string \<times> rate_window) list"
  al_last_cleanup :: instant

definition new_limiter :: "instant \<Rightarrow> auth_rate_limiter" where
  "new_limiter now = \<lparr>al_windows = [], al_last_cleanup = now\<rparr>"

text \<open>
  \<open>Instant::elapsed\<close> of the monotone clock, zero for an instant in the future. The clock is read
  several times during one call, which the model takes as one reading.
\<close>

definition elapsed :: "instant \<Rightarrow> instant \<Rightarrow> int" where
  "elapsed now started = max 0 (now - started)"

definition cleanup_windows :: "instant \<Rightarrow> auth_rate_limiter \<Rightarrow> auth_rate_limiter" where
  "cleanup_windows now lim =
    (if elapsed now (al_last_cleanup lim) \<ge> auth_rate_period
     then lim\<lparr>al_windows := filter (\<lambda>(_, w). elapsed now (rw_started_at w) < auth_rate_period) (al_windows lim),
              al_last_cleanup := now\<rparr>
     else lim)"

definition rate_key :: "auth_operation \<Rightarrow> string \<Rightarrow> string" where
  "rate_key operation key = operation_as_str operation @ '':'' @ key"

definition open_window :: "instant \<Rightarrow> rate_window option \<Rightarrow> rate_window" where
  "open_window now entry =
    (case entry of
       None \<Rightarrow> \<lparr>rw_started_at = now, rw_requests = 0\<rparr>
     | Some w \<Rightarrow> if elapsed now (rw_started_at w) \<ge> auth_rate_period
                 then \<lparr>rw_started_at = now, rw_requests = 0\<rparr> else w)"

definition allow :: "instant \<Rightarrow> auth_operation \<Rightarrow> string \<Rightarrow> auth_rate_limiter \<Rightarrow> auth_rate_limiter \<times> bool" where
  "allow now operation key lim =
    (let lim1 = cleanup_windows now lim; k = rate_key operation key in
     if map_of (al_windows lim1) k = None \<and> length (al_windows lim1) \<ge> auth_rate_max_keys then (lim1, False)
     else (let w = open_window now (map_of (al_windows lim1) k) in
       if rw_requests w \<ge> auth_rate_limit
       then (lim1\<lparr>al_windows := AList.update k w (al_windows lim1)\<rparr>, False)
       else (lim1\<lparr>al_windows := AList.update k (w\<lparr>rw_requests := rw_requests w + 1\<rparr>) (al_windows lim1)\<rparr>, True)))"

subsection \<open>The shared limiter\<close>

definition i32_max :: int where
  "i32_max = 2147483647"

text \<open>
  The INSERT ... ON CONFLICT of one call. \<open>hash\<close> is the SHA-256 of the bucket key with its prefix,
  the limit is a \<open>u32\<close>, the period a number of whole seconds; the count is an \<open>integer\<close> column.
\<close>

definition effective_limit :: "int \<Rightarrow> int" where
  "effective_limit limit = (if max limit 1 \<le> i32_max then max limit 1 else i32_max)"

definition window_over :: "env \<Rightarrow> int \<Rightarrow> bucket_row \<Rightarrow> bool" where
  "window_over e period_seconds b \<longleftrightarrow> db_now e \<ge> rb_window_started b + seconds (max period_seconds 1)"

definition count_request :: "env \<Rightarrow> int \<Rightarrow> bucket_row \<Rightarrow> bucket_row" where
  "count_request e period_seconds b =
    (if window_over e period_seconds b then b\<lparr>rb_window_started := db_now e, rb_count := 1\<rparr>
     else b\<lparr>rb_count := rb_count b + 1\<rparr>)"

definition consume_distributed_rate_limit ::
    "(string \<Rightarrow> bytes) \<Rightarrow> env \<Rightarrow> string \<Rightarrow> int \<Rightarrow> int \<Rightarrow> bool txn" where
  "consume_distributed_rate_limit bucket_hash e bucket_key limit period_seconds s =
    (case List.find (\<lambda>b. rb_hash b = bucket_hash bucket_key) (rate_buckets s) of
       None \<Rightarrow> (s\<lparr>rate_buckets := rate_buckets s @
                   [\<lparr>rb_hash = bucket_hash bucket_key, rb_window_started = db_now e, rb_count = 1\<rparr>]\<rparr>,
                Inr (1 \<le> effective_limit limit))
     | Some b \<Rightarrow>
         if rb_count (count_request e period_seconds b) > i32_max then (s, Inl Database)
         else (s\<lparr>rate_buckets := update_where (\<lambda>b. rb_hash b = bucket_hash bucket_key)
                   (count_request e period_seconds) (rate_buckets s)\<rparr>,
               Inr (rb_count (count_request e period_seconds b) \<le> effective_limit limit)))"

definition prune_distributed_rate_limits :: "env \<Rightarrow> int \<Rightarrow> nat txn" where
  "prune_distributed_rate_limits e limit s =
    (let expired = take (nat (max limit 1)) (sort_key rb_window_started
           (filter (\<lambda>b. rb_window_started b < db_now e - minutes 10) (rate_buckets s)));
         doomed = (\<lambda>b. rb_hash b \<in> set (map rb_hash expired)) in
     (s\<lparr>rate_buckets := delete_where doomed (rate_buckets s)\<rparr>, Inr (rows_affected doomed (rate_buckets s))))"

interpretation count_request: key_update rb_hash "count_request e p" for e p
  by unfold_locales (simp add: count_request_def)

subsection \<open>The budget of temporary bytes\<close>

definition u64_limit :: int where
  "u64_limit = 18446744073709551615"

definition default_upload_temp_max_bytes :: int where
  "default_upload_temp_max_bytes = 512 * 1024 * 1024"

text \<open>\<open>str::parse::<u64>\<close>.\<close>

fun digits_value :: "int \<Rightarrow> string \<Rightarrow> int option" where
  "digits_value acc [] = Some acc"
| "digits_value acc (c # s) =
    (if is_ascii_digit c \<and> acc * 10 + (int (of_char c) - 48) \<le> u64_limit
     then digits_value (acc * 10 + (int (of_char c) - 48)) s else None)"

definition parse_u64 :: "string \<Rightarrow> int option" where
  "parse_u64 t =
    (let body = (case t of [] \<Rightarrow> [] | c # s \<Rightarrow> if c = CHR ''+'' then s else t) in
     if body = [] then None else digits_value 0 body)"

text \<open>A limit from the environment: at least one mebibyte, otherwise the default.\<close>

definition env_byte_limit :: "int \<Rightarrow> string option \<Rightarrow> int" where
  "env_byte_limit dflt variable =
    (case Option.bind variable parse_u64 of
       None \<Rightarrow> dflt
     | Some n \<Rightarrow> if n \<ge> 1024 * 1024 then n else dflt)"

definition upload_budget_max :: "string option \<Rightarrow> int" where
  "upload_budget_max variable = env_byte_limit default_upload_temp_max_bytes variable"

text \<open>
  The loop of \<open>reserve\<close> as the steps of a thread, interleaved with those of every other: a load,
  a compare-and-exchange that succeeds, or fails with the value observed (it may fail for no
  reason), a refusal, and the drop of a reservation, whose \<open>fetch_sub\<close> wraps around.
\<close>

datatype upload_thread = NotReserving | Trying int int | Holding int

record upload_budget =
  ub_used :: int
  ub_threads :: "upload_thread list"

definition next_used :: "int \<Rightarrow> int \<Rightarrow> int \<Rightarrow> int option" where
  "next_used max_bytes bytes current =
    (if current + bytes > u64_limit then None
     else if current + bytes > max_bytes then None else Some (current + bytes))"

definition fetch_sub :: "int \<Rightarrow> int \<Rightarrow> int" where
  "fetch_sub used bytes = (used - bytes) mod (u64_limit + 1)"

inductive budget_step :: "int \<Rightarrow> upload_budget \<Rightarrow> upload_budget \<Rightarrow> bool" for max_bytes where
  load: "\<lbrakk> i < length (ub_threads s); ub_threads s ! i = NotReserving; 0 \<le> bytes; bytes \<le> u64_limit \<rbrakk> \<Longrightarrow>
    budget_step max_bytes s (s\<lparr>ub_threads := (ub_threads s)[i := Trying bytes (ub_used s)]\<rparr>)"
| refuse: "\<lbrakk> i < length (ub_threads s); ub_threads s ! i = Trying bytes current;
      next_used max_bytes bytes current = None \<rbrakk> \<Longrightarrow>
    budget_step max_bytes s (s\<lparr>ub_threads := (ub_threads s)[i := NotReserving]\<rparr>)"
| exchange: "\<lbrakk> i < length (ub_threads s); ub_threads s ! i = Trying bytes current;
      next_used max_bytes bytes current = Some next'; current = ub_used s \<rbrakk> \<Longrightarrow>
    budget_step max_bytes s \<lparr>ub_used = next', ub_threads = (ub_threads s)[i := Holding bytes]\<rparr>"
| observe: "\<lbrakk> i < length (ub_threads s); ub_threads s ! i = Trying bytes current;
      next_used max_bytes bytes current \<noteq> None \<rbrakk> \<Longrightarrow>
    budget_step max_bytes s (s\<lparr>ub_threads := (ub_threads s)[i := Trying bytes (ub_used s)]\<rparr>)"
| release: "\<lbrakk> i < length (ub_threads s); ub_threads s ! i = Holding bytes \<rbrakk> \<Longrightarrow>
    budget_step max_bytes s \<lparr>ub_used = fetch_sub (ub_used s) bytes, ub_threads = (ub_threads s)[i := NotReserving]\<rparr>"

definition idle_budget :: "nat \<Rightarrow> upload_budget" where
  "idle_budget n = \<lparr>ub_used = 0, ub_threads = replicate n NotReserving\<rparr>"

end
