(* ===== verification/Limits_Props.thy ===== *)
theory Limits_Props
  imports Limits Sample
begin

text \<open>
  What the limits promise. The two request limiters are fixed-window counters: a locale states
  what one does to the window of a key, and derives that no span of one period sees more than
  twice the limit; both are interpretations. The reservations of the upload budget never exceed
  it, whatever the interleaving of the threads.
\<close>

subsection \<open>Fixed windows\<close>

text \<open>
  What may happen to the window (start and count) of a key when no request of this key is granted:
  its count may grow, and it may be forgotten once it is over.
\<close>

definition kept :: "int \<Rightarrow> instant \<Rightarrow> (instant \<times> int) option \<Rightarrow> (instant \<times> int) option \<Rightarrow> bool" where
  "kept period now w w' \<longleftrightarrow>
    (case w of
       None \<Rightarrow> w' = None
     | Some (st, n) \<Rightarrow> (\<exists>n' \<ge> n. w' = Some (st, n')) \<or> (w' = None \<and> st + period \<le> now))"

text \<open>What a granted request does: it is counted in the running window, or it opens a new one.\<close>

definition counted :: "int \<Rightarrow> int \<Rightarrow> instant \<Rightarrow> (instant \<times> int) option \<Rightarrow> (instant \<times> int) option \<Rightarrow> bool" where
  "counted period limit now w w' \<longleftrightarrow>
    (\<exists>st n. w' = Some (st, n) \<and> n \<le> limit
      \<and> ((\<exists>m < n. w = Some (st, m) \<and> now < st + period)
         \<or> (st = now \<and> 1 \<le> n \<and> (case w of None \<Rightarrow> True | Some (st0, _) \<Rightarrow> st0 + period \<le> now))))"

text \<open>The ledger of granted requests: the key, the start of the window it was counted in, the time.\<close>

type_synonym 'k grants = "('k \<times> instant \<times> instant) list"

definition in_window :: "'k \<Rightarrow> instant \<Rightarrow> 'k grants \<Rightarrow> 'k grants" where
  "in_window k st gs = filter (\<lambda>(k', st', _). k' = k \<and> st' = st) gs"

definition in_span :: "'k \<Rightarrow> instant \<Rightarrow> instant \<Rightarrow> 'k grants \<Rightarrow> 'k grants" where
  "in_span k a b gs = filter (\<lambda>(k', _, t). k' = k \<and> a \<le> t \<and> t < b) gs"

text \<open>The key and time of each request that a run of timed events grants.\<close>

fun granted_times :: "(instant \<Rightarrow> 'e \<Rightarrow> 's \<Rightarrow> 's \<times> 'k option) \<Rightarrow> (instant \<times> 'e) list \<Rightarrow> 's \<Rightarrow> ('k \<times> instant) list" where
  "granted_times step [] s = []"
| "granted_times step ((now, e) # evs) s =
    (case step now e s of
       (s', None) \<Rightarrow> granted_times step evs s'
     | (s', Some k) \<Rightarrow> (k, now) # granted_times step evs s')"

definition grants_between :: "'k \<Rightarrow> instant \<Rightarrow> instant \<Rightarrow> ('k \<times> instant) list \<Rightarrow> nat" where
  "grants_between k a b ts = length (filter (\<lambda>(k', t). k' = k \<and> a \<le> t \<and> t < b) ts)"

locale fixed_window =
  fixes step :: "instant \<Rightarrow> 'e \<Rightarrow> 's \<Rightarrow> 's \<times> 'k option"
    and window :: "'k \<Rightarrow> 's \<Rightarrow> (instant \<times> int) option"
    and good :: "'s \<Rightarrow> bool"
    and period :: int
    and limit :: int
  assumes period_pos: "0 < period"
    and limit_nonneg: "0 \<le> limit"
    and good_step: "good s \<Longrightarrow> good (fst (step now e s))"
    and refused: "good s \<Longrightarrow> step now e s = (s', g) \<Longrightarrow> g \<noteq> Some k \<Longrightarrow> kept period now (window k s) (window k s')"
    and granted: "good s \<Longrightarrow> step now e s = (s', Some k) \<Longrightarrow> counted period limit now (window k s) (window k s')"
begin

text \<open>A run of timed events, with the ledger of what it grants.\<close>

definition next_state :: "instant \<times> 'e \<Rightarrow> 's \<times> 'k grants \<Rightarrow> 's \<times> 'k grants" where
  "next_state ev st =
    (case step (fst ev) (snd ev) (fst st) of
       (s', None) \<Rightarrow> (s', snd st)
     | (s', Some k) \<Rightarrow> (s', snd st @ [(k, fst (the (window k s')), fst ev)]))"

definition run :: "(instant \<times> 'e) list \<Rightarrow> 's \<Rightarrow> 's \<times> 'k grants" where
  "run evs s = fold next_state evs (s, [])"

definition ledger_ok :: "'k grants \<Rightarrow> bool" where
  "ledger_ok gs \<longleftrightarrow>
    (\<forall>k st. int (length (in_window k st gs)) \<le> limit)
  \<and> (\<forall>(k, st, t) \<in> set gs. st \<le> t \<and> t < st + period)
  \<and> (\<forall>(k, st, t) \<in> set gs. \<forall>(k', st', t') \<in> set gs. k = k' \<and> st < st' \<longrightarrow> st + period \<le> st')"

definition live_ok :: "instant \<Rightarrow> 's \<Rightarrow> 'k grants \<Rightarrow> bool" where
  "live_ok now s gs \<longleftrightarrow>
    (\<forall>k. case window k s of
       None \<Rightarrow> \<forall>(k', st, t) \<in> set gs. k' = k \<longrightarrow> st + period \<le> now
     | Some (st0, n) \<Rightarrow> st0 \<le> now \<and> int (length (in_window k st0 gs)) \<le> n
         \<and> (\<forall>(k', st, t) \<in> set gs. k' = k \<and> st \<noteq> st0 \<longrightarrow> st + period \<le> st0))"

lemma in_window_append:
  "in_window k st (gs @ [(k', st', t)]) = in_window k st gs @ (if k' = k \<and> st' = st then [(k', st', t)] else [])"
  by (simp add: in_window_def)

lemma in_window_new: "(\<And>k' st' t. (k', st', t) \<in> set gs \<Longrightarrow> k' = k \<Longrightarrow> st' \<noteq> st) \<Longrightarrow> in_window k st gs = []"
  by (auto simp: in_window_def filter_empty_conv)

lemma live_okD:
  assumes "live_ok now s gs" and "(k, st, t) \<in> set gs"
  shows "window k s = None \<Longrightarrow> st + period \<le> now"
    and "window k s = Some (st0, n) \<Longrightarrow> st = st0 \<or> st + period \<le> st0"
  using assms unfolding live_ok_def by (fastforce dest!: spec [of _ k])+

lemma live_ok_window:
  assumes "live_ok now s gs" and "window k s = Some (st0, n)"
  shows "st0 \<le> now" and "int (length (in_window k st0 gs)) \<le> n"
  using assms unfolding live_ok_def by (fastforce dest!: spec [of _ k])+

text \<open>A key whose requests are not granted at this step keeps its part of the invariant.\<close>

lemma kept_live:
  assumes live: "live_ok now0 s gs" and "now0 \<le> now" and kept: "kept period now (window k s) w'"
  shows "case w' of
       None \<Rightarrow> \<forall>(k', st, t) \<in> set gs. k' = k \<longrightarrow> st + period \<le> now
     | Some (st0, n) \<Rightarrow> st0 \<le> now \<and> int (length (in_window k st0 gs)) \<le> n
         \<and> (\<forall>(k', st, t) \<in> set gs. k' = k \<and> st \<noteq> st0 \<longrightarrow> st + period \<le> st0)"
proof (cases "window k s")
  case None
  then have "w' = None" using kept by (simp add: kept_def)
  then show ?thesis using live_okD(1) [OF live] None assms(2) by fastforce
next
  case (Some w)
  obtain st n where w: "w = (st, n)" by (cases w)
  have past: "st' = st \<or> st' + period \<le> st" if "(k, st', t) \<in> set gs" for st' t
    using live_okD(2) [OF live that] Some w by simp
  have start: "st \<le> now0" and len: "int (length (in_window k st gs)) \<le> n"
    using live_ok_window [OF live] Some w by simp_all
  consider (grown) n' where "n \<le> n'" "w' = Some (st, n')" | (over) "w' = None" "st + period \<le> now"
    using kept Some w by (auto simp: kept_def)
  then show ?thesis
  proof cases
    case grown
    then show ?thesis using start len past assms(2) by force
  next
    case over
    then have "st' + period \<le> now" if "(k, st', t) \<in> set gs" for st' t
      using past [OF that] period_pos by auto
    then show ?thesis using over by auto
  qed
qed

lemma refused_live:
  assumes "good s" "live_ok now0 s gs" "now0 \<le> now" "step now e s = (s', None)"
  shows "live_ok now s' gs"
  unfolding live_ok_def using kept_live [OF assms(2,3)] refused [OF assms(1,4)] by blast

text \<open>A granted request: the ledger stays in order.\<close>

lemma granted_entry:
  assumes live: "live_ok now0 s gs" and "now0 \<le> now"
    and counted: "counted period limit now (window k s) (window k s')"
  obtains st n where "window k s' = Some (st, n)" "n \<le> limit" "st \<le> now" "now < st + period"
    "int (length (in_window k st gs)) + 1 \<le> n"
    "\<And>st' t. (k, st', t) \<in> set gs \<Longrightarrow> st' = st \<or> st' + period \<le> st"
proof -
  from counted obtain st n where w': "window k s' = Some (st, n)" "n \<le> limit"
    and how: "(\<exists>m < n. window k s = Some (st, m) \<and> now < st + period)
      \<or> (st = now \<and> 1 \<le> n \<and> (case window k s of None \<Rightarrow> True | Some (st0, _) \<Rightarrow> st0 + period \<le> now))"
    by (auto simp: counted_def)
  from how consider (running) m where "m < n" "window k s = Some (st, m)" "now < st + period"
    | (opened) "st = now" "1 \<le> n" "case window k s of None \<Rightarrow> True | Some (st0, _) \<Rightarrow> st0 + period \<le> now" by blast
  then show thesis
  proof cases
    case running
    then show thesis
      using that [OF w'] live_ok_window [OF live running(2)] live_okD(2) [OF live _ running(2)] assms(2) by simp
  next
    case opened
    have past: "st' + period \<le> now" if "(k, st', t) \<in> set gs" for st' t
    proof (cases "window k s")
      case None
      then show ?thesis using live_okD(1) [OF live that] assms(2) by simp
    next
      case (Some w)
      then show ?thesis using live_okD(2) [OF live that, of "fst w" "snd w"] opened(3) period_pos by (cases w) auto
    qed
    then have "in_window k st gs = []" using opened(1) period_pos by (intro in_window_new) force
    with past opened show thesis using that [OF w'] period_pos by simp
  qed
qed

lemma granted_ledger:
  assumes ok: "ledger_ok gs" and st: "st \<le> now" "now < st + period" and len: "int (length (in_window k st gs)) + 1 \<le> limit"
    and past: "\<And>st' t. (k, st', t) \<in> set gs \<Longrightarrow> st' = st \<or> st' + period \<le> st"
  shows "ledger_ok (gs @ [(k, st, now)])"
proof -
  let ?g = "(k, st, now)"
  have c1: "int (length (in_window k' st' (gs @ [?g]))) \<le> limit" for k' st'
    using ok len by (auto simp: ledger_ok_def in_window_append)
  have c2: "st' \<le> t \<and> t < st' + period" if "(k', st', t) \<in> set (gs @ [?g])" for k' st' t
    using ok st that by (auto simp: ledger_ok_def)
  have c3: "st1 + period \<le> st2" if m: "(k', st1, t1) \<in> set (gs @ [?g])" "(k', st2, t2) \<in> set (gs @ [?g])" "st1 < st2"
    for k' st1 st2 t1 t2
  proof -
    have old: "st1 + period \<le> st2" if "(k', st1, t1) \<in> set gs" "(k', st2, t2) \<in> set gs"
      using ok that m(3) unfolding ledger_ok_def by fast
    have before: "st1 + period \<le> st" if "(k, st1, t1) \<in> set gs" "st1 < st" using past [OF that(1)] that(2) by auto
    have after: "\<not> st < st2" if "(k, st2, t2) \<in> set gs" using past [OF that] period_pos by auto
    from m old before after show ?thesis by auto
  qed
  show ?thesis unfolding ledger_ok_def using c1 c2 c3 by blast
qed

lemma granted_live:
  assumes good: "good s" and live: "live_ok now0 s gs" and "now0 \<le> now" and step: "step now e s = (s', Some k)"
    and w': "window k s' = Some (st, n)" "st \<le> now" "int (length (in_window k st gs)) + 1 \<le> n"
    and past: "\<And>st' t. (k, st', t) \<in> set gs \<Longrightarrow> st' = st \<or> st' + period \<le> st"
  shows "live_ok now s' (gs @ [(k, st, now)])"
  unfolding live_ok_def
proof
  fix j
  show "case window j s' of
       None \<Rightarrow> \<forall>(k', st', t) \<in> set (gs @ [(k, st, now)]). k' = j \<longrightarrow> st' + period \<le> now
     | Some (st0, n) \<Rightarrow> st0 \<le> now \<and> int (length (in_window j st0 (gs @ [(k, st, now)]))) \<le> n
         \<and> (\<forall>(k', st', t) \<in> set (gs @ [(k, st, now)]). k' = j \<and> st' \<noteq> st0 \<longrightarrow> st' + period \<le> st0)"
  proof (cases "j = k")
    case True
    then show ?thesis using w' past by (auto simp: in_window_append)
  next
    case False
    then have "kept period now (window j s) (window j s')" using refused [OF good step] by simp
    from kept_live [OF live assms(3) this] False show ?thesis
      by (auto simp: in_window_append split: option.splits prod.splits)
  qed
qed

definition run_ok :: "instant \<Rightarrow> 's \<times> 'k grants \<Rightarrow> bool" where
  "run_ok now st \<longleftrightarrow> good (fst st) \<and> ledger_ok (snd st) \<and> live_ok now (fst st) (snd st)"

lemma next_state_ok:
  assumes "run_ok now0 st" and "now0 \<le> fst ev"
  shows "run_ok (fst ev) (next_state ev st)"
proof -
  obtain s gs where st: "st = (s, gs)" by (cases st)
  from assms(1) have good: "good s" and ledger: "ledger_ok gs" and live: "live_ok now0 s gs" by (simp_all add: st run_ok_def)
  obtain s' g where step: "step (fst ev) (snd ev) s = (s', g)" by (cases "step (fst ev) (snd ev) s")
  have good': "good s'" using good_step [OF good, of "fst ev" "snd ev"] by (simp add: step)
  show ?thesis
  proof (cases g)
    case None
    then have "live_ok (fst ev) s' gs" using refused_live [OF good live assms(2)] step by simp
    with good' ledger None show ?thesis by (simp add: run_ok_def next_state_def st step)
  next
    case (Some k)
    with step have sk: "step (fst ev) (snd ev) s = (s', Some k)" by simp
    from granted_entry [OF live assms(2) granted [OF good sk]] obtain w n where
      w: "window k s' = Some (w, n)" "n \<le> limit" "w \<le> fst ev" "fst ev < w + period"
      "int (length (in_window k w gs)) + 1 \<le> n"
      and past: "\<And>st' t. (k, st', t) \<in> set gs \<Longrightarrow> st' = w \<or> st' + period \<le> w" by blast
    have "ledger_ok (gs @ [(k, w, fst ev)])" using w past by (intro granted_ledger [OF ledger]) auto
    moreover have "live_ok (fst ev) s' (gs @ [(k, w, fst ev)])" by (rule granted_live [OF good live assms(2) sk w(1,3,5) past])
    ultimately show ?thesis using good' Some w(1) by (simp add: run_ok_def next_state_def st sk)
  qed
qed

lemma run_ok_all:
  assumes "run_ok now0 st" and "sorted_wrt (\<le>) (now0 # map fst evs)"
  shows "\<exists>now. run_ok now (fold next_state evs st)"
  using assms
proof (induction evs arbitrary: now0 st)
  case Nil
  then show ?case by auto
next
  case (Cons ev evs)
  from Cons.prems(2) have "now0 \<le> fst ev" and "sorted_wrt (\<le>) (fst ev # map fst evs)" by auto
  with Cons.IH [OF next_state_ok [OF Cons.prems(1)]] show ?case by simp
qed

text \<open>At most two windows meet a span of one period.\<close>

lemma two_windows:
  assumes ok: "ledger_ok gs"
  shows "\<exists>st1 st2. \<forall>st t. (k, st, t) \<in> set (in_span k a (a + period) gs) \<longrightarrow> st = st1 \<or> st = st2"
proof (rule ccontr)
  let ?span = "set (in_span k a (a + period) gs)"
  assume no: "\<not> ?thesis"
  then obtain st1 t1 where g1: "(k, st1, t1) \<in> ?span" by blast
  from no obtain st2 t2 where g2: "(k, st2, t2) \<in> ?span" "st2 \<noteq> st1" by blast
  from no obtain st3 t3 where g3: "(k, st3, t3) \<in> ?span" "st3 \<noteq> st1" "st3 \<noteq> st2" by blast
  have near: "a - period < st \<and> st < a + period" if "(k, st, t) \<in> ?span" for st t
    using ok that by (auto simp: ledger_ok_def in_span_def)
  have apart: "st + period \<le> st' \<or> st' + period \<le> st"
    if "(k, st, t) \<in> ?span" "(k, st', t') \<in> ?span" "st \<noteq> st'" for st st' t t'
  proof -
    have "(k, st, t) \<in> set gs" "(k, st', t') \<in> set gs" using that by (auto simp: in_span_def)
    then have "st < st' \<Longrightarrow> st + period \<le> st'" "st' < st \<Longrightarrow> st' + period \<le> st"
      using ok unfolding ledger_ok_def by fast+
    with that(3) show ?thesis by linarith
  qed
  show False
    using apart [OF g1 g2(1)] apart [OF g1 g3(1)] apart [OF g2(1) g3(1)] g2(2) g3(2,3)
      near [OF g1] near [OF g2(1)] near [OF g3(1)] by linarith
qed

lemma span_bound:
  assumes ok: "ledger_ok gs"
  shows "int (length (in_span k a (a + period) gs)) \<le> 2 * limit"
proof -
  let ?span = "in_span k a (a + period) gs"
  obtain st1 st2 where two: "\<forall>st t. (k, st, t) \<in> set ?span \<longrightarrow> st = st1 \<or> st = st2"
    using two_windows [OF ok] by blast
  let ?either = "filter (\<lambda>(k', st, t). k' = k \<and> a \<le> t \<and> t < a + period \<and> (st = st1 \<or> st = st2)) gs"
  have eq: "?span = ?either" using two by (auto simp: in_span_def intro!: filter_cong)
  have "length ?either \<le> length (in_window k st1 gs) + length (in_window k st2 gs)"
    unfolding in_window_def by (induction gs) auto
  with eq have le: "length ?span \<le> length (in_window k st1 gs) + length (in_window k st2 gs)" by simp
  have "int (length (in_window k st gs)) \<le> limit" for st using ok by (simp add: ledger_ok_def)
  from this [of st1] this [of st2] have "int (length (in_window k st1 gs) + length (in_window k st2 gs)) \<le> 2 * limit" by simp
  with le show ?thesis by linarith
qed

lemma run_times:
  "map (\<lambda>(k, _, t). (k, t)) (snd (fold next_state evs (s, gs))) = map (\<lambda>(k, _, t). (k, t)) gs @ granted_times step evs s"
proof (induction evs arbitrary: s gs)
  case (Cons ev evs)
  obtain s' g where "step (fst ev) (snd ev) s = (s', g)" by (cases "step (fst ev) (snd ev) s")
  with Cons.IH show ?case by (cases ev; cases g) (simp_all add: next_state_def)
qed simp

lemma in_span_times: "length (in_span k a b gs) = grants_between k a b (map (\<lambda>(k, _, t). (k, t)) gs)"
  by (induction gs) (auto simp: in_span_def grants_between_def)

lemma run_bound:
  assumes "good s" and "\<And>k. window k s = None" and "sorted_wrt (\<le>) (map fst evs)"
  shows "int (grants_between k a (a + period) (granted_times step evs s)) \<le> 2 * limit"
proof -
  define t0 where "t0 = (case evs of [] \<Rightarrow> 0 | ev # _ \<Rightarrow> fst ev)"
  have "run_ok t0 (s, [])" using assms(1,2) limit_nonneg by (simp add: run_ok_def ledger_ok_def live_ok_def in_window_def)
  moreover have "sorted_wrt (\<le>) (t0 # map fst evs)" using assms(3) by (cases evs) (auto simp: t0_def)
  ultimately obtain now where "run_ok now (fold next_state evs (s, []))" using run_ok_all by blast
  then have "int (length (in_span k a (a + period) (snd (fold next_state evs (s, []))))) \<le> 2 * limit"
    by (intro span_bound) (simp add: run_ok_def)
  then show ?thesis by (simp add: in_span_times run_times)
qed

end

subsection \<open>The limiter of a process\<close>

definition process_step ::
    "instant \<Rightarrow> auth_operation \<times> string \<Rightarrow> auth_rate_limiter \<Rightarrow> auth_rate_limiter \<times> string option" where
  "process_step now request lim =
    (let (lim', allowed) = allow now (fst request) (snd request) lim in
     (lim', if allowed then Some (rate_key (fst request) (snd request)) else None))"

definition process_window :: "string \<Rightarrow> auth_rate_limiter \<Rightarrow> (instant \<times> int) option" where
  "process_window k lim = map_option (\<lambda>w. (rw_started_at w, rw_requests w)) (map_of (al_windows lim) k)"

definition process_good :: "auth_rate_limiter \<Rightarrow> bool" where
  "process_good lim \<longleftrightarrow> distinct (map fst (al_windows lim)) \<and> length (al_windows lim) \<le> auth_rate_max_keys"

lemma map_of_filter_values:
  assumes "distinct (map fst xs)"
  shows "map_of (filter (\<lambda>(_, v). P v) xs) k = (case map_of xs k of None \<Rightarrow> None | Some v \<Rightarrow> if P v then Some v else None)"
  using assms
proof (induction xs)
  case (Cons x xs)
  then have "k = fst x \<Longrightarrow> map_of xs k = None" by (auto simp: map_of_eq_None_iff)
  with Cons show ?case by (cases x) (auto split: option.splits)
qed simp

lemma cleanup_keeps_good: "process_good lim \<Longrightarrow> process_good (cleanup_windows now lim)"
  by (auto simp: process_good_def cleanup_windows_def distinct_map_filter intro: le_trans [OF length_filter_le])

lemma auth_rate_period_pos: "0 < auth_rate_period"
  by (simp add: auth_rate_period_def duration_defs)

lemma cleanup_window:
  assumes "process_good lim"
  shows "kept auth_rate_period now (process_window k lim) (process_window k (cleanup_windows now lim))"
  using assms map_of_filter_values [of "al_windows lim" "\<lambda>w. elapsed now (rw_started_at w) < auth_rate_period" k]
    auth_rate_period_pos
  by (auto simp: kept_def process_window_def cleanup_windows_def process_good_def elapsed_def split: option.splits)

lemma length_update: "length (AList.update k v xs) = (if k \<in> fst ` set xs then length xs else Suc (length xs))"
  by (induction xs) auto

lemma allow_keeps_good:
  assumes "process_good lim"
  shows "process_good (fst (allow now operation key lim))"
proof -
  have "process_good (cleanup_windows now lim)" by (rule cleanup_keeps_good [OF assms])
  then show ?thesis
    by (auto simp: allow_def Let_def process_good_def length_update distinct_update map_of_eq_None_iff not_le Suc_le_eq)
qed

lemma kept_counted: "kept p now w w1 \<Longrightarrow> counted p l now w1 w' \<Longrightarrow> counted p l now w w'"
  by (fastforce simp: kept_def counted_def split: option.splits)

text \<open>The three outcomes of a call, on the windows after the cleanup.\<close>

lemma allow_cases:
  assumes "process_good lim"
  obtains (full) "allow now operation key lim = (cleanup_windows now lim, False)"
  | (over) w where "map_of (al_windows (cleanup_windows now lim)) (rate_key operation key) = Some w"
      "allow now operation key lim
        = ((cleanup_windows now lim)\<lparr>al_windows := AList.update (rate_key operation key) w (al_windows (cleanup_windows now lim))\<rparr>, False)"
  | (granted) w where "w = open_window now (map_of (al_windows (cleanup_windows now lim)) (rate_key operation key))"
      "rw_requests w < auth_rate_limit"
      "allow now operation key lim = ((cleanup_windows now lim)\<lparr>al_windows := AList.update (rate_key operation key)
        (w\<lparr>rw_requests := rw_requests w + 1\<rparr>) (al_windows (cleanup_windows now lim))\<rparr>, True)"
proof -
  let ?lim = "cleanup_windows now lim"
  let ?k = "rate_key operation key"
  let ?w = "open_window now (map_of (al_windows ?lim) ?k)"
  show thesis
  proof (cases "map_of (al_windows ?lim) ?k = None \<and> length (al_windows ?lim) \<ge> auth_rate_max_keys")
    case True
    then show thesis by (intro full) (simp add: allow_def Let_def)
  next
    case False
    show thesis
    proof (cases "rw_requests ?w < auth_rate_limit")
      case True
      show thesis
      proof (rule granted [OF refl True])
        show "allow now operation key lim = (?lim\<lparr>al_windows := AList.update ?k (?w\<lparr>rw_requests := rw_requests ?w + 1\<rparr>) (al_windows ?lim)\<rparr>, True)"
          using False True unfolding allow_def Let_def by (simp del: not_le add: not_le [symmetric])
      qed
    next
      case no: False
      then obtain w where w: "map_of (al_windows ?lim) ?k = Some w" "?w = w"
        by (cases "map_of (al_windows ?lim) ?k") (auto simp: open_window_def auth_rate_limit_def split: if_splits)
      have "allow now operation key lim = (?lim\<lparr>al_windows := AList.update ?k w (al_windows ?lim)\<rparr>, False)"
        using no w unfolding allow_def Let_def by simp
      with w(1) show thesis by (rule over)
    qed
  qed
qed

interpretation process_limit: fixed_window process_step process_window process_good auth_rate_period auth_rate_limit
proof
  show "0 < auth_rate_period" by (rule auth_rate_period_pos)
  show "0 \<le> auth_rate_limit" by (simp add: auth_rate_limit_def)
  show "process_good (fst (process_step now e lim))" if "process_good lim" for now e lim
    using allow_keeps_good [OF that, of now "fst e" "snd e"]
    by (cases "allow now (fst e) (snd e) lim") (simp add: process_step_def)
  show "kept auth_rate_period now (process_window k lim) (process_window k lim')"
    if good: "process_good lim" and step: "process_step now e lim = (lim', g)" and ne: "g \<noteq> Some k" for lim lim' now e g k
  proof -
    have "process_window k lim' = process_window k (cleanup_windows now lim)"
      using step ne by (rule_tac allow_cases [OF good, of now "fst e" "snd e"])
        (auto simp: process_step_def process_window_def AList.update_conv' Let_def split: if_splits)
    with cleanup_window [OF good] show ?thesis by simp
  qed
  show "counted auth_rate_period auth_rate_limit now (process_window k lim) (process_window k lim')"
    if good: "process_good lim" and step: "process_step now e lim = (lim', Some k)" for lim lim' now e k
  proof (rule kept_counted [OF cleanup_window [OF good]], rule allow_cases [OF good, of now "fst e" "snd e"])
    fix w assume "w = open_window now (map_of (al_windows (cleanup_windows now lim)) (rate_key (fst e) (snd e)))"
      "rw_requests w < auth_rate_limit"
      "allow now (fst e) (snd e) lim = ((cleanup_windows now lim)\<lparr>al_windows := AList.update (rate_key (fst e) (snd e))
        (w\<lparr>rw_requests := rw_requests w + 1\<rparr>) (al_windows (cleanup_windows now lim))\<rparr>, True)"
    then show "counted auth_rate_period auth_rate_limit now (process_window k (cleanup_windows now lim)) (process_window k lim')"
      using step auth_rate_period_pos
      by (auto simp: process_step_def process_window_def counted_def open_window_def elapsed_def AList.update_conv'
          auth_rate_limit_def split: option.splits if_splits)
  qed (use step in \<open>auto simp: process_step_def\<close>)
qed


definition process_event :: "instant \<times> auth_operation \<times> string \<Rightarrow> auth_rate_limiter \<Rightarrow> auth_rate_limiter" where
  "process_event ev lim = fst (process_step (fst ev) (snd ev) lim)"

interpretation process_memory: event_system process_event "\<lambda>_. True" process_good
  by unfold_locales (simp add: process_event_def process_limit.good_step)

text \<open>The limiter of a process bounds every client: whatever the sequence of requests of all keys,
  in any span of one minute it grants at most 240 requests of one operation and key (120 for each
  of the two windows that can meet the span), and it never keeps more than 10000 windows.\<close>

theorem auth_limiter_bound:
  assumes "sorted_wrt (\<le>) (map fst evs)"
  shows "int (grants_between (rate_key operation key) a (a + auth_rate_period)
      (granted_times process_step evs (new_limiter t0))) \<le> 2 * auth_rate_limit
    \<and> length (al_windows (fold process_event evs (new_limiter t0))) \<le> auth_rate_max_keys"
proof
  have good: "process_good (new_limiter t0)" by (simp add: process_good_def new_limiter_def)
  moreover have "process_window k (new_limiter t0) = None" for k by (simp add: process_window_def new_limiter_def)
  ultimately show "int (grants_between (rate_key operation key) a (a + auth_rate_period)
      (granted_times process_step evs (new_limiter t0))) \<le> 2 * auth_rate_limit"
    using assms by (rule process_limit.run_bound)
  have "process_good (fold process_event evs (new_limiter t0))" using good by (intro process_memory.run_inv) simp
  then show "length (al_windows (fold process_event evs (new_limiter t0))) \<le> auth_rate_max_keys" by (simp add: process_good_def)
qed

theorem auth_limiter_bound_witness:
  "int (grants_between (rate_key Login ''c'') 0 (0 + auth_rate_period)
      (granted_times process_step [(0, (Login, ''c'')), (1, (Login, ''d'')), (1, (Login, ''c''))] (new_limiter 0))) \<le> 2 * auth_rate_limit
    \<and> grants_between (rate_key Login ''c'') 0 (minutes 1)
      (granted_times process_step [(0, (Login, ''c'')), (1, (Login, ''d'')), (1, (Login, ''c''))] (new_limiter 0)) = 2"
proof
  have "sorted_wrt (\<le>) (map fst [(0::int, (Login, ''c'')), (1, (Login, ''d'')), (1, (Login, ''c''))])" by simp
  from auth_limiter_bound [OF this, of Login "''c''" 0 0, THEN conjunct1]
  show "int (grants_between (rate_key Login ''c'') 0 (0 + auth_rate_period)
      (granted_times process_step [(0, (Login, ''c'')), (1, (Login, ''d'')), (1, (Login, ''c''))] (new_limiter 0))) \<le> 2 * auth_rate_limit" .
  show "grants_between (rate_key Login ''c'') 0 (minutes 1)
      (granted_times process_step [(0, (Login, ''c'')), (1, (Login, ''d'')), (1, (Login, ''c''))] (new_limiter 0)) = 2" by code_simp
qed

subsection \<open>The shared limiter\<close>

datatype shared_event = Consume string | Prune int

text \<open>The events at one period of whole seconds and one limit, at the time of the database.\<close>

definition at_time :: "instant \<Rightarrow> env" where
  "at_time now = \<lparr>db_now = now, app_now = now\<rparr>"

fun shared_step ::
    "(string \<Rightarrow> bytes) \<Rightarrow> int \<Rightarrow> int \<Rightarrow> instant \<Rightarrow> shared_event \<Rightarrow> db \<Rightarrow> db \<times> bytes option" where
  "shared_step hash limit period now (Consume key) s =
    (case consume_distributed_rate_limit hash (at_time now) key limit period s of
       (s', Inr True) \<Rightarrow> (s', Some (hash key))
     | (s', _) \<Rightarrow> (s', None))"
| "shared_step hash limit period now (Prune n) s = (fst (prune_distributed_rate_limits (at_time now) n s), None)"

definition shared_window :: "bytes \<Rightarrow> db \<Rightarrow> (instant \<times> int) option" where
  "shared_window k s = map_option (\<lambda>b. (rb_window_started b, rb_count b)) (List.find (\<lambda>b. rb_hash b = k) (rate_buckets s))"

definition shared_good :: "db \<Rightarrow> bool" where
  "shared_good s \<longleftrightarrow> distinct (map rb_hash (rate_buckets s))"

lemma effective_limit_pos: "1 \<le> effective_limit limit"
  by (simp add: effective_limit_def i32_max_def)

lemma consume_cases:
  obtains (first) "List.find (\<lambda>b. rb_hash b = hash key) (rate_buckets s) = None"
      "consume_distributed_rate_limit hash e key limit period s
        = (s\<lparr>rate_buckets := rate_buckets s @ [\<lparr>rb_hash = hash key, rb_window_started = db_now e, rb_count = 1\<rparr>]\<rparr>, Inr True)"
  | (overflow) "consume_distributed_rate_limit hash e key limit period s = (s, Inl Database)"
  | (counted) b where "List.find (\<lambda>b. rb_hash b = hash key) (rate_buckets s) = Some b"
      "consume_distributed_rate_limit hash e key limit period s
        = (s\<lparr>rate_buckets := update_where (\<lambda>b. rb_hash b = hash key) (count_request e period) (rate_buckets s)\<rparr>,
           Inr (rb_count (count_request e period b) \<le> effective_limit limit))"
proof (cases "List.find (\<lambda>b. rb_hash b = hash key) (rate_buckets s)")
  case None
  then show thesis using effective_limit_pos by (intro first) (simp_all add: consume_distributed_rate_limit_def)
next
  case (Some b)
  show thesis
  proof (cases "rb_count (count_request e period b) > i32_max")
    case True
    with Some show thesis by (intro overflow) (simp add: consume_distributed_rate_limit_def)
  next
    case False
    with Some show thesis by (intro counted) (simp_all add: consume_distributed_rate_limit_def)
  qed
qed

lemma shared_window_counted:
  assumes "List.find (\<lambda>b. rb_hash b = k) (rate_buckets s) = Some b"
  shows "shared_window j (s\<lparr>rate_buckets := update_where (\<lambda>b. rb_hash b = k) (count_request e period) (rate_buckets s)\<rparr>)
    = (if j = k then Some (rb_window_started (count_request e period b), rb_count (count_request e period b)) else shared_window j s)"
  using assms by (cases "List.find (\<lambda>b. rb_hash b = j) (rate_buckets s)")
    (auto simp: shared_window_def count_request.find_update dest: find_SomeD)

lemma prune_window:
  assumes "shared_good s" and "seconds 0 < period" "period \<le> minutes 10"
  shows "kept period now (shared_window k s) (shared_window k (fst (prune_distributed_rate_limits (at_time now) n s)))"
proof (cases "List.find (\<lambda>b. rb_hash b = k) (rate_buckets s)")
  case None
  then have "\<And>b. b \<in> set (rate_buckets s) \<Longrightarrow> rb_hash b \<noteq> k" by (auto simp: find_None_iff)
  then have "List.find (\<lambda>b. rb_hash b = k) (rate_buckets (fst (prune_distributed_rate_limits (at_time now) n s))) = None"
    by (simp add: prune_distributed_rate_limits_def Let_def find_None_iff)
  with None show ?thesis by (simp add: kept_def shared_window_def)
next
  case (Some b)
  define expired where "expired = take (nat (max n 1)) (sort_key rb_window_started
    (filter (\<lambda>b. rb_window_started b < now - minutes 10) (rate_buckets s)))"
  have exp: "b' \<in> set (rate_buckets s) \<and> rb_window_started b' < now - minutes 10" if "b' \<in> set expired" for b'
    using that by (auto simp: expired_def dest: in_set_takeD)
  have after: "rate_buckets (fst (prune_distributed_rate_limits (at_time now) n s))
      = delete_where (\<lambda>b. rb_hash b \<in> rb_hash ` set expired) (rate_buckets s)"
    by (simp add: prune_distributed_rate_limits_def Let_def expired_def at_time_def)
  from Some have b: "b \<in> set (rate_buckets s)" "rb_hash b = k" by (auto dest: find_SomeD)
  have keep: "distinct (map rb_hash (delete_where (\<lambda>b. rb_hash b \<in> rb_hash ` set expired) (rate_buckets s)))"
    using assms(1) by (simp add: shared_good_def delete_where_def distinct_map_filter)
  show ?thesis
  proof (cases "k \<in> rb_hash ` set expired")
    case True
    then obtain b' where b': "b' \<in> set expired" "rb_hash b' = k" by auto
    then have "b' = b" using exp [OF b'(1)] b assms(1) by (auto simp: shared_good_def intro: keyed_table_inj)
    with exp [OF b'(1)] assms have "rb_window_started b + period \<le> now" by simp
    moreover have "List.find (\<lambda>b. rb_hash b = k) (rate_buckets (fst (prune_distributed_rate_limits (at_time now) n s))) = None"
      using True by (auto simp: after find_None_iff)
    ultimately show ?thesis using Some by (simp add: kept_def shared_window_def)
  next
    case False
    then have "b \<in> set (delete_where (\<lambda>b. rb_hash b \<in> rb_hash ` set expired) (rate_buckets s))" using b by auto
    from keyed_table_find [OF keep this b(2)] Some show ?thesis
      by (simp add: kept_def shared_window_def after)
  qed
qed

lemma consume_kept:
  assumes "shared_good s" and "consume_distributed_rate_limit hash (at_time now) key limit period s = (s', r)"
    and "k = hash key \<longrightarrow> r \<noteq> Inr True"
  shows "kept (seconds (max period 1)) now (shared_window k s) (shared_window k s')"
proof (rule consume_cases [of hash key s "at_time now" limit period])
  assume "consume_distributed_rate_limit hash (at_time now) key limit period s = (s, Inl Database)"
  with assms show ?thesis by (auto simp: kept_def split: option.splits)
next
  assume "List.find (\<lambda>b. rb_hash b = hash key) (rate_buckets s) = None" and
    "consume_distributed_rate_limit hash (at_time now) key limit period s
      = (s\<lparr>rate_buckets := rate_buckets s @ [\<lparr>rb_hash = hash key, rb_window_started = db_now (at_time now), rb_count = 1\<rparr>]\<rparr>, Inr True)"
  with assms show ?thesis
    by (auto simp: kept_def shared_window_def find_append split: option.splits)
next
  fix b assume b: "List.find (\<lambda>b. rb_hash b = hash key) (rate_buckets s) = Some b" and
    run: "consume_distributed_rate_limit hash (at_time now) key limit period s
      = (s\<lparr>rate_buckets := update_where (\<lambda>b. rb_hash b = hash key) (count_request (at_time now) period) (rate_buckets s)\<rparr>,
         Inr (rb_count (count_request (at_time now) period b) \<le> effective_limit limit))"
  from run assms(2) have s': "s' = s\<lparr>rate_buckets := update_where (\<lambda>b. rb_hash b = hash key) (count_request (at_time now) period) (rate_buckets s)\<rparr>"
    and r: "r = Inr (rb_count (count_request (at_time now) period b) \<le> effective_limit limit)" by auto
  show ?thesis
  proof (cases "k = hash key")
    case True
    with assms(3) r have "\<not> rb_count (count_request (at_time now) period b) \<le> effective_limit limit" by simp
    then have "\<not> window_over (at_time now) period b" using effective_limit_pos [of limit] by (auto simp: count_request_def)
    then have "count_request (at_time now) period b = b\<lparr>rb_count := rb_count b + 1\<rparr>" by (simp add: count_request_def)
    moreover have "shared_window k s = Some (rb_window_started b, rb_count b)" using True b by (simp add: shared_window_def)
    ultimately show ?thesis using True unfolding s' shared_window_counted [OF b] by (simp add: kept_def)
  next
    case False
    then show ?thesis by (auto simp: kept_def s' shared_window_counted [OF b] split: option.splits)
  qed
qed

lemma consume_counted:
  assumes "consume_distributed_rate_limit hash (at_time now) key limit period s = (s', Inr True)"
  shows "counted (seconds (max period 1)) (effective_limit limit) now (shared_window (hash key) s) (shared_window (hash key) s')"
proof (rule consume_cases [of hash key s "at_time now" limit period])
  assume "consume_distributed_rate_limit hash (at_time now) key limit period s = (s, Inl Database)"
  with assms show ?thesis by simp
next
  assume "List.find (\<lambda>b. rb_hash b = hash key) (rate_buckets s) = None" and
    "consume_distributed_rate_limit hash (at_time now) key limit period s
      = (s\<lparr>rate_buckets := rate_buckets s @ [\<lparr>rb_hash = hash key, rb_window_started = db_now (at_time now), rb_count = 1\<rparr>]\<rparr>, Inr True)"
  with assms effective_limit_pos show ?thesis by (auto simp: counted_def shared_window_def find_append at_time_def)
next
  fix b assume b: "List.find (\<lambda>b. rb_hash b = hash key) (rate_buckets s) = Some b" and
    run: "consume_distributed_rate_limit hash (at_time now) key limit period s
      = (s\<lparr>rate_buckets := update_where (\<lambda>b. rb_hash b = hash key) (count_request (at_time now) period) (rate_buckets s)\<rparr>,
         Inr (rb_count (count_request (at_time now) period b) \<le> effective_limit limit))"
  from run assms have s': "s' = s\<lparr>rate_buckets := update_where (\<lambda>b. rb_hash b = hash key) (count_request (at_time now) period) (rate_buckets s)\<rparr>"
    and le: "rb_count (count_request (at_time now) period b) \<le> effective_limit limit" by auto
  have old: "shared_window (hash key) s = Some (rb_window_started b, rb_count b)" using b by (simp add: shared_window_def)
  show ?thesis unfolding s' shared_window_counted [OF b] old
    using le effective_limit_pos [of limit] by (auto simp: counted_def count_request_def window_over_def at_time_def not_le)
qed

lemma shared_good_step:
  assumes "shared_good s"
  shows "shared_good (fst (shared_step hash limit period now ev s))"
proof (cases ev)
  case (Prune n)
  then show ?thesis using assms
    by (simp add: shared_good_def prune_distributed_rate_limits_def Let_def delete_where_def distinct_map_filter)
next
  case (Consume key)
  have "shared_good (fst (consume_distributed_rate_limit hash (at_time now) key limit period s))"
    using assms by (rule_tac consume_cases [of hash key s "at_time now" limit period])
      (auto simp: shared_good_def find_None_iff count_request.distinct_update)
  then show ?thesis using Consume
    by (cases "consume_distributed_rate_limit hash (at_time now) key limit period s") (auto split: sum.splits bool.splits)
qed

text \<open>
  A period is at least one second; the contract needs that it is no longer than the ten minutes
  after which the worker prunes a bucket.
\<close>

definition short_period :: "int \<Rightarrow> int" where
  "short_period period = min (max period 1) 600"

lemma short_period_range: "seconds 0 < seconds (short_period p)" "seconds (short_period p) \<le> minutes 10"
  by (auto simp: short_period_def duration_defs)

interpretation shared_limit: fixed_window "shared_step hash limit (short_period period)" shared_window shared_good
  "seconds (short_period period)" "effective_limit limit" for hash limit period
proof
  show "0 < seconds (short_period period)" using short_period_range by (simp add: seconds_def)
  show "0 \<le> effective_limit limit" using effective_limit_pos [of limit] by simp
  have one: "max (short_period period) 1 = short_period period" by (simp add: short_period_def)
  show "shared_good (fst (shared_step hash limit (short_period period) now e s))" if "shared_good s" for now e s
    using shared_good_step [OF that] .
  show "kept (seconds (short_period period)) now (shared_window k s) (shared_window k s')"
    if good: "shared_good s" and step: "shared_step hash limit (short_period period) now e s = (s', g)" and ne: "g \<noteq> Some k" for s s' now e g k
  proof (cases e)
    case (Prune n)
    then show ?thesis using prune_window [OF good short_period_range] step by auto
  next
    case (Consume key)
    obtain s1 r where run: "consume_distributed_rate_limit hash (at_time now) key limit (short_period period) s = (s1, r)" by (cases "consume_distributed_rate_limit hash (at_time now) key limit (short_period period) s")
    then have "s1 = s' \<and> (k = hash key \<longrightarrow> r \<noteq> Inr True)" using step ne Consume by (auto split: sum.splits bool.splits)
    with consume_kept [OF good run, of k] one show ?thesis by simp
  qed
  show "counted (seconds (short_period period)) (effective_limit limit) now (shared_window k s) (shared_window k s')"
    if "shared_good s" and step: "shared_step hash limit (short_period period) now e s = (s', Some k)" for s s' now e k
  proof (cases e)
    case (Prune n)
    with step show ?thesis by simp
  next
    case (Consume key)
    then have "consume_distributed_rate_limit hash (at_time now) key limit (short_period period) s = (s', Inr True) \<and> k = hash key"
      using step by (auto split: prod.splits sum.splits bool.splits)
    with consume_counted [of hash now key limit "short_period period" s s'] one show ?thesis by simp
  qed
qed

text \<open>C35. The shared limiter bounds every client across all processes: with a period of at most ten
  minutes, whatever the interleaving of requests of all keys and prunings of the table, at most
  twice the limit of requests of one key is granted in any span of one period.\<close>

theorem shared_limit_bound:
  assumes "sorted_wrt (\<le>) (map fst evs)" and "rate_buckets s = []" and "1 \<le> period" "period \<le> 600"
  shows "int (grants_between k a (a + seconds period) (granted_times (shared_step hash limit period) evs s))
    \<le> 2 * effective_limit limit"
proof -
  have "short_period period = period" using assms by (simp add: short_period_def)
  moreover have "shared_good s" "\<And>k. shared_window k s = None" using assms by (simp_all add: shared_good_def shared_window_def)
  ultimately show ?thesis using shared_limit.run_bound [of s evs k a period hash limit] assms(1) by simp
qed

theorem shared_limit_bound_witness:
  "int (grants_between [1] 0 (0 + seconds 60)
      (granted_times (shared_step (\<lambda>_. [1]) 1 60) [(0, Consume ''c''), (1, Prune 5), (2, Consume ''c'')] sample_db)) \<le> 2 * effective_limit 1
    \<and> grants_between [1] 0 (seconds 60)
      (granted_times (shared_step (\<lambda>_. [1]) 1 60) [(0, Consume ''c''), (1, Prune 5), (2, Consume ''c'')] sample_db) = 1"
proof
  have "sorted_wrt (\<le>) (map fst [(0::int, Consume ''c''), (1, Prune 5), (2, Consume ''c'')])" "rate_buckets sample_db = []"
    "1 \<le> (60::int)" "(60::int) \<le> 600" by (simp_all add: sample_defs)
  from shared_limit_bound [OF this, of "[1]" 0 "\<lambda>_. [1]" 1]
  show "int (grants_between [1] 0 (0 + seconds 60)
      (granted_times (shared_step (\<lambda>_. [1]) 1 60) [(0, Consume ''c''), (1, Prune 5), (2, Consume ''c'')] sample_db)) \<le> 2 * effective_limit 1" .
  show "grants_between [1] 0 (seconds 60)
      (granted_times (shared_step (\<lambda>_. [1]) 1 60) [(0, Consume ''c''), (1, Prune 5), (2, Consume ''c'')] sample_db) = 1" by code_simp
qed

text \<open>
  The worker prunes a bucket ten minutes after its window started, whatever its period. A
  budget with a longer period, like the ten registrations per hour of a client, starts again when
  the worker prunes: a request that the full bucket would refuse is granted afterwards, although
  the window of the first requests is not over.\<close>

theorem pruned_budget_restarts:
  assumes "shared_good s" and b: "List.find (\<lambda>b. rb_hash b = hash key) (rate_buckets s) = Some b"
    and old: "rb_window_started b < now - minutes 10" and running: "now < rb_window_started b + seconds (max period 1)"
    and full: "effective_limit limit \<le> rb_count b" and n: "int (length (rate_buckets s)) \<le> n"
  shows "snd (consume_distributed_rate_limit hash (at_time now) key limit period s) \<noteq> Inr True
    \<and> snd (consume_distributed_rate_limit hash (at_time now) key limit period
        (fst (prune_distributed_rate_limits (at_time now) n s))) = Inr True"
proof
  have "\<not> window_over (at_time now) period b" using running by (simp add: window_over_def at_time_def)
  then show "snd (consume_distributed_rate_limit hash (at_time now) key limit period s) \<noteq> Inr True"
    using b full by (simp add: consume_distributed_rate_limit_def count_request_def)
  let ?old = "filter (\<lambda>b. rb_window_started b < now - minutes 10) (rate_buckets s)"
  have "length (rate_buckets s) \<le> nat (max n 1)" using n by simp
  then have "length (sort_key rb_window_started ?old) \<le> nat (max n 1)"
    unfolding length_sort by (rule le_trans [OF length_filter_le])
  then have all: "take (nat (max n 1)) (sort_key rb_window_started ?old) = sort_key rb_window_started ?old" by simp
  have "b \<in> set ?old" using b old by (auto dest: find_SomeD)
  then have "List.find (\<lambda>b. rb_hash b = hash key) (rate_buckets (fst (prune_distributed_rate_limits (at_time now) n s))) = None"
    using b by (force simp: prune_distributed_rate_limits_def Let_def at_time_def all find_None_iff dest: find_SomeD)
  then show "snd (consume_distributed_rate_limit hash (at_time now) key limit period
      (fst (prune_distributed_rate_limits (at_time now) n s))) = Inr True"
    using effective_limit_pos by (simp add: consume_distributed_rate_limit_def)
qed

definition sample_full_db :: db where
  "sample_full_db = sample_db\<lparr>rate_buckets := [\<lparr>rb_hash = [1], rb_window_started = 0, rb_count = 10\<rparr>]\<rparr>"

theorem pruned_budget_restarts_witness:
  "snd (consume_distributed_rate_limit (\<lambda>_. [1]) (at_time (minutes 11)) ''register-hourly:c'' 10 3600 sample_full_db) \<noteq> Inr True
    \<and> snd (consume_distributed_rate_limit (\<lambda>_. [1]) (at_time (minutes 11)) ''register-hourly:c'' 10 3600
        (fst (prune_distributed_rate_limits (at_time (minutes 11)) 10000 sample_full_db))) = Inr True"
  by (rule pruned_budget_restarts [where b = "\<lparr>rb_hash = [1], rb_window_started = 0, rb_count = 10\<rparr>"])
    (simp_all add: sample_full_db_def shared_good_def duration_defs effective_limit_def i32_max_def)

subsection \<open>The budget of temporary bytes\<close>

fun held_bytes :: "upload_thread \<Rightarrow> int" where
  "held_bytes (Holding n) = n"
| "held_bytes _ = 0"

fun thread_ok :: "upload_thread \<Rightarrow> bool" where
  "thread_ok NotReserving = True"
| "thread_ok (Trying n _) = (0 \<le> n)"
| "thread_ok (Holding n) = (0 \<le> n)"

text \<open>The bytes in use are those of the live reservations, and fit the budget.\<close>

definition budget_ok :: "int \<Rightarrow> upload_budget \<Rightarrow> bool" where
  "budget_ok max_bytes s \<longleftrightarrow> ub_used s = sum_list (map held_bytes (ub_threads s)) \<and> ub_used s \<le> max_bytes
    \<and> (\<forall>t \<in> set (ub_threads s). thread_ok t)"

lemma held_update:
  "i < length ts \<Longrightarrow> sum_list (map held_bytes (ts[i := t])) = sum_list (map held_bytes ts) - held_bytes (ts ! i) + held_bytes t"
  by (induction ts arbitrary: i) (auto simp: nth_Cons' split: nat.splits)

lemma held_nonneg: "budget_ok m s \<Longrightarrow> t \<in> set (ub_threads s) \<Longrightarrow> 0 \<le> held_bytes t"
  by (cases t) (auto simp: budget_ok_def)

lemma held_le_used:
  assumes "budget_ok m s" and "t \<in> set (ub_threads s)"
  shows "held_bytes t \<le> ub_used s"
proof -
  have "held_bytes t \<le> sum_list (map held_bytes (ub_threads s))"
    using assms held_nonneg [OF assms(1)] by (intro member_le_sum_list) auto
  then show ?thesis using assms(1) by (simp add: budget_ok_def)
qed

lemma budget_step_ok:
  assumes ok: "budget_ok m s" and "m \<le> u64_limit" and step: "budget_step m s s'"
  shows "budget_ok m s'"
proof -
  have threads: "\<forall>t \<in> set ((ub_threads s)[i := t']). thread_ok t" if "thread_ok t'" for i t'
    using ok that set_update_subset_insert [of "ub_threads s" i t'] by (auto simp: budget_ok_def)
  have known: "thread_ok (ub_threads s ! i)" if "i < length (ub_threads s)" for i
    using ok that by (simp add: budget_ok_def)
  have used: "ub_used s = sum_list (map held_bytes (ub_threads s))" "ub_used s \<le> m" using ok by (simp_all add: budget_ok_def)
  from step show ?thesis
  proof (cases rule: budget_step.cases)
    case (exchange i bytes current next')
    then have "next' = ub_used s + bytes" "next' \<le> m" by (auto simp: next_used_def split: if_splits)
    with exchange used threads [of "Holding bytes" i] known [of i] show ?thesis by (simp add: budget_ok_def held_update)
  next
    case (release i bytes)
    have mem: "Holding bytes \<in> set (ub_threads s)" using release by (metis nth_mem)
    have range: "0 \<le> bytes" "bytes \<le> ub_used s" using held_nonneg [OF ok mem] held_le_used [OF ok mem] by simp_all
    then have "fetch_sub (ub_used s) bytes = ub_used s - bytes" using used(2) assms(2) by (simp add: fetch_sub_def)
    with release used range threads [of NotReserving i] show ?thesis by (simp add: budget_ok_def held_update)
  next
    case (load i bytes)
    with used threads [of "Trying bytes (ub_used s)" i] show ?thesis by (simp add: budget_ok_def held_update)
  next
    case (refuse i bytes current)
    with used threads [of NotReserving i] show ?thesis by (simp add: budget_ok_def held_update)
  next
    case (observe i bytes current)
    with used threads [of "Trying bytes (ub_used s)" i] known [of i] show ?thesis by (simp add: budget_ok_def held_update)
  qed
qed

text \<open>C36. Concurrent uploads never exceed the budget: in every state that the interleaved loads,
  exchanges, refusals and drops of any number of threads can reach, the counter is the sum of the
  live reservations and at most the budget, so no drop wraps it around.\<close>

theorem upload_budget_kept:
  assumes "(budget_step max_bytes)\<^sup>*\<^sup>* (idle_budget n) s" and "0 \<le> max_bytes" "max_bytes \<le> u64_limit"
  shows "ub_used s = sum_list (map held_bytes (ub_threads s)) \<and> 0 \<le> ub_used s \<and> ub_used s \<le> max_bytes"
proof -
  have "budget_ok max_bytes s" using assms(1)
  proof (induction rule: rtranclp_induct)
    case base
    then show ?case using assms(2) by (simp add: budget_ok_def idle_budget_def sum_list_replicate map_replicate_const)
  next
    case (step s s')
    then show ?case using budget_step_ok assms(3) by blast
  qed
  moreover from this have "0 \<le> sum_list (map held_bytes (ub_threads s))"
    using held_nonneg by (intro sum_list_nonneg) auto
  ultimately show ?thesis by (simp add: budget_ok_def)
qed

text \<open>Two threads read the counter before either adds to it; the second must observe it again.\<close>

theorem upload_budget_kept_witness:
  "\<exists>s. (budget_step 5)\<^sup>*\<^sup>* (idle_budget 2) s \<and> ub_used s = 3 \<and> ub_used s \<le> 5"
proof -
  let ?s1 = "\<lparr>ub_used = 0, ub_threads = [Trying 3 0, NotReserving]\<rparr>"
  let ?s2 = "\<lparr>ub_used = 0, ub_threads = [Trying 3 0, Trying 4 0]\<rparr>"
  let ?s3 = "\<lparr>ub_used = 3, ub_threads = [Holding 3, Trying 4 0]\<rparr>"
  have s1: "budget_step 5 (idle_budget 2) ?s1"
    using budget_step.load [of 0 "idle_budget 2" 3 5] by (simp add: idle_budget_def u64_limit_def numeral_2_eq_2)
  have s2: "budget_step 5 ?s1 ?s2" using budget_step.load [of 1 ?s1 4 5] by (simp add: u64_limit_def)
  have s3: "budget_step 5 ?s2 ?s3" using budget_step.exchange [of 0 ?s2 3 0 5 3] by (simp add: next_used_def u64_limit_def)
  have reach: "(budget_step 5)\<^sup>*\<^sup>* (idle_budget 2) ?s3"
    using s1 s2 s3 by (blast intro: rtranclp.rtrancl_into_rtrancl)
  have "0 \<le> (5::int)" "5 \<le> u64_limit" by (simp_all add: u64_limit_def)
  from upload_budget_kept [OF reach this] reach show ?thesis by (intro exI [of _ ?s3] conjI) (assumption, simp, simp)
qed

end
