(* ===== verification/Worker.thy ===== *)
theory Worker
  imports Restore_Jobs Account_Export Payloads Object_Store Limits Pull
begin

text \<open>
  The worker process (\<open>crates/worker/src/main.rs\<close>): the loops that run restores and purges, the
  export of an account into an archive, the cleanup of orphans, and the two timers. A call on the
  database and a request to the object store are the steps of a world; between two steps other
  processes may change it.
\<close>

subsection \<open>The world of the worker\<close>

datatype worker_error = FromDatabase persistence_error | FromStore object_store_error | Message string

record 'w world =
  w_db :: db
  w_store :: 'w
  w_steps :: nat

text \<open>
  What is outside the program: the clocks at each step, the identifiers \<open>Uuid::new_v4()\<close> draws
  (several in one step), the changes other processes make before a step, the S3 service, the
  hash, the encodings, the archiver (\<open>None\<close> when it fails) and the environment variable.
\<close>

record 'w runtime =
  rt_clock :: "nat \<Rightarrow> env"
  rt_uuid :: "nat \<Rightarrow> nat \<Rightarrow> uuid"
  rt_others :: "nat \<Rightarrow> db \<times> 'w \<Rightarrow> db \<times> 'w"
  rt_s3 :: "'w s3_service"
  rt_sha256 :: "bytes \<Rightarrow> string"
  rt_bucket :: string
  rt_to_vec :: "json \<Rightarrow> bytes"
  rt_parse_uuid :: "string \<Rightarrow> uuid option"
  rt_archive :: "bytes \<Rightarrow> (bytes \<times> string) list \<Rightarrow> bytes option"
  rt_export_tmp_max :: "string option"

type_synonym ('w, 'a) action = "'w world \<Rightarrow> 'w world \<times> (worker_error + 'a)"

definition w_return :: "'a \<Rightarrow> ('w, 'a) action" where
  "w_return x w = (w, Inr x)"

definition w_fail :: "worker_error \<Rightarrow> ('w, 'a) action" where
  "w_fail er w = (w, Inl er)"

text \<open>The \<open>?\<close> operator on an awaited call.\<close>

definition w_bind :: "('w, 'a) action \<Rightarrow> ('a \<Rightarrow> ('w, 'b) action) \<Rightarrow> ('w, 'b) action" where
  "w_bind m f w = (case m w of (w1, Inl er) \<Rightarrow> (w1, Inl er) | (w1, Inr x) \<Rightarrow> f x w1)"

text \<open>A match on the result of an awaited call.\<close>

definition w_match ::
    "('w, 'a) action \<Rightarrow> (worker_error \<Rightarrow> ('w, 'b) action) \<Rightarrow> ('a \<Rightarrow> ('w, 'b) action) \<Rightarrow> ('w, 'b) action" where
  "w_match m h f w = (case m w of (w1, Inl er) \<Rightarrow> h er w1 | (w1, Inr x) \<Rightarrow> f x w1)"

definition tick_world :: "'w runtime \<Rightarrow> 'w world \<Rightarrow> 'w world" where
  "tick_world rt w =
    (let (d, st) = rt_others rt (w_steps w) (w_db w, w_store w) in
     \<lparr>w_db = d, w_store = st, w_steps = Suc (w_steps w)\<rparr>)"

definition db_call :: "'w runtime \<Rightarrow> (env \<Rightarrow> (nat \<Rightarrow> uuid) \<Rightarrow> 'a txn) \<Rightarrow> ('w, 'a) action" where
  "db_call rt t w =
    (let w1 = tick_world rt w;
         (d, r) = t (rt_clock rt (w_steps w)) (rt_uuid rt (w_steps w)) (w_db w1) in
     (w1\<lparr>w_db := d\<rparr>, map_sum FromDatabase id r))"

definition db_read :: "'w runtime \<Rightarrow> (env \<Rightarrow> db \<Rightarrow> 'a outcome) \<Rightarrow> ('w, 'a) action" where
  "db_read rt q = db_call rt (\<lambda>e _ s. (s, q e s))"

definition store_call :: "'w runtime \<Rightarrow> ((nat \<Rightarrow> uuid) \<Rightarrow> ('w, 'a) store_op) \<Rightarrow> ('w, 'a) action" where
  "store_call rt t w =
    (let w1 = tick_world rt w;
         (st, r) = t (rt_uuid rt (w_steps w)) (w_store w1) in
     (w1\<lparr>w_store := st\<rparr>, map_sum FromStore id r))"

fun w_each :: "'a list \<Rightarrow> ('a \<Rightarrow> ('w, unit) action) \<Rightarrow> ('w, unit) action" where
  "w_each [] f = w_return ()"
| "w_each (x # xs) f = w_bind (f x) (\<lambda>_. w_each xs f)"

subsection \<open>Restores\<close>

definition retry_and_fail ::
    "'w runtime \<Rightarrow> uuid \<Rightarrow> uuid \<Rightarrow> string \<Rightarrow> worker_error \<Rightarrow> ('w, 'a) action" where
  "retry_and_fail rt job lease code er =
    w_bind (db_call rt (\<lambda>e _. retry_restore_job_with_lease e job lease code)) (\<lambda>_. w_fail er)"

definition cancel_or_retry ::
    "'w runtime \<Rightarrow> uuid \<Rightarrow> uuid \<Rightarrow> string \<Rightarrow> worker_error \<Rightarrow> ('w, unit) action" where
  "cancel_or_retry rt job lease code er =
    (if er = FromDatabase RestoreCancelled
     then db_call rt (\<lambda>e _. cancel_restore_with_lease e job lease)
     else retry_and_fail rt job lease code er)"

text \<open>The body of the loop, from the pre-restore snapshot to the execution.\<close>

definition run_restore_job :: "'w runtime \<Rightarrow> restore_row \<Rightarrow> uuid \<Rightarrow> ('w, unit) action" where
  "run_restore_job rt job lease =
    w_match (db_call rt (\<lambda>e ids. create_pre_restore_snapshot (rt_to_vec rt) (rt_sha256 rt) e (ids 0) job))
      (cancel_or_retry rt (rj_id job) lease ''PRE_RESTORE_SNAPSHOT_FAILED'')
      (\<lambda>(snapshot_id, owner, body).
        w_bind (db_call rt (\<lambda>e _. renew_restore_lease e (rj_id job) lease)) (\<lambda>_.
        w_match (store_call rt (\<lambda>_. put_manifest (rt_s3 rt) (rt_sha256 rt) (rt_bucket rt) owner (rj_project job)
                   snapshot_id (rt_sha256 rt body) body))
          (retry_and_fail rt (rj_id job) lease ''PRE_RESTORE_MANIFEST_FAILED'')
          (\<lambda>manifest.
            w_bind (db_call rt (\<lambda>_ _. mark_snapshot_ready_for_job (rj_id job) lease snapshot_id
                     (pi_bucket manifest) (pi_key manifest))) (\<lambda>_.
            w_bind (db_call rt (\<lambda>e _. renew_restore_lease e (rj_id job) lease)) (\<lambda>_.
            w_match (db_call rt (\<lambda>e ids. execute_restore_with_lease (rt_parse_uuid rt) e ids (rj_id job) lease))
              (cancel_or_retry rt (rj_id job) lease ''RESTORE_FAILED'')
              (\<lambda>_. w_return ()))))))"

text \<open>
  \<open>while let Some(job) = claim\<close>: the fuel bounds the iterations, running out of it is \<open>None\<close>.
\<close>

fun claim_loop ::
    "nat \<Rightarrow> ('w, 'j option) action \<Rightarrow> ('j \<Rightarrow> ('w, unit) action) \<Rightarrow> 'w world \<Rightarrow> ('w world \<times> (worker_error + unit)) option" where
  "claim_loop 0 claim body w = None"
| "claim_loop (Suc fuel) claim body w =
    (case claim w of
       (w1, Inl er) \<Rightarrow> Some (w1, Inl er)
     | (w1, Inr None) \<Rightarrow> Some (w1, Inr ())
     | (w1, Inr (Some job)) \<Rightarrow>
         (case body job w1 of
            (w2, Inl er) \<Rightarrow> Some (w2, Inl er)
          | (w2, Inr _) \<Rightarrow> claim_loop fuel claim body w2))"

definition process_restore_jobs :: "'w runtime \<Rightarrow> nat \<Rightarrow> 'w world \<Rightarrow> ('w world \<times> (worker_error + unit)) option" where
  "process_restore_jobs rt fuel =
    claim_loop fuel (db_call rt (\<lambda>e ids. claim_restore_job e (ids 0)))
      (\<lambda>job. case rj_lease job of
         None \<Rightarrow> w_fail (Message ''restore claim missing lease token'')
       | Some lease \<Rightarrow> run_restore_job rt job lease)"

subsection \<open>Account exports\<close>

definition default_export_tmp_max_bytes :: int where
  "default_export_tmp_max_bytes = 2 * 1024 * 1024 * 1024"

text \<open>\<open>copy\<close> of a body into a file: an interrupted transfer is an error.\<close>

definition copy_body :: "bytes option list \<Rightarrow> worker_error + bytes" where
  "copy_body chunks = (case those chunks of None \<Rightarrow> Inl (Message ''io'') | Some cs \<Rightarrow> Inr (concat cs))"

definition download_payload ::
    "'w runtime \<Rightarrow> uuid \<Rightarrow> uuid \<Rightarrow> int \<Rightarrow> account_export_payload \<Rightarrow> int \<Rightarrow> ('w, int \<times> bytes) action" where
  "download_payload rt job lease max_bytes payload temporary_bytes =
    w_bind (db_call rt (\<lambda>e _. renew_account_purge_lease e job lease)) (\<lambda>_.
    w_bind (store_call rt (\<lambda>_ st. (st, get_key (rt_s3 rt) (xp_object_key payload) st))) (\<lambda>download.
      case pd_content_length download of
        None \<Rightarrow> w_fail (Message ''export payload size unavailable'')
      | Some n \<Rightarrow>
          if n < 0 then w_fail (Message ''export payload size unavailable'')
          else if temporary_bytes + n > u64_limit then w_fail (Message ''export temporary size overflow'')
          else if temporary_bytes + n > max_bytes then w_fail (Message ''export temporary capacity exceeded'')
          else (case copy_body (pd_chunks download) of
                  Inl er \<Rightarrow> w_fail er
                | Inr body \<Rightarrow> w_return (temporary_bytes + n, body))))"

fun download_payloads ::
    "'w runtime \<Rightarrow> uuid \<Rightarrow> uuid \<Rightarrow> int \<Rightarrow> account_export_payload list \<Rightarrow> int \<Rightarrow> ('w, int \<times> (bytes \<times> string) list) action" where
  "download_payloads rt job lease max_bytes [] temporary_bytes = w_return (temporary_bytes, [])"
| "download_payloads rt job lease max_bytes (payload # rest) temporary_bytes =
    w_bind (download_payload rt job lease max_bytes payload temporary_bytes) (\<lambda>(n, body).
    w_bind (download_payloads rt job lease max_bytes rest n) (\<lambda>(total, files).
      w_return (total, (body, xp_archive_path payload) # files)))"

text \<open>The read loop of \<open>hash_file\<close> over a file, in buffers of one mebibyte.\<close>

function hash_file_loop :: "bytes \<Rightarrow> int \<Rightarrow> bytes \<Rightarrow> worker_error + (bytes \<times> int)" where
  "hash_file_loop rest n acc =
    (let buffer = take 1048576 rest in
     if buffer = [] then Inr (acc, n)
     else if n + int (length buffer) > u64_limit then Inl (Message ''archive size overflow'')
     else hash_file_loop (drop 1048576 rest) (n + int (length buffer)) (acc @ buffer))"
  by pat_completeness auto
termination
  by (relation "measure (\<lambda>(rest, _, _). length rest)") auto

declare hash_file_loop.simps [simp del]

definition hash_file :: "(bytes \<Rightarrow> string) \<Rightarrow> bytes \<Rightarrow> worker_error + (string \<times> int)" where
  "hash_file sha content = try_bind (hash_file_loop content 0 []) (\<lambda>(body, n). Inr (sha body, n))"

definition export_account :: "'w runtime \<Rightarrow> uuid \<Rightarrow> uuid \<Rightarrow> ('w, unit) action" where
  "export_account rt job lease =
    w_bind (db_read rt (\<lambda>e. prepare_account_export (rt_to_vec rt) (rt_parse_uuid rt) e job lease)) (\<lambda>export.
    (let max_bytes = env_byte_limit default_export_tmp_max_bytes (rt_export_tmp_max rt) in
     w_bind (download_payloads rt job lease max_bytes (xd_payloads export) (int (length (xd_manifest export)))) (\<lambda>(temporary_bytes, files).
     (case rt_archive rt (xd_manifest export) files of
        None \<Rightarrow> w_fail (Message ''io'')
      | Some archive \<Rightarrow>
          if temporary_bytes + int (length archive) > u64_limit \<or> temporary_bytes + int (length archive) > max_bytes
          then w_fail (Message ''export temporary capacity exceeded'')
          else (case hash_file (rt_sha256 rt) archive of
             Inl er \<Rightarrow> w_fail er
           | Inr (hash, n) \<Rightarrow>
               w_bind (store_call rt (\<lambda>_. put_export_file (rt_s3 rt) (rt_sha256 rt) (rt_bucket rt) (xd_owner export)
                        (xd_export export) hash (Some archive) n)) (\<lambda>_.
               db_call rt (\<lambda>e _. complete_account_export (rt_parse_uuid rt) e job lease (xd_export export) hash n)))))))"

subsection \<open>Purges\<close>

definition process_account_purge_job :: "'w runtime \<Rightarrow> uuid \<Rightarrow> uuid \<Rightarrow> ('w, unit) action" where
  "process_account_purge_job rt job lease =
    w_bind (db_read rt (\<lambda>e. account_purge_phase e job lease)) (\<lambda>phase.
      if phase = ''export'' then export_account rt job lease
      else w_bind (db_call rt (\<lambda>e _. prepare_account_purge (rt_parse_uuid rt) e job lease)) (\<lambda>keys.
        w_bind (w_each keys (\<lambda>key. store_call rt (\<lambda>_. delete_key (rt_s3 rt) key))) (\<lambda>_.
        db_call rt (\<lambda>e _. complete_account_purge (rt_parse_uuid rt) e job lease))))"

definition run_account_purge :: "'w runtime \<Rightarrow> uuid \<Rightarrow> uuid \<Rightarrow> ('w, unit) action" where
  "run_account_purge rt job lease =
    w_match (process_account_purge_job rt job lease)
      (\<lambda>er. w_bind (db_call rt (\<lambda>e _. fail_account_purge e job lease ''ACCOUNT_PURGE_FAILED'')) (\<lambda>_. w_fail er))
      (\<lambda>_. w_return ())"

definition fail_purge_with :: "'w runtime \<Rightarrow> uuid \<Rightarrow> uuid \<Rightarrow> string \<Rightarrow> worker_error \<Rightarrow> ('w, 'a) action" where
  "fail_purge_with rt job lease code er =
    w_bind (db_call rt (\<lambda>e _. fail_project_purge e job lease code)) (\<lambda>_. w_fail er)"

definition run_project_purge :: "'w runtime \<Rightarrow> uuid \<Rightarrow> uuid \<Rightarrow> ('w, unit) action" where
  "run_project_purge rt job lease =
    w_match (db_call rt (\<lambda>e _. prepare_project_purge e job lease))
      (fail_purge_with rt job lease ''PURGE_DETACH_FAILED'')
      (\<lambda>keys. w_bind (w_each keys (\<lambda>key. w_match (store_call rt (\<lambda>_. delete_key (rt_s3 rt) key))
            (fail_purge_with rt job lease ''PURGE_OBJECT_DELETE_FAILED'') w_return)) (\<lambda>_.
          db_call rt (\<lambda>e _. complete_project_purge e job lease)))"

definition with_job_lease :: "string \<Rightarrow> (uuid \<Rightarrow> uuid \<Rightarrow> ('w, unit) action) \<Rightarrow> job_row \<Rightarrow> ('w, unit) action" where
  "with_job_lease missing body job =
    (case j_lease job of None \<Rightarrow> w_fail (Message missing) | Some lease \<Rightarrow> body (j_id job) lease)"

definition process_account_purges :: "'w runtime \<Rightarrow> nat \<Rightarrow> 'w world \<Rightarrow> ('w world \<times> (worker_error + unit)) option" where
  "process_account_purges rt fuel =
    claim_loop fuel (db_call rt (\<lambda>e ids. claim_account_purge_job e (ids 0)))
      (with_job_lease ''account purge claim missing lease token'' (run_account_purge rt))"

definition process_project_purges :: "'w runtime \<Rightarrow> nat \<Rightarrow> 'w world \<Rightarrow> ('w world \<times> (worker_error + unit)) option" where
  "process_project_purges rt fuel =
    claim_loop fuel (db_call rt (\<lambda>e ids. claim_project_purge_job e (ids 0)))
      (with_job_lease ''purge claim missing lease token'' (run_project_purge rt))"

definition process_purge_jobs :: "'w runtime \<Rightarrow> nat \<Rightarrow> 'w world \<Rightarrow> ('w world \<times> (worker_error + unit)) option" where
  "process_purge_jobs rt fuel w =
    (case process_account_purges rt fuel w of
       None \<Rightarrow> None
     | Some (w1, Inl er) \<Rightarrow> Some (w1, Inl er)
     | Some (w1, Inr _) \<Rightarrow> process_project_purges rt fuel w1)"

subsection \<open>Cleanup\<close>

definition delete_keys :: "'w runtime \<Rightarrow> string list \<Rightarrow> ('w, unit) action" where
  "delete_keys rt keys = w_each keys (\<lambda>key. store_call rt (\<lambda>_. delete_key (rt_s3 rt) key))"

text \<open>
  One catalog entry, under its advisory lock; the lock connection is released or rolled back
  without a change of the database.
\<close>

definition clean_payload :: "'w runtime \<Rightarrow> instant \<Rightarrow> uuid \<times> string \<Rightarrow> ('w, unit) action" where
  "clean_payload rt cutoff entry =
    w_bind (db_read rt (\<lambda>_. unreferenced_payload_key (fst entry) (snd entry) cutoff)) (\<lambda>found.
      case found of
        None \<Rightarrow> w_return ()
      | Some key \<Rightarrow>
          w_bind (store_call rt (\<lambda>_. delete_key (rt_s3 rt) key)) (\<lambda>_.
          db_call rt (\<lambda>_ _. delete_payload_row (fst entry) (snd entry))))"

text \<open>One payload object without a catalog row.\<close>

definition clean_object :: "'w runtime \<Rightarrow> string \<Rightarrow> ('w, unit) action" where
  "clean_object rt object_key =
    (case parse_payload_key (rt_parse_uuid rt) object_key of
       None \<Rightarrow> w_return ()
     | Some (_, project_id, content_hash) \<Rightarrow>
         w_bind (db_read rt (\<lambda>_ s. Inr (payload_is_referenced project_id content_hash s))) (\<lambda>referenced.
           if referenced then w_return ()
           else store_call rt (\<lambda>_. delete_key (rt_s3 rt) object_key)))"

definition stale_keys_call :: "'w runtime \<Rightarrow> nat \<Rightarrow> string list \<Rightarrow> instant \<Rightarrow> ('w, string list) action" where
  "stale_keys_call rt pages referenced cutoff =
    store_call rt (\<lambda>_ st. (st, case stale_payload_keys (rt_s3 rt) pages referenced cutoff st of
        None \<Rightarrow> Inl Backend | Some r \<Rightarrow> r))"

definition delete_orphans_call :: "'w runtime \<Rightarrow> nat \<Rightarrow> string list \<Rightarrow> instant \<Rightarrow> ('w, unit) action" where
  "delete_orphans_call rt pages referenced cutoff =
    store_call rt (\<lambda>_ st. case delete_orphans (rt_s3 rt) pages referenced cutoff st of
        None \<Rightarrow> (st, Inl Backend) | Some (st1, r) \<Rightarrow> (st1, map_sum id (\<lambda>_. ()) r))"

text \<open>
  \<open>cleanup_orphans\<close>; the cutoff is the application's clock minus 24 hours, \<open>pages\<close> bounds the
  listings of the bucket.
\<close>

definition cleanup_orphans :: "'w runtime \<Rightarrow> nat \<Rightarrow> ('w, unit) action" where
  "cleanup_orphans rt pages w =
    (let cutoff = app_now (rt_clock rt (w_steps w)) - hours 24 in
     w_bind (db_call rt (\<lambda>_ _. expire_pending_snapshots cutoff)) (\<lambda>expired_snapshots.
     w_bind (delete_keys rt expired_snapshots) (\<lambda>_.
     w_bind (db_call rt (\<lambda>e _. expire_bootstrap_manifests e 1000)) (\<lambda>expired_manifests.
     w_bind (delete_keys rt expired_manifests) (\<lambda>_.
     w_bind (db_call rt (\<lambda>e _. expire_account_purge_exports e 1000)) (\<lambda>expired_exports.
     w_bind (delete_keys rt expired_exports) (\<lambda>_.
     w_bind (db_call rt (\<lambda>e _. purge_expired_idempotency_records e 1000)) (\<lambda>_.
     w_bind (db_read rt (\<lambda>_ s. Inr (unreferenced_payload_keys cutoff s))) (\<lambda>candidates.
     w_bind (w_each candidates (clean_payload rt cutoff)) (\<lambda>_.
     w_bind (db_read rt (\<lambda>e s. Inr (referenced_payload_keys e s))) (\<lambda>referenced.
     w_bind (stale_keys_call rt pages referenced cutoff) (\<lambda>stale.
     w_bind (w_each stale (clean_object rt)) (\<lambda>_.
     w_bind (db_read rt (\<lambda>e s. Inr (referenced_payload_keys e s))) (\<lambda>referenced.
     delete_orphans_call rt pages referenced cutoff))))))))))))) w)"

subsection \<open>The timers\<close>

text \<open>Errors of a tick are logged and the next tick comes; \<open>None\<close> when the fuel runs out.\<close>

definition restore_tick :: "'w runtime \<Rightarrow> nat \<Rightarrow> 'w world \<Rightarrow> 'w world option" where
  "restore_tick rt fuel w =
    (case process_restore_jobs rt fuel w of
       None \<Rightarrow> None
     | Some (w1, _) \<Rightarrow> map_option fst (process_purge_jobs rt fuel w1))"

definition auth_failure_retention_days :: int where
  "auth_failure_retention_days = 90"

definition cleanup_tick :: "'w runtime \<Rightarrow> nat \<Rightarrow> 'w world \<Rightarrow> 'w world" where
  "cleanup_tick rt pages w =
    (let w1 = fst (cleanup_orphans rt pages w);
         w2 = fst (db_call rt (\<lambda>e _. prune_distributed_rate_limits e 10000) w1) in
     fst (db_call rt (\<lambda>e _. prune_old_auth_failures e auth_failure_retention_days 1000) w2))"

text \<open>
  Both processes remove stale files of a directory when they start. The listing ends at the first
  entry that cannot be read (\<open>None\<close>); a name may not be UTF-8, the metadata of an entry and its time
  may be missing, and a removal may fail, which leaves the entry.
\<close>

record dir_entry =
  de_name :: "string option"
  de_metadata :: bool
  de_modified :: "instant option"
  de_removable :: bool

definition older_than :: "instant \<Rightarrow> dir_entry \<Rightarrow> bool" where
  "older_than cutoff entry \<longleftrightarrow>
    de_metadata entry \<and> (case de_modified entry of None \<Rightarrow> False | Some t \<Rightarrow> t < cutoff)"

fun remaining_entries :: "(dir_entry \<Rightarrow> bool) \<Rightarrow> dir_entry option list \<Rightarrow> dir_entry option list" where
  "remaining_entries stale [] = []"
| "remaining_entries stale (None # es) = None # es"
| "remaining_entries stale (Some x # es) =
    (if stale x \<and> de_removable x then remaining_entries stale es else Some x # remaining_entries stale es)"

text \<open>The start of the worker removes entries of the export directory older than 24 hours.\<close>

definition stale_export_entry :: "instant \<Rightarrow> dir_entry \<Rightarrow> bool" where
  "stale_export_entry now entry \<longleftrightarrow> older_than (now - hours 24) entry"

definition cleanup_export_temp_dir :: "instant \<Rightarrow> dir_entry option list \<Rightarrow> dir_entry option list" where
  "cleanup_export_temp_dir now entries = remaining_entries (stale_export_entry now) entries"

text \<open>An entry goes only if it is stale; every stale one that can be removed goes when the listing is complete.\<close>

lemma remaining_keeps:
  assumes "Some x \<in> set es" and "\<not> stale x"
  shows "Some x \<in> set (remaining_entries stale es)"
  using assms by (induction stale es rule: remaining_entries.induct) auto

lemma remaining_subset: "set (remaining_entries stale es) \<subseteq> set es"
  by (induction stale es rule: remaining_entries.induct) auto

lemma remaining_clean:
  assumes "None \<notin> set es" and "Some x \<in> set (remaining_entries stale es)" and "de_removable x"
  shows "\<not> stale x"
  using assms by (induction stale es rule: remaining_entries.induct) (auto split: if_splits)

end
