(* ===== verification/Worker_Props.thy ===== *)
theory Worker_Props
  imports Worker Restore_Props Purge_Props Object_Store_Props
begin

text \<open>
  What the worker achieves: the restore loop ends, a purge that is interrupted after the detachment
  of an account never finishes, and no run of the cleanup reaches its later stages.
\<close>

subsection \<open>Reasoning about actions\<close>

text \<open>No other process changes the world between the steps.\<close>

definition alone :: "'w runtime \<Rightarrow> bool" where
  "alone rt \<longleftrightarrow> rt_others rt = (\<lambda>_ x. x)"

lemma alone_tick: "alone rt \<Longrightarrow> w_db (tick_world rt w) = w_db w" "alone rt \<Longrightarrow> w_store (tick_world rt w) = w_store w"
  by (simp_all add: alone_def tick_world_def)

text \<open>An action that keeps a reflexive and transitive relation between the databases.\<close>

definition keeps :: "(db \<Rightarrow> db \<Rightarrow> bool) \<Rightarrow> ('w, 'a) action \<Rightarrow> bool" where
  "keeps R m \<longleftrightarrow> (\<forall>w. R (w_db w) (w_db (fst (m w))))"

definition always_fails :: "('w, 'a) action \<Rightarrow> bool" where
  "always_fails m \<longleftrightarrow> (\<forall>w. \<exists>er. snd (m w) = Inl er)"

text \<open>What holds whenever an action succeeds.\<close>

definition ends_in :: "(db \<Rightarrow> bool) \<Rightarrow> ('w, 'a) action \<Rightarrow> bool" where
  "ends_in Q m \<longleftrightarrow> (\<forall>w w' x. m w = (w', Inr x) \<longrightarrow> Q (w_db w'))"

lemma map_sum_Inr: "map_sum f id r = Inr x \<longleftrightarrow> r = Inr x"
  by (cases r) auto

lemma always_fails_bind1: "always_fails m \<Longrightarrow> always_fails (w_bind m f)"
  unfolding always_fails_def
proof
  fix w assume "\<forall>w. \<exists>er. snd (m w) = Inl er"
  then obtain w1 er where "m w = (w1, Inl er)" by (cases "m w") (metis snd_conv)
  then show "\<exists>er. snd (w_bind m f w) = Inl er" by (simp add: w_bind_def)
qed

lemma always_fails_bind2: "(\<And>x. always_fails (f x)) \<Longrightarrow> always_fails (w_bind m f)"
  unfolding always_fails_def w_bind_def by (auto split: prod.split sum.split)

lemma ends_in_bind: "(\<And>x. ends_in Q (f x)) \<Longrightarrow> ends_in Q (w_bind m f)"
  unfolding ends_in_def w_bind_def by (auto split: prod.splits sum.splits)

lemma ends_in_match: "(\<And>er. ends_in Q (h er)) \<Longrightarrow> (\<And>x. ends_in Q (f x)) \<Longrightarrow> ends_in Q (w_match m h f)"
  unfolding ends_in_def w_match_def by (auto split: prod.splits sum.splits)

lemma ends_in_match_return: "(\<And>er. ends_in Q (h er)) \<Longrightarrow> ends_in Q m \<Longrightarrow> ends_in Q (w_match m h (\<lambda>_. w_return ()))"
  unfolding ends_in_def w_match_def w_return_def by (auto split: prod.splits sum.splits)

lemma ends_in_fail [simp]: "ends_in Q (w_fail er)"
  by (simp add: ends_in_def w_fail_def)

lemma ends_in_db_call:
  "(\<And>e ids s s' x. t e ids s = (s', Inr x) \<Longrightarrow> Q s') \<Longrightarrow> ends_in Q (db_call rt t)"
  unfolding ends_in_def db_call_def Let_def by (auto split: prod.splits simp: map_sum_Inr)

lemma keeps_if: "keeps R a \<Longrightarrow> keeps R b \<Longrightarrow> keeps R (if c then a else b)"
  by simp

text \<open>The relations of interest, closed under the composition of actions.\<close>

locale world_relation =
  fixes R :: "db \<Rightarrow> db \<Rightarrow> bool"
  assumes refl: "R s s" and trans: "R s1 s2 \<Longrightarrow> R s2 s3 \<Longrightarrow> R s1 s3"
begin

lemma keeps_return [simp]: "keeps R (w_return x)"
  by (simp add: keeps_def w_return_def refl)

lemma keeps_fail [simp]: "keeps R (w_fail er)"
  by (simp add: keeps_def w_fail_def refl)

lemma keeps_bind: "keeps R m \<Longrightarrow> (\<And>x. keeps R (f x)) \<Longrightarrow> keeps R (w_bind m f)"
  unfolding keeps_def w_bind_def by (auto split: prod.split sum.split) (metis fst_conv trans)+

lemma keeps_match: "keeps R m \<Longrightarrow> (\<And>er. keeps R (h er)) \<Longrightarrow> (\<And>x. keeps R (f x)) \<Longrightarrow> keeps R (w_match m h f)"
  unfolding keeps_def w_match_def by (auto split: prod.split sum.split) (metis fst_conv trans)+

lemma keeps_each: "(\<And>x. keeps R (f x)) \<Longrightarrow> keeps R (w_each xs f)"
  by (induction xs) (auto intro: keeps_bind)

lemma keeps_db_call: "alone rt \<Longrightarrow> (\<And>e ids s. R s (fst (t e ids s))) \<Longrightarrow> keeps R (db_call rt t)"
  unfolding keeps_def db_call_def Let_def by (auto simp: alone_tick split: prod.split) (metis fst_conv)

lemma keeps_store_call: "alone rt \<Longrightarrow> keeps R (store_call rt t)"
  unfolding keeps_def store_call_def Let_def by (auto simp: alone_tick refl split: prod.split)

end

subsection \<open>The restore loop ends\<close>

text \<open>Rows of finished restores stay as they are, the others keep their identity.\<close>

definition row_evolves :: "restore_row \<Rightarrow> restore_row \<Rightarrow> bool" where
  "row_evolves j j' \<longleftrightarrow> rj_id j' = rj_id j \<and> (restore_live j \<or> j' = j)"

lemma row_evolves_live: "row_evolves j j' \<Longrightarrow> restore_live j' \<Longrightarrow> restore_live j"
  by (auto simp: row_evolves_def)

lemma row_evolves_trans: "row_evolves a b \<Longrightarrow> row_evolves b c \<Longrightarrow> row_evolves a c"
  by (auto simp: row_evolves_def)

definition evolves :: "restore_row list \<Rightarrow> restore_row list \<Rightarrow> bool" where
  "evolves js js' \<longleftrightarrow> queue_ok js \<longrightarrow> queue_ok js' \<and> list_all2 row_evolves js js'"

definition live_restores :: "db \<Rightarrow> nat" where
  "live_restores s = rows_affected restore_live (restore_jobs s)"

interpretation restore_relation: world_relation "\<lambda>s s'. evolves (restore_jobs s) (restore_jobs s')"
proof
  show "evolves (restore_jobs s) (restore_jobs s)" for s
    by (simp add: evolves_def row_evolves_def list_all2_same)
  show "evolves (restore_jobs s1) (restore_jobs s3)"
    if "evolves (restore_jobs s1) (restore_jobs s2)" "evolves (restore_jobs s2) (restore_jobs s3)" for s1 s2 s3
    using that list_all2_trans [OF row_evolves_trans] by (auto simp: evolves_def)
qed

lemma queue_change_evolves:
  assumes "queue_change js js'" and "length js' = length js"
  shows "evolves js js'"
  unfolding evolves_def
proof (intro impI conjI)
  assume ok: "queue_ok js"
  then show "queue_ok js'" using assms(1) by (rule queue_change_ok)
  from assms obtain P f where js': "js' = update_where P f js" and ch: "\<forall>j \<in> set js. P j \<longrightarrow> row_change j (f j)"
    by (auto simp: queue_change_def)
  then show "list_all2 row_evolves js js'"
    by (auto simp: update_where_def list_all2_map2 list_all2_same row_evolves_def row_change_def)
qed

lemma live_less:
  assumes "list_all2 row_evolves js js'" and "distinct (map rj_id js)"
    and "j \<in> set js" "restore_live j" and "j' \<in> set js'" "\<not> restore_live j'" and "rj_id j' = rj_id j"
  shows "rows_affected restore_live js' < rows_affected restore_live js"
  using assms
proof (induction rule: list_all2_induct)
  case (Cons x xs y ys)
  have le: "rows_affected restore_live ys \<le> rows_affected restore_live xs"
    using Cons.hyps(2) by (induction rule: list_all2_induct) (auto simp: rows_affected_def row_evolves_def)
  have ids: "map rj_id ys = map rj_id xs"
    using Cons.hyps(2) by (induction rule: list_all2_induct) (auto simp: row_evolves_def)
  have key: "rj_id j' \<in> rj_id ` set xs" if "j' \<in> set ys" using that ids by (metis image_eqI list.set_map)
  show ?case
  proof (cases "j = x")
    case True
    then have "j' = y" using Cons.prems key by (auto simp: row_evolves_def)
    with True le Cons.prems Cons.hyps(1) show ?thesis by (simp add: rows_affected_def)
  next
    case False
    then have "j' \<noteq> y" using Cons.prems Cons.hyps(1) by (auto simp: row_evolves_def)
    with False Cons show ?thesis by (auto simp: rows_affected_def row_evolves_def)
  qed
qed simp

text \<open>Each operation of the worker on the queue.\<close>

lemma step_evolves:
  assumes "restore_step tv sha pu ev s = s'" and "length (restore_jobs s') = length (restore_jobs s)"
  shows "evolves (restore_jobs s) (restore_jobs s')"
proof (cases "queue_ok (restore_jobs s)")
  case True
  then show ?thesis using queue_change_evolves restore_step_change [OF True, of tv sha pu ev] assms by blast
next
  case False
  then show ?thesis by (simp add: evolves_def)
qed

lemma length_update_restore [simp]: "length (restore_jobs (update_restore P f s)) = length (restore_jobs s)"
  by (simp add: update_restore_def)

lemma length_claim: "length (restore_jobs (fst (claim_restore_job e lease s))) = length (restore_jobs s)"
  by (simp add: claim_restore_job_def Let_def update_restore_def split: list.split option.split)

lemma length_pre_snapshot: "length (restore_jobs (fst (create_pre_restore_snapshot tv sha e i job s))) = length (restore_jobs s)"
  by (auto simp: create_pre_restore_snapshot_def insert_snapshot_def Let_def update_restore_def split: option.splits sum.splits if_splits)

lemma length_cancel_leased: "length (restore_jobs (fst (cancel_restore_with_lease e j lease s))) = length (restore_jobs s)"
  by (auto simp: cancel_restore_with_lease_def Let_def update_restore_def split: option.splits)

lemma length_execute: "length (restore_jobs (fst (execute_restore_with_lease pu e ids j lease s))) = length (restore_jobs s)"
  by (auto simp: execute_restore_with_lease_def Let_def update_restore_def restore_audit_def simp del: set_map
      split: option.splits sum.splits if_splits dest!: restore_items_frame)

lemma restore_op_evolves:
  "evolves (restore_jobs s) (restore_jobs (fst (claim_restore_job e lease s)))"
  "evolves (restore_jobs s) (restore_jobs (fst (create_pre_restore_snapshot tv sha e i job s)))"
  "evolves (restore_jobs s) (restore_jobs (fst (renew_restore_lease e j lease s)))"
  "evolves (restore_jobs s) (restore_jobs (fst (cancel_restore_with_lease e j lease s)))"
  "evolves (restore_jobs s) (restore_jobs (fst (retry_restore_job_with_lease e j lease code s)))"
  "evolves (restore_jobs s) (restore_jobs (fst (execute_restore_with_lease pu e ids j lease s)))"
  "evolves (restore_jobs s) (restore_jobs (fst (mark_snapshot_ready_for_job j lease i b k s)))"
  using step_evolves [of _ _ _ "(e, EvClaim lease)" s] length_claim [of e lease s]
    step_evolves [of tv sha _ "(e, EvPreSnapshot i job)" s] length_pre_snapshot [of tv sha e i job s]
    step_evolves [of _ _ _ "(e, EvRenew j lease)" s]
    step_evolves [of _ _ _ "(e, EvCancelLeased j lease)" s] length_cancel_leased [of e j lease s]
    step_evolves [of _ _ _ "(e, EvRetryLeased j lease code)" s]
    step_evolves [of _ _ pu "(e, EvExecute ids j lease)" s] length_execute [of pu e ids j lease s]
    restore_relation.refl
  by (simp_all add: renew_restore_lease_def retry_restore_job_with_lease_def mark_snapshot_ready_for_job_def)

lemma run_restore_keeps:
  assumes "alone rt"
  shows "keeps (\<lambda>s s'. evolves (restore_jobs s) (restore_jobs s')) (run_restore_job rt job lease)"
  unfolding run_restore_job_def cancel_or_retry_def retry_and_fail_def prod.case_eq_if
  by (intro restore_relation.keeps_match restore_relation.keeps_bind restore_relation.keeps_store_call
      restore_relation.keeps_db_call restore_relation.keeps_fail restore_relation.keeps_return assms restore_op_evolves
      keeps_if)

text \<open>An iteration that succeeds has settled its job.\<close>

definition settled :: "uuid \<Rightarrow> db \<Rightarrow> bool" where
  "settled job s \<longleftrightarrow>
    list_ex (\<lambda>j. rj_id j = job \<and> (rj_status j = RSucceeded \<or> rj_status j = RCancelled)) (restore_jobs s)"

lemma execute_settles:
  assumes "execute_restore_with_lease pu e ids job lease s = (s', Inr x)"
  shows "settled job s'"
proof -
  from assms obtain row where row: "List.find (holds_lease job lease) (restore_jobs s) = Some row"
    by (cases "List.find (holds_lease job lease) (restore_jobs s)") (simp_all add: execute_restore_with_lease_def)
  with assms obtain target where target: "restore_target pu row s = Inr target"
    by (cases "restore_target pu row s") (auto simp: execute_restore_with_lease_def split: if_splits option.splits)
  have "execute_restore_with_lease pu e ids job lease s = (s', Inr ())" using assms by simp
  then show ?thesis
  proof (rule execute_restoreE [OF _ row target])
    let ?current = "map snd (head_rows (\<lambda>_. True) (rj_project row) s)"
    fix p s1 ob tb
    assume "restore_items e (p_owner p) (rj_project row) ?current ids 0 (complete_target ?current target) s = Inr (s1, ob, tb)"
    then have jobs: "restore_jobs s1 = restore_jobs s" by (auto dest!: restore_items_frame)
    assume "s' = restore_audit e row (i64_wrap (p_generation p + 1)) ob tb
      (update_restore (holds_lease job lease) (finish_restore e (i64_wrap (p_generation p + 1)) ob tb)
        (s1\<lparr>projects := update_where (\<lambda>x. p_id x = rj_project row)
          (reopen_project e (i64_wrap (p_generation p + 1))) (projects s1)\<rparr>))"
    then have "restore_jobs s' = update_where (holds_lease job lease)
       (finish_restore e (i64_wrap (p_generation p + 1)) ob tb) (restore_jobs s)"
      by (simp add: restore_audit_def update_restore_def jobs)
    with finished_job [OF row, of e "i64_wrap (p_generation p + 1)" ob tb]
    show ?thesis by (auto simp: settled_def list_ex_iff restore_live_def)
  qed
qed

lemma cancel_settles:
  assumes "cancel_restore_with_lease e job lease s = (s', Inr x)"
  shows "settled job s'"
proof -
  from assms obtain row where row: "List.find (holds_lease job lease) (restore_jobs s) = Some row"
    and s': "restore_jobs s' = update_where (holds_lease job lease) (\<lambda>j. drop_lease (cancel_queued e j)) (restore_jobs s)"
    by (auto simp: cancel_restore_with_lease_def Let_def update_restore_def split: option.splits if_splits)
  from find_SomeD [OF row] have "row \<in> set (restore_jobs s)" "holds_lease job lease row" by simp_all
  then have "drop_lease (cancel_queued e row) \<in> set (restore_jobs s')" unfolding s' by (rule in_update_whereI)
  moreover have "rj_id row = job" using row by (auto simp: holds_lease_def dest: find_SomeD)
  ultimately show ?thesis unfolding settled_def list_ex_iff
    by (intro bexI [of _ "drop_lease (cancel_queued e row)"]) (simp_all add: restore_live_def drop_lease_def cancel_queued_def)
qed

lemma retry_never_succeeds: "ends_in Q (retry_and_fail rt job lease code er)"
  unfolding retry_and_fail_def by (rule ends_in_bind) simp

lemma cancel_or_retry_settles: "ends_in (settled job) (cancel_or_retry rt job lease code er)"
  unfolding cancel_or_retry_def by (auto intro!: ends_in_db_call retry_never_succeeds dest: cancel_settles)

lemma run_restore_settles: "ends_in (settled (rj_id job)) (run_restore_job rt job lease)"
  unfolding run_restore_job_def prod.case_eq_if
  by (intro ends_in_match ends_in_bind ends_in_match_return cancel_or_retry_settles retry_never_succeeds
      ends_in_db_call [OF execute_settles])

lemma claimed_live:
  assumes "claim_restore_job e lease s = (s', Inr (Some job))"
  shows "list_ex (\<lambda>j. rj_id j = rj_id job \<and> restore_live j) (restore_jobs s') \<and> rj_lease job = Some lease"
proof -
  obtain row more where rows: "sort_key rj_created_at (sort_key rj_id (filter (claimable_restore e) (restore_jobs s))) = row # more"
    using assms by (cases "sort_key rj_created_at (sort_key rj_id (filter (claimable_restore e) (restore_jobs s)))")
      (simp_all add: claim_restore_job_def)
  then have "row \<in> set (sort_key rj_created_at (sort_key rj_id (filter (claimable_restore e) (restore_jobs s))))" by simp
  then have mem: "row \<in> set (restore_jobs s)" by simp
  from assms rows obtain g where job: "job = claim_restore_row e lease g row"
    and s': "restore_jobs s' = update_where (\<lambda>j. rj_id j = rj_id row) (claim_restore_row e lease g) (restore_jobs s)"
    by (auto simp: claim_restore_job_def Let_def update_restore_def split: option.splits)
  have "job \<in> set (restore_jobs s')" unfolding s' job using mem by (rule in_update_whereI) simp
  then show ?thesis by (auto simp: list_ex_iff job claim_restore_row_def restore_live_def intro!: bexI [of _ job])
qed

lemma list_all2_evolves_live:
  "list_all2 row_evolves js js' \<Longrightarrow> rows_affected restore_live js' \<le> rows_affected restore_live js"
  by (induction rule: list_all2_induct) (auto simp: rows_affected_def row_evolves_def)

text \<open>An iteration that succeeds leaves fewer live restores; what is settled stays so.\<close>

lemma settled_final: "settled job s \<Longrightarrow> \<exists>j \<in> set (restore_jobs s). rj_id j = job \<and> \<not> restore_live j"
  by (auto simp: settled_def list_ex_iff restore_live_def)

lemma settled_evolves:
  assumes "evolves (restore_jobs s) (restore_jobs s')" and "queue_ok (restore_jobs s)" and "settled job s"
  shows "settled job s'"
proof -
  obtain j where j: "j \<in> set (restore_jobs s)" "rj_id j = job" "rj_status j = RSucceeded \<or> rj_status j = RCancelled"
    using assms(3) by (auto simp: settled_def list_ex_iff)
  have all: "list_all2 row_evolves (restore_jobs s) (restore_jobs s')" using assms(1,2) by (simp add: evolves_def)
  obtain i where i: "i < length (restore_jobs s)" "restore_jobs s ! i = j" using j(1) by (auto simp: in_set_conv_nth)
  then have "restore_jobs s' ! i \<in> set (restore_jobs s')" using list_all2_lengthD [OF all] by simp
  moreover have "row_evolves j (restore_jobs s' ! i)" using list_all2_nthD [OF all i(1)] by (simp add: i(2))
  ultimately have "j \<in> set (restore_jobs s')" using j(3) by (auto simp: row_evolves_def restore_live_def)
  with j(2,3) show ?thesis by (auto simp: settled_def list_ex_iff)
qed

lemma iteration_decreases:
  assumes "alone rt" and ok: "queue_ok (restore_jobs (w_db w))"
    and claim: "db_call rt (\<lambda>e ids. claim_restore_job e (ids 0)) w = (w1, Inr (Some job))"
    and body: "run_restore_job rt job lease w1 = (w2, Inr x)"
  shows "queue_ok (restore_jobs (w_db w2)) \<and> live_restores (w_db w2) < live_restores (w_db w)
    \<and> settled (rj_id job) (w_db w2)"
proof -
  let ?R = "\<lambda>s s'. evolves (restore_jobs s) (restore_jobs s')"
  have "keeps ?R (db_call rt (\<lambda>e ids. claim_restore_job e (ids 0)))"
    by (intro restore_relation.keeps_db_call assms restore_op_evolves)
  then have "?R (w_db w) (w_db w1)" using claim unfolding keeps_def by (metis fst_conv)
  then have ok1: "queue_ok (restore_jobs (w_db w1))" and le: "live_restores (w_db w1) \<le> live_restores (w_db w)"
    using ok by (auto simp: evolves_def live_restores_def dest: list_all2_evolves_live)
  have "?R (w_db w1) (w_db w2)" using run_restore_keeps [OF assms(1), of job lease] body unfolding keeps_def by (metis fst_conv)
  then have ok2: "queue_ok (restore_jobs (w_db w2))" and step: "list_all2 row_evolves (restore_jobs (w_db w1)) (restore_jobs (w_db w2))"
    using ok1 by (auto simp: evolves_def)
  obtain e ids s where "claim_restore_job e (ids 0) s = (w_db w1, Inr (Some job))"
    using claim by (auto simp: db_call_def Let_def map_sum_Inr split: prod.splits)
  then obtain j where j: "j \<in> set (restore_jobs (w_db w1))" "rj_id j = rj_id job" "restore_live j"
    using claimed_live by (fastforce simp: list_ex_iff)
  have done_job: "settled (rj_id job) (w_db w2)" using run_restore_settles body by (fastforce simp: ends_in_def)
  from settled_final [OF this]
  obtain j' where j': "j' \<in> set (restore_jobs (w_db w2))" "rj_id j' = rj_id job" "\<not> restore_live j'" by blast
  have "distinct (map rj_id (restore_jobs (w_db w1)))" using ok1 by (simp add: queue_ok_def)
  from live_less [OF step this j(1,3) j'(1,3)] j(2) j'(2) le ok2 done_job show ?thesis by (simp add: live_restores_def)
qed

text \<open>The jobs that a loop claims, in order.\<close>

fun claimed_jobs ::
    "nat \<Rightarrow> ('w, 'j option) action \<Rightarrow> ('j \<Rightarrow> ('w, unit) action) \<Rightarrow> 'w world \<Rightarrow> 'j list" where
  "claimed_jobs 0 claim body w = []"
| "claimed_jobs (Suc fuel) claim body w =
    (case claim w of
       (w1, Inr (Some job)) \<Rightarrow> job # (case body job w1 of
            (w2, Inl er) \<Rightarrow> []
          | (w2, Inr _) \<Rightarrow> claimed_jobs fuel claim body w2)
     | _ \<Rightarrow> [])"

definition restores_claimed :: "'w runtime \<Rightarrow> nat \<Rightarrow> 'w world \<Rightarrow> restore_row list" where
  "restores_claimed rt fuel =
    claimed_jobs fuel (db_call rt (\<lambda>e ids. claim_restore_job e (ids 0)))
      (\<lambda>job. case rj_lease job of
         None \<Rightarrow> w_fail (Message ''restore claim missing lease token'')
       | Some lease \<Rightarrow> run_restore_job rt job lease)"

text \<open>The jobs that have to be settled when the loop ends: all, or all but the one it failed at.\<close>

definition due_jobs :: "worker_error + unit \<Rightarrow> 'j list \<Rightarrow> 'j list" where
  "due_jobs r js = (case r of Inr _ \<Rightarrow> js | Inl _ \<Rightarrow> butlast js)"

lemma due_jobs_simps [simp]:
  "due_jobs (Inr ()) js = js" "due_jobs (Inl er) js = butlast js"
  "due_jobs r [] = []" "set (due_jobs r (j # js)) \<subseteq> insert j (set (due_jobs r js))"
  by (simp_all add: due_jobs_def split: sum.split)

lemma restore_loop_evolves:
  assumes "alone rt" shows "process_restore_jobs rt fuel w = Some (w', r) \<Longrightarrow> evolves (restore_jobs (w_db w)) (restore_jobs (w_db w'))"
proof (induction fuel arbitrary: w)
  case (Suc fuel)
  let ?R = "\<lambda>s s'. evolves (restore_jobs s) (restore_jobs s')"
  let ?claim = "db_call rt (\<lambda>e ids. claim_restore_job e (ids 0))"
  let ?body = "\<lambda>job. case rj_lease job of None \<Rightarrow> w_fail (Message ''restore claim missing lease token'')
       | Some lease \<Rightarrow> run_restore_job rt job lease"
  obtain w1 c where claim: "?claim w = (w1, c)" by (metis surj_pair)
  have "keeps ?R ?claim" by (intro restore_relation.keeps_db_call assms restore_op_evolves)
  then have one: "?R (w_db w) (w_db w1)" using claim unfolding keeps_def by (metis fst_conv)
  show ?case
  proof (cases "\<exists>job. c = Inr (Some job)")
    case True
    then obtain job where c: "c = Inr (Some job)" ..
    obtain w2 b where body: "?body job w1 = (w2, b)" by (metis surj_pair)
    have "keeps ?R (?body job)" by (cases "rj_lease job") (simp_all add: run_restore_keeps [OF assms] restore_relation.keeps_fail)
    then have "?R (w_db w1) (w_db w2)" using body unfolding keeps_def by (metis fst_conv)
    with one have two: "?R (w_db w) (w_db w2)" by (rule restore_relation.trans)
    from Suc.prems consider "w' = w2" | "process_restore_jobs rt fuel w2 = Some (w', r)"
      by (auto simp: process_restore_jobs_def claim c body split: sum.splits)
    then show ?thesis using Suc.IH [of w2] two restore_relation.trans by cases blast+
  next
    case False
    with Suc.prems one show ?thesis by (auto simp: process_restore_jobs_def claim split: sum.splits option.splits)
  qed
qed (simp add: process_restore_jobs_def)

lemma restore_loop_settles:
  assumes "alone rt" and "queue_ok (restore_jobs (w_db w))" and "live_restores (w_db w) < fuel"
  shows "\<exists>w' r. process_restore_jobs rt fuel w = Some (w', r)
    \<and> (\<forall>j \<in> set (due_jobs r (restores_claimed rt fuel w)). settled (rj_id j) (w_db w'))"
  using assms(2,3)
proof (induction fuel arbitrary: w)
  case (Suc fuel)
  let ?claim = "db_call rt (\<lambda>e ids. claim_restore_job e (ids 0))"
  let ?body = "\<lambda>job. case rj_lease job of None \<Rightarrow> w_fail (Message ''restore claim missing lease token'')
       | Some lease \<Rightarrow> run_restore_job rt job lease"
  obtain w1 r where claim: "?claim w = (w1, r)" by (cases "?claim w")
  consider (error) er where "r = Inl er" | (idle) "r = Inr None" | (job) job where "r = Inr (Some job)"
    by (metis not_Some_eq sum.exhaust_sel)
  then show ?case
  proof cases
    case (job job)
    obtain w2 r2 where body: "?body job w1 = (w2, r2)" by (cases "?body job w1")
    show ?thesis
    proof (cases r2)
      case (Inr x)
      then obtain lease where "run_restore_job rt job lease w1 = (w2, Inr x)"
        using body by (cases "rj_lease job") (auto simp: w_fail_def)
      note two = iteration_decreases [OF assms(1) Suc.prems(1) claim [unfolded job] this]
      then have ok2: "queue_ok (restore_jobs (w_db w2))" and "live_restores (w_db w2) < fuel" using Suc.prems by simp_all
      from Suc.IH [OF this] obtain w' r' where run: "process_restore_jobs rt fuel w2 = Some (w', r')"
        and all: "\<forall>j \<in> set (due_jobs r' (restores_claimed rt fuel w2)). settled (rj_id j) (w_db w')" by blast
      have "settled (rj_id job) (w_db w')"
        by (rule settled_evolves [OF restore_loop_evolves [OF assms(1) run] ok2]) (use two in simp)
      with all due_jobs_simps(4) [of r' job "restores_claimed rt fuel w2"]
      have "\<forall>j \<in> set (due_jobs r' (job # restores_claimed rt fuel w2)). settled (rj_id j) (w_db w')" by blast
      then show ?thesis using run claim job body Inr by (simp add: process_restore_jobs_def restores_claimed_def)
    qed (use claim job body in \<open>simp add: process_restore_jobs_def restores_claimed_def\<close>)
  qed (use claim in \<open>simp_all add: process_restore_jobs_def restores_claimed_def\<close>)
qed simp

text \<open>C37. The restore loop of the worker ends: if the ids and live projects of the queue are distinct and
  no other process touches the database meanwhile, one iteration per live restore and one that
  finds nothing to claim are enough. When the loop returns without an error, every job it claimed is
  settled at the end, as succeeded or cancelled; when it returns with an error, every job it claimed
  but the last one is.\<close>

theorem process_restore_jobs_ends:
  assumes "alone rt" and "queue_ok (restore_jobs (w_db w))" and "live_restores (w_db w) < fuel"
  shows "\<exists>w' r. process_restore_jobs rt fuel w = Some (w', r)
    \<and> (r = Inr () \<longrightarrow> (\<forall>j \<in> set (restores_claimed rt fuel w). settled (rj_id j) (w_db w')))
    \<and> (r \<noteq> Inr () \<longrightarrow> (\<forall>j \<in> set (butlast (restores_claimed rt fuel w)). settled (rj_id j) (w_db w')))"
proof -
  obtain w' r where "process_restore_jobs rt fuel w = Some (w', r)"
    "\<forall>j \<in> set (due_jobs r (restores_claimed rt fuel w)). settled (rj_id j) (w_db w')"
    using restore_loop_settles [OF assms] by blast
  then show ?thesis by (intro exI [of _ w'] exI [of _ r]) (cases r, simp_all)
qed

text \<open>A runtime over a bucket that is a map, and a world with a database and an empty bucket.\<close>

definition sample_runtime :: "(string \<rightharpoonup> bytes) runtime" where
  "sample_runtime = \<lparr>rt_clock = \<lambda>_. sample_env, rt_uuid = \<lambda>n i. replicate (n + i) (CHR ''i''),
     rt_others = \<lambda>_ x. x, rt_s3 = map_service, rt_sha256 = \<lambda>_. sample_hash, rt_bucket = ''k'',
     rt_to_vec = \<lambda>_. [1], rt_parse_uuid = Some, rt_archive = \<lambda>manifest files. Some (manifest @ concat (map fst files)),
     rt_export_tmp_max = None\<rparr>"

definition sample_world :: "db \<Rightarrow> (string \<rightharpoonup> bytes) world" where
  "sample_world s = \<lparr>w_db = s, w_store = Map.empty, w_steps = 0\<rparr>"

lemma sample_alone: "alone sample_runtime"
  by (simp add: alone_def sample_runtime_def)

theorem process_restore_jobs_ends_witness:
  "map rj_id (restores_claimed sample_runtime 2 (sample_world sample_requested)) = [''j'']
    \<and> (\<exists>w' r. process_restore_jobs sample_runtime 2 (sample_world sample_requested) = Some (w', r)
      \<and> (r = Inr () \<longrightarrow> settled ''j'' (w_db w')))"
proof -
  have "queue_ok (restore_jobs (w_db (sample_world sample_requested)))" by code_simp
  moreover have "live_restores (w_db (sample_world sample_requested)) < 2" by code_simp
  moreover have ids: "map rj_id (restores_claimed sample_runtime 2 (sample_world sample_requested)) = [''j'']" by code_simp
  then obtain j where "restores_claimed sample_runtime 2 (sample_world sample_requested) = [j]" "rj_id j = ''j''" by auto
  ultimately show ?thesis
    using process_restore_jobs_ends [OF sample_alone, of "sample_world sample_requested" 2] by auto
qed

subsection \<open>The cleanup\<close>

lemma expire_call_fails: "always_fails (db_call rt (\<lambda>e _. expire_account_purge_exports e limit))"
  by (simp add: always_fails_def db_call_def Let_def expire_account_purge_exports_fails)

text \<open>The tables whose cleanup comes after the expiry of the exports.\<close>

interpretation late_stages: world_relation
  "\<lambda>s s'. idempotency_records s' = idempotency_records s \<and> payloads s' = payloads s"
  by unfold_locales auto

lemma expiry_keeps_late:
  "idempotency_records (fst (expire_pending_snapshots t s)) = idempotency_records s \<and> payloads (fst (expire_pending_snapshots t s)) = payloads s"
  "idempotency_records (fst (expire_bootstrap_manifests e n s)) = idempotency_records s \<and> payloads (fst (expire_bootstrap_manifests e n s)) = payloads s"
  "idempotency_records (fst (expire_account_purge_exports e n s)) = idempotency_records s \<and> payloads (fst (expire_account_purge_exports e n s)) = payloads s"
  by (simp_all add: expire_pending_snapshots_def expire_bootstrap_manifests_def Let_def expire_account_purge_exports_fails)

lemma keeps_failing_bind:
  assumes "always_fails m" and "keeps R m"
  shows "keeps R (w_bind m f)"
  unfolding keeps_def
proof
  fix w
  obtain w1 er where m: "m w = (w1, Inl er)" using assms(1) by (cases "m w") (metis always_fails_def snd_conv)
  then have "fst (w_bind m f w) = fst (m w)" by (simp add: w_bind_def)
  then show "R (w_db w) (w_db (fst (w_bind m f w)))" using assms(2) by (simp add: keeps_def)
qed

text \<open>C38. No run of the cleanup succeeds, whatever the state, the clocks and the other processes: the
  expiry of account exports is refused by the database, the run ends there, and the stages after
  it, the expiry of idempotency records and the removal of unreferenced payloads, never run.\<close>

theorem cleanup_never_completes:
  "(\<exists>er. snd (cleanup_orphans rt pages w) = Inl er)
    \<and> (alone rt \<longrightarrow> idempotency_records (w_db (fst (cleanup_orphans rt pages w))) = idempotency_records (w_db w)
        \<and> payloads (w_db (fst (cleanup_orphans rt pages w))) = payloads (w_db w))"
proof
  show "\<exists>er. snd (cleanup_orphans rt pages w) = Inl er"
    unfolding cleanup_orphans_def Let_def
    by (rule always_fails_def [THEN iffD1, rule_format], intro always_fails_bind2 always_fails_bind1 expire_call_fails)
  let ?late = "\<lambda>s s'. idempotency_records s' = idempotency_records s \<and> payloads s' = payloads s"
  show "alone rt \<longrightarrow> ?late (w_db w) (w_db (fst (cleanup_orphans rt pages w)))"
  proof
    assume rt: "alone rt"
    have deleted: "keeps ?late (delete_keys rt keys)" for keys
      unfolding delete_keys_def by (intro late_stages.keeps_each late_stages.keeps_store_call rt)
    show "?late (w_db w) (w_db (fst (cleanup_orphans rt pages w)))"
      unfolding cleanup_orphans_def Let_def
      by (rule keeps_def [THEN iffD1, rule_format], rule late_stages.keeps_bind, rule late_stages.keeps_db_call [OF rt expiry_keeps_late(1)],
          rule late_stages.keeps_bind [OF deleted], rule late_stages.keeps_bind, rule late_stages.keeps_db_call [OF rt expiry_keeps_late(2)],
          rule late_stages.keeps_bind [OF deleted], rule keeps_failing_bind [OF expire_call_fails],
          rule late_stages.keeps_db_call [OF rt expiry_keeps_late(3)])
  qed
qed

theorem cleanup_never_completes_witness:
  "payloads (w_db (fst (cleanup_orphans sample_runtime 1 (sample_world sample_db)))) = payloads sample_db"
  using cleanup_never_completes [of sample_runtime 1 "sample_world sample_db", THEN conjunct2, rule_format, OF sample_alone]
  by (simp add: sample_world_def)

subsection \<open>Retries of an account purge\<close>

text \<open>The payload of the job names no phase any more.\<close>

definition phase_lost :: "uuid \<Rightarrow> job_row list \<Rightarrow> bool" where
  "phase_lost jid js \<longleftrightarrow> list_all (\<lambda>j. j_id j = jid \<longrightarrow> payload_phase (j_payload j) = []) js"

lemma phase_lost_update:
  assumes "phase_lost jid js" and "\<And>j. j_id (f j) = j_id j \<and> j_payload (f j) = j_payload j"
  shows "phase_lost jid (update_where P f js)"
  using assms by (auto simp: phase_lost_def list_all_iff elim!: in_update_whereE)

lemma detached_account_jobs:
  assumes run: "prepare_account_purge pu e jid lease s = (s1, Inr keys)"
    and job: "List.find (live_job e AccountPurge jid lease) (jobs s) = Some job" and fresh: "\<not> is_detached (j_payload job)"
  shows "\<exists>owner x ks. j_owner job = Some owner \<and> users s1 = users s \<and> list_ex (\<lambda>u. u_id u = owner \<and> u_status u = Deleting) (users s)
    \<and> jobs s1 = update_where (holds_job jid lease)
        (set_job_payload (JObj [(''detached'', JBool True), (''exportId'', JStr x), (''objectKeys'', JArr ks)])) (jobs s)"
proof -
  from run job obtain owner where owner: "j_owner job = Some owner"
    by (cases "j_owner job") (simp_all add: prepare_account_purge_def)
  with run job fresh obtain x where x: "payload_uuid pu ''exportId'' (j_payload job) = Some x"
    by (cases "payload_uuid pu ''exportId'' (j_payload job)") (simp_all add: prepare_account_purge_def)
  with run job fresh owner obtain u where u: "List.find (\<lambda>u. u_id u = owner) (users s) = Some u"
    by (cases "List.find (\<lambda>u. u_id u = owner) (users s)") (simp_all add: prepare_account_purge_def)
  then have "list_ex (\<lambda>u. u_id u = owner \<and> u_status u = Deleting) (users s)"
    using run job fresh owner x by (auto simp: prepare_account_purge_def list_ex_iff dest!: find_SomeD split: if_splits)
  moreover have "users s1 = users s" "jobs s1 = update_where (holds_job jid lease) (set_job_payload
      (JObj [(''detached'', JBool True), (''exportId'', JStr x), (''objectKeys'', JArr (map JStr keys))])) (jobs s)"
    using run job fresh owner x u
    by (auto simp: prepare_account_purge_def Let_def update_job_def delete_account_rows_def delete_owned_rows_def split: if_splits)
  ultimately show ?thesis using owner by blast
qed

lemma detach_loses_phase:
  assumes run: "prepare_account_purge pu e jid lease s = (s1, Inr keys)" and keys: "distinct (map j_id (jobs s))"
    and job: "List.find (live_job e AccountPurge jid lease) (jobs s) = Some job" and fresh: "\<not> is_detached (j_payload job)"
  shows "phase_lost jid (jobs s1)"
proof -
  obtain x ks where js: "jobs s1 = update_where (holds_job jid lease)
      (set_job_payload (JObj [(''detached'', JBool True), (''exportId'', JStr x), (''objectKeys'', JArr ks)])) (jobs s)"
    using detached_account_jobs [OF run job fresh] by blast
  from find_SomeD [OF job] have mem: "job \<in> set (jobs s)" and held: "holds_job jid lease job" by (auto simp: live_job_def)
  have "j = job" if "j \<in> set (jobs s)" "j_id j = jid" for j
    using keyed_table_inj [OF keys that(1) mem] that(2) held by (simp add: holds_job_def)
  then show ?thesis unfolding js phase_lost_def list_all_iff
    using held by (auto simp: set_job_payload_def payload_phase_def elim!: in_update_whereE split: if_splits)
qed

lemma retry_job_select [simp]: "j_id (retry_job e code j) = j_id j" "j_payload (retry_job e code j) = j_payload j"
  by (simp_all add: retry_job_def drop_job_lease_def)

lemma claim_job_row_select [simp]: "j_id (claim_job_row e lease j) = j_id j" "j_payload (claim_job_row e lease j) = j_payload j"
  by (simp_all add: claim_job_row_def)

lemma fail_keeps_phase_lost: "phase_lost jid (jobs s) \<Longrightarrow> phase_lost jid (jobs (fst (fail_account_purge e j lease code s)))"
  by (auto simp: fail_account_purge_def Let_def update_job_def split: option.splits intro!: phase_lost_update)

lemma claim_keeps_phase_lost: "phase_lost jid (jobs s) \<Longrightarrow> phase_lost jid (jobs (fst (claim_account_purge_job e lease s)))"
  by (auto simp: claim_account_purge_job_def claim_purge_job_def update_job_def split: list.split intro!: phase_lost_update)

lemma fail_keeps_users: "users (fst (fail_account_purge e j lease code s)) = users s"
  by (simp add: fail_account_purge_def Let_def update_job_def split: option.splits)

lemma claim_keeps_users: "users (fst (claim_account_purge_job e lease s)) = users s"
  by (simp add: claim_account_purge_job_def claim_purge_job_def update_job_def split: list.split)

lemma phase_lost_refused:
  assumes "phase_lost jid (jobs s)"
  shows "account_purge_phase e jid lease s \<in> {Inl NotFound, Inl InvalidPayload}"
proof (cases "List.find (live_job e AccountPurge jid lease) (jobs s)")
  case (Some job)
  then have "payload_phase (j_payload job) = []"
    using assms by (auto simp: phase_lost_def list_all_iff live_job_def holds_job_def dest!: find_SomeD)
  with Some show ?thesis by (simp add: account_purge_phase_def)
qed (simp add: account_purge_phase_def)

text \<open>A purge of an account that is interrupted after the detachment (the removal of an object
  fails, the worker stops) is never finished: the detachment has overwritten the phase in the
  payload of the job, so once the job is claimed again its processing is refused before any object
  is removed, and the account remains in the state of deletion.\<close>

theorem account_purge_retry_refused:
  assumes "distinct (map j_id (jobs s))"
    and job: "List.find (live_job e AccountPurge jid lease) (jobs s) = Some job" and fresh: "\<not> is_detached (j_payload job)"
    and run: "prepare_account_purge pu e jid lease s = (s1, Inr keys)"
    and retry: "claim_account_purge_job e3 lease2 (fst (fail_account_purge e2 jid lease code s1)) = (s3, Inr (Some job3))"
    and w: "alone rt" "w_db w = s3"
  shows "snd (process_account_purge_job rt jid lease2 w) \<in> {Inl (FromDatabase NotFound), Inl (FromDatabase InvalidPayload)}
    \<and> w_db (fst (process_account_purge_job rt jid lease2 w)) = s3
    \<and> w_store (fst (process_account_purge_job rt jid lease2 w)) = w_store w
    \<and> list_ex (\<lambda>u. Some (u_id u) = j_owner job \<and> u_status u = Deleting) (users s3)"
proof -
  have s3: "s3 = fst (claim_account_purge_job e3 lease2 (fst (fail_account_purge e2 jid lease code s1)))" by (simp add: retry)
  have lost: "phase_lost jid (jobs s3)" unfolding s3
    by (intro claim_keeps_phase_lost fail_keeps_phase_lost detach_loses_phase [OF run assms(1) job fresh])
  obtain owner where owner: "j_owner job = Some owner" and "users s1 = users s"
    and deleting: "list_ex (\<lambda>u. u_id u = owner \<and> u_status u = Deleting) (users s)"
    using detached_account_jobs [OF run job fresh] by blast
  then have users: "list_ex (\<lambda>u. Some (u_id u) = j_owner job \<and> u_status u = Deleting) (users s3)"
    by (simp add: s3 claim_keeps_users fail_keeps_users owner)
  obtain er where phase: "account_purge_phase (rt_clock rt (w_steps w)) jid lease2 s3 = Inl er" "er \<in> {NotFound, InvalidPayload}"
    using phase_lost_refused [OF lost, of "rt_clock rt (w_steps w)" lease2] by auto
  have "process_account_purge_job rt jid lease2 w = (tick_world rt w, Inl (FromDatabase er))"
    using phase(1) w by (simp add: process_account_purge_job_def w_bind_def db_read_def db_call_def Let_def alone_tick)
  with phase(2) users w show ?thesis by (auto simp: alone_tick)
qed

text \<open>A minute after the failure the job is due again.\<close>

definition sample_retried_purge :: "db \<times> (persistence_error + job_row option)" where
  "sample_retried_purge = claim_account_purge_job \<lparr>db_now = hours 2, app_now = hours 2\<rparr> ''N''
     (fst (fail_account_purge sample_env ''k'' ''M'' ''ACCOUNT_PURGE_FAILED''
       (fst (prepare_account_purge sample_parse_uuid sample_env ''k'' ''M'' sample_account_purging))))"

theorem account_purge_retry_refused_witness:
  "snd (process_account_purge_job sample_runtime ''k'' ''N'' (sample_world (fst sample_retried_purge)))
    \<in> {Inl (FromDatabase NotFound), Inl (FromDatabase InvalidPayload)}"
proof -
  define job where "job = last (jobs sample_account_purging)"
  have job: "List.find (live_job sample_env AccountPurge ''k'' ''M'') (jobs sample_account_purging) = Some job"
    and fresh: "\<not> is_detached (j_payload job)" unfolding job_def by code_simp+
  have keys: "distinct (map j_id (jobs sample_account_purging))" by code_simp
  let ?run = "prepare_account_purge sample_parse_uuid sample_env ''k'' ''M'' sample_account_purging"
  have "case snd ?run of Inl _ \<Rightarrow> False | Inr _ \<Rightarrow> True" by code_simp
  then obtain s1 ks where run: "?run = (s1, Inr ks)" by (cases ?run) (auto split: sum.splits)
  have "case snd sample_retried_purge of Inr (Some _) \<Rightarrow> True | _ \<Rightarrow> False" by code_simp
  then obtain s3 job3 where retry: "sample_retried_purge = (s3, Inr (Some job3))"
    by (metis (no_types, lifting) old.sum.simps(5,6) option.case_eq_if option.collapse prod.collapse sum.exhaust_sel)
  then have claim: "claim_account_purge_job \<lparr>db_now = hours 2, app_now = hours 2\<rparr> ''N''
     (fst (fail_account_purge sample_env ''k'' ''M'' ''ACCOUNT_PURGE_FAILED'' s1)) = (s3, Inr (Some job3))"
    by (simp add: sample_retried_purge_def run)
  have w: "w_db (sample_world s3) = s3" by (simp add: sample_world_def)
  have "fst sample_retried_purge = s3" by (simp add: retry)
  then show ?thesis by (simp only:) (rule account_purge_retry_refused [OF keys job fresh run claim sample_alone w, THEN conjunct1])
qed

end
