(* ===== verification/Accounts_Props.thy ===== *)
theory Accounts_Props
  imports Accounts Sessions_Props
begin

text \<open>
  What the account operations promise: the rows of accounts are never removed and their status
  only moves along the arrows of the life cycle, so an account whose deletion was confirmed is
  locked out for good; an invitation is redeemed at most once; and what happens to the account of
  an invitation that an administrator enables before it is redeemed.
\<close>

lemma outcome_of_snd: "snd p = r \<Longrightarrow> p = (fst p, r)"
  by auto

subsection \<open>Histories\<close>

datatype account_event =
    Session session_event
  | CreateAdmin env uuid string string string
  | RegisterUser env uuid string string string string
  | CreateUser env uuid uuid string string string string
  | Invite env uuid uuid uuid new_invitation string
  | RevokeInvitation env uuid uuid string string
  | ResendInvitation env uuid uuid bytes instant string
  | Redeem env bytes string uuid new_refresh_token string
  | SetStatus env uuid uuid account_status string string
  | RequestPurge env uuid uuid uuid uuid string string
  | ConfirmPurge env uuid uuid uuid uuid string string
  | PreparePurge "string \<Rightarrow> uuid option" env uuid uuid
  | CompletePurge "string \<Rightarrow> uuid option" env uuid uuid

fun account_step :: "account_event \<Rightarrow> db \<Rightarrow> db" where
  "account_step (Session ev) s = session_step ev s"
| "account_step (CreateAdmin e u n d h) s = fst (create_initial_admin e u n d h s)"
| "account_step (RegisterUser e u n d h i) s = fst (register_user e u n d h i s)"
| "account_step (CreateUser e u a n d h i) s = fst (admin_create_user e u a n d h i s)"
| "account_step (Invite e u v a n i) s = fst (create_invitation e u v a n i s)"
| "account_step (RevokeInvitation e a v r i) s = fst (admin_revoke_invitation e a v r i s)"
| "account_step (ResendInvitation e a v h t i) s = fst (admin_resend_invitation e a v h t i s)"
| "account_step (Redeem e h p d r i) s = fst (activate_invitation e h p d r i s)"
| "account_step (SetStatus e a u st r i) s = fst (admin_set_account_status e a u st r i s)"
| "account_step (RequestPurge e j x a u r i) s = fst (request_account_purge_export e j x a u r i s)"
| "account_step (ConfirmPurge e j a u x r i) s = fst (confirm_account_purge e j a u x r i s)"
| "account_step (PreparePurge pu e j l) s = fst (prepare_account_purge pu e j l s)"
| "account_step (CompletePurge pu e j l) s = fst (complete_account_purge pu e j l s)"

subsection \<open>The life cycle\<close>

inductive status_arrow :: "account_status \<Rightarrow> account_status \<Rightarrow> bool" where
  same: "status_arrow st st"
| admit: "status_arrow Pending Active"
| disable: "status_arrow Active Disabled"
| enable: "status_arrow Disabled Active"
| doom_active: "status_arrow Active Deleting"
| doom_disabled: "status_arrow Disabled Deleting"
| erase: "status_arrow Deleting Deleted"

inductive_simps arrow_from_deleting: "status_arrow Deleting st"
inductive_simps arrow_from_deleted: "status_arrow Deleted st"

lemma allowed_transition_arrow: "allowed_transition a b \<Longrightarrow> status_arrow a b"
  by (induction a b rule: allowed_transition.induct) (auto intro: status_arrow.intros)

definition users_follow :: "user_row list \<Rightarrow> user_row list \<Rightarrow> bool" where
  "users_follow us us' \<longleftrightarrow> (\<exists>f new. us' = map f us @ new
     \<and> (\<forall>u \<in> set us. u_id (f u) = u_id u \<and> status_arrow (u_status u) (u_status (f u))))"

lemma users_follow_refl [simp]: "users_follow us us"
  unfolding users_follow_def by (intro exI [of _ "\<lambda>u. u"] exI [of _ "[]"]) (auto intro: same)

lemma users_follow_append: "users_follow us (us @ new)"
  unfolding users_follow_def by (intro exI [of _ "\<lambda>u. u"] exI [of _ new]) (auto intro: same)

lemma users_follow_update:
  assumes "\<And>u. u \<in> set us \<Longrightarrow> P u \<Longrightarrow> u_id (f u) = u_id u \<and> status_arrow (u_status u) (u_status (f u))"
  shows "users_follow us (update_where P f us)"
  unfolding users_follow_def update_where_def
  using assms by (intro exI [of _ "\<lambda>u. if P u then f u else u"] exI [of _ "[]"]) (auto intro: same)

lemma ensure_device_users: "ensure_device e u d s = Inr s' \<Longrightarrow> users s' = users s"
  by (auto simp: ensure_device_def split: option.splits if_splits)

lemma insert_refresh_users: "insert_refresh u d r s = Inr s' \<Longrightarrow> users s' = users s"
  by (auto simp: insert_refresh_def split: if_splits)

lemma detect_reuse_users [simp]: "users (detect_reuse e t role i s) = users s"
  by (simp add: detect_reuse_def insert_audit_nullable_def revoke_family_def)

lemma issue_replacement_users: "users (fst (issue_replacement e t r g role i s)) = users s"
proof (cases "issue_replacement e t r g role i s")
  case (Pair s' out)
  then show ?thesis
    by (auto simp: issue_replacement_def try_bind_eq_Inr Let_def insert_refresh_def split: sum.splits if_splits)
qed

lemma session_step_users: "users_follow (users s) (users (session_step ev s))"
proof (cases ev)
  case (Login e u d r i)
  then show ?thesis
    by (auto simp: create_login_session_def try_bind_eq_Inr ensure_device_users insert_refresh_users
        dest!: ensure_device_users insert_refresh_users split: sum.splits
        intro!: users_follow_update same)
next
  case (Rotate e h r role i)
  then show ?thesis
    by (simp add: rotate_refresh_token_inner_def Let_def issue_replacement_users split: option.splits)
next
  case (Logout e u d i)
  then show ?thesis by (simp add: logout_device_def)
next
  case (WebLogout e h i)
  then show ?thesis by (simp add: logout_device_by_refresh_token_def Let_def split: option.splits)
next
  case (ChangePassword e u h)
  then show ?thesis by (auto simp: change_password_def intro!: users_follow_update same)
next
  case (RevokeDevice e u d i)
  then show ?thesis by (simp add: revoke_device_def split: option.splits)
next
  case (Access e u d r)
  then show ?thesis by (simp add: validate_access_def split: sum.splits)
qed

lemma insert_user_users: "insert_user u s = Inr s' \<Longrightarrow> users s' = users s @ [u]"
  by (auto simp: insert_user_def split: if_splits)

lemma upsert_pending_user_users:
  "upsert_pending_user e u n s = Inr s' \<Longrightarrow> users_follow (users s) (users s')"
  by (auto simp: upsert_pending_user_def set_display_def users_follow_append dest!: insert_user_users
      split: if_splits intro!: users_follow_update same)

lemma upsert_invitation_users: "upsert_invitation e v n s = Inr (s', i) \<Longrightarrow> users s' = users s"
  by (auto simp: upsert_invitation_def Let_def split: option.splits if_splits)

lemma create_invitation_users:
  "users_follow (users s) (users (fst (create_invitation e u v a n i s)))"
  by (auto simp: create_invitation_def try_bind_eq_Inr split: sum.splits if_splits
      dest!: upsert_invitation_users dest: upsert_pending_user_users)

lemma activate_invitation_users:
  "users_follow (users s) (users (fst (activate_invitation e h p d r i s)))"
proof (cases "List.find (\<lambda>x. inv_hash x = h) (invitations s)")
  case (Some x)
  let ?waiting = "\<lambda>u. u_email_normalized u = inv_email_normalized x \<and> u_status u = Pending"
  have "users_follow (users s) (update_where ?waiting (activate_user e p) (users s))"
    by (rule users_follow_update) (auto simp: activate_user_def intro: admit)
  with Some show ?thesis
    by (auto simp: activate_invitation_def Let_def try_bind_eq_Inr split: option.splits sum.splits
        dest!: ensure_device_users insert_refresh_users)
qed (simp add: activate_invitation_def)

lemma sole_row:
  assumes "rows_affected P t = 1" and "List.find P t = Some u" and "x \<in> set t" and "P x"
  shows "x = u"
proof -
  from assms(1) obtain y where y: "filter P t = [y]" by (auto simp: rows_affected_def length_Suc_conv)
  with assms(2) have "u = y" by (simp add: find_conv_filter)
  moreover from assms(3,4) have "x \<in> set (filter P t)" by simp
  ultimately show ?thesis using y by simp
qed

lemma admin_set_account_status_users:
  "users_follow (users s) (users (fst (admin_set_account_status e a i st r rq s)))"
proof (cases "List.find (\<lambda>u. u_id u = i) (users s)")
  case (Some u)
  have "users_follow (users s) (update_where (\<lambda>u. u_id u = i) (set_user_status st) (users s))"
    if "allowed_transition (u_status u) st" and "rows_affected (\<lambda>u. u_id u = i) (users s) = 1"
  proof (rule users_follow_update)
    fix x assume "x \<in> set (users s)" "u_id x = i"
    with sole_row [OF that(2) Some] have "x = u" by blast
    with that(1) show "u_id (set_user_status st x) = u_id x
        \<and> status_arrow (u_status x) (u_status (set_user_status st x))"
      by (simp add: set_user_status_def allowed_transition_arrow)
  qed
  with Some show ?thesis by (auto simp: admin_set_account_status_def split: sum.splits)
qed (simp add: admin_set_account_status_def split: sum.splits)

lemma insert_job_users: "insert_job j s = Inr s' \<Longrightarrow> users s' = users s"
  by (auto simp: insert_job_def split: if_splits)

lemma insert_export_users: "insert_export x s = Inr s' \<Longrightarrow> users s' = users s"
  by (auto simp: insert_export_def split: if_splits)

lemma request_purge_users: "users (fst (request_account_purge_export e j x a u r i s)) = users s"
  by (auto simp: request_account_purge_export_def try_bind_eq_Inr split: sum.splits list.splits prod.splits
      dest!: insert_job_users insert_export_users)

lemma confirm_purge_users:
  "users_follow (users s) (users (fst (confirm_account_purge e j a u x r i s)))"
proof -
  have "users_follow (users s)
      (update_where (\<lambda>v. u_id v = u \<and> u_status v \<in> {Active, Disabled}) (set_user_status Deleting) (users s))"
    by (rule users_follow_update) (auto simp: set_user_status_def intro: status_arrow.intros)
  then show ?thesis
    by (auto simp: confirm_account_purge_def Let_def split: sum.splits option.splits dest!: insert_job_users)
qed

lemma prepare_purge_users: "users (fst (prepare_account_purge pu e j l s)) = users s"
  by (simp add: prepare_account_purge_def Let_def update_job_def delete_account_rows_def delete_owned_rows_def
      split: option.splits)

lemma complete_purge_users:
  "users_follow (users s) (users (fst (complete_account_purge pu e j l s)))"
proof -
  have "users_follow (users s) (update_where (\<lambda>u. u_id u = i \<and> u_status u = Deleting) delete_user (users s))" for i
    by (rule users_follow_update) (auto simp: delete_user_def intro: erase)
  then show ?thesis
    by (auto simp: complete_account_purge_def Let_def update_job_def split: option.splits)
qed

lemma new_account_users:
  "users_follow (users s) (users (fst (create_initial_admin e u n d h s)))"
  "users_follow (users s) (users (fst (register_user e u n d h i s)))"
  "users_follow (users s) (users (fst (admin_create_user e u a n d h i s)))"
  by (auto simp: create_initial_admin_def register_user_def admin_create_user_def Let_def users_follow_append
      split: sum.splits dest!: insert_user_users)

lemma account_step_users: "users_follow (users s) (users (account_step ev s))"
  by (cases ev) (simp_all add: session_step_users new_account_users create_invitation_users
      activate_invitation_users admin_set_account_status_users request_purge_users confirm_purge_users
      prepare_purge_users complete_purge_users admin_revoke_invitation_def admin_resend_invitation_def
      Let_def split: sum.splits option.splits)

subsection \<open>Locked out\<close>

definition doomed_account :: "uuid \<Rightarrow> db \<Rightarrow> bool" where
  "doomed_account user_id s =
    (case List.find (\<lambda>u. u_id u = user_id) (users s) of
       None \<Rightarrow> False | Some u \<Rightarrow> u_status u \<in> {Deleting, Deleted})"

lemma find_map_keyed:
  assumes "List.find (\<lambda>u. u_id u = i) us = Some u" and "\<forall>x \<in> set us. u_id (f x) = u_id x"
  shows "List.find (\<lambda>u. u_id u = i) (map f us @ new) = Some (f u)"
  using assms by (induction us) auto

lemma account_step_keeps_doomed: "doomed_account i s \<Longrightarrow> doomed_account i (account_step ev s)"
proof -
  assume "doomed_account i s"
  then obtain u where u: "List.find (\<lambda>u. u_id u = i) (users s) = Some u" "u_status u \<in> {Deleting, Deleted}"
    by (auto simp: doomed_account_def split: option.splits)
  from account_step_users [of s ev] obtain f new where f: "users (account_step ev s) = map f (users s) @ new"
    "\<forall>x \<in> set (users s). u_id (f x) = u_id x \<and> status_arrow (u_status x) (u_status (f x))"
    unfolding users_follow_def by (elim exE conjE)
  from f(2) have "List.find (\<lambda>u. u_id u = i) (map f (users s) @ new) = Some (f u)"
    by (intro find_map_keyed u) simp
  moreover have "u_status (f u) \<in> {Deleting, Deleted}"
    using u(2) f(2) find_SomeD [OF u(1)] by (auto simp: arrow_from_deleting arrow_from_deleted)
  ultimately show ?thesis by (simp add: doomed_account_def f(1))
qed

interpretation doomed: event_system account_step "\<lambda>_. True" "doomed_account i" for i
  by unfold_locales (rule account_step_keeps_doomed)

lemma doomed_locked: "doomed_account i s \<Longrightarrow> lock_active_user i s = Inl AccountDisabled"
  by (auto simp: doomed_account_def lock_active_user_def split: option.splits)

lemma doomed_no_rotation:
  assumes "doomed_account i s" and "List.find (\<lambda>t. rt_hash t = h) (refresh_tokens s) = Some t" and "rt_user t = i"
  shows "\<exists>er. snd (rotate_refresh_token_inner e h r role rq s) = Inl er"
  using assms by (simp add: rotate_refresh_token_inner_def issue_replacement_def doomed_locked Let_def)

lemma doomed_no_transition:
  "doomed_account i s \<Longrightarrow> fst (admin_set_account_status e a i st r rq s) = s"
  by (auto simp: doomed_account_def admin_set_account_status_def split: option.splits sum.splits)

lemma confirm_dooms:
  assumes "confirm_account_purge e j a i x r rq s = (s1, Inr resp)"
  shows "doomed_account i s1"
proof -
  from assms have "purgeable_user i s = Inr ()"
    by (cases "purgeable_user i s") (auto simp: confirm_account_purge_def split: sum.splits if_splits)
  then obtain u where u: "List.find (\<lambda>u. u_id u = i) (users s) = Some u" "u_status u \<in> {Active, Disabled}"
    by (auto simp: purgeable_user_def split: option.splits if_splits)
  from assms have "users s1 = update_where (\<lambda>v. u_id v = i \<and> u_status v \<in> {Active, Disabled})
      (set_user_status Deleting) (users s)"
    by (auto simp: confirm_account_purge_def Let_def split: sum.splits option.splits if_splits
        dest!: insert_job_users)
  moreover have "List.find (\<lambda>v. u_id v = i) (update_where (\<lambda>v. u_id v = i \<and> u_status v \<in> {Active, Disabled})
      (set_user_status Deleting) (users s)) = Some (set_user_status Deleting u)"
    using u(2) find_SomeD [OF u(1)] by (simp add: set_user_status.find_update u(1))
  ultimately show ?thesis by (simp add: doomed_account_def set_user_status_def)
qed

text \<open>C31. The confirmation of an account purge is final: whatever operations on accounts and
  sessions run after it, in any order, the account gets no session by login or refresh, none of
  its access tokens is accepted, and no administrator can change its status.\<close>

theorem confirmed_deletion_is_final:
  assumes "confirm_account_purge e job actor uid export reason rid s = (s1, Inr resp)"
  shows "create_login_session e2 uid did r rid2 (fold account_step events s1)
      = (fold account_step events s1, Inl AccountDisabled)
    \<and> validate_access e2 uid did role (fold account_step events s1)
      = (fold account_step events s1, Inl AccountDisabled)
    \<and> (\<forall>t. List.find (\<lambda>t. rt_hash t = h) (refresh_tokens (fold account_step events s1)) = Some t
        \<longrightarrow> rt_user t = uid
        \<longrightarrow> (\<exists>er. snd (rotate_refresh_token_inner e2 h r expected rid2 (fold account_step events s1)) = Inl er))
    \<and> fst (admin_set_account_status e2 actor2 uid status reason2 rid2 (fold account_step events s1))
      = fold account_step events s1"
proof -
  have "doomed_account uid (fold account_step events s1)"
    using confirm_dooms [OF assms] by (intro doomed.run_inv) simp_all
  then show ?thesis
    by (auto simp: create_login_session_def validate_access_def doomed_locked doomed_no_transition
        doomed_no_rotation)
qed

text \<open>The account \<open>v\<close> whose export is archived.\<close>

definition sample_purge_ready :: db where
  "sample_purge_ready = sample_db\<lparr>
     jobs := [\<lparr>j_id = ''j'', j_kind = AccountPurge, j_owner = Some ''v'', j_project = None,
       j_payload = JObj [], j_status = JSucceeded, j_attempts = 1, j_run_after = 0, j_lease = None,
       j_lease_expires_at = None, j_error = None, j_created_at = 0, j_started_at = None,
       j_finished_at = None\<rparr>],
     account_purge_exports := [\<lparr>ex_id = ''x'', ex_user = ''v'', ex_job = ''j'', ex_key = ''k'',
       ex_hash = Some ''h'', ex_size = Some 1, ex_status = ExReady, ex_created_at = 0,
       ex_expires_at = days 7, ex_completed_at = None\<rparr>]\<rparr>"

lemma sample_confirm_runs:
  "snd (confirm_account_purge sample_env ''k'' ''a'' ''v'' ''x'' ''r'' ''q'' sample_purge_ready)
    = Inr \<lparr>ap_job = ''k'', ap_export = ''x'', ap_status = ''queued'', ap_confirmation_required = False\<rparr>"
  by code_simp

theorem confirmed_deletion_is_final_witness:
  "snd (create_login_session sample_env ''v'' ''e'' \<lparr>nt_hash = [1], nt_family = ''f'', nt_expires_at = days 9\<rparr> ''q''
      (account_step (SetStatus sample_env ''a'' ''v'' Active ''r'' ''q'')
        (fst (confirm_account_purge sample_env ''k'' ''a'' ''v'' ''x'' ''r'' ''q'' sample_purge_ready))))
    = Inl AccountDisabled"
  using confirmed_deletion_is_final [OF outcome_of_snd [OF sample_confirm_runs],
      where events = "[SetStatus sample_env ''a'' ''v'' Active ''r'' ''q'']"]
  by simp

subsection \<open>Invitations\<close>

text \<open>Every invitation that carries the token is used.\<close>

definition token_spent :: "bytes \<Rightarrow> db \<Rightarrow> bool" where
  "token_spent h s \<longleftrightarrow> (\<forall>i \<in> set (invitations s). inv_hash i = h \<longrightarrow> inv_used_at i \<noteq> None)"

text \<open>Tokens are drawn at random: no later invitation is given the hash of an earlier one.\<close>

fun other_token :: "bytes \<Rightarrow> account_event \<Rightarrow> bool" where
  "other_token h (Invite e u v a n i) \<longleftrightarrow> ni_hash n \<noteq> h"
| "other_token h (ResendInvitation e a v h' t i) \<longleftrightarrow> h' \<noteq> h"
| "other_token h _ \<longleftrightarrow> True"

lemma session_step_invitations: "invitations (session_step ev s) = invitations s"
proof (cases ev)
  case (Login e u d r i)
  then show ?thesis
    by (auto simp: create_login_session_def try_bind_eq_Inr ensure_device_def insert_refresh_def
        split: sum.splits option.splits if_splits)
next
  case (Rotate e h r role i)
  have "invitations (fst (issue_replacement e t r g role i s)) = invitations s" for t g
    by (auto simp: issue_replacement_def try_bind_eq_Inr Let_def insert_refresh_def split: sum.splits if_splits)
  with Rotate show ?thesis
    by (simp add: rotate_refresh_token_inner_def Let_def detect_reuse_def insert_audit_nullable_def
        revoke_family_def split: option.splits)
next
  case (Logout e u d i)
  then show ?thesis by (simp add: logout_device_def)
next
  case (WebLogout e h i)
  then show ?thesis by (simp add: logout_device_by_refresh_token_def Let_def split: option.splits)
next
  case (ChangePassword e u h)
  then show ?thesis by (simp add: change_password_def)
next
  case (RevokeDevice e u d i)
  then show ?thesis by (simp add: revoke_device_def split: option.splits)
next
  case (Access e u d r)
  then show ?thesis by (simp add: validate_access_def split: sum.splits)
qed

lemma token_spent_same: "invitations s' = invitations s \<Longrightarrow> token_spent h s \<Longrightarrow> token_spent h s'"
  by (simp add: token_spent_def)

lemma token_spent_update:
  assumes "token_spent h s" and "invitations s' = update_where P f (invitations s)"
    and "\<And>i. P i \<Longrightarrow> inv_hash (f i) = h \<Longrightarrow>
      inv_used_at (f i) \<noteq> None \<or> inv_hash i = h \<and> inv_used_at (f i) = inv_used_at i"
  shows "token_spent h s'"
  unfolding token_spent_def assms(2)
proof (intro ballI impI)
  fix i assume "i \<in> set (update_where P f (invitations s))" and h: "inv_hash i = h"
  then obtain i0 where i0: "i0 \<in> set (invitations s)" "i = (if P i0 then f i0 else i0)"
    by (elim in_update_whereE)
  with assms(1) have old: "inv_hash i0 = h \<Longrightarrow> inv_used_at i0 \<noteq> None" by (simp add: token_spent_def)
  show "inv_used_at i \<noteq> None"
  proof (cases "P i0")
    case True
    with assms(3) [OF True] i0 h old show ?thesis by auto
  next
    case False
    with i0 h old show ?thesis by simp
  qed
qed

lemma insert_user_invitations: "insert_user u s = Inr s' \<Longrightarrow> invitations s' = invitations s"
  by (auto simp: insert_user_def split: if_splits)

lemma upsert_pending_user_invitations:
  "upsert_pending_user e u n s = Inr s' \<Longrightarrow> invitations s' = invitations s"
  by (auto simp: upsert_pending_user_def dest!: insert_user_invitations split: if_splits)

lemma upsert_invitation_spent:
  assumes "upsert_invitation e v n s = Inr (s', i)" and "token_spent h s" and "ni_hash n \<noteq> h"
  shows "token_spent h s'"
proof (cases "List.find (\<lambda>i. inv_email_normalized i = ni_email_normalized n) (invitations s)")
  case None
  with assms show ?thesis
    by (auto simp: upsert_invitation_def Let_def token_spent_def new_invitation_row_def split: if_splits)
next
  case (Some x)
  with assms(1) have "invitations s' =
      update_where (\<lambda>i. inv_email_normalized i = ni_email_normalized n) (reissue n) (invitations s)"
    by (auto simp: upsert_invitation_def Let_def split: if_splits)
  with assms(2) show ?thesis by (rule token_spent_update) (use assms(3) in \<open>simp add: reissue_def\<close>)
qed

lemma create_invitation_spent:
  assumes "token_spent h s" and "ni_hash n \<noteq> h"
  shows "token_spent h (fst (create_invitation e u v a n rq s))"
proof (cases "create_invitation e u v a n rq s")
  case (Pair s' out)
  show ?thesis
  proof (cases out)
    case (Inl er)
    with Pair assms show ?thesis by (auto simp: create_invitation_def split: sum.splits)
  next
    case (Inr ic)
    with Pair obtain s1 s2 i where s1: "upsert_pending_user e u n s = Inr s1"
      and s2: "upsert_invitation e v n s1 = Inr (s2, i)" and s': "invitations s' = invitations s2"
      by (auto simp: create_invitation_def try_bind_eq_Inr split: sum.splits if_splits)
    from assms(1) upsert_pending_user_invitations [OF s1] have "token_spent h s1"
      by (simp add: token_spent_def)
    with upsert_invitation_spent [OF s2] assms(2) s' Pair show ?thesis by (simp add: token_spent_def)
  qed
qed

lemma activate_invitations:
  assumes "activate_invitation e h p d r rq s = (s', Inr ss)"
  obtains i where "List.find (\<lambda>i. inv_hash i = h) (invitations s) = Some i" and "redeemable e i"
    and "invitations s' = update_where (\<lambda>x. inv_id x = inv_id i) (use_invitation e) (invitations s)"
proof -
  from assms obtain i where i: "List.find (\<lambda>i. inv_hash i = h) (invitations s) = Some i"
    by (auto simp: activate_invitation_def split: option.splits)
  with assms have rest: "redeemable e i"
    "invitations s' = update_where (\<lambda>x. inv_id x = inv_id i) (use_invitation e) (invitations s)"
    by (auto simp: activate_invitation_def Let_def try_bind_eq_Inr ensure_device_def insert_refresh_def
        split: option.splits sum.splits if_splits)
  from that [OF i rest] show thesis .
qed

lemma activate_refused: "activate_invitation e h p d r rq s = (s', Inl er) \<Longrightarrow> s' = s"
  by (auto simp: activate_invitation_def Let_def split: option.splits sum.splits if_splits)

lemma activate_keeps_spent: "token_spent h s \<Longrightarrow> token_spent h (fst (activate_invitation e h' p d r rq s))"
proof (cases "activate_invitation e h' p d r rq s")
  case (Pair s' out)
  assume spent: "token_spent h s"
  show ?thesis
  proof (cases out)
    case (Inl er)
    with Pair spent show ?thesis by (auto dest: activate_refused)
  next
    case (Inr ss)
    with Pair have "activate_invitation e h' p d r rq s = (s', Inr ss)" by simp
    then have "token_spent h s'"
    proof (rule activate_invitations)
      fix i assume "invitations s' = update_where (\<lambda>x. inv_id x = inv_id i) (use_invitation e) (invitations s)"
      with spent show ?thesis by (rule token_spent_update) (simp add: use_invitation_def)
    qed
    with Pair show ?thesis by simp
  qed
qed

lemma purge_invitations:
  "invitations (fst (request_account_purge_export e j x a u r i s)) = invitations s"
  "invitations (fst (confirm_account_purge e j a u x r i s)) = invitations s"
  "invitations (fst (complete_account_purge pu e j l s)) = invitations s"
  "set (invitations (fst (prepare_account_purge pu e j l s))) \<subseteq> set (invitations s)"
proof -
  have job: "insert_job y s0 = Inr s' \<Longrightarrow> invitations s' = invitations s0" for y s0 s'
    by (auto simp: insert_job_def split: if_splits)
  have export: "insert_export y s0 = Inr s' \<Longrightarrow> invitations s' = invitations s0" for y s0 s'
    by (auto simp: insert_export_def split: if_splits)
  show "invitations (fst (request_account_purge_export e j x a u r i s)) = invitations s"
    by (auto simp: request_account_purge_export_def try_bind_eq_Inr split: sum.splits list.splits prod.splits
        dest!: job export)
  show "invitations (fst (confirm_account_purge e j a u x r i s)) = invitations s"
    by (auto simp: confirm_account_purge_def Let_def split: sum.splits option.splits dest!: job)
  show "invitations (fst (complete_account_purge pu e j l s)) = invitations s"
    by (simp add: complete_account_purge_def Let_def update_job_def split: option.splits)
  show "set (invitations (fst (prepare_account_purge pu e j l s))) \<subseteq> set (invitations s)"
    by (auto simp: prepare_account_purge_def Let_def update_job_def delete_account_rows_def
        delete_owned_rows_def split: option.splits)
qed

lemma account_step_keeps_spent:
  assumes "other_token h ev" and spent: "token_spent h s"
  shows "token_spent h (account_step ev s)"
proof (cases ev)
  case (Session ev')
  then show ?thesis using spent by (simp add: session_step_invitations token_spent_def)
next
  case (CreateAdmin e u n d hs)
  then show ?thesis using spent
    by (auto simp: create_initial_admin_def Let_def token_spent_def dest!: insert_user_invitations
        split: sum.splits)
next
  case (RegisterUser e u n d hs i)
  then show ?thesis using spent
    by (auto simp: register_user_def Let_def token_spent_def dest!: insert_user_invitations split: sum.splits)
next
  case (CreateUser e u a n d hs i)
  then show ?thesis using spent
    by (auto simp: admin_create_user_def Let_def token_spent_def dest!: insert_user_invitations
        split: sum.splits)
next
  case (Invite e u v a n i)
  then show ?thesis using assms by (simp add: create_invitation_spent)
next
  case (RevokeInvitation e a v r i)
  have "token_spent h (s\<lparr>invitations := update_where P (revoke_invitation e) (invitations s)\<rparr>)" for P
    using spent
    by (rule token_spent_update [where P = P and f = "revoke_invitation e"]) (simp_all add: revoke_invitation_def)
  with RevokeInvitation spent show ?thesis
    by (simp add: admin_revoke_invitation_def Let_def token_spent_def split: sum.splits)
next
  case (ResendInvitation e a v h' t i)
  have "token_spent h (s\<lparr>invitations := update_where P (resend h' t) (invitations s)\<rparr>)" for P
    using spent
    by (rule token_spent_update [where P = P and f = "resend h' t"])
      (use assms(1) ResendInvitation in \<open>simp_all add: resend_def\<close>)
  with ResendInvitation spent show ?thesis
    by (simp add: admin_resend_invitation_def Let_def token_spent_def split: sum.splits option.splits)
next
  case (Redeem e h' p d r i)
  then show ?thesis using spent by (simp add: activate_keeps_spent)
next
  case (SetStatus e a u st r i)
  then show ?thesis using spent
    by (simp add: admin_set_account_status_def token_spent_def split: sum.splits option.splits)
next
  case (PreparePurge pu e j l)
  then show ?thesis using spent purge_invitations(4) [of pu e j l s] by (auto simp: token_spent_def)
qed (use spent in \<open>simp_all add: token_spent_def purge_invitations(1-3)\<close>)

interpretation spent: event_system account_step "other_token h" "token_spent h" for h
  by unfold_locales (rule account_step_keeps_spent)

text \<open>C21. An invitation is redeemed at most once: after its token activated an account, the same
  token is refused, whatever operations on accounts, sessions and invitations ran in between.\<close>

theorem invitation_redeemed_once:
  assumes keys: "distinct (map inv_hash (invitations s))"
    and run: "activate_invitation e h password did r rid s = (s1, Inr session)"
    and later: "\<forall>ev \<in> set events. other_token h ev"
  shows "activate_invitation e2 h password2 did2 r2 rid2 (fold account_step events s1)
    = (fold account_step events s1, Inl InvalidInvitation)"
proof -
  have "token_spent h s1"
    using run
  proof (rule activate_invitations)
    fix i
    assume i: "List.find (\<lambda>i. inv_hash i = h) (invitations s) = Some i"
      and s1: "invitations s1 = update_where (\<lambda>x. inv_id x = inv_id i) (use_invitation e) (invitations s)"
    have "x = i" if "x \<in> set (invitations s)" "inv_hash x = h" for x
      using keyed_table_find [OF keys that] i by simp
    then show ?thesis
      unfolding token_spent_def s1 by (auto simp: set_update_where use_invitation_def)
  qed
  with later have "token_spent h (fold account_step events s1)" by (intro spent.run_inv)
  then show ?thesis
    by (auto simp: activate_invitation_def token_spent_def redeemable_def split: option.splits
        dest!: find_SomeD)
qed

definition sample_invitation :: new_invitation where
  "sample_invitation = \<lparr>ni_email_normalized = ''w@a.io'', ni_email_display = ''w@a.io'',
     ni_hash = [7], ni_expires_at = days 7\<rparr>"

definition sample_refresh :: new_refresh_token where
  "sample_refresh = \<lparr>nt_hash = [1], nt_family = ''f'', nt_expires_at = days 9\<rparr>"

definition sample_invited :: db where
  "sample_invited = fst (create_invitation sample_env ''w'' ''i'' ''a'' sample_invitation ''q'' sample_db)"

lemma sample_invited_runs:
  "snd (create_invitation sample_env ''w'' ''i'' ''a'' sample_invitation ''q'' sample_db)
    = Inr \<lparr>ic_id = ''i'', ic_email = ''w@a.io'', ic_expires_at = days 7\<rparr>"
  by code_simp

lemma sample_redeemed:
  "map_sum id ss_device (snd (activate_invitation sample_env [7] ''pw'' ''g'' sample_refresh ''q'' sample_invited))
    = Inr ''g''"
  by code_simp

theorem invitation_redeemed_once_witness:
  "snd (activate_invitation sample_env [7] ''pw'' ''g'' (sample_refresh\<lparr>nt_hash := [2]\<rparr>) ''q''
      (account_step (RevokeInvitation sample_env ''a'' ''i'' ''r'' ''q'')
        (fst (activate_invitation sample_env [7] ''pw'' ''g'' sample_refresh ''q'' sample_invited))))
    = Inl InvalidInvitation"
proof -
  have keys: "distinct (map inv_hash (invitations sample_invited))" by code_simp
  obtain session where "snd (activate_invitation sample_env [7] ''pw'' ''g'' sample_refresh ''q'' sample_invited)
      = Inr session"
    using sample_redeemed
    by (cases "snd (activate_invitation sample_env [7] ''pw'' ''g'' sample_refresh ''q'' sample_invited)") auto
  from invitation_redeemed_once [OF keys outcome_of_snd [OF this],
      of "[RevokeInvitation sample_env ''a'' ''i'' ''r'' ''q'']" sample_env "''pw''" "''g''"
         "sample_refresh\<lparr>nt_hash := [2]\<rparr>" "''q''"]
  show ?thesis by simp
qed

subsection \<open>An invitation whose account is enabled first\<close>

lemma created_invitation:
  assumes "create_invitation e uid iid actor n rid s = (s1, Inr ic)"
    and "find_login_user (ni_email_normalized n) s = None"
  shows "users s1 = users s @ [new_user e uid (ni_email_normalized n) (ni_email_display n) [] User Pending]
    \<and> uid \<notin> u_id ` set (users s)
    \<and> (\<forall>i \<in> set (invitations s1). inv_hash i = ni_hash n \<longrightarrow> inv_email_normalized i = ni_email_normalized n)"
proof -
  from assms(1) obtain s0 s' i where s0: "upsert_pending_user e uid n s = Inr s0"
    and i: "upsert_invitation e iid n s0 = Inr (s', i)"
    and s': "users s1 = users s'" "invitations s1 = invitations s'"
    by (auto simp: create_invitation_def try_bind_eq_Inr split: sum.splits if_splits)
  from assms(2) have "\<not> list_ex (\<lambda>x. u_email_normalized x = ni_email_normalized n) (users s)"
    by (auto simp: find_login_user_def find_None_iff list_ex_iff)
  with s0 have new: "users s0 = users s @ [new_user e uid (ni_email_normalized n) (ni_email_display n) [] User Pending]"
    "uid \<notin> u_id ` set (users s)"
    by (auto simp: upsert_pending_user_def insert_user_def new_user_def list_ex_iff split: if_splits)
  have "\<forall>x \<in> set (invitations s'). inv_hash x = ni_hash n \<longrightarrow> inv_email_normalized x = ni_email_normalized n"
    using i by (auto simp: upsert_invitation_def Let_def list_ex_iff set_update_where reissue_def
        new_invitation_row_def split: option.splits if_splits)
  with new upsert_invitation_users [OF i] s' show ?thesis by simp
qed

lemma enabled_account:
  assumes "admin_set_account_status e actor uid Active reason rid s = (s1, Inr ())"
  shows "users s1 = update_where (\<lambda>u. u_id u = uid) (set_user_status Active) (users s)
    \<and> invitations s1 = invitations s"
  using assms by (auto simp: admin_set_account_status_def split: sum.splits option.splits if_splits)

text \<open>The account of an open invitation can be enabled by an administrator. Right afterwards there is no
  way in: it is active with the empty password hash, its invitation is no longer accepted, the
  address gets no new invitation and can neither be registered nor created by an administrator.\<close>

theorem enabled_invitation_is_stranded:
  assumes invite: "create_invitation e uid iid actor n rid s = (s1, Inr ic)"
    and fresh: "find_login_user (ni_email_normalized n) s = None"
    and enable: "admin_set_account_status e2 actor2 uid Active reason rid2 s1 = (s2, Inr ())"
  shows "map_option (\<lambda>u. (u_id u, u_status u, u_password_hash u)) (find_login_user (ni_email_normalized n) s2)
      = Some (uid, Active, [])
    \<and> activate_invitation e3 (ni_hash n) password did r rid3 s2 = (s2, Inl InvalidInvitation)
    \<and> (\<exists>er. create_invitation e3 uid3 iid3 actor3 (n\<lparr>ni_hash := h3\<rparr>) rid3 s2 = (s2, Inl er))
    \<and> register_user e3 uid3 (ni_email_normalized n) display password rid3 s2 = (s2, Inl Conflict)
    \<and> (\<exists>er. admin_create_user e3 uid3 actor3 (ni_email_normalized n) display password rid3 s2 = (s2, Inl er))"
proof -
  define u where "u = set_user_status Active (new_user e uid (ni_email_normalized n) (ni_email_display n) [] User Pending)"
  from created_invitation [OF invite fresh] enabled_account [OF enable]
  have users: "users s2 = users s @ [u]"
    and hashes: "\<forall>i \<in> set (invitations s2). inv_hash i = ni_hash n \<longrightarrow> inv_email_normalized i = ni_email_normalized n"
    by (auto simp: u_def new_user_def intro!: update_where_none)
  have u: "u_id u = uid" "u_status u = Active" "u_password_hash u = []"
    "u_email_normalized u = ni_email_normalized n"
    by (simp_all add: u_def new_user_def set_user_status_def)
  have others: "\<forall>x \<in> set (users s). u_email_normalized x \<noteq> ni_email_normalized n"
    using fresh by (simp add: find_login_user_def find_None_iff)
  then have login: "find_login_user (ni_email_normalized n) s2 = Some u"
    using fresh u by (simp add: find_login_user_def users find_append)
  have "\<not> (u_email_normalized x = ni_email_normalized n \<and> u_status x = Pending)" if "x \<in> set (users s2)" for x
    using that others u by (auto simp: users)
  then have "List.find (\<lambda>x. u_email_normalized x = ni_email_normalized n \<and> u_status x = Pending) (users s2) = None"
    by (simp add: find_None_iff)
  with hashes have "activate_invitation e3 (ni_hash n) password did r rid3 s2 = (s2, Inl InvalidInvitation)"
    by (cases "List.find (\<lambda>i. inv_hash i = ni_hash n) (invitations s2)")
      (auto simp: activate_invitation_def Let_def dest!: find_SomeD)
  with login u show ?thesis
    by (auto simp: create_invitation_def register_user_def admin_create_user_def insert_user_def new_user_def users Let_def
        as_conflict_def try_bind_def split: sum.splits)
qed

lemma sample_enabled:
  "snd (admin_set_account_status sample_env ''a'' ''w'' Active ''r'' ''q'' sample_invited) = Inr ()"
  by code_simp

theorem enabled_invitation_is_stranded_witness:
  "activate_invitation sample_env [7] ''pw'' ''g'' sample_refresh ''q''
      (fst (admin_set_account_status sample_env ''a'' ''w'' Active ''r'' ''q'' sample_invited))
    = (fst (admin_set_account_status sample_env ''a'' ''w'' Active ''r'' ''q'' sample_invited), Inl InvalidInvitation)"
proof -
  have fresh: "find_login_user (ni_email_normalized sample_invitation) sample_db = None" by code_simp
  have hash: "ni_hash sample_invitation = [7]" by (simp add: sample_invitation_def)
  from enabled_invitation_is_stranded [OF outcome_of_snd [OF sample_invited_runs] fresh
      outcome_of_snd [OF sample_enabled, unfolded sample_invited_def], THEN conjunct2, THEN conjunct1]
  show ?thesis by (simp add: sample_invited_def hash)
qed

end
