(* ===== verification/Api.thy ===== *)
theory Api
  imports Push Object_Store Admin
begin

text \<open>
  The checks and the translations of the HTTP interface (\<open>crates/api/src/routes.rs\<close>): the error
  body and how the errors of the persistence and of the object store become one, the validation
  of the fields of a request, the allowed origins, cookies, the literal search pattern and the
  CSV of the audit events. The Chinese message of an error is left out: its code and status
  determine what a client does.
\<close>

subsection \<open>Errors\<close>

record api_error =
  ae_status :: int
  ae_code :: string
  ae_retryable :: bool
  ae_request_id :: string
  ae_details :: "json option"

definition api_error_new :: "int \<Rightarrow> string \<Rightarrow> bool \<Rightarrow> string \<Rightarrow> api_error" where
  "api_error_new status code retryable request_id =
    \<lparr>ae_status = status, ae_code = code, ae_retryable = retryable, ae_request_id = request_id,
     ae_details = None\<rparr>"

definition with_details :: "json \<Rightarrow> api_error \<Rightarrow> api_error" where
  "with_details details err = err\<lparr>ae_details := Some details\<rparr>"

definition api_invalid :: "string \<Rightarrow> api_error" where
  "api_invalid = api_error_new 400 ''INVALID_REQUEST'' False"

definition api_authentication :: "string \<Rightarrow> api_error" where
  "api_authentication = api_error_new 401 ''AUTHENTICATION_REQUIRED'' False"

definition api_internal :: "string \<Rightarrow> api_error" where
  "api_internal = api_error_new 500 ''INTERNAL_ERROR'' True"

definition api_unavailable :: "string \<Rightarrow> api_error" where
  "api_unavailable = api_error_new 503 ''STORAGE_UNAVAILABLE'' True"

definition api_authorization :: "string \<Rightarrow> api_error" where
  "api_authorization = api_error_new 403 ''AUTHORIZATION_DENIED'' False"

definition api_rate_limited :: "string \<Rightarrow> api_error" where
  "api_rate_limited = api_error_new 429 ''RATE_LIMITED'' True"

definition api_cursor_invalid :: "string \<Rightarrow> api_error" where
  "api_cursor_invalid = api_error_new 400 ''CURSOR_INVALID'' False"

definition account_disabled :: "string \<Rightarrow> api_error" where
  "account_disabled = api_error_new 403 ''ACCOUNT_DISABLED'' False"

definition payload_not_found :: "string \<Rightarrow> api_error" where
  "payload_not_found = api_error_new 404 ''PAYLOAD_NOT_FOUND'' False"

text \<open>The answer to the retry of a request whose refusal is stored: only the stored code counts.\<close>

definition map_idempotency_replay :: "json \<Rightarrow> int \<Rightarrow> string \<Rightarrow> api_error" where
  "map_idempotency_replay response status request_id =
    (let code = Option.bind (json_get ''code'' response) json_as_str;
         details = json_get ''details'' response in
     if code = Some ''GENERATION_MISMATCH''
     then with_details (case details of None \<Rightarrow> JObj [] | Some d \<Rightarrow> d)
            (api_error_new 409 ''GENERATION_MISMATCH'' False request_id)
     else if code = Some ''CURSOR_INVALID'' then api_error_new 409 ''CURSOR_INVALID'' False request_id
     else if code = Some ''PROJECT_MAINTENANCE''
     then api_error_new 423 ''PROJECT_MAINTENANCE'' True request_id
     else api_internal request_id)"

fun map_persistence :: "persistence_error \<Rightarrow> string \<Rightarrow> api_error" where
  "map_persistence AccountDisabled i = account_disabled i"
| "map_persistence DeviceRevoked i = api_error_new 403 ''DEVICE_REVOKED'' False i"
| "map_persistence InvalidRefreshToken i = api_authentication i"
| "map_persistence RefreshTokenReuse i = api_authentication i"
| "map_persistence InvalidInvitation i = api_invalid i"
| "map_persistence AdminRequired i = api_authorization i"
| "map_persistence InvalidAccountTransition i = api_error_new 409 ''INVALID_ACCOUNT_STATUS_TRANSITION'' False i"
| "map_persistence Conflict i = api_error_new 409 ''INVALID_REQUEST'' False i"
| "map_persistence NotFound i = api_error_new 404 ''NOT_FOUND'' False i"
| "map_persistence ProjectMaintenance i = api_error_new 423 ''PROJECT_MAINTENANCE'' True i"
| "map_persistence (GenerationMismatch expected actual) i =
    with_details (JObj [(''expectedGeneration'', JNum expected), (''actualGeneration'', JNum actual)])
      (api_error_new 409 ''GENERATION_MISMATCH'' False i)"
| "map_persistence BootstrapRequired i = api_error_new 409 ''CURSOR_INVALID'' False i"
| "map_persistence IdempotencyConflict i = api_error_new 409 ''IDEMPOTENCY_CONFLICT'' False i"
| "map_persistence (IdempotencyReplay response status) i = map_idempotency_replay response status i"
| "map_persistence PayloadNotFound i = api_error_new 404 ''PAYLOAD_NOT_FOUND'' False i"
| "map_persistence InvalidPayload i = api_invalid i"
| "map_persistence InvalidRestoreTarget i = api_invalid i"
| "map_persistence RestoreNotReopenable i = api_error_new 409 ''RESTORE_NOT_REOPENABLE'' False i"
| "map_persistence RestoreCancelled i = api_error_new 409 ''RESTORE_CANCELLED'' False i"
| "map_persistence AccountPurgeNotReady i = api_error_new 409 ''ACCOUNT_PURGE_EXPORT_NOT_READY'' False i"
| "map_persistence Database i = api_internal i"

definition map_project_error :: "persistence_error \<Rightarrow> string \<Rightarrow> api_error" where
  "map_project_error err request_id =
    (if err = NotFound then api_error_new 404 ''PROJECT_NOT_FOUND'' False request_id
     else map_persistence err request_id)"

fun map_object_store :: "object_store_error \<Rightarrow> string \<Rightarrow> api_error" where
  "map_object_store ObjNotFound i = payload_not_found i"
| "map_object_store HashMismatch i = api_error_new 422 ''CONTENT_HASH_MISMATCH'' False i"
| "map_object_store InvalidRange i = api_error_new 416 ''INVALID_REQUEST'' False i"
| "map_object_store Backend i = api_error_new 503 ''STORAGE_UNAVAILABLE'' True i"

type_synonym 'a api = "api_error + 'a"

definition check :: "bool \<Rightarrow> api_error \<Rightarrow> unit api" where
  "check ok err = (if ok then Inr () else Inl err)"

lemma check_eq_Inr [simp]: "check ok err = Inr () \<longleftrightarrow> ok"
  by (simp add: check_def)

subsection \<open>Fields of a request\<close>

definition is_lower_hex :: "char \<Rightarrow> bool" where
  "is_lower_hex c = (let n = of_char c :: nat in (48 \<le> n \<and> n \<le> 57) \<or> (97 \<le> n \<and> n \<le> 102))"

definition validate_content_hash :: "string \<Rightarrow> string \<Rightarrow> unit api" where
  "validate_content_hash content_hash request_id =
    check (utf8_len content_hash = 64 \<and> list_all is_lower_hex content_hash) (api_invalid request_id)"

definition valid_limit :: "int option \<Rightarrow> int \<Rightarrow> int \<Rightarrow> string \<Rightarrow> int api" where
  "valid_limit value dflt maximum request_id =
    (let v = (case value of None \<Rightarrow> dflt | Some v \<Rightarrow> v) in
     if 1 \<le> v \<and> v \<le> maximum then Inr v else Inl (api_invalid request_id))"

definition admin_page_bounds :: "int option \<Rightarrow> int option \<Rightarrow> string \<Rightarrow> (int \<times> int) api" where
  "admin_page_bounds limit offset request_id =
    try_bind (valid_limit limit 100 500 request_id) (\<lambda>l.
      let off = (case offset of None \<Rightarrow> 0 | Some v \<Rightarrow> v) in
      if 0 \<le> off \<and> off \<le> 1000000 then Inr (l, off) else Inl (api_invalid request_id))"

definition allowed_audit_actions :: "string list" where
  "allowed_audit_actions = [''auth.login_failed'', ''auth.refresh_failed'', ''auth.reauth_failed'',
     ''auth.login'', ''auth.refresh'', ''auth.logout'', ''auth.web.logout'', ''auth.registered'',
     ''auth.invitation_activated'', ''account.status_changed'', ''device.revoked'']"

definition valid_audit_action_filter :: "string option \<Rightarrow> string \<Rightarrow> string option api" where
  "valid_audit_action_filter action request_id =
    (case action of
       None \<Rightarrow> Inr None
     | Some a \<Rightarrow>
         if trim a = [] then Inr None
         else if trim a \<in> set allowed_audit_actions then Inr (Some (trim a))
         else Inl (api_invalid request_id))"

definition checked_next_revision :: "int option \<Rightarrow> int option" where
  "checked_next_revision base =
    (let b = (case base of None \<Rightarrow> 0 | Some b \<Rightarrow> b) in if b + 1 > i64_max then None else Some (b + 1))"

definition is_ulid_char :: "char \<Rightarrow> bool" where
  "is_ulid_char c = (let n = of_char c :: nat in
     (48 \<le> n \<and> n \<le> 57) \<or> (65 \<le> n \<and> n \<le> 72) \<or> (74 \<le> n \<and> n \<le> 75) \<or> (77 \<le> n \<and> n \<le> 78)
     \<or> (80 \<le> n \<and> n \<le> 84) \<or> (86 \<le> n \<and> n \<le> 90))"

fun valid_object_id :: "object_kind \<Rightarrow> string \<Rightarrow> bool" where
  "valid_object_id Todo i \<longleftrightarrow> utf8_len i = 26 \<and> list_all is_ulid_char i"
| "valid_object_id Classification i \<longleftrightarrow> i = ''classification''"
| "valid_object_id Index i \<longleftrightarrow> i = ''index''"
| "valid_object_id Image i \<longleftrightarrow> i \<noteq> [] \<and> utf8_len i \<le> 255 \<and> i \<noteq> ''.'' \<and> i \<noteq> ''..''
     \<and> CHR ''/'' \<notin> set i \<and> CHR 0x5C \<notin> set i \<and> CHR 0x00 \<notin> set i"

definition validate_revision_fields ::
    "object_kind \<Rightarrow> string \<Rightarrow> int \<Rightarrow> int option \<Rightarrow> uuid \<Rightarrow> uuid \<Rightarrow> string \<Rightarrow> unit api" where
  "validate_revision_fields kind i revision base device_id authenticated_device_id request_id =
    check (\<not> (revision \<le> 0
      \<or> (case base of None \<Rightarrow> False | Some b \<Rightarrow> b \<le> 0)
      \<or> checked_next_revision base \<noteq> Some revision
      \<or> device_id \<noteq> authenticated_device_id
      \<or> \<not> valid_object_id kind i)) (api_invalid request_id)"

definition validate_push_item ::
    "object_kind \<Rightarrow> string \<Rightarrow> int \<Rightarrow> int \<Rightarrow> int option \<Rightarrow> string \<Rightarrow> uuid \<Rightarrow> uuid \<Rightarrow> string \<Rightarrow> unit api" where
  "validate_push_item kind i schema_version revision base content_hash device_id authenticated_device_id request_id =
    (if schema_version \<le> 0 then Inl (api_invalid request_id)
     else try_bind (validate_content_hash content_hash request_id) (\<lambda>_.
       validate_revision_fields kind i revision base device_id authenticated_device_id request_id))"

definition parse_object_kind :: "string \<Rightarrow> object_kind option" where
  "parse_object_kind v =
    (if v = ''todo'' then Some Todo
     else if v = ''classification'' then Some Classification
     else if v = ''index'' then Some Index
     else if v = ''image'' then Some Image else None)"

definition valid_text :: "string \<Rightarrow> nat \<Rightarrow> string \<Rightarrow> string api" where
  "valid_text v max_chars request_id =
    (if trim v = [] \<or> length (trim v) > max_chars then Inl (api_invalid request_id) else Inr (trim v))"

subsection \<open>Headers\<close>

text \<open>
  The headers of a request, under lower-case names. \<open>HeaderValue::to_str\<close> accepts visible ASCII,
  the blank and the tab.
\<close>

type_synonym headers = "(string \<times> string) list"

definition header_str :: "string \<Rightarrow> headers \<Rightarrow> string option" where
  "header_str name hs =
    (case map_of hs name of
       None \<Rightarrow> None
     | Some v \<Rightarrow> if list_all (\<lambda>c. let n = of_char c :: nat in n = 9 \<or> (32 \<le> n \<and> n \<le> 126)) v then Some v else None)"

definition request_id_of :: "headers \<Rightarrow> string" where
  "request_id_of hs = (case header_str ''x-request-id'' hs of None \<Rightarrow> ''unknown'' | Some v \<Rightarrow> v)"

definition eq_ignore_ascii_case :: "string \<Rightarrow> string \<Rightarrow> bool" where
  "eq_ignore_ascii_case a b \<longleftrightarrow>
    (let fold1 = (\<lambda>c. let n = of_char c :: nat in if 65 \<le> n \<and> n \<le> 90 then char_of (n + 32) else c) in
     map fold1 a = map fold1 b)"

definition validate_configured_origin :: "string option \<Rightarrow> headers \<Rightarrow> string \<Rightarrow> unit api" where
  "validate_configured_origin expected hs request_id =
    (case expected of
       None \<Rightarrow> Inl (api_internal request_id)
     | Some origin \<Rightarrow>
         check (header_str ''origin'' hs = Some origin
           \<and> (case header_str ''sec-fetch-site'' hs of
                None \<Rightarrow> True | Some site \<Rightarrow> \<not> eq_ignore_ascii_case site ''cross-site''))
           (api_authorization request_id))"

fun find_map :: "('a \<Rightarrow> 'b option) \<Rightarrow> 'a list \<Rightarrow> 'b option" where
  "find_map f [] = None"
| "find_map f (x # xs) = (case f x of Some y \<Rightarrow> Some y | None \<Rightarrow> find_map f xs)"

definition cookie_value :: "headers \<Rightarrow> string \<Rightarrow> string option" where
  "cookie_value hs name =
    Option.bind (header_str ''cookie'' hs) (\<lambda>v.
      find_map (\<lambda>part. case split_once (CHR ''='') (trim part) of
          None \<Rightarrow> None
        | Some (cookie_name, token) \<Rightarrow>
            if cookie_name = name \<and> token \<noteq> [] then Some token else None)
        (split_on (CHR '';'') v))"

definition refresh_cookie ::
    "string \<Rightarrow> string \<Rightarrow> string \<Rightarrow> string \<Rightarrow> string" where
  "refresh_cookie name path token max_age =
    name @ ''='' @ token @ ''; Max-Age='' @ max_age @ ''; Path='' @ path @ ''; HttpOnly; Secure; SameSite=Strict''"

subsection \<open>Search and CSV\<close>

fun like_pattern_literal :: "string \<Rightarrow> string" where
  "like_pattern_literal [] = []"
| "like_pattern_literal (c # s) =
    (if c \<in> {CHR ''%'', CHR ''_'', CHR 0x5C} then CHR 0x5C # c # like_pattern_literal s
     else c # like_pattern_literal s)"

text \<open>The search term of a query: trimmed, absent when empty, at most 120 characters.\<close>

definition search_term :: "string option \<Rightarrow> string \<Rightarrow> string option api" where
  "search_term search request_id =
    (let t = (case search of None \<Rightarrow> None | Some v \<Rightarrow> if trim v = [] then None else Some (trim v)) in
     if (case t of None \<Rightarrow> False | Some v \<Rightarrow> length v > 120) then Inl (api_invalid request_id) else Inr t)"

fun double_quotes :: "string \<Rightarrow> string" where
  "double_quotes [] = []"
| "double_quotes (c # s) = (if c = CHR 0x22 then [CHR 0x22, CHR 0x22] else [c]) @ double_quotes s"

definition needs_quotes :: "char \<Rightarrow> bool" where
  "needs_quotes c \<longleftrightarrow> c \<in> {CHR '','', CHR 0x22, CHR 0x0D, CHR 0x0A}"

definition csv_field :: "string \<Rightarrow> string" where
  "csv_field v = (if list_ex needs_quotes v then CHR 0x22 # double_quotes v @ [CHR 0x22] else v)"

end
