(* ===== verification/Cursor.thy ===== *)
theory Cursor
  imports Api
begin

text \<open>
  The opaque cursors of the sync endpoints (\<open>crates/api/src/cursor.rs\<close>): the claims of a cursor as
  JSON in base64, a full stop, and the base64 of their HMAC. The HMAC construction and the
  comparison in constant time are the program's own; SHA-256, base64 and the JSON encoder are
  libraries, parameters of the model collected in one record.
\<close>

datatype cursor_kind = BootstrapCursor | PullCursor

record cursor_claims =
  cc_schema_version :: int
  cc_kind :: cursor_kind
  cc_project :: uuid
  cc_owner :: uuid
  cc_generation :: int
  cc_sequence :: int
  cc_offset :: int
  cc_manifest :: "uuid option"
  cc_issued_at :: int

text \<open>
  \<open>Sha256::digest\<close>, \<open>URL_SAFE_NO_PAD.encode\<close> and \<open>decode\<close>, \<open>serde_json::to_vec\<close> and \<open>from_slice\<close>
  at the type of the claims.
\<close>

record cursor_libs =
  cl_sha256 :: "bytes \<Rightarrow> bytes"
  cl_encode :: "bytes \<Rightarrow> string"
  cl_decode :: "string \<Rightarrow> bytes option"
  cl_to_vec :: "cursor_claims \<Rightarrow> bytes"
  cl_from_slice :: "bytes \<Rightarrow> cursor_claims option"

datatype cursor_error = SecretTooShort | InvalidCursor

definition cursor_signer_new :: "bytes \<Rightarrow> cursor_error + bytes" where
  "cursor_signer_new secret = (if length secret < 32 then Inl SecretTooShort else Inr secret)"

subsection \<open>HMAC\<close>

definition xor_byte :: "nat \<Rightarrow> nat \<Rightarrow> nat" where
  "xor_byte a b = Bit_Operations.xor a b"

definition or_byte :: "nat \<Rightarrow> nat \<Rightarrow> nat" where
  "or_byte a b = Bit_Operations.or a b"

definition normalized_key :: "(bytes \<Rightarrow> bytes) \<Rightarrow> bytes \<Rightarrow> bytes" where
  "normalized_key sha256 key =
    (let k = (if length key > 64 then sha256 key else key) in k @ replicate (64 - length k) 0)"

definition hmac_sha256 :: "(bytes \<Rightarrow> bytes) \<Rightarrow> bytes \<Rightarrow> bytes \<Rightarrow> bytes" where
  "hmac_sha256 sha256 key message =
    (let k = normalized_key sha256 key in
     sha256 (map (xor_byte 0x5C) k @ sha256 (map (xor_byte 0x36) k @ message)))"

text \<open>The comparison that does not stop at the first difference.\<close>

definition byte_difference :: "bytes \<Rightarrow> bytes \<Rightarrow> nat" where
  "byte_difference xs ys = fold (\<lambda>(l, r) difference. or_byte difference (xor_byte l r)) (zip xs ys) 0"

definition same_signature :: "bytes \<Rightarrow> bytes \<Rightarrow> bool" where
  "same_signature signature expected \<longleftrightarrow>
     length signature = length expected \<and> byte_difference signature expected = 0"

subsection \<open>Signing and verifying\<close>

text \<open>\<open>str::as_bytes\<close>: the UTF-8 encoding.\<close>

definition utf8_bytes :: "string \<Rightarrow> bytes" where
  "utf8_bytes s = concat (map (\<lambda>c. let n = of_char c :: nat in
     if n < 128 then [n] else [192 + n div 64, 128 + n mod 64]) s)"

definition cursor_sign :: "cursor_libs \<Rightarrow> bytes \<Rightarrow> env \<Rightarrow> cursor_claims \<Rightarrow> string" where
  "cursor_sign L secret e claims =
    (let claims' = claims\<lparr>cc_schema_version := 1, cc_issued_at := app_now e div 1000000\<rparr>;
         payload = cl_encode L (cl_to_vec L claims') in
     payload @ ''.'' @ cl_encode L (hmac_sha256 (cl_sha256 L) secret (utf8_bytes payload)))"

definition cursor_verify :: "cursor_libs \<Rightarrow> bytes \<Rightarrow> string \<Rightarrow> cursor_error + cursor_claims" where
  "cursor_verify L secret cursor =
    (case split_once (CHR ''.'') cursor of
       None \<Rightarrow> Inl InvalidCursor
     | Some (payload, signature) \<Rightarrow>
    if CHR ''.'' \<in> set signature then Inl InvalidCursor
    else (case cl_decode L signature of
       None \<Rightarrow> Inl InvalidCursor
     | Some sig \<Rightarrow>
    if \<not> same_signature sig (hmac_sha256 (cl_sha256 L) secret (utf8_bytes payload)) then Inl InvalidCursor
    else (case Option.bind (cl_decode L payload) (cl_from_slice L) of
       None \<Rightarrow> Inl InvalidCursor
     | Some claims \<Rightarrow> if cc_schema_version claims \<noteq> 1 then Inl InvalidCursor else Inr claims)))"

definition cursor_claims_of ::
    "cursor_kind \<Rightarrow> uuid \<Rightarrow> uuid \<Rightarrow> int \<Rightarrow> int \<Rightarrow> int \<Rightarrow> uuid option \<Rightarrow> cursor_claims" where
  "cursor_claims_of kind project_id owner generation sequence offset manifest =
    \<lparr>cc_schema_version = 1, cc_kind = kind, cc_project = project_id, cc_owner = owner,
     cc_generation = generation, cc_sequence = sequence, cc_offset = offset, cc_manifest = manifest,
     cc_issued_at = 0\<rparr>"

text \<open>The check of a handler: the cursor must have been made for this request.\<close>

definition verify_cursor ::
    "cursor_libs \<Rightarrow> bytes \<Rightarrow> string \<Rightarrow> cursor_kind \<Rightarrow> uuid \<Rightarrow> uuid \<Rightarrow> string \<Rightarrow> cursor_claims api" where
  "verify_cursor L secret cursor kind project_id owner request_id =
    (case cursor_verify L secret cursor of
       Inl _ \<Rightarrow> Inl (api_cursor_invalid request_id)
     | Inr claims \<Rightarrow>
         if cc_kind claims \<noteq> kind \<or> cc_project claims \<noteq> project_id \<or> cc_owner claims \<noteq> owner
            \<or> cc_generation claims \<le> 0 \<or> cc_sequence claims < 0 \<or> cc_offset claims < 0
            \<or> (kind = PullCursor \<and> cc_manifest claims \<noteq> None)
         then Inl (api_cursor_invalid request_id) else Inr claims)"

subsection \<open>What the libraries guarantee\<close>

text \<open>
  Decoding is the inverse of encoding and accepts one encoding of each value (base64 without
  padding is canonical: the decoder refuses trailing bits), base64 contains no full stop, a JSON
  value is read back. The configuration of the decoder is the default of the crate.
\<close>

definition libs_ok :: "cursor_libs \<Rightarrow> bool" where
  "libs_ok L \<longleftrightarrow>
     (\<forall>b. cl_decode L (cl_encode L b) = Some b) \<and> (\<forall>b. CHR ''.'' \<notin> set (cl_encode L b))
   \<and> (\<forall>c. cl_from_slice L (cl_to_vec L c) = Some c)"

end
