(* ===== verification/Cursor_Props.thy ===== *)
theory Cursor_Props
  imports Cursor
begin

text \<open>
  What the cursors promise: the comparison in constant time is equality, a cursor that is
  accepted carries the HMAC of its payload, and a cursor comes back as the claims it was made
  from, for the request it was made for and for no other.
\<close>

subsection \<open>The comparison\<close>

lemma xor_byte_0: "xor_byte a b = 0 \<longleftrightarrow> a = b"
  unfolding xor_byte_def by (simp add: bit_eq_iff bit_xor_iff)

lemma or_byte_0: "or_byte a b = 0 \<longleftrightarrow> a = 0 \<and> b = 0"
  by (simp add: or_byte_def or_eq_0_iff)

lemma fold_difference_0:
  "fold (\<lambda>(l, r) difference. or_byte difference (xor_byte l r)) ps a = 0
    \<longleftrightarrow> a = 0 \<and> (\<forall>(l, r) \<in> set ps. l = r)"
  by (induction ps arbitrary: a) (auto simp: or_byte_0 xor_byte_0)

lemma zip_all_equal: "length xs = length ys \<Longrightarrow> (\<forall>(l, r) \<in> set (zip xs ys). l = r) \<longleftrightarrow> xs = ys"
  by (induction xs ys rule: list_induct2) auto

lemma same_signature_iff: "same_signature xs ys \<longleftrightarrow> xs = ys"
proof (cases "length xs = length ys")
  case True
  then show ?thesis
    unfolding same_signature_def byte_difference_def fold_difference_0 using zip_all_equal [OF True] by simp
qed (auto simp: same_signature_def)

subsection \<open>Signing and verifying\<close>

definition signed_claims :: "env \<Rightarrow> cursor_claims \<Rightarrow> cursor_claims" where
  "signed_claims e c = c\<lparr>cc_schema_version := 1, cc_issued_at := app_now e div 1000000\<rparr>"

lemma cursor_verify_sign:
  assumes "libs_ok L"
  shows "cursor_verify L secret (cursor_sign L secret e c) = Inr (signed_claims e c)"
proof -
  have "CHR ''.'' \<notin> set (cl_encode L b)" "cl_decode L (cl_encode L b) = Some b" for b
    using assms by (simp_all add: libs_ok_def)
  moreover have "cl_from_slice L (cl_to_vec L x) = Some x" for x
    using assms by (simp add: libs_ok_def)
  ultimately show ?thesis
    by (simp add: cursor_verify_def cursor_sign_def Let_def split_once_append same_signature_iff signed_claims_def)
qed

lemma cursor_verifyE:
  assumes "cursor_verify L secret cursor = Inr c"
  obtains payload signature where "cursor = payload @ ''.'' @ signature"
    and "cl_decode L signature = Some (hmac_sha256 (cl_sha256 L) secret (utf8_bytes payload))"
    and "Option.bind (cl_decode L payload) (cl_from_slice L) = Some c" and "cc_schema_version c = 1"
proof -
  from assms obtain payload signature where split: "split_once (CHR ''.'') cursor = Some (payload, signature)"
    by (auto simp: cursor_verify_def split: option.splits)
  with assms obtain sig where "cl_decode L signature = Some sig"
    "same_signature sig (hmac_sha256 (cl_sha256 L) secret (utf8_bytes payload))"
    "Option.bind (cl_decode L payload) (cl_from_slice L) = Some c" "cc_schema_version c = 1"
    by (auto simp: cursor_verify_def split: option.splits if_splits)
  with split_once_SomeD [OF split] show thesis by (intro that) (auto simp: same_signature_iff)
qed

lemma verify_cursor_sign:
  assumes "libs_ok L"
  shows "verify_cursor L secret (cursor_sign L secret e c) kind pid owner i =
    (if cc_kind c = kind \<and> cc_project c = pid \<and> cc_owner c = owner \<and> 0 < cc_generation c
        \<and> 0 \<le> cc_sequence c \<and> 0 \<le> cc_offset c \<and> (kind = PullCursor \<longrightarrow> cc_manifest c = None)
     then Inr (signed_claims e c) else Inl (api_cursor_invalid i))"
  by (auto simp: verify_cursor_def cursor_verify_sign [OF assms] signed_claims_def)

text \<open>C16. A cursor returns the claims it was signed with exactly to a request of the same endpoint,
  project and account; every other request is refused. No text is accepted as a cursor whose
  second part is not the base64 of the HMAC of its first part.\<close>

theorem cursor_binds_request:
  assumes "libs_ok L"
  shows "verify_cursor L secret (cursor_sign L secret e c) kind pid owner i =
      (if cc_kind c = kind \<and> cc_project c = pid \<and> cc_owner c = owner \<and> 0 < cc_generation c
          \<and> 0 \<le> cc_sequence c \<and> 0 \<le> cc_offset c \<and> (kind = PullCursor \<longrightarrow> cc_manifest c = None)
       then Inr (c\<lparr>cc_schema_version := 1, cc_issued_at := app_now e div 1000000\<rparr>)
       else Inl (api_cursor_invalid i))
    \<and> (\<forall>cursor c'. verify_cursor L secret cursor kind pid owner i = Inr c' \<longrightarrow>
        (\<exists>payload signature. cursor = payload @ ''.'' @ signature
          \<and> cl_decode L signature = Some (hmac_sha256 (cl_sha256 L) secret (utf8_bytes payload))))"
proof -
  have "\<exists>payload signature. cursor = payload @ ''.'' @ signature
          \<and> cl_decode L signature = Some (hmac_sha256 (cl_sha256 L) secret (utf8_bytes payload))"
    if "verify_cursor L secret cursor kind pid owner i = Inr c'" for cursor c'
  proof -
    from that have "cursor_verify L secret cursor = Inr c'"
      by (auto simp: verify_cursor_def split: sum.splits if_splits)
    then show ?thesis by (rule cursor_verifyE) blast
  qed
  then show ?thesis by (simp add: verify_cursor_sign [OF assms] signed_claims_def)
qed

subsection \<open>A concrete choice of the libraries\<close>

text \<open>Unary digits for base64, and claims as the list of their members with lengths.\<close>

definition sample_encode :: "bytes \<Rightarrow> string" where
  "sample_encode b = concat (map (\<lambda>n. replicate n (CHR ''a'') @ ''b'') b)"

fun sample_decode_from :: "nat \<Rightarrow> string \<Rightarrow> bytes option" where
  "sample_decode_from n [] = (if n = 0 then Some [] else None)"
| "sample_decode_from n (c # s) =
    (if c = CHR ''a'' then sample_decode_from (Suc n) s
     else if c = CHR ''b'' then map_option ((#) n) (sample_decode_from 0 s) else None)"

lemma sample_decode_digit:
  "sample_decode_from m (replicate n (CHR ''a'') @ ''b'' @ s) = map_option ((#) (m + n)) (sample_decode_from 0 s)"
  by (induction n arbitrary: m) simp_all

lemma sample_decode_encode: "sample_decode_from 0 (sample_encode b) = Some b"
proof (induction b)
  case (Cons n b)
  then show ?case using sample_decode_digit [of 0 n "sample_encode b"] by (simp add: sample_encode_def)
qed (simp add: sample_encode_def)

definition put_int :: "int \<Rightarrow> bytes" where
  "put_int x = [if x < 0 then 1 else 0, nat \<bar>x\<bar>]"

definition put_str :: "string \<Rightarrow> bytes" where
  "put_str s = length s # map of_char s"

fun get_int :: "bytes \<Rightarrow> (int \<times> bytes) option" where
  "get_int (sign # n # b) = Some (if sign = 1 then - int n else int n, b)"
| "get_int _ = None"

fun get_str :: "bytes \<Rightarrow> (string \<times> bytes) option" where
  "get_str (n # b) = Some (map char_of (take n b), drop n b)"
| "get_str [] = None"

lemma get_put_int: "get_int (put_int x @ b) = Some (x, b)"
  by (simp add: put_int_def)

lemma get_put_str: "get_str (put_str s @ b) = Some (s, b)"
  by (simp add: put_str_def comp_def)

definition sample_to_vec :: "cursor_claims \<Rightarrow> bytes" where
  "sample_to_vec c = put_int (cc_schema_version c) @ put_int (if cc_kind c = PullCursor then 1 else 0)
     @ put_str (cc_project c) @ put_str (cc_owner c) @ put_int (cc_generation c) @ put_int (cc_sequence c)
     @ put_int (cc_offset c) @ put_int (if cc_manifest c = None then 0 else 1)
     @ put_str (case cc_manifest c of None \<Rightarrow> [] | Some m \<Rightarrow> m) @ put_int (cc_issued_at c)"

definition sample_from_slice :: "bytes \<Rightarrow> cursor_claims option" where
  "sample_from_slice b = do {
     (version, b) \<leftarrow> get_int b; (kind, b) \<leftarrow> get_int b; (project, b) \<leftarrow> get_str b; (owner, b) \<leftarrow> get_str b;
     (generation, b) \<leftarrow> get_int b; (sequence, b) \<leftarrow> get_int b; (off, b) \<leftarrow> get_int b; (present, b) \<leftarrow> get_int b;
     (manifest, b) \<leftarrow> get_str b; (issued, b) \<leftarrow> get_int b;
     Some \<lparr>cc_schema_version = version, cc_kind = (if kind = 1 then PullCursor else BootstrapCursor),
       cc_project = project, cc_owner = owner, cc_generation = generation, cc_sequence = sequence,
       cc_offset = off, cc_manifest = (if present = 0 then None else Some manifest), cc_issued_at = issued\<rparr> }"

definition sample_libs :: cursor_libs where
  "sample_libs = \<lparr>cl_sha256 = (\<lambda>b. [sum_list b mod 256]), cl_encode = sample_encode,
     cl_decode = sample_decode_from 0, cl_to_vec = sample_to_vec, cl_from_slice = sample_from_slice\<rparr>"

lemma sample_from_to_vec: "sample_from_slice (sample_to_vec c) = Some c"
proof -
  have "get_int (put_int x) = Some (x, [])" for x using get_put_int [of x "[]"] by simp
  moreover obtain v k p u g n x m i where "c = \<lparr>cc_schema_version = v, cc_kind = k, cc_project = p, cc_owner = u,
      cc_generation = g, cc_sequence = n, cc_offset = x, cc_manifest = m, cc_issued_at = i\<rparr>"
    by (rule cursor_claims.cases)
  ultimately show ?thesis
    by (cases k; cases m) (simp_all add: sample_from_slice_def sample_to_vec_def get_put_int get_put_str)
qed

lemma sample_libs_ok: "libs_ok sample_libs"
proof -
  have "CHR ''.'' \<notin> set (sample_encode b)" for b by (auto simp: sample_encode_def)
  then show ?thesis by (simp add: libs_ok_def sample_libs_def sample_decode_encode sample_from_to_vec)
qed

theorem cursor_binds_request_witness:
  "verify_cursor sample_libs (replicate 32 7)
      (cursor_sign sample_libs (replicate 32 7) \<lparr>db_now = 0, app_now = 5000000\<rparr>
        (cursor_claims_of PullCursor ''p'' ''u'' 1 4 0 None)) PullCursor ''p'' ''u'' ''q''
    = Inr (cursor_claims_of PullCursor ''p'' ''u'' 1 4 0 None \<lparr>cc_issued_at := 5\<rparr>)
   \<and> verify_cursor sample_libs (replicate 32 7)
      (cursor_sign sample_libs (replicate 32 7) \<lparr>db_now = 0, app_now = 5000000\<rparr>
        (cursor_claims_of PullCursor ''p'' ''u'' 1 4 0 None)) PullCursor ''p'' ''v'' ''q''
    = Inl (api_cursor_invalid ''q'')"
  using cursor_binds_request [OF sample_libs_ok, THEN conjunct1, of "replicate 32 7"
      "\<lparr>db_now = 0, app_now = 5000000\<rparr>" "cursor_claims_of PullCursor ''p'' ''u'' 1 4 0 None" PullCursor "''p''"]
  by (simp add: cursor_claims_of_def)

end
