(* ===== verification/Api_State.thy ===== *)
theory Api_State
  imports Cursor Limits Payloads
begin

text \<open>
  The state of the API process and what every handler does with it (\<open>crates/api/src/lib.rs\<close>,
  \<open>auth.rs\<close> and \<open>routes.rs\<close>): the database and the object store it calls, the limiter and the
  upload budget it keeps in memory, its counters, and the authentication of a request. A handler
  is a function of this state; each of its transactions and requests to the object store is a
  step, before which other requests and processes may change the database and the store.
\<close>

subsection \<open>The process\<close>

record access_claims =
  ac_sub :: uuid
  ac_role :: string
  ac_device :: uuid
  ac_iss :: string
  ac_aud :: string
  ac_jti :: uuid
  ac_iat :: int
  ac_exp :: int

record api_metrics =
  mt_sync_pull :: int
  mt_sync_push :: int
  mt_sync_conflict :: int
  mt_upload_bytes :: int
  mt_download_bytes :: int
  mt_restore_jobs :: int

definition new_metrics :: api_metrics where
  "new_metrics = \<lparr>mt_sync_pull = 0, mt_sync_push = 0, mt_sync_conflict = 0, mt_upload_bytes = 0,
     mt_download_bytes = 0, mt_restore_jobs = 0\<rparr>"

text \<open>\<open>AtomicU64::fetch_add\<close> wraps around.\<close>

definition fetch_add :: "int \<Rightarrow> int \<Rightarrow> int" where
  "fetch_add n x = (x + n) mod (u64_limit + 1)"

record 'w api_world =
  aw_db :: db
  aw_store :: 'w
  aw_limiter :: auth_rate_limiter
  aw_upload_used :: int
  aw_metrics :: api_metrics
  aw_steps :: nat

text \<open>
  An \<open>OffsetDateTime\<close> of the \<open>time\<close> crate: the instant it denotes, in nanoseconds, and the offset
  from UTC, in seconds, of the clock it was read from. Two of them with the same instant and
  different offsets are different texts in a request.
\<close>

record offset_time =
  ot_nanos :: int
  ot_offset :: int

text \<open>
  The configuration, and what is outside the program: the clocks and the identifiers of each
  step, the changes others make before it, the S3 service, the hash, the encodings (of JSON, of
  identifiers, of RFC 3339 times, and of a time as a \<open>timestamptz\<close>, which keeps microseconds), and
  \<open>jsonwebtoken::decode\<close> with the key, the issuer and the audience of the service. The parts of
  \<open>AppState\<close> that are optional are flags here.
\<close>

record 'w api_runtime =
  ar_has_database :: bool
  ar_has_auth :: bool
  ar_has_store :: bool
  ar_cursor_secret :: "bytes option"
  ar_admin_origin :: "string option"
  ar_web_origin :: "string option"
  ar_upload_max :: int
  ar_clock :: "nat \<Rightarrow> env"
  ar_uuid :: "nat \<Rightarrow> nat \<Rightarrow> uuid"
  ar_others :: "nat \<Rightarrow> db \<times> 'w \<Rightarrow> db \<times> 'w"
  ar_s3 :: "'w s3_service"
  ar_bucket :: string
  ar_sha256_hex :: "bytes \<Rightarrow> string"
  ar_bucket_hash :: "string \<Rightarrow> bytes"
  ar_to_vec :: "json \<Rightarrow> bytes"
  ar_parse_uuid :: "string \<Rightarrow> uuid option"
  ar_read_time :: "string \<Rightarrow> offset_time option"
  ar_show_time :: "offset_time \<Rightarrow> string"
  ar_encode_time :: "offset_time \<Rightarrow> instant"
  ar_cursor_libs :: cursor_libs
  ar_decode_token :: "string \<Rightarrow> access_claims option"

definition ar_is_rfc3339 :: "'w api_runtime \<Rightarrow> string \<Rightarrow> bool" where
  "ar_is_rfc3339 rt t \<longleftrightarrow> ar_read_time rt t \<noteq> None"

type_synonym ('w, 'a) handler = "'w api_world \<Rightarrow> 'w api_world \<times> 'a api"

subsection \<open>Sequencing\<close>

definition h_return :: "'a \<Rightarrow> ('w, 'a) handler" where
  "h_return x w = (w, Inr x)"

definition h_fail :: "api_error \<Rightarrow> ('w, 'a) handler" where
  "h_fail er w = (w, Inl er)"

definition h_bind :: "('w, 'a) handler \<Rightarrow> ('a \<Rightarrow> ('w, 'b) handler) \<Rightarrow> ('w, 'b) handler" where
  "h_bind m f w = (case m w of (w1, Inl er) \<Rightarrow> (w1, Inl er) | (w1, Inr x) \<Rightarrow> f x w1)"

definition h_check :: "'a api \<Rightarrow> ('w, 'a) handler" where
  "h_check r w = (w, r)"

definition h_metrics :: "(api_metrics \<Rightarrow> api_metrics) \<Rightarrow> ('w, unit) handler" where
  "h_metrics f w = (w\<lparr>aw_metrics := f (aw_metrics w)\<rparr>, Inr ())"

definition api_tick :: "'w api_runtime \<Rightarrow> 'w api_world \<Rightarrow> 'w api_world" where
  "api_tick rt w =
    (let (d, st) = ar_others rt (aw_steps w) (aw_db w, aw_store w) in
     w\<lparr>aw_db := d, aw_store := st, aw_steps := Suc (aw_steps w)\<rparr>)"

text \<open>A transaction whose error is left to the caller, and one whose error ends the handler.\<close>

definition h_txn :: "'w api_runtime \<Rightarrow> (env \<Rightarrow> (nat \<Rightarrow> uuid) \<Rightarrow> 'a txn) \<Rightarrow> ('w, 'a outcome) handler" where
  "h_txn rt t w =
    (let w1 = api_tick rt w;
         (d, r) = t (ar_clock rt (aw_steps w)) (ar_uuid rt (aw_steps w)) (aw_db w1) in
     (w1\<lparr>aw_db := d\<rparr>, Inr r))"

definition h_db ::
    "'w api_runtime \<Rightarrow> (persistence_error \<Rightarrow> api_error) \<Rightarrow> (env \<Rightarrow> (nat \<Rightarrow> uuid) \<Rightarrow> 'a txn) \<Rightarrow> ('w, 'a) handler" where
  "h_db rt er t = h_bind (h_txn rt t) (\<lambda>r. h_check (map_sum er id r))"

definition h_query ::
    "'w api_runtime \<Rightarrow> (persistence_error \<Rightarrow> api_error) \<Rightarrow> (db \<Rightarrow> 'a outcome) \<Rightarrow> ('w, 'a) handler" where
  "h_query rt er q = h_db rt er (\<lambda>_ _ s. (s, q s))"

text \<open>\<open>let _ = database.call(...).await\<close>: the result is dropped.\<close>

definition h_attempt :: "'w api_runtime \<Rightarrow> (env \<Rightarrow> (nat \<Rightarrow> uuid) \<Rightarrow> 'a txn) \<Rightarrow> ('w, unit) handler" where
  "h_attempt rt t = h_bind (h_txn rt t) (\<lambda>_. h_return ())"

definition h_store ::
    "'w api_runtime \<Rightarrow> string \<Rightarrow> ((nat \<Rightarrow> uuid) \<Rightarrow> ('w, 'a) store_op) \<Rightarrow> ('w, 'a) handler" where
  "h_store rt request_id t w =
    (let w1 = api_tick rt w;
         (st, r) = t (ar_uuid rt (aw_steps w)) (aw_store w1) in
     (w1\<lparr>aw_store := st\<rparr>, map_sum (\<lambda>er. map_object_store er request_id) id r))"

text \<open>\<open>Uuid::new_v4()\<close> in the handler itself.\<close>

definition h_new_uuid :: "'w api_runtime \<Rightarrow> ('w, uuid) handler" where
  "h_new_uuid rt w = (w\<lparr>aw_steps := Suc (aw_steps w)\<rparr>, Inr (ar_uuid rt (aw_steps w) 0))"

subsection \<open>Guards\<close>

definition services :: "'w api_runtime \<Rightarrow> string \<Rightarrow> unit api" where
  "services rt request_id =
    check (ar_has_database rt \<and> ar_has_auth rt) (api_unavailable request_id)"

definition sync_object_store :: "'w api_runtime \<Rightarrow> string \<Rightarrow> unit api" where
  "sync_object_store rt request_id = check (ar_has_store rt) (api_unavailable request_id)"

definition cursor_signer :: "'w api_runtime \<Rightarrow> string \<Rightarrow> bytes api" where
  "cursor_signer rt request_id = ok_or (ar_cursor_secret rt) (api_unavailable request_id)"

definition bearer_token :: "headers \<Rightarrow> string option" where
  "bearer_token hs =
    Option.bind (header_str ''authorization'' hs) (\<lambda>v.
      case split_once (CHR '' '') v of
        None \<Rightarrow> None
      | Some (scheme, token) \<Rightarrow>
          if eq_ignore_ascii_case scheme ''bearer'' \<and> token \<noteq> [] then Some token else None)"

definition authenticate_access ::
    "'w api_runtime \<Rightarrow> headers \<Rightarrow> string \<Rightarrow> ('w, access_claims) handler" where
  "authenticate_access rt hs request_id =
    h_bind (h_check (services rt request_id)) (\<lambda>_.
    h_bind (h_check (ok_or (Option.bind (bearer_token hs) (ar_decode_token rt)) (api_authentication request_id))) (\<lambda>claims.
    h_bind (h_db rt (\<lambda>er. map_persistence er request_id)
              (\<lambda>e _. validate_access e (ac_sub claims) (ac_device claims) (ac_role claims))) (\<lambda>_.
    h_return claims)))"

definition authenticate_role ::
    "string \<Rightarrow> 'w api_runtime \<Rightarrow> headers \<Rightarrow> string \<Rightarrow> ('w, access_claims) handler" where
  "authenticate_role role rt hs request_id =
    h_bind (authenticate_access rt hs request_id) (\<lambda>claims.
      if ac_role claims \<noteq> role then h_fail (api_authorization request_id) else h_return claims)"

definition authenticate :: "'w api_runtime \<Rightarrow> headers \<Rightarrow> string \<Rightarrow> ('w, access_claims) handler" where
  "authenticate rt hs request_id = authenticate_role ''user'' rt hs request_id"

definition authenticate_admin :: "'w api_runtime \<Rightarrow> headers \<Rightarrow> string \<Rightarrow> ('w, access_claims) handler" where
  "authenticate_admin rt hs request_id = authenticate_role ''system_admin'' rt hs request_id"

definition allow_auth_request ::
    "'w api_runtime \<Rightarrow> auth_operation \<Rightarrow> string \<Rightarrow> string \<Rightarrow> ('w, unit) handler" where
  "allow_auth_request rt operation key request_id w =
    (let (lim, ok) = allow (app_now (ar_clock rt (aw_steps w))) operation key (aw_limiter w) in
     (w\<lparr>aw_limiter := lim\<rparr>, if ok then Inr () else Inl (api_rate_limited request_id)))"

definition enforce_shared_rate_limit_windowed ::
    "'w api_runtime \<Rightarrow> string \<Rightarrow> int \<Rightarrow> int \<Rightarrow> string \<Rightarrow> ('w, unit) handler" where
  "enforce_shared_rate_limit_windowed rt bucket_key limit period_seconds request_id =
    h_bind (h_db rt (\<lambda>er. map_persistence er request_id)
              (\<lambda>e _. consume_distributed_rate_limit (ar_bucket_hash rt) e bucket_key limit period_seconds)) (\<lambda>allowed.
      if allowed then h_return () else h_fail (api_rate_limited request_id))"

definition enforce_shared_rate_limit :: "'w api_runtime \<Rightarrow> string \<Rightarrow> string \<Rightarrow> ('w, unit) handler" where
  "enforce_shared_rate_limit rt bucket_key request_id =
    enforce_shared_rate_limit_windowed rt bucket_key 120 60 request_id"

text \<open>The reservation of temporary bytes, and its drop when the handler ends, whatever its result.\<close>

definition h_with_reservation ::
    "'w api_runtime \<Rightarrow> int \<Rightarrow> string \<Rightarrow> ('w, 'a) handler \<Rightarrow> ('w, 'a) handler" where
  "h_with_reservation rt bytes request_id body w =
    (case next_used (ar_upload_max rt) bytes (aw_upload_used w) of
       None \<Rightarrow> (w, Inl (api_unavailable request_id))
     | Some used \<Rightarrow>
         (let (w1, r) = body (w\<lparr>aw_upload_used := used\<rparr>) in
          (w1\<lparr>aw_upload_used := fetch_sub (aw_upload_used w1) bytes\<rparr>, r)))"

end
