(* ===== verification/Api_Sync.thy ===== *)
theory Api_Sync
  imports Api_State Restore_Jobs
begin

text \<open>
  The sync endpoints (\<open>crates/api/src/routes.rs\<close>): the payloads with their upload through a
  temporary file, bootstrap, pull and push with the cursors the client sends back, the history,
  the snapshots and the restores of an owner.
\<close>

subsection \<open>Payloads\<close>

definition max_upload_bytes :: int where
  "max_upload_bytes = 10 * 1024 * 1024"

record payload_response =
  pr_status :: int
  pr_media_type :: string
  pr_length :: "int option"
  pr_content_range :: "string option"
  pr_chunks :: "bytes option list"

text \<open>A header value of a response: no control character but the tab.\<close>

definition valid_header_value :: "string \<Rightarrow> bool" where
  "valid_header_value v \<longleftrightarrow> list_all (\<lambda>c. let n = of_char c :: nat in n = 9 \<or> (32 \<le> n \<and> n \<noteq> 127)) v"

definition head_payload_handler ::
    "'w api_runtime \<Rightarrow> headers \<Rightarrow> uuid \<Rightarrow> string \<Rightarrow> ('w, payload_response) handler" where
  "head_payload_handler rt hs project_id content_hash =
    (let i = request_id_of hs in
     h_bind (h_check (validate_content_hash content_hash i)) (\<lambda>_.
     h_bind (authenticate rt hs i) (\<lambda>claims.
     h_bind (h_query rt (\<lambda>er. map_project_error er i) (validate_sync_project (ac_sub claims) project_id)) (\<lambda>_.
     h_bind (h_check (sync_object_store rt i)) (\<lambda>_.
     h_bind (h_store rt i (\<lambda>_ st. (st, head_payload (ar_s3 rt) (ar_bucket rt) (ac_sub claims) project_id content_hash st))) (\<lambda>found.
     h_check (case found of
         None \<Rightarrow> Inl (payload_not_found i)
       | Some p \<Rightarrow>
           if \<not> valid_header_value (pi_media_type p) then Inl (api_internal i)
           else Inr \<lparr>pr_status = 200, pr_media_type = pi_media_type p, pr_length = Some (pi_size p),
                  pr_content_range = None, pr_chunks = []\<rparr>)))))))"

text \<open>
  The temporary file of an upload: whether it can be created, which writes succeed, whether the
  flush does, and whether it can be read back.
\<close>

record temp_file_io =
  tf_create :: bool
  tf_write :: "nat \<Rightarrow> bool"
  tf_flush :: bool
  tf_read :: bool

text \<open>The loop over the body of the request; a chunk that cannot be read is \<open>None\<close>.\<close>

fun receive_chunks :: "temp_file_io \<Rightarrow> int \<Rightarrow> string \<Rightarrow> nat \<Rightarrow> bytes option list \<Rightarrow> bytes \<Rightarrow> bytes api" where
  "receive_chunks io content_length i n [] received = Inr received"
| "receive_chunks io content_length i n (None # cs) received = Inl (api_invalid i)"
| "receive_chunks io content_length i n (Some c # cs) received =
    (let next_size = int (length received) + int (length c) in
     if next_size > content_length \<or> next_size > max_upload_bytes then Inl (api_invalid i)
     else if \<not> tf_write io n then Inl (api_unavailable i)
     else receive_chunks io content_length i (Suc n) cs (received @ c))"

definition receive_body ::
    "('w api_runtime) \<Rightarrow> temp_file_io \<Rightarrow> int \<Rightarrow> string \<Rightarrow> string \<Rightarrow> bytes option list \<Rightarrow> bytes api" where
  "receive_body rt io content_length content_hash i body =
    (if \<not> tf_create io then Inl (api_unavailable i)
     else try_bind (receive_chunks io content_length i 0 body []) (\<lambda>received.
       if \<not> tf_flush io then Inl (api_unavailable i)
       else if int (length received) \<noteq> content_length then Inl (api_invalid i)
       else if ar_sha256_hex rt received \<noteq> content_hash then Inl (map_object_store HashMismatch i)
       else Inr received))"

definition upload_content_length :: "headers \<Rightarrow> string \<Rightarrow> int api" where
  "upload_content_length hs i =
    (case Option.bind (header_str ''content-length'' hs) parse_u64 of
       None \<Rightarrow> Inl (api_invalid i)
     | Some n \<Rightarrow> if n \<le> max_upload_bytes then Inr n else Inl (api_invalid i))"

definition upload_media_type :: "headers \<Rightarrow> string \<Rightarrow> string api" where
  "upload_media_type hs i =
    (case header_str ''content-type'' hs of
       None \<Rightarrow> Inl (api_invalid i)
     | Some v \<Rightarrow> if trim v \<noteq> [] \<and> utf8_len v \<le> 255 then Inr v else Inl (api_invalid i))"

definition stored_payload_of :: "payload_info \<Rightarrow> stored_payload" where
  "stored_payload_of p = \<lparr>st_hash = pi_content_hash p, st_bucket = pi_bucket p, st_object_key = pi_key p,
     st_size = pi_size p, st_media_type = pi_media_type p\<rparr>"

text \<open>
  The part under the lock of the payload: other writers of the same object wait, so no step of
  theirs falls between the upload and its registration.
\<close>

definition store_upload ::
    "'w api_runtime \<Rightarrow> temp_file_io \<Rightarrow> uuid \<Rightarrow> uuid \<Rightarrow> string \<Rightarrow> string \<Rightarrow> string \<Rightarrow> bytes \<Rightarrow> ('w, unit) handler" where
  "store_upload rt io user_id project_id content_hash media_type i content =
    h_bind (h_store rt i (\<lambda>ids. put_payload_file (ar_s3 rt) (ar_sha256_hex rt) (ar_bucket rt) (ids 0) user_id
              project_id content_hash media_type (if tf_read io then Some content else None)
              (int (length content)))) (\<lambda>p.
    h_bind (h_metrics (\<lambda>m. m\<lparr>mt_upload_bytes := fetch_add (int (length content)) (mt_upload_bytes m)\<rparr>)) (\<lambda>_.
    if pi_size p > i64_max then h_fail (api_internal i)
    else h_db rt (\<lambda>er. map_project_error er i)
           (\<lambda>e ids. register_payload e (ids 0) user_id project_id (stored_payload_of p))))"

definition put_payload_handler ::
    "'w api_runtime \<Rightarrow> temp_file_io \<Rightarrow> headers \<Rightarrow> uuid \<Rightarrow> string \<Rightarrow> bytes option list \<Rightarrow> ('w, unit) handler" where
  "put_payload_handler rt io hs project_id content_hash body =
    (let i = request_id_of hs in
     h_bind (h_check (validate_content_hash content_hash i)) (\<lambda>_.
     h_bind (h_check (upload_content_length hs i)) (\<lambda>content_length.
     h_bind (h_check (upload_media_type hs i)) (\<lambda>media_type.
     h_bind (authenticate rt hs i) (\<lambda>claims.
     h_bind (allow_auth_request rt PayloadUpload (ac_sub claims @ '':'' @ project_id) i) (\<lambda>_.
     h_bind (enforce_shared_rate_limit rt (''payload_upload:'' @ ac_sub claims @ '':'' @ project_id) i) (\<lambda>_.
     h_bind (h_query rt (\<lambda>er. map_project_error er i) (validate_sync_project (ac_sub claims) project_id)) (\<lambda>_.
     h_bind (h_check (sync_object_store rt i)) (\<lambda>_.
     h_with_reservation rt content_length i
       (h_bind (h_check (receive_body rt io content_length content_hash i body)) (\<lambda>content.
        store_upload rt io (ac_sub claims) project_id content_hash media_type i content)))))))))))"

definition payload_response_of :: "payload_download \<Rightarrow> string \<Rightarrow> payload_response api" where
  "payload_response_of d i =
    (if \<not> valid_header_value (pd_media_type d)
        \<or> (case pd_content_range d of None \<Rightarrow> False | Some r \<Rightarrow> \<not> valid_header_value r)
     then Inl (api_internal i)
     else Inr \<lparr>pr_status = (if pd_content_range d = None then 200 else 206), pr_media_type = pd_media_type d,
            pr_length = pd_content_length d, pr_content_range = pd_content_range d, pr_chunks = pd_chunks d\<rparr>)"

definition get_payload_handler ::
    "'w api_runtime \<Rightarrow> headers \<Rightarrow> uuid \<Rightarrow> string \<Rightarrow> ('w, payload_response) handler" where
  "get_payload_handler rt hs project_id content_hash =
    (let i = request_id_of hs in
     h_bind (h_check (validate_content_hash content_hash i)) (\<lambda>_.
     h_bind (authenticate rt hs i) (\<lambda>claims.
     h_bind (h_query rt (\<lambda>er. map_project_error er i) (validate_sync_project (ac_sub claims) project_id)) (\<lambda>_.
     h_bind (h_check (sync_object_store rt i)) (\<lambda>_.
     h_bind (h_store rt i (\<lambda>_ st. (st, get_payload (ar_s3 rt) (ac_sub claims) project_id content_hash
               (header_str ''range'' hs) st))) (\<lambda>d.
     h_bind (case pd_content_length d of
               None \<Rightarrow> h_return ()
             | Some n \<Rightarrow> h_metrics (\<lambda>m. m\<lparr>mt_download_bytes := fetch_add (if n < 0 then 0 else n) (mt_download_bytes m)\<rparr>)) (\<lambda>_.
     h_check (payload_response_of d i))))))))"

subsection \<open>Records\<close>

definition sync_item_json :: "sync_record \<Rightarrow> json" where
  "sync_item_json r =
    (if sr_tombstone r
     then JObj [(''type'', JStr ''tombstone''), (''kind'', JStr (sr_kind r)), (''id'', JStr (sr_id r)),
       (''revision'', JNum (sr_revision r)), (''baseRevision'', json_opt JNum (sr_base_revision r)),
       (''deletedAt'', JTime (sr_changed_at r)), (''deviceId'', JStr (sr_device_id r)),
       (''changeSequence'', JNum (sr_change_sequence r))]
     else JObj [(''type'', JStr ''object''), (''kind'', JStr (sr_kind r)), (''id'', JStr (sr_id r)),
       (''schemaVersion'', json_opt JNum (sr_schema_version r)), (''revision'', JNum (sr_revision r)),
       (''baseRevision'', json_opt JNum (sr_base_revision r)),
       (''contentHash'', json_opt JStr (sr_content_hash r)), (''updatedAt'', JTime (sr_changed_at r)),
       (''deviceId'', JStr (sr_device_id r)), (''changeSequence'', JNum (sr_change_sequence r))])"

subsection \<open>Bootstrap\<close>

record page_request =
  pq_token :: "string option"
  pq_limit :: "int option"

definition cursor_or_project_error :: "string \<Rightarrow> persistence_error \<Rightarrow> api_error" where
  "cursor_or_project_error i er = (if er = NotFound then api_cursor_invalid i else map_project_error er i)"

definition stored_manifest_page ::
    "'w api_runtime \<Rightarrow> (persistence_error \<Rightarrow> api_error) \<Rightarrow> access_claims \<Rightarrow> uuid \<Rightarrow> uuid \<Rightarrow> int \<Rightarrow> int
      \<Rightarrow> ('w, bootstrap_page_result) handler" where
  "stored_manifest_page rt er claims project_id manifest_id offset limit =
    h_db rt er (\<lambda>e _. bootstrap_manifest_page (ar_parse_uuid rt) e (ac_sub claims) (ac_device claims)
      project_id manifest_id offset limit)"

text \<open>The first page: the manifest is built, stored as an object, recorded, then read.\<close>

definition first_manifest_page ::
    "'w api_runtime \<Rightarrow> access_claims \<Rightarrow> uuid \<Rightarrow> int \<Rightarrow> string \<Rightarrow> ('w, bootstrap_page_result) handler" where
  "first_manifest_page rt claims project_id limit i =
    h_bind (h_db rt (\<lambda>er. map_project_error er i)
      (\<lambda>_ ids. prepare_bootstrap_manifest (ar_to_vec rt) (ar_sha256_hex rt) (ac_sub claims) project_id (ids 0))) (\<lambda>m.
    h_bind (h_check (sync_object_store rt i)) (\<lambda>_.
    h_bind (h_store rt i (\<lambda>_. put_bootstrap_manifest (ar_s3 rt) (ar_sha256_hex rt) (ar_bucket rt) (ac_sub claims)
              project_id (mf_id m) (mf_hash m) (mf_bytes m))) (\<lambda>stored.
    h_bind (h_db rt (\<lambda>er. map_project_error er i)
      (\<lambda>e _. record_bootstrap_manifest e (ac_sub claims) project_id m (pi_bucket stored) (pi_key stored))) (\<lambda>_.
    stored_manifest_page rt (\<lambda>er. map_project_error er i) claims project_id (mf_id m) 0 limit))))"

definition sign_cursor ::
    "'w api_runtime \<Rightarrow> bytes \<Rightarrow> cursor_claims \<Rightarrow> ('w, string) handler" where
  "sign_cursor rt secret claims w =
    (w, Inr (cursor_sign (ar_cursor_libs rt) secret (ar_clock rt (aw_steps w)) claims))"

definition bootstrap_response :: "bootstrap_page_result \<Rightarrow> string option \<Rightarrow> string option \<Rightarrow> json" where
  "bootstrap_response page next_page_token cursor =
    JObj [(''generation'', JNum (bp_generation page)), (''items'', JArr (map sync_item_json (bp_records page))),
      (''hasMore'', JBool (bp_has_more page)), (''nextPageToken'', json_opt JStr next_page_token),
      (''cursor'', json_opt JStr cursor)]"

definition bootstrap_handler :: "'w api_runtime \<Rightarrow> headers \<Rightarrow> uuid \<Rightarrow> page_request \<Rightarrow> ('w, json) handler" where
  "bootstrap_handler rt hs project_id request =
    (let i = request_id_of hs in
     h_bind (h_check (valid_limit (pq_limit request) 200 1000 i)) (\<lambda>limit.
     h_bind (authenticate rt hs i) (\<lambda>claims.
     h_bind (h_check (cursor_signer rt i)) (\<lambda>secret.
     h_bind (case pq_token request of
         None \<Rightarrow> h_bind (first_manifest_page rt claims project_id limit i) (\<lambda>page. h_return (0, page))
       | Some token \<Rightarrow>
           h_bind (h_check (verify_cursor (ar_cursor_libs rt) secret token BootstrapCursor project_id (ac_sub claims) i)) (\<lambda>c.
           h_bind (h_check (ok_or (cc_manifest c) (api_cursor_invalid i))) (\<lambda>manifest_id.
           h_bind (stored_manifest_page rt (cursor_or_project_error i) claims project_id manifest_id (cc_offset c) limit) (\<lambda>page.
           h_return (cc_offset c, page))))) (\<lambda>(offset, page).
     let next_offset = i64_wrap (offset + int (length (bp_records page))) in
     if bp_has_more page
     then h_bind (sign_cursor rt secret (cursor_claims_of BootstrapCursor project_id (ac_sub claims)
            (bp_generation page) (bp_snapshot_sequence page) next_offset (Some (bp_manifest_id page)))) (\<lambda>token.
          h_return (bootstrap_response page (Some token) None))
     else h_bind (sign_cursor rt secret (cursor_claims_of PullCursor project_id (ac_sub claims)
            (bp_generation page) (bp_snapshot_sequence page) 0 None)) (\<lambda>cursor.
          h_return (bootstrap_response page None (Some cursor))))))))"

subsection \<open>Pull\<close>

record pull_request =
  pullr_cursor :: string
  pullr_limit :: "int option"

definition pull_response :: "pull_page_result \<Rightarrow> string \<Rightarrow> json" where
  "pull_response page next_cursor =
    JObj [(''generation'', JNum (pp_generation page)), (''changes'', JArr (map sync_item_json (pp_records page))),
      (''nextCursor'', JStr next_cursor), (''hasMore'', JBool (pp_has_more page))]"

definition pull_handler :: "'w api_runtime \<Rightarrow> headers \<Rightarrow> uuid \<Rightarrow> pull_request \<Rightarrow> ('w, json) handler" where
  "pull_handler rt hs project_id request =
    (let i = request_id_of hs in
     h_bind (h_check (valid_limit (pullr_limit request) 200 1000 i)) (\<lambda>limit.
     h_bind (authenticate rt hs i) (\<lambda>claims.
     h_bind (h_check (cursor_signer rt i)) (\<lambda>secret.
     h_bind (h_check (verify_cursor (ar_cursor_libs rt) secret (pullr_cursor request) PullCursor project_id
              (ac_sub claims) i)) (\<lambda>c.
     h_bind (h_db rt (cursor_or_project_error i) (\<lambda>e _. pull_page e (ac_sub claims) (ac_device claims) project_id
              (cc_generation c) (cc_sequence c) limit)) (\<lambda>page.
     h_bind (sign_cursor rt secret (cursor_claims_of PullCursor project_id (ac_sub claims)
              (pp_generation page) (pp_next_sequence page) 0 None)) (\<lambda>next_cursor.
     h_bind (h_metrics (\<lambda>m. m\<lparr>mt_sync_pull := fetch_add 1 (mt_sync_pull m)\<rparr>)) (\<lambda>_.
     h_return (pull_response page next_cursor)))))))))"

subsection \<open>Push\<close>

text \<open>
  A request keeps its times as the client wrote them, with offset and nanoseconds; the database gets
  the instant (\<open>encode_time\<close>) when the revision is made.
\<close>

record push_object =
  po_kind :: object_kind
  po_id :: string
  po_schema_version :: int
  po_revision :: int
  po_base :: "int option"
  po_content_hash :: string
  po_updated_at :: offset_time
  po_device :: uuid

record push_tombstone =
  pt_kind :: object_kind
  pt_id :: string
  pt_revision :: int
  pt_base :: "int option"
  pt_deleted_at :: offset_time
  pt_device :: uuid

record push_request =
  pushr_id :: string
  pushr_generation :: int
  pushr_objects :: "push_object list"
  pushr_tombstones :: "push_tombstone list"

definition push_request_ok :: "push_request \<Rightarrow> bool" where
  "push_request_ok request \<longleftrightarrow>
     \<not> (pushr_generation request \<le> 0 \<or> trim (pushr_id request) = [] \<or> utf8_len (pushr_id request) > 128
        \<or> length (pushr_objects request) + length (pushr_tombstones request) > 100)"

definition object_revision :: "(offset_time \<Rightarrow> instant) \<Rightarrow> uuid \<Rightarrow> string \<Rightarrow> push_object \<Rightarrow> new_revision api" where
  "object_revision encode_time device_id i x =
    try_bind (validate_push_item (po_kind x) (po_id x) (po_schema_version x) (po_revision x) (po_base x)
      (po_content_hash x) (po_device x) device_id i) (\<lambda>_.
    Inr \<lparr>nr_kind = po_kind x, nr_object = po_id x, nr_schema_version = Some (po_schema_version x),
      nr_base = po_base x, nr_hash = Some (po_content_hash x), nr_changed_at = encode_time (po_updated_at x),
      nr_tombstone = False\<rparr>)"

definition tombstone_revision :: "(offset_time \<Rightarrow> instant) \<Rightarrow> uuid \<Rightarrow> string \<Rightarrow> push_tombstone \<Rightarrow> new_revision api" where
  "tombstone_revision encode_time device_id i x =
    try_bind (validate_revision_fields (pt_kind x) (pt_id x) (pt_revision x) (pt_base x) (pt_device x) device_id i) (\<lambda>_.
    Inr \<lparr>nr_kind = pt_kind x, nr_object = pt_id x, nr_schema_version = None, nr_base = pt_base x,
      nr_hash = None, nr_changed_at = encode_time (pt_deleted_at x), nr_tombstone = True\<rparr>)"

text \<open>The first error of a loop that ends with \<open>?\<close>.\<close>

fun try_map :: "('a \<Rightarrow> 'e + 'b) \<Rightarrow> 'a list \<Rightarrow> 'e + 'b list" where
  "try_map f [] = Inr []"
| "try_map f (x # xs) = try_bind (f x) (\<lambda>y. try_bind (try_map f xs) (\<lambda>ys. Inr (y # ys)))"

definition push_revisions :: "(offset_time \<Rightarrow> instant) \<Rightarrow> uuid \<Rightarrow> string \<Rightarrow> push_request \<Rightarrow> new_revision list api" where
  "push_revisions encode_time device_id i request =
    try_bind (try_map (object_revision encode_time device_id i) (pushr_objects request)) (\<lambda>objects.
    try_bind (try_map (tombstone_revision encode_time device_id i) (pushr_tombstones request)) (\<lambda>tombstones.
    Inr (objects @ tombstones)))"

definition response_results :: "json \<Rightarrow> json list option" where
  "response_results response = Option.bind (json_get ''results'' response) json_as_array"

text \<open>\<open>item["status"] == "conflict"\<close>; a missing member indexes as null.\<close>

definition has_conflict :: "json \<Rightarrow> bool" where
  "has_conflict response =
    (case response_results response of None \<Rightarrow> False
     | Some items \<Rightarrow> list_ex (\<lambda>item. json_get ''status'' item = Some (JStr ''conflict'')) items)"

definition i32_of :: "int \<Rightarrow> int" where
  "i32_of n = (if n > i32_max then i32_max else n)"

text \<open>The diagnostic row of a push; \<open>latency\<close> is the measured time where it fits an \<open>i32\<close>.\<close>

definition push_attempt ::
    "uuid \<Rightarrow> env \<Rightarrow> access_claims \<Rightarrow> uuid \<Rightarrow> string \<Rightarrow> string option \<Rightarrow> int \<Rightarrow> int option \<Rightarrow> attempt_row" where
  "push_attempt attempt_id e claims project_id status error_code item_count latency =
    \<lparr>sa_id = attempt_id, sa_owner = ac_sub claims, sa_project = project_id, sa_device = Some (ac_device claims),
     sa_operation = ''push'', sa_status = status, sa_error = error_code, sa_item_count = item_count,
     sa_latency_ms = latency, sa_created_at = app_now e\<rparr>"

definition record_push_attempt ::
    "'w api_runtime \<Rightarrow> access_claims \<Rightarrow> uuid \<Rightarrow> string \<Rightarrow> string option \<Rightarrow> int \<Rightarrow> int option \<Rightarrow> ('w, unit) handler" where
  "record_push_attempt rt claims project_id status error_code item_count latency =
    h_attempt rt (\<lambda>e ids. record_sync_attempt e (ac_sub claims)
      (push_attempt (ids 0) e claims project_id status error_code item_count latency))"

definition count_push :: "bool \<Rightarrow> api_metrics \<Rightarrow> api_metrics" where
  "count_push conflict m = m\<lparr>mt_sync_push := fetch_add 1 (mt_sync_push m),
     mt_sync_conflict := (if conflict then fetch_add 1 (mt_sync_conflict m) else mt_sync_conflict m)\<rparr>"

fun is_replay :: "persistence_error \<Rightarrow> bool" where
  "is_replay (IdempotencyReplay response status) = True"
| "is_replay _ = False"

text \<open>What follows the transaction: the counters, the diagnostic unless replayed, the answer.\<close>

definition answer_push ::
    "'w api_runtime \<Rightarrow> access_claims \<Rightarrow> uuid \<Rightarrow> int option \<Rightarrow> string \<Rightarrow> (json \<times> bool) outcome \<Rightarrow> ('w, json) handler" where
  "answer_push rt claims project_id latency i result =
    (case result of
       Inr (response, replayed) \<Rightarrow>
         h_bind (h_metrics (count_push (has_conflict response))) (\<lambda>_.
         h_bind (if replayed then h_return ()
                 else record_push_attempt rt claims project_id
                   (if has_conflict response then ''conflict'' else ''succeeded'') None
                   (i32_of (int (length (case response_results response of None \<Rightarrow> [] | Some items \<Rightarrow> items))))
                   latency) (\<lambda>_.
         h_return response))
     | Inl er \<Rightarrow>
         h_bind (h_metrics (count_push False)) (\<lambda>_.
         h_bind (if is_replay er then h_return ()
                 else record_push_attempt rt claims project_id ''failed''
                   (Some (ae_code (map_project_error er i))) 0 latency) (\<lambda>_.
         h_fail (map_project_error er i))))"

text \<open>
  \<open>request_vec\<close> is \<open>serde_json::to_vec\<close> at the type of the request, whose hash identifies the
  request under its key.
\<close>

definition push_handler ::
    "(push_request \<Rightarrow> bytes) \<Rightarrow> 'w api_runtime \<Rightarrow> int option \<Rightarrow> headers \<Rightarrow> uuid \<Rightarrow> push_request \<Rightarrow> ('w, json) handler" where
  "push_handler request_vec rt latency hs project_id request =
    (let i = request_id_of hs in
     if \<not> push_request_ok request then h_fail (api_invalid i)
     else h_bind (authenticate rt hs i) (\<lambda>claims.
     h_bind (h_check (push_revisions (ar_encode_time rt) (ac_device claims) i request)) (\<lambda>revisions.
     h_bind (h_txn rt (\<lambda>e ids. push_with_outcome (ar_is_rfc3339 rt) e (ac_sub claims) (ac_device claims)
         project_id ids (pushr_generation request) (pushr_id request)
         (ar_sha256_hex rt (request_vec request)) revisions)) (\<lambda>result.
     answer_push rt claims project_id latency i result))))"

subsection \<open>History\<close>

record history_query =
  hq_after_sequence :: "int option"
  hq_limit :: "int option"
  hq_kind :: "string option"
  hq_object_id :: "string option"

definition or_else :: "'a option \<Rightarrow> 'a option \<Rightarrow> 'a option" where
  "or_else a b = (case a of None \<Rightarrow> b | Some x \<Rightarrow> Some x)"

definition history_json :: "sync_record list \<Rightarrow> bool \<Rightarrow> json" where
  "history_json records has_more =
    JObj [(''items'', JArr (map sync_item_json records)), (''hasMore'', JBool has_more),
      (''nextSequence'', if has_more \<and> records \<noteq> [] then JNum (sr_change_sequence (last records)) else JNull)]"

definition history_response ::
    "'w api_runtime \<Rightarrow> uuid \<Rightarrow> headers \<Rightarrow> history_query \<Rightarrow> object_kind option \<Rightarrow> string option \<Rightarrow> ('w, json) handler" where
  "history_response rt project_id hs query kind object_id =
    (let i = request_id_of hs;
         after = (case hq_after_sequence query of None \<Rightarrow> 0 | Some n \<Rightarrow> n) in
     if after < 0 then h_fail (api_invalid i)
     else if hq_object_id query \<noteq> None \<and> kind = None then h_fail (api_invalid i)
     else h_bind (h_check (case hq_kind query of None \<Rightarrow> Inr None
                    | Some v \<Rightarrow> (case parse_object_kind v of None \<Rightarrow> Inl (api_invalid i) | Some k \<Rightarrow> Inr (Some k)))) (\<lambda>query_kind.
     h_bind (h_check (valid_limit (hq_limit query) 200 1000 i)) (\<lambda>limit.
     h_bind (authenticate rt hs i) (\<lambda>claims.
     h_bind (h_query rt (\<lambda>er. map_project_error er i) (list_history (ac_sub claims) project_id
              (or_else kind query_kind) (or_else object_id (hq_object_id query)) after limit)) (\<lambda>(records, has_more).
     h_return (history_json records has_more))))))"

definition history_handler :: "'w api_runtime \<Rightarrow> headers \<Rightarrow> uuid \<Rightarrow> history_query \<Rightarrow> ('w, json) handler" where
  "history_handler rt hs project_id query = history_response rt project_id hs query None None"

definition object_history_handler ::
    "'w api_runtime \<Rightarrow> headers \<Rightarrow> uuid \<Rightarrow> string \<Rightarrow> string \<Rightarrow> history_query \<Rightarrow> ('w, json) handler" where
  "object_history_handler rt hs project_id kind object_id query =
    (case parse_object_kind kind of
       None \<Rightarrow> h_fail (api_invalid (request_id_of hs))
     | Some k \<Rightarrow> history_response rt project_id hs query (Some k) (Some object_id))"

subsection \<open>Snapshots and restores\<close>

definition create_snapshot_handler :: "'w api_runtime \<Rightarrow> headers \<Rightarrow> uuid \<Rightarrow> ('w, snapshot_row) handler" where
  "create_snapshot_handler rt hs project_id =
    (let i = request_id_of hs in
     h_bind (authenticate rt hs i) (\<lambda>claims.
     h_bind (h_new_uuid rt) (\<lambda>snapshot_id.
     h_bind (h_db rt (\<lambda>er. map_project_error er i) (\<lambda>e _. snapshot_manifest (ar_to_vec rt) (ar_sha256_hex rt) e
              (ac_sub claims) project_id snapshot_id)) (\<lambda>(generation, sequence, manifest, body).
     h_bind (h_check (sync_object_store rt i)) (\<lambda>_.
     h_bind (h_store rt i (\<lambda>_. put_manifest (ar_s3 rt) (ar_sha256_hex rt) (ar_bucket rt) (ac_sub claims) project_id
              snapshot_id (ar_sha256_hex rt body) body)) (\<lambda>stored.
     h_db rt (\<lambda>er. map_project_error er i) (\<lambda>e _. record_snapshot e (ac_sub claims) project_id snapshot_id
       generation sequence (ar_sha256_hex rt body) (pi_bucket stored) (pi_key stored) manifest)))))))"

definition list_snapshots_handler :: "'w api_runtime \<Rightarrow> headers \<Rightarrow> uuid \<Rightarrow> ('w, snapshot_row list) handler" where
  "list_snapshots_handler rt hs project_id =
    (let i = request_id_of hs in
     h_bind (authenticate rt hs i) (\<lambda>claims.
     h_query rt (\<lambda>er. map_project_error er i) (list_snapshots (ac_sub claims) project_id)))"

record restore_request =
  rrq_snapshot :: "uuid option"
  rrq_target :: "int option"
  rrq_reason :: string

definition count_restore :: "api_metrics \<Rightarrow> api_metrics" where
  "count_restore m = m\<lparr>mt_restore_jobs := fetch_add 1 (mt_restore_jobs m)\<rparr>"

definition valid_target :: "uuid option \<Rightarrow> int option \<Rightarrow> string \<Rightarrow> unit api" where
  "valid_target snapshot_id target i =
    (case validate_restore_target snapshot_id target of Inl _ \<Rightarrow> Inl (api_invalid i) | Inr _ \<Rightarrow> Inr ())"

definition create_restore_handler ::
    "'w api_runtime \<Rightarrow> headers \<Rightarrow> uuid \<Rightarrow> restore_request \<Rightarrow> ('w, restore_row) handler" where
  "create_restore_handler rt hs project_id request =
    (let i = request_id_of hs in
     h_bind (h_check (valid_text (rrq_reason request) 512 i)) (\<lambda>reason.
     h_bind (h_check (valid_target (rrq_snapshot request) (rrq_target request) i)) (\<lambda>_.
     h_bind (authenticate rt hs i) (\<lambda>claims.
     h_bind (h_db rt (\<lambda>er. map_project_error er i) (\<lambda>e ids. enqueue_restore e (ids 0) (ac_sub claims) project_id
              (rrq_snapshot request) (rrq_target request) reason i)) (\<lambda>job.
     h_bind (h_metrics count_restore) (\<lambda>_. h_return job))))))"

definition get_restore_handler ::
    "'w api_runtime \<Rightarrow> headers \<Rightarrow> uuid \<Rightarrow> uuid \<Rightarrow> ('w, restore_row) handler" where
  "get_restore_handler rt hs project_id restore_id =
    (let i = request_id_of hs in
     h_bind (authenticate rt hs i) (\<lambda>claims.
     h_query rt (\<lambda>er. map_project_error er i) (get_restore_job (ac_sub claims) project_id restore_id)))"

definition cancel_restore_handler ::
    "'w api_runtime \<Rightarrow> headers \<Rightarrow> uuid \<Rightarrow> uuid \<Rightarrow> string \<Rightarrow> ('w, restore_row) handler" where
  "cancel_restore_handler rt hs project_id restore_id reason =
    (let i = request_id_of hs in
     h_bind (h_check (valid_text reason 512 i)) (\<lambda>reason.
     h_bind (authenticate rt hs i) (\<lambda>claims.
     h_db rt (\<lambda>er. map_project_error er i) (\<lambda>e _. cancel_restore e (ac_sub claims) project_id restore_id reason i))))"

end
