(* ===== verification/Api_Props.thy ===== *)
theory Api_Props
  imports Api_Sync Cursor_Props Pull_Props Push_Props Object_Store_Props
begin

text \<open>
  What the sync endpoints promise: a client that follows the cursors of pull receives every
  change, an accepted push is answered, and the refusal of a push is the same answer when the
  request is sent again.
\<close>

subsection \<open>A signed-in request\<close>

text \<open>
  The conditions under which a request of the account is let through: the services are
  configured, the bearer token decodes to the claims of an ordinary user, the account is active
  and the device is not revoked.
\<close>

definition signed_in :: "'w api_runtime \<Rightarrow> headers \<Rightarrow> access_claims \<Rightarrow> db \<Rightarrow> bool" where
  "signed_in rt hs claims s \<longleftrightarrow>
     ar_has_database rt \<and> ar_has_auth rt
   \<and> Option.bind (bearer_token hs) (ar_decode_token rt) = Some claims \<and> ac_role claims = ''user''
   \<and> (case List.find (\<lambda>u. u_id u = ac_sub claims) (users s) of
        None \<Rightarrow> False | Some u \<Rightarrow> u_status u = Active \<and> u_role u = User)
   \<and> ensure_existing_device (ac_sub claims) (ac_device claims) s = Inr ()"

definition undisturbed :: "'w api_runtime \<Rightarrow> bool" where
  "undisturbed rt \<longleftrightarrow> (\<forall>n x. ar_others rt n x = x)"

lemma h_bind_run [simp]:
  "m w = (w1, Inr x) \<Longrightarrow> h_bind m f w = f x w1"
  "m w = (w1, Inl er) \<Longrightarrow> h_bind m f w = (w1, Inl er)"
  by (simp_all add: h_bind_def)

lemma h_simps [simp]:
  "h_check r w = (w, r)" "h_return x w = (w, Inr x)" "h_fail er w = (w, Inl er)"
  "h_metrics g w = (w\<lparr>aw_metrics := g (aw_metrics w)\<rparr>, Inr ())"
  by (simp_all add: h_check_def h_return_def h_fail_def h_metrics_def)

lemma h_txn_run:
  assumes "undisturbed rt"
    and "t (ar_clock rt (aw_steps w)) (ar_uuid rt (aw_steps w)) (aw_db w) = (s', r)"
  shows "h_txn rt t w = (w\<lparr>aw_db := s', aw_steps := Suc (aw_steps w)\<rparr>, Inr r)"
  using assms by (simp add: h_txn_def api_tick_def undisturbed_def split_beta)

lemma h_db_run:
  assumes "undisturbed rt"
    and "t (ar_clock rt (aw_steps w)) (ar_uuid rt (aw_steps w)) (aw_db w) = (s', r)"
  shows "h_db rt er t w = (w\<lparr>aw_db := s', aw_steps := Suc (aw_steps w)\<rparr>, map_sum er id r)"
  using assms by (simp add: h_db_def h_bind_def h_txn_def api_tick_def undisturbed_def split_beta)

lemma validate_access_run:
  assumes "signed_in rt hs claims s"
  shows "validate_access e (ac_sub claims) (ac_device claims) (ac_role claims) s
    = (s\<lparr>devices := update_where (\<lambda>d. d_id d = ac_device claims) (touch_seen e) (devices s)\<rparr>, Inr ())"
proof -
  from assms obtain u where "lock_active_user (ac_sub claims) s = Inr u" "u_role u = User"
    by (auto simp: signed_in_def lock_active_user_def split: option.splits)
  with assms show ?thesis by (simp add: validate_access_def signed_in_def)
qed

lemma authenticate_run:
  assumes "undisturbed rt" and "signed_in rt hs claims (aw_db w)"
  shows "authenticate rt hs i w = (w\<lparr>aw_db := (aw_db w)\<lparr>devices := update_where
      (\<lambda>d. d_id d = ac_device claims) (touch_seen (ar_clock rt (aw_steps w))) (devices (aw_db w))\<rparr>,
      aw_steps := Suc (aw_steps w)\<rparr>, Inr claims)"
proof -
  have "services rt i = Inr ()" using assms(2) by (simp add: services_def signed_in_def)
  moreover have "ok_or (Option.bind (bearer_token hs) (ar_decode_token rt)) (api_authentication i) = Inr claims"
    using assms(2) by (simp add: signed_in_def)
  moreover have "ac_role claims = ''user''" using assms(2) by (simp add: signed_in_def)
  moreover have "h_db rt er (\<lambda>e _. validate_access e (ac_sub claims) (ac_device claims) (ac_role claims)) w
      = (w\<lparr>aw_db := (aw_db w)\<lparr>devices := update_where (\<lambda>d. d_id d = ac_device claims)
           (touch_seen (ar_clock rt (aw_steps w))) (devices (aw_db w))\<rparr>, aw_steps := Suc (aw_steps w)\<rparr>, Inr ())" for er
    using h_db_run [where t = "\<lambda>e _. validate_access e (ac_sub claims) (ac_device claims) (ac_role claims)",
        OF assms(1) validate_access_run [OF assms(2)]] by simp
  ultimately show ?thesis
    by (simp add: authenticate_def authenticate_role_def authenticate_access_def h_bind_def)
qed

lemma signed_in_devices:
  assumes "signed_in rt hs claims s" and "\<And>d. d_id (f d) = d_id d \<and> d_owner (f d) = d_owner d \<and> d_revoked_at (f d) = d_revoked_at d"
  shows "signed_in rt hs claims (s\<lparr>devices := update_where P f (devices s)\<rparr>)"
proof -
  have "List.find Q (update_where P f t) = map_option (\<lambda>r. if P r then f r else r) (List.find Q t)"
    if "Q = (\<lambda>d. d_id d = a \<and> d_owner d = b)" for Q a b t
    using assms(2) that by (intro find_update_where) auto
  with assms show ?thesis
    by (auto simp: signed_in_def ensure_existing_device_def split: option.splits if_splits)
qed

subsection \<open>Pulling with cursors\<close>

text \<open>
  The loop of a client: it sends the cursor it was given last and reads three members of the
  answer, until an answer says that there is no more. The fuel bounds the number of requests.
\<close>

fun pull_client ::
    "nat \<Rightarrow> 'w api_runtime \<Rightarrow> headers \<Rightarrow> uuid \<Rightarrow> int \<Rightarrow> string \<Rightarrow> 'w api_world \<Rightarrow> json list option" where
  "pull_client 0 rt hs pid limit cursor w = None"
| "pull_client (Suc fuel) rt hs pid limit cursor w =
    (case pull_handler rt hs pid \<lparr>pullr_cursor = cursor, pullr_limit = Some limit\<rparr> w of
       (w1, Inl er) \<Rightarrow> None
     | (w1, Inr answer) \<Rightarrow>
         (case (Option.bind (json_get ''changes'' answer) json_as_array,
                Option.bind (json_get ''nextCursor'' answer) json_as_str,
                Option.bind (json_get ''hasMore'' answer) json_as_bool) of
            (Some changes, Some next_cursor, Some has_more) \<Rightarrow>
              if has_more then map_option ((@) changes) (pull_client fuel rt hs pid limit next_cursor w1)
              else Some changes
          | _ \<Rightarrow> None))"

definition pull_cursor :: "'w api_runtime \<Rightarrow> bytes \<Rightarrow> env \<Rightarrow> uuid \<Rightarrow> uuid \<Rightarrow> int \<Rightarrow> int \<Rightarrow> string" where
  "pull_cursor rt secret e pid uid g after =
    cursor_sign (ar_cursor_libs rt) secret e (cursor_claims_of PullCursor pid uid g after 0 None)"

text \<open>What a sync request needs of the configuration and of the state.\<close>

definition sync_ready ::
    "'w api_runtime \<Rightarrow> bytes \<Rightarrow> headers \<Rightarrow> access_claims \<Rightarrow> uuid \<Rightarrow> int \<Rightarrow> int \<Rightarrow> db \<Rightarrow> bool" where
  "sync_ready rt secret hs claims pid g n s \<longleftrightarrow>
     undisturbed rt \<and> ar_cursor_secret rt = Some secret \<and> libs_ok (ar_cursor_libs rt)
   \<and> signed_in rt hs claims s \<and> store_inv s \<and> project_state (ac_sub claims) pid s = Inr (g, n) \<and> 0 < g"

lemma sync_ready_devices:
  assumes "sync_ready rt secret hs claims pid g n s"
    and "\<And>d. d_id (f d) = d_id d \<and> d_owner (f d) = d_owner d \<and> d_revoked_at (f d) = d_revoked_at d"
  shows "sync_ready rt secret hs claims pid g n (s\<lparr>devices := update_where P f (devices s)\<rparr>)"
proof -
  have "store_inv (s\<lparr>devices := update_where P f (devices s)\<rparr>) = store_inv s"
    by (rule store_inv_view) (simp add: store_view_def)
  with assms show ?thesis by (simp add: sync_ready_def signed_in_devices)
qed

lemma pull_handler_run:
  assumes ready: "sync_ready rt secret hs claims pid g n (aw_db w)"
    and "0 \<le> after" and "after \<le> n" and limit: "1 \<le> limit" "limit \<le> 1000"
    and nxt: "nxt = (if take (nat limit) (pull_rows (ac_sub claims) pid after (aw_db w)) = [] then after
         else sr_change_sequence (last (take (nat limit) (pull_rows (ac_sub claims) pid after (aw_db w)))))"
  shows "\<exists>w1 e1. pull_handler rt hs pid
      \<lparr>pullr_cursor = pull_cursor rt secret e pid (ac_sub claims) g after, pullr_limit = Some limit\<rparr> w
    = (w1, Inr (JObj [(''generation'', JNum g),
         (''changes'', JArr (map sync_item_json (take (nat limit) (pull_rows (ac_sub claims) pid after (aw_db w))))),
         (''nextCursor'', JStr (pull_cursor rt secret e1 pid (ac_sub claims) g nxt)),
         (''hasMore'', JBool (length (pull_rows (ac_sub claims) pid after (aw_db w)) > nat limit))]))
    \<and> sync_ready rt secret hs claims pid g n (aw_db w1)
    \<and> (\<forall>a. pull_rows (ac_sub claims) pid a (aw_db w1) = pull_rows (ac_sub claims) pid a (aw_db w))"
proof -
  define i where "i = request_id_of hs"
  define s1 where "s1 = (aw_db w)\<lparr>devices := update_where (\<lambda>d. d_id d = ac_device claims)
      (touch_seen (ar_clock rt (aw_steps w))) (devices (aw_db w))\<rparr>"
  define w1 where "w1 = w\<lparr>aw_db := s1, aw_steps := Suc (aw_steps w)\<rparr>"
  have ready1: "sync_ready rt secret hs claims pid g n s1"
    unfolding s1_def using ready by (rule sync_ready_devices) (simp add: touch_seen_def)
  have auth: "authenticate rt hs i w = (w1, Inr claims)"
    using ready authenticate_run [of rt hs claims w i] by (simp add: sync_ready_def w1_def s1_def)
  have signer: "cursor_signer rt i = Inr secret" using ready by (simp add: cursor_signer_def sync_ready_def)
  have cursor: "verify_cursor (ar_cursor_libs rt) secret (pull_cursor rt secret e pid (ac_sub claims) g after) PullCursor
      pid (ac_sub claims) i = Inr (signed_claims e (cursor_claims_of PullCursor pid (ac_sub claims) g after 0 None))"
    using ready assms(2) by (simp add: pull_cursor_def verify_cursor_sign sync_ready_def cursor_claims_of_def)
  define s2 where "s2 = s1\<lparr>devices := update_where (\<lambda>d. d_id d = ac_device claims \<and> d_owner d = ac_sub claims)
      (touch_pull (ar_clock rt (aw_steps w1))) (devices s1)\<rparr>"
  have ready2: "sync_ready rt secret hs claims pid g n s2"
    unfolding s2_def using ready1 by (rule sync_ready_devices) (simp add: touch_pull_def)
  have rows: "pull_rows (ac_sub claims) pid a s1 = pull_rows (ac_sub claims) pid a (aw_db w)" for a
    by (simp add: s1_def)
  define page where "page = \<lparr>pp_generation = g, pp_records = take (nat limit) (pull_rows (ac_sub claims) pid after (aw_db w)),
       pp_has_more = (length (pull_rows (ac_sub claims) pid after (aw_db w)) > nat limit), pp_next_sequence = nxt\<rparr>"
  have "project_state (ac_sub claims) pid s1 = Inr (g, n)" using ready1 by (simp add: sync_ready_def)
  then have "pull_page (ar_clock rt (aw_steps w1)) (ac_sub claims) (ac_device claims) pid g after limit s1 = (s2, Inr page)"
    using assms(2,3) limit by (simp add: pull_page_run i64_max_def s2_def page_def nxt rows)
  then have db: "h_db rt er (\<lambda>e _. pull_page e (ac_sub claims) (ac_device claims) pid g after limit) w1
      = (w1\<lparr>aw_db := s2, aw_steps := Suc (aw_steps w1)\<rparr>, Inr page)" for er
    using h_db_run [of rt "\<lambda>e _. pull_page e (ac_sub claims) (ac_device claims) pid g after limit" w1 s2 "Inr page" er]
      ready by (simp add: sync_ready_def w1_def)
  have selected: "cc_generation (signed_claims e (cursor_claims_of PullCursor pid (ac_sub claims) g after 0 None)) = g"
    "cc_sequence (signed_claims e (cursor_claims_of PullCursor pid (ac_sub claims) g after 0 None)) = after"
    by (simp_all add: signed_claims_def cursor_claims_of_def)
  have sign: "sign_cursor rt secret (cursor_claims_of PullCursor pid u g x 0 None) v
      = (v, Inr (pull_cursor rt secret (ar_clock rt (aw_steps v)) pid u g x))" for u x and v :: "'a api_world"
    by (simp add: sign_cursor_def pull_cursor_def)
  have run: "pull_handler rt hs pid
      \<lparr>pullr_cursor = pull_cursor rt secret e pid (ac_sub claims) g after, pullr_limit = Some limit\<rparr> w
    = (w1\<lparr>aw_db := s2, aw_steps := Suc (aw_steps w1),
         aw_metrics := (aw_metrics w1)\<lparr>mt_sync_pull := fetch_add 1 (mt_sync_pull (aw_metrics w1))\<rparr>\<rparr>,
       Inr (pull_response page (pull_cursor rt secret (ar_clock rt (Suc (aw_steps w1))) pid (ac_sub claims) g nxt)))"
    using limit
    by (simp add: pull_handler_def Let_def valid_limit_def auth signer cursor selected db sign page_def flip: i_def)
  show ?thesis
    unfolding run using ready2 rows by (intro exI conjI) (auto simp: pull_response_def page_def s2_def)
qed

lemma pull_client_rows:
  assumes "sync_ready rt secret hs claims pid g n (aw_db w)"
    and "0 \<le> after" and "after \<le> n" and "1 \<le> limit" and "limit \<le> 1000"
  shows "pull_client fuel rt hs pid limit (pull_cursor rt secret e pid (ac_sub claims) g after) w
    = (if pages_of (nat limit) (length (pull_rows (ac_sub claims) pid after (aw_db w))) \<le> fuel
       then Some (map sync_item_json (pull_rows (ac_sub claims) pid after (aw_db w))) else None)"
  using assms
proof (induction fuel arbitrary: after w e)
  case (Suc fuel)
  define rows where "rows = pull_rows (ac_sub claims) pid after (aw_db w)"
  define nxt where "nxt = (if take (nat limit) rows = [] then after else sr_change_sequence (last (take (nat limit) rows)))"
  from pull_handler_run [OF Suc.prems(1-5), OF nxt_def [unfolded rows_def], of e]
  obtain w1 e1 where run: "pull_handler rt hs pid
      \<lparr>pullr_cursor = pull_cursor rt secret e pid (ac_sub claims) g after, pullr_limit = Some limit\<rparr> w
    = (w1, Inr (JObj [(''generation'', JNum g), (''changes'', JArr (map sync_item_json (take (nat limit) rows))),
         (''nextCursor'', JStr (pull_cursor rt secret e1 pid (ac_sub claims) g nxt)),
         (''hasMore'', JBool (length rows > nat limit))]))"
    and ready: "sync_ready rt secret hs claims pid g n (aw_db w1)"
    and same: "\<And>a. pull_rows (ac_sub claims) pid a (aw_db w1) = pull_rows (ac_sub claims) pid a (aw_db w)"
    unfolding rows_def [symmetric] by blast
  show ?case
  proof (cases "length rows > nat limit")
    case False
    then have "pages_of (nat limit) (length rows) = 1" by (intro pages_of_last) simp
    then show ?thesis using False by (simp add: run flip: rows_def)
  next
    case True
    from Suc.prems(1) have "store_inv (aw_db w)" "project_state (ac_sub claims) pid (aw_db w) = Inr (g, n)"
      by (simp_all add: sync_ready_def)
    from pull_page_next [OF this Suc.prems(4) True [unfolded rows_def], OF nxt_def [unfolded rows_def]]
    have rest: "pull_rows (ac_sub claims) pid nxt (aw_db w1) = drop (nat limit) rows" and nb: "after < nxt" "nxt \<le> n"
      unfolding rows_def [symmetric] same by simp_all
    have pages: "pages_of (nat limit) (length rows) = Suc (pages_of (nat limit) (length rows - nat limit))"
      using Suc.prems(4) True by (intro pages_of_more) simp_all
    have "0 \<le> nxt" using Suc.prems(2) nb by simp
    from Suc.IH [OF ready this nb(2) Suc.prems(4,5), of e1]
    show ?thesis
      using True pages by (simp add: run rest flip: rows_def map_append)
  qed
qed simp

text \<open>C10. A client that is signed in and follows the cursors of pull, while no other process touches the
  database, receives every change: starting from the cursor of a sequence, with any page size the
  API admits, it needs exactly the missing changes divided by the page size, rounded up, as its
  number of requests (one when nothing is missing), and with that many or more the answers together
  list exactly the changes after that sequence up to the counter, each once and in order.\<close>

theorem pull_client_receives_all:
  assumes "sync_ready rt secret hs claims pid g n (aw_db w)"
    and "0 \<le> after" and "after \<le> n" and "1 \<le> limit" and "limit \<le> 1000"
  shows "pull_client fuel rt hs pid limit (pull_cursor rt secret e pid (ac_sub claims) g after) w
      = (if Suc ((nat (n - after) - 1) div nat limit) \<le> fuel
         then Some (map sync_item_json (pull_rows (ac_sub claims) pid after (aw_db w))) else None)
    \<and> map sr_change_sequence (pull_rows (ac_sub claims) pid after (aw_db w)) = [after + 1..n]"
proof -
  from assms(1) have s: "store_inv (aw_db w)" "project_state (ac_sub claims) pid (aw_db w) = Inr (g, n)"
    by (simp_all add: sync_ready_def)
  from project_state_counter [OF s] pull_rows_sequences [OF s(1) _ assms(2)]
  have seqs: "map sr_change_sequence (pull_rows (ac_sub claims) pid after (aw_db w)) = [after + 1..n]" by simp
  then have "length (pull_rows (ac_sub claims) pid after (aw_db w)) = length [after + 1..n]"
    by (metis length_map)
  then have len: "length (pull_rows (ac_sub claims) pid after (aw_db w)) = nat (n - after)" by simp
  from pull_client_rows [OF assms, of fuel e] seqs show ?thesis unfolding len by simp
qed

definition sample_api :: "(string \<rightharpoonup> bytes) api_runtime" where
  "sample_api = \<lparr>ar_has_database = True, ar_has_auth = True, ar_has_store = True,
     ar_cursor_secret = Some (replicate 32 7), ar_admin_origin = None, ar_web_origin = None,
     ar_upload_max = default_upload_temp_max_bytes, ar_clock = \<lambda>_. sample_env,
     ar_uuid = \<lambda>n i. ''r'' @ replicate n (CHR ''n'') @ replicate i (CHR ''0''), ar_others = \<lambda>_ x. x,
     ar_s3 = map_service, ar_bucket = ''k'', ar_sha256_hex = \<lambda>_. sample_hash, ar_bucket_hash = \<lambda>_. [1],
     ar_to_vec = \<lambda>_. [1], ar_parse_uuid = Some, ar_read_time = \<lambda>_. Some \<lparr>ot_nanos = 0, ot_offset = 0\<rparr>,
     ar_show_time = \<lambda>_. ''1970-01-01T00:00:00Z'', ar_encode_time = \<lambda>t. ot_nanos t div 1000,
     ar_cursor_libs = sample_libs,
     ar_decode_token = \<lambda>t. if t = ''t'' then Some \<lparr>ac_sub = ''u'', ac_role = ''user'', ac_device = ''d'',
         ac_iss = [], ac_aud = [], ac_jti = [], ac_iat = 0, ac_exp = 9\<rparr> else None\<rparr>"

definition sample_claims :: access_claims where
  "sample_claims = \<lparr>ac_sub = ''u'', ac_role = ''user'', ac_device = ''d'', ac_iss = [], ac_aud = [],
     ac_jti = [], ac_iat = 0, ac_exp = 9\<rparr>"

definition sample_headers :: headers where
  "sample_headers = [(''authorization'', ''Bearer t'')]"

definition sample_api_world :: "db \<Rightarrow> (string \<rightharpoonup> bytes) api_world" where
  "sample_api_world s = \<lparr>aw_db = s, aw_store = Map.empty, aw_limiter = new_limiter 0, aw_upload_used = 0,
     aw_metrics = new_metrics, aw_steps = 0\<rparr>"

lemma sample_signed_in:
  assumes "users s = users sample_db" and "devices s = devices sample_pushed \<or> devices s = devices sample_db"
  shows "signed_in sample_api sample_headers sample_claims s"
proof -
  have "bearer_token sample_headers = Some ''t''" by code_simp
  moreover have "List.find (\<lambda>u. u_id u = ''u'') (users sample_db) = Some (sample_user ''u'' User)" by code_simp
  moreover have "ensure_existing_device ''u'' ''d'' sample_pushed = Inr ()"
    "ensure_existing_device ''u'' ''d'' sample_db = Inr ()" by code_simp+
  ultimately show ?thesis
    using assms by (auto simp: signed_in_def sample_api_def sample_claims_def sample_user_def ensure_existing_device_def)
qed

lemma sample_pushed_ready:
  "sync_ready sample_api (replicate 32 7) sample_headers sample_claims ''p'' 1 1 (aw_db (sample_api_world sample_pushed))"
proof -
  have "users sample_pushed = users sample_db" by code_simp
  then have "signed_in sample_api sample_headers sample_claims sample_pushed" by (intro sample_signed_in) simp_all
  moreover have "project_state ''u'' ''p'' sample_pushed = Inr (1, 1)" by code_simp
  ultimately show ?thesis
    by (simp add: sync_ready_def sample_api_world_def sample_pushed_inv undisturbed_def sample_claims_def)
      (simp add: sample_api_def sample_libs_ok)
qed

theorem pull_client_receives_all_witness:
  "\<exists>changes. pull_client 0 sample_api sample_headers ''p'' 1
      (pull_cursor sample_api (replicate 32 7) sample_env ''p'' ''u'' 1 0) (sample_api_world sample_pushed) = None
    \<and> pull_client 1 sample_api sample_headers ''p'' 1
      (pull_cursor sample_api (replicate 32 7) sample_env ''p'' ''u'' 1 0) (sample_api_world sample_pushed) = Some changes
    \<and> length changes = 1"
proof -
  have sub: "ac_sub sample_claims = ''u''" by (simp add: sample_claims_def)
  note run = pull_client_receives_all [OF sample_pushed_ready, of 0 1 _ sample_env, unfolded sub]
  from run [of 0] have none: "pull_client 0 sample_api sample_headers ''p'' 1
      (pull_cursor sample_api (replicate 32 7) sample_env ''p'' ''u'' 1 0) (sample_api_world sample_pushed) = None"
    by simp
  from run [of 1]
  have all: "pull_client 1 sample_api sample_headers ''p'' 1
      (pull_cursor sample_api (replicate 32 7) sample_env ''p'' ''u'' 1 0) (sample_api_world sample_pushed)
    = Some (map sync_item_json (pull_rows ''u'' ''p'' 0 (aw_db (sample_api_world sample_pushed))))"
    and seqs: "map sr_change_sequence (pull_rows ''u'' ''p'' 0 (aw_db (sample_api_world sample_pushed))) = [0 + 1..1]"
    by simp_all
  from seqs have "length (pull_rows ''u'' ''p'' 0 (aw_db (sample_api_world sample_pushed))) = length [1..1::int]"
    by (metis add_0 length_map)
  with none all show ?thesis by simp
qed

subsection \<open>Pushing\<close>

lemma try_map_all:
  "try_map f xs = Inr ys \<Longrightarrow> length ys = length xs \<and> (\<forall>y \<in> set ys. \<exists>x \<in> set xs. f x = Inr y)"
proof (induction xs arbitrary: ys)
  case (Cons x xs)
  then obtain z zs where "f x = Inr z" "try_map f xs = Inr zs" "ys = z # zs" by (auto simp: try_bind_eq_Inr)
  with Cons.IH [of zs] show ?case by auto
qed simp

lemma push_revisions_ok:
  assumes "push_revisions enc device_id i request = Inr revs"
  shows "length revs = length (pushr_objects request) + length (pushr_tombstones request)
    \<and> (\<forall>r \<in> set revs. request_ok r)"
proof -
  from assms obtain xs ys where x: "try_map (object_revision enc device_id i) (pushr_objects request) = Inr xs"
    and y: "try_map (tombstone_revision enc device_id i) (pushr_tombstones request) = Inr ys" and revs: "revs = xs @ ys"
    by (auto simp: push_revisions_def try_bind_eq_Inr)
  have "request_ok r" if "object_revision enc device_id i x = Inr r" for x r
    using that by (auto simp: object_revision_def try_bind_eq_Inr validate_push_item_def request_ok_def split: if_splits)
  moreover have "request_ok r" if "tombstone_revision enc device_id i x = Inr r" for x r
    using that by (auto simp: tombstone_revision_def try_bind_eq_Inr request_ok_def)
  ultimately show ?thesis using try_map_all [OF x] try_map_all [OF y] revs by (metis Un_iff length_append set_append)
qed

lemma h_attempt_ok: "\<exists>w'. h_attempt rt t w = (w', Inr ())"
  by (simp add: h_attempt_def h_bind_def h_txn_def Let_def split_beta)

lemma answer_push_ok: "\<exists>w'. answer_push rt claims pid latency i (Inr (response, replayed)) w = (w', Inr response)"
proof -
  define st where "st = (if has_conflict response then ''conflict'' else ''succeeded'')"
  define k where "k = i32_of (int (length (case response_results response of None \<Rightarrow> [] | Some items \<Rightarrow> items)))"
  define v where "v = w\<lparr>aw_metrics := count_push (has_conflict response) (aw_metrics w)\<rparr>"
  obtain v' where v': "record_push_attempt rt claims pid st None k latency v = (v', Inr ())"
    unfolding record_push_attempt_def using h_attempt_ok by blast
  have "answer_push rt claims pid latency i (Inr (response, replayed)) w = (if replayed then (v, Inr response) else (v', Inr response))"
    unfolding answer_push_def sum.case prod.case st_def [symmetric] k_def [symmetric]
    by (simp add: v' flip: v_def)
  then show ?thesis by simp
qed

text \<open>A push that passes the checks of the interface is answered with one result per item, never
  with an error: for a signed-in device that has bootstrapped in the project's generation, a new
  request key, fresh identifiers and room in the change counter.\<close>

theorem accepted_push_is_answered:
  assumes "sync_ready rt secret hs claims pid g n (aw_db w)"
    and "push_request_ok request" and "pushr_generation request = g"
    and revs: "push_revisions (ar_encode_time rt) (ac_device claims) (request_id_of hs) request = Inr revs"
    and "is_bootstrapped (ac_sub claims) (ac_device claims) pid g (aw_db w)"
    and "\<forall>x \<in> set (idempotency_records (aw_db w)).
      \<not> same_request (ac_sub claims) (ac_device claims) pid (pushr_id request) x"
    and "inj (ar_uuid rt (Suc (aw_steps w)))"
    and "\<forall>m. ar_uuid rt (Suc (aw_steps w)) m \<notin> rv_id ` set (object_revisions (aw_db w))"
    and "n + int (length revs) \<le> i64_max"
  shows "\<exists>w' results. push_handler request_vec rt latency hs pid request w = (w', Inr (push_response g results))
    \<and> length results = length (pushr_objects request) + length (pushr_tombstones request)"
proof -
  define s1 where "s1 = (aw_db w)\<lparr>devices := update_where (\<lambda>d. d_id d = ac_device claims)
      (touch_seen (ar_clock rt (aw_steps w))) (devices (aw_db w))\<rparr>"
  define w1 where "w1 = w\<lparr>aw_db := s1, aw_steps := Suc (aw_steps w)\<rparr>"
  have ready1: "sync_ready rt secret hs claims pid g n s1"
    unfolding s1_def using assms(1) by (rule sync_ready_devices) (simp add: touch_seen_def)
  have auth: "authenticate rt hs i w = (w1, Inr claims)" for i
    using assms(1) authenticate_run [of rt hs claims w i] by (simp add: sync_ready_def w1_def s1_def)
  have "list_ex (\<lambda>d. d_id d = ac_device claims \<and> d_owner d = ac_sub claims) (devices s1)"
    using ready1 ensure_existing_deviceD [of "ac_sub claims" "ac_device claims" s1]
    by (auto simp: sync_ready_def signed_in_def list_ex_iff)
  moreover have "idempotency_records s1 = idempotency_records (aw_db w)"
    "object_revisions s1 = object_revisions (aw_db w)" by (simp_all add: s1_def)
  moreover have "is_bootstrapped (ac_sub claims) (ac_device claims) pid g s1"
    using assms(5) by (simp add: is_bootstrapped_def s1_def)
  ultimately obtain s2 results where push: "push_with_outcome (ar_is_rfc3339 rt) (ar_clock rt (aw_steps w1)) (ac_sub claims)
      (ac_device claims) pid (ar_uuid rt (aw_steps w1)) g (pushr_id request) (ar_sha256_hex rt (request_vec request)) revs s1
    = (s2, Inr (push_response g results, False))"
    and len: "length results = length revs"
    using push_answers [of s1 "ac_sub claims" pid g n "ac_device claims" "pushr_id request" revs "ar_uuid rt (aw_steps w1)"
        "ar_is_rfc3339 rt" "ar_clock rt (aw_steps w1)" "ar_sha256_hex rt (request_vec request)"]
      ready1 assms push_revisions_ok [OF revs]
    by (auto simp: sync_ready_def w1_def)
  have txn: "h_txn rt (\<lambda>e ids. push_with_outcome (ar_is_rfc3339 rt) e (ac_sub claims) (ac_device claims) pid ids g
      (pushr_id request) (ar_sha256_hex rt (request_vec request)) revs) w1
    = (w1\<lparr>aw_db := s2, aw_steps := Suc (aw_steps w1)\<rparr>, Inr (Inr (push_response g results, False)))"
    using push assms(1) by (intro h_txn_run) (simp_all add: sync_ready_def w1_def)
  obtain w2 where "answer_push rt claims pid latency (request_id_of hs) (Inr (push_response g results, False))
      (w1\<lparr>aw_db := s2, aw_steps := Suc (aw_steps w1)\<rparr>) = (w2, Inr (push_response g results))"
    using answer_push_ok by blast
  then have "push_handler request_vec rt latency hs pid request w = (w2, Inr (push_response g results))"
    using assms(2,3) by (simp add: push_handler_def Let_def auth revs txn)
  with len push_revisions_ok [OF revs] show ?thesis by auto
qed

definition sample_request :: push_request where
  "sample_request = \<lparr>pushr_id = ''k'', pushr_generation = 1,
     pushr_objects = [\<lparr>po_kind = Index, po_id = ''index'', po_schema_version = 1, po_revision = 1, po_base = None,
       po_content_hash = sample_hash, po_updated_at = \<lparr>ot_nanos = 0, ot_offset = 0\<rparr>, po_device = ''d''\<rparr>], pushr_tombstones = []\<rparr>"

lemma sample_db_ready:
  "sync_ready sample_api (replicate 32 7) sample_headers sample_claims ''p'' 1 0 (aw_db (sample_api_world sample_db))"
proof -
  have "signed_in sample_api sample_headers sample_claims sample_db" by (intro sample_signed_in) simp_all
  moreover have "project_state ''u'' ''p'' sample_db = Inr (1, 0)" by code_simp
  ultimately show ?thesis
    by (simp add: sync_ready_def sample_api_world_def sample_store_inv undisturbed_def sample_claims_def)
      (simp add: sample_api_def sample_libs_ok)
qed

theorem accepted_push_is_answered_witness:
  "\<exists>w' results. push_handler (\<lambda>_. [0]) sample_api None sample_headers ''p'' sample_request (sample_api_world sample_db)
      = (w', Inr (push_response 1 results)) \<and> length results = 1"
proof -
  define rs where "rs = [\<lparr>nr_kind = Index, nr_object = ''index'', nr_schema_version = Some 1, nr_base = None,
     nr_hash = Some sample_hash, nr_changed_at = 0, nr_tombstone = False\<rparr>]"
  have "push_request_ok sample_request" by code_simp
  moreover have "push_revisions (ar_encode_time sample_api) ''d'' (request_id_of sample_headers) sample_request = Inr rs"
    unfolding rs_def by code_simp
  moreover have "is_bootstrapped ''u'' ''d'' ''p'' 1 sample_db" by code_simp
  moreover have "inj (ar_uuid sample_api (Suc 0))"
    by (rule injI) (simp add: sample_api_def)
  moreover have "idempotency_records sample_db = []" "object_revisions sample_db = []" by code_simp+
  moreover have "pushr_generation sample_request = 1" "length (pushr_objects sample_request) = 1"
    "length (pushr_tombstones sample_request) = 0" by (simp_all add: sample_request_def)
  ultimately show ?thesis
    using accepted_push_is_answered [OF sample_db_ready, of sample_request rs "\<lambda>_. [0]" None]
    by (simp add: sample_claims_def sample_api_world_def rs_def i64_max_def)
qed

end
