(* ===== verification/Api_Auth.thy ===== *)
theory Api_Auth
  imports Api_State Accounts
begin

text \<open>
  Login, refresh, logout, re-authentication, invitations and registration over HTTP
  (\<open>crates/api/src/auth.rs\<close> and \<open>routes.rs\<close>): the tokens and password hashes of the
  authentication service, the client address and the keys of the limits, the audit of failures,
  and the handlers of applications, browsers and administrators. The three logins differ in their
  limits, in the role they admit and in how the refresh token is returned.
\<close>

subsection \<open>The authentication service\<close>

datatype auth_error = InvalidKey | TokenError | PasswordError | RandomError

datatype env_var = NotPresent | NotUnicode | EnvValue string

record password_hash_config =
  ph_memory_kib :: int
  ph_time_cost :: int
  ph_parallelism :: int

text \<open>
  The service with what it takes from libraries and from the system: the JWT encoder with the
  signing key, the random bytes of each step, the environment, Argon2id (with the parameters of
  the configuration, a salt, and the parser of encoded hashes), base64, SHA-256 and the parser of
  addresses, whose result is the canonical text.
\<close>

record auth_service =
  sv_issuer :: string
  sv_audience :: string
  sv_access_ttl :: int
  sv_refresh_ttl :: int
  sv_encode :: "access_claims \<Rightarrow> string option"
  sv_random :: "nat \<Rightarrow> bytes option"
  sv_salt :: "nat \<Rightarrow> bytes option"
  sv_env :: "string \<Rightarrow> env_var"
  sv_argon2 :: "password_hash_config \<Rightarrow> string \<Rightarrow> bytes \<Rightarrow> string option"
  sv_argon2_verify :: "password_hash_config \<Rightarrow> string \<Rightarrow> string \<Rightarrow> bool"
  sv_base64 :: "bytes \<Rightarrow> string"
  sv_sha256 :: "bytes \<Rightarrow> bytes"
  sv_parse_ip :: "string \<Rightarrow> string option"

definition default_password_hash_config :: password_hash_config where
  "default_password_hash_config = \<lparr>ph_memory_kib = 19456, ph_time_cost = 2, ph_parallelism = 1\<rparr>"

definition parse_u32 :: "string \<Rightarrow> int option" where
  "parse_u32 v = (case parse_u64 v of None \<Rightarrow> None | Some n \<Rightarrow> if n < 2 ^ 32 then Some n else None)"

definition password_hash_env :: "(string \<Rightarrow> env_var) \<Rightarrow> string \<Rightarrow> int \<Rightarrow> auth_error + int" where
  "password_hash_env environment name dflt =
    (case environment name of
       EnvValue v \<Rightarrow> ok_or (parse_u32 v) PasswordError
     | NotPresent \<Rightarrow> Inr dflt
     | NotUnicode \<Rightarrow> Inl PasswordError)"

definition validate_password_hash_config :: "password_hash_config \<Rightarrow> auth_error + password_hash_config" where
  "validate_password_hash_config config =
    (if \<not> (16384 \<le> ph_memory_kib config \<and> ph_memory_kib config \<le> 1048576)
        \<or> \<not> (1 \<le> ph_time_cost config \<and> ph_time_cost config \<le> 10)
        \<or> \<not> (1 \<le> ph_parallelism config \<and> ph_parallelism config \<le> 16)
     then Inl PasswordError else Inr config)"

definition configured_password_hash_config :: "(string \<Rightarrow> env_var) \<Rightarrow> auth_error + password_hash_config" where
  "configured_password_hash_config environment =
    try_bind (password_hash_env environment ''TASKTIPS_ARGON2_MEMORY_KIB'' (ph_memory_kib default_password_hash_config)) (\<lambda>m.
    try_bind (password_hash_env environment ''TASKTIPS_ARGON2_TIME_COST'' (ph_time_cost default_password_hash_config)) (\<lambda>t.
    try_bind (password_hash_env environment ''TASKTIPS_ARGON2_PARALLELISM'' (ph_parallelism default_password_hash_config)) (\<lambda>p.
    validate_password_hash_config \<lparr>ph_memory_kib = m, ph_time_cost = t, ph_parallelism = p\<rparr>)))"

definition hash_password :: "auth_service \<Rightarrow> nat \<Rightarrow> string \<Rightarrow> auth_error + string" where
  "hash_password sv step password =
    try_bind (configured_password_hash_config (sv_env sv)) (\<lambda>config.
    try_bind (ok_or (sv_salt sv step) RandomError) (\<lambda>salt.
    ok_or (sv_argon2 sv config password salt) PasswordError))"

definition verify_password :: "auth_service \<Rightarrow> string \<Rightarrow> string \<Rightarrow> bool" where
  "verify_password sv password encoded_hash =
    (case configured_password_hash_config (sv_env sv) of
       Inl _ \<Rightarrow> False
     | Inr config \<Rightarrow> sv_argon2_verify sv config password encoded_hash)"

definition opaque_token_hash :: "auth_service \<Rightarrow> string \<Rightarrow> bytes" where
  "opaque_token_hash sv token = sv_sha256 sv (utf8_bytes token)"

definition random_opaque_token :: "auth_service \<Rightarrow> nat \<Rightarrow> auth_error + (string \<times> bytes)" where
  "random_opaque_token sv step =
    (case sv_random sv step of
       None \<Rightarrow> Inl RandomError
     | Some b \<Rightarrow> (let raw = sv_base64 sv b in Inr (raw, opaque_token_hash sv raw)))"

definition access_claims_of :: "auth_service \<Rightarrow> env \<Rightarrow> uuid \<Rightarrow> uuid \<Rightarrow> string \<Rightarrow> uuid \<Rightarrow> access_claims" where
  "access_claims_of sv e jti user_id role device_id =
    (let now = app_now e div 1000000 in
     \<lparr>ac_sub = user_id, ac_role = role, ac_device = device_id, ac_iss = sv_issuer sv,
      ac_aud = sv_audience sv, ac_jti = jti, ac_iat = now, ac_exp = now + sv_access_ttl sv\<rparr>)"

definition issue_access_token ::
    "auth_service \<Rightarrow> env \<Rightarrow> uuid \<Rightarrow> uuid \<Rightarrow> string \<Rightarrow> uuid \<Rightarrow> auth_error + (string \<times> int)" where
  "issue_access_token sv e jti user_id role device_id =
    try_bind (ok_or (sv_encode sv (access_claims_of sv e jti user_id role device_id)) TokenError) (\<lambda>token.
      Inr (token, sv_access_ttl sv))"

definition reauth_nonce_ttl :: int where
  "reauth_nonce_ttl = 5 * 60"

text \<open>The two lifetimes must be positive, the password configuration valid and the key readable.\<close>

definition from_private_key_pem ::
    "(bytes \<Rightarrow> (access_claims \<Rightarrow> string option) option) \<Rightarrow> auth_service \<Rightarrow> bytes \<Rightarrow> string \<Rightarrow> string \<Rightarrow> int \<Rightarrow> int
      \<Rightarrow> auth_error + auth_service" where
  "from_private_key_pem read_key libraries private_key issuer audience access_ttl refresh_ttl =
    (if access_ttl \<le> 0 \<or> refresh_ttl \<le> 0 then Inl InvalidKey
     else try_bind (configured_password_hash_config (sv_env libraries)) (\<lambda>_.
       try_bind (ok_or (read_key private_key) InvalidKey) (\<lambda>encode.
       Inr (libraries\<lparr>sv_issuer := issuer, sv_audience := audience, sv_access_ttl := access_ttl,
         sv_refresh_ttl := refresh_ttl, sv_encode := encode\<rparr>))))"

subsection \<open>Steps of a handler\<close>

text \<open>Work that reads randomness takes a step of its own; the handler chooses the answer to its errors.\<close>

definition h_auth :: "api_error \<Rightarrow> (nat \<Rightarrow> auth_error + 'a) \<Rightarrow> ('w, 'a) handler" where
  "h_auth er t w = (w\<lparr>aw_steps := Suc (aw_steps w)\<rparr>, map_sum (\<lambda>_. er) id (t (aw_steps w)))"

text \<open>A new refresh token, as returned to the client and as stored.\<close>

definition h_refresh_token ::
    "'w api_runtime \<Rightarrow> auth_service \<Rightarrow> string \<Rightarrow> ('w, string \<times> new_refresh_token) handler" where
  "h_refresh_token rt sv request_id =
    h_auth (api_internal request_id) (\<lambda>n. try_bind (random_opaque_token sv n) (\<lambda>(raw, token_hash).
      Inr (raw, \<lparr>nt_hash = token_hash, nt_family = ar_uuid rt n 0,
        nt_expires_at = refresh_expiry (ar_clock rt n) (sv_refresh_ttl sv)\<rparr>)))"

definition validate_admin_origin :: "'w api_runtime \<Rightarrow> headers \<Rightarrow> string \<Rightarrow> unit api" where
  "validate_admin_origin rt hs request_id = validate_configured_origin (ar_admin_origin rt) hs request_id"

definition validate_web_origin :: "'w api_runtime \<Rightarrow> headers \<Rightarrow> string \<Rightarrow> unit api" where
  "validate_web_origin rt hs request_id = validate_configured_origin (ar_web_origin rt) hs request_id"

subsection \<open>Clients and limits\<close>

definition forwarded_for :: "headers \<Rightarrow> string option" where
  "forwarded_for hs =
    (case map_of hs ''x-forwarded-for'' of
       Some _ \<Rightarrow> header_str ''x-forwarded-for'' hs
     | None \<Rightarrow> header_str ''x-real-ip'' hs)"

definition auth_client_key :: "auth_service \<Rightarrow> headers \<Rightarrow> string" where
  "auth_client_key sv hs =
    (case Option.bind (forwarded_for hs) (\<lambda>v. sv_parse_ip sv (trim (hd (split_on (CHR '','') v)))) of
       None \<Rightarrow> ''unknown-client''
     | Some address \<Rightarrow> address)"

definition auth_rate_limit_key :: "'w api_runtime \<Rightarrow> auth_service \<Rightarrow> headers \<Rightarrow> string \<Rightarrow> string" where
  "auth_rate_limit_key rt sv hs identity =
    auth_client_key sv hs @ '':'' @ ar_sha256_hex rt (utf8_bytes identity)"

definition auth_client_hash :: "'w api_runtime \<Rightarrow> auth_service \<Rightarrow> headers \<Rightarrow> string" where
  "auth_client_hash rt sv hs = ar_sha256_hex rt (utf8_bytes (auth_client_key sv hs))"

text \<open>The two budgets of a client for one operation and identity: in the process, then shared.\<close>

definition limited ::
    "'w api_runtime \<Rightarrow> auth_service \<Rightarrow> auth_operation \<Rightarrow> string \<Rightarrow> string \<Rightarrow> headers \<Rightarrow> string \<Rightarrow> ('w, unit) handler" where
  "limited rt sv operation prefix identity hs request_id =
    h_bind (allow_auth_request rt operation (auth_rate_limit_key rt sv hs identity) request_id) (\<lambda>_.
    enforce_shared_rate_limit rt (prefix @ '':'' @ auth_rate_limit_key rt sv hs identity) request_id)"

definition enforce_login_ip_budget ::
    "'w api_runtime \<Rightarrow> auth_service \<Rightarrow> auth_operation \<Rightarrow> string \<Rightarrow> headers \<Rightarrow> string \<Rightarrow> ('w, unit) handler" where
  "enforce_login_ip_budget rt sv operation bucket_prefix hs request_id =
    h_bind (allow_auth_request rt operation (auth_client_key sv hs) request_id) (\<lambda>_.
    enforce_shared_rate_limit rt (bucket_prefix @ '':'' @ auth_client_key sv hs) request_id)"

subsection \<open>The audit of failures\<close>

definition log_login_failure ::
    "'w api_runtime \<Rightarrow> auth_service \<Rightarrow> headers \<Rightarrow> string \<Rightarrow> uuid option \<Rightarrow> uuid option \<Rightarrow> uuid option \<Rightarrow> string
      \<Rightarrow> string \<Rightarrow> string \<Rightarrow> ('w, unit) handler" where
  "log_login_failure rt sv hs email_normalized device_id actor subject reason source request_id =
    h_attempt rt (\<lambda>e _. record_auth_failure e actor subject ''auth.login_failed'' reason source
      (Some (ar_sha256_hex rt (utf8_bytes email_normalized))) device_id
      (Some (auth_client_hash rt sv hs)) request_id)"

definition log_refresh_failure ::
    "'w api_runtime \<Rightarrow> auth_service \<Rightarrow> headers \<Rightarrow> string \<Rightarrow> string \<Rightarrow> string \<Rightarrow> ('w, unit) handler" where
  "log_refresh_failure rt sv hs reason source request_id =
    h_attempt rt (\<lambda>e _. record_auth_failure e None None ''auth.refresh_failed'' reason source
      None None (Some (auth_client_hash rt sv hs)) request_id)"

subsection \<open>Responses\<close>

record auth_response =
  as_status :: int
  as_body :: json
  as_cookie :: "string option"

definition no_content :: auth_response where
  "no_content = \<lparr>as_status = 204, as_body = JNull, as_cookie = None\<rparr>"

fun decimal :: "nat \<Rightarrow> string" where
  "decimal n = (if n < 10 then [char_of (48 + n)] else decimal (n div 10) @ [char_of (48 + n mod 10)])"

text \<open>\<open>HeaderValue::from_str\<close>: visible ASCII, the blank and the tab.\<close>

definition header_value :: "string \<Rightarrow> string \<Rightarrow> string api" where
  "header_value v request_id =
    (if list_all (\<lambda>c. let n = of_char c :: nat in n = 9 \<or> (32 \<le> n \<and> n < 127)) v
     then Inr v else Inl (api_internal request_id))"

definition admin_refresh_cookie_header :: "string \<Rightarrow> int \<Rightarrow> string \<Rightarrow> string api" where
  "admin_refresh_cookie_header token max_age request_id =
    header_value (refresh_cookie ''tasktips_admin_refresh'' ''/api/v1/admin/auth'' token (decimal (nat max_age))) request_id"

definition web_refresh_cookie_header :: "string \<Rightarrow> int \<Rightarrow> string \<Rightarrow> string api" where
  "web_refresh_cookie_header token max_age request_id =
    header_value (refresh_cookie ''tasktips_web_refresh'' ''/api/v1/web/auth'' token (decimal (nat max_age))) request_id"

definition h_access_token ::
    "'w api_runtime \<Rightarrow> auth_service \<Rightarrow> session_record \<Rightarrow> string \<Rightarrow> ('w, string \<times> int) handler" where
  "h_access_token rt sv session request_id =
    h_auth (api_internal request_id) (\<lambda>n. issue_access_token sv (ar_clock rt n) (ar_uuid rt n 0) (u_id (ss_user session))
      (role_as_str (u_role (ss_user session))) (ss_device session))"

text \<open>An application gets the refresh token in the body, a browser in a cookie.\<close>

definition user_token_response ::
    "'w api_runtime \<Rightarrow> auth_service \<Rightarrow> session_record \<Rightarrow> string \<Rightarrow> string \<Rightarrow> ('w, auth_response) handler" where
  "user_token_response rt sv session refresh_token request_id =
    h_bind (h_access_token rt sv session request_id) (\<lambda>(token, expires_in).
    h_return \<lparr>as_status = 200, as_body = JObj [(''accessToken'', JStr token),
      (''refreshToken'', JStr refresh_token), (''expiresIn'', JNum expires_in)], as_cookie = None\<rparr>)"

definition cookie_token_response ::
    "(string \<Rightarrow> int \<Rightarrow> string \<Rightarrow> string api) \<Rightarrow> 'w api_runtime \<Rightarrow> auth_service \<Rightarrow> session_record \<Rightarrow> string \<Rightarrow> string
      \<Rightarrow> ('w, auth_response) handler" where
  "cookie_token_response cookie_header rt sv session refresh_token request_id =
    h_bind (h_access_token rt sv session request_id) (\<lambda>(token, expires_in).
    h_bind (h_check (cookie_header refresh_token (sv_refresh_ttl sv) request_id)) (\<lambda>cookie.
    h_return \<lparr>as_status = 200, as_body = JObj [(''accessToken'', JStr token), (''expiresIn'', JNum expires_in)],
      as_cookie = Some cookie\<rparr>))"

definition admin_token_response ::
    "'w api_runtime \<Rightarrow> auth_service \<Rightarrow> session_record \<Rightarrow> string \<Rightarrow> string \<Rightarrow> ('w, auth_response) handler" where
  "admin_token_response = cookie_token_response admin_refresh_cookie_header"

definition web_token_response ::
    "'w api_runtime \<Rightarrow> auth_service \<Rightarrow> session_record \<Rightarrow> string \<Rightarrow> string \<Rightarrow> ('w, auth_response) handler" where
  "web_token_response = cookie_token_response web_refresh_cookie_header"

subsection \<open>Login\<close>

record login_request =
  lr_email :: string
  lr_password :: string
  lr_device :: uuid

definition session_failure :: "persistence_error \<Rightarrow> string option" where
  "session_failure er =
    (if er = NotFound then Some ''unknown_user''
     else if er = AccountDisabled then Some ''account_disabled''
     else if er = DeviceRevoked then Some ''device_revoked'' else None)"

text \<open>
  The login of an account of a role: the budgets, the password (hashed in vain for an unknown
  address), the role, the status, then the session. Each refusal is audited with its reason and
  answered alike, but for a disabled account whose password was given.
\<close>

definition login_session ::
    "'w api_runtime \<Rightarrow> auth_service \<Rightarrow> auth_operation \<Rightarrow> string \<Rightarrow> string \<Rightarrow> string \<Rightarrow> headers \<Rightarrow> string
      \<Rightarrow> string \<Rightarrow> uuid \<Rightarrow> string \<Rightarrow> ('w, session_record \<times> string) handler" where
  "login_session rt sv operation ip_prefix source role hs email password device_id i =
    h_bind (enforce_login_ip_budget rt sv operation ip_prefix hs i) (\<lambda>_.
    h_bind (limited rt sv operation source email hs i) (\<lambda>_.
    h_bind (h_query rt (\<lambda>er. map_persistence er i) (\<lambda>s. Inr (find_login_user email s))) (\<lambda>user.
    case user of
      None \<Rightarrow>
        h_bind (h_auth (api_authentication i) (\<lambda>n. hash_password sv n password)) (\<lambda>_.
        h_bind (log_login_failure rt sv hs email (Some device_id) None None ''unknown_user'' source i) (\<lambda>_.
        h_fail (api_authentication i)))
    | Some u \<Rightarrow>
        (let refuse = (\<lambda>reason answer.
           h_bind (log_login_failure rt sv hs email (Some device_id) (Some (u_id u)) (Some (u_id u)) reason source i) (\<lambda>_.
           h_fail answer)) in
         if \<not> verify_password sv password (u_password_hash u) then refuse ''invalid_password'' (api_authentication i)
         else if role_as_str (u_role u) \<noteq> role then refuse ''wrong_role'' (api_authentication i)
         else if u_status u \<noteq> Active then refuse ''account_disabled'' (account_disabled i)
         else h_bind (h_refresh_token rt sv i) (\<lambda>(raw, refresh).
           h_bind (h_txn rt (\<lambda>e _. create_login_session e (u_id u) device_id refresh i)) (\<lambda>result.
           case result of
             Inr session \<Rightarrow> h_return (session, raw)
           | Inl er \<Rightarrow>
               (let answer = (if er = NotFound then api_authentication i else map_persistence er i) in
                case session_failure er of
                  None \<Rightarrow> h_fail answer
                | Some reason \<Rightarrow> refuse reason answer)))))))"

definition login_handler ::
    "'w api_runtime \<Rightarrow> auth_service \<Rightarrow> headers \<Rightarrow> login_request \<Rightarrow> ('w, auth_response) handler" where
  "login_handler rt sv hs request =
    (let i = request_id_of hs in
     h_bind (h_check (ok_or (normalize_email (lr_email request)) (api_invalid i))) (\<lambda>email.
     h_bind (h_check (services rt i)) (\<lambda>_.
     h_bind (login_session rt sv Login ''login-ip'' ''login'' ''user'' hs email (lr_password request) (lr_device request) i)
       (\<lambda>(session, raw). user_token_response rt sv session raw i))))"

definition admin_login_handler ::
    "'w api_runtime \<Rightarrow> auth_service \<Rightarrow> headers \<Rightarrow> login_request \<Rightarrow> ('w, auth_response) handler" where
  "admin_login_handler rt sv hs request =
    (let i = request_id_of hs in
     h_bind (h_check (validate_admin_origin rt hs i)) (\<lambda>_.
     h_bind (h_check (ok_or (normalize_email (lr_email request)) (api_invalid i))) (\<lambda>email.
     h_bind (h_check (services rt i)) (\<lambda>_.
     h_bind (login_session rt sv AdminLogin ''admin-login-ip'' ''admin_login'' ''system_admin'' hs email
               (lr_password request) (lr_device request) i)
       (\<lambda>(session, raw). admin_token_response rt sv session raw i)))))"

definition web_login_handler ::
    "'w api_runtime \<Rightarrow> auth_service \<Rightarrow> headers \<Rightarrow> login_request \<Rightarrow> ('w, auth_response) handler" where
  "web_login_handler rt sv hs request =
    (let i = request_id_of hs in
     h_bind (h_check (validate_web_origin rt hs i)) (\<lambda>_.
     h_bind (h_check (ok_or (normalize_email (lr_email request)) (api_invalid i))) (\<lambda>email.
     h_bind (h_check (services rt i)) (\<lambda>_.
     h_bind (login_session rt sv WebLogin ''web-login-ip'' ''web_login'' ''user'' hs email
               (lr_password request) (lr_device request) i)
       (\<lambda>(session, raw). web_token_response rt sv session raw i)))))"

subsection \<open>Refresh\<close>

text \<open>A reuse is audited by the transaction itself.\<close>

definition refresh_failure :: "persistence_error \<Rightarrow> string option" where
  "refresh_failure er =
    (if er = RefreshTokenReuse then None
     else if er = AccountDisabled then Some ''account_disabled''
     else if er = DeviceRevoked then Some ''device_revoked'' else Some ''invalid_token'')"

definition refresh_session ::
    "'w api_runtime \<Rightarrow> auth_service \<Rightarrow> auth_operation \<Rightarrow> string \<Rightarrow> string \<Rightarrow> string \<Rightarrow> headers
      \<Rightarrow> string option \<Rightarrow> string \<Rightarrow> ('w, session_record \<times> string) handler" where
  "refresh_session rt sv operation identity source role hs token i =
    h_bind (limited rt sv operation source identity hs i) (\<lambda>_.
    case token of
      None \<Rightarrow>
        h_bind (log_refresh_failure rt sv hs ''invalid_token'' source i) (\<lambda>_. h_fail (api_authentication i))
    | Some refresh_token \<Rightarrow>
        h_bind (h_refresh_token rt sv i) (\<lambda>(raw, replacement).
        h_bind (h_txn rt (\<lambda>e _. rotate_refresh_token_for_role e (opaque_token_hash sv refresh_token) replacement role i)) (\<lambda>result.
        case result of
          Inr session \<Rightarrow> h_return (session, raw)
        | Inl er \<Rightarrow>
            h_bind (case refresh_failure er of
                      None \<Rightarrow> h_return ()
                    | Some reason \<Rightarrow> log_refresh_failure rt sv hs reason source i) (\<lambda>_.
            h_fail (map_persistence er i)))))"

definition refresh_handler ::
    "'w api_runtime \<Rightarrow> auth_service \<Rightarrow> headers \<Rightarrow> string \<Rightarrow> ('w, auth_response) handler" where
  "refresh_handler rt sv hs refresh_token =
    (let i = request_id_of hs in
     h_bind (h_check (services rt i)) (\<lambda>_.
     h_bind (refresh_session rt sv Refresh ''refresh'' ''refresh'' ''user'' hs
               (if refresh_token = [] then None else Some refresh_token) i)
       (\<lambda>(session, raw). user_token_response rt sv session raw i)))"

definition admin_refresh_handler ::
    "'w api_runtime \<Rightarrow> auth_service \<Rightarrow> headers \<Rightarrow> ('w, auth_response) handler" where
  "admin_refresh_handler rt sv hs =
    (let i = request_id_of hs in
     h_bind (h_check (validate_admin_origin rt hs i)) (\<lambda>_.
     h_bind (h_check (services rt i)) (\<lambda>_.
     h_bind (refresh_session rt sv AdminRefresh ''admin-refresh'' ''admin_refresh'' ''system_admin'' hs
               (cookie_value hs ''tasktips_admin_refresh'') i)
       (\<lambda>(session, raw). admin_token_response rt sv session raw i))))"

definition web_refresh_handler ::
    "'w api_runtime \<Rightarrow> auth_service \<Rightarrow> headers \<Rightarrow> ('w, auth_response) handler" where
  "web_refresh_handler rt sv hs =
    (let i = request_id_of hs in
     h_bind (h_check (validate_web_origin rt hs i)) (\<lambda>_.
     h_bind (h_check (services rt i)) (\<lambda>_.
     h_bind (refresh_session rt sv WebRefresh ''web-refresh'' ''web_refresh'' ''user'' hs
               (cookie_value hs ''tasktips_web_refresh'') i)
       (\<lambda>(session, raw). web_token_response rt sv session raw i))))"

subsection \<open>Logout\<close>

definition logout_handler :: "'w api_runtime \<Rightarrow> headers \<Rightarrow> ('w, auth_response) handler" where
  "logout_handler rt hs =
    (let i = request_id_of hs in
     h_bind (authenticate rt hs i) (\<lambda>claims.
     h_bind (h_db rt (\<lambda>er. map_persistence er i) (\<lambda>e _. logout_device e (ac_sub claims) (ac_device claims) i)) (\<lambda>_.
     h_return no_content)))"

definition admin_logout_handler :: "'w api_runtime \<Rightarrow> headers \<Rightarrow> ('w, auth_response) handler" where
  "admin_logout_handler rt hs =
    (let i = request_id_of hs in
     h_bind (h_check (validate_admin_origin rt hs i)) (\<lambda>_.
     h_bind (authenticate_admin rt hs i) (\<lambda>claims.
     h_bind (h_check (check (cookie_value hs ''tasktips_admin_refresh'' \<noteq> None) (api_authentication i))) (\<lambda>_.
     h_bind (h_db rt (\<lambda>er. map_persistence er i) (\<lambda>e _. logout_device e (ac_sub claims) (ac_device claims) i)) (\<lambda>_.
     h_bind (h_db rt (\<lambda>er. map_persistence er i) (\<lambda>_ _. revoke_reauth_nonces (ac_sub claims) (ac_device claims))) (\<lambda>_.
     h_bind (h_check (admin_refresh_cookie_header [] 0 i)) (\<lambda>cookie.
     h_return (no_content\<lparr>as_cookie := Some cookie\<rparr>))))))))"

text \<open>A browser logs out by its refresh cookie alone, also when the session is over.\<close>

definition web_logout_handler :: "'w api_runtime \<Rightarrow> auth_service \<Rightarrow> headers \<Rightarrow> ('w, auth_response) handler" where
  "web_logout_handler rt sv hs =
    (let i = request_id_of hs in
     h_bind (h_check (validate_web_origin rt hs i)) (\<lambda>_.
     h_bind (h_check (services rt i)) (\<lambda>_.
     h_bind (limited rt sv WebLogout ''web_logout'' ''web-logout'' hs i) (\<lambda>_.
     h_bind (case cookie_value hs ''tasktips_web_refresh'' of
         None \<Rightarrow> h_return ()
       | Some refresh_token \<Rightarrow>
           h_db rt (\<lambda>er. map_persistence er i)
             (\<lambda>e _. logout_device_by_refresh_token e (opaque_token_hash sv refresh_token) i)) (\<lambda>_.
     h_bind (h_check (web_refresh_cookie_header [] 0 i)) (\<lambda>cookie.
     h_return (no_content\<lparr>as_cookie := Some cookie\<rparr>)))))))"

subsection \<open>Re-authentication\<close>

record reauth_response =
  ra_nonce :: string
  ra_expires_in :: int

definition admin_reauth_handler ::
    "'w api_runtime \<Rightarrow> auth_service \<Rightarrow> headers \<Rightarrow> string \<Rightarrow> ('w, reauth_response) handler" where
  "admin_reauth_handler rt sv hs password =
    (let i = request_id_of hs in
     h_bind (h_check (validate_admin_origin rt hs i)) (\<lambda>_.
     h_bind (h_check (services rt i)) (\<lambda>_.
     h_bind (authenticate_admin rt hs i) (\<lambda>claims.
     h_bind (limited rt sv AdminReauth ''admin_reauth'' ''admin-reauth'' hs i) (\<lambda>_.
     h_bind (h_query rt (\<lambda>er. map_persistence er i) (current_user (ac_sub claims))) (\<lambda>user.
     if \<not> verify_password sv password (u_password_hash user)
     then h_bind (h_attempt rt (\<lambda>e _. record_auth_failure e (Some (ac_sub claims)) (Some (ac_sub claims))
            ''auth.reauth_failed'' ''invalid_password'' ''admin_reauth'' None (Some (ac_device claims))
            (Some (auth_client_hash rt sv hs)) i)) (\<lambda>_. h_fail (api_authentication i))
     else h_bind (h_auth (api_internal i) (random_opaque_token sv)) (\<lambda>(raw, nonce_hash).
       h_bind (h_db rt (\<lambda>er. map_persistence er i) (\<lambda>e _. create_reauth_nonce e (ac_sub claims) (ac_device claims)
                 nonce_hash (app_now e + seconds reauth_nonce_ttl))) (\<lambda>_.
       h_return \<lparr>ra_nonce = raw, ra_expires_in = reauth_nonce_ttl\<rparr>))))))))"

subsection \<open>Invitations and registration\<close>

record activation_request =
  at_token :: string
  at_password :: string
  at_device :: uuid

definition activation_error :: "string \<Rightarrow> persistence_error \<Rightarrow> api_error" where
  "activation_error i er =
    (if er = InvalidInvitation \<or> er = NotFound \<or> er = DeviceRevoked then api_invalid i else map_persistence er i)"

definition activation_session ::
    "'w api_runtime \<Rightarrow> auth_service \<Rightarrow> auth_operation \<Rightarrow> string \<Rightarrow> string \<Rightarrow> headers \<Rightarrow> activation_request
      \<Rightarrow> string \<Rightarrow> ('w, session_record \<times> string) handler" where
  "activation_session rt sv operation prefix identity hs request i =
    h_bind (limited rt sv operation prefix identity hs i) (\<lambda>_.
    h_bind (h_check (check (valid_password (at_password request)) (api_invalid i))) (\<lambda>_.
    h_bind (h_auth (api_internal i) (\<lambda>n. hash_password sv n (at_password request))) (\<lambda>password_hash.
    h_bind (h_refresh_token rt sv i) (\<lambda>(raw, refresh).
    h_bind (h_db rt (activation_error i) (\<lambda>e _. activate_invitation e (opaque_token_hash sv (at_token request))
              password_hash (at_device request) refresh i)) (\<lambda>session.
    h_return (session, raw))))))"

definition activate_invitation_handler ::
    "'w api_runtime \<Rightarrow> auth_service \<Rightarrow> headers \<Rightarrow> activation_request \<Rightarrow> ('w, auth_response) handler" where
  "activate_invitation_handler rt sv hs request =
    (let i = request_id_of hs in
     h_bind (h_check (services rt i)) (\<lambda>_.
     h_bind (activation_session rt sv InvitationActivation ''invitation_activation'' ''invitation'' hs request i)
       (\<lambda>(session, raw). user_token_response rt sv session raw i)))"

definition web_activate_invitation_handler ::
    "'w api_runtime \<Rightarrow> auth_service \<Rightarrow> headers \<Rightarrow> activation_request \<Rightarrow> ('w, auth_response) handler" where
  "web_activate_invitation_handler rt sv hs request =
    (let i = request_id_of hs in
     h_bind (h_check (validate_web_origin rt hs i)) (\<lambda>_.
     h_bind (h_check (services rt i)) (\<lambda>_.
     h_bind (activation_session rt sv WebInvitationActivation ''web_invitation_activation'' ''web-invitation'' hs request i)
       (\<lambda>(session, raw). web_token_response rt sv session raw i))))"

definition register_handler ::
    "'w api_runtime \<Rightarrow> auth_service \<Rightarrow> headers \<Rightarrow> string \<Rightarrow> string \<Rightarrow> ('w, auth_response) handler" where
  "register_handler rt sv hs requested_email password =
    (let i = request_id_of hs in
     h_bind (h_check (ok_or (normalize_email requested_email) (api_invalid i))) (\<lambda>email.
     h_bind (h_check (services rt i)) (\<lambda>_.
     h_bind (limited rt sv Register ''register'' email hs i) (\<lambda>_.
     h_bind (enforce_shared_rate_limit_windowed rt (''register-hourly:'' @ auth_rate_limit_key rt sv hs ''registration'')
               10 3600 i) (\<lambda>_.
     h_bind (h_query rt (\<lambda>er. map_persistence er i) (\<lambda>s. Inr (registration_enabled s))) (\<lambda>enabled.
     h_bind (h_check (check enabled (api_error_new 403 ''REGISTRATION_DISABLED'' False i))) (\<lambda>_.
     h_bind (h_check (check (valid_password password) (api_invalid i))) (\<lambda>_.
     h_bind (h_auth (api_internal i) (\<lambda>n. hash_password sv n password)) (\<lambda>password_hash.
     h_bind (h_txn rt (\<lambda>e ids. register_user e (ids 0) email (trim requested_email) password_hash i)) (\<lambda>result.
     case result of
       Inl er \<Rightarrow> if er = Conflict then h_return \<lparr>as_status = 201, as_body = JObj [], as_cookie = None\<rparr>
                 else h_fail (map_persistence er i)
     | Inr _ \<Rightarrow> h_return \<lparr>as_status = 201, as_body = JObj [], as_cookie = None\<rparr>))))))))))"

definition registration_status_handler :: "'w api_runtime \<Rightarrow> headers \<Rightarrow> ('w, bool) handler" where
  "registration_status_handler rt hs =
    (let i = request_id_of hs in
     h_bind (h_check (check (ar_has_database rt) (api_unavailable i))) (\<lambda>_.
     h_query rt (\<lambda>er. map_persistence er i) (\<lambda>s. Inr (registration_enabled s))))"

subsection \<open>The account of the caller\<close>

definition current_user_handler :: "'w api_runtime \<Rightarrow> headers \<Rightarrow> ('w, user_row) handler" where
  "current_user_handler rt hs =
    (let i = request_id_of hs in
     h_bind (authenticate rt hs i) (\<lambda>claims.
     h_bind (h_query rt (\<lambda>er. map_persistence er i) (current_user (ac_sub claims))) (\<lambda>user.
     h_return (user\<lparr>u_password_hash := []\<rparr>))))"

definition change_password_handler ::
    "'w api_runtime \<Rightarrow> auth_service \<Rightarrow> headers \<Rightarrow> string \<Rightarrow> string \<Rightarrow> ('w, auth_response) handler" where
  "change_password_handler rt sv hs current_password new_password =
    (let i = request_id_of hs in
     h_bind (h_check (check (valid_password new_password) (api_invalid i))) (\<lambda>_.
     h_bind (authenticate rt hs i) (\<lambda>claims.
     h_bind (h_query rt (\<lambda>er. map_persistence er i) (current_user (ac_sub claims))) (\<lambda>user.
     h_bind (h_check (check (verify_password sv current_password (u_password_hash user)) (api_authentication i))) (\<lambda>_.
     h_bind (h_auth (api_internal i) (\<lambda>n. hash_password sv n new_password)) (\<lambda>password_hash.
     h_bind (h_db rt (\<lambda>er. map_persistence er i) (\<lambda>e _. change_password e (ac_sub claims) password_hash)) (\<lambda>_.
     h_return no_content)))))))"

end
