(* ===== verification/Api_Account.thy ===== *)
theory Api_Account
  imports Api_Auth Projects Admin
begin

text \<open>
  The endpoints an account has for its projects and devices (\<open>crates/api/src/routes.rs\<close>): the
  lists, creation, renaming, disabling and deletion of projects, registration, renaming and
  revocation of devices. Each authenticates an ordinary user first and passes the user's id to
  the persistence layer.
\<close>

subsection \<open>Projects\<close>

definition list_projects_handler :: "'w api_runtime \<Rightarrow> headers \<Rightarrow> ('w, project_row list) handler" where
  "list_projects_handler rt hs =
    (let i = request_id_of hs in
     h_bind (authenticate rt hs i) (\<lambda>claims.
     h_query rt (\<lambda>er. map_persistence er i) (\<lambda>s. Inr (list_projects (ac_sub claims) s))))"

definition create_project_handler :: "'w api_runtime \<Rightarrow> headers \<Rightarrow> string \<Rightarrow> ('w, project_row) handler" where
  "create_project_handler rt hs requested_name =
    (let i = request_id_of hs in
     h_bind (h_check (valid_text requested_name 128 i)) (\<lambda>name.
     h_bind (authenticate rt hs i) (\<lambda>claims.
     h_db rt (\<lambda>er. map_persistence er i) (\<lambda>e ids. create_project e (ids 0) (ac_sub claims) name))))"

definition get_project_handler :: "'w api_runtime \<Rightarrow> headers \<Rightarrow> uuid \<Rightarrow> ('w, project_row) handler" where
  "get_project_handler rt hs project_id =
    (let i = request_id_of hs in
     h_bind (authenticate rt hs i) (\<lambda>claims.
     h_query rt (\<lambda>er. map_project_error er i) (get_project (ac_sub claims) project_id)))"

definition rename_project_handler :: "'w api_runtime \<Rightarrow> headers \<Rightarrow> uuid \<Rightarrow> string \<Rightarrow> ('w, project_row) handler" where
  "rename_project_handler rt hs project_id requested_name =
    (let i = request_id_of hs in
     h_bind (h_check (valid_text requested_name 128 i)) (\<lambda>name.
     h_bind (authenticate rt hs i) (\<lambda>claims.
     h_db rt (\<lambda>er. map_project_error er i) (\<lambda>e _. rename_project e (ac_sub claims) project_id name))))"

definition disable_project_handler :: "'w api_runtime \<Rightarrow> headers \<Rightarrow> uuid \<Rightarrow> ('w, project_row) handler" where
  "disable_project_handler rt hs project_id =
    (let i = request_id_of hs in
     h_bind (authenticate rt hs i) (\<lambda>claims.
     h_db rt (\<lambda>er. map_project_error er i) (\<lambda>e _. disable_project e (ac_sub claims) project_id)))"

text \<open>Deleting a project asks for the password once more.\<close>

definition purge_project_handler ::
    "'w api_runtime \<Rightarrow> auth_service \<Rightarrow> headers \<Rightarrow> uuid \<Rightarrow> string \<Rightarrow> string \<Rightarrow> ('w, job_row) handler" where
  "purge_project_handler rt sv hs project_id password requested_reason =
    (let i = request_id_of hs in
     h_bind (h_check (valid_text requested_reason 512 i)) (\<lambda>reason.
     h_bind (authenticate rt hs i) (\<lambda>claims.
     h_bind (allow_auth_request rt PurgeOperation (ac_sub claims @ '':'' @ auth_rate_limit_key rt sv hs ''purge'') i) (\<lambda>_.
     h_bind (enforce_shared_rate_limit rt (''purge:'' @ ac_sub claims) i) (\<lambda>_.
     h_bind (h_query rt (\<lambda>er. map_persistence er i) (current_user (ac_sub claims))) (\<lambda>user.
     h_bind (h_check (check (verify_password sv password (u_password_hash user)) (api_authentication i))) (\<lambda>_.
     h_db rt (\<lambda>er. map_project_error er i) (\<lambda>e ids. enqueue_project_purge e (ids 0) (ac_sub claims) project_id reason i))))))))"

subsection \<open>Devices\<close>

definition list_devices_handler :: "'w api_runtime \<Rightarrow> headers \<Rightarrow> ('w, device_row list) handler" where
  "list_devices_handler rt hs =
    (let i = request_id_of hs in
     h_bind (authenticate rt hs i) (\<lambda>claims.
     h_query rt (\<lambda>er. map_persistence er i) (\<lambda>s. Inr (list_devices (ac_sub claims) s))))"

record register_device_request =
  rd_device :: uuid
  rd_display_name :: string
  rd_platform :: string
  rd_app_version :: string

text \<open>A device registers itself only.\<close>

definition register_device_handler ::
    "'w api_runtime \<Rightarrow> headers \<Rightarrow> register_device_request \<Rightarrow> ('w, device_row) handler" where
  "register_device_handler rt hs request =
    (let i = request_id_of hs in
     h_bind (h_check (valid_text (rd_display_name request) 128 i)) (\<lambda>display_name.
     h_bind (h_check (valid_text (rd_platform request) 64 i)) (\<lambda>platform.
     h_bind (h_check (valid_text (rd_app_version request) 64 i)) (\<lambda>app_version.
     h_bind (authenticate rt hs i) (\<lambda>claims.
     h_bind (h_check (check (ac_device claims = rd_device request) (api_authorization i))) (\<lambda>_.
     h_db rt (\<lambda>er. map_persistence er i) (\<lambda>e _. register_device e (ac_sub claims) (rd_device request)
       \<lparr>dp_display_name = display_name, dp_platform = platform, dp_app_version = app_version\<rparr>)))))))"

definition update_device_handler :: "'w api_runtime \<Rightarrow> headers \<Rightarrow> uuid \<Rightarrow> string \<Rightarrow> ('w, device_row) handler" where
  "update_device_handler rt hs device_id requested_name =
    (let i = request_id_of hs in
     h_bind (h_check (valid_text requested_name 128 i)) (\<lambda>display_name.
     h_bind (authenticate rt hs i) (\<lambda>claims.
     h_db rt (\<lambda>er. map_persistence er i) (\<lambda>_ _. update_device (ac_sub claims) device_id display_name))))"

definition revoke_device_handler :: "'w api_runtime \<Rightarrow> headers \<Rightarrow> uuid \<Rightarrow> ('w, device_row) handler" where
  "revoke_device_handler rt hs device_id =
    (let i = request_id_of hs in
     h_bind (authenticate rt hs i) (\<lambda>claims.
     h_db rt (\<lambda>er. map_persistence er i) (\<lambda>e _. revoke_device e (ac_sub claims) device_id i)))"

end
