(* ===== verification/Api_Admin.thy ===== *)
theory Api_Admin
  imports Api_Account Api_Sync
begin

text \<open>
  The endpoints of administrators (\<open>crates/api/src/routes.rs\<close>): invitations and accounts,
  registration settings, the paged lists, restores on behalf of an account, the audit trail and
  its CSV, and the two phases of an account's deletion behind a re-authentication nonce. Every
  endpoint that changes something checks the origin of the request before it authenticates.
\<close>

subsection \<open>Pages\<close>

record 'r listing =
  ls_items :: "'r list"
  ls_has_more :: bool
  ls_next_offset :: "int option"
  ls_limit :: int
  ls_offset :: int

definition listing_of :: "int \<Rightarrow> int \<Rightarrow> 'r list \<times> bool \<Rightarrow> 'r listing" where
  "listing_of limit offset page = (case page of (items, has_more) \<Rightarrow>
     \<lparr>ls_items = items, ls_has_more = has_more,
      ls_next_offset = (if has_more then Some (i64_saturating_add offset limit) else None),
      ls_limit = limit, ls_offset = offset\<rparr>)"

text \<open>The shape the list endpoints share: bounds, a further check, authentication, the query.\<close>

definition admin_listing ::
    "'w api_runtime \<Rightarrow> headers \<Rightarrow> int option \<Rightarrow> int option \<Rightarrow> 'f api
      \<Rightarrow> ('f \<Rightarrow> env \<Rightarrow> uuid \<Rightarrow> int \<Rightarrow> int \<Rightarrow> ('r list \<times> bool) txn) \<Rightarrow> ('w, 'r listing) handler" where
  "admin_listing rt hs requested_limit requested_offset checked query =
    (let i = request_id_of hs in
     h_bind (h_check (admin_page_bounds requested_limit requested_offset i)) (\<lambda>(limit, offset).
     h_bind (h_check checked) (\<lambda>f.
     h_bind (authenticate_admin rt hs i) (\<lambda>claims.
     h_bind (h_db rt (\<lambda>er. map_persistence er i) (\<lambda>e _. query f e (ac_sub claims) limit offset)) (\<lambda>page.
     h_return (listing_of limit offset page))))))"

definition admin_list_invitations_handler ::
    "'w api_runtime \<Rightarrow> headers \<Rightarrow> int option \<Rightarrow> int option \<Rightarrow> ('w, admin_invitation_record listing) handler" where
  "admin_list_invitations_handler rt hs limit offset =
    admin_listing rt hs limit offset (Inr ()) (\<lambda>_ e. admin_list_invitations_page e)"

definition admin_list_users_handler ::
    "'w api_runtime \<Rightarrow> headers \<Rightarrow> int option \<Rightarrow> int option \<Rightarrow> ('w, user_row listing) handler" where
  "admin_list_users_handler rt hs limit offset =
    admin_listing rt hs limit offset (Inr ()) (\<lambda>_ _. admin_list_users_page)"

definition admin_list_all_projects_handler ::
    "'w api_runtime \<Rightarrow> headers \<Rightarrow> int option \<Rightarrow> int option \<Rightarrow> string option \<Rightarrow> ('w, project_row listing) handler" where
  "admin_list_all_projects_handler rt hs limit offset search =
    admin_listing rt hs limit offset (search_term search (request_id_of hs))
      (\<lambda>t _ actor l off. admin_list_all_projects_page actor l off (map_option like_pattern_literal t))"

definition admin_list_all_devices_handler ::
    "'w api_runtime \<Rightarrow> headers \<Rightarrow> int option \<Rightarrow> int option \<Rightarrow> ('w, device_row listing) handler" where
  "admin_list_all_devices_handler rt hs limit offset =
    admin_listing rt hs limit offset (Inr ()) (\<lambda>_ _. admin_list_all_devices_page)"

definition admin_list_projects_handler ::
    "'w api_runtime \<Rightarrow> headers \<Rightarrow> uuid \<Rightarrow> int option \<Rightarrow> int option \<Rightarrow> ('w, project_row listing) handler" where
  "admin_list_projects_handler rt hs user_id limit offset =
    admin_listing rt hs limit offset (Inr ()) (\<lambda>_ _ actor. admin_list_projects_page actor user_id)"

definition admin_list_devices_handler ::
    "'w api_runtime \<Rightarrow> headers \<Rightarrow> uuid \<Rightarrow> int option \<Rightarrow> int option \<Rightarrow> ('w, device_row listing) handler" where
  "admin_list_devices_handler rt hs user_id limit offset =
    admin_listing rt hs limit offset (Inr ()) (\<lambda>_ _ actor. admin_list_devices_page actor user_id)"

definition admin_operations_handler ::
    "'w api_runtime \<Rightarrow> headers \<Rightarrow> int option \<Rightarrow> int option \<Rightarrow> ('w, admin_operation_record listing) handler" where
  "admin_operations_handler rt hs limit offset =
    admin_listing rt hs limit offset (Inr ()) (\<lambda>_ _. admin_list_operations_page)"

definition admin_audit_events_handler ::
    "'w api_runtime \<Rightarrow> headers \<Rightarrow> int option \<Rightarrow> int option \<Rightarrow> string option \<Rightarrow> ('w, audit_row listing) handler" where
  "admin_audit_events_handler rt hs limit offset action =
    admin_listing rt hs limit offset (valid_audit_action_filter action (request_id_of hs))
      (\<lambda>action_filter _ actor l off. admin_list_audit_events_page_filtered actor l off action_filter)"

definition admin_overview_handler :: "'w api_runtime \<Rightarrow> headers \<Rightarrow> ('w, admin_overview_record) handler" where
  "admin_overview_handler rt hs =
    (let i = request_id_of hs in
     h_bind (authenticate_admin rt hs i) (\<lambda>claims.
     h_db rt (\<lambda>er. map_persistence er i) (\<lambda>_ _. admin_overview (ac_sub claims))))"

record admin_history_page =
  hp_items :: "admin_history_record list"
  hp_has_more :: bool
  hp_next_sequence :: "int option"

definition admin_history_handler ::
    "'w api_runtime \<Rightarrow> headers \<Rightarrow> uuid \<Rightarrow> int option \<Rightarrow> int option \<Rightarrow> ('w, admin_history_page) handler" where
  "admin_history_handler rt hs project_id requested_limit after_sequence =
    (let i = request_id_of hs; after = (case after_sequence of None \<Rightarrow> 0 | Some n \<Rightarrow> n) in
     h_bind (h_check (valid_limit requested_limit 200 1000 i)) (\<lambda>limit.
     h_bind (h_check (check (\<not> after < 0) (api_invalid i))) (\<lambda>_.
     h_bind (authenticate_admin rt hs i) (\<lambda>claims.
     h_bind (h_db rt (\<lambda>er. map_project_error er i) (\<lambda>_ _. admin_history_metadata (ac_sub claims) project_id after limit))
       (\<lambda>(items, has_more).
     h_return \<lparr>hp_items = items, hp_has_more = has_more,
       hp_next_sequence = (if has_more \<and> items \<noteq> [] then Some (ah_sequence (last items)) else None)\<rparr>)))))"

subsection \<open>The CSV of the audit trail\<close>

text \<open>
  \<open>au_ids\<close> is the identity column of the rows and \<open>show_time\<close> the \<open>Display\<close> of \<open>OffsetDateTime\<close>;
  the CSV has at most the 200 most recent events.
\<close>

definition csv_optional_uuid :: "uuid option \<Rightarrow> string" where
  "csv_optional_uuid v = (case v of None \<Rightarrow> [] | Some u \<Rightarrow> u)"

definition csv_header :: string where
  "csv_header = ''id,action,actorUserId,subjectUserId,projectId,requestId,createdAt'' @ [CHR 0x0A]"

definition audit_fields :: "(audit_row \<Rightarrow> string) \<Rightarrow> (instant \<Rightarrow> string) \<Rightarrow> audit_row \<Rightarrow> string list" where
  "audit_fields au_ids show_time a =
    [au_ids a, csv_field (au_action a), csv_optional_uuid (au_actor a), csv_optional_uuid (au_subject a),
     csv_optional_uuid (au_project a), csv_field (case au_request_id a of None \<Rightarrow> [] | Some r \<Rightarrow> r),
     csv_field (show_time (au_created_at a))]"

fun join_fields :: "string list \<Rightarrow> string" where
  "join_fields [] = []"
| "join_fields [f] = f"
| "join_fields (f # g # fs) = f @ '','' @ join_fields (g # fs)"

definition audit_csv :: "(audit_row \<Rightarrow> string) \<Rightarrow> (instant \<Rightarrow> string) \<Rightarrow> audit_row list \<Rightarrow> string" where
  "audit_csv au_ids show_time events =
    csv_header @ concat (map (\<lambda>a. join_fields (audit_fields au_ids show_time a) @ [CHR 0x0A]) events)"

definition admin_audit_events_csv_handler ::
    "(audit_row \<Rightarrow> string) \<Rightarrow> (instant \<Rightarrow> string) \<Rightarrow> 'w api_runtime \<Rightarrow> headers \<Rightarrow> string option \<Rightarrow> ('w, string) handler" where
  "admin_audit_events_csv_handler au_ids show_time rt hs action =
    (let i = request_id_of hs in
     h_bind (h_check (valid_audit_action_filter action i)) (\<lambda>action_filter.
     h_bind (authenticate_admin rt hs i) (\<lambda>claims.
     h_bind (h_db rt (\<lambda>er. map_persistence er i)
              (\<lambda>_ _. admin_list_audit_events_page_filtered (ac_sub claims) 200 0 action_filter)) (\<lambda>(events, _).
     h_return (audit_csv au_ids show_time events)))))"

subsection \<open>Invitations and accounts\<close>

record invitation_response =
  ir_invitation :: uuid
  ir_email :: string
  ir_token :: string
  ir_invitation_expires_at :: instant

definition invitation_response_of :: "invitation_record \<Rightarrow> string \<Rightarrow> invitation_response" where
  "invitation_response_of record token =
    \<lparr>ir_invitation = ic_id record, ir_email = ic_email record, ir_token = token,
     ir_invitation_expires_at = ic_expires_at record\<rparr>"

definition create_invitation_handler ::
    "'w api_runtime \<Rightarrow> auth_service \<Rightarrow> headers \<Rightarrow> string \<Rightarrow> ('w, invitation_response) handler" where
  "create_invitation_handler rt sv hs requested_email =
    (let i = request_id_of hs in
     h_bind (h_check (validate_admin_origin rt hs i)) (\<lambda>_.
     h_bind (h_check (ok_or (normalize_email requested_email) (api_invalid i))) (\<lambda>email.
     h_bind (authenticate_admin rt hs i) (\<lambda>claims.
     h_bind (h_auth (api_internal i) (random_opaque_token sv)) (\<lambda>(raw, token_hash).
     h_bind (h_db rt (\<lambda>er. map_persistence er i) (\<lambda>e ids. create_invitation e (ids 0) (ids 1) (ac_sub claims)
              \<lparr>ni_email_normalized = email, ni_email_display = trim requested_email, ni_hash = token_hash,
               ni_expires_at = invitation_expiry e\<rparr> i)) (\<lambda>record.
     h_return (invitation_response_of record raw)))))))"

definition admin_revoke_invitation_handler ::
    "'w api_runtime \<Rightarrow> headers \<Rightarrow> uuid \<Rightarrow> string \<Rightarrow> ('w, auth_response) handler" where
  "admin_revoke_invitation_handler rt hs invitation_id requested_reason =
    (let i = request_id_of hs in
     h_bind (h_check (validate_admin_origin rt hs i)) (\<lambda>_.
     h_bind (h_check (valid_text requested_reason 500 i)) (\<lambda>reason.
     h_bind (authenticate_admin rt hs i) (\<lambda>claims.
     h_bind (h_db rt (\<lambda>er. map_persistence er i) (\<lambda>e _. admin_revoke_invitation e (ac_sub claims) invitation_id reason i)) (\<lambda>_.
     h_return no_content)))))"

definition admin_resend_invitation_handler ::
    "'w api_runtime \<Rightarrow> auth_service \<Rightarrow> headers \<Rightarrow> uuid \<Rightarrow> ('w, invitation_response) handler" where
  "admin_resend_invitation_handler rt sv hs invitation_id =
    (let i = request_id_of hs in
     h_bind (h_check (validate_admin_origin rt hs i)) (\<lambda>_.
     h_bind (authenticate_admin rt hs i) (\<lambda>claims.
     h_bind (h_auth (api_internal i) (random_opaque_token sv)) (\<lambda>(raw, token_hash).
     h_bind (h_db rt (\<lambda>er. map_persistence er i) (\<lambda>e _. admin_resend_invitation e (ac_sub claims) invitation_id
              token_hash (invitation_expiry e) i)) (\<lambda>record.
     h_return (invitation_response_of record raw))))))"

definition admin_create_user_handler ::
    "'w api_runtime \<Rightarrow> auth_service \<Rightarrow> headers \<Rightarrow> string \<Rightarrow> string \<Rightarrow> ('w, user_row) handler" where
  "admin_create_user_handler rt sv hs requested_email password =
    (let i = request_id_of hs in
     h_bind (h_check (validate_admin_origin rt hs i)) (\<lambda>_.
     h_bind (h_check (ok_or (normalize_email requested_email) (api_invalid i))) (\<lambda>email.
     h_bind (authenticate_admin rt hs i) (\<lambda>claims.
     h_bind (h_check (check (valid_password password) (api_invalid i))) (\<lambda>_.
     h_bind (h_auth (api_internal i) (\<lambda>n. hash_password sv n password)) (\<lambda>password_hash.
     h_bind (h_db rt (\<lambda>er. if er = Conflict then api_error_new 409 ''EMAIL_REGISTERED'' False i else map_persistence er i)
              (\<lambda>e ids. admin_create_user e (ids 0) (ac_sub claims) email (trim requested_email) password_hash i)) (\<lambda>user.
     h_return (without_password user))))))))"

definition get_registration_settings_handler :: "'w api_runtime \<Rightarrow> headers \<Rightarrow> ('w, bool) handler" where
  "get_registration_settings_handler rt hs =
    (let i = request_id_of hs in
     h_bind (authenticate_admin rt hs i) (\<lambda>_.
     h_query rt (\<lambda>er. map_persistence er i) (\<lambda>s. Inr (registration_enabled s))))"

definition update_registration_settings_handler :: "'w api_runtime \<Rightarrow> headers \<Rightarrow> bool \<Rightarrow> ('w, bool) handler" where
  "update_registration_settings_handler rt hs enabled =
    (let i = request_id_of hs in
     h_bind (h_check (validate_admin_origin rt hs i)) (\<lambda>_.
     h_bind (authenticate_admin rt hs i) (\<lambda>claims.
     h_db rt (\<lambda>er. map_persistence er i) (\<lambda>e _. set_registration_enabled e (ac_sub claims) enabled i))))"

text \<open>An administrator cannot disable the account of the request.\<close>

definition set_account_status_handler ::
    "account_status \<Rightarrow> 'w api_runtime \<Rightarrow> headers \<Rightarrow> uuid \<Rightarrow> string \<Rightarrow> ('w, auth_response) handler" where
  "set_account_status_handler status rt hs user_id requested_reason =
    (let i = request_id_of hs in
     h_bind (h_check (validate_admin_origin rt hs i)) (\<lambda>_.
     h_bind (h_check (valid_text requested_reason 500 i)) (\<lambda>reason.
     h_bind (authenticate_admin rt hs i) (\<lambda>claims.
     if ac_sub claims = user_id \<and> status \<noteq> Active then h_fail (api_invalid i)
     else h_bind (h_db rt (\<lambda>er. map_persistence er i)
              (\<lambda>e _. admin_set_account_status e (ac_sub claims) user_id status reason i)) (\<lambda>_.
       h_return no_content)))))"

definition disable_account_handler ::
    "'w api_runtime \<Rightarrow> headers \<Rightarrow> uuid \<Rightarrow> string \<Rightarrow> ('w, auth_response) handler" where
  "disable_account_handler = set_account_status_handler Disabled"

definition enable_account_handler ::
    "'w api_runtime \<Rightarrow> headers \<Rightarrow> uuid \<Rightarrow> string \<Rightarrow> ('w, auth_response) handler" where
  "enable_account_handler = set_account_status_handler Active"

subsection \<open>Restores and deletions\<close>

definition admin_create_restore_handler ::
    "'w api_runtime \<Rightarrow> headers \<Rightarrow> uuid \<Rightarrow> restore_request \<Rightarrow> ('w, restore_row) handler" where
  "admin_create_restore_handler rt hs project_id request =
    (let i = request_id_of hs in
     h_bind (h_check (validate_admin_origin rt hs i)) (\<lambda>_.
     h_bind (h_check (valid_text (rrq_reason request) 512 i)) (\<lambda>reason.
     h_bind (h_check (valid_target (rrq_snapshot request) (rrq_target request) i)) (\<lambda>_.
     h_bind (authenticate_admin rt hs i) (\<lambda>claims.
     h_bind (h_db rt (\<lambda>er. map_project_error er i) (\<lambda>e ids. admin_enqueue_restore e (ids 0) (ac_sub claims) project_id
              (rrq_snapshot request) (rrq_target request) reason i)) (\<lambda>job.
     h_bind (h_metrics count_restore) (\<lambda>_. h_return job)))))))"

definition reopen_restore_project_handler ::
    "'w api_runtime \<Rightarrow> headers \<Rightarrow> uuid \<Rightarrow> string \<Rightarrow> ('w, auth_response) handler" where
  "reopen_restore_project_handler rt hs project_id requested_reason =
    (let i = request_id_of hs in
     h_bind (h_check (validate_admin_origin rt hs i)) (\<lambda>_.
     h_bind (h_check (valid_text requested_reason 500 i)) (\<lambda>reason.
     h_bind (authenticate_admin rt hs i) (\<lambda>claims.
     h_bind (h_db rt (\<lambda>er. map_project_error er i) (\<lambda>e _. reopen_failed_restore e (ac_sub claims) project_id reason i)) (\<lambda>_.
     h_return no_content)))))"

record account_purge_request =
  ap_export :: "uuid option"
  ap_confirmed :: bool
  ap_reason :: string

text \<open>
  The nonce is consumed before the request is carried out, also when that fails. Without an
  export the first phase is requested, with one the second is confirmed.
\<close>

definition purge_account_handler ::
    "'w api_runtime \<Rightarrow> auth_service \<Rightarrow> headers \<Rightarrow> uuid \<Rightarrow> account_purge_request
      \<Rightarrow> ('w, account_purge_response) handler" where
  "purge_account_handler rt sv hs user_id request =
    (let i = request_id_of hs in
     h_bind (h_check (validate_admin_origin rt hs i)) (\<lambda>_.
     h_bind (h_check (case validate_account_purge_phase (ap_export request) (ap_confirmed request) of
               Inl _ \<Rightarrow> Inl (api_invalid i) | Inr _ \<Rightarrow> Inr ())) (\<lambda>_.
     h_bind (h_check (valid_text (ap_reason request) 512 i)) (\<lambda>reason.
     h_bind (authenticate_admin rt hs i) (\<lambda>claims.
     h_bind (allow_auth_request rt PurgeOperation
              (ac_sub claims @ '':'' @ auth_rate_limit_key rt sv hs ''account-purge'') i) (\<lambda>_.
     h_bind (enforce_shared_rate_limit rt (''account_purge:'' @ ac_sub claims) i) (\<lambda>_.
     h_bind (h_check (case header_str ''x-reauth-nonce'' hs of
               None \<Rightarrow> Inl (api_authentication i)
             | Some v \<Rightarrow> if v = [] then Inl (api_authentication i) else Inr v)) (\<lambda>nonce.
     h_bind (h_db rt (\<lambda>er. map_persistence er i) (\<lambda>e _. consume_reauth_nonce e (ac_sub claims) (ac_device claims)
              (opaque_token_hash sv nonce))) (\<lambda>consumed.
     if \<not> consumed then h_fail (api_authentication i)
     else h_db rt (\<lambda>er. map_persistence er i) (\<lambda>e ids. case ap_export request of
              Some export_id \<Rightarrow> confirm_account_purge e (ids 0) (ac_sub claims) user_id export_id reason i
            | None \<Rightarrow> request_account_purge_export e (ids 0) (ids 1) (ac_sub claims) user_id reason i))))))))))"

end
