(* ===== verification/Tenancy.thy ===== *)
theory Tenancy
  imports Api_Props Api_Admin
begin

text \<open>
  The isolation of accounts: the part of the database that belongs to an account, the invariant
  that keeps the rows of a project with its owner, and for each operation of the persistence
  layer that an account calls, that it leaves the part of every other account as it is.
\<close>

subsection \<open>The part of an account\<close>

definition account_view :: "uuid \<Rightarrow> db \<Rightarrow> db" where
  "account_view v s = \<lparr>
     users = filter (\<lambda>u. u_id u = v) (users s),
     devices = filter (\<lambda>d. d_owner d = v) (devices s),
     refresh_tokens = filter (\<lambda>t. rt_user t = v) (refresh_tokens s),
     invitations = [],
     reauth_nonces = filter (\<lambda>n. an_user n = v) (reauth_nonces s),
     audit_events = filter (\<lambda>a. au_actor a = Some v \<or> au_subject a = Some v) (audit_events s),
     projects = filter (\<lambda>p. p_owner p = v) (projects s),
     payloads = filter (\<lambda>p. pl_owner p = v) (payloads s),
     object_revisions = filter (\<lambda>r. rv_owner r = v) (object_revisions s),
     object_heads = filter (\<lambda>h. h_owner h = v) (object_heads s),
     change_log = filter (\<lambda>c. cl_owner c = v) (change_log s),
     bootstrap_completions = filter (\<lambda>c. bc_owner c = v) (bootstrap_completions s),
     bootstrap_manifests = filter (\<lambda>m. bm_owner m = v) (bootstrap_manifests s),
     idempotency_records = filter (\<lambda>r. ir_owner r = v) (idempotency_records s),
     snapshots = filter (\<lambda>x. sn_owner x = v) (snapshots s),
     restore_jobs = filter (\<lambda>j. rj_owner j = v) (restore_jobs s),
     jobs = filter (\<lambda>j. j_owner j = Some v) (jobs s),
     account_purge_exports = filter (\<lambda>x. ex_user x = v) (account_purge_exports s),
     sync_attempts = filter (\<lambda>a. sa_owner a = v) (sync_attempts s),
     rate_buckets = [],
     instance_settings = instance_settings s\<rparr>"

text \<open>
  The invariant: devices and projects are unique by id, and heads and bootstrap completions, which
  are updated by project, belong to its owner (a foreign key of the schema).
\<close>

definition project_owners :: "db \<Rightarrow> (uuid \<times> uuid) list" where
  "project_owners s = map (\<lambda>p. (p_id p, p_owner p)) (projects s)"

definition tenant_ok :: "db \<Rightarrow> bool" where
  "tenant_ok s \<longleftrightarrow>
     distinct (map d_id (devices s)) \<and> distinct (map fst (project_owners s))
   \<and> list_all (\<lambda>h. (h_project h, h_owner h) \<in> set (project_owners s)) (object_heads s)
   \<and> list_all (\<lambda>c. (bc_project c, bc_owner c) \<in> set (project_owners s)) (bootstrap_completions s)"

text \<open>What a transaction of account \<open>u\<close> may do to a state.\<close>

definition confined :: "uuid \<Rightarrow> db \<Rightarrow> db \<Rightarrow> bool" where
  "confined u s s' \<longleftrightarrow> tenant_ok s' \<and> (\<forall>v. v \<noteq> u \<longrightarrow> account_view v s' = account_view v s)"

definition acts_as :: "uuid \<Rightarrow> 'a txn \<Rightarrow> bool" where
  "acts_as u t \<longleftrightarrow> (\<forall>s. tenant_ok s \<longrightarrow> confined u s (fst (t s)))"

named_theorems acts_intros

lemma confined_refl: "tenant_ok s \<Longrightarrow> confined u s s"
  by (simp add: confined_def)

lemma confined_trans: "confined u s s1 \<Longrightarrow> confined u s1 s2 \<Longrightarrow> confined u s s2"
  by (simp add: confined_def)

lemma confined_tenant_ok: "confined u s s' \<Longrightarrow> tenant_ok s'"
  by (simp add: confined_def)

lemma acts_asI: "(\<And>s. tenant_ok s \<Longrightarrow> confined u s (fst (t s))) \<Longrightarrow> acts_as u t"
  by (simp add: acts_as_def)

lemma acts_as_query [acts_intros]: "acts_as u (\<lambda>s. (s, q s))"
  by (simp add: acts_as_def confined_refl)

lemma owner_of_project:
  "tenant_ok s \<Longrightarrow> (p, a) \<in> set (project_owners s) \<Longrightarrow> (p, b) \<in> set (project_owners s) \<Longrightarrow> a = b"
  by (auto simp: tenant_ok_def dest: eq_key_imp_eq_value)

text \<open>Changes of one table, each confined to rows of \<open>u\<close>.\<close>

lemma confined_devices:
  assumes "tenant_ok s" and "\<And>d. P d \<Longrightarrow> d \<in> set (devices s) \<Longrightarrow> d_owner d = u"
    and f: "\<And>d. d_id (f d) = d_id d \<and> d_owner (f d) = d_owner d"
  shows "confined u s (s\<lparr>devices := update_where P f (devices s)\<rparr>)"
proof -
  have ids: "map d_id (update_where P f (devices s)) = map d_id (devices s)"
    using f by (intro map_update_where) simp
  have view: "filter (\<lambda>d. d_owner d = v) (update_where P f (devices s)) = filter (\<lambda>d. d_owner d = v) (devices s)"
    if "v \<noteq> u" for v
  proof -
    have "filter (\<lambda>d. d_owner d = v) (update_where P f ds) = filter (\<lambda>d. d_owner d = v) ds"
      if "\<And>d. P d \<Longrightarrow> d \<in> set ds \<Longrightarrow> d_owner d = u" for ds
      using that f \<open>v \<noteq> u\<close> by (induction ds) auto
    then show ?thesis using assms(2) by blast
  qed
  from assms(1) ids view show ?thesis
    by (simp add: confined_def tenant_ok_def project_owners_def account_view_def)
qed

lemma confined_tokens:
  assumes "tenant_ok s" and "\<And>t. P t \<Longrightarrow> rt_user t = u" and "\<And>t. rt_user (f t) = rt_user t"
  shows "confined u s (s\<lparr>refresh_tokens := update_where P f (refresh_tokens s)\<rparr>)"
proof -
  have "filter (\<lambda>t. rt_user t = v) (update_where P f (refresh_tokens s)) = filter (\<lambda>t. rt_user t = v) (refresh_tokens s)"
    if "v \<noteq> u" for v
    using assms(2,3) that by (intro filter_update_where_disjoint) auto
  with assms(1) show ?thesis
    by (simp add: confined_def tenant_ok_def project_owners_def account_view_def)
qed

lemma confined_audit:
  "tenant_ok s \<Longrightarrow> confined u s (insert_audit e u (Some u) action metadata request_id s)"
  by (simp add: confined_def tenant_ok_def project_owners_def account_view_def insert_audit_def insert_audit_nullable_def)

lemma confined_projects:
  assumes "tenant_ok s" and "\<And>p. P p \<Longrightarrow> p_owner p = u"
    and f: "\<And>p. p_id (f p) = p_id p \<and> p_owner (f p) = p_owner p"
  shows "confined u s (s\<lparr>projects := update_where P f (projects s)\<rparr>)"
proof -
  have owners: "map (\<lambda>p. (p_id p, p_owner p)) (update_where P f (projects s)) = map (\<lambda>p. (p_id p, p_owner p)) (projects s)"
    using f by (intro map_update_where) simp
  have "filter (\<lambda>p. p_owner p = v) (update_where P f (projects s)) = filter (\<lambda>p. p_owner p = v) (projects s)"
    if "v \<noteq> u" for v
    using assms(2) f that by (intro filter_update_where_disjoint) auto
  with assms(1) owners show ?thesis
    by (simp add: confined_def tenant_ok_def project_owners_def account_view_def)
qed

lemma confined_same:
  assumes "tenant_ok s" and "devices s' = devices s" and "projects s' = projects s"
    and "object_heads s' = object_heads s" and "bootstrap_completions s' = bootstrap_completions s"
    and "\<And>v. v \<noteq> u \<Longrightarrow> account_view v s' = account_view v s"
  shows "confined u s s'"
  using assms by (simp add: confined_def tenant_ok_def project_owners_def)

subsection \<open>Sessions and devices\<close>

lemma acts_validate_access [acts_intros]: "acts_as u (validate_access e u device_id role)"
proof (rule acts_asI)
  fix s assume ok: "tenant_ok s"
  show "confined u s (fst (validate_access e u device_id role s))"
  proof (cases "try_bind (lock_active_user u s) (\<lambda>user.
          if role_as_str (u_role user) \<noteq> role then Inl InvalidRefreshToken
          else ensure_existing_device u device_id s)")
    case (Inl er)
    then show ?thesis using ok by (simp add: validate_access_def confined_refl)
  next
    case (Inr x)
    then have "ensure_existing_device u device_id s = Inr ()" by (auto simp: try_bind_eq_Inr split: if_splits)
    then obtain d where d: "d \<in> set (devices s)" "d_id d = device_id" "d_owner d = u"
      by (auto simp: ensure_existing_device_def split: option.splits if_splits dest: find_SomeD)
    have "confined u s (s\<lparr>devices := update_where (\<lambda>d. d_id d = device_id) (touch_seen e) (devices s)\<rparr>)"
    proof (rule confined_devices [OF ok])
      fix d' assume "d_id d' = device_id" "d' \<in> set (devices s)"
      with d ok show "d_owner d' = u" by (auto simp: tenant_ok_def dest: keyed_table_inj)
    qed (simp add: touch_seen_def)
    then show ?thesis using Inr by (simp add: validate_access_def)
  qed
qed

lemma acts_logout_device [acts_intros]: "acts_as u (logout_device e u device_id i)"
proof (rule acts_asI)
  fix s assume "tenant_ok s"
  then have "confined u s (s\<lparr>refresh_tokens := update_where (\<lambda>t. rt_user t = u \<and> rt_device t = device_id)
      (revoke_token e) (refresh_tokens s)\<rparr>)"
    by (rule confined_tokens) (auto simp: revoke_token_def split: option.splits)
  from confined_trans [OF this confined_audit [OF confined_tenant_ok [OF this]]]
  show "confined u s (fst (logout_device e u device_id i s))" by (simp add: logout_device_def)
qed

lemma acts_change_password [acts_intros]: "acts_as u (change_password e u h)"
proof (rule acts_asI)
  fix s assume ok: "tenant_ok s"
  have "filter (\<lambda>x. u_id x = v) (update_where (\<lambda>x. u_id x = u) (\<lambda>x. x\<lparr>u_password_hash := h\<rparr>) (users s))
      = filter (\<lambda>x. u_id x = v) (users s)"
    "filter (\<lambda>t. rt_user t = v) (update_where (\<lambda>t. rt_user t = u) (revoke_token e) (refresh_tokens s))
      = filter (\<lambda>t. rt_user t = v) (refresh_tokens s)" if "v \<noteq> u" for v
    using that by (auto intro!: filter_update_where_disjoint simp: revoke_token_def split: option.splits)
  with ok show "confined u s (fst (change_password e u h s))"
    by (auto simp: change_password_def confined_refl account_view_def intro: confined_same)
qed

lemma confined_new_device:
  assumes "tenant_ok s" and "d_id d \<notin> d_id ` set (devices s)" and "d_owner d = u"
  shows "confined u s (s\<lparr>devices := devices s @ [d]\<rparr>)"
  using assms by (simp add: confined_def tenant_ok_def project_owners_def account_view_def)

lemma acts_register_device [acts_intros]: "acts_as u (register_device e u device_id profile)"
proof (rule acts_asI)
  fix s assume ok: "tenant_ok s"
  show "confined u s (fst (register_device e u device_id profile s))"
  proof (cases "List.find (\<lambda>d. d_id d = device_id) (devices s)")
    case None
    then have fresh: "device_id \<notin> d_id ` set (devices s)" by (auto dest: find_NoneD)
    have "confined u s (s\<lparr>devices := devices s @ [apply_profile e profile (new_device e u device_id)]\<rparr>)"
      using ok by (rule confined_new_device) (use fresh in \<open>simp_all add: apply_profile_def new_device_def\<close>)
    then show ?thesis unfolding register_device_def Let_def None by simp
  next
    case (Some d)
    have "confined u s (s\<lparr>devices := update_where (\<lambda>d. d_id d = device_id) (apply_profile e profile) (devices s)\<rparr>)"
      if "d_owner d = u"
    proof (rule confined_devices [OF ok])
      fix d' assume "d_id d' = device_id" "d' \<in> set (devices s)"
      with find_SomeD [OF Some] that ok show "d_owner d' = u" by (auto simp: tenant_ok_def dest: keyed_table_inj)
    qed (simp add: apply_profile_def)
    then show ?thesis unfolding register_device_def Let_def Some using ok by (simp add: confined_refl)
  qed
qed

lemma acts_update_device [acts_intros]: "acts_as u (update_device u device_id n)"
  by (rule acts_asI) (auto simp: update_device_def confined_refl rename_device_def split: option.splits
      intro: confined_devices)

lemma acts_revoke_device [acts_intros]: "acts_as u (revoke_device e u device_id i)"
proof (rule acts_asI)
  fix s assume ok: "tenant_ok s"
  define s1 where "s1 = s\<lparr>devices := update_where (\<lambda>d. d_id d = device_id \<and> d_owner d = u) (revoke_device_row e) (devices s)\<rparr>"
  define s2 where "s2 = s1\<lparr>refresh_tokens := update_where (\<lambda>t. rt_user t = u \<and> rt_device t = device_id)
      (revoke_token e) (refresh_tokens s1)\<rparr>"
  have 1: "confined u s s1"
    unfolding s1_def using ok by (rule confined_devices) (auto simp: revoke_device_row_def split: option.splits)
  have 2: "confined u s1 s2"
    unfolding s2_def using confined_tenant_ok [OF 1] by (rule confined_tokens) (auto simp: revoke_token_def split: option.splits)
  have "confined u s (insert_audit e u (Some u) ''device.revoked''
      (JObj [(''deviceId'', JStr device_id), (''source'', JStr ''user'')]) i s2)"
    by (rule confined_trans [OF confined_trans [OF 1 2] confined_audit [OF confined_tenant_ok [OF 2]]])
  then show "confined u s (fst (revoke_device e u device_id i s))"
    using ok by (simp add: revoke_device_def confined_refl s1_def s2_def split: option.split)
qed

subsection \<open>Projects, payloads and attempts\<close>

lemma acts_create_project [acts_intros]: "acts_as u (create_project e new_id u n)"
proof (rule acts_asI)
  fix s assume ok: "tenant_ok s"
  have "confined u s (s\<lparr>projects := projects s @ [p]\<rparr>)"
    if fresh: "\<not> list_ex (\<lambda>p. p_id p = new_id) (projects s)" and p: "p_owner p = u" "p_id p = new_id" for p
  proof -
    have "new_id \<notin> p_id ` set (projects s)" using fresh by (auto simp: list_ex_iff)
    with ok p show ?thesis
      by (auto simp: confined_def tenant_ok_def project_owners_def account_view_def list_all_iff image_image)
  qed
  then show "confined u s (fst (create_project e new_id u n s))"
    using ok by (simp add: create_project_def Let_def confined_refl)
qed

lemma acts_update_project:
  assumes "\<And>p. p_id (f p) = p_id p \<and> p_owner (f p) = p_owner p"
  shows "acts_as u (update_project f u project_id)"
  by (rule acts_asI)
    (use assms in \<open>auto simp: update_project_def confined_refl split: option.split intro!: confined_projects\<close>)

lemma acts_rename_project [acts_intros]: "acts_as u (rename_project e u project_id n)"
  using acts_update_project [of "set_name e n" u project_id] by (simp add: acts_as_def rename_project_def set_name_def)

lemma acts_disable_project [acts_intros]: "acts_as u (disable_project e u project_id)"
  using acts_update_project [of "set_status e PDisabled" u project_id]
  by (simp add: acts_as_def disable_project_def set_status_def)

lemma confined_insert_job:
  assumes "tenant_ok s" and "insert_job j s = Inr s'" and "j_owner j = Some u"
  shows "confined u s s'"
  using assms by (intro confined_same) (auto simp: insert_job_def account_view_def split: if_splits)

lemma acts_enqueue_project_purge [acts_intros]: "acts_as u (enqueue_project_purge e job_id u project_id reason i)"
proof (rule acts_asI)
  fix s assume ok: "tenant_ok s"
  let ?s1 = "s\<lparr>projects := update_where (\<lambda>p. p_id p = project_id \<and> p_owner p = u) (set_status e PDeleting) (projects s)\<rparr>"
  have 1: "confined u s ?s1" using ok by (rule confined_projects) (simp_all add: set_status_def)
  have 2: "confined u s (insert_audit e u (Some u) act meta i s2)"
    if "insert_job (new_job e job_id ProjectPurge u p l) ?s1 = Inr s2" for act meta p l s2
  proof -
    have "confined u ?s1 s2" using that confined_tenant_ok [OF 1] by (intro confined_insert_job) (auto simp: new_job_def)
    with 1 show ?thesis by (blast intro: confined_trans confined_audit confined_tenant_ok)
  qed
  show "confined u s (fst (enqueue_project_purge e job_id u project_id reason i s))"
    using ok by (auto simp: enqueue_project_purge_def Let_def confined_refl 2 split: option.split sum.split)
qed

lemma acts_register_payload [acts_intros]: "acts_as u (register_payload e new_id u project_id payload)"
  by (rule acts_asI) (auto simp: register_payload_def insert_payload_def confined_refl account_view_def
      split: option.split sum.split if_splits intro!: confined_same)

lemma acts_record_sync_attempt [acts_intros]: "acts_as u (record_sync_attempt e u a)"
  by (rule acts_asI) (auto simp: record_sync_attempt_def Let_def confined_refl account_view_def intro!: confined_same)

lemma acts_consume_limit [acts_intros]: "acts_as u (consume_distributed_rate_limit h e k n p)"
  by (rule acts_asI) (auto simp: consume_distributed_rate_limit_def confined_refl account_view_def
      split: option.split intro!: confined_same)

subsection \<open>Manifests, snapshots and restores\<close>

lemma acts_record_bootstrap_manifest [acts_intros]: "acts_as u (record_bootstrap_manifest e u project_id m b k)"
  by (rule acts_asI) (auto simp: record_bootstrap_manifest_def insert_manifest_def confined_refl account_view_def
      as_conflict_def split: sum.split if_splits intro!: confined_same)

lemma acts_prepare_bootstrap_manifest [acts_intros]: "acts_as u (prepare_bootstrap_manifest tv sh u project_id m)"
  by (rule acts_asI) (simp add: prepare_bootstrap_manifest_def Let_def confined_refl split: sum.split prod.split)

lemma project_state_owner:
  "project_state u project_id s = Inr x \<Longrightarrow> (project_id, u) \<in> set (project_owners s)"
  by (cases x) (auto simp: project_owners_def elim!: project_stateD)

lemma filter_update_other:
  assumes "\<And>r. r \<in> set rs \<Longrightarrow> P r \<Longrightarrow> \<not> Q r" and "\<And>r. P r \<Longrightarrow> Q (f r) = Q r"
  shows "filter Q (update_where P f rs) = filter Q rs"
  using assms by (induction rs) auto

lemma confined_complete_bootstrap:
  assumes ok: "tenant_ok s" and own: "(project_id, u) \<in> set (project_owners s)"
    and run: "complete_bootstrap u device_id project_id g n s = Inr s'"
  shows "confined u s s'"
proof -
  let ?P = "same_completion project_id device_id g" and ?f = "\<lambda>c. c\<lparr>bc_sequence := n\<rparr>"
  have mine: "bc_owner c = u" if "c \<in> set (bootstrap_completions s)" "?P c" for c
    using ok own that owner_of_project [OF ok, of project_id "bc_owner c" u]
    by (auto simp: tenant_ok_def list_all_iff same_completion_def)
  have view: "filter (\<lambda>c. bc_owner c = v) (update_where ?P ?f (bootstrap_completions s))
      = filter (\<lambda>c. bc_owner c = v) (bootstrap_completions s)" if "v \<noteq> u" for v
    using mine that by (intro filter_update_other) auto
  have "(bc_project c, bc_owner c) \<in> set (project_owners s)"
    if "c \<in> set (update_where ?P ?f (bootstrap_completions s))" for c
    using that ok by (auto simp: tenant_ok_def list_all_iff elim!: in_update_whereE)
  with ok own view run show ?thesis
    by (auto simp: complete_bootstrap_def confined_def tenant_ok_def project_owners_def account_view_def
        list_all_iff split: if_splits)
qed

lemma acts_bootstrap_manifest_page [acts_intros]:
  "acts_as u (bootstrap_manifest_page pu e u device_id project_id m offset limit)"
  by (rule acts_asI) (auto simp: bootstrap_manifest_page_def Let_def confined_refl require_active_project_def
      split: sum.split prod.split option.split if_splits
      intro: confined_complete_bootstrap [OF _ project_state_owner])

lemma acts_pull_page [acts_intros]: "acts_as u (pull_page e u device_id project_id g after limit)"
  by (rule acts_asI) (auto simp: pull_page_def confined_refl touch_pull_def
      split: sum.split prod.split intro!: confined_devices)

lemma acts_snapshot_manifest [acts_intros]: "acts_as u (snapshot_manifest tv sh e u project_id x)"
  by (rule acts_asI) (auto simp: snapshot_manifest_def insert_snapshot_def pending_snapshot_def Let_def confined_refl
      account_view_def as_conflict_def split: sum.split prod.split if_splits intro!: confined_same)

lemma acts_record_snapshot [acts_intros]: "acts_as u (record_snapshot e u project_id x g n h b k m)"
proof (rule acts_asI)
  fix s assume ok: "tenant_ok s"
  have 1: "confined u s (s\<lparr>snapshots := update_where P f (snapshots s)\<rparr>)"
    if "\<And>x. P x \<Longrightarrow> sn_owner x = u" and "\<And>x. sn_owner (f x) = sn_owner x" for P f
    using ok that by (intro confined_same) (auto simp: account_view_def intro!: filter_update_where_disjoint)
  show "confined u s (fst (record_snapshot e u project_id x g n h b k m s))"
    using ok by (auto simp: record_snapshot_def Let_def confined_refl finish_snapshot_def split: sum.split option.split
        intro!: confined_trans [OF 1 confined_audit] confined_tenant_ok [OF 1])
qed

lemma acts_enqueue_restore [acts_intros]: "acts_as u (enqueue_restore e job_id u project_id snap target reason i)"
proof (rule acts_asI)
  fix s assume ok: "tenant_ok s"
  have 1: "confined u s s1" if "insert_restore j s = Inr s1" and "rj_owner j = u" for j s1
    using ok that by (intro confined_same) (auto simp: insert_restore_def account_view_def split: if_splits)
  have 2: "confined u s s1"
    if "insert_restore (new_restore e job_id u project_id snap target reason i) s = Inr s1" for s1
    using that by (rule 1) (simp add: new_restore_def)
  show "confined u s (fst (enqueue_restore e job_id u project_id snap target reason i s))"
    using ok by (auto simp: enqueue_restore_def Let_def confined_refl split: sum.split prod.split
        intro!: confined_trans [OF 2 confined_audit] confined_tenant_ok [OF 2])
qed

lemma acts_cancel_restore [acts_intros]: "acts_as u (cancel_restore e u project_id restore_id reason i)"
proof (rule acts_asI)
  fix s assume ok: "tenant_ok s"
  have 1: "confined u s (update_restore P f s)"
    if "\<And>x. P x \<Longrightarrow> rj_owner x = u" and "\<And>x. rj_owner (f x) = rj_owner x" for P f
    using ok that by (intro confined_same)
      (auto simp: update_restore_def account_view_def intro!: filter_update_where_disjoint)
  show "confined u s (fst (cancel_restore e u project_id restore_id reason i s))"
    using ok by (auto simp: cancel_restore_def Let_def confined_refl cancel_queued_def request_cancel_def
        split: option.split restore_status.split
        intro!: confined_trans [OF 1 confined_audit] confined_tenant_ok [OF 1])
qed

subsection \<open>Push\<close>

lemma confined_bump:
  assumes "tenant_ok s" and "bump_change_seq e (\<lambda>p. p_owner p = u) project_id s = Inr (s', n)"
  shows "confined u s s'" and "(project_id, u) \<in> set (project_owners s')"
proof -
  let ?s1 = "s\<lparr>projects := update_where (\<lambda>p. p_id p = project_id \<and> p_owner p = u) (bump_row e) (projects s)\<rparr>"
  from assms(2) obtain p where f: "List.find (\<lambda>p. p_id p = project_id \<and> p_owner p = u) (projects s) = Some p"
    and s': "s' = ?s1"
    by (auto simp: bump_change_seq_def split: option.splits if_splits)
  show "confined u s s'"
    unfolding s' using assms(1) by (rule confined_projects) (simp_all add: bump_row_def)
  have "project_owners s' = project_owners s"
    unfolding project_owners_def s' by (simp add: map_update_where bump_row_def)
  then show "(project_id, u) \<in> set (project_owners s')"
    using find_SomeD [OF f] by (auto simp: project_owners_def)
qed

lemma confined_upsert_head:
  assumes ok: "tenant_ok s" and own: "(h_project h, u) \<in> set (project_owners s)" and h: "h_owner h = u"
  shows "confined u s (upsert_head h s)"
proof -
  let ?P = "\<lambda>x. head_key x = head_key h" and ?f = "set_head (h_revision h) (h_revision_id h)"
  have mine: "h_owner x = u" if "x \<in> set (object_heads s)" "?P x" for x
    using ok own that owner_of_project [OF ok, of "h_project h" "h_owner x" u]
    by (auto simp: tenant_ok_def list_all_iff head_key_def)
  have view: "filter (\<lambda>x. h_owner x = v) (update_where ?P ?f (object_heads s)) = filter (\<lambda>x. h_owner x = v) (object_heads s)"
    if "v \<noteq> u" for v
    using mine that by (intro filter_update_other) (auto simp: set_head_def)
  have "(h_project x, h_owner x) \<in> set (project_owners s)" if "x \<in> set (update_where ?P ?f (object_heads s))" for x
    using that ok by (auto simp: tenant_ok_def list_all_iff set_head_def elim!: in_update_whereE)
  with ok own h view show ?thesis
    by (auto simp: upsert_head_def confined_def tenant_ok_def project_owners_def account_view_def list_all_iff)
qed

lemma confined_append_revision:
  assumes ok: "tenant_ok s" and r: "rv_owner r = u"
    and run: "append_revision e (\<lambda>p. p_owner p = u) r s = Inr (s', n)"
  shows "confined u s s'"
proof -
  from run obtain s1 s2 where b: "bump_change_seq e (\<lambda>p. p_owner p = u) (rv_project r) s = Inr (s1, n)"
    and i: "insert_revision r s1 = Inr s2"
    and c: "insert_change \<lparr>cl_project = rv_project r, cl_owner = rv_owner r, cl_sequence = n, cl_revision_id = rv_id r,
      cl_created_at = db_now e\<rparr> (upsert_head (head_of_revision r) s2) = Inr s'"
    by (auto simp: append_revision_def try_bind_eq_Inr split: prod.splits)
  note 1 = confined_bump [OF ok b]
  have 2: "confined u s1 s2"
    using i r confined_tenant_ok [OF 1(1)] by (intro confined_same) (auto simp: insert_revision_def account_view_def split: if_splits)
  have own: "(rv_project r, u) \<in> set (project_owners s2)"
    using i 1(2) by (auto simp: insert_revision_def project_owners_def split: if_splits)
  have 3: "confined u s2 (upsert_head (head_of_revision r) s2)"
    using confined_tenant_ok [OF 2] own r by (intro confined_upsert_head) (simp_all add: head_of_revision_def)
  have 4: "confined u (upsert_head (head_of_revision r) s2) s'"
    using c r confined_tenant_ok [OF 3]
    by (intro confined_same) (auto simp: insert_change_def account_view_def split: if_splits)
  show ?thesis by (rule confined_trans [OF confined_trans [OF confined_trans [OF 1(1) 2] 3] 4])
qed

lemma confined_push_item:
  assumes "tenant_ok s" and "push_item e u device_id project_id i r s = Inr (s', x)"
  shows "confined u s s'"
  using assms by (auto simp: push_item_def Let_def confined_refl try_bind_eq_Inr revision_of_def
      split: if_splits sum.splits prod.splits elim!: confined_append_revision [rotated -1])

lemma confined_push_items:
  "tenant_ok s \<Longrightarrow> push_items e u device_id project_id ids i rs s = Inr (s', xs) \<Longrightarrow> confined u s s'"
proof (induction rs arbitrary: i s xs)
  case Nil
  then show ?case by (simp add: confined_refl)
next
  case (Cons r rs)
  from Cons.prems(2) obtain s1 x ys where one: "push_item e u device_id project_id (ids i) r s = Inr (s1, x)"
    and more: "push_items e u device_id project_id ids (Suc i) rs s1 = Inr (s', ys)"
    by (auto simp: try_bind_eq_Inr split: prod.splits)
  have "confined u s s1" using Cons.prems(1) one by (rule confined_push_item)
  then show ?case using Cons.IH [OF confined_tenant_ok more] by (blast intro: confined_trans)
qed

lemma confined_insert_idempotency:
  assumes "tenant_ok s" and "insert_idempotency r s = Inr s'" and "ir_owner r = u"
  shows "confined u s s'"
  using assms by (intro confined_same) (auto simp: insert_idempotency_def account_view_def split: if_splits)

lemma confined_apply_push:
  assumes ok: "tenant_ok s" and run: "apply_push e u device_id project_id ids g k h rs s = Inr (s', x)"
  shows "confined u s s'"
proof -
  from run obtain s1 results s2 where items: "push_items e u device_id project_id ids 0 rs s = Inr (s1, results)"
    and rec: "insert_idempotency (idempotency_row_of e u device_id project_id k h (push_response g results) 200) s1 = Inr s2"
    and s': "s' = s2\<lparr>devices := update_where (\<lambda>d. d_id d = device_id \<and> d_owner d = u) (touch_push e) (devices s2)\<rparr>"
    by (auto simp: apply_push_def Let_def try_bind_eq_Inr split: prod.splits)
  have 1: "confined u s s1" using ok items by (rule confined_push_items)
  have 2: "confined u s1 s2"
    using confined_tenant_ok [OF 1] rec by (rule confined_insert_idempotency) (simp add: idempotency_row_of_def)
  have 3: "confined u s2 s'"
    unfolding s' using confined_tenant_ok [OF 2] by (rule confined_devices) (simp_all add: touch_push_def)
  show ?thesis by (rule confined_trans [OF confined_trans [OF 1 2] 3])
qed

lemma confined_fail_push:
  assumes "confined u before s" and "tenant_ok before"
  shows "confined u before (fst (fail_push e u device_id project_id k h er before s))"
proof -
  have "confined u s s1" if "insert_idempotency (idempotency_row_of e u device_id project_id k h r n) s = Inr s1" for s1 r n
    using confined_tenant_ok [OF assms(1)] that by (rule confined_insert_idempotency) (simp add: idempotency_row_of_def)
  with assms show ?thesis
    by (auto simp: fail_push_def store_push_failure_def confined_refl try_bind_eq_Inr
        split: sum.split option.splits prod.splits intro: confined_trans)
qed

lemma acts_push_with_outcome [acts_intros]:
  "acts_as u (push_with_outcome ir e u device_id project_id ids g k h rs)"
proof (rule acts_asI)
  fix s assume ok: "tenant_ok s"
  define s0 where "s0 = s\<lparr>idempotency_records := delete_where
    (\<lambda>r. same_request u device_id project_id k r \<and> ir_expires_at r \<le> db_now e) (idempotency_records s)\<rparr>"
  have 0: "confined u s s0"
    unfolding s0_def using ok by (intro confined_same)
      (auto simp: account_view_def same_request_def intro!: filter_delete_where_disjoint)
  note failing = confined_fail_push [OF 0 ok]
  have "confined u s s1" if "apply_push e u device_id project_id ids g k h rs s0 = Inr (s1, x)" for s1 x
    using 0 confined_apply_push [OF confined_tenant_ok [OF 0] that] by (rule confined_trans)
  then show "confined u s (fst (push_with_outcome ir e u device_id project_id ids g k h rs s))"
    unfolding push_with_outcome_def Let_def s0_def [symmetric]
    using ok 0 by (auto simp: confined_refl failing split: option.split sum.split prod.split)
qed

end
