(* ===== verification/Trends.thy ===== *)
theory Trends
  imports Api_Admin
begin

text \<open>
  The daily trends of synchronisation (\<open>admin_sync_trends\<close> in \<open>crates/persistence/src/lib.rs\<close> and its
  endpoint in \<open>crates/api/src/routes.rs\<close>): the attempts of each day by outcome, and the median and
  the 99th percentile of their latency. The session of the database is in UTC, so a day is a
  multiple of 24 hours of the instant.
\<close>

definition day_start :: "instant \<Rightarrow> instant" where
  "day_start t = t - t mod days 1"

text \<open>
  \<open>percentile_cont\<close> of a percentage: the rank \<open>p * (n - 1)\<close> falls on a row or between two, which
  are interpolated. The value is given in hundredths, in which it is a whole number.
\<close>

definition percentile_hundredths :: "nat \<Rightarrow> int list \<Rightarrow> int option" where
  "percentile_hundredths p values =
    (if values = [] then None
     else (let rows = sort values; rank = p * (length rows - 1);
               lower = rows ! (rank div 100); upper = rows ! min (rank div 100 + 1) (length rows - 1) in
       Some (100 * lower + int (rank mod 100) * (upper - lower))))"

record trend_point =
  tp_day :: instant
  tp_attempts :: nat
  tp_succeeded :: nat
  tp_conflicts :: nat
  tp_p50 :: "int option"
  tp_p99 :: "int option"

definition latencies :: "attempt_row list \<Rightarrow> int list" where
  "latencies rows = List.map_filter sa_latency_ms rows"

definition trend_point_of :: "attempt_row list \<Rightarrow> instant \<Rightarrow> trend_point" where
  "trend_point_of rows day =
    (let those = filter (\<lambda>a. day_start (sa_created_at a) = day) rows in
     \<lparr>tp_day = day, tp_attempts = length those,
      tp_succeeded = rows_affected (\<lambda>a. sa_status a = ''succeeded'') those,
      tp_conflicts = rows_affected (\<lambda>a. sa_status a = ''conflict'') those,
      tp_p50 = percentile_hundredths 50 (latencies those), tp_p99 = percentile_hundredths 99 (latencies those)\<rparr>)"

definition admin_sync_trends :: "env \<Rightarrow> uuid \<Rightarrow> int \<Rightarrow> trend_point list txn" where
  "admin_sync_trends e actor day_count s =
    (s, try_bind (verify_admin actor s) (\<lambda>_.
      let rows = filter (\<lambda>a. sa_created_at a \<ge> db_now e - days (max day_count 1)) (sync_attempts s) in
      Inr (map (trend_point_of rows) (sort (remdups (map (\<lambda>a. day_start (sa_created_at a)) rows))))))"

definition admin_trends_handler ::
    "'w api_runtime \<Rightarrow> headers \<Rightarrow> int option \<Rightarrow> ('w, trend_point list \<times> int) handler" where
  "admin_trends_handler rt hs requested_days =
    (let i = request_id_of hs; day_count = (case requested_days of None \<Rightarrow> 30 | Some n \<Rightarrow> n) in
     if \<not> (1 \<le> day_count \<and> day_count \<le> 90) then h_fail (api_invalid i)
     else h_bind (authenticate_admin rt hs i) (\<lambda>claims.
       h_bind (h_db rt (\<lambda>er. map_persistence er i) (\<lambda>e _. admin_sync_trends e (ac_sub claims) day_count)) (\<lambda>points.
       h_return (points, day_count))))"

subsection \<open>The points\<close>

text \<open>The interpolation stays between the least and the greatest value.\<close>

lemma interpolation_bounds:
  assumes "(x::int) \<le> y" and "0 \<le> k" and "k \<le> 100"
  shows "100 * x \<le> 100 * x + k * (y - x)" and "100 * x + k * (y - x) \<le> 100 * y"
proof -
  show "100 * x \<le> 100 * x + k * (y - x)" using assms by simp
  have "k * (y - x) \<le> 100 * (y - x)" using assms by (intro mult_right_mono) auto
  then show "100 * x + k * (y - x) \<le> 100 * y" by (simp add: algebra_simps)
qed

lemma percentile_between:
  assumes "percentile_hundredths p values = Some v" and "p \<le> 100"
  shows "\<exists>lo \<in> set values. \<exists>hi \<in> set values. 100 * lo \<le> v \<and> v \<le> 100 * hi"
proof -
  define rows where "rows = sort values"
  define rank where "rank = p * (length rows - 1)"
  define j where "j = min (rank div 100 + 1) (length rows - 1)"
  have members: "set rows = set values" by (simp add: rows_def)
  moreover have "values \<noteq> []" using assms(1) by (simp add: percentile_hundredths_def split: if_splits)
  ultimately have ne: "rows \<noteq> []" by (metis set_empty)
  have v: "v = 100 * rows ! (rank div 100) + int (rank mod 100) * (rows ! j - rows ! (rank div 100))"
    using assms(1) by (auto simp: percentile_hundredths_def rows_def rank_def j_def Let_def split: if_splits)
  have "rank \<le> 100 * (length rows - 1)" using assms(2) by (simp add: rank_def)
  then have "rank div 100 \<le> (100 * (length rows - 1)) div 100" by (rule div_le_mono)
  then have i: "rank div 100 \<le> length rows - 1" by simp
  moreover have "0 < length rows" using ne by simp
  ultimately have "rank div 100 \<le> j" and len: "rank div 100 < length rows" "j < length rows"
    unfolding j_def by linarith+
  then have "rows ! (rank div 100) \<le> rows ! j" by (auto simp: rows_def intro: sorted_nth_mono)
  from interpolation_bounds [OF this, of "int (rank mod 100)"] have
    "100 * rows ! (rank div 100) \<le> v \<and> v \<le> 100 * rows ! j" by (simp add: v)
  with members len show ?thesis by (metis nth_mem)
qed

text \<open>Every attempt since the cutoff is counted on exactly one day.\<close>

lemma sum_over_keys:
  "sum_list (map (\<lambda>d. length (filter (\<lambda>x. f x = d) xs)) ds) = length (filter (\<lambda>x. f x \<in> set ds) xs)" if "distinct ds"
  using that
proof (induction ds)
  case (Cons d ds)
  have "length (filter (\<lambda>x. f x \<in> set (d # ds)) xs) = length (filter (\<lambda>x. f x = d) xs) + length (filter (\<lambda>x. f x \<in> set ds) xs)"
    using Cons.prems by (induction xs) auto
  with Cons show ?case by simp
qed simp

lemma trends_count_attempts:
  assumes "admin_sync_trends e actor n s = (s', Inr points)"
  shows "sum_list (map tp_attempts points)
      = rows_affected (\<lambda>a. sa_created_at a \<ge> db_now e - days (max n 1)) (sync_attempts s)"
    and "sorted (map tp_day points)" and "distinct (map tp_day points)"
proof -
  define rows where "rows = filter (\<lambda>a. sa_created_at a \<ge> db_now e - days (max n 1)) (sync_attempts s)"
  define ds where "ds = sort (remdups (map (\<lambda>a. day_start (sa_created_at a)) rows))"
  have points: "points = map (trend_point_of rows) ds"
    using assms by (auto simp: admin_sync_trends_def try_bind_eq_Inr Let_def rows_def ds_def)
  have days: "map tp_day points = ds" by (simp add: points comp_def trend_point_of_def Let_def)
  show "sorted (map tp_day points)" "distinct (map tp_day points)"
    by (simp_all only: days) (simp_all add: ds_def)
  have "sum_list (map tp_attempts points) = sum_list (map (\<lambda>d. length (filter (\<lambda>a. day_start (sa_created_at a) = d) rows)) ds)"
    by (simp add: points comp_def trend_point_of_def Let_def)
  also have "\<dots> = length (filter (\<lambda>a. day_start (sa_created_at a) \<in> set ds) rows)"
    by (rule sum_over_keys) (simp add: ds_def)
  also have "filter (\<lambda>a. day_start (sa_created_at a) \<in> set ds) rows = rows"
    by (simp add: ds_def)
  finally show "sum_list (map tp_attempts points)
      = rows_affected (\<lambda>a. sa_created_at a \<ge> db_now e - days (max n 1)) (sync_attempts s)"
    by (simp add: rows_def rows_affected_def)
qed

end
