(* ===== verification/Api_Http.thy ===== *)
theory Api_Http
  imports Api_Admin Account_Export
begin

text \<open>
  The requests and responses of the HTTP interface (\<open>crates/api/src/routes.rs\<close>): the extractors
  with the derived deserialisers of the request bodies and queries, which refuse unknown members,
  and the JSON of the responses. The text of a time in a response is a \<open>JTime\<close>, in a request
  it is text that the RFC 3339 parser reads, the human-readable message of
  an error or a registration is left out.
\<close>

subsection \<open>Requests\<close>

text \<open>
  \<open>hr_query\<close> are the decoded pairs of the query string, \<open>hr_json\<close> the body as \<open>axum::Json\<close> reads
  it and \<open>hr_limited_json\<close> the body as \<open>serde_json\<close> reads its first two mebibytes; each is \<open>None\<close>
  where the reader refuses.
\<close>

record http_request =
  hr_method :: string
  hr_path :: string
  hr_query :: "(string \<times> string) list option"
  hr_headers :: headers
  hr_json :: "json option"
  hr_limited_json :: "json option"
  hr_chunks :: "bytes option list"

text \<open>
  A derived deserialiser of a struct with \<open>deny_unknown_fields\<close>: an object whose members are
  distinct and known, or an array of all the members in order.
\<close>

definition struct_members :: "string list \<Rightarrow> json \<Rightarrow> (string \<times> json) list option" where
  "struct_members names v =
    (case v of
       JObj ms \<Rightarrow> if distinct (map fst ms) \<and> set (map fst ms) \<subseteq> set names then Some ms else None
     | JArr xs \<Rightarrow> if length xs = length names then Some (zip names xs) else None
     | _ \<Rightarrow> None)"

definition field :: "string \<Rightarrow> (json \<Rightarrow> 'a option) \<Rightarrow> (string \<times> json) list \<Rightarrow> 'a option" where
  "field k f ms = Option.bind (map_of ms k) f"

definition optional_field :: "string \<Rightarrow> (json \<Rightarrow> 'a option) \<Rightarrow> (string \<times> json) list \<Rightarrow> 'a option option" where
  "optional_field k f ms =
    (case map_of ms k of None \<Rightarrow> Some None | Some JNull \<Rightarrow> Some None | Some x \<Rightarrow> map_option Some (f x))"

definition json_int_in :: "int \<Rightarrow> int \<Rightarrow> json \<Rightarrow> int option" where
  "json_int_in lo hi v = Option.bind (json_num v) (\<lambda>n. if lo \<le> n \<and> n \<le> hi then Some n else None)"

definition json_i64 :: "json \<Rightarrow> int option" where
  "json_i64 = json_int_in (- i64_max - 1) i64_max"

definition json_i32 :: "json \<Rightarrow> int option" where
  "json_i32 = json_int_in (- i32_max - 1) i32_max"

definition json_uuid :: "(string \<Rightarrow> uuid option) \<Rightarrow> json \<Rightarrow> uuid option" where
  "json_uuid parse_uuid v = Option.bind (json_as_str v) parse_uuid"

text \<open>A unit variant is its name, or an object with its name and null.\<close>

fun json_object_kind :: "json \<Rightarrow> object_kind option" where
  "json_object_kind (JStr v) = parse_object_kind v"
| "json_object_kind (JObj [(v, JNull)]) = parse_object_kind v"
| "json_object_kind _ = None"

definition login_request_of :: "(string \<Rightarrow> uuid option) \<Rightarrow> json \<Rightarrow> login_request option" where
  "login_request_of parse_uuid v =
    do {
      ms \<leftarrow> struct_members [''email'', ''password'', ''deviceId''] v;
      email \<leftarrow> field ''email'' json_as_str ms;
      password \<leftarrow> field ''password'' json_as_str ms;
      device \<leftarrow> field ''deviceId'' (json_uuid parse_uuid) ms;
      Some \<lparr>lr_email = email, lr_password = password, lr_device = device\<rparr>
    }"

definition one_string_of :: "string \<Rightarrow> json \<Rightarrow> string option" where
  "one_string_of name v = Option.bind (struct_members [name] v) (field name json_as_str)"

definition refresh_request_of :: "json \<Rightarrow> string option" where
  "refresh_request_of = one_string_of ''refreshToken''"

definition reauth_request_of :: "json \<Rightarrow> string option" where
  "reauth_request_of = one_string_of ''password''"

definition activation_request_of :: "(string \<Rightarrow> uuid option) \<Rightarrow> json \<Rightarrow> activation_request option" where
  "activation_request_of parse_uuid v =
    do {
      ms \<leftarrow> struct_members [''invitationToken'', ''password'', ''deviceId''] v;
      token \<leftarrow> field ''invitationToken'' json_as_str ms;
      password \<leftarrow> field ''password'' json_as_str ms;
      device \<leftarrow> field ''deviceId'' (json_uuid parse_uuid) ms;
      Some \<lparr>at_token = token, at_password = password, at_device = device\<rparr>
    }"

definition two_strings_of :: "string \<Rightarrow> string \<Rightarrow> json \<Rightarrow> (string \<times> string) option" where
  "two_strings_of a b v =
    do {
      ms \<leftarrow> struct_members [a, b] v;
      x \<leftarrow> field a json_as_str ms;
      y \<leftarrow> field b json_as_str ms;
      Some (x, y)
    }"

definition password_change_of :: "json \<Rightarrow> (string \<times> string) option" where
  "password_change_of = two_strings_of ''currentPassword'' ''newPassword''"

definition project_request_of :: "json \<Rightarrow> string option" where
  "project_request_of = one_string_of ''name''"

definition register_device_request_of :: "(string \<Rightarrow> uuid option) \<Rightarrow> json \<Rightarrow> register_device_request option" where
  "register_device_request_of parse_uuid v =
    do {
      ms \<leftarrow> struct_members [''deviceId'', ''displayName'', ''platform'', ''appVersion''] v;
      device \<leftarrow> field ''deviceId'' (json_uuid parse_uuid) ms;
      display_name \<leftarrow> field ''displayName'' json_as_str ms;
      platform \<leftarrow> field ''platform'' json_as_str ms;
      app_version \<leftarrow> field ''appVersion'' json_as_str ms;
      Some \<lparr>rd_device = device, rd_display_name = display_name, rd_platform = platform, rd_app_version = app_version\<rparr>
    }"

definition update_device_request_of :: "json \<Rightarrow> string option" where
  "update_device_request_of = one_string_of ''displayName''"

definition create_invitation_request_of :: "json \<Rightarrow> string option" where
  "create_invitation_request_of = one_string_of ''email''"

definition register_request_of :: "json \<Rightarrow> (string \<times> string) option" where
  "register_request_of = two_strings_of ''email'' ''password''"

definition admin_create_user_request_of :: "json \<Rightarrow> (string \<times> string) option" where
  "admin_create_user_request_of = two_strings_of ''email'' ''password''"

definition registration_settings_of :: "json \<Rightarrow> bool option" where
  "registration_settings_of v = Option.bind (struct_members [''enabled''] v) (field ''enabled'' json_as_bool)"

definition reason_request_of :: "json \<Rightarrow> string option" where
  "reason_request_of = one_string_of ''reason''"

definition account_status_request_of :: "json \<Rightarrow> string option" where
  "account_status_request_of = one_string_of ''reason''"

definition purge_project_request_of :: "json \<Rightarrow> (string \<times> string) option" where
  "purge_project_request_of = two_strings_of ''password'' ''reason''"

definition account_purge_request_of :: "(string \<Rightarrow> uuid option) \<Rightarrow> json \<Rightarrow> account_purge_request option" where
  "account_purge_request_of parse_uuid v =
    do {
      ms \<leftarrow> struct_members [''exportId'', ''confirmed'', ''reason''] v;
      export_id \<leftarrow> optional_field ''exportId'' (json_uuid parse_uuid) ms;
      confirmed \<leftarrow> field ''confirmed'' json_as_bool ms;
      reason \<leftarrow> field ''reason'' json_as_str ms;
      Some \<lparr>ap_export = export_id, ap_confirmed = confirmed, ap_reason = reason\<rparr>
    }"

definition page_request_of :: "json \<Rightarrow> page_request option" where
  "page_request_of v =
    do {
      ms \<leftarrow> struct_members [''pageToken'', ''limit''] v;
      token \<leftarrow> optional_field ''pageToken'' json_as_str ms;
      limit \<leftarrow> optional_field ''limit'' json_i64 ms;
      Some \<lparr>pq_token = token, pq_limit = limit\<rparr>
    }"

definition pull_request_of :: "json \<Rightarrow> pull_request option" where
  "pull_request_of v =
    do {
      ms \<leftarrow> struct_members [''cursor'', ''limit''] v;
      cursor \<leftarrow> field ''cursor'' json_as_str ms;
      limit \<leftarrow> optional_field ''limit'' json_i64 ms;
      Some \<lparr>pullr_cursor = cursor, pullr_limit = limit\<rparr>
    }"

definition restore_request_of :: "(string \<Rightarrow> uuid option) \<Rightarrow> json \<Rightarrow> restore_request option" where
  "restore_request_of parse_uuid v =
    do {
      ms \<leftarrow> struct_members [''snapshotId'', ''targetChangeSequence'', ''reason''] v;
      snapshot_id \<leftarrow> optional_field ''snapshotId'' (json_uuid parse_uuid) ms;
      target \<leftarrow> optional_field ''targetChangeSequence'' json_i64 ms;
      reason \<leftarrow> field ''reason'' json_as_str ms;
      Some \<lparr>rrq_snapshot = snapshot_id, rrq_target = target, rrq_reason = reason\<rparr>
    }"

subsection \<open>The body of a push\<close>

definition push_object_members :: "string list" where
  "push_object_members = [''kind'', ''id'', ''schemaVersion'', ''revision'', ''baseRevision'', ''contentHash'',
     ''updatedAt'', ''deviceId'']"

text \<open>\<open>time::serde::rfc3339\<close>.\<close>

fun json_rfc3339 :: "(string \<Rightarrow> offset_time option) \<Rightarrow> json \<Rightarrow> offset_time option" where
  "json_rfc3339 read_time (JStr t) = read_time t"
| "json_rfc3339 read_time _ = None"

definition push_object_of ::
    "(string \<Rightarrow> uuid option) \<Rightarrow> (string \<Rightarrow> offset_time option) \<Rightarrow> json \<Rightarrow> push_object option" where
  "push_object_of parse_uuid read_time v =
    do {
      ms \<leftarrow> struct_members push_object_members v;
      kind \<leftarrow> field ''kind'' json_object_kind ms;
      i \<leftarrow> field ''id'' json_as_str ms;
      schema_version \<leftarrow> field ''schemaVersion'' json_i32 ms;
      n \<leftarrow> field ''revision'' json_i64 ms;
      base \<leftarrow> optional_field ''baseRevision'' json_i64 ms;
      content_hash \<leftarrow> field ''contentHash'' json_as_str ms;
      updated_at \<leftarrow> field ''updatedAt'' (json_rfc3339 read_time) ms;
      device \<leftarrow> field ''deviceId'' (json_uuid parse_uuid) ms;
      Some \<lparr>po_kind = kind, po_id = i, po_schema_version = schema_version, po_revision = n, po_base = base,
        po_content_hash = content_hash, po_updated_at = updated_at, po_device = device\<rparr>
    }"

definition push_tombstone_members :: "string list" where
  "push_tombstone_members = [''kind'', ''id'', ''revision'', ''baseRevision'', ''deletedAt'', ''deviceId'']"

definition push_tombstone_of ::
    "(string \<Rightarrow> uuid option) \<Rightarrow> (string \<Rightarrow> offset_time option) \<Rightarrow> json \<Rightarrow> push_tombstone option" where
  "push_tombstone_of parse_uuid read_time v =
    do {
      ms \<leftarrow> struct_members push_tombstone_members v;
      kind \<leftarrow> field ''kind'' json_object_kind ms;
      i \<leftarrow> field ''id'' json_as_str ms;
      n \<leftarrow> field ''revision'' json_i64 ms;
      base \<leftarrow> optional_field ''baseRevision'' json_i64 ms;
      deleted_at \<leftarrow> field ''deletedAt'' (json_rfc3339 read_time) ms;
      device \<leftarrow> field ''deviceId'' (json_uuid parse_uuid) ms;
      Some \<lparr>pt_kind = kind, pt_id = i, pt_revision = n, pt_base = base, pt_deleted_at = deleted_at, pt_device = device\<rparr>
    }"

definition json_list_of :: "(json \<Rightarrow> 'a option) \<Rightarrow> json \<Rightarrow> 'a list option" where
  "json_list_of f v = Option.bind (json_as_array v) (decode_all f)"

definition push_request_of ::
    "(string \<Rightarrow> uuid option) \<Rightarrow> (string \<Rightarrow> offset_time option) \<Rightarrow> json \<Rightarrow> push_request option" where
  "push_request_of parse_uuid read_time v =
    do {
      ms \<leftarrow> struct_members [''requestId'', ''generation'', ''objects'', ''tombstones''] v;
      i \<leftarrow> field ''requestId'' json_as_str ms;
      generation \<leftarrow> field ''generation'' json_i64 ms;
      objects \<leftarrow> field ''objects'' (json_list_of (push_object_of parse_uuid read_time)) ms;
      tombstones \<leftarrow> field ''tombstones'' (json_list_of (push_tombstone_of parse_uuid read_time)) ms;
      Some \<lparr>pushr_id = i, pushr_generation = generation, pushr_objects = objects, pushr_tombstones = tombstones\<rparr>
    }"

text \<open>The derived serialisers; the bytes that identify a request under its key are made from them.\<close>

definition push_object_json :: "(offset_time \<Rightarrow> string) \<Rightarrow> push_object \<Rightarrow> json" where
  "push_object_json show_time x = JObj [(''kind'', JStr (kind_as_str (po_kind x))), (''id'', JStr (po_id x)),
     (''schemaVersion'', JNum (po_schema_version x)), (''revision'', JNum (po_revision x)),
     (''baseRevision'', json_opt JNum (po_base x)), (''contentHash'', JStr (po_content_hash x)),
     (''updatedAt'', JStr (show_time (po_updated_at x))), (''deviceId'', JStr (po_device x))]"

definition push_tombstone_json :: "(offset_time \<Rightarrow> string) \<Rightarrow> push_tombstone \<Rightarrow> json" where
  "push_tombstone_json show_time x = JObj [(''kind'', JStr (kind_as_str (pt_kind x))), (''id'', JStr (pt_id x)),
     (''revision'', JNum (pt_revision x)), (''baseRevision'', json_opt JNum (pt_base x)),
     (''deletedAt'', JStr (show_time (pt_deleted_at x))), (''deviceId'', JStr (pt_device x))]"

definition push_request_json :: "(offset_time \<Rightarrow> string) \<Rightarrow> push_request \<Rightarrow> json" where
  "push_request_json show_time r = JObj [(''requestId'', JStr (pushr_id r)), (''generation'', JNum (pushr_generation r)),
     (''objects'', JArr (map (push_object_json show_time) (pushr_objects r))),
     (''tombstones'', JArr (map (push_tombstone_json show_time) (pushr_tombstones r)))]"

subsection \<open>Queries\<close>

text \<open>
  \<open>serde_urlencoded\<close> into a struct whose members are all optional: every name known, none twice.
  An \<open>i64\<close> or \<open>i32\<close> has an optional sign.
\<close>

definition parse_int :: "int \<Rightarrow> int \<Rightarrow> string \<Rightarrow> int option" where
  "parse_int lo hi t =
    Option.bind (case t of
        [] \<Rightarrow> None
      | c # s \<Rightarrow> if c = CHR ''-'' then (if s = [] then None else map_option uminus (digits_value 0 s)) else parse_u64 t)
      (\<lambda>n. if lo \<le> n \<and> n \<le> hi then Some n else None)"

definition parse_i64 :: "string \<Rightarrow> int option" where
  "parse_i64 = parse_int (- i64_max - 1) i64_max"

definition known_pairs :: "string list \<Rightarrow> (string \<times> string) list \<Rightarrow> bool" where
  "known_pairs names ps \<longleftrightarrow> distinct (map fst ps) \<and> set (map fst ps) \<subseteq> set names"

definition query_int :: "string \<Rightarrow> (string \<times> string) list \<Rightarrow> int option option" where
  "query_int k ps = (case map_of ps k of None \<Rightarrow> Some None | Some v \<Rightarrow> map_option Some (parse_i64 v))"

definition history_query_of :: "(string \<times> string) list \<Rightarrow> history_query option" where
  "history_query_of ps =
    (if \<not> known_pairs [''afterSequence'', ''limit'', ''kind'', ''objectId''] ps then None
     else do {
       after \<leftarrow> query_int ''afterSequence'' ps;
       limit \<leftarrow> query_int ''limit'' ps;
       Some \<lparr>hq_after_sequence = after, hq_limit = limit, hq_kind = map_of ps ''kind'',
         hq_object_id = map_of ps ''objectId''\<rparr>
     })"

definition page_query_of :: "(string \<times> string) list \<Rightarrow> (int option \<times> int option) option" where
  "page_query_of ps =
    (if \<not> known_pairs [''limit'', ''offset''] ps then None
     else do { limit \<leftarrow> query_int ''limit'' ps; offset \<leftarrow> query_int ''offset'' ps; Some (limit, offset) })"

definition filtered_query_of :: "string \<Rightarrow> (string \<times> string) list \<Rightarrow> (int option \<times> int option \<times> string option) option" where
  "filtered_query_of name ps =
    (if \<not> known_pairs [''limit'', ''offset'', name] ps then None
     else do {
       limit \<leftarrow> query_int ''limit'' ps;
       offset \<leftarrow> query_int ''offset'' ps;
       Some (limit, offset, map_of ps name)
     })"

definition audit_query_of :: "(string \<times> string) list \<Rightarrow> (int option \<times> int option \<times> string option) option" where
  "audit_query_of = filtered_query_of ''action''"

definition project_query_of :: "(string \<times> string) list \<Rightarrow> (int option \<times> int option \<times> string option) option" where
  "project_query_of = filtered_query_of ''search''"

subsection \<open>Records as JSON\<close>

definition json_time_opt :: "instant option \<Rightarrow> json" where
  "json_time_opt = json_opt JTime"

definition user_json :: "user_row \<Rightarrow> json" where
  "user_json u = JObj [(''id'', JStr (u_id u)), (''email'', JStr (u_email_display u)),
     (''role'', JStr (role_as_str (u_role u))), (''status'', JStr (account_status_as_str (u_status u))),
     (''createdAt'', JTime (u_created_at u)), (''lastLoginAt'', json_time_opt (u_last_login_at u))]"

text \<open>What an account sees of itself, and the answer to a new account.\<close>

definition current_user_json :: "user_row \<Rightarrow> json" where
  "current_user_json u = JObj [(''id'', JStr (u_id u)), (''email'', JStr (u_email_display u)),
     (''role'', JStr (role_as_str (u_role u))), (''status'', JStr (account_status_as_str (u_status u)))]"

definition project_json :: "project_row \<Rightarrow> json" where
  "project_json p = JObj [(''id'', JStr (p_id p)), (''ownerUserId'', JStr (p_owner p)), (''name'', JStr (p_name p)),
     (''generation'', JNum (p_generation p)), (''status'', JStr (project_status_as_str (p_status p))),
     (''changeSequence'', JNum (p_change_seq p)), (''createdAt'', JTime (p_created_at p)),
     (''updatedAt'', JTime (p_updated_at p))]"

definition device_record_json :: "device_row \<Rightarrow> json" where
  "device_record_json d = JObj [(''id'', JStr (d_id d)), (''ownerUserId'', JStr (d_owner d)),
     (''displayName'', JStr (d_display_name d)), (''platform'', JStr (d_platform d)),
     (''appVersion'', JStr (d_app_version d)), (''createdAt'', JTime (d_created_at d)),
     (''lastSeenAt'', json_time_opt (d_last_seen_at d)), (''lastLoginAt'', json_time_opt (d_last_login_at d)),
     (''lastPullAt'', json_time_opt (d_last_pull_at d)), (''lastPushAt'', json_time_opt (d_last_push_at d)),
     (''revokedAt'', json_time_opt (d_revoked_at d))]"

definition invitation_json :: "admin_invitation_record \<Rightarrow> json" where
  "invitation_json i = JObj [(''id'', JStr (ai_id i)), (''email'', JStr (ai_email i)),
     (''createdAt'', JTime (ai_created_at i)), (''expiresAt'', JTime (ai_expires_at i)),
     (''usedAt'', json_time_opt (ai_used_at i)), (''revokedAt'', json_time_opt (ai_revoked_at i)),
     (''status'', JStr (ai_status i))]"

definition created_invitation_json :: "invitation_response \<Rightarrow> json" where
  "created_invitation_json i = JObj [(''id'', JStr (ir_invitation i)), (''email'', JStr (ir_email i)),
     (''invitationToken'', JStr (ir_token i)), (''expiresAt'', JTime (ir_invitation_expires_at i))]"

definition snapshot_record_json :: "snapshot_row \<Rightarrow> json" where
  "snapshot_record_json x = JObj [(''id'', JStr (sn_id x)), (''projectId'', JStr (sn_project x)),
     (''generation'', JNum (sn_generation x)), (''changeSequence'', JNum (sn_sequence x)),
     (''manifestHash'', JStr (sn_hash x)), (''status'', JStr (snapshot_status_as_str (sn_status x))),
     (''createdBy'', JStr (sn_created_by x)), (''createdAt'', JTime (sn_created_at x))]"

text \<open>
  The queries behind the endpoints of a restore do not select the attempts nor the time of the next
  one: the members get the defaults of the record.
\<close>

definition restore_json :: "restore_row \<Rightarrow> json" where
  "restore_json j = JObj [(''id'', JStr (rj_id j)), (''projectId'', JStr (rj_project j)),
     (''requestedBy'', JStr (rj_requested_by j)), (''snapshotId'', json_opt JStr (rj_snapshot j)),
     (''targetChangeSequence'', json_opt JNum (rj_target j)), (''reason'', JStr (rj_reason j)),
     (''status'', JStr (restore_status_as_str (rj_status j))),
     (''preRestoreSnapshotId'', json_opt JStr (rj_pre_snapshot j)),
     (''generationBefore'', json_opt JNum (rj_generation_before j)),
     (''generationAfter'', json_opt JNum (rj_generation_after j)),
     (''restoredObjects'', JNum (rj_objects j)), (''restoredTombstones'', JNum (rj_tombstones j)),
     (''errorCode'', json_opt JStr (rj_error j)), (''createdAt'', JTime (rj_created_at j)),
     (''startedAt'', json_time_opt (rj_started_at j)), (''finishedAt'', json_time_opt (rj_finished_at j)),
     (''cancelRequested'', JBool (rj_cancel_requested j)), (''attempts'', JNum 0), (''runAfter'', JNull)]"

definition history_record_json :: "admin_history_record \<Rightarrow> json" where
  "history_record_json r = JObj [(''kind'', JStr (ah_kind r)), (''objectId'', JStr (ah_object r)),
     (''revision'', JNum (ah_revision r)), (''baseRevision'', json_opt JNum (ah_base r)),
     (''changedAt'', JTime (ah_changed_at r)), (''deviceId'', JStr (ah_device r)),
     (''tombstone'', JBool (ah_tombstone r)), (''changeSequence'', JNum (ah_sequence r))]"

definition operation_json :: "admin_operation_record \<Rightarrow> json" where
  "operation_json x = JObj [(''id'', JStr (op_id x)), (''operation'', JStr (op_operation x)),
     (''status'', JStr (op_status x)), (''attempts'', JNum (op_attempts x)),
     (''runAfter'', json_time_opt (op_run_after x)), (''cancelRequested'', JBool (op_cancel_requested x)),
     (''projectId'', json_opt JStr (op_project x)), (''deviceId'', json_opt JStr (op_device x)),
     (''itemCount'', json_opt JNum (op_item_count x)), (''latencyMs'', json_opt JNum (op_latency_ms x)),
     (''errorCode'', json_opt JStr (op_error x)), (''createdAt'', JTime (op_created_at x))]"

text \<open>\<open>audit_id\<close> is the identity column of the row.\<close>

definition audit_event_json :: "(audit_row \<Rightarrow> int) \<Rightarrow> audit_row \<Rightarrow> json" where
  "audit_event_json audit_id a = JObj [(''id'', JNum (audit_id a)), (''actorUserId'', json_opt JStr (au_actor a)),
     (''subjectUserId'', json_opt JStr (au_subject a)), (''projectId'', json_opt JStr (au_project a)),
     (''action'', JStr (au_action a)), (''metadata'', au_metadata a),
     (''requestId'', json_opt JStr (au_request_id a)), (''createdAt'', JTime (au_created_at a))]"

definition overview_json :: "admin_overview_record \<Rightarrow> json" where
  "overview_json x = JObj [(''users'', JNum (int (ao_users x))), (''activeUsers'', JNum (int (ao_active_users x))),
     (''projects'', JNum (int (ao_projects x))), (''devices'', JNum (int (ao_devices x))),
     (''revisions'', JNum (int (ao_revisions x))), (''tombstones'', JNum (int (ao_tombstones x))),
     (''payloadBytes'', JNum (ao_payload_bytes x)), (''queuedRestores'', JNum (int (ao_queued_restores x)))]"

definition job_json :: "job_row \<Rightarrow> json" where
  "job_json j = JObj [(''id'', JStr (j_id j)), (''kind'', JStr (job_kind_as_str (j_kind j))),
     (''ownerUserId'', json_opt JStr (j_owner j)), (''projectId'', json_opt JStr (j_project j)),
     (''status'', JStr (job_status_as_str (j_status j))), (''attempts'', JNum (j_attempts j)),
     (''runAfter'', JTime (j_run_after j)), (''errorCode'', json_opt JStr (j_error j)),
     (''createdAt'', JTime (j_created_at j)), (''startedAt'', json_time_opt (j_started_at j)),
     (''finishedAt'', json_time_opt (j_finished_at j))]"

definition account_purge_json :: "account_purge_response \<Rightarrow> json" where
  "account_purge_json x = JObj [(''jobId'', JStr (ap_job x)),
     (''exportId'', JStr (Account_Purge.account_purge_response.ap_export x)),
     (''status'', JStr (ap_status x)), (''confirmationRequired'', JBool (ap_confirmation_required x))]"

definition reauth_json :: "reauth_response \<Rightarrow> json" where
  "reauth_json x = JObj [(''nonce'', JStr (ra_nonce x)), (''expiresIn'', JNum (ra_expires_in x))]"

definition settings_json :: "bool \<Rightarrow> json" where
  "settings_json enabled = JObj [(''enabled'', JBool enabled)]"

definition items_json :: "('r \<Rightarrow> json) \<Rightarrow> 'r list \<Rightarrow> json" where
  "items_json f xs = JObj [(''items'', JArr (map f xs))]"

definition listing_json :: "('r \<Rightarrow> json) \<Rightarrow> 'r listing \<Rightarrow> json" where
  "listing_json f x = JObj [(''items'', JArr (map f (ls_items x))), (''hasMore'', JBool (ls_has_more x)),
     (''nextOffset'', json_opt JNum (ls_next_offset x)), (''limit'', JNum (ls_limit x)), (''offset'', JNum (ls_offset x))]"

definition history_page_json :: "admin_history_page \<Rightarrow> json" where
  "history_page_json x = JObj [(''items'', JArr (map history_record_json (hp_items x))),
     (''hasMore'', JBool (hp_has_more x)), (''nextSequence'', json_opt JNum (hp_next_sequence x))]"

subsection \<open>Responses\<close>

datatype response_body = NoBody | JsonBody json | TextBody string | ChunkBody "bytes option list"

record http_response =
  hs_status :: int
  hs_headers :: "(string \<times> string) list"
  hs_body :: response_body

definition json_response :: "int \<Rightarrow> json \<Rightarrow> http_response" where
  "json_response status v =
    \<lparr>hs_status = status, hs_headers = [(''content-type'', ''application/json'')], hs_body = JsonBody v\<rparr>"

definition status_response :: "int \<Rightarrow> http_response" where
  "status_response status = \<lparr>hs_status = status, hs_headers = [], hs_body = NoBody\<rparr>"

definition error_json :: "api_error \<Rightarrow> json" where
  "error_json er = JObj ([(''code'', JStr (ae_code er)), (''retryable'', JBool (ae_retryable er)),
     (''requestId'', JStr (ae_request_id er))]
     @ (case ae_details er of None \<Rightarrow> [] | Some d \<Rightarrow> [(''details'', d)]))"

definition error_response :: "api_error \<Rightarrow> http_response" where
  "error_response er = json_response (ae_status er) (error_json er)"

definition auth_http_response :: "auth_response \<Rightarrow> http_response" where
  "auth_http_response x =
    (let base = (if as_status x = 204 then status_response 204 else json_response (as_status x) (as_body x)) in
     case as_cookie x of
       None \<Rightarrow> base
     | Some cookie \<Rightarrow> base\<lparr>hs_headers := hs_headers base @ [(''set-cookie'', cookie)]\<rparr>)"

definition length_header :: "int option \<Rightarrow> (string \<times> string) list" where
  "length_header n = (case n of None \<Rightarrow> [] | Some n \<Rightarrow> [(''content-length'', (if n < 0 then ''-'' else []) @ decimal (nat \<bar>n\<bar>))])"

definition payload_http_response :: "bool \<Rightarrow> payload_response \<Rightarrow> http_response" where
  "payload_http_response ranges x =
    \<lparr>hs_status = pr_status x,
     hs_headers = [(''content-type'', pr_media_type x)] @ (if ranges then [(''accept-ranges'', ''bytes'')] else [])
       @ length_header (pr_length x)
       @ (case pr_content_range x of None \<Rightarrow> [] | Some r \<Rightarrow> [(''content-range'', r)]),
     hs_body = ChunkBody (pr_chunks x)\<rparr>"

definition csv_response :: "string \<Rightarrow> http_response" where
  "csv_response body =
    \<lparr>hs_status = 200, hs_headers = [(''content-type'', ''text/csv; charset=utf-8''),
       (''content-disposition'', ''attachment; filename=\"audit-events.csv\"'')], hs_body = TextBody body\<rparr>"

subsection \<open>Extractors\<close>

text \<open>The handler of a result, and the four extractors with the answer to what they refuse.\<close>

definition h_map :: "('a \<Rightarrow> 'b) \<Rightarrow> ('w, 'a) handler \<Rightarrow> ('w, 'b) handler" where
  "h_map f m = h_bind m (\<lambda>x. h_return (f x))"

type_synonym 'w endpoint_handler = "('w, http_response) handler"

definition with_value :: "http_request \<Rightarrow> 'a option \<Rightarrow> ('a \<Rightarrow> 'w endpoint_handler) \<Rightarrow> 'w endpoint_handler" where
  "with_value r v k = h_bind (h_check (ok_or v (api_invalid (request_id_of (hr_headers r))))) k"

definition api_json :: "(json \<Rightarrow> 'a option) \<Rightarrow> http_request \<Rightarrow> ('a \<Rightarrow> 'w endpoint_handler) \<Rightarrow> 'w endpoint_handler" where
  "api_json f r k = with_value r (Option.bind (hr_json r) f) k"

definition api_limited_json ::
    "(json \<Rightarrow> 'a option) \<Rightarrow> http_request \<Rightarrow> ('a \<Rightarrow> 'w endpoint_handler) \<Rightarrow> 'w endpoint_handler" where
  "api_limited_json f r k = with_value r (Option.bind (hr_limited_json r) f) k"

text \<open>A query that does not decode is answered by the framework, in plain text.\<close>

definition query_rejection :: http_response where
  "query_rejection = \<lparr>hs_status = 400, hs_headers = [(''content-type'', ''text/plain; charset=utf-8'')],
     hs_body = TextBody ''Failed to deserialize query string''\<rparr>"

definition api_query ::
    "((string \<times> string) list \<Rightarrow> 'a option) \<Rightarrow> http_request \<Rightarrow> ('a \<Rightarrow> 'w endpoint_handler) \<Rightarrow> 'w endpoint_handler" where
  "api_query f r k =
    (case Option.bind (hr_query r) f of None \<Rightarrow> h_return query_rejection | Some q \<Rightarrow> k q)"

end
