(* ===== verification/Api_Router.thy ===== *)
theory Api_Router
  imports Api_Http Trends
begin

text \<open>
  The application (\<open>crates/api/src/lib.rs\<close>): the routes, the endpoint behind each with its
  extractors and the form of its answer, readiness, the counters in OpenMetrics, the header that
  keeps session answers out of caches, and the answers to unknown paths and methods. The
  endpoints are grouped by what they ask of the caller: a session of an account, a session of
  an administrator, or none.
\<close>

subsection \<open>Endpoints\<close>

datatype public_endpoint =
    Liveness | ReadinessCheck | Metrics | Openapi
  | LoginE | RefreshE | RegisterE | RegistrationStatus | AdminLoginE | AdminRefreshE | ActivateInvitation
  | WebLoginE | WebActivateInvitation | WebRefreshE | WebLogoutE

datatype account_endpoint =
    LogoutE | CurrentUser | ChangePassword
  | ListProjects | CreateProject | GetProject | RenameProject | DisableProject | PurgeProject
  | GetPayload | HeadPayload | PutPayload | BootstrapE | PullE | PushE | HistoryE | ObjectHistory
  | ListSnapshots | CreateSnapshot | CreateRestore | GetRestore | CancelRestore
  | ListDevices | RegisterDevice | UpdateDevice | RevokeDevice

datatype admin_endpoint =
    AdminLogoutE | AdminReauthE
  | AdminListUsers | AdminCreateUser | AdminListAllProjects | AdminListAllDevices
  | AdminListInvitations | CreateInvitation | AdminRevokeInvitation | AdminResendInvitation
  | DisableAccount | EnableAccount | PurgeAccount | GetRegistrationSettings | UpdateRegistrationSettings
  | AdminListProjects | AdminListDevices | AdminOverview | AdminHistoryMetadata | AdminCreateRestore
  | ReopenRestoreProject | AdminOperations | AdminTrends | AdminAuditEvents | AdminAuditEventsCsv

datatype endpoint = Public public_endpoint | Account account_endpoint | Administration admin_endpoint

subsection \<open>Routes\<close>

definition route_table :: "(string \<times> (string \<times> endpoint) list) list" where
  "route_table = [
    (''/health/live'', [(''GET'', Public Liveness)]),
    (''/health/ready'', [(''GET'', Public ReadinessCheck)]),
    (''/metrics'', [(''GET'', Public Metrics)]),
    (''/openapi.yaml'', [(''GET'', Public Openapi)]),
    (''/api/v1/openapi.yaml'', [(''GET'', Public Openapi)]),
    (''/api/v1/auth/login'', [(''POST'', Public LoginE)]),
    (''/api/v1/auth/refresh'', [(''POST'', Public RefreshE)]),
    (''/api/v1/auth/logout'', [(''POST'', Account LogoutE)]),
    (''/api/v1/auth/register'', [(''POST'', Public RegisterE)]),
    (''/api/v1/auth/registration-status'', [(''GET'', Public RegistrationStatus)]),
    (''/api/v1/admin/auth/login'', [(''POST'', Public AdminLoginE)]),
    (''/api/v1/admin/auth/refresh'', [(''POST'', Public AdminRefreshE)]),
    (''/api/v1/admin/auth/logout'', [(''POST'', Administration AdminLogoutE)]),
    (''/api/v1/admin/auth/re-auth'', [(''POST'', Administration AdminReauthE)]),
    (''/api/v1/auth/invitations/activate'', [(''POST'', Public ActivateInvitation)]),
    (''/api/v1/web/auth/login'', [(''POST'', Public WebLoginE)]),
    (''/api/v1/web/auth/invitations/activate'', [(''POST'', Public WebActivateInvitation)]),
    (''/api/v1/web/auth/refresh'', [(''POST'', Public WebRefreshE)]),
    (''/api/v1/web/auth/logout'', [(''POST'', Public WebLogoutE)]),
    (''/api/v1/me'', [(''GET'', Account CurrentUser)]),
    (''/api/v1/me/password'', [(''PATCH'', Account ChangePassword)]),
    (''/api/v1/projects'', [(''GET'', Account ListProjects), (''POST'', Account CreateProject)]),
    (''/api/v1/projects/{projectId}'', [(''GET'', Account GetProject), (''PATCH'', Account RenameProject)]),
    (''/api/v1/projects/{projectId}/disable'', [(''POST'', Account DisableProject)]),
    (''/api/v1/projects/{projectId}/purge'', [(''POST'', Account PurgeProject)]),
    (''/api/v1/projects/{projectId}/payloads/{contentHash}'',
       [(''GET'', Account GetPayload), (''HEAD'', Account HeadPayload), (''PUT'', Account PutPayload)]),
    (''/api/v1/projects/{projectId}/sync/bootstrap'', [(''POST'', Account BootstrapE)]),
    (''/api/v1/projects/{projectId}/sync/pull'', [(''POST'', Account PullE)]),
    (''/api/v1/projects/{projectId}/sync/push'', [(''POST'', Account PushE)]),
    (''/api/v1/projects/{projectId}/history'', [(''GET'', Account HistoryE)]),
    (''/api/v1/projects/{projectId}/objects/{kind}/{objectId}/history'', [(''GET'', Account ObjectHistory)]),
    (''/api/v1/projects/{projectId}/snapshots'', [(''GET'', Account ListSnapshots), (''POST'', Account CreateSnapshot)]),
    (''/api/v1/projects/{projectId}/restores'', [(''POST'', Account CreateRestore)]),
    (''/api/v1/projects/{projectId}/restores/{restoreId}'', [(''GET'', Account GetRestore)]),
    (''/api/v1/projects/{projectId}/restores/{restoreId}/cancel'', [(''POST'', Account CancelRestore)]),
    (''/api/v1/devices'', [(''GET'', Account ListDevices)]),
    (''/api/v1/devices/register'', [(''POST'', Account RegisterDevice)]),
    (''/api/v1/devices/{deviceId}'', [(''PATCH'', Account UpdateDevice)]),
    (''/api/v1/devices/{deviceId}/revoke'', [(''POST'', Account RevokeDevice)]),
    (''/api/v1/admin/users'', [(''GET'', Administration AdminListUsers), (''POST'', Administration AdminCreateUser)]),
    (''/api/v1/admin/projects'', [(''GET'', Administration AdminListAllProjects)]),
    (''/api/v1/admin/devices'', [(''GET'', Administration AdminListAllDevices)]),
    (''/api/v1/admin/invitations'',
       [(''GET'', Administration AdminListInvitations), (''POST'', Administration CreateInvitation)]),
    (''/api/v1/admin/invitations/{invitationId}/revoke'', [(''POST'', Administration AdminRevokeInvitation)]),
    (''/api/v1/admin/invitations/{invitationId}/resend'', [(''POST'', Administration AdminResendInvitation)]),
    (''/api/v1/admin/users/{userId}/disable'', [(''POST'', Administration DisableAccount)]),
    (''/api/v1/admin/users/{userId}/enable'', [(''POST'', Administration EnableAccount)]),
    (''/api/v1/admin/users/{userId}/purge'', [(''POST'', Administration PurgeAccount)]),
    (''/api/v1/admin/settings/registration'',
       [(''GET'', Administration GetRegistrationSettings), (''PUT'', Administration UpdateRegistrationSettings)]),
    (''/api/v1/admin/users/{userId}/projects'', [(''GET'', Administration AdminListProjects)]),
    (''/api/v1/admin/users/{userId}/devices'', [(''GET'', Administration AdminListDevices)]),
    (''/api/v1/admin/overview'', [(''GET'', Administration AdminOverview)]),
    (''/api/v1/admin/projects/{projectId}/history-metadata'', [(''GET'', Administration AdminHistoryMetadata)]),
    (''/api/v1/admin/projects/{projectId}/restores'', [(''POST'', Administration AdminCreateRestore)]),
    (''/api/v1/admin/projects/{projectId}/restore-reopen'', [(''POST'', Administration ReopenRestoreProject)]),
    (''/api/v1/admin/operations'', [(''GET'', Administration AdminOperations)]),
    (''/api/v1/admin/metrics/trends'', [(''GET'', Administration AdminTrends)]),
    (''/api/v1/admin/audit-events'', [(''GET'', Administration AdminAuditEvents)]),
    (''/api/v1/admin/audit-events.csv'', [(''GET'', Administration AdminAuditEventsCsv)])]"

text \<open>
  How \<open>axum\<close> picks a route: segment by segment, a parameter matches any segment that is not
  empty, and a literal segment is preferred to a parameter at the same place.
\<close>

definition is_param :: "string \<Rightarrow> bool" where
  "is_param seg \<longleftrightarrow> (case seg of [] \<Rightarrow> False | c # _ \<Rightarrow> c = CHR ''{'')"

fun match_segments :: "string list \<Rightarrow> string list \<Rightarrow> string list option" where
  "match_segments [] [] = Some []"
| "match_segments (p # ps) (s # ss) =
    (if is_param p then (if s = [] then None else map_option ((#) s) (match_segments ps ss))
     else if p = s then match_segments ps ss else None)"
| "match_segments _ _ = None"

definition path_segments :: "string \<Rightarrow> string list" where
  "path_segments path = split_on (CHR ''/'') path"

fun more_literal :: "string list \<Rightarrow> string list \<Rightarrow> bool" where
  "more_literal (p # ps) (q # qs) =
    (if is_param p = is_param q then more_literal ps qs else is_param q)"
| "more_literal _ _ = False"

definition candidates :: "(string \<times> 'm) list \<Rightarrow> string list \<Rightarrow> (string \<times> 'm) list" where
  "candidates table segments = filter (\<lambda>(pattern, _). match_segments (path_segments pattern) segments \<noteq> None) table"

definition best_route :: "(string \<times> 'm) list \<Rightarrow> string list \<Rightarrow> (string \<times> 'm) option" where
  "best_route table segments =
    (let cs = candidates table segments in
     List.find (\<lambda>c. \<not> list_ex (\<lambda>d. more_literal (path_segments (fst d)) (path_segments (fst c))) cs) cs)"

datatype routed = Unrouted | WrongMethod "string list" | Routed endpoint "string list"

text \<open>A route that answers GET answers HEAD, unless it has an endpoint of its own for it.\<close>

definition method_endpoint :: "string \<Rightarrow> (string \<times> endpoint) list \<Rightarrow> endpoint option" where
  "method_endpoint verb endpoints =
    (case map_of endpoints verb of
       Some e \<Rightarrow> Some e
     | None \<Rightarrow> if verb = ''HEAD'' then map_of endpoints ''GET'' else None)"

definition route_request :: "string \<Rightarrow> string \<Rightarrow> routed" where
  "route_request verb path =
    (let segments = path_segments path in
     case best_route route_table segments of
       None \<Rightarrow> Unrouted
     | Some (pattern, endpoints) \<Rightarrow>
         (case (method_endpoint verb endpoints, match_segments (path_segments pattern) segments) of
            (Some e, Some args) \<Rightarrow> Routed e args
          | _ \<Rightarrow> WrongMethod (map fst endpoints)))"

subsection \<open>Readiness and metrics\<close>

text \<open>
  The process with what only this layer needs: the temporary file of an upload, the measured time
  of a push, the decoding of a path segment, the identity column and the text of a time in the
  audit trail, the number of a value in hundredths, the contract, and the two requests that ask
  the object store for its bucket.
\<close>

record 'w api_process =
  px_rt :: "'w api_runtime"
  px_auth :: auth_service
  px_temp :: temp_file_io
  px_latency :: "int option"
  px_decode_segment :: "string \<Rightarrow> string option"
  px_audit_id :: "audit_row \<Rightarrow> int"
  px_show_time :: "instant \<Rightarrow> string"
  px_hundredths :: "int \<Rightarrow> json"
  px_contract :: string
  px_head_bucket :: "'w \<Rightarrow> bool"
  px_create_bucket :: "'w \<Rightarrow> 'w \<times> bool"

definition schema_is_ready :: "db \<Rightarrow> bool" where
  "schema_is_ready s \<longleftrightarrow> list_ex (\<lambda>x. st_key x = ''identity_schema_version'') (instance_settings s)"

definition object_store_is_ready :: "('w \<Rightarrow> bool) \<Rightarrow> ('w \<Rightarrow> 'w \<times> bool) \<Rightarrow> 'w \<Rightarrow> 'w \<times> bool" where
  "object_store_is_ready head_bucket create_bucket st =
    (if head_bucket st then (st, True) else create_bucket st)"

record readiness_snapshot =
  rs_database :: bool
  rs_object_store :: bool

definition is_ready :: "readiness_snapshot \<Rightarrow> bool" where
  "is_ready r \<longleftrightarrow> rs_database r \<and> rs_object_store r"

definition check_readiness :: "'w api_process \<Rightarrow> ('w, readiness_snapshot) handler" where
  "check_readiness px =
    h_bind (if ar_has_database (px_rt px)
            then h_query (px_rt px) (\<lambda>er. map_persistence er []) (\<lambda>s. Inr (schema_is_ready s)) else h_return False) (\<lambda>database.
    h_bind (if ar_has_store (px_rt px)
            then h_store (px_rt px) [] (\<lambda>_ st. case object_store_is_ready (px_head_bucket px) (px_create_bucket px) st of
                   (st1, ok) \<Rightarrow> (st1, Inr ok))
            else h_return False) (\<lambda>object_store.
    h_return \<lparr>rs_database = database, rs_object_store = object_store\<rparr>))"

definition health_json :: "string \<Rightarrow> bool option \<Rightarrow> bool option \<Rightarrow> json" where
  "health_json status database object_store =
    JObj [(''status'', JStr status), (''database'', json_opt JBool database), (''objectStore'', json_opt JBool object_store)]"

definition liveness_response :: http_response where
  "liveness_response = json_response 200 (health_json ''live'' None None)"

definition readiness_response :: "readiness_snapshot \<Rightarrow> http_response" where
  "readiness_response r = json_response (if is_ready r then 200 else 503)
     (health_json (if is_ready r then ''ready'' else ''notReady'') (Some (rs_database r)) (Some (rs_object_store r)))"

definition openmetrics_counter :: "string \<Rightarrow> int \<Rightarrow> string" where
  "openmetrics_counter name n =
    ''# TYPE '' @ name @ '' counter'' @ [CHR 0x0A] @ name @ '' '' @ decimal (nat n) @ [CHR 0x0A]"

definition openmetrics :: "api_metrics \<Rightarrow> string" where
  "openmetrics m =
    openmetrics_counter ''sync_pull_total'' (mt_sync_pull m)
    @ openmetrics_counter ''sync_push_total'' (mt_sync_push m)
    @ openmetrics_counter ''sync_conflict_total'' (mt_sync_conflict m)
    @ openmetrics_counter ''payload_upload_bytes_total'' (mt_upload_bytes m)
    @ openmetrics_counter ''payload_download_bytes_total'' (mt_download_bytes m)
    @ openmetrics_counter ''restore_job_total'' (mt_restore_jobs m)
    @ ''# EOF'' @ [CHR 0x0A]"

definition metrics_handler :: "'w endpoint_handler" where
  "metrics_handler w = (w, Inr \<lparr>hs_status = 200,
     hs_headers = [(''content-type'', ''application/openmetrics-text; version=1.0.0; charset=utf-8'')],
     hs_body = TextBody (openmetrics (aw_metrics w))\<rparr>)"

definition openapi_response :: "'w api_process \<Rightarrow> http_response" where
  "openapi_response px = \<lparr>hs_status = 200, hs_headers = [(''content-type'', ''application/yaml; charset=utf-8'')],
     hs_body = TextBody (px_contract px)\<rparr>"

subsection \<open>Path parameters\<close>

definition px_uuid :: "'w api_process \<Rightarrow> string \<Rightarrow> uuid option" where
  "px_uuid px seg = Option.bind (px_decode_segment px seg) (ar_parse_uuid (px_rt px))"

definition path_uuid :: "'w api_process \<Rightarrow> string list \<Rightarrow> uuid option" where
  "path_uuid px args = (case args of [a] \<Rightarrow> px_uuid px a | _ \<Rightarrow> None)"

definition path_two_uuids :: "'w api_process \<Rightarrow> string list \<Rightarrow> (uuid \<times> uuid) option" where
  "path_two_uuids px args =
    (case args of [a, b] \<Rightarrow> do { x \<leftarrow> px_uuid px a; y \<leftarrow> px_uuid px b; Some (x, y) } | _ \<Rightarrow> None)"

definition path_uuid_text :: "'w api_process \<Rightarrow> string list \<Rightarrow> (uuid \<times> string) option" where
  "path_uuid_text px args =
    (case args of [a, b] \<Rightarrow> do { x \<leftarrow> px_uuid px a; y \<leftarrow> px_decode_segment px b; Some (x, y) } | _ \<Rightarrow> None)"

definition path_uuid_two_texts :: "'w api_process \<Rightarrow> string list \<Rightarrow> (uuid \<times> string \<times> string) option" where
  "path_uuid_two_texts px args =
    (case args of
       [a, b, c] \<Rightarrow> do { x \<leftarrow> px_uuid px a; y \<leftarrow> px_decode_segment px b; z \<leftarrow> px_decode_segment px c; Some (x, y, z) }
     | _ \<Rightarrow> None)"

subsection \<open>The endpoints of an account\<close>

definition respond_json :: "int \<Rightarrow> ('a \<Rightarrow> json) \<Rightarrow> ('w, 'a) handler \<Rightarrow> 'w endpoint_handler" where
  "respond_json status f m = h_map (\<lambda>x. json_response status (f x)) m"

definition push_bytes :: "'w api_process \<Rightarrow> push_request \<Rightarrow> bytes" where
  "push_bytes px request = ar_to_vec (px_rt px) (push_request_json (ar_show_time (px_rt px)) request)"

fun serve_account :: "'w api_process \<Rightarrow> account_endpoint \<Rightarrow> string list \<Rightarrow> http_request \<Rightarrow> 'w endpoint_handler" where
  "serve_account px LogoutE args r = h_map auth_http_response (logout_handler (px_rt px) (hr_headers r))"
| "serve_account px CurrentUser args r =
    respond_json 200 current_user_json (current_user_handler (px_rt px) (hr_headers r))"
| "serve_account px ChangePassword args r =
    api_json password_change_of r (\<lambda>(current, new).
      h_map auth_http_response (change_password_handler (px_rt px) (px_auth px) (hr_headers r) current new))"
| "serve_account px ListProjects args r =
    respond_json 200 (items_json project_json) (list_projects_handler (px_rt px) (hr_headers r))"
| "serve_account px CreateProject args r =
    api_json project_request_of r (\<lambda>name.
      respond_json 201 project_json (create_project_handler (px_rt px) (hr_headers r) name))"
| "serve_account px GetProject args r =
    with_value r (path_uuid px args) (\<lambda>p.
      respond_json 200 project_json (get_project_handler (px_rt px) (hr_headers r) p))"
| "serve_account px RenameProject args r =
    with_value r (path_uuid px args) (\<lambda>p. api_json project_request_of r (\<lambda>name.
      respond_json 200 project_json (rename_project_handler (px_rt px) (hr_headers r) p name)))"
| "serve_account px DisableProject args r =
    with_value r (path_uuid px args) (\<lambda>p.
      respond_json 200 project_json (disable_project_handler (px_rt px) (hr_headers r) p))"
| "serve_account px PurgeProject args r =
    with_value r (path_uuid px args) (\<lambda>p. api_json purge_project_request_of r (\<lambda>(password, reason).
      respond_json 202 job_json (purge_project_handler (px_rt px) (px_auth px) (hr_headers r) p password reason)))"
| "serve_account px GetPayload args r =
    with_value r (path_uuid_text px args) (\<lambda>(p, h).
      h_map (payload_http_response True) (get_payload_handler (px_rt px) (hr_headers r) p h))"
| "serve_account px HeadPayload args r =
    with_value r (path_uuid_text px args) (\<lambda>(p, h).
      h_map (payload_http_response False) (head_payload_handler (px_rt px) (hr_headers r) p h))"
| "serve_account px PutPayload args r =
    with_value r (path_uuid_text px args) (\<lambda>(p, h).
      h_map (\<lambda>_. status_response 201) (put_payload_handler (px_rt px) (px_temp px) (hr_headers r) p h (hr_chunks r)))"
| "serve_account px BootstrapE args r =
    with_value r (path_uuid px args) (\<lambda>p. api_json page_request_of r (\<lambda>request.
      respond_json 200 id (bootstrap_handler (px_rt px) (hr_headers r) p request)))"
| "serve_account px PullE args r =
    with_value r (path_uuid px args) (\<lambda>p. api_json pull_request_of r (\<lambda>request.
      respond_json 200 id (pull_handler (px_rt px) (hr_headers r) p request)))"
| "serve_account px PushE args r =
    with_value r (path_uuid px args) (\<lambda>p. api_limited_json (push_request_of (ar_parse_uuid (px_rt px)) (ar_read_time (px_rt px))) r (\<lambda>request.
      respond_json 200 id (push_handler (push_bytes px) (px_rt px) (px_latency px) (hr_headers r) p request)))"
| "serve_account px HistoryE args r =
    with_value r (path_uuid px args) (\<lambda>p. api_query history_query_of r (\<lambda>query.
      respond_json 200 id (history_handler (px_rt px) (hr_headers r) p query)))"
| "serve_account px ObjectHistory args r =
    with_value r (path_uuid_two_texts px args) (\<lambda>(p, kind, i). api_query history_query_of r (\<lambda>query.
      respond_json 200 id (object_history_handler (px_rt px) (hr_headers r) p kind i query)))"
| "serve_account px ListSnapshots args r =
    with_value r (path_uuid px args) (\<lambda>p.
      respond_json 200 (items_json snapshot_record_json) (list_snapshots_handler (px_rt px) (hr_headers r) p))"
| "serve_account px CreateSnapshot args r =
    with_value r (path_uuid px args) (\<lambda>p.
      respond_json 201 snapshot_record_json (create_snapshot_handler (px_rt px) (hr_headers r) p))"
| "serve_account px CreateRestore args r =
    with_value r (path_uuid px args) (\<lambda>p. api_json (restore_request_of (ar_parse_uuid (px_rt px))) r (\<lambda>request.
      respond_json 202 restore_json (create_restore_handler (px_rt px) (hr_headers r) p request)))"
| "serve_account px GetRestore args r =
    with_value r (path_two_uuids px args) (\<lambda>(p, j).
      respond_json 200 restore_json (get_restore_handler (px_rt px) (hr_headers r) p j))"
| "serve_account px CancelRestore args r =
    with_value r (path_two_uuids px args) (\<lambda>(p, j). api_json reason_request_of r (\<lambda>reason.
      respond_json 200 restore_json (cancel_restore_handler (px_rt px) (hr_headers r) p j reason)))"
| "serve_account px ListDevices args r =
    respond_json 200 (items_json device_record_json) (list_devices_handler (px_rt px) (hr_headers r))"
| "serve_account px RegisterDevice args r =
    api_json (register_device_request_of (ar_parse_uuid (px_rt px))) r (\<lambda>request.
      respond_json 201 device_record_json (register_device_handler (px_rt px) (hr_headers r) request))"
| "serve_account px UpdateDevice args r =
    with_value r (path_uuid px args) (\<lambda>d. api_json update_device_request_of r (\<lambda>name.
      respond_json 200 device_record_json (update_device_handler (px_rt px) (hr_headers r) d name)))"
| "serve_account px RevokeDevice args r =
    with_value r (path_uuid px args) (\<lambda>d.
      respond_json 200 device_record_json (revoke_device_handler (px_rt px) (hr_headers r) d))"

subsection \<open>The endpoints of an administrator\<close>

definition trend_json :: "(int \<Rightarrow> json) \<Rightarrow> trend_point \<Rightarrow> json" where
  "trend_json hundredths t = JObj [(''day'', JTime (tp_day t)), (''attempts'', JNum (int (tp_attempts t))),
     (''succeeded'', JNum (int (tp_succeeded t))), (''conflicts'', JNum (int (tp_conflicts t))),
     (''p50LatencyMs'', json_opt hundredths (tp_p50 t)), (''p99LatencyMs'', json_opt hundredths (tp_p99 t))]"

definition trends_json :: "(int \<Rightarrow> json) \<Rightarrow> trend_point list \<times> int \<Rightarrow> json" where
  "trends_json hundredths x =
    JObj [(''items'', JArr (map (trend_json hundredths) (fst x))), (''days'', JNum (snd x))]"

definition trend_query_of :: "(string \<times> string) list \<Rightarrow> int option option" where
  "trend_query_of ps =
    (if \<not> known_pairs [''days''] ps then None
     else (case map_of ps ''days'' of None \<Rightarrow> Some None
           | Some v \<Rightarrow> map_option Some (parse_int (- i32_max - 1) i32_max v)))"

fun serve_admin :: "'w api_process \<Rightarrow> admin_endpoint \<Rightarrow> string list \<Rightarrow> http_request \<Rightarrow> 'w endpoint_handler" where
  "serve_admin px AdminLogoutE args r = h_map auth_http_response (admin_logout_handler (px_rt px) (hr_headers r))"
| "serve_admin px AdminReauthE args r =
    api_json reauth_request_of r (\<lambda>password.
      respond_json 200 reauth_json (admin_reauth_handler (px_rt px) (px_auth px) (hr_headers r) password))"
| "serve_admin px AdminListUsers args r =
    api_query page_query_of r (\<lambda>(limit, offset).
      respond_json 200 (listing_json user_json) (admin_list_users_handler (px_rt px) (hr_headers r) limit offset))"
| "serve_admin px AdminCreateUser args r =
    api_json admin_create_user_request_of r (\<lambda>(email, password).
      respond_json 201 current_user_json (admin_create_user_handler (px_rt px) (px_auth px) (hr_headers r) email password))"
| "serve_admin px AdminListAllProjects args r =
    api_query project_query_of r (\<lambda>(limit, offset, search).
      respond_json 200 (listing_json project_json) (admin_list_all_projects_handler (px_rt px) (hr_headers r) limit offset search))"
| "serve_admin px AdminListAllDevices args r =
    api_query page_query_of r (\<lambda>(limit, offset).
      respond_json 200 (listing_json device_record_json) (admin_list_all_devices_handler (px_rt px) (hr_headers r) limit offset))"
| "serve_admin px AdminListInvitations args r =
    api_query page_query_of r (\<lambda>(limit, offset).
      respond_json 200 (listing_json invitation_json) (admin_list_invitations_handler (px_rt px) (hr_headers r) limit offset))"
| "serve_admin px CreateInvitation args r =
    api_json create_invitation_request_of r (\<lambda>email.
      respond_json 201 created_invitation_json (create_invitation_handler (px_rt px) (px_auth px) (hr_headers r) email))"
| "serve_admin px AdminRevokeInvitation args r =
    with_value r (path_uuid px args) (\<lambda>i. api_json reason_request_of r (\<lambda>reason.
      h_map auth_http_response (admin_revoke_invitation_handler (px_rt px) (hr_headers r) i reason)))"
| "serve_admin px AdminResendInvitation args r =
    with_value r (path_uuid px args) (\<lambda>i.
      respond_json 200 created_invitation_json (admin_resend_invitation_handler (px_rt px) (px_auth px) (hr_headers r) i))"
| "serve_admin px DisableAccount args r =
    with_value r (path_uuid px args) (\<lambda>u. api_json account_status_request_of r (\<lambda>reason.
      h_map auth_http_response (disable_account_handler (px_rt px) (hr_headers r) u reason)))"
| "serve_admin px EnableAccount args r =
    with_value r (path_uuid px args) (\<lambda>u. api_json account_status_request_of r (\<lambda>reason.
      h_map auth_http_response (enable_account_handler (px_rt px) (hr_headers r) u reason)))"
| "serve_admin px PurgeAccount args r =
    with_value r (path_uuid px args) (\<lambda>u. api_json (account_purge_request_of (ar_parse_uuid (px_rt px))) r (\<lambda>request.
      respond_json 202 account_purge_json (purge_account_handler (px_rt px) (px_auth px) (hr_headers r) u request)))"
| "serve_admin px GetRegistrationSettings args r =
    respond_json 200 settings_json (get_registration_settings_handler (px_rt px) (hr_headers r))"
| "serve_admin px UpdateRegistrationSettings args r =
    api_json registration_settings_of r (\<lambda>enabled.
      respond_json 200 settings_json (update_registration_settings_handler (px_rt px) (hr_headers r) enabled))"
| "serve_admin px AdminListProjects args r =
    with_value r (path_uuid px args) (\<lambda>u. api_query page_query_of r (\<lambda>(limit, offset).
      respond_json 200 (listing_json project_json) (admin_list_projects_handler (px_rt px) (hr_headers r) u limit offset)))"
| "serve_admin px AdminListDevices args r =
    with_value r (path_uuid px args) (\<lambda>u. api_query page_query_of r (\<lambda>(limit, offset).
      respond_json 200 (listing_json device_record_json) (admin_list_devices_handler (px_rt px) (hr_headers r) u limit offset)))"
| "serve_admin px AdminOverview args r =
    respond_json 200 overview_json (admin_overview_handler (px_rt px) (hr_headers r))"
| "serve_admin px AdminHistoryMetadata args r =
    with_value r (path_uuid px args) (\<lambda>p. api_query history_query_of r (\<lambda>query.
      respond_json 200 history_page_json
        (admin_history_handler (px_rt px) (hr_headers r) p (hq_limit query) (hq_after_sequence query))))"
| "serve_admin px AdminCreateRestore args r =
    with_value r (path_uuid px args) (\<lambda>p. api_json (restore_request_of (ar_parse_uuid (px_rt px))) r (\<lambda>request.
      respond_json 202 restore_json (admin_create_restore_handler (px_rt px) (hr_headers r) p request)))"
| "serve_admin px ReopenRestoreProject args r =
    with_value r (path_uuid px args) (\<lambda>p. api_json reason_request_of r (\<lambda>reason.
      h_map auth_http_response (reopen_restore_project_handler (px_rt px) (hr_headers r) p reason)))"
| "serve_admin px AdminOperations args r =
    api_query page_query_of r (\<lambda>(limit, offset).
      respond_json 200 (listing_json operation_json) (admin_operations_handler (px_rt px) (hr_headers r) limit offset))"
| "serve_admin px AdminTrends args r =
    api_query trend_query_of r (\<lambda>requested_days.
      respond_json 200 (trends_json (px_hundredths px)) (admin_trends_handler (px_rt px) (hr_headers r) requested_days))"
| "serve_admin px AdminAuditEvents args r =
    api_query audit_query_of r (\<lambda>(limit, offset, action).
      respond_json 200 (listing_json (audit_event_json (px_audit_id px)))
        (admin_audit_events_handler (px_rt px) (hr_headers r) limit offset action))"
| "serve_admin px AdminAuditEventsCsv args r =
    api_query audit_query_of r (\<lambda>(limit, offset, action).
      h_map csv_response (admin_audit_events_csv_handler (\<lambda>a. decimal (nat (px_audit_id px a))) (px_show_time px)
        (px_rt px) (hr_headers r) action))"

subsection \<open>The endpoints without a session\<close>

fun serve_public :: "'w api_process \<Rightarrow> public_endpoint \<Rightarrow> http_request \<Rightarrow> 'w endpoint_handler" where
  "serve_public px Liveness r = h_return liveness_response"
| "serve_public px ReadinessCheck r = h_map readiness_response (check_readiness px)"
| "serve_public px Metrics r = metrics_handler"
| "serve_public px Openapi r = h_return (openapi_response px)"
| "serve_public px LoginE r =
    api_json (login_request_of (ar_parse_uuid (px_rt px))) r (\<lambda>request.
      h_map auth_http_response (login_handler (px_rt px) (px_auth px) (hr_headers r) request))"
| "serve_public px RefreshE r =
    api_json refresh_request_of r (\<lambda>token.
      h_map auth_http_response (refresh_handler (px_rt px) (px_auth px) (hr_headers r) token))"
| "serve_public px RegisterE r =
    api_json register_request_of r (\<lambda>(email, password).
      h_map auth_http_response (register_handler (px_rt px) (px_auth px) (hr_headers r) email password))"
| "serve_public px RegistrationStatus r =
    respond_json 200 settings_json (registration_status_handler (px_rt px) (hr_headers r))"
| "serve_public px AdminLoginE r =
    api_json (login_request_of (ar_parse_uuid (px_rt px))) r (\<lambda>request.
      h_map auth_http_response (admin_login_handler (px_rt px) (px_auth px) (hr_headers r) request))"
| "serve_public px AdminRefreshE r = h_map auth_http_response (admin_refresh_handler (px_rt px) (px_auth px) (hr_headers r))"
| "serve_public px ActivateInvitation r =
    api_json (activation_request_of (ar_parse_uuid (px_rt px))) r (\<lambda>request.
      h_map auth_http_response (activate_invitation_handler (px_rt px) (px_auth px) (hr_headers r) request))"
| "serve_public px WebLoginE r =
    api_json (login_request_of (ar_parse_uuid (px_rt px))) r (\<lambda>request.
      h_map auth_http_response (web_login_handler (px_rt px) (px_auth px) (hr_headers r) request))"
| "serve_public px WebActivateInvitation r =
    api_json (activation_request_of (ar_parse_uuid (px_rt px))) r (\<lambda>request.
      h_map auth_http_response (web_activate_invitation_handler (px_rt px) (px_auth px) (hr_headers r) request))"
| "serve_public px WebRefreshE r = h_map auth_http_response (web_refresh_handler (px_rt px) (px_auth px) (hr_headers r))"
| "serve_public px WebLogoutE r = h_map auth_http_response (web_logout_handler (px_rt px) (px_auth px) (hr_headers r))"

subsection \<open>The application\<close>

definition plain_error :: "int \<Rightarrow> string \<Rightarrow> bool \<Rightarrow> headers \<Rightarrow> http_response" where
  "plain_error status code retryable hs =
    json_response status (JObj [(''code'', JStr code), (''retryable'', JBool retryable), (''requestId'', JStr (request_id_of hs))])"

definition not_found_response :: "headers \<Rightarrow> http_response" where
  "not_found_response hs = plain_error 404 ''NOT_FOUND'' False hs"

definition timeout_response :: "headers \<Rightarrow> http_response" where
  "timeout_response hs = plain_error 408 ''REQUEST_TIMEOUT'' True hs"

definition wrong_method_response :: "string list \<Rightarrow> http_response" where
  "wrong_method_response verbs =
    \<lparr>hs_status = 405, hs_headers = [(''allow'', join_fields (remdups
        (concat (map (\<lambda>m. if m = ''GET'' then [''GET'', ''HEAD''] else [m]) verbs))))], hs_body = NoBody\<rparr>"

text \<open>\<open>HeaderMap::insert\<close> replaces.\<close>

definition insert_header :: "string \<Rightarrow> string \<Rightarrow> http_response \<Rightarrow> http_response" where
  "insert_header name v x = x\<lparr>hs_headers := filter (\<lambda>h. fst h \<noteq> name) (hs_headers x) @ [(name, v)]\<rparr>"

definition web_auth_prefix :: string where
  "web_auth_prefix = ''/api/v1/web/auth''"

definition no_store_auth_responses :: "string \<Rightarrow> http_response \<Rightarrow> http_response" where
  "no_store_auth_responses path x =
    (if starts_with (web_auth_prefix @ ''/'') path then insert_header ''cache-control'' ''no-store'' x else x)"

definition without_body :: "string \<Rightarrow> http_response \<Rightarrow> http_response" where
  "without_body verb x = (if verb = ''HEAD'' then x\<lparr>hs_body := NoBody\<rparr> else x)"

definition serve_endpoint :: "'w api_process \<Rightarrow> endpoint \<Rightarrow> string list \<Rightarrow> http_request \<Rightarrow> 'w endpoint_handler" where
  "serve_endpoint px e args r =
    (case e of
       Public pe \<Rightarrow> serve_public px pe r
     | Account ae \<Rightarrow> serve_account px ae args r
     | Administration de \<Rightarrow> serve_admin px de args r)"

definition finish_response :: "api_error + http_response \<Rightarrow> http_response" where
  "finish_response x = (case x of Inl er \<Rightarrow> error_response er | Inr y \<Rightarrow> y)"

text \<open>
  One request, which the outermost layer has given an \<open>x-request-id\<close> and a handler finishes in
  time. The header comes back with the answer.
\<close>

definition serve :: "'w api_process \<Rightarrow> http_request \<Rightarrow> 'w api_world \<Rightarrow> 'w api_world \<times> http_response" where
  "serve px r w =
    (let (w1, x) =
       (case route_request (hr_method r) (hr_path r) of
          Unrouted \<Rightarrow> (w, not_found_response (hr_headers r))
        | WrongMethod verbs \<Rightarrow> (w, no_store_auth_responses (hr_path r) (wrong_method_response verbs))
        | Routed e args \<Rightarrow>
            (case serve_endpoint px e args r w of
               (w1, y) \<Rightarrow> (w1, no_store_auth_responses (hr_path r) (finish_response y)))) in
     (w1, without_body (hr_method r) (case map_of (hr_headers r) ''x-request-id'' of
        None \<Rightarrow> x | Some v \<Rightarrow> insert_header ''x-request-id'' v x)))"

end
