(* ===== verification/Isolation.thy ===== *)
theory Isolation
  imports Tenancy Api_Router
begin

text \<open>
  What the sessions of the HTTP interface guarantee: an endpoint that asks for a session refuses
  every other request and has no effect, a request of one account leaves every other account as it
  was, and what an account reads depends on its own rows only.
\<close>

subsection \<open>Requests and sessions\<close>

definition caller :: "'w api_process \<Rightarrow> http_request \<Rightarrow> access_claims option" where
  "caller px r = Option.bind (bearer_token (hr_headers r)) (ar_decode_token (px_rt px))"

text \<open>
  A session of a role: the token decodes to claims with the role, the account is active and has it,
  and the device is one of the account's that is not revoked.
\<close>

definition has_session :: "string \<Rightarrow> 'w api_process \<Rightarrow> http_request \<Rightarrow> db \<Rightarrow> bool" where
  "has_session role px r s \<longleftrightarrow>
    (case caller px r of
       None \<Rightarrow> False
     | Some c \<Rightarrow> ac_role c = role
         \<and> (case lock_active_user (ac_sub c) s of Inl _ \<Rightarrow> False | Inr u \<Rightarrow> role_as_str (u_role u) = role)
         \<and> ensure_existing_device (ac_sub c) (ac_device c) s = Inr ())"

definition required_role :: "endpoint \<Rightarrow> string option" where
  "required_role e =
    (case e of Public _ \<Rightarrow> None | Account _ \<Rightarrow> Some ''user'' | Administration _ \<Rightarrow> Some ''system_admin'')"

subsection \<open>Refusals\<close>

text \<open>All that a refused request may leave behind is when the device was last seen.\<close>

definition only_seen :: "'w api_world \<Rightarrow> 'w api_world \<Rightarrow> bool" where
  "only_seen w w' \<longleftrightarrow> (\<exists>P e n. w' = w\<lparr>aw_db := (aw_db w)\<lparr>devices := update_where P (touch_seen e) (devices (aw_db w))\<rparr>,
     aw_steps := n\<rparr>)"

definition error_statuses :: "'a api \<Rightarrow> bool" where
  "error_statuses c \<longleftrightarrow> (\<forall>er. c = Inl er \<longrightarrow> 400 \<le> ae_status er)"

definition refuses :: "'w api_world \<Rightarrow> ('w, 'a) handler \<Rightarrow> bool" where
  "refuses w h \<longleftrightarrow> (\<exists>w' er. h w = (w', Inl er) \<and> only_seen w w' \<and> 400 \<le> ae_status er)"

named_theorems refuses_intros

lemma only_seen_refl: "only_seen w w"
  unfolding only_seen_def
  by (rule exI [of _ "\<lambda>_. False"], rule exI, rule exI [of _ "aw_steps w"]) (simp add: update_where_none)

lemma only_seen_same: "s = aw_db w \<Longrightarrow> only_seen w (w\<lparr>aw_db := s, aw_steps := n\<rparr>)"
  unfolding only_seen_def
  by (rule exI [of _ "\<lambda>_. False"], rule exI, rule exI [of _ n]) (simp add: update_where_none)

lemma refuses_fail [refuses_intros]: "400 \<le> ae_status er \<Longrightarrow> refuses w (h_fail er)"
  by (simp add: refuses_def only_seen_refl)

lemma refuses_check [refuses_intros]:
  "error_statuses c \<Longrightarrow> (\<And>x. refuses w (f x)) \<Longrightarrow> refuses w (h_bind (h_check c) f)"
  by (cases c) (auto simp: refuses_def h_bind_def only_seen_refl error_statuses_def)

lemma refuses_bind [refuses_intros]: "refuses w m \<Longrightarrow> refuses w (h_bind m f)"
  by (auto simp: refuses_def h_bind_def)

lemma map_persistence_status: "400 \<le> ae_status (map_persistence er i)"
  by (cases er) (simp_all add: api_error_new_def account_disabled_def api_authentication_def api_invalid_def
      api_authorization_def api_internal_def with_details_def map_idempotency_replay_def Let_def)

text \<open>Without a session the authentication fails, having touched the device at most.\<close>

lemma validate_access_refused:
  "validate_access e u d role s = (s', Inl er) \<Longrightarrow> s' = s"
  by (auto simp: validate_access_def split: sum.splits)

lemma validate_access_granted:
  assumes "validate_access e u d role s = (s', Inr ())"
  shows "s' = s\<lparr>devices := update_where (\<lambda>x. d_id x = d) (touch_seen e) (devices s)\<rparr>"
    and "\<exists>user. lock_active_user u s = Inr user \<and> role_as_str (u_role user) = role"
    and "ensure_existing_device u d s = Inr ()"
  using assms by (auto simp: validate_access_def try_bind_eq_Inr split: sum.splits if_splits)

lemma authenticate_refuses:
  assumes "undisturbed (px_rt px)" and "\<not> has_session role px r (aw_db w)"
  shows "refuses w (authenticate_role role (px_rt px) (hr_headers r) i)"
proof -
  let ?rt = "px_rt px"
  show ?thesis
  proof (cases "services ?rt i")
    case (Inl er)
    then have "er = api_unavailable i" by (auto simp: services_def check_def split: if_splits)
    with Inl show ?thesis
      by (simp add: authenticate_role_def authenticate_access_def h_bind_def refuses_def only_seen_refl
          api_unavailable_def api_error_new_def)
  next
    case (Inr x)
    show ?thesis
    proof (cases "caller px r")
      case None
      with Inr show ?thesis
        by (simp add: authenticate_role_def authenticate_access_def h_bind_def refuses_def only_seen_refl caller_def
            api_authentication_def api_error_new_def ok_or_def)
    next
      case (Some c)
      obtain s' res where v: "validate_access (ar_clock ?rt (aw_steps w)) (ac_sub c) (ac_device c) (ac_role c) (aw_db w) = (s', res)"
        by (metis surj_pair)
      have db: "h_db ?rt er (\<lambda>e _. validate_access e (ac_sub c) (ac_device c) (ac_role c)) w
        = (w\<lparr>aw_db := s', aw_steps := Suc (aw_steps w)\<rparr>, map_sum er id res)" for er
        using h_db_run [where t = "\<lambda>e _. validate_access e (ac_sub c) (ac_device c) (ac_role c)", OF assms(1) v] .
      have claims: "ok_or (Option.bind (bearer_token (hr_headers r)) (ar_decode_token ?rt)) (api_authentication i) = Inr c"
        using Some by (simp add: caller_def)
      show ?thesis
      proof (cases res)
        case (Inl er)
        then have "s' = aw_db w" using v validate_access_refused by blast
        then have "only_seen w (w\<lparr>aw_db := s', aw_steps := Suc (aw_steps w)\<rparr>)" by (rule only_seen_same)
        with Inr Inl claims db show ?thesis
          by (simp add: authenticate_role_def authenticate_access_def h_bind_def refuses_def map_persistence_status)
      next
        case ok: (Inr y)
        then have v': "validate_access (ar_clock ?rt (aw_steps w)) (ac_sub c) (ac_device c) (ac_role c) (aw_db w) = (s', Inr ())"
          using v by simp
        have "ac_role c \<noteq> role"
          using assms(2) Some validate_access_granted(2,3) [OF v'] by (auto simp: has_session_def)
        moreover have "only_seen w (w\<lparr>aw_db := s', aw_steps := Suc (aw_steps w)\<rparr>)"
          unfolding only_seen_def validate_access_granted(1) [OF v'] by (intro exI) simp
        ultimately show ?thesis using Inr ok claims db
          by (simp add: authenticate_role_def authenticate_access_def h_bind_def refuses_def
              api_authorization_def api_error_new_def)
      qed
    qed
  qed
qed

subsection \<open>Every endpoint asks for its session first\<close>

lemma api_error_statuses [simp]:
  "400 \<le> ae_status (api_invalid i)" "400 \<le> ae_status (api_authentication i)"
  "400 \<le> ae_status (api_unavailable i)" "400 \<le> ae_status (api_authorization i)"
  "400 \<le> ae_status (api_internal i)"
  by (simp_all add: api_internal_def api_invalid_def api_authentication_def api_unavailable_def api_authorization_def api_error_new_def)

lemma error_statuses_checks [simp]:
  "error_statuses (Inr x)" "error_statuses (Inl er) \<longleftrightarrow> 400 \<le> ae_status er"
  "error_statuses (check b er) \<longleftrightarrow> b \<or> 400 \<le> ae_status er"
  "400 \<le> ae_status er \<Longrightarrow> error_statuses (ok_or v er)"
  by (auto simp: error_statuses_def check_def ok_or_def split: option.splits)

lemma error_statuses_fields [simp]:
  "error_statuses (validate_content_hash h i)" "error_statuses (upload_content_length hs i)"
  "error_statuses (upload_media_type hs i)" "error_statuses (valid_limit v dflt m i)"
  "error_statuses (valid_text t n i)" "error_statuses (valid_target sn tg i)"
  "error_statuses (admin_page_bounds l off i)" "error_statuses (search_term st i)"
  "error_statuses (valid_audit_action_filter act i)" "error_statuses (validate_admin_origin rt hs i)"
  "error_statuses (services rt i)"
  by (simp_all add: validate_content_hash_def upload_content_length_def upload_media_type_def valid_limit_def
      valid_text_def valid_target_def admin_page_bounds_def search_term_def valid_audit_action_filter_def Let_def
      validate_admin_origin_def validate_configured_origin_def services_def split: option.split sum.split)

lemma refuses_h_map [refuses_intros]: "refuses w m \<Longrightarrow> refuses w (h_map f m)"
  unfolding h_map_def by (rule refuses_bind)

lemma refuses_option:
  "refuses w a \<Longrightarrow> (\<And>x. refuses w (b x)) \<Longrightarrow> refuses w (case z of None \<Rightarrow> a | Some x \<Rightarrow> b x)"
  by (cases z) simp_all

lemma refuses_if: "refuses w a \<Longrightarrow> refuses w b \<Longrightarrow> refuses w (if c then a else b)"
  by simp

lemma refuses_prod: "(\<And>x y. refuses w (f x y)) \<Longrightarrow> refuses w (case p of (x, y) \<Rightarrow> f x y)"
  by (cases p) simp

lemmas refuses_rules = refuses_check refuses_if refuses_option refuses_prod

lemma account_handlers_refuse:
  fixes w :: "'w api_world"
  assumes "undisturbed (px_rt px)" and "\<not> has_session ''user'' px r (aw_db w)"
  shows "refuses w (logout_handler (px_rt px) (hr_headers r))"
    "refuses w (current_user_handler (px_rt px) (hr_headers r))"
    "refuses w (change_password_handler (px_rt px) sv (hr_headers r) a b)"
    "refuses w (list_projects_handler (px_rt px) (hr_headers r))"
    "refuses w (create_project_handler (px_rt px) (hr_headers r) a)"
    "refuses w (get_project_handler (px_rt px) (hr_headers r) p)"
    "refuses w (rename_project_handler (px_rt px) (hr_headers r) p a)"
    "refuses w (disable_project_handler (px_rt px) (hr_headers r) p)"
    "refuses w (purge_project_handler (px_rt px) sv (hr_headers r) p a b)"
    "refuses w (get_payload_handler (px_rt px) (hr_headers r) p h)"
    "refuses w (head_payload_handler (px_rt px) (hr_headers r) p h)"
    "refuses w (put_payload_handler (px_rt px) io (hr_headers r) p h chunks)"
    "refuses w (bootstrap_handler (px_rt px) (hr_headers r) p page_request)"
    "refuses w (pull_handler (px_rt px) (hr_headers r) p pull_request)"
    "refuses w (push_handler bs (px_rt px) latency (hr_headers r) p push_request)"
    "refuses w (history_handler (px_rt px) (hr_headers r) p query)"
    "refuses w (object_history_handler (px_rt px) (hr_headers r) p kind obj query)"
    "refuses w (list_snapshots_handler (px_rt px) (hr_headers r) p)"
    "refuses w (create_snapshot_handler (px_rt px) (hr_headers r) p)"
    "refuses w (create_restore_handler (px_rt px) (hr_headers r) p restore_request)"
    "refuses w (get_restore_handler (px_rt px) (hr_headers r) p job)"
    "refuses w (cancel_restore_handler (px_rt px) (hr_headers r) p job a)"
    "refuses w (list_devices_handler (px_rt px) (hr_headers r))"
    "refuses w (register_device_handler (px_rt px) (hr_headers r) device_request)"
    "refuses w (update_device_handler (px_rt px) (hr_headers r) d a)"
    "refuses w (revoke_device_handler (px_rt px) (hr_headers r) d)"
proof -
  have auth: "refuses w (authenticate (px_rt px) (hr_headers r) i)" for i
    unfolding authenticate_def by (rule authenticate_refuses [OF assms])
  show "refuses w (logout_handler (px_rt px) (hr_headers r))"
    "refuses w (current_user_handler (px_rt px) (hr_headers r))"
    "refuses w (change_password_handler (px_rt px) sv (hr_headers r) a b)"
    "refuses w (list_projects_handler (px_rt px) (hr_headers r))"
    "refuses w (create_project_handler (px_rt px) (hr_headers r) a)"
    "refuses w (get_project_handler (px_rt px) (hr_headers r) p)"
    "refuses w (rename_project_handler (px_rt px) (hr_headers r) p a)"
    "refuses w (disable_project_handler (px_rt px) (hr_headers r) p)"
    "refuses w (purge_project_handler (px_rt px) sv (hr_headers r) p a b)"
    "refuses w (get_payload_handler (px_rt px) (hr_headers r) p h)"
    "refuses w (head_payload_handler (px_rt px) (hr_headers r) p h)"
    "refuses w (put_payload_handler (px_rt px) io (hr_headers r) p h chunks)"
    "refuses w (bootstrap_handler (px_rt px) (hr_headers r) p page_request)"
    "refuses w (pull_handler (px_rt px) (hr_headers r) p pull_request)"
    "refuses w (push_handler bs (px_rt px) latency (hr_headers r) p push_request)"
    "refuses w (history_handler (px_rt px) (hr_headers r) p query)"
    "refuses w (object_history_handler (px_rt px) (hr_headers r) p kind obj query)"
    "refuses w (list_snapshots_handler (px_rt px) (hr_headers r) p)"
    "refuses w (create_snapshot_handler (px_rt px) (hr_headers r) p)"
    "refuses w (create_restore_handler (px_rt px) (hr_headers r) p restore_request)"
    "refuses w (get_restore_handler (px_rt px) (hr_headers r) p job)"
    "refuses w (cancel_restore_handler (px_rt px) (hr_headers r) p job a)"
    "refuses w (list_devices_handler (px_rt px) (hr_headers r))"
    "refuses w (register_device_handler (px_rt px) (hr_headers r) device_request)"
    "refuses w (update_device_handler (px_rt px) (hr_headers r) d a)"
    "refuses w (revoke_device_handler (px_rt px) (hr_headers r) d)"
    unfolding logout_handler_def current_user_handler_def change_password_handler_def list_projects_handler_def
    create_project_handler_def get_project_handler_def rename_project_handler_def disable_project_handler_def
    purge_project_handler_def get_payload_handler_def head_payload_handler_def put_payload_handler_def
    bootstrap_handler_def pull_handler_def push_handler_def history_handler_def object_history_handler_def
    list_snapshots_handler_def create_snapshot_handler_def create_restore_handler_def get_restore_handler_def
    cancel_restore_handler_def list_devices_handler_def register_device_handler_def update_device_handler_def
    revoke_device_handler_def history_response_def Let_def
    by ((intro refuses_rules refuses_fail refuses_bind auth; simp split: option.splits sum.splits)+)
qed

lemma admin_handlers_refuse:
  fixes w :: "'w api_world"
  assumes "undisturbed (px_rt px)" and "\<not> has_session ''system_admin'' px r (aw_db w)"
  shows "refuses w (admin_logout_handler (px_rt px) (hr_headers r))"
    "refuses w (admin_reauth_handler (px_rt px) sv (hr_headers r) a)"
    "refuses w (admin_list_users_handler (px_rt px) (hr_headers r) l off)"
    "refuses w (admin_create_user_handler (px_rt px) sv (hr_headers r) a b)"
    "refuses w (admin_list_all_projects_handler (px_rt px) (hr_headers r) l off act)"
    "refuses w (admin_list_all_devices_handler (px_rt px) (hr_headers r) l off)"
    "refuses w (admin_list_invitations_handler (px_rt px) (hr_headers r) l off)"
    "refuses w (create_invitation_handler (px_rt px) sv (hr_headers r) a)"
    "refuses w (admin_revoke_invitation_handler (px_rt px) (hr_headers r) u a)"
    "refuses w (admin_resend_invitation_handler (px_rt px) sv (hr_headers r) u)"
    "refuses w (disable_account_handler (px_rt px) (hr_headers r) u a)"
    "refuses w (enable_account_handler (px_rt px) (hr_headers r) u a)"
    "refuses w (purge_account_handler (px_rt px) sv (hr_headers r) u purge_request)"
    "refuses w (get_registration_settings_handler (px_rt px) (hr_headers r))"
    "refuses w (update_registration_settings_handler (px_rt px) (hr_headers r) enabled)"
    "refuses w (admin_list_projects_handler (px_rt px) (hr_headers r) u l off)"
    "refuses w (admin_list_devices_handler (px_rt px) (hr_headers r) u l off)"
    "refuses w (admin_overview_handler (px_rt px) (hr_headers r))"
    "refuses w (admin_history_handler (px_rt px) (hr_headers r) p l off)"
    "refuses w (admin_create_restore_handler (px_rt px) (hr_headers r) p restore_request)"
    "refuses w (reopen_restore_project_handler (px_rt px) (hr_headers r) p a)"
    "refuses w (admin_operations_handler (px_rt px) (hr_headers r) l off)"
    "refuses w (admin_trends_handler (px_rt px) (hr_headers r) l)"
    "refuses w (admin_audit_events_handler (px_rt px) (hr_headers r) l off act)"
    "refuses w (admin_audit_events_csv_handler ids show_time (px_rt px) (hr_headers r) act)"
proof -
  have auth: "refuses w (authenticate_admin (px_rt px) (hr_headers r) i)" for i
    unfolding authenticate_admin_def by (rule authenticate_refuses [OF assms])
  show "refuses w (admin_logout_handler (px_rt px) (hr_headers r))"
    "refuses w (admin_reauth_handler (px_rt px) sv (hr_headers r) a)"
    "refuses w (admin_list_users_handler (px_rt px) (hr_headers r) l off)"
    "refuses w (admin_create_user_handler (px_rt px) sv (hr_headers r) a b)"
    "refuses w (admin_list_all_projects_handler (px_rt px) (hr_headers r) l off act)"
    "refuses w (admin_list_all_devices_handler (px_rt px) (hr_headers r) l off)"
    "refuses w (admin_list_invitations_handler (px_rt px) (hr_headers r) l off)"
    "refuses w (create_invitation_handler (px_rt px) sv (hr_headers r) a)"
    "refuses w (admin_revoke_invitation_handler (px_rt px) (hr_headers r) u a)"
    "refuses w (admin_resend_invitation_handler (px_rt px) sv (hr_headers r) u)"
    "refuses w (disable_account_handler (px_rt px) (hr_headers r) u a)"
    "refuses w (enable_account_handler (px_rt px) (hr_headers r) u a)"
    "refuses w (purge_account_handler (px_rt px) sv (hr_headers r) u purge_request)"
    "refuses w (get_registration_settings_handler (px_rt px) (hr_headers r))"
    "refuses w (update_registration_settings_handler (px_rt px) (hr_headers r) enabled)"
    "refuses w (admin_list_projects_handler (px_rt px) (hr_headers r) u l off)"
    "refuses w (admin_list_devices_handler (px_rt px) (hr_headers r) u l off)"
    "refuses w (admin_overview_handler (px_rt px) (hr_headers r))"
    "refuses w (admin_history_handler (px_rt px) (hr_headers r) p l off)"
    "refuses w (admin_create_restore_handler (px_rt px) (hr_headers r) p restore_request)"
    "refuses w (reopen_restore_project_handler (px_rt px) (hr_headers r) p a)"
    "refuses w (admin_operations_handler (px_rt px) (hr_headers r) l off)"
    "refuses w (admin_trends_handler (px_rt px) (hr_headers r) l)"
    "refuses w (admin_audit_events_handler (px_rt px) (hr_headers r) l off act)"
    "refuses w (admin_audit_events_csv_handler ids show_time (px_rt px) (hr_headers r) act)"
    unfolding admin_logout_handler_def admin_reauth_handler_def admin_list_users_handler_def admin_create_user_handler_def
    admin_list_all_projects_handler_def admin_list_all_devices_handler_def admin_list_invitations_handler_def
    create_invitation_handler_def admin_revoke_invitation_handler_def admin_resend_invitation_handler_def
    disable_account_handler_def enable_account_handler_def purge_account_handler_def
    get_registration_settings_handler_def update_registration_settings_handler_def
    admin_list_projects_handler_def admin_list_devices_handler_def admin_overview_handler_def
    admin_history_handler_def admin_create_restore_handler_def reopen_restore_project_handler_def
    admin_operations_handler_def admin_trends_handler_def admin_audit_events_handler_def
    admin_audit_events_csv_handler_def admin_listing_def set_account_status_handler_def Let_def
    by ((intro refuses_rules refuses_fail refuses_bind auth; simp split: option.splits sum.splits)+)
qed

subsection \<open>A process to instantiate the properties on\<close>

definition sample_service :: auth_service where
  "sample_service = \<lparr>sv_issuer = ''i'', sv_audience = ''d'', sv_access_ttl = 900, sv_refresh_ttl = 2592000,
     sv_encode = \<lambda>_. Some ''t'', sv_random = \<lambda>_. Some [1, 2], sv_salt = \<lambda>_. Some [3], sv_env = \<lambda>_. NotPresent,
     sv_argon2 = \<lambda>_ p _. Some p, sv_argon2_verify = \<lambda>_ p h. p = h, sv_base64 = \<lambda>_. ''r'',
     sv_sha256 = id, sv_parse_ip = Some\<rparr>"

definition sample_process :: "(string \<rightharpoonup> bytes) api_process" where
  "sample_process = \<lparr>px_rt = sample_api, px_auth = sample_service,
     px_temp = \<lparr>tf_create = True, tf_write = \<lambda>_. True, tf_flush = True, tf_read = True\<rparr>, px_latency = None,
     px_decode_segment = Some, px_audit_id = \<lambda>_. 0, px_show_time = \<lambda>_. ''t'', px_hundredths = JNum,
     px_contract = ''openapi'', px_head_bucket = \<lambda>_. True, px_create_bucket = \<lambda>st. (st, True)\<rparr>"

definition sample_http :: "string \<Rightarrow> string \<Rightarrow> headers \<Rightarrow> json option \<Rightarrow> http_request" where
  "sample_http verb path hs body = \<lparr>hr_method = verb, hr_path = path, hr_query = Some [], hr_headers = hs,
     hr_json = body, hr_limited_json = body, hr_chunks = []\<rparr>"

definition sample_create :: http_request where
  "sample_create = sample_http ''POST'' ''/api/v1/projects'' sample_headers (Some (JObj [(''name'', JStr ''new'')]))"

definition sample_list :: http_request where
  "sample_list = sample_http ''GET'' ''/api/v1/projects'' sample_headers None"

definition sample_anonymous :: http_request where
  "sample_anonymous = sample_http ''POST'' ''/api/v1/projects/p/sync/push'' [] None"

lemmas sample_requests = sample_create_def sample_list_def sample_anonymous_def sample_http_def

lemma sample_undisturbed: "undisturbed (px_rt sample_process)"
  by (simp add: sample_process_def sample_api_def undisturbed_def)

lemma sample_caller: "hr_headers r = sample_headers \<Longrightarrow> caller sample_process r = Some sample_claims"
proof -
  assume "hr_headers r = sample_headers"
  moreover have "bearer_token sample_headers = Some ''t''" by code_simp
  ultimately show ?thesis by (simp add: caller_def sample_process_def sample_api_def sample_claims_def)
qed

lemma sample_routes:
  "route_request ''POST'' ''/api/v1/projects'' = Routed (Account CreateProject) []"
  "route_request ''GET'' ''/api/v1/projects'' = Routed (Account ListProjects) []"
  "route_request ''POST'' ''/api/v1/projects/p/sync/push'' = Routed (Account PushE) [''p'']"
  by code_simp+

subsection \<open>At the level of requests\<close>

text \<open>An endpoint also refuses with an answer of the framework, so the status of the answer counts.\<close>

definition turns_away :: "'w api_world \<Rightarrow> 'w endpoint_handler \<Rightarrow> bool" where
  "turns_away w h \<longleftrightarrow> (\<exists>w' x. h w = (w', x) \<and> only_seen w w' \<and> 400 \<le> hs_status (finish_response x))"

named_theorems turns_away_intros

lemma turns_away_refuses: "refuses w h \<Longrightarrow> turns_away w h"
  by (auto simp: refuses_def turns_away_def finish_response_def error_response_def json_response_def)

lemma turns_away_map [turns_away_intros]: "refuses w m \<Longrightarrow> turns_away w (h_map f m)"
  by (intro turns_away_refuses refuses_h_map)

lemma turns_away_json [turns_away_intros]: "refuses w m \<Longrightarrow> turns_away w (respond_json status f m)"
  unfolding respond_json_def by (rule turns_away_map)

lemma turns_away_value [turns_away_intros]:
  assumes "\<And>x. turns_away w (k x)" shows "turns_away w (with_value r v k)"
proof (cases v)
  case None
  then show ?thesis
    by (auto simp: with_value_def h_bind_def ok_or_def turns_away_def only_seen_refl finish_response_def
        error_response_def json_response_def)
next
  case (Some x)
  then have "with_value r v k = k x" by (simp add: with_value_def h_bind_def ok_or_def fun_eq_iff)
  then show ?thesis using assms by simp
qed

lemma turns_away_extractors [turns_away_intros]:
  assumes "\<And>x. turns_away w (k x)"
  shows "turns_away w (api_json f r k)" and "turns_away w (api_limited_json f r k)"
  using assms by (simp_all add: api_json_def api_limited_json_def turns_away_value)

lemma turns_away_query [turns_away_intros]:
  assumes "\<And>x. turns_away w (k x)"
  shows "turns_away w (api_query g r k)"
  using assms by (simp add: api_query_def split: option.split)
    (auto simp: turns_away_def only_seen_refl finish_response_def query_rejection_def h_return_def)

lemma turns_away_prod [turns_away_intros]: "(\<And>x y. turns_away w (f x y)) \<Longrightarrow> turns_away w (case p of (x, y) \<Rightarrow> f x y)"
  by (cases p) simp

lemma endpoint_turns_away:
  assumes "undisturbed (px_rt px)" and "required_role e = Some role" and "\<not> has_session role px r (aw_db w)"
  shows "turns_away w (serve_endpoint px e args r)"
proof (cases e)
  case (Public pe)
  with assms show ?thesis by (simp add: required_role_def)
next
  case (Account ae)
  with assms have "\<not> has_session ''user'' px r (aw_db w)" by (simp add: required_role_def)
  note refused = account_handlers_refuse [OF assms(1) this]
  show ?thesis unfolding serve_endpoint_def Account
    by (cases ae; simp; intro turns_away_intros refused)
next
  case (Administration de)
  with assms have "\<not> has_session ''system_admin'' px r (aw_db w)" by (simp add: required_role_def)
  note refused = admin_handlers_refuse [OF assms(1) this]
  show ?thesis unfolding serve_endpoint_def Administration
    by (cases de; simp; intro turns_away_intros refused)
qed

text \<open>The layers around an endpoint change headers, not the status.\<close>

lemma serve_routed:
  assumes "route_request (hr_method r) (hr_path r) = Routed e args"
  shows "fst (serve px r w) = fst (serve_endpoint px e args r w)"
    and "hs_status (snd (serve px r w)) = hs_status (finish_response (snd (serve_endpoint px e args r w)))"
  using assms
  by (simp_all add: serve_def Let_def split_beta without_body_def insert_header_def no_store_auth_responses_def
      split: option.split)

text \<open>C11. An endpoint of an account or of an administrator does nothing for a request without a session of that
  role. Whatever its path, method, headers and body: if the token does not decode, its role is another, the account
  is not active or has another role, or the device is revoked or another account's, then the answer is an error
  (status 400 or more), and the request changes neither the database nor the object store, the limits or the
  counters, except that it may note when the device was last seen.\<close>

theorem endpoint_needs_session:
  assumes "undisturbed (px_rt px)"
    and "route_request (hr_method r) (hr_path r) = Routed e args"
    and "required_role e = Some role"
    and "\<not> has_session role px r (aw_db w)"
  shows "only_seen w (fst (serve px r w)) \<and> 400 \<le> hs_status (snd (serve px r w))"
  using endpoint_turns_away [OF assms(1,3,4), of args] serve_routed [OF assms(2), of px w]
  by (auto simp: turns_away_def)

theorem endpoint_needs_session_witness:
  "only_seen (sample_api_world sample_db) (fst (serve sample_process sample_anonymous (sample_api_world sample_db)))
   \<and> 400 \<le> hs_status (snd (serve sample_process sample_anonymous (sample_api_world sample_db)))"
proof (rule endpoint_needs_session [OF sample_undisturbed])
  show "route_request (hr_method sample_anonymous) (hr_path sample_anonymous) = Routed (Account PushE) [''p'']"
    by (simp add: sample_requests sample_routes)
  show "required_role (Account PushE) = Some ''user''" by (simp add: required_role_def)
  show "\<not> has_session ''user'' sample_process sample_anonymous (aw_db (sample_api_world sample_db))"
    by (simp add: has_session_def caller_def sample_requests bearer_token_def header_str_def)
qed

subsection \<open>A request stays in its account\<close>

text \<open>What a handler does to the part of account \<open>v\<close>: nothing, and the invariant is kept.\<close>

definition spares :: "uuid \<Rightarrow> ('w, 'a) handler \<Rightarrow> bool" where
  "spares v h \<longleftrightarrow> (\<forall>w. tenant_ok (aw_db w) \<longrightarrow>
     tenant_ok (aw_db (fst (h w))) \<and> account_view v (aw_db (fst (h w))) = account_view v (aw_db w))"

named_theorems spares_intros

lemma sparesI:
  "(\<And>w. tenant_ok (aw_db w) \<Longrightarrow>
     tenant_ok (aw_db (fst (h w))) \<and> account_view v (aw_db (fst (h w))) = account_view v (aw_db w)) \<Longrightarrow> spares v h"
  by (simp add: spares_def)

lemma spares_same_db: "(\<And>w. aw_db (fst (h w)) = aw_db w) \<Longrightarrow> spares v h"
  by (simp add: spares_def)

lemma spares_steps [spares_intros]:
  "spares v (h_check c)" "spares v (h_return x)" "spares v (h_fail er)" "spares v (h_metrics g)"
  "spares v (h_new_uuid rt)" "spares v (h_auth er2 t)" "spares v (sign_cursor rt secret cl)"
  "spares v (allow_auth_request rt oper k i)"
  by (auto intro!: spares_same_db simp: h_new_uuid_def h_auth_def sign_cursor_def allow_auth_request_def split_beta)

lemma spares_bind [spares_intros]:
  assumes "spares v m" and "\<And>x. spares v (f x)" shows "spares v (h_bind m f)"
proof (rule sparesI)
  fix w :: "'a api_world"
  assume "tenant_ok (aw_db w)"
  with assms show "tenant_ok (aw_db (fst (h_bind m f w))) \<and> account_view v (aw_db (fst (h_bind m f w))) = account_view v (aw_db w)"
    by (cases "m w") (auto simp: h_bind_def spares_def split: sum.split dest!: spec [where x = w])
qed

lemma spares_cases [spares_intros]:
  "spares v a \<Longrightarrow> (\<And>x. spares v (b x)) \<Longrightarrow> spares v (case z of None \<Rightarrow> a | Some x \<Rightarrow> b x)"
  "(\<And>x. spares v (c x)) \<Longrightarrow> (\<And>x. spares v (d x)) \<Longrightarrow> spares v (case y of Inl x \<Rightarrow> c x | Inr x \<Rightarrow> d x)"
  "(\<And>x1 x2. spares v (f x1 x2)) \<Longrightarrow> spares v (case p of (x1, x2) \<Rightarrow> f x1 x2)"
  "spares v a \<Longrightarrow> spares v a' \<Longrightarrow> spares v (if q then a else a')"
  by (auto split: option.split sum.split prod.split)

text \<open>A transaction as another account, in a process that nothing else disturbs.\<close>

lemma spares_txn:
  assumes "undisturbed rt" and "u \<noteq> v" and "\<And>e ids. acts_as u (t e ids)"
  shows "spares v (h_txn rt t)"
proof (rule sparesI)
  fix w :: "'a api_world"
  assume ok: "tenant_ok (aw_db w)"
  obtain s' res where t: "t (ar_clock rt (aw_steps w)) (ar_uuid rt (aw_steps w)) (aw_db w) = (s', res)" by (metis surj_pair)
  with assms(3) ok have "confined u (aw_db w) s'" by (metis acts_as_def fst_conv)
  with assms(2) show "tenant_ok (aw_db (fst (h_txn rt t w))) \<and> account_view v (aw_db (fst (h_txn rt t w))) = account_view v (aw_db w)"
    by (simp add: h_txn_run [where t = t, OF assms(1) t] confined_def)
qed

lemma spares_db:
  assumes "undisturbed rt" and "u \<noteq> v" and "\<And>e ids. acts_as u (t e ids)"
  shows "spares v (h_db rt er t)" and "spares v (h_attempt rt t)"
  unfolding h_db_def h_attempt_def by (intro spares_intros spares_txn [OF assms])+

lemma spares_query:
  assumes "undisturbed rt" shows "spares v (h_query rt er q)"
proof (rule sparesI)
  fix w :: "'a api_world"
  assume "tenant_ok (aw_db w)"
  with h_db_run [where t = "\<lambda>_ _ s. (s, q s)" and w = w and er = er, OF assms refl]
  show "tenant_ok (aw_db (fst (h_query rt er q w))) \<and> account_view v (aw_db (fst (h_query rt er q w))) = account_view v (aw_db w)"
    by (simp add: h_query_def)
qed

lemma spares_store:
  assumes "undisturbed rt" shows "spares v (h_store rt i t)"
  using assms by (intro spares_same_db) (simp add: h_store_def api_tick_def undisturbed_def split_beta Let_def)

lemma spares_reservation:
  assumes "spares v m" shows "spares v (h_with_reservation rt n i m)"
proof (rule sparesI)
  fix w :: "'a api_world"
  assume ok: "tenant_ok (aw_db w)"
  show "tenant_ok (aw_db (fst (h_with_reservation rt n i m w)))
    \<and> account_view v (aw_db (fst (h_with_reservation rt n i m w))) = account_view v (aw_db w)"
  proof (cases "next_used (ar_upload_max rt) n (aw_upload_used w)")
    case None
    then show ?thesis using ok by (simp add: h_with_reservation_def)
  next
    case (Some used)
    have "tenant_ok (aw_db (w\<lparr>aw_upload_used := used\<rparr>))" using ok by simp
    with assms have "tenant_ok (aw_db (fst (m (w\<lparr>aw_upload_used := used\<rparr>))))
      \<and> account_view v (aw_db (fst (m (w\<lparr>aw_upload_used := used\<rparr>)))) = account_view v (aw_db w)"
      unfolding spares_def by (metis (no_types, lifting) api_world.ext_inject api_world.surjective api_world.update_convs(4))
    then show ?thesis using Some by (simp add: h_with_reservation_def Let_def split_beta)
  qed
qed

lemma spares_limit:
  assumes "undisturbed rt" and "u \<noteq> v" shows "spares v (enforce_shared_rate_limit rt k i)"
  unfolding enforce_shared_rate_limit_def enforce_shared_rate_limit_windowed_def
  by (intro spares_intros spares_db [OF assms] acts_intros)

lemma h_bind_assoc: "h_bind (h_bind m f) g = h_bind m (\<lambda>x. h_bind (f x) g)"
  by (auto simp: h_bind_def fun_eq_iff split: prod.split sum.split)

lemma h_bind_return: "h_bind (h_return x) g = g x"
  by (simp add: h_bind_def h_return_def fun_eq_iff)

lemma h_bind_fail: "h_bind (h_fail er) g = h_fail er"
  by (simp add: h_bind_def h_fail_def fun_eq_iff)

lemma h_bind_if: "h_bind (if q then m else n) g = (if q then h_bind m g else h_bind n g)"
  by simp

text \<open>Authentication gives the handler the claims of the caller, whose account is not \<open>v\<close>.\<close>

lemma spares_authenticated:
  assumes alone: "undisturbed (px_rt px)" and other: "map_option ac_sub (caller px r) \<noteq> Some v"
    and k: "\<And>c. ac_sub c \<noteq> v \<Longrightarrow> spares v (k c)"
  shows "spares v (h_bind (authenticate (px_rt px) (hr_headers r) i) k)"
proof (cases "caller px r")
  case None
  have "authenticate (px_rt px) (hr_headers r) i w = (w, Inl (case services (px_rt px) i of Inl er \<Rightarrow> er | Inr _ \<Rightarrow> api_authentication i))"
    for w :: "'a api_world"
    using None by (cases "services (px_rt px) i")
      (simp_all add: authenticate_def authenticate_role_def authenticate_access_def h_bind_def caller_def ok_or_def)
  then show ?thesis by (intro spares_same_db) (simp add: h_bind_def)
next
  case (Some c)
  have sub: "ac_sub c \<noteq> v" using other Some by simp
  have token: "h_check (ok_or (Option.bind (bearer_token (hr_headers r)) (ar_decode_token (px_rt px))) (api_authentication i))
      = (h_return c :: ('a, access_claims) handler)"
    using Some by (simp add: caller_def h_check_def h_return_def fun_eq_iff ok_or_def)
  show ?thesis
    unfolding authenticate_def authenticate_role_def authenticate_access_def token
    by (simp only: h_bind_assoc h_bind_return h_bind_fail h_bind_if)
      (intro spares_intros spares_db [OF alone sub] acts_intros k sub)
qed

lemma account_handlers_spare:
  assumes alone: "undisturbed (px_rt px)" and other: "map_option ac_sub (caller px r) \<noteq> Some v"
  shows "spares v (logout_handler (px_rt px) (hr_headers r))"
    "spares v (current_user_handler (px_rt px) (hr_headers r))"
    "spares v (change_password_handler (px_rt px) sv (hr_headers r) a b)"
    "spares v (list_projects_handler (px_rt px) (hr_headers r))"
    "spares v (create_project_handler (px_rt px) (hr_headers r) a)"
    "spares v (get_project_handler (px_rt px) (hr_headers r) p)"
    "spares v (rename_project_handler (px_rt px) (hr_headers r) p a)"
    "spares v (disable_project_handler (px_rt px) (hr_headers r) p)"
    "spares v (purge_project_handler (px_rt px) sv (hr_headers r) p a b)"
    "spares v (get_payload_handler (px_rt px) (hr_headers r) p h)"
    "spares v (head_payload_handler (px_rt px) (hr_headers r) p h)"
    "spares v (put_payload_handler (px_rt px) io (hr_headers r) p h chunks)"
    "spares v (bootstrap_handler (px_rt px) (hr_headers r) p page_request)"
    "spares v (pull_handler (px_rt px) (hr_headers r) p pull_request)"
    "spares v (push_handler bs (px_rt px) latency (hr_headers r) p push_request)"
    "spares v (history_handler (px_rt px) (hr_headers r) p query)"
    "spares v (object_history_handler (px_rt px) (hr_headers r) p kind obj query)"
    "spares v (list_snapshots_handler (px_rt px) (hr_headers r) p)"
    "spares v (create_snapshot_handler (px_rt px) (hr_headers r) p)"
    "spares v (create_restore_handler (px_rt px) (hr_headers r) p restore_request)"
    "spares v (get_restore_handler (px_rt px) (hr_headers r) p job)"
    "spares v (cancel_restore_handler (px_rt px) (hr_headers r) p job a)"
    "spares v (list_devices_handler (px_rt px) (hr_headers r))"
    "spares v (register_device_handler (px_rt px) (hr_headers r) device_request)"
    "spares v (update_device_handler (px_rt px) (hr_headers r) d a)"
    "spares v (revoke_device_handler (px_rt px) (hr_headers r) d)"
proof -
  note rules = spares_authenticated [OF alone other] spares_intros spares_txn [OF alone] spares_db [OF alone]
    spares_query [OF alone] spares_store [OF alone] spares_reservation spares_limit [OF alone] acts_intros
  show "spares v (logout_handler (px_rt px) (hr_headers r))"
    "spares v (current_user_handler (px_rt px) (hr_headers r))"
    "spares v (change_password_handler (px_rt px) sv (hr_headers r) a b)"
    "spares v (list_projects_handler (px_rt px) (hr_headers r))"
    "spares v (create_project_handler (px_rt px) (hr_headers r) a)"
    "spares v (get_project_handler (px_rt px) (hr_headers r) p)"
    "spares v (rename_project_handler (px_rt px) (hr_headers r) p a)"
    "spares v (disable_project_handler (px_rt px) (hr_headers r) p)"
    "spares v (purge_project_handler (px_rt px) sv (hr_headers r) p a b)"
    "spares v (get_payload_handler (px_rt px) (hr_headers r) p h)"
    "spares v (head_payload_handler (px_rt px) (hr_headers r) p h)"
    "spares v (put_payload_handler (px_rt px) io (hr_headers r) p h chunks)"
    "spares v (bootstrap_handler (px_rt px) (hr_headers r) p page_request)"
    "spares v (pull_handler (px_rt px) (hr_headers r) p pull_request)"
    "spares v (push_handler bs (px_rt px) latency (hr_headers r) p push_request)"
    "spares v (history_handler (px_rt px) (hr_headers r) p query)"
    "spares v (object_history_handler (px_rt px) (hr_headers r) p kind obj query)"
    "spares v (list_snapshots_handler (px_rt px) (hr_headers r) p)"
    "spares v (create_snapshot_handler (px_rt px) (hr_headers r) p)"
    "spares v (create_restore_handler (px_rt px) (hr_headers r) p restore_request)"
    "spares v (get_restore_handler (px_rt px) (hr_headers r) p job)"
    "spares v (cancel_restore_handler (px_rt px) (hr_headers r) p job a)"
    "spares v (list_devices_handler (px_rt px) (hr_headers r))"
    "spares v (register_device_handler (px_rt px) (hr_headers r) device_request)"
    "spares v (update_device_handler (px_rt px) (hr_headers r) d a)"
    "spares v (revoke_device_handler (px_rt px) (hr_headers r) d)"
    unfolding logout_handler_def current_user_handler_def change_password_handler_def list_projects_handler_def
    create_project_handler_def get_project_handler_def rename_project_handler_def disable_project_handler_def
    purge_project_handler_def get_payload_handler_def head_payload_handler_def put_payload_handler_def
    bootstrap_handler_def pull_handler_def push_handler_def history_handler_def object_history_handler_def
    list_snapshots_handler_def create_snapshot_handler_def create_restore_handler_def get_restore_handler_def
    cancel_restore_handler_def list_devices_handler_def register_device_handler_def update_device_handler_def
    revoke_device_handler_def history_response_def stored_manifest_page_def first_manifest_page_def
    store_upload_def answer_push_def record_push_attempt_def Let_def
    by (rule rules | assumption)+
qed

text \<open>The requests that reach an endpoint of an account with the token of another account, or with none.\<close>

definition other_account_request :: "'w api_process \<Rightarrow> uuid \<Rightarrow> http_request \<Rightarrow> bool" where
  "other_account_request px v r \<longleftrightarrow>
    (case route_request (hr_method r) (hr_path r) of Routed (Account ae) args \<Rightarrow> True | _ \<Rightarrow> False)
   \<and> map_option ac_sub (caller px r) \<noteq> Some v"

fun serve_all :: "'w api_process \<Rightarrow> http_request list \<Rightarrow> 'w api_world \<Rightarrow> 'w api_world" where
  "serve_all px [] w = w"
| "serve_all px (r # rs) w = serve_all px rs (fst (serve px r w))"

lemma spares_extractors:
  assumes "\<And>x. spares v (k x)"
  shows "spares v (with_value r z k)" and "spares v (api_json f r k)" and "spares v (api_limited_json f r k)"
    and "spares v (api_query g r k)"
  using assms unfolding api_json_def api_limited_json_def with_value_def api_query_def
  by (intro spares_intros; simp)+

lemma spares_responses: "spares v m \<Longrightarrow> spares v (h_map f m)" "spares v m \<Longrightarrow> spares v (respond_json n g m)"
  unfolding respond_json_def h_map_def by (intro spares_intros; assumption)+

lemma serve_spares:
  assumes "undisturbed (px_rt px)" and "other_account_request px v r" and "tenant_ok (aw_db w)"
  shows "tenant_ok (aw_db (fst (serve px r w))) \<and> account_view v (aw_db (fst (serve px r w))) = account_view v (aw_db w)"
proof -
  from assms(2) obtain ae args where route: "route_request (hr_method r) (hr_path r) = Routed (Account ae) args"
    and other: "map_option ac_sub (caller px r) \<noteq> Some v"
    by (auto simp: other_account_request_def split: routed.splits endpoint.splits)
  note rules = account_handlers_spare [OF assms(1) other] spares_extractors spares_responses spares_intros(11)
  have "spares v (serve_account px ae args r)"
    by (cases ae; simp; (rule rules spares_cases)+)
  with assms(3) show ?thesis
    unfolding serve_routed(1) [OF route] serve_endpoint_def by (simp add: spares_def)
qed

text \<open>C13. Accounts are isolated from each other: after any number of requests to the endpoints of an account
  (projects, payloads, synchronisation, history, snapshots, restores, devices, password and logout), with any
  tokens, bodies and parameters, the rows of an account none of whose tokens was used are exactly what they
  were, in every table whose rows belong to an account. Also the requests keep the ids of devices and projects unique, and every head and bootstrap
  mark with the owner of its project.\<close>

theorem requests_stay_in_their_account:
  assumes "undisturbed (px_rt px)" and "tenant_ok (aw_db w)" and "list_all (other_account_request px v) rs"
  shows "tenant_ok (aw_db (serve_all px rs w)) \<and> account_view v (aw_db (serve_all px rs w)) = account_view v (aw_db w)"
  using assms(2,3)
proof (induction rs arbitrary: w)
  case (Cons r rs)
  with serve_spares [OF assms(1), of v r w] show ?case by simp
qed simp

lemma sample_tenant_ok: "tenant_ok sample_db" "tenant_ok (account_view ''u'' sample_db)"
  by code_simp+

theorem requests_stay_in_their_account_witness:
  "account_view ''v'' (aw_db (serve_all sample_process [sample_create, sample_list] (sample_api_world sample_db)))
    = account_view ''v'' sample_db"
proof -
  have "caller sample_process sample_create = Some sample_claims" "caller sample_process sample_list = Some sample_claims"
    by (intro sample_caller; simp add: sample_requests)+
  then have "list_all (other_account_request sample_process ''v'') [sample_create, sample_list]"
    by (simp add: other_account_request_def sample_claims_def)
      (simp add: sample_requests sample_routes)
  moreover have "aw_db (sample_api_world sample_db) = sample_db" by (simp add: sample_api_world_def)
  ultimately show ?thesis
    using requests_stay_in_their_account [OF sample_undisturbed, of "sample_api_world sample_db" "''v''"] sample_tenant_ok(1)
    by metis
qed

subsection \<open>What an account reads\<close>

text \<open>
  A query, a transaction or a handler that depends on the rows of account \<open>u\<close> only: on two states
  that agree on these its results agree, and so do the states after it.
\<close>

definition same_account :: "uuid \<Rightarrow> db \<Rightarrow> db \<Rightarrow> bool" where
  "same_account u s s' \<longleftrightarrow> tenant_ok s \<and> tenant_ok s' \<and> account_view u s = account_view u s'"

definition reads_own :: "uuid \<Rightarrow> (db \<Rightarrow> 'a) \<Rightarrow> bool" where
  "reads_own u q \<longleftrightarrow> (\<forall>s. q (account_view u s) = q s)"

definition sees_own :: "uuid \<Rightarrow> 'a txn \<Rightarrow> bool" where
  "sees_own u t \<longleftrightarrow> (\<forall>s s'. same_account u s s' \<longrightarrow> snd (t s) = snd (t s') \<and> same_account u (fst (t s)) (fst (t s')))"

definition same_world :: "uuid \<Rightarrow> 'w api_world \<Rightarrow> 'w api_world \<Rightarrow> bool" where
  "same_world u w w' \<longleftrightarrow> aw_store w = aw_store w' \<and> aw_limiter w = aw_limiter w'
     \<and> aw_upload_used w = aw_upload_used w' \<and> aw_metrics w = aw_metrics w' \<and> aw_steps w = aw_steps w'
     \<and> same_account u (aw_db w) (aw_db w')"

definition sees :: "uuid \<Rightarrow> ('w, 'a) handler \<Rightarrow> bool" where
  "sees u h \<longleftrightarrow> (\<forall>w w'. same_world u w w' \<longrightarrow> snd (h w) = snd (h w') \<and> same_world u (fst (h w)) (fst (h w')))"

named_theorems sees_intros

lemma reads_ownD: "reads_own u q \<Longrightarrow> same_account u s s' \<Longrightarrow> q s = q s'"
  by (metis reads_own_def same_account_def)

lemma find_filter: "List.find P (filter Q xs) = List.find (\<lambda>x. Q x \<and> P x) xs"
  by (induction xs) auto

lemma list_ex_filter: "list_ex P (filter Q xs) = list_ex (\<lambda>x. Q x \<and> P x) xs"
  by (induction xs) auto

lemmas own_simps = account_view_def find_filter list_ex_filter visible_projects_def

lemma filter_own: "filter (\<lambda>x. f x = u \<and> P x) (filter (\<lambda>x. f x = u) xs) = filter (\<lambda>x. f x = u \<and> P x) xs"
  by (induction xs) auto

lemma visible_projects_own [simp]: "visible_projects u (account_view u s) = visible_projects u s"
  by (simp add: own_simps)

lemma pull_rows_own [simp]: "pull_rows u p a (account_view u s) = pull_rows u p a s"
  by (simp add: pull_rows_def account_view_def filter_own)

lemma reads_own_queries [sees_intros]:
  "reads_own u (\<lambda>s. Inr (list_projects u s))" "reads_own u (get_project u p)" "reads_own u (current_user u)"
  "reads_own u (\<lambda>s. Inr (list_devices u s))" "reads_own u (list_history u p k ob after limit)"
  "reads_own u (list_snapshots u p)" "reads_own u (get_restore_job u p j)" "reads_own u (validate_sync_project u p)"
  by (simp_all add: reads_own_def list_projects_def get_project_def current_user_def list_devices_def list_history_def
      list_snapshots_def get_restore_job_def validate_sync_project_def require_active_project_def project_state_def
      ensure_project_visible_def)
    (simp_all add: own_simps filter_own conj_commute)

lemma sees_own_query: "reads_own u q \<Longrightarrow> sees_own u (\<lambda>s. (s, q s))"
  by (auto simp: sees_own_def dest: reads_ownD)

lemma account_view_devices:
  "account_view u (s\<lparr>devices := ds\<rparr>) = (account_view u s)\<lparr>devices := filter (\<lambda>d. d_owner d = u) ds\<rparr>"
  by (simp add: account_view_def)

lemma filter_update_same:
  "(\<And>r. Q (f r) = Q r) \<Longrightarrow> filter Q (update_where P f rs) = update_where P f (filter Q rs)"
  by (induction rs) auto

text \<open>The same change of the devices on both sides.\<close>

lemma same_account_devices:
  assumes "same_account u s s'" and "tenant_ok (s\<lparr>devices := update_where P f (devices s)\<rparr>)"
    and "tenant_ok (s'\<lparr>devices := update_where P f (devices s')\<rparr>)" and "\<And>d. d_owner (f d) = d_owner d"
  shows "same_account u (s\<lparr>devices := update_where P f (devices s)\<rparr>) (s'\<lparr>devices := update_where P f (devices s')\<rparr>)"
proof -
  have view: "account_view u s = account_view u s'" using assms(1) by (simp add: same_account_def)
  then have "filter (\<lambda>d. d_owner d = u) (devices s) = filter (\<lambda>d. d_owner d = u) (devices s')"
    by (simp add: account_view_def)
  then have "filter (\<lambda>d. d_owner d = u) (update_where P f (devices s)) = filter (\<lambda>d. d_owner d = u) (update_where P f (devices s'))"
    using assms(4) by (simp add: filter_update_same)
  with view assms(2,3) show ?thesis by (simp add: same_account_def account_view_devices)
qed

lemma reads_own_guards:
  "reads_own u (lock_active_user u)" "reads_own u (pull_rows u p a)" "reads_own u (require_active_project u p)"
  by (simp_all add: reads_own_def lock_active_user_def require_active_project_def project_state_def)
    (simp add: own_simps)

lemma reads_own_existing_device: "reads_own u (ensure_existing_device u d)"
  by (simp add: reads_own_def ensure_existing_device_def account_view_def find_filter conj_ac)

lemma validate_access_tenant_ok: "tenant_ok s \<Longrightarrow> tenant_ok (fst (validate_access e u d role s))"
  using acts_validate_access [of u e d role] by (auto simp: acts_as_def dest: confined_tenant_ok)

lemma sees_own_validate_access [sees_intros]: "sees_own u (validate_access e u d role)"
  unfolding sees_own_def
proof (intro allI impI)
  fix s s' assume same: "same_account u s s'"
  define guard where "guard t = try_bind (lock_active_user u t) (\<lambda>user.
    if role_as_str (u_role user) \<noteq> role then Inl InvalidRefreshToken else ensure_existing_device u d t)" for t
  have eq: "guard s = guard s'"
    unfolding guard_def reads_ownD [OF reads_own_guards(1) same] reads_ownD [OF reads_own_existing_device same] by (rule refl)
  let ?touched = "\<lambda>t. t\<lparr>devices := update_where (\<lambda>x. d_id x = d) (touch_seen e) (devices t)\<rparr>"
  have run: "validate_access e u d role t = (case guard t of Inl er \<Rightarrow> (t, Inl er) | Inr _ \<Rightarrow> (?touched t, Inr ()))" for t
    by (simp add: validate_access_def guard_def)
  have "same_account u (?touched s) (?touched s')" if "guard s = Inr x" for x
  proof (rule same_account_devices [OF same])
    show "tenant_ok (?touched s)" "tenant_ok (?touched s')"
      using validate_access_tenant_ok [of s e u d role] validate_access_tenant_ok [of s' e u d role] same that
      by (simp_all add: run same_account_def flip: eq)
  qed (simp add: touch_seen_def)
  with same show "snd (validate_access e u d role s) = snd (validate_access e u d role s')
    \<and> same_account u (fst (validate_access e u d role s)) (fst (validate_access e u d role s'))"
    by (simp add: run flip: eq split: sum.split)
qed

lemma sees_own_pull_page [sees_intros]: "sees_own u (pull_page e u d p g after limit)"
  unfolding sees_own_def
proof (intro allI impI)
  fix s s' assume same: "same_account u s s'"
  have guards: "require_active_project u p s = require_active_project u p s'" "pull_rows u p after s = pull_rows u p after s'"
    using reads_ownD [OF reads_own_guards(3) same] reads_ownD [OF reads_own_guards(2) same] by simp_all
  let ?touched = "\<lambda>t. t\<lparr>devices := update_where (\<lambda>x. d_id x = d \<and> d_owner x = u) (touch_pull e) (devices t)\<rparr>"
  have "tenant_ok (?touched t)" if "tenant_ok t" for t
    using confined_devices [OF that, of "\<lambda>x. d_id x = d \<and> d_owner x = u" u "touch_pull e"]
    by (auto simp: touch_pull_def dest: confined_tenant_ok)
  with same have "tenant_ok (?touched s)" "tenant_ok (?touched s')" by (auto simp: same_account_def)
  with same have "same_account u (?touched s) (?touched s')"
    by (intro same_account_devices) (simp_all add: touch_pull_def)
  with same guards show "snd (pull_page e u d p g after limit s) = snd (pull_page e u d p g after limit s')
    \<and> same_account u (fst (pull_page e u d p g after limit s)) (fst (pull_page e u d p g after limit s'))"
    by (auto simp: pull_page_def split: sum.split prod.split)
qed

subsection \<open>Handlers\<close>

lemma sees_steps [sees_intros]:
  "sees u (h_check c)" "sees u (h_return x)" "sees u (h_fail er)" "sees u (h_metrics g)" "sees u (sign_cursor rt secret cl)"
  by (auto simp: sees_def same_world_def sign_cursor_def)

lemma sees_bind [sees_intros]:
  assumes "sees u m" and "\<And>x. sees u (f x)" shows "sees u (h_bind m f)"
  unfolding sees_def
proof (intro allI impI)
  fix w w' :: "'a api_world"
  assume same: "same_world u w w'"
  with assms(1) have m: "snd (m w) = snd (m w')" "same_world u (fst (m w)) (fst (m w'))" by (auto simp: sees_def)
  show "snd (h_bind m f w) = snd (h_bind m f w') \<and> same_world u (fst (h_bind m f w)) (fst (h_bind m f w'))"
  proof (cases "snd (m w)")
    case (Inl er)
    moreover from this m(1) have "snd (m w') = Inl er" by simp
    ultimately show ?thesis using m(2) by (simp add: h_bind_def split_beta)
  next
    case (Inr x)
    moreover from this m(1) have "snd (m w') = Inr x" by simp
    ultimately show ?thesis using m(2) assms(2) [of x] by (simp add: h_bind_def split_beta sees_def)
  qed
qed

lemma sees_cases [sees_intros]:
  "sees u a \<Longrightarrow> (\<And>x. sees u (b x)) \<Longrightarrow> sees u (case z of None \<Rightarrow> a | Some x \<Rightarrow> b x)"
  "(\<And>x1 x2. sees u (f x1 x2)) \<Longrightarrow> sees u (case p of (x1, x2) \<Rightarrow> f x1 x2)"
  "sees u a \<Longrightarrow> sees u a' \<Longrightarrow> sees u (if q then a else a')"
  by (auto split: option.split prod.split)

lemma sees_db:
  assumes alone: "undisturbed rt" and t: "\<And>e ids. sees_own u (t e ids)" shows "sees u (h_db rt er t)"
  unfolding sees_def
proof (intro allI impI)
  fix w w' :: "'a api_world"
  assume same: "same_world u w w'"
  let ?e = "ar_clock rt (aw_steps w)" and ?ids = "ar_uuid rt (aw_steps w)"
  have steps: "aw_steps w' = aw_steps w" using same by (simp add: same_world_def)
  obtain s r where 1: "t ?e ?ids (aw_db w) = (s, r)" by (metis surj_pair)
  obtain s' r' where 2: "t ?e ?ids (aw_db w') = (s', r')" by (metis surj_pair)
  have "same_account u (aw_db w) (aw_db w')" using same by (simp add: same_world_def)
  with t [of ?e ?ids] have "snd (t ?e ?ids (aw_db w)) = snd (t ?e ?ids (aw_db w'))
    \<and> same_account u (fst (t ?e ?ids (aw_db w))) (fst (t ?e ?ids (aw_db w')))" by (simp add: sees_own_def)
  with 1 2 have "r = r' \<and> same_account u s s'" by simp
  then show "snd (h_db rt er t w) = snd (h_db rt er t w') \<and> same_world u (fst (h_db rt er t w)) (fst (h_db rt er t w'))"
    using same h_db_run [OF alone, of t w s r er] h_db_run [OF alone, of t w' s' r' er] 1 2 steps by (simp add: same_world_def)
qed

lemma sees_query: "undisturbed rt \<Longrightarrow> reads_own u q \<Longrightarrow> sees u (h_query rt er q)"
  unfolding h_query_def by (rule sees_db) (auto intro: sees_own_query)

lemma sees_store: "undisturbed rt \<Longrightarrow> sees u (h_store rt i t)"
  by (auto simp: sees_def same_world_def h_store_def api_tick_def undisturbed_def split_beta Let_def)

lemma sees_authenticated:
  assumes alone: "undisturbed (px_rt px)" and mine: "map_option ac_sub (caller px r) = Some u"
    and k: "\<And>c. ac_sub c = u \<Longrightarrow> sees u (k c)"
  shows "sees u (h_bind (authenticate (px_rt px) (hr_headers r) i) k)"
proof -
  from mine obtain c where c: "caller px r = Some c" and sub: "ac_sub c = u" by auto
  have token: "h_check (ok_or (Option.bind (bearer_token (hr_headers r)) (ar_decode_token (px_rt px))) (api_authentication i))
      = (h_return c :: ('a, access_claims) handler)"
    using c by (simp add: caller_def h_check_def h_return_def fun_eq_iff ok_or_def)
  show ?thesis
    unfolding authenticate_def authenticate_role_def authenticate_access_def token
    by (simp only: h_bind_assoc h_bind_return h_bind_fail h_bind_if sub)
      (intro sees_intros sees_db [OF alone] k sub)
qed

lemma reading_handlers_see:
  assumes alone: "undisturbed (px_rt px)" and mine: "map_option ac_sub (caller px r) = Some u"
  shows "sees u (current_user_handler (px_rt px) (hr_headers r))"
    "sees u (list_projects_handler (px_rt px) (hr_headers r))"
    "sees u (get_project_handler (px_rt px) (hr_headers r) p)"
    "sees u (get_payload_handler (px_rt px) (hr_headers r) p h)"
    "sees u (head_payload_handler (px_rt px) (hr_headers r) p h)"
    "sees u (pull_handler (px_rt px) (hr_headers r) p pull_request)"
    "sees u (history_handler (px_rt px) (hr_headers r) p query)"
    "sees u (object_history_handler (px_rt px) (hr_headers r) p kind obj query)"
    "sees u (list_snapshots_handler (px_rt px) (hr_headers r) p)"
    "sees u (get_restore_handler (px_rt px) (hr_headers r) p job)"
    "sees u (list_devices_handler (px_rt px) (hr_headers r))"
proof -
  note rules = sees_authenticated [OF alone mine] sees_query [OF alone] sees_db [OF alone] sees_store [OF alone]
    reads_own_queries sees_intros
  show "sees u (current_user_handler (px_rt px) (hr_headers r))"
    "sees u (list_projects_handler (px_rt px) (hr_headers r))"
    "sees u (get_project_handler (px_rt px) (hr_headers r) p)"
    "sees u (get_payload_handler (px_rt px) (hr_headers r) p h)"
    "sees u (head_payload_handler (px_rt px) (hr_headers r) p h)"
    "sees u (pull_handler (px_rt px) (hr_headers r) p pull_request)"
    "sees u (history_handler (px_rt px) (hr_headers r) p query)"
    "sees u (object_history_handler (px_rt px) (hr_headers r) p kind obj query)"
    "sees u (list_snapshots_handler (px_rt px) (hr_headers r) p)"
    "sees u (get_restore_handler (px_rt px) (hr_headers r) p job)"
    "sees u (list_devices_handler (px_rt px) (hr_headers r))"
    unfolding current_user_handler_def list_projects_handler_def get_project_handler_def get_payload_handler_def
    head_payload_handler_def pull_handler_def history_handler_def object_history_handler_def
    list_snapshots_handler_def get_restore_handler_def list_devices_handler_def history_response_def Let_def
    by ((rule rules | (erule ssubst))+)
qed

definition reading_endpoints :: "account_endpoint list" where
  "reading_endpoints = [CurrentUser, ListProjects, GetProject, GetPayload, HeadPayload, PullE, HistoryE, ObjectHistory,
     ListSnapshots, GetRestore, ListDevices]"

lemma sees_extractors:
  assumes "\<And>x. sees u (k x)"
  shows "sees u (with_value r z k)" and "sees u (api_json f r k)" and "sees u (api_limited_json f r k)"
    and "sees u (api_query g r k)"
  using assms unfolding api_json_def api_limited_json_def with_value_def api_query_def
  by (intro sees_intros; simp)+

lemma sees_responses: "sees u m \<Longrightarrow> sees u (h_map f m)" "sees u m \<Longrightarrow> sees u (respond_json n g m)"
  unfolding respond_json_def h_map_def by (intro sees_intros; assumption)+

text \<open>C14. What an account reads does not depend on other accounts. Take two states of the server that agree on the
  rows of an account, whatever the rows of all the others are. A request with a token of the account to one of the
  reading endpoints (account, projects, payloads, pull, history, snapshots, restores, devices) gets the same answer, to the
  last header, in both, and the two states after it again agree on the account.\<close>

theorem reads_are_isolated:
  assumes "undisturbed (px_rt px)" and "map_option ac_sub (caller px r) = Some u"
    and "route_request (hr_method r) (hr_path r) = Routed (Account ae) args" and "ae \<in> set reading_endpoints"
    and "same_world u w w'"
  shows "snd (serve px r w) = snd (serve px r w') \<and> same_world u (fst (serve px r w)) (fst (serve px r w'))"
proof -
  note rules = reading_handlers_see [OF assms(1,2)] sees_extractors sees_responses sees_cases
  have "sees u (serve_account px ae args r)"
    using assms(4) by (auto simp: reading_endpoints_def intro!: rules)
  with assms(5) have *: "snd (serve_account px ae args r w) = snd (serve_account px ae args r w')"
    "same_world u (fst (serve_account px ae args r w)) (fst (serve_account px ae args r w'))"
    by (auto simp: sees_def)
  show ?thesis
    using * by (simp add: serve_def assms(3) serve_endpoint_def Let_def split_beta)
qed

theorem reads_are_isolated_witness:
  "snd (serve sample_process sample_list (sample_api_world sample_db))
    = snd (serve sample_process sample_list (sample_api_world (account_view ''u'' sample_db)))
   \<and> projects (account_view ''u'' sample_db) \<noteq> projects sample_db"
proof
  have "caller sample_process sample_list = Some sample_claims"
    by (intro sample_caller) (simp add: sample_requests)
  then have "map_option ac_sub (caller sample_process sample_list) = Some ''u''" by (simp add: sample_claims_def)
  moreover have "route_request (hr_method sample_list) (hr_path sample_list) = Routed (Account ListProjects) []"
    by (simp add: sample_requests sample_routes)
  moreover have "ListProjects \<in> set reading_endpoints" by (simp add: reading_endpoints_def)
  moreover have "same_world ''u'' (sample_api_world sample_db) (sample_api_world (account_view ''u'' sample_db))"
    using sample_tenant_ok by (simp add: same_world_def same_account_def sample_api_world_def)
      (simp add: account_view_def)
  ultimately show "snd (serve sample_process sample_list (sample_api_world sample_db))
    = snd (serve sample_process sample_list (sample_api_world (account_view ''u'' sample_db)))"
    using reads_are_isolated [OF sample_undisturbed] by blast
  show "projects (account_view ''u'' sample_db) \<noteq> projects sample_db" by code_simp
qed

end
