(* ===== verification/Migrate.thy ===== *)
theory Migrate
  imports Sample
begin

text \<open>
  The start of the schema (\<open>Persistence::migrate\<close>): the history of the applied migrations, the
  recognition of a schema that exists already, the addition of the table of re-authentication
  nonces to a schema made before it, and the baseline, which replaces the history of a known
  older schema by the one row of the init migration. The runner of \<open>sqlx\<close> is a parameter.
\<close>

subsection \<open>The catalogue\<close>

record history_row =
  hm_version :: int
  hm_description :: string
  hm_success :: bool
  hm_checksum :: bytes

record migration =
  mg_version :: int
  mg_description :: string
  mg_checksum :: bytes

text \<open>
  What \<open>migrate\<close> reads and writes of the database: the relations and functions of the schema
  \<open>public\<close>, the number of columns of each relation, the policies as pairs of a table and a name,
  the tables with row-level security, the indexes, the roles, the grants as triples of a
  table, a role and a privilege, the history if its table exists, and the rows of the application.
\<close>

record catalog =
  ct_relations :: "string list"
  ct_procedures :: "string list"
  ct_columns :: "(string \<times> nat) list"
  ct_policies :: "(string \<times> string) list"
  ct_row_security :: "string list"
  ct_indexes :: "string list"
  ct_roles :: "string list"
  ct_grants :: "(string \<times> string \<times> string) list"
  ct_history :: "history_row list option"
  ct_db :: db

definition legacy_migration_versions :: "int list" where
  "legacy_migration_versions = [1, 2, 3, 4, 5, 6, 7, 8, 9, 10, 11, 12, 13, 14, 15, 16, 17, 18, 19, 20,
     21, 22, 23, 24, 25, 26, 27, 28, 29]"

subsection \<open>The recognition of an existing schema\<close>

definition required_relations :: "string list" where
  "required_relations = [''users'', ''invitations'', ''projects'', ''devices'', ''refresh_tokens'',
     ''audit_events'', ''payloads'', ''object_revisions'', ''object_heads'', ''change_log'',
     ''bootstrap_completions'', ''bootstrap_manifests'', ''idempotency_records'', ''snapshots'',
     ''restore_jobs'', ''sync_attempts'', ''jobs'', ''account_purge_exports'',
     ''distributed_rate_limit_buckets'', ''admin_account_purge_export_metadata'',
     ''admin_device_metadata'', ''admin_history_metadata'', ''admin_job_metadata'',
     ''admin_project_metadata'', ''admin_user_metadata'', ''admin_operational_counts'',
     ''admin_restore_job_metadata'', ''admin_snapshot_metadata'']"

definition required_procedures :: "string list" where
  "required_procedures = [''app_current_user_id()'', ''admin_lock_project(uuid)'']"

definition minimum_columns :: "(string \<times> nat) list" where
  "minimum_columns = [(''users'', 8), (''invitations'', 9), (''projects'', 8), (''devices'', 11),
     (''refresh_tokens'', 9), (''audit_events'', 8), (''payloads'', 9), (''object_revisions'', 14),
     (''object_heads'', 6), (''change_log'', 5), (''bootstrap_completions'', 6),
     (''bootstrap_manifests'', 11), (''idempotency_records'', 9), (''snapshots'', 12),
     (''restore_jobs'', 23), (''sync_attempts'', 10), (''jobs'', 14), (''account_purge_exports'', 10),
     (''distributed_rate_limit_buckets'', 3), (''instance_settings'', 3)]"

definition schema_markers :: "string list" where
  "schema_markers = [''identity_schema_version'', ''sync_schema_version'', ''history_schema_version'',
     ''admin_schema_version'', ''admin_safe_views_schema_version'', ''restore_lease_schema_version'',
     ''admin_project_lock_schema_version'', ''restore_requeue_schema_version'',
     ''restore_job_guard_schema_version'', ''retention_cleanup_schema_version'',
     ''invitation_operations_schema_version'', ''idempotency_expiry_permissions_schema_version'',
     ''worker_rls_function_access_schema_version'', ''idempotency_project_scope_schema_version'',
     ''admin_project_reopen_schema_version'', ''bootstrap_manifest_schema_version'',
     ''jobs_project_purge_schema_version'', ''worker_purge_rls_schema_version'',
     ''restore_retry_schema_version'', ''account_purge_schema_version'',
     ''account_purge_admin_rls_schema_version'', ''restore_cancellation_schema_version'',
     ''distributed_rate_limit_schema_version'', ''admin_restore_progress_schema_version'']"

definition column_count :: "catalog \<Rightarrow> string \<Rightarrow> nat" where
  "column_count c table = (case map_of (ct_columns c) table of None \<Rightarrow> 0 | Some n \<Rightarrow> n)"

definition marker_rows :: "catalog \<Rightarrow> setting_row list" where
  "marker_rows c = filter (\<lambda>x. st_key x \<in> set schema_markers) (instance_settings (ct_db c))"

definition version_one :: json where
  "version_one = JObj [(''version'', JNum 1)]"

definition schema_is_initialized :: "catalog \<Rightarrow> bool" where
  "schema_is_initialized c \<longleftrightarrow>
    ''instance_settings'' \<in> set (ct_relations c)
    \<and> list_all (\<lambda>r. r \<in> set (ct_relations c)) required_relations
    \<and> list_all (\<lambda>p. p \<in> set (ct_procedures c)) required_procedures
    \<and> list_all (\<lambda>(t, n). n \<le> column_count c t) minimum_columns
    \<and> 24 \<le> length (marker_rows c)
    \<and> 24 \<le> length (filter (\<lambda>x. st_value x = version_one) (marker_rows c))
    \<and> 62 \<le> length (ct_policies c)
    \<and> list_ex (\<lambda>x. st_key x = ''admin_restore_progress_schema_version'') (instance_settings (ct_db c))"

subsection \<open>The history\<close>

definition current_applied :: "migration \<Rightarrow> history_row list \<Rightarrow> bool" where
  "current_applied m rows \<longleftrightarrow>
    list_ex (\<lambda>h. hm_version h = mg_version m \<and> hm_checksum h = mg_checksum m \<and> hm_success h) rows"

definition by_version :: "history_row list \<Rightarrow> history_row list" where
  "by_version rows = sort_key hm_version rows"

definition known_history :: "migration \<Rightarrow> history_row list \<Rightarrow> bool" where
  "known_history m rows \<longleftrightarrow>
    map hm_version (by_version rows) = legacy_migration_versions
    \<or> (map hm_version (by_version rows) = [mg_version m]
        \<and> map hm_description (by_version rows) = [mg_description m])"

text \<open>Whether the table exists, and whether the init migration is to be entered by hand.\<close>

definition migration_table_state :: "migration \<Rightarrow> catalog \<Rightarrow> bool \<times> bool" where
  "migration_table_state m c =
    (case ct_history c of
       None \<Rightarrow> (False, False)
     | Some rows \<Rightarrow>
         (True, list_all hm_success rows \<and> (known_history m rows \<or> rows = []) \<and> \<not> current_applied m rows))"

subsection \<open>The table of re-authentication nonces\<close>

definition add_once :: "'a \<Rightarrow> 'a list \<Rightarrow> 'a list" where
  "add_once x xs = (if x \<in> set xs then xs else xs @ [x])"

definition nonce_table :: string where
  "nonce_table = ''admin_reauth_nonces''"

definition nonce_policy :: "string \<times> string" where
  "nonce_policy = (nonce_table, ''admin_reauth_nonces_admin'')"

text \<open>
  One transaction. \<open>CREATE TABLE\<close> refers to \<open>users\<close> and \<open>devices\<close>, the grant to the role: without
  them the statement fails and nothing stays.
\<close>

definition ensure_reauth_nonce_schema :: "catalog \<Rightarrow> catalog \<times> bool" where
  "ensure_reauth_nonce_schema c =
    (let t = nonce_table;
         create = t \<notin> set (ct_relations c) in
     if (create \<and> \<not> (''users'' \<in> set (ct_relations c) \<and> ''devices'' \<in> set (ct_relations c)))
        \<or> ''tasktips_admin'' \<notin> set (ct_roles c)
     then (c, False)
     else
       (c\<lparr>ct_relations := add_once t (ct_relations c),
          ct_columns := (if create then (t, 4) # ct_columns c else ct_columns c),
          ct_row_security := add_once t (ct_row_security c),
          ct_indexes := add_once ''admin_reauth_nonces_expiry_idx'' (ct_indexes c),
          ct_policies := add_once nonce_policy (ct_policies c),
          ct_grants := add_once (t, ''tasktips_admin'', ''DELETE'') (add_once (t, ''tasktips_admin'', ''INSERT'')
            (add_once (t, ''tasktips_admin'', ''SELECT'') (ct_grants c)))\<rparr>, True))"

subsection \<open>The baseline\<close>

text \<open>
  Under the lock of the history: the decision is taken again on the rows that are there now, and
  a history that is not known is left as it is.
\<close>

definition baseline_row :: "migration \<Rightarrow> history_row" where
  "baseline_row m = \<lparr>hm_version = mg_version m, hm_description = mg_description m, hm_success = True,
     hm_checksum = mg_checksum m\<rparr>"

definition can_baseline :: "migration \<Rightarrow> history_row list \<Rightarrow> bool" where
  "can_baseline m rows \<longleftrightarrow>
    rows = [] \<or> (\<not> current_applied m rows \<and> list_all hm_success rows \<and> known_history m rows)"

definition baseline_migration :: "migration \<Rightarrow> catalog \<Rightarrow> catalog" where
  "baseline_migration m c =
    (let rows = (case ct_history c of None \<Rightarrow> [] | Some rows \<Rightarrow> rows) in
     if can_baseline m rows then c\<lparr>ct_history := Some [baseline_row m]\<rparr>
     else c\<lparr>ct_history := Some rows\<rparr>)"

subsection \<open>Migrate\<close>

text \<open>
  The five steps (the state of the history, the recognition of the schema, the table of nonces, the
  baseline, the runner) run one after another, and before each of them \<open>others\<close> applies what other
  processes did. The runner gets the catalogue and all migrations. A build without any migration
  panics.
\<close>

datatype 'e migrate_error = MissingInit | Execute | Runner 'e

definition migrate ::
    "(nat \<Rightarrow> catalog \<Rightarrow> catalog) \<Rightarrow> (migration list \<Rightarrow> catalog \<Rightarrow> catalog \<times> ('e + unit)) \<Rightarrow> migration list
      \<Rightarrow> catalog \<Rightarrow> catalog \<times> ('e migrate_error + unit)" where
  "migrate others run migrations c =
    (case migrations of
       [] \<Rightarrow> (c, Inl MissingInit)
     | m # _ \<Rightarrow>
    (let c1 = others 0 c;
         (table_exists, needs_baseline) = migration_table_state m c1;
         c2 = others 1 c1;
         already_initialized = schema_is_initialized c2;
         c3 = others 2 c2;
         (c4, ok) = (if already_initialized then ensure_reauth_nonce_schema c3 else (c3, True)) in
     if \<not> ok then (c4, Inl Execute)
     else
       (let c5 = (if already_initialized \<and> (\<not> table_exists \<or> needs_baseline)
                  then baseline_migration m (others 3 c4) else c4) in
        apsnd (map_sum Runner id) (run migrations (others 4 c5)))))"

subsection \<open>What it leaves\<close>

lemma ensure_keeps:
  assumes "ensure_reauth_nonce_schema c = (c', ok)"
  shows "ct_history c' = ct_history c" and "ct_db c' = ct_db c"
  using assms by (auto simp: ensure_reauth_nonce_schema_def Let_def split: if_splits)

lemma set_add_once [simp]: "set (add_once x xs) = insert x (set xs)"
  by (auto simp: add_once_def)

lemma add_once_member [simp]: "x \<in> set xs \<Longrightarrow> add_once x xs = xs"
  by (simp add: add_once_def)

lemma ensure_adds:
  assumes "ensure_reauth_nonce_schema c = (c', True)"
  shows "nonce_table \<in> set (ct_relations c')"
    and "nonce_policy \<in> set (ct_policies c')"
  using assms by (auto simp: ensure_reauth_nonce_schema_def Let_def split: if_splits)

lemma ensure_idem:
  assumes "ensure_reauth_nonce_schema c = (c', True)"
  shows "ensure_reauth_nonce_schema c' = (c', True)"
  using assms by (simp add: ensure_reauth_nonce_schema_def Let_def split: if_splits) (erule subst, simp)+

lemma ensure_ok:
  assumes "schema_is_initialized c" and "''tasktips_admin'' \<in> set (ct_roles c)"
  shows "snd (ensure_reauth_nonce_schema c)"
proof -
  have "list_all (\<lambda>r. r \<in> set (ct_relations c)) required_relations"
    using assms(1) by (simp add: schema_is_initialized_def)
  then have "''users'' \<in> set (ct_relations c) \<and> ''devices'' \<in> set (ct_relations c)"
    by (simp add: required_relations_def)
  with assms(2) show ?thesis by (simp add: ensure_reauth_nonce_schema_def Let_def)
qed

lemma baseline_keeps_rows [simp]:
  "ct_db (baseline_migration m c) = ct_db c" "ct_relations (baseline_migration m c) = ct_relations c"
  "ct_policies (baseline_migration m c) = ct_policies c"
  by (simp_all add: baseline_migration_def Let_def)

text \<open>The two decisions agree when nothing happens between them.\<close>

definition history_rows :: "catalog \<Rightarrow> history_row list" where
  "history_rows c = (case ct_history c of None \<Rightarrow> [] | Some rows \<Rightarrow> rows)"

lemma needs_baseline_iff:
  "fst (migration_table_state m c) \<longrightarrow> (snd (migration_table_state m c) \<longleftrightarrow> can_baseline m (history_rows c))"
  by (auto simp: migration_table_state_def can_baseline_def history_rows_def current_applied_def split: option.split)

lemma baselined_history:
  assumes "\<not> fst (migration_table_state m c) \<or> snd (migration_table_state m c)"
  shows "ct_history (baseline_migration m c) = Some [baseline_row m]"
  using assms
  by (auto simp: migration_table_state_def baseline_migration_def can_baseline_def Let_def split: option.splits)

lemma baseline_row_applied [simp]: "current_applied m [baseline_row m]"
  by (simp add: current_applied_def baseline_row_def)

text \<open>A history in which the init migration has run is never replaced, whatever else it holds.\<close>

lemma baseline_respects_applied:
  assumes "ct_history c = Some rows" and "current_applied m rows"
  shows "baseline_migration m c = c"
proof -
  from assms(2) have "rows \<noteq> []" by (auto simp: current_applied_def)
  with assms show ?thesis by (simp add: baseline_migration_def can_baseline_def)
qed

text \<open>A build with the init migration, one process alone.\<close>

definition single_process :: "nat \<Rightarrow> catalog \<Rightarrow> catalog" where
  "single_process n c = c"

lemma migrate_alone:
  assumes "schema_is_initialized c" and "''tasktips_admin'' \<in> set (ct_roles c)"
  shows "migrate single_process run (m # ms) c =
    apsnd (map_sum Runner id) (run (m # ms)
      (let c1 = fst (ensure_reauth_nonce_schema c) in
       if ct_history c = None \<or> snd (migration_table_state m c) then baseline_migration m c1 else c1))"
proof -
  obtain c1 where c1: "ensure_reauth_nonce_schema c = (c1, True)"
    using ensure_ok [OF assms] by (cases "ensure_reauth_nonce_schema c") auto
  show ?thesis using assms(1)
    by (auto simp: migrate_def single_process_def Let_def c1 migration_table_state_def split: option.split)
qed

text \<open>C39. Adoption of an existing schema, when one process migrates alone. On a database that is recognised as
  initialised but has no role \<open>tasktips_admin\<close>, \<open>migrate\<close> fails before the runner and leaves everything as it
  was. On a recognised one with the role it hands to the runner a catalogue in which no row of the application has changed and the table of nonces exists with its policy. Its
  history is the single row of the init migration, marked as applied, when there was no history, an empty one, the
  history of the 29 older migrations or that of an earlier init migration, all applied; every other history (a
  failed migration, a foreign version, the current one) reaches the runner as it was. A database that is not
  recognised reaches the runner untouched.\<close>

theorem migrate_adopts_known_schemas:
  "if schema_is_initialized c \<and> ''tasktips_admin'' \<notin> set (ct_roles c)
   then migrate single_process run (m # ms) c = (c, Inl Execute)
   else \<exists>c'. migrate single_process run (m # ms) c = apsnd (map_sum Runner id) (run (m # ms) c') \<and> ct_db c' = ct_db c
    \<and> (if schema_is_initialized c
       then nonce_table \<in> set (ct_relations c')
          \<and> nonce_policy \<in> set (ct_policies c')
          \<and> ct_history c' = (if ct_history c = None \<or> can_baseline m (history_rows c)
                             then Some [baseline_row m] else ct_history c)
       else c' = c)"
proof (cases "schema_is_initialized c")
  case recognised: True
  show ?thesis
  proof (cases "''tasktips_admin'' \<in> set (ct_roles c)")
    case role: True
    obtain c1 where c1: "ensure_reauth_nonce_schema c = (c1, True)"
      using ensure_ok [OF recognised role] by (cases "ensure_reauth_nonce_schema c") fastforce
    let ?b = "ct_history c = None \<or> snd (migration_table_state m c)"
    have "?b \<longleftrightarrow> ct_history c = None \<or> can_baseline m (history_rows c)"
      using needs_baseline_iff [of m c] by (auto simp: migration_table_state_def split: option.splits)
    moreover have "\<not> fst (migration_table_state m c1) \<or> snd (migration_table_state m c1)" if ?b
      using that by (auto simp: migration_table_state_def ensure_keeps [OF c1] split: option.splits)
    moreover have "\<not> (schema_is_initialized c \<and> ''tasktips_admin'' \<notin> set (ct_roles c))" using role by simp
    ultimately show ?thesis
      using recognised migrate_alone [OF recognised role, of run m ms] c1 ensure_keeps [OF c1]
        baselined_history [of m c1] ensure_adds [OF c1]
      by (subst if_not_P) (assumption, intro exI [of _ "if ?b then baseline_migration m c1 else c1"], simp add: Let_def)
  next
    case False
    then have "ensure_reauth_nonce_schema c = (c, False)" by (simp add: ensure_reauth_nonce_schema_def)
    with recognised False show ?thesis by (simp add: migrate_def single_process_def split: prod.split)
  qed
next
  case False
  moreover from this have "migrate single_process run (m # ms) c = apsnd (map_sum Runner id) (run (m # ms) c)"
    by (simp add: migrate_def single_process_def split: prod.split)
  ultimately show ?thesis by auto
qed

text \<open>A catalogue of the consolidated schema, and the older one it comes from.\<close>

definition sample_catalog :: catalog where
  "sample_catalog = \<lparr>ct_relations = ''instance_settings'' # required_relations, ct_procedures = required_procedures,
     ct_columns = minimum_columns,
     ct_policies = map (\<lambda>i. (''p'', replicate i (CHR ''x''))) [0..<62], ct_row_security = [], ct_indexes = [],
     ct_roles = [''tasktips_admin''], ct_grants = [],
     ct_history = Some (map (\<lambda>v. \<lparr>hm_version = v, hm_description = [], hm_success = True, hm_checksum = []\<rparr>)
       legacy_migration_versions),
     ct_db = empty_db\<lparr>instance_settings := map (\<lambda>k. \<lparr>st_key = k, st_value = version_one\<rparr>) schema_markers\<rparr>\<rparr>"

definition sample_migration :: migration where
  "sample_migration = \<lparr>mg_version = 1, mg_description = ''init'', mg_checksum = [7]\<rparr>"

lemma sample_catalog_ok:
  "schema_is_initialized sample_catalog" "can_baseline sample_migration (history_rows sample_catalog)"
  "''tasktips_admin'' \<in> set (ct_roles sample_catalog)"
  by code_simp+

theorem migrate_adopts_known_schemas_witness:
  "\<exists>c'. migrate single_process (\<lambda>ms c. (c, Inr () :: unit + unit)) [sample_migration] sample_catalog = (c', Inr ())
    \<and> ct_history c' = Some [baseline_row sample_migration]"
  using migrate_adopts_known_schemas [of sample_catalog "\<lambda>ms c. (c, Inr () :: unit + unit)" sample_migration "[]"]
    sample_catalog_ok by auto

subsection \<open>Running it again\<close>

lemma length_add_once: "length xs \<le> length (add_once x xs)"
  by (simp add: add_once_def)

lemma ensure_effect:
  assumes "ensure_reauth_nonce_schema c = (c', True)"
  shows "ct_relations c' = add_once nonce_table (ct_relations c)" and "ct_procedures c' = ct_procedures c"
    and "ct_policies c' = add_once nonce_policy (ct_policies c)"
    and "ct_columns c' = (if nonce_table \<in> set (ct_relations c) then ct_columns c else (nonce_table, 4) # ct_columns c)"
proof -
  have c': "c' = fst (ensure_reauth_nonce_schema c)" and ok: "snd (ensure_reauth_nonce_schema c)"
    using assms by simp_all
  from ok show "ct_relations c' = add_once nonce_table (ct_relations c)" and "ct_procedures c' = ct_procedures c"
    and "ct_policies c' = add_once nonce_policy (ct_policies c)"
    and "ct_columns c' = (if nonce_table \<in> set (ct_relations c) then ct_columns c else (nonce_table, 4) # ct_columns c)"
    unfolding c' ensure_reauth_nonce_schema_def Let_def by (simp_all split: if_split_asm) blast+
qed

lemma ensure_grows:
  assumes "ensure_reauth_nonce_schema c = (c', True)"
  shows "set (ct_relations c) \<subseteq> set (ct_relations c')" and "ct_procedures c' = ct_procedures c"
    and "length (ct_policies c) \<le> length (ct_policies c')" and "t \<noteq> nonce_table \<Longrightarrow> column_count c' t = column_count c t"
  by (auto simp: ensure_effect [OF assms] length_add_once column_count_def)

lemma ensure_keeps_initialized:
  assumes "ensure_reauth_nonce_schema c = (c', True)" and "schema_is_initialized c"
  shows "schema_is_initialized c'"
proof -
  have "nonce_table \<notin> fst ` set minimum_columns" unfolding nonce_table_def by code_simp
  then have "column_count c' t = column_count c t" if "(t, n) \<in> set minimum_columns" for t n
    using that by (intro ensure_grows(4) [OF assms(1)]) force
  then have "list_all (\<lambda>(t, n). n \<le> column_count c' t) minimum_columns = list_all (\<lambda>(t, n). n \<le> column_count c t) minimum_columns"
    by (intro list.pred_cong) auto
  with assms(2) ensure_grows(1-3) [OF assms(1)] show ?thesis
    unfolding schema_is_initialized_def marker_rows_def ensure_keeps(2) [OF assms(1)]
    by (intro conjI) (elim conjE, simp only: list_all_iff, blast)+
qed

text \<open>A second run hands over the catalogue the first one made: the history then has the init migration.\<close>

lemma migrate_again:
  assumes "schema_is_initialized c" and "''tasktips_admin'' \<in> set (ct_roles c)"
    and "current_applied m (history_rows c)" and "fst (ensure_reauth_nonce_schema c) = c"
  shows "migrate single_process run (m # ms) c = apsnd (map_sum Runner id) (run (m # ms) c)"
proof -
  from assms(3) obtain rows where rows: "ct_history c = Some rows" "current_applied m rows"
    by (auto simp: history_rows_def current_applied_def split: option.splits)
  then show ?thesis using assms by (simp add: migrate_alone migration_table_state_def)
qed

text \<open>
  The consolidated schema has 62 policies, that of the table of nonces among them. A database that
  lacks only this table and its policy, for which \<open>ensure_reauth_nonce_schema\<close> is there, has 61
  and is not recognised: neither the table is added nor the older history replaced.
\<close>

lemma older_schema_not_adopted:
  assumes "length (ct_policies c) = 62" and "(t, p) \<in> set (ct_policies c)"
  shows "migrate single_process run (m # ms) (c\<lparr>ct_policies := remove1 (t, p) (ct_policies c)\<rparr>) =
    apsnd (map_sum Runner id) (run (m # ms) (c\<lparr>ct_policies := remove1 (t, p) (ct_policies c)\<rparr>))"
proof -
  have "\<not> schema_is_initialized (c\<lparr>ct_policies := remove1 (t, p) (ct_policies c)\<rparr>)"
    using assms by (simp add: schema_is_initialized_def length_remove1)
  then show ?thesis by (simp add: migrate_def single_process_def split: prod.split)
qed

end
