(* ===== verification/Startup.thy ===== *)
theory Startup
  imports Api_Router Api_Props Worker
begin

text \<open>
  The start of the two processes (\<open>crates/api/src/main.rs\<close> and \<open>main\<close> of \<open>crates/worker\<close>): the
  command of the API binary, the configuration read from the environment, the state of the
  application built from it, the creation of the first administrator, the calibration of the
  password hash, and the removal of the temporary files of interrupted uploads.
\<close>

subsection \<open>The environment of a process\<close>

text \<open>
  The variables, the files, and the parsers of libraries: of a socket address, of a database URL, of
  the private key. The auth service of the record holds the libraries the service uses.
\<close>

record start_env =
  se_var :: "string \<Rightarrow> env_var"
  se_read_file :: "string \<Rightarrow> bytes option"
  se_address_ok :: "string \<Rightarrow> bool"
  se_database_url_ok :: "string \<Rightarrow> bool"
  se_read_key :: "bytes \<Rightarrow> (access_claims \<Rightarrow> string option) option"
  se_libraries :: auth_service
  se_can_bind :: "string \<Rightarrow> bool"

datatype start_error =
    MissingVariable string | BadAddress | BadDatabaseUrl | BadNumber | UnreadableFile
  | StartAuth auth_error | StartCursor cursor_error | BindFailed
  | Usage | BadEmail | NoPassword | WeakPassword | PasswordMismatch | StartDatabase persistence_error

definition required_var :: "(string \<Rightarrow> env_var) \<Rightarrow> string \<Rightarrow> start_error + string" where
  "required_var environment name =
    (case environment name of EnvValue v \<Rightarrow> Inr v | _ \<Rightarrow> Inl (MissingVariable name))"

definition var_or :: "(string \<Rightarrow> env_var) \<Rightarrow> string \<Rightarrow> string \<Rightarrow> string" where
  "var_or environment name dflt = (case environment name of EnvValue v \<Rightarrow> v | _ \<Rightarrow> dflt)"

text \<open>\<open>.map(f).transpose()\<close> on an option.\<close>

definition try_option :: "('a \<Rightarrow> 'e + 'b) \<Rightarrow> 'a option \<Rightarrow> 'e + 'b option" where
  "try_option f x = (case x of None \<Rightarrow> Inr None | Some a \<Rightarrow> map_sum id Some (f a))"

subsection \<open>The state of the application\<close>

record store_config =
  sc_endpoint :: string
  sc_region :: string
  sc_bucket :: string
  sc_access_key :: string
  sc_secret_key :: string

record readiness =
  rd_database :: "string option"
  rd_object_store :: "store_config option"

record app_state =
  as_readiness :: readiness
  as_database :: "string option"
  as_auth :: "auth_service option"
  as_object_store :: "store_config option"
  as_cursor :: "bytes option"
  as_admin_origin :: "string option"
  as_web_origin :: "string option"
  as_metrics :: api_metrics
  as_upload_max :: int

definition app_state_new :: "string option \<Rightarrow> readiness \<Rightarrow> string option \<Rightarrow> auth_service option \<Rightarrow> app_state" where
  "app_state_new upload_max readiness database auth =
    \<lparr>as_readiness = readiness, as_database = database, as_auth = auth, as_object_store = None,
     as_cursor = None, as_admin_origin = None, as_web_origin = None, as_metrics = new_metrics,
     as_upload_max = upload_budget_max upload_max\<rparr>"

definition with_sync :: "store_config \<Rightarrow> bytes \<Rightarrow> app_state \<Rightarrow> app_state" where
  "with_sync object_store cursor st = st\<lparr>as_object_store := Some object_store, as_cursor := Some cursor\<rparr>"

definition with_admin_origin :: "string \<Rightarrow> app_state \<Rightarrow> app_state" where
  "with_admin_origin origin st = st\<lparr>as_admin_origin := Some origin\<rparr>"

definition with_web_origin :: "string \<Rightarrow> app_state \<Rightarrow> app_state" where
  "with_web_origin origin st = st\<lparr>as_web_origin := Some origin\<rparr>"

definition app_state_unavailable :: "string option \<Rightarrow> readiness \<Rightarrow> app_state" where
  "app_state_unavailable upload_max readiness = app_state_new upload_max readiness None None"

text \<open>The part of the runtime of the handlers that comes from the state.\<close>

definition runtime_of :: "app_state \<Rightarrow> 'w api_runtime \<Rightarrow> 'w api_runtime" where
  "runtime_of st rt = rt\<lparr>ar_has_database := as_database st \<noteq> None, ar_has_auth := as_auth st \<noteq> None,
     ar_has_store := as_object_store st \<noteq> None, ar_cursor_secret := as_cursor st,
     ar_admin_origin := as_admin_origin st, ar_web_origin := as_web_origin st,
     ar_upload_max := as_upload_max st\<rparr>"

subsection \<open>Building the services\<close>

definition build_auth_service :: "start_env \<Rightarrow> start_error + auth_service" where
  "build_auth_service en =
    try_bind (required_var (se_var en) ''TASKTIPS_JWT_PRIVATE_KEY_FILE'') (\<lambda>key_path.
    try_bind (ok_or (se_read_file en key_path) UnreadableFile) (\<lambda>private_key.
    try_bind (ok_or (parse_i64 (var_or (se_var en) ''TASKTIPS_ACCESS_TOKEN_TTL_SECONDS'' ''900'')) BadNumber) (\<lambda>access_ttl.
    try_bind (ok_or (parse_i64 (var_or (se_var en) ''TASKTIPS_REFRESH_TOKEN_TTL_SECONDS'' ''2592000'')) BadNumber) (\<lambda>refresh_ttl.
    map_sum StartAuth id (from_private_key_pem (se_read_key en) (se_libraries en) private_key
      (var_or (se_var en) ''TASKTIPS_JWT_ISSUER'' ''tasktips-cloud'')
      (var_or (se_var en) ''TASKTIPS_JWT_AUDIENCE'' ''tasktips-desktop'') access_ttl refresh_ttl)))))"

definition build_object_store :: "(string \<Rightarrow> env_var) \<Rightarrow> store_config option" where
  "build_object_store environment =
    (case (environment ''RUSTFS_ACCESS_KEY'', environment ''RUSTFS_SECRET_KEY'') of
       (EnvValue access_key, EnvValue secret_key) \<Rightarrow>
         Some \<lparr>sc_endpoint = var_or environment ''RUSTFS_ENDPOINT'' ''http://127.0.0.1:9000'',
               sc_region = var_or environment ''RUSTFS_REGION'' ''us-east-1'',
               sc_bucket = var_or environment ''RUSTFS_BUCKET'' ''tasktips-data'',
               sc_access_key = access_key, sc_secret_key = secret_key\<rparr>
     | _ \<Rightarrow> None)"

definition optional_origin :: "start_env \<Rightarrow> auth_service option \<Rightarrow> string \<Rightarrow> start_error + string option" where
  "optional_origin en auth name = try_option (\<lambda>_. required_var (se_var en) name) auth"

definition env_text :: "(string \<Rightarrow> env_var) \<Rightarrow> string \<Rightarrow> string option" where
  "env_text environment name = (case environment name of EnvValue v \<Rightarrow> Some v | _ \<Rightarrow> None)"

text \<open>The state before the object store, and the sync services if a store is configured.\<close>

definition base_state ::
    "start_env \<Rightarrow> string option \<Rightarrow> auth_service option \<Rightarrow> string option \<Rightarrow> string option \<Rightarrow> app_state" where
  "base_state en database auth admin_origin web_origin =
    (let st0 = app_state_new (env_text (se_var en) ''TASKTIPS_UPLOAD_TEMP_MAX_BYTES'')
           \<lparr>rd_database = database, rd_object_store = build_object_store (se_var en)\<rparr> database auth;
         st1 = (case admin_origin of None \<Rightarrow> st0 | Some origin \<Rightarrow> with_admin_origin origin st0) in
     case web_origin of None \<Rightarrow> st1 | Some origin \<Rightarrow> with_web_origin origin st1)"

definition add_sync :: "start_env \<Rightarrow> app_state \<Rightarrow> start_error + app_state" where
  "add_sync en st =
    (case build_object_store (se_var en) of
       None \<Rightarrow> Inr st
     | Some store \<Rightarrow>
         try_bind (required_var (se_var en) ''TASKTIPS_CURSOR_SIGNING_SECRET'') (\<lambda>cursor_secret.
         try_bind (map_sum StartCursor id (cursor_signer_new (utf8_bytes cursor_secret))) (\<lambda>signer.
         Inr (with_sync store signer st))))"

text \<open>The start of the server: the address it listens on and the state it serves.\<close>

definition start_api :: "start_env \<Rightarrow> start_error + (string \<times> app_state)" where
  "start_api en =
    (let address = var_or (se_var en) ''TASKTIPS_BIND_ADDRESS'' ''0.0.0.0:18080'' in
     if \<not> se_address_ok en address then Inl BadAddress else
     try_bind (try_option (\<lambda>url. if se_database_url_ok en url then Inr url else Inl BadDatabaseUrl)
                 (env_text (se_var en) ''TASKTIPS_DATABASE_URL'')) (\<lambda>database.
     try_bind (try_option (\<lambda>_. build_auth_service en) database) (\<lambda>auth.
     try_bind (optional_origin en auth ''TASKTIPS_ADMIN_ORIGIN'') (\<lambda>admin_origin.
     try_bind (optional_origin en auth ''TASKTIPS_WEB_ORIGIN'') (\<lambda>web_origin.
     try_bind (add_sync en (base_state en database auth admin_origin web_origin)) (\<lambda>st.
     if se_can_bind en address then Inr (address, st) else Inl BindFailed))))))"

subsection \<open>Commands\<close>

datatype api_command = ShowVersion | MigrateSchema | CalibratePassword | CreateAdmin | ServeApi

definition api_command_of :: "string list \<Rightarrow> api_command" where
  "api_command_of arguments =
    (case arguments of
       [] \<Rightarrow> ServeApi
     | a # rest \<Rightarrow>
         if a = ''--version'' \<or> a = ''-V'' then ShowVersion
         else if a = ''migrate'' then MigrateSchema
         else if a = ''admin''
           then (if rest \<noteq> [] \<and> hd rest = ''calibrate-password'' then CalibratePassword else CreateAdmin)
         else ServeApi)"

text \<open>
  \<open>admin create --email <email>\<close>: the two passwords come from the terminal, the second is only
  asked for when the first one is strong enough.
\<close>

definition create_admin ::
    "start_env \<Rightarrow> env \<Rightarrow> uuid \<Rightarrow> string list \<Rightarrow> string option \<Rightarrow> string option \<Rightarrow> db
      \<Rightarrow> db \<times> (start_error + user_row)" where
  "create_admin en e user_id arguments first_prompt second_prompt s =
    (case arguments of
       [admin, create, flag, email] \<Rightarrow>
         if admin = ''admin'' \<and> create = ''create'' \<and> flag = ''--email'' then
           (case (try_bind (ok_or (normalize_email email) BadEmail) (\<lambda>email_normalized.
                  try_bind (ok_or first_prompt NoPassword) (\<lambda>password.
                  if \<not> valid_password password then Inl WeakPassword else
                  try_bind (ok_or second_prompt NoPassword) (\<lambda>confirmation.
                  if password \<noteq> confirmation then Inl PasswordMismatch else
                  try_bind (map_sum StartAuth id (hash_password (se_libraries en) 0 password)) (\<lambda>password_hash.
                  try_bind (required_var (se_var en) ''TASKTIPS_DATABASE_URL'') (\<lambda>database_url.
                  if se_database_url_ok en database_url then Inr (email_normalized, password_hash)
                  else Inl BadDatabaseUrl)))))) of
              Inl er \<Rightarrow> (s, Inl er)
            | Inr (email_normalized, password_hash) \<Rightarrow>
                apsnd (map_sum StartDatabase id)
                  (create_initial_admin e user_id email_normalized (trim email) password_hash s))
         else (s, Inl Usage)
     | _ \<Rightarrow> (s, Inl Usage))"

subsection \<open>Calibration of the password hash\<close>

definition calibration_profiles :: "password_hash_config list" where
  "calibration_profiles =
    [\<lparr>ph_memory_kib = 16384, ph_time_cost = 1, ph_parallelism = 1\<rparr>,
     \<lparr>ph_memory_kib = 32768, ph_time_cost = 2, ph_parallelism = 1\<rparr>,
     \<lparr>ph_memory_kib = 65536, ph_time_cost = 3, ph_parallelism = 1\<rparr>]"

definition hash_password_with_config ::
    "auth_service \<Rightarrow> nat \<Rightarrow> string \<Rightarrow> password_hash_config \<Rightarrow> auth_error + string" where
  "hash_password_with_config sv step password config =
    try_bind (ok_or (sv_salt sv step) RandomError) (\<lambda>salt.
    ok_or (sv_argon2 sv config password salt) PasswordError)"

text \<open>The elapsed milliseconds of each profile are measured.\<close>

definition calibrate_password_hash ::
    "auth_service \<Rightarrow> (nat \<Rightarrow> nat) \<Rightarrow> auth_error + (password_hash_config \<times> nat) list" where
  "calibrate_password_hash sv elapsed_ms =
    try_map (\<lambda>(step, config).
      try_bind (hash_password_with_config sv step ''tasktips-argon2-calibration'' config) (\<lambda>_. Inr (config, elapsed_ms step)))
      (List.enumerate 0 calibration_profiles)"

subsection \<open>Files of interrupted uploads\<close>

definition ends_with :: "string \<Rightarrow> string \<Rightarrow> bool" where
  "ends_with t s \<longleftrightarrow> starts_with (rev t) (rev s)"

definition stale_upload :: "instant \<Rightarrow> dir_entry \<Rightarrow> bool" where
  "stale_upload now entry \<longleftrightarrow>
    (case de_name entry of
       None \<Rightarrow> False
     | Some name \<Rightarrow> starts_with ''tasktips-payload-'' name \<and> ends_with ''.tmp'' name)
    \<and> older_than (now - hours 1) entry"

definition cleanup_upload_temp_dir :: "instant \<Rightarrow> dir_entry option list \<Rightarrow> dir_entry option list" where
  "cleanup_upload_temp_dir now entries = remaining_entries (stale_upload now) entries"

definition upload_temp_name :: "uuid \<Rightarrow> uuid \<Rightarrow> string" where
  "upload_temp_name user_id file_id = ''tasktips-payload-'' @ user_id @ ''-'' @ file_id @ ''.tmp''"

text \<open>The file of an upload is recognised, and stays as long as it is younger than an hour.\<close>

lemma upload_file_kept_while_young:
  assumes "Some x \<in> set entries" and "de_modified x = Some t" and "now - hours 1 \<le> t"
  shows "Some x \<in> set (cleanup_upload_temp_dir now entries)"
  unfolding cleanup_upload_temp_dir_def using assms
  by (intro remaining_keeps) (auto simp: stale_upload_def older_than_def)

lemma upload_file_removed_when_old:
  assumes "None \<notin> set entries" and "de_removable x" and "de_metadata x" and "de_modified x = Some t"
    and "t < now - hours 1" and "de_name x = Some (upload_temp_name u f)"
  shows "Some x \<notin> set (cleanup_upload_temp_dir now entries)"
proof
  assume "Some x \<in> set (cleanup_upload_temp_dir now entries)"
  then have "\<not> stale_upload now x"
    unfolding cleanup_upload_temp_dir_def using assms(1,2) remaining_clean by blast
  then show False using assms(3-) by (simp add: stale_upload_def older_than_def upload_temp_name_def starts_with_def ends_with_def)
qed

subsection \<open>The start of the worker\<close>

record worker_config =
  wc_database_url :: string
  wc_store :: store_config
  wc_cleanup_seconds :: int

definition start_worker :: "start_env \<Rightarrow> start_error + worker_config" where
  "start_worker en =
    try_bind (required_var (se_var en) ''TASKTIPS_DATABASE_URL'') (\<lambda>database_url.
    if \<not> se_database_url_ok en database_url then Inl BadDatabaseUrl else
    try_bind (required_var (se_var en) ''RUSTFS_ENDPOINT'') (\<lambda>endpoint.
    try_bind (required_var (se_var en) ''RUSTFS_BUCKET'') (\<lambda>bucket.
    try_bind (required_var (se_var en) ''RUSTFS_ACCESS_KEY'') (\<lambda>access_key.
    try_bind (required_var (se_var en) ''RUSTFS_SECRET_KEY'') (\<lambda>secret_key.
    try_bind (ok_or (parse_u64 (var_or (se_var en) ''TASKTIPS_ORPHAN_CLEANUP_INTERVAL_SECONDS'' ''3600'')) BadNumber) (\<lambda>interval_seconds.
    Inr \<lparr>wc_database_url = database_url,
          wc_store = \<lparr>sc_endpoint = endpoint, sc_region = var_or (se_var en) ''RUSTFS_REGION'' ''us-east-1'',
            sc_bucket = bucket, sc_access_key = access_key, sc_secret_key = secret_key\<rparr>,
          wc_cleanup_seconds = max interval_seconds 60\<rparr>))))))"

subsection \<open>What a started process has\<close>

lemma map_sum_id_Inr: "map_sum f id x = Inr y \<longleftrightarrow> x = Inr y"
  by (cases x) auto

lemma ok_or_Inr: "ok_or x er = Inr v \<longleftrightarrow> x = Some v"
  by (cases x) (auto simp: ok_or_def)

lemma parse_i64_bound: "parse_i64 t = Some n \<Longrightarrow> n \<le> i64_max"
  by (auto simp: parse_i64_def parse_int_def bind_eq_Some_conv split: if_splits)

lemma from_private_key_pem_ok:
  assumes "from_private_key_pem rd libs key iss aud a b = Inr sv"
  shows "0 < a \<and> 0 < b \<and> sv_access_ttl sv = a \<and> sv_refresh_ttl sv = b
    \<and> (\<exists>config. configured_password_hash_config (sv_env sv) = Inr config)"
  using assms by (auto simp: from_private_key_pem_def try_bind_eq_Inr split: if_splits)

text \<open>The service that is built has positive lifetimes, a valid password configuration and a readable key.\<close>

lemma built_auth_service:
  assumes "build_auth_service en = Inr sv"
  shows "0 < sv_access_ttl sv \<and> sv_access_ttl sv \<le> i64_max \<and> 0 < sv_refresh_ttl sv \<and> sv_refresh_ttl sv \<le> i64_max
    \<and> (\<exists>config. configured_password_hash_config (sv_env sv) = Inr config)"
  using assms unfolding build_auth_service_def try_bind_eq_Inr map_sum_id_Inr ok_or_Inr
  by (elim exE conjE) (drule from_private_key_pem_ok, simp add: parse_i64_bound)

lemma try_option_Inr:
  "try_option f x = Inr y \<longleftrightarrow> (case x of None \<Rightarrow> y = None | Some a \<Rightarrow> (\<exists>b. f a = Inr b \<and> y = Some b))"
proof (cases x)
  case (Some a)
  then show ?thesis by (cases "f a") (auto simp: try_option_def)
qed (auto simp: try_option_def)

text \<open>
  What a started process has: the service and the two origins with the database, the cursor signer with the object
  store, and the probes of readiness for what it has.
\<close>

definition well_formed_state :: "app_state \<Rightarrow> bool" where
  "well_formed_state st \<longleftrightarrow>
    (as_database st = None \<longleftrightarrow> as_auth st = None)
    \<and> (as_auth st = None \<longleftrightarrow> as_admin_origin st = None) \<and> (as_auth st = None \<longleftrightarrow> as_web_origin st = None)
    \<and> (as_object_store st = None \<longleftrightarrow> as_cursor st = None)
    \<and> rd_database (as_readiness st) = as_database st \<and> rd_object_store (as_readiness st) = as_object_store st
    \<and> 1024 * 1024 \<le> as_upload_max st
    \<and> (case as_cursor st of None \<Rightarrow> True | Some secret \<Rightarrow> 32 \<le> length secret)
    \<and> (case as_auth st of None \<Rightarrow> True | Some sv \<Rightarrow> 0 < sv_access_ttl sv \<and> sv_access_ttl sv \<le> i64_max
         \<and> 0 < sv_refresh_ttl sv \<and> sv_refresh_ttl sv \<le> i64_max
         \<and> (\<exists>config. configured_password_hash_config (sv_env sv) = Inr config))"

lemma upload_budget_max_least: "1048576 \<le> upload_budget_max v"
  by (auto simp: upload_budget_max_def env_byte_limit_def default_upload_temp_max_bytes_def split: option.split)

lemma base_state_fields:
  "as_database (base_state en d a ao wo) = d" "as_auth (base_state en d a ao wo) = a"
  "as_admin_origin (base_state en d a ao wo) = ao" "as_web_origin (base_state en d a ao wo) = wo"
  "as_object_store (base_state en d a ao wo) = None" "as_cursor (base_state en d a ao wo) = None"
  "rd_database (as_readiness (base_state en d a ao wo)) = d"
  "rd_object_store (as_readiness (base_state en d a ao wo)) = build_object_store (se_var en)"
  "1048576 \<le> as_upload_max (base_state en d a ao wo)"
  using upload_budget_max_least
  by (simp_all add: base_state_def app_state_new_def with_admin_origin_def with_web_origin_def Let_def split: option.split)

lemma add_sync_ok:
  assumes "add_sync en st0 = Inr st"
  shows "(build_object_store (se_var en) = None \<and> st = st0)
    \<or> (\<exists>store secret. build_object_store (se_var en) = Some store \<and> 32 \<le> length secret \<and> st = with_sync store secret st0)"
  using assms
  by (auto simp: add_sync_def try_bind_eq_Inr map_sum_id_Inr cursor_signer_new_def not_less split: option.splits if_splits)

lemma optional_origin_Inr: "optional_origin en auth name = Inr y \<Longrightarrow> (y = None \<longleftrightarrow> auth = None)"
  by (auto simp: optional_origin_def try_option_Inr split: option.splits)

lemma started_state_well_formed:
  assumes "start_api en = Inr (address, st)"
  shows "well_formed_state st"
proof -
  from assms obtain database auth admin_origin web_origin where
    auth: "try_option (\<lambda>_. build_auth_service en) database = Inr auth"
    and origins: "optional_origin en auth ''TASKTIPS_ADMIN_ORIGIN'' = Inr admin_origin"
      "optional_origin en auth ''TASKTIPS_WEB_ORIGIN'' = Inr web_origin"
    and sync: "add_sync en (base_state en database auth admin_origin web_origin) = Inr st"
    unfolding start_api_def Let_def try_bind_eq_Inr by (auto simp: try_bind_eq_Inr split: if_splits)
  have "(database = None \<longleftrightarrow> auth = None) \<and> (\<forall>sv. auth = Some sv \<longrightarrow> build_auth_service en = Inr sv)"
    using auth by (auto simp: try_option_Inr split: option.splits)
  with built_auth_service [of en] optional_origin_Inr [OF origins(1)] optional_origin_Inr [OF origins(2)] add_sync_ok [OF sync]
  show ?thesis
    by (auto simp: well_formed_state_def with_sync_def base_state_fields split: option.split)
qed

text \<open>The handlers then refuse for a missing service only what the configuration leaves out.\<close>

lemma started_services:
  assumes "well_formed_state st"
  shows "services (runtime_of st rt) i = Inr () \<longleftrightarrow> as_database st \<noteq> None"
    and "sync_object_store (runtime_of st rt) i = Inr () \<longleftrightarrow> as_object_store st \<noteq> None"
    and "(\<exists>secret. cursor_signer (runtime_of st rt) i = Inr secret) \<longleftrightarrow> as_object_store st \<noteq> None"
  using assms by (auto simp: well_formed_state_def services_def sync_object_store_def cursor_signer_def runtime_of_def check_def)

text \<open>C40. A process that starts is completely configured, so no request meets a service that is half there. If the
  start succeeds, the state it serves has the authentication service and both origins exactly when it has a
  database, and a cursor signer exactly when it has an object store; the probes of readiness are for the same
  services; the lifetimes of tokens are positive and fit 64 bits, the password configuration is valid, the secret of
  the cursors has at least 32 bytes and the budget for uploads is at least a mebibyte. The handlers then find the
  services exactly when a database is configured, and the object store exactly when they find the cursor signer.\<close>

theorem started_process_is_complete:
  assumes "start_api en = Inr (address, st)"
  shows "well_formed_state st
    \<and> (services (runtime_of st rt) i = Inr () \<longleftrightarrow> as_database st \<noteq> None)
    \<and> (sync_object_store (runtime_of st rt) i = Inr () \<longleftrightarrow> (\<exists>secret. cursor_signer (runtime_of st rt) i = Inr secret))"
  using started_state_well_formed [OF assms] started_services [OF started_state_well_formed [OF assms]] by blast

definition sample_libraries :: auth_service where
  "sample_libraries = \<lparr>sv_issuer = [], sv_audience = [], sv_access_ttl = 0, sv_refresh_ttl = 0,
     sv_encode = \<lambda>_. None, sv_random = \<lambda>_. Some [1, 2], sv_salt = \<lambda>_. Some [3], sv_env = \<lambda>_. NotPresent,
     sv_argon2 = \<lambda>_ p _. Some p, sv_argon2_verify = \<lambda>_ p h. p = h, sv_base64 = \<lambda>_. ''r'',
     sv_sha256 = id, sv_parse_ip = Some\<rparr>"

definition sample_start :: start_env where
  "sample_start = \<lparr>se_var = (\<lambda>name.
       if name = ''TASKTIPS_CURSOR_SIGNING_SECRET'' then EnvValue (replicate 32 (CHR ''s''))
       else if name \<in> set [''TASKTIPS_DATABASE_URL'', ''TASKTIPS_JWT_PRIVATE_KEY_FILE'', ''TASKTIPS_ADMIN_ORIGIN'',
              ''TASKTIPS_WEB_ORIGIN'', ''RUSTFS_ACCESS_KEY'', ''RUSTFS_SECRET_KEY''] then EnvValue ''x''
       else NotPresent),
     se_read_file = (\<lambda>_. Some [1]), se_address_ok = (\<lambda>_. True), se_database_url_ok = (\<lambda>_. True),
     se_read_key = (\<lambda>_. Some (\<lambda>_. Some ''t'')),
     se_libraries = sample_libraries, se_can_bind = (\<lambda>_. True)\<rparr>"

theorem started_process_is_complete_witness:
  "case start_api sample_start of Inl _ \<Rightarrow> False
   | Inr (_, st) \<Rightarrow> well_formed_state st \<and> services (runtime_of st sample_api) ''i'' = Inr () \<and> as_cursor st \<noteq> None"
proof -
  have "case start_api sample_start of Inl _ \<Rightarrow> False | Inr (_, st) \<Rightarrow> as_database st \<noteq> None \<and> as_cursor st \<noteq> None"
    by code_simp
  then obtain a st where st: "start_api sample_start = Inr (a, st)" "as_database st \<noteq> None" "as_cursor st \<noteq> None"
    by (auto split: sum.splits)
  from started_process_is_complete [OF st(1), of sample_api "''i''"] st show ?thesis by simp
qed

end
