(* ===== verification/Login_Props.thy ===== *)
theory Login_Props
  imports Isolation
begin

text \<open>
  Logins: the part of the database a session consists of, what each step of a login does to it, as a
  rule per combinator, and that a session is only made for a verified password.
\<close>

subsection \<open>Steps and the sessions they leave\<close>

type_synonym sessions = "user_row list \<times> device_row list \<times> refresh_row list"

definition sessions_of :: "db \<Rightarrow> sessions" where
  "sessions_of s = (users s, devices s, refresh_tokens s)"

text \<open>
  From sessions \<open>v\<close> a step ends with a result and sessions that satisfy \<open>Q\<close>, or with an error and
  sessions that satisfy \<open>E\<close>.
\<close>

definition signs ::
    "(api_error \<Rightarrow> sessions \<Rightarrow> bool) \<Rightarrow> sessions \<Rightarrow> ('w, 'a) handler \<Rightarrow> ('a \<Rightarrow> sessions \<Rightarrow> bool) \<Rightarrow> bool" where
  "signs E v h Q \<longleftrightarrow>
    (\<forall>w. sessions_of (aw_db w) = v \<longrightarrow>
      (case snd (h w) of
         Inl er \<Rightarrow> E er (sessions_of (aw_db (fst (h w))))
       | Inr x \<Rightarrow> Q x (sessions_of (aw_db (fst (h w))))))"

text \<open>An error of the client or the server, with the sessions as they were.\<close>

definition refused :: "sessions \<Rightarrow> api_error \<Rightarrow> sessions \<Rightarrow> bool" where
  "refused v er v' \<longleftrightarrow> v' = v \<and> 400 \<le> ae_status er"

definition unchanged :: "sessions \<Rightarrow> 'a \<Rightarrow> sessions \<Rightarrow> bool" where
  "unchanged v x v' \<longleftrightarrow> v' = v"

lemma signs_bind:
  assumes "signs E v m R" and "\<And>x v'. R x v' \<Longrightarrow> signs E v' (f x) Q"
  shows "signs E v (h_bind m f) Q"
  unfolding signs_def
proof (intro allI impI)
  fix w :: "'a api_world"
  assume w: "sessions_of (aw_db w) = v"
  obtain w1 r where m: "m w = (w1, r)" by (metis surj_pair)
  show "case snd (h_bind m f w) of Inl er \<Rightarrow> E er (sessions_of (aw_db (fst (h_bind m f w))))
    | Inr x \<Rightarrow> Q x (sessions_of (aw_db (fst (h_bind m f w))))"
  proof (cases r)
    case (Inl er)
    with assms(1) w m show ?thesis by (auto simp: signs_def)
  next
    case (Inr x)
    with assms(1) w m have "R x (sessions_of (aw_db w1))" by (auto simp: signs_def)
    with assms(2) have "signs E (sessions_of (aw_db w1)) (f x) Q" by blast
    moreover have run: "h_bind m f w = f x w1" using m Inr by simp
    ultimately show ?thesis unfolding run unfolding signs_def by simp
  qed
qed

lemma signs_mono:
  assumes "signs E v h Q" and "\<And>er v'. E er v' \<Longrightarrow> E' er v'" and "\<And>x v'. Q x v' \<Longrightarrow> Q' x v'"
  shows "signs E' v h Q'"
  using assms unfolding signs_def by (metis (mono_tags, lifting) sum.case_eq_if)

lemma signsD:
  assumes "signs E v h Q" and "sessions_of (aw_db w) = v" and "h w = (w', r)"
  shows "case r of Inl er \<Rightarrow> E er (sessions_of (aw_db w')) | Inr x \<Rightarrow> Q x (sessions_of (aw_db w'))"
proof -
  from assms(1,2) have "case snd (h w) of Inl er \<Rightarrow> E er (sessions_of (aw_db (fst (h w))))
    | Inr x \<Rightarrow> Q x (sessions_of (aw_db (fst (h w))))" unfolding signs_def by blast
  then show ?thesis unfolding assms(3) fst_conv snd_conv .
qed

text \<open>A step that keeps the sessions, and the rest from there.\<close>

lemma signs_step:
  assumes "signs (refused v) v m (unchanged v)" and "\<And>x. signs (refused v) v (f x) Q"
  shows "signs (refused v) v (h_bind m f) Q"
  using assms by (intro signs_bind [where R = "unchanged v"]) (auto simp: unchanged_def)

lemma signs_return: "Q x v \<Longrightarrow> signs E v (h_return x) Q"
  by (simp add: signs_def h_return_def)

lemma signs_fail: "400 \<le> ae_status er \<Longrightarrow> signs (refused v) v (h_fail er) Q"
  by (simp add: signs_def h_fail_def refused_def)

lemma signs_check:
  assumes "error_statuses c" and "\<And>x. c = Inr x \<Longrightarrow> signs (refused v) v (f x) Q"
  shows "signs (refused v) v (h_bind (h_check c) f) Q"
  using assms by (intro signs_bind [where R = "\<lambda>x v'. c = Inr x \<and> v' = v"])
    (auto simp: signs_def h_check_def refused_def error_statuses_def split: sum.split)

lemma signs_auth: "400 \<le> ae_status er \<Longrightarrow> signs (refused v) v (h_auth er t) (unchanged v)"
  by (auto simp: signs_def h_auth_def refused_def unchanged_def map_sum_def split: sum.splits)

text \<open>The budgets of a client and the audit are outside the sessions.\<close>

lemma consume_sessions: "sessions_of (fst (consume_distributed_rate_limit h e k l p s)) = sessions_of s"
  by (simp add: consume_distributed_rate_limit_def sessions_of_def split: option.split)

lemma record_failure_sessions: "sessions_of (fst (record_auth_failure e a b c d f g h i j s)) = sessions_of s"
  by (simp add: record_auth_failure_def sessions_of_def insert_audit_nullable_def)

lemma signs_txn:
  assumes "undisturbed rt" and "\<And>e ids s. sessions_of s = v \<Longrightarrow> R (snd (t e ids s)) (sessions_of (fst (t e ids s)))"
  shows "signs E v (h_txn rt t) R"
  using assms by (auto simp: signs_def h_txn_def api_tick_def undisturbed_def split_beta Let_def)

lemma signs_result:
  assumes "\<And>er. 400 \<le> ae_status (g er)"
  shows "signs (refused v) v (h_check (map_sum g id r)) (\<lambda>x v'. v' = v \<and> r = Inr x)"
  using assms by (cases r) (auto simp: signs_def h_check_def refused_def)

lemma signs_db:
  assumes "undisturbed rt" and "\<And>er. 400 \<le> ae_status (g er)" and "\<And>e ids s. sessions_of (fst (t e ids s)) = sessions_of s"
  shows "signs (refused v) v (h_db rt g t) (unchanged v)"
  unfolding h_db_def
proof (rule signs_bind)
  show "signs (refused v) v (h_txn rt t) (unchanged v)"
    using assms(3) by (intro signs_txn [OF assms(1)]) (simp add: unchanged_def)
  show "signs (refused v) v' (h_check (map_sum g id x)) (unchanged v)" if "unchanged v x v'" for x v'
    using that by (auto simp: unchanged_def intro: signs_mono [OF signs_result [OF assms(2)]])
qed

lemma signs_attempt:
  assumes "undisturbed rt" and "\<And>e ids s. sessions_of (fst (t e ids s)) = sessions_of s"
  shows "signs (refused v) v (h_attempt rt t) (unchanged v)"
  unfolding h_attempt_def
  by (rule signs_bind [where R = "unchanged v"]) (use assms in \<open>auto simp: unchanged_def intro!: signs_txn signs_return\<close>)

lemma answer_statuses:
  "ae_status (api_authentication i) = 401" "ae_status (api_invalid i) = 400" "ae_status (api_rate_limited i) = 429"
  "ae_status (api_internal i) = 500" "ae_status (api_unavailable i) = 503" "ae_status (account_disabled i) = 403"
  "ae_status (api_authorization i) = 403"
  by (simp_all add: api_authentication_def api_invalid_def api_rate_limited_def api_internal_def api_unavailable_def
      account_disabled_def api_authorization_def api_error_new_def)

lemma signs_allow: "signs (refused v) v (allow_auth_request rt operation k i) (unchanged v)"
  by (auto simp: signs_def allow_auth_request_def refused_def unchanged_def answer_statuses Let_def split_beta)

lemma signs_shared:
  assumes "undisturbed rt"
  shows "signs (refused v) v (enforce_shared_rate_limit rt k i) (unchanged v)"
  unfolding enforce_shared_rate_limit_def enforce_shared_rate_limit_windowed_def
  by (rule signs_step, rule signs_db [OF assms])
    (auto simp: map_persistence_status consume_sessions answer_statuses unchanged_def intro!: signs_return signs_fail)

lemma signs_limits:
  assumes "undisturbed rt"
  shows "signs (refused v) v (limited rt sv operation p x hs i) (unchanged v)"
    and "signs (refused v) v (enforce_login_ip_budget rt sv operation p hs i) (unchanged v)"
  unfolding limited_def enforce_login_ip_budget_def
  by (rule signs_step, rule signs_allow, rule signs_shared [OF assms])+

lemma signs_log:
  assumes "undisturbed rt"
  shows "signs (refused v) v (log_login_failure rt sv hs m d a b reason source i) (unchanged v)"
  unfolding log_login_failure_def by (rule signs_attempt [OF assms]) (rule record_failure_sessions)

lemma signs_find:
  assumes "undisturbed rt"
  shows "signs (refused v) v (h_query rt (\<lambda>er. map_persistence er i) (\<lambda>s. Inr (find_login_user m s)))
    (\<lambda>u v'. v' = v \<and> u = List.find (\<lambda>u. u_email_normalized u = m) (fst v))"
  unfolding h_query_def h_db_def
proof (rule signs_bind)
  show "signs (refused v) v (h_txn rt (\<lambda>_ _ s. (s, Inr (find_login_user m s))))
      (\<lambda>r v'. v' = v \<and> r = Inr (List.find (\<lambda>u. u_email_normalized u = m) (fst v)))"
    by (intro signs_txn [OF assms]) (auto simp: find_login_user_def sessions_of_def)
  show "signs (refused v) v' (h_check (map_sum (\<lambda>er. map_persistence er i) id r))
      (\<lambda>u v'. v' = v \<and> u = List.find (\<lambda>u. u_email_normalized u = m) (fst v))"
    if "v' = v \<and> r = Inr (List.find (\<lambda>u. u_email_normalized u = m) (fst v))" for r v'
    using that by (simp add: signs_def h_check_def)
qed

subsection \<open>The session a login makes\<close>

text \<open>
  A user of the address whose password verifies, of the role and active; a device of this user that
  is not revoked; one new refresh token, of the user and the device, unused.
\<close>

definition granted_session ::
    "auth_service \<Rightarrow> string \<Rightarrow> string \<Rightarrow> string \<Rightarrow> uuid \<Rightarrow> sessions \<Rightarrow> sessions \<Rightarrow> bool" where
  "granted_session sv role email password device v v' \<longleftrightarrow>
    (\<exists>u t. List.find (\<lambda>u. u_email_normalized u = email) (fst v) = Some u
      \<and> verify_password sv password (u_password_hash u) \<and> role_as_str (u_role u) = role \<and> u_status u = Active
      \<and> (case List.find (\<lambda>d. d_id d = device \<and> d_owner d = u_id u) (fst (snd v')) of
           None \<Rightarrow> False | Some d \<Rightarrow> d_revoked_at d = None)
      \<and> snd (snd v') = snd (snd v) @ [t] \<and> rt_user t = u_id u \<and> rt_device t = device
      \<and> rt_used_at t = None \<and> rt_revoked_at t = None)"

lemma find_touched:
  assumes "List.find P xs = Some d" and "\<And>x. P (f x) = P x"
  shows "\<exists>d'. List.find P (update_where Q f xs) = Some d' \<and> (d' = d \<or> d' = f d)"
  using assms(1) by (induction xs) (auto simp: assms(2) split: if_splits)

lemma find_owner:
  assumes "List.find (\<lambda>d. d_id d = i) xs = Some d" and "d_owner d = u"
  shows "List.find (\<lambda>d. d_id d = i \<and> d_owner d = u) xs = Some d"
  using assms by (induction xs) (auto split: if_splits)

lemma find_new_device:
  assumes "List.find (\<lambda>d. d_id d = i) xs = None" and "d_id x = i" and "d_owner x = u"
  shows "List.find (\<lambda>d. d_id d = i \<and> d_owner d = u) (xs @ [x]) = Some x"
  using assms by (induction xs) (auto split: if_splits)

lemma ensured_device:
  assumes "ensure_device e u i s = Inr s1"
  shows "\<exists>d. List.find (\<lambda>d. d_id d = i \<and> d_owner d = u) (devices s1) = Some d \<and> d_revoked_at d = None"
    and "users s1 = users s" and "refresh_tokens s1 = refresh_tokens s"
  using assms
  by (auto simp: ensure_device_def find_owner find_new_device new_device_def split: option.splits if_splits)

lemma create_login_session_refused:
  "create_login_session e u d refresh i s = (s', Inl er) \<Longrightarrow> s' = s"
  by (auto simp: create_login_session_def split: sum.splits prod.splits)

lemma create_login_session_granted:
  assumes "create_login_session e u d refresh i s = (s', Inr session)"
  shows "\<exists>x. List.find (\<lambda>x. d_id x = d \<and> d_owner x = u) (devices s') = Some x \<and> d_revoked_at x = None"
    and "\<exists>t. refresh_tokens s' = refresh_tokens s @ [t] \<and> rt_user t = u \<and> rt_device t = d
      \<and> rt_used_at t = None \<and> rt_revoked_at t = None"
proof -
  from assms obtain user s1 s2 where
    dev: "ensure_device e u d s = Inr s1" and tok: "insert_refresh u d refresh s1 = Inr s2"
    and s': "devices s' = update_where (\<lambda>x. d_id x = d \<and> d_owner x = u) (touch_login e) (devices s2)"
      "refresh_tokens s' = refresh_tokens s2"
    by (auto simp: create_login_session_def try_bind_eq_Inr insert_audit_def insert_audit_nullable_def
        split: sum.splits prod.splits)
  have s2: "devices s2 = devices s1" and more: "\<exists>t. refresh_tokens s2 = refresh_tokens s1 @ [t] \<and> rt_user t = u \<and> rt_device t = d
      \<and> rt_used_at t = None \<and> rt_revoked_at t = None"
    using tok by (auto simp: insert_refresh_def split: if_splits)
  from ensured_device(1) [OF dev] obtain x where
    x: "List.find (\<lambda>x. d_id x = d \<and> d_owner x = u) (devices s2) = Some x" "d_revoked_at x = None"
    unfolding s2 by blast
  from find_touched [OF x(1), where f = "touch_login e" and Q = "\<lambda>x. d_id x = d \<and> d_owner x = u"] x(2)
  show "\<exists>x. List.find (\<lambda>x. d_id x = d \<and> d_owner x = u) (devices s') = Some x \<and> d_revoked_at x = None"
    unfolding s' by (auto simp: touch_login_def)
  show "\<exists>t. refresh_tokens s' = refresh_tokens s @ [t] \<and> rt_user t = u \<and> rt_device t = d
      \<and> rt_used_at t = None \<and> rt_revoked_at t = None"
    using more ensured_device(3) [OF dev] s'(2) by simp
qed

text \<open>A refused attempt is audited, and then answered.\<close>

lemma signs_refuse:
  assumes "undisturbed rt" and "400 \<le> ae_status answer"
  shows "signs (refused v) v (h_bind (log_login_failure rt sv hs m d a b reason source i) (\<lambda>_. h_fail answer)) Q"
  by (rule signs_step [OF signs_log [OF assms(1)]]) (rule signs_fail [OF assms(2)])

lemma signs_create:
  assumes "undisturbed rt" and "List.find (\<lambda>u. u_email_normalized u = email) (fst v) = Some u"
    and "verify_password sv password (u_password_hash u)" and "role_as_str (u_role u) = role" and "u_status u = Active"
  shows "signs (refused v) v (h_txn rt (\<lambda>e _. create_login_session e (u_id u) device refresh i))
    (\<lambda>r v'. case r of Inl er \<Rightarrow> v' = v | Inr session \<Rightarrow> granted_session sv role email password device v v')"
proof (rule signs_txn [OF assms(1)])
  fix e :: env and ids :: "nat \<Rightarrow> uuid" and s
  assume s: "sessions_of s = v"
  obtain s' r where run: "create_login_session e (u_id u) device refresh i s = (s', r)" by (metis surj_pair)
  show "case snd (create_login_session e (u_id u) device refresh i s) of Inl er \<Rightarrow> sessions_of (fst (create_login_session e (u_id u) device refresh i s)) = v
    | Inr session \<Rightarrow> granted_session sv role email password device v (sessions_of (fst (create_login_session e (u_id u) device refresh i s)))"
  proof (cases r)
    case (Inl er)
    with create_login_session_refused [of e "u_id u" device refresh i s] run s show ?thesis by simp
  next
    case (Inr session)
    with create_login_session_granted [of e "u_id u" device refresh i s s' session] run s assms(2-)
    show ?thesis by (fastforce simp: granted_session_def sessions_of_def)
  qed
qed

lemma signs_grant:
  assumes "undisturbed rt" and "List.find (\<lambda>u. u_email_normalized u = email) (fst v) = Some u"
    and "verify_password sv password (u_password_hash u)" and "role_as_str (u_role u) = role" and "u_status u = Active"
    and "\<And>er. signs (refused v) v (k er) (\<lambda>_ v'. granted_session sv role email password device v v')"
  shows "signs (refused v) v (h_bind (h_refresh_token rt sv i) (\<lambda>(raw, refresh).
      h_bind (h_txn rt (\<lambda>e _. create_login_session e (u_id u) device refresh i)) (\<lambda>result.
      case result of Inr session \<Rightarrow> h_return (session, raw) | Inl er \<Rightarrow> k er)))
    (\<lambda>_ v'. granted_session sv role email password device v v')"
  unfolding h_refresh_token_def
proof (rule signs_step)
  show "signs (refused v) v (h_auth (api_internal i) t) (unchanged v)" for t :: "nat \<Rightarrow> auth_error + (string \<times> new_refresh_token)"
    by (rule signs_auth) (simp add: answer_statuses)
  fix x :: "string \<times> new_refresh_token"
  obtain raw refresh where x: "x = (raw, refresh)" by (cases x)
  show "signs (refused v) v (case x of (raw, refresh) \<Rightarrow>
      h_bind (h_txn rt (\<lambda>e _. create_login_session e (u_id u) device refresh i)) (\<lambda>result.
      case result of Inr session \<Rightarrow> h_return (session, raw) | Inl er \<Rightarrow> k er))
    (\<lambda>_ v'. granted_session sv role email password device v v')"
    unfolding x prod.case
  proof (rule signs_bind [OF signs_create [OF assms(1-5)]])
    fix result :: "session_record outcome" and v'
    assume r: "case result of Inl er \<Rightarrow> v' = v | Inr session \<Rightarrow> granted_session sv role email password device v v'"
    show "signs (refused v) v' (case result of Inr session \<Rightarrow> h_return (session, raw) | Inl er \<Rightarrow> k er)
        (\<lambda>_ v'. granted_session sv role email password device v v')"
      using r assms(6) by (cases result) (auto intro!: signs_return)
  qed
qed

lemma signs_login:
  assumes "undisturbed rt"
  shows "signs (refused v) v (login_session rt sv operation p source role hs email password device i)
    (\<lambda>_ v'. granted_session sv role email password device v v')"
  unfolding login_session_def
proof (rule signs_step [OF signs_limits(2) [OF assms]], rule signs_step [OF signs_limits(1) [OF assms]],
    rule signs_bind [OF signs_find [OF assms]])
  fix user v'
  assume user: "v' = v \<and> user = List.find (\<lambda>u. u_email_normalized u = email) (fst v)"
  let ?Q = "\<lambda>_ v'. granted_session sv role email password device v v'"
  note refuse = signs_refuse [OF assms]
  show "signs (refused v) v' (case user of
      None \<Rightarrow>
        h_bind (h_auth (api_authentication i) (\<lambda>n. hash_password sv n password)) (\<lambda>_.
        h_bind (log_login_failure rt sv hs email (Some device) None None ''unknown_user'' source i) (\<lambda>_.
        h_fail (api_authentication i)))
    | Some u \<Rightarrow>
        (let refuse = (\<lambda>reason answer.
           h_bind (log_login_failure rt sv hs email (Some device) (Some (u_id u)) (Some (u_id u)) reason source i) (\<lambda>_.
           h_fail answer)) in
         if \<not> verify_password sv password (u_password_hash u) then refuse ''invalid_password'' (api_authentication i)
         else if role_as_str (u_role u) \<noteq> role then refuse ''wrong_role'' (api_authentication i)
         else if u_status u \<noteq> Active then refuse ''account_disabled'' (account_disabled i)
         else h_bind (h_refresh_token rt sv i) (\<lambda>(raw, refresh).
           h_bind (h_txn rt (\<lambda>e _. create_login_session e (u_id u) device refresh i)) (\<lambda>result.
           case result of
             Inr session \<Rightarrow> h_return (session, raw)
           | Inl er \<Rightarrow>
               (let answer = (if er = NotFound then api_authentication i else map_persistence er i) in
                case session_failure er of
                  None \<Rightarrow> h_fail answer
                | Some reason \<Rightarrow> refuse reason answer))))) ?Q"
  proof (cases user)
    case None
    with user show ?thesis
      by (auto simp: answer_statuses intro!: signs_step [OF signs_auth] refuse)
  next
    case (Some u)
    with user show ?thesis
      by (auto simp: Let_def answer_statuses map_persistence_status intro!: refuse signs_grant [OF assms] signs_fail
          split: option.split)
  qed
qed

subsection \<open>The endpoints of a login\<close>

text \<open>The answer is made after the session: an error there leaves a session that was granted.\<close>

definition login_outcome :: "(sessions \<Rightarrow> bool) \<Rightarrow> sessions \<Rightarrow> api_error \<Rightarrow> sessions \<Rightarrow> bool" where
  "login_outcome granted v er v' \<longleftrightarrow> refused v er v' \<or> granted v'"

lemma signs_access_token:
  "signs (refused v) v (h_access_token rt sv session i) (unchanged v)"
  unfolding h_access_token_def by (rule signs_auth) (simp add: answer_statuses)

lemma signs_token_responses:
  "signs (refused v) v (user_token_response rt sv session raw i) (unchanged v)"
  "(\<And>t n j. error_statuses (cookie t n j)) \<Longrightarrow> signs (refused v) v (cookie_token_response cookie rt sv session raw i) (unchanged v)"
  unfolding user_token_response_def cookie_token_response_def
  by (rule signs_step [OF signs_access_token], simp add: split_beta signs_return unchanged_def,
      rule signs_step [OF signs_access_token], auto simp: split_beta unchanged_def intro!: signs_check signs_return)

lemma signs_session_answer:
  assumes "signs (refused v) v m (\<lambda>_ v'. granted v')"
    and "\<And>session raw v'. signs (refused v') v' (answer session raw) (unchanged v')"
  shows "signs (login_outcome granted v) v (h_bind m (\<lambda>(session, raw). answer session raw)) (\<lambda>_ v'. granted v')"
proof (rule signs_bind [where R = "\<lambda>_ v'. granted v'"])
  show "signs (login_outcome granted v) v m (\<lambda>_ v'. granted v')"
    by (rule signs_mono [OF assms(1)]) (simp_all add: login_outcome_def)
  show "signs (login_outcome granted v) v' (case x of (session, raw) \<Rightarrow> answer session raw) (\<lambda>_ v'. granted v')"
    if "granted v'" for x v'
    using that by (auto simp: login_outcome_def refused_def unchanged_def split: prod.split intro: signs_mono [OF assms(2)])
qed

lemma signs_guard:
  assumes "error_statuses c" and "\<And>x. c = Inr x \<Longrightarrow> signs (login_outcome granted v) v (f x) Q"
  shows "signs (login_outcome granted v) v (h_bind (h_check c) f) Q"
  using assms by (intro signs_bind [where R = "\<lambda>x v'. c = Inr x \<and> v' = v"])
    (auto simp: signs_def h_check_def refused_def login_outcome_def error_statuses_def split: sum.split)

lemma signs_map:
  assumes "signs E v m (\<lambda>_ v'. granted v')"
  shows "signs E v (h_map f m) (\<lambda>_ v'. granted v')"
  unfolding h_map_def by (rule signs_bind [OF assms]) (rule signs_return)

definition login_endpoints :: "public_endpoint list" where
  "login_endpoints = [LoginE, AdminLoginE, WebLoginE]"

definition login_role :: "public_endpoint \<Rightarrow> string" where
  "login_role e = (if e = AdminLoginE then ''system_admin'' else ''user'')"

text \<open>What a request to such an endpoint must have had for the session it made.\<close>

definition login_granted :: "'w api_process \<Rightarrow> public_endpoint \<Rightarrow> http_request \<Rightarrow> sessions \<Rightarrow> sessions \<Rightarrow> bool" where
  "login_granted px e r v v' \<longleftrightarrow>
    (\<exists>request email. Option.bind (hr_json r) (login_request_of (ar_parse_uuid (px_rt px))) = Some request
      \<and> normalize_email (lr_email request) = Some email
      \<and> granted_session (px_auth px) (login_role e) email (lr_password request) (lr_device request) v v')"

lemma cookie_statuses:
  "error_statuses (admin_refresh_cookie_header t n j)" "error_statuses (web_refresh_cookie_header t n j)"
  "error_statuses (validate_web_origin rt hs i)"
  by (auto simp: error_statuses_def admin_refresh_cookie_header_def web_refresh_cookie_header_def header_value_def
      validate_web_origin_def validate_configured_origin_def answer_statuses Let_def check_def split: option.splits if_splits)

lemma signs_login_session:
  assumes "undisturbed (px_rt px)"
    and "Option.bind (hr_json r) (login_request_of (ar_parse_uuid (px_rt px))) = Some request"
    and "normalize_email (lr_email request) = Some email" and "login_role e = role"
  shows "signs (refused v) v (login_session (px_rt px) (px_auth px) operation p source role (hr_headers r)
      email (lr_password request) (lr_device request) i) (\<lambda>_ v'. login_granted px e r v v')"
  by (rule signs_mono [OF signs_login [OF assms(1)]]) (use assms(2-) in \<open>auto simp: login_granted_def\<close>)

lemma signs_login_endpoint:
  assumes "undisturbed (px_rt px)" and "e \<in> set login_endpoints"
  shows "signs (login_outcome (login_granted px e r v) v) v (serve_public px e r) (\<lambda>_ v'. login_granted px e r v v')"
  using assms(2) unfolding login_endpoints_def
  by (auto simp: api_json_def with_value_def login_handler_def admin_login_handler_def web_login_handler_def Let_def
      login_role_def admin_token_response_def web_token_response_def cookie_statuses answer_statuses
      intro!: signs_map signs_guard signs_session_answer signs_login_session assms(1) signs_token_responses)

text \<open>C12. No session without the password. A request to one of the three login endpoints either leaves accounts, devices
  and refresh tokens exactly as they were and is answered by an error, or its body decodes, its address is that of
  an account that is active, has the role of the endpoint and a password hash that verifies for the password
  of the body, and the request has added exactly one refresh token, unused and unrevoked, of this account and
  of the device of the body, which belongs to the account and is not revoked.\<close>

theorem login_needs_password:
  assumes "undisturbed (px_rt px)" and "route_request (hr_method r) (hr_path r) = Routed (Public e) args"
    and "e \<in> set login_endpoints"
  shows "sessions_of (aw_db (fst (serve px r w))) = sessions_of (aw_db w) \<and> 400 \<le> hs_status (snd (serve px r w))
    \<or> login_granted px e r (sessions_of (aw_db w)) (sessions_of (aw_db (fst (serve px r w))))"
proof -
  obtain w' res where run: "serve_public px e r w = (w', res)" by (metis surj_pair)
  have "case res of Inl er \<Rightarrow> login_outcome (login_granted px e r (sessions_of (aw_db w))) (sessions_of (aw_db w)) er (sessions_of (aw_db w'))
    | Inr x \<Rightarrow> login_granted px e r (sessions_of (aw_db w)) (sessions_of (aw_db w'))"
    by (rule signsD [OF signs_login_endpoint [OF assms(1,3)] refl run])
  then show ?thesis
    using serve_routed [OF assms(2), of px w] run
    by (cases res) (auto simp: serve_endpoint_def login_outcome_def refused_def finish_response_def error_response_def
        json_response_def)
qed

definition sample_login :: "string \<Rightarrow> http_request" where
  "sample_login password = sample_http ''POST'' ''/api/v1/auth/login'' []
     (Some (JObj [(''email'', JStr ''u@a.io''), (''password'', JStr password), (''deviceId'', JStr ''d'')]))"

lemma sample_login_route:
  "route_request (hr_method (sample_login p)) (hr_path (sample_login p)) = Routed (Public LoginE) []"
  unfolding sample_login_def sample_http_def by simp code_simp

lemma sample_login_answers:
  "hs_status (snd (serve sample_process (sample_login ''h'') (sample_api_world sample_db))) = 200"
  "hs_status (snd (serve sample_process (sample_login ''g'') (sample_api_world sample_db))) = 401"
  by code_simp+

theorem login_needs_password_witness:
  "login_granted sample_process LoginE (sample_login ''h'') (sessions_of sample_db)
     (sessions_of (aw_db (fst (serve sample_process (sample_login ''h'') (sample_api_world sample_db)))))"
  using login_needs_password [OF sample_undisturbed sample_login_route, of "''h''" "sample_api_world sample_db"]
    sample_login_answers(1)
  by (simp add: login_endpoints_def sample_api_world_def)

end
