(* ===== verification/Api_Http_Props.thy ===== *)
theory Api_Http_Props
  imports Isolation "HOL-Library.Countable"
begin

text \<open>
  The canonical form of a push request: whatever form a request was sent in, what the server makes
  of it serialises to one text from which the same request is read back, so the hash that is stored
  under an idempotency key stands for the contents of the request.
\<close>

subsection \<open>What the decoders admit\<close>

definition i64_value :: "int \<Rightarrow> bool" where
  "i64_value n \<longleftrightarrow> - i64_max - 1 \<le> n \<and> n \<le> i64_max"

definition i32_value :: "int \<Rightarrow> bool" where
  "i32_value n \<longleftrightarrow> - i32_max - 1 \<le> n \<and> n \<le> i32_max"

text \<open>A time that the parser has read and that it reads again from its formatted text.\<close>

definition readable_time :: "(string \<Rightarrow> offset_time option) \<Rightarrow> (offset_time \<Rightarrow> string) \<Rightarrow> offset_time \<Rightarrow> bool" where
  "readable_time read_time show_time x \<longleftrightarrow> read_time (show_time x) = Some x"

definition push_object_ok ::
    "(string \<Rightarrow> uuid option) \<Rightarrow> (offset_time \<Rightarrow> bool) \<Rightarrow> push_object \<Rightarrow> bool" where
  "push_object_ok parse_uuid time_ok x \<longleftrightarrow> i32_value (po_schema_version x) \<and> i64_value (po_revision x)
    \<and> pred_option i64_value (po_base x) \<and> time_ok (po_updated_at x) \<and> parse_uuid (po_device x) = Some (po_device x)"

definition push_tombstone_ok ::
    "(string \<Rightarrow> uuid option) \<Rightarrow> (offset_time \<Rightarrow> bool) \<Rightarrow> push_tombstone \<Rightarrow> bool" where
  "push_tombstone_ok parse_uuid time_ok x \<longleftrightarrow> i64_value (pt_revision x) \<and> pred_option i64_value (pt_base x)
    \<and> time_ok (pt_deleted_at x) \<and> parse_uuid (pt_device x) = Some (pt_device x)"

text \<open>The parser of identifiers reads its own canonical texts.\<close>

definition uuid_law :: "(string \<Rightarrow> uuid option) \<Rightarrow> bool" where
  "uuid_law parse_uuid \<longleftrightarrow> (\<forall>t u. parse_uuid t = Some u \<longrightarrow> parse_uuid u = Some u)"

text \<open>
  The formatter of times writes text that denotes the same time, of those the parser produces: same
  instant, same offset, all nanoseconds.
\<close>

definition time_law :: "(string \<Rightarrow> offset_time option) \<Rightarrow> (offset_time \<Rightarrow> string) \<Rightarrow> bool" where
  "time_law read_time show_time \<longleftrightarrow> (\<forall>t x. read_time t = Some x \<longrightarrow> read_time (show_time x) = Some x)"

lemma field_i64: "field k json_i64 ms = Some n \<Longrightarrow> i64_value n"
  by (auto simp: field_def json_i64_def json_int_in_def i64_value_def bind_eq_Some_conv split: if_splits)

lemma field_i32: "field k json_i32 ms = Some n \<Longrightarrow> i32_value n"
  by (auto simp: field_def json_i32_def json_int_in_def i32_value_def bind_eq_Some_conv split: if_splits)

lemma optional_i64: "optional_field k json_i64 ms = Some b \<Longrightarrow> pred_option i64_value b"
  by (auto simp: optional_field_def json_i64_def json_int_in_def i64_value_def bind_eq_Some_conv
      split: option.splits json.splits if_splits)

lemma field_uuid: "field k (json_uuid p) ms = Some u \<Longrightarrow> uuid_law p \<Longrightarrow> p u = Some u"
  by (auto simp: field_def json_uuid_def uuid_law_def bind_eq_Some_conv)

lemma field_time: "field k (json_rfc3339 rd) ms = Some x \<Longrightarrow> time_law rd sh \<Longrightarrow> readable_time rd sh x"
  by (auto simp: field_def readable_time_def time_law_def bind_eq_Some_conv split: option.splits
      elim!: json_rfc3339.elims)

lemma push_object_of_ok:
  assumes "push_object_of p rd v = Some x" and "uuid_law p" and "time_law rd sh"
  shows "push_object_ok p (readable_time rd sh) x"
  using assms unfolding push_object_of_def bind_eq_Some_conv
  by (elim exE conjE) (auto simp: push_object_ok_def dest: field_i64 field_i32 optional_i64 field_uuid field_time)

lemma push_tombstone_of_ok:
  assumes "push_tombstone_of p rd v = Some x" and "uuid_law p" and "time_law rd sh"
  shows "push_tombstone_ok p (readable_time rd sh) x"
  using assms unfolding push_tombstone_of_def bind_eq_Some_conv
  by (elim exE conjE) (auto simp: push_tombstone_ok_def dest: field_i64 optional_i64 field_uuid field_time)

subsection \<open>Reading back\<close>

lemma kind_back: "parse_object_kind (kind_as_str k) = Some k"
  by (cases k) (simp_all add: parse_object_kind_def)

lemma i64_back: "i64_value n \<Longrightarrow> json_i64 (JNum n) = Some n"
  by (simp add: json_i64_def json_int_in_def i64_value_def)

lemma i32_back: "i32_value n \<Longrightarrow> json_i32 (JNum n) = Some n"
  by (simp add: json_i32_def json_int_in_def i32_value_def)

lemma push_object_back:
  "push_object_ok p (readable_time rd sh) x \<Longrightarrow> push_object_of p rd (push_object_json sh x) = Some x"
  by (cases "po_base x") (simp_all add: push_object_ok_def push_object_of_def push_object_json_def struct_members_def push_object_members_def
      field_def kind_back i64_back i32_back optional_field_def json_uuid_def readable_time_def)

lemma push_tombstone_back:
  "push_tombstone_ok p (readable_time rd sh) x \<Longrightarrow> push_tombstone_of p rd (push_tombstone_json sh x) = Some x"
  by (cases "pt_base x") (simp_all add: push_tombstone_ok_def push_tombstone_of_def push_tombstone_json_def struct_members_def
      push_tombstone_members_def field_def kind_back i64_back optional_field_def json_uuid_def readable_time_def)

lemma decode_all_elements:
  assumes "decode_all f vs = Some xs" and "x \<in> set xs"
  shows "\<exists>v. f v = Some x"
  using assms by (induction vs arbitrary: xs) (auto simp: bind_eq_Some_conv)

lemma decode_all_back:
  assumes "\<And>x. x \<in> set xs \<Longrightarrow> f (g x) = Some x"
  shows "decode_all f (map g xs) = Some xs"
  using assms by (induction xs) auto

definition push_request_valid ::
    "(string \<Rightarrow> uuid option) \<Rightarrow> (offset_time \<Rightarrow> bool) \<Rightarrow> push_request \<Rightarrow> bool" where
  "push_request_valid parse_uuid time_ok r \<longleftrightarrow> i64_value (pushr_generation r)
    \<and> list_all (push_object_ok parse_uuid time_ok) (pushr_objects r)
    \<and> list_all (push_tombstone_ok parse_uuid time_ok) (pushr_tombstones r)"

lemma push_request_of_valid:
  assumes "push_request_of p rd v = Some r" and "uuid_law p" and "time_law rd sh"
  shows "push_request_valid p (readable_time rd sh) r"
proof -
  from assms(1) obtain ms i generation objects tombstones where
    g: "field ''generation'' json_i64 ms = Some generation"
    and o: "field ''objects'' (json_list_of (push_object_of p rd)) ms = Some objects"
    and t: "field ''tombstones'' (json_list_of (push_tombstone_of p rd)) ms = Some tombstones"
    and r: "r = \<lparr>pushr_id = i, pushr_generation = generation, pushr_objects = objects, pushr_tombstones = tombstones\<rparr>"
    unfolding push_request_of_def bind_eq_Some_conv by blast
  from o have "\<exists>v. push_object_of p rd v = Some x" if "x \<in> set objects" for x
    using that by (auto simp: field_def json_list_of_def bind_eq_Some_conv dest: decode_all_elements)
  moreover from t have "\<exists>v. push_tombstone_of p rd v = Some x" if "x \<in> set tombstones" for x
    using that by (auto simp: field_def json_list_of_def bind_eq_Some_conv dest: decode_all_elements)
  ultimately show ?thesis
    using push_object_of_ok push_tombstone_of_ok assms(2,3) field_i64 [OF g]
    by (fastforce simp: push_request_valid_def r list_all_iff)
qed

lemma push_request_back:
  assumes "push_request_valid p (readable_time rd sh) r"
  shows "push_request_of p rd (push_request_json sh r) = Some r"
proof -
  have "decode_all (push_object_of p rd) (map (push_object_json sh) (pushr_objects r)) = Some (pushr_objects r)"
    and "decode_all (push_tombstone_of p rd) (map (push_tombstone_json sh) (pushr_tombstones r)) = Some (pushr_tombstones r)"
    using assms by (auto simp: push_request_valid_def list_all_iff intro!: decode_all_back push_object_back push_tombstone_back)
  with assms show ?thesis
    by (simp add: push_request_of_def push_request_json_def struct_members_def field_def json_list_of_def i64_back
        push_request_valid_def)
qed

subsection \<open>The bytes\<close>

text \<open>Values without the abstract \<open>JTime\<close>: on them \<open>serde_json::to_vec\<close> is injective.\<close>

fun plain_json :: "json \<Rightarrow> bool" where
  "plain_json (JTime t) = False"
| "plain_json (JArr vs) = list_all plain_json vs"
| "plain_json (JObj ms) = list_all (\<lambda>m. plain_json (snd m)) ms"
| "plain_json _ = True"

lemma plain_push_request: "plain_json (push_request_json sh r)"
proof -
  have "plain_json (json_opt JNum b)" for b by (cases b) simp_all
  then show ?thesis
    by (simp add: push_request_json_def push_object_json_def push_tombstone_json_def list_all_iff)
qed

text \<open>C15. The stored hash stands for the contents of a push. Whatever the form in which two push requests were sent (the
  order of the members, arrays for objects, names of kinds as objects, the case of identifiers, the spelling of
  times), the bytes that are hashed for the idempotency key are the same exactly when the requests the server works
  with are the same, the offsets and nanoseconds of their times included; and the canonical form the bytes are made of
  decodes to that request again. The serialiser of JSON must be injective on values made of null, booleans, numbers,
  strings, arrays and objects, and the parsers of identifiers and times must read their own canonical texts.\<close>

theorem push_bytes_identify_request:
  assumes "inj_on (ar_to_vec (px_rt px)) {v. plain_json v}" and "uuid_law (ar_parse_uuid (px_rt px))"
    and "time_law (ar_read_time (px_rt px)) (ar_show_time (px_rt px))"
    and "push_request_of (ar_parse_uuid (px_rt px)) (ar_read_time (px_rt px)) v = Some r"
    and "push_request_of (ar_parse_uuid (px_rt px)) (ar_read_time (px_rt px)) v' = Some r'"
  shows "(push_bytes px r = push_bytes px r' \<longleftrightarrow> r = r')
    \<and> push_request_of (ar_parse_uuid (px_rt px)) (ar_read_time (px_rt px)) (push_request_json (ar_show_time (px_rt px)) r)
      = Some r"
proof -
  note rt = push_request_of_valid [OF assms(4,2,3), THEN push_request_back]
    push_request_of_valid [OF assms(5,2,3), THEN push_request_back]
  have eq: "r = r'" if "push_bytes px r = push_bytes px r'"
  proof -
    have json: "push_request_json (ar_show_time (px_rt px)) r = push_request_json (ar_show_time (px_rt px)) r'"
      by (rule inj_onD [OF assms(1)]) (use that in \<open>simp_all add: push_bytes_def plain_push_request\<close>)
    from trans [OF rt(1) [unfolded json, symmetric] rt(2)] show ?thesis by (rule option.inject [THEN iffD1])
  qed
  show ?thesis by (rule conjI [OF iffI [OF eq arg_cong [where f = "push_bytes px"]] rt(1)])
qed

text \<open>
  A parser that reads two texts of one instant, in UTC and an hour east of it, and a second spelling of
  the first.
\<close>

definition utc_text :: string where
  "utc_text = ''1970-01-01T00:00:00Z''"

definition east_text :: string where
  "east_text = ''1970-01-01T01:00:00+01:00''"

definition sample_read_time :: "string \<Rightarrow> offset_time option" where
  "sample_read_time t =
    (if t \<in> {utc_text, ''1970-01-01t00:00:00.0z''} then Some \<lparr>ot_nanos = 0, ot_offset = 0\<rparr>
     else if t = east_text then Some \<lparr>ot_nanos = 0, ot_offset = 3600\<rparr> else None)"

definition sample_show_time :: "offset_time \<Rightarrow> string" where
  "sample_show_time x = (if ot_offset x = 0 then utc_text else east_text)"

lemma sample_time_law: "time_law sample_read_time sample_show_time"
proof -
  have "sample_read_time utc_text = Some \<lparr>ot_nanos = 0, ot_offset = 0\<rparr>"
    "sample_read_time east_text = Some \<lparr>ot_nanos = 0, ot_offset = 3600\<rparr>" by code_simp+
  then have "sample_read_time (sample_show_time x) = Some x" if "sample_read_time t = Some x" for t x
    using that unfolding sample_read_time_def [of t] by (auto simp: sample_show_time_def split: if_splits)
  then show ?thesis by (auto simp: time_law_def)
qed

text \<open>A request in array form, with the kind as an object, and what is read from it.\<close>

definition sample_push_json :: "string \<Rightarrow> json" where
  "sample_push_json t = JArr [JStr ''k'', JNum 1, JArr [], JArr [JObj [(''id'', JStr ''o''), (''kind'', JObj [(''todo'', JNull)]),
     (''revision'', JNum 2), (''deletedAt'', JStr t), (''deviceId'', JStr ''d'')]]]"

definition sample_push_body :: "int \<Rightarrow> push_request" where
  "sample_push_body offset = \<lparr>pushr_id = ''k'', pushr_generation = 1, pushr_objects = [],
     pushr_tombstones = [\<lparr>pt_kind = Todo, pt_id = ''o'', pt_revision = 2, pt_base = None,
       pt_deleted_at = \<lparr>ot_nanos = 0, ot_offset = offset\<rparr>, pt_device = ''d''\<rparr>]\<rparr>"

lemma sample_push_decodes:
  "push_request_of Some sample_read_time (sample_push_json ''1970-01-01t00:00:00.0z'') = Some (sample_push_body 0)"
  "push_request_of Some sample_read_time (sample_push_json east_text) = Some (sample_push_body 3600)"
  by code_simp+

text \<open>An injective serialiser, for the witness: JSON values are countable.\<close>

instance json :: countable
  by countable_datatype

definition sample_counting :: "(string \<rightharpoonup> bytes) api_process" where
  "sample_counting = sample_process\<lparr>px_rt := (px_rt sample_process)\<lparr>ar_to_vec := (\<lambda>j. [to_nat j]),
     ar_parse_uuid := Some, ar_read_time := sample_read_time, ar_show_time := sample_show_time\<rparr>\<rparr>"

theorem push_bytes_identify_request_witness:
  "push_request_of Some sample_read_time (push_request_json sample_show_time (sample_push_body 0)) = Some (sample_push_body 0)
   \<and> push_bytes sample_counting (sample_push_body 0) \<noteq> push_bytes sample_counting (sample_push_body 3600)"
proof -
  have "inj_on (ar_to_vec (px_rt sample_counting)) {v. plain_json v}" by (simp add: sample_counting_def inj_on_def)
  moreover have sel: "ar_parse_uuid (px_rt sample_counting) = Some"
    "ar_read_time (px_rt sample_counting) = sample_read_time" "ar_show_time (px_rt sample_counting) = sample_show_time"
    by (simp_all add: sample_counting_def)
  moreover have "uuid_law (ar_parse_uuid (px_rt sample_counting))" by (simp add: sel uuid_law_def)
  moreover have "sample_push_body 0 \<noteq> sample_push_body 3600" by code_simp
  ultimately show ?thesis
    using push_bytes_identify_request [of sample_counting "sample_push_json ''1970-01-01t00:00:00.0z''" "sample_push_body 0"
        "sample_push_json east_text" "sample_push_body 3600"]
      sample_push_decodes sample_time_law by simp
qed

end
