(* ===== verification/Operations.thy ===== *)
theory Operations
  imports Push Pull Sessions Projects Restore_Jobs Purge Account_Export Payloads Limits Accounts Admin
begin

text \<open>
  The operations of the persistence layer as steps of the database, and the locale of the
  invariants that every one of them keeps: what holds between any two transactions of any number
  of processes.
\<close>

subsection \<open>The relation\<close>

text \<open>
  One transaction of one process, with any arguments: its clock, the identifiers it draws and what
  its caller passes are free. A transaction that fails is one too.
\<close>

inductive operation :: "db \<Rightarrow> db \<Rightarrow> bool" where
  op_push_with_outcome: "operation s (fst (push_with_outcome x0 x1 x2 x3 x4 x5 x6 x7 x8 x9 s))"
| op_push: "operation s (fst (push x0 x1 x2 x3 x4 x5 x6 x7 x8 x9 s))"
| op_pull_page: "operation s (fst (pull_page x0 x1 x2 x3 x4 x5 x6 s))"
| op_bootstrap_page: "operation s (fst (bootstrap_page x0 x1 x2 x3 x4 x5 x6 s))"
| op_prepare_bootstrap_manifest: "operation s (fst (prepare_bootstrap_manifest x0 x1 x2 x3 x4 s))"
| op_record_bootstrap_manifest: "operation s (fst (record_bootstrap_manifest x0 x1 x2 x3 x4 x5 s))"
| op_bootstrap_manifest_page: "operation s (fst (bootstrap_manifest_page x0 x1 x2 x3 x4 x5 x6 x7 s))"
| op_expire_bootstrap_manifests: "operation s (fst (expire_bootstrap_manifests x0 x1 s))"
| op_create_login_session: "operation s (fst (create_login_session x0 x1 x2 x3 x4 s))"
| op_rotate_refresh_token: "operation s (fst (rotate_refresh_token x0 x1 x2 x3 s))"
| op_rotate_refresh_token_for_role: "operation s (fst (rotate_refresh_token_for_role x0 x1 x2 x3 x4 s))"
| op_logout_device: "operation s (fst (logout_device x0 x1 x2 x3 s))"
| op_logout_device_by_refresh_token: "operation s (fst (logout_device_by_refresh_token x0 x1 x2 s))"
| op_validate_access: "operation s (fst (validate_access x0 x1 x2 x3 s))"
| op_change_password: "operation s (fst (change_password x0 x1 x2 s))"
| op_register_device: "operation s (fst (register_device x0 x1 x2 x3 s))"
| op_update_device: "operation s (fst (update_device x0 x1 x2 s))"
| op_revoke_device: "operation s (fst (revoke_device x0 x1 x2 x3 s))"
| op_create_reauth_nonce: "operation s (fst (create_reauth_nonce x0 x1 x2 x3 x4 s))"
| op_consume_reauth_nonce: "operation s (fst (consume_reauth_nonce x0 x1 x2 x3 s))"
| op_revoke_reauth_nonces: "operation s (fst (revoke_reauth_nonces x0 x1 s))"
| op_create_project: "operation s (fst (create_project x0 x1 x2 x3 s))"
| op_rename_project: "operation s (fst (rename_project x0 x1 x2 x3 s))"
| op_disable_project: "operation s (fst (disable_project x0 x1 x2 s))"
| op_enqueue_project_purge: "operation s (fst (enqueue_project_purge x0 x1 x2 x3 x4 x5 s))"
| op_snapshot_manifest: "operation s (fst (snapshot_manifest x0 x1 x2 x3 x4 x5 s))"
| op_record_snapshot: "operation s (fst (record_snapshot x0 x1 x2 x3 x4 x5 x6 x7 x8 x9 s))"
| op_enqueue_restore: "operation s (fst (enqueue_restore x0 x1 x2 x3 x4 x5 x6 x7 s))"
| op_cancel_restore: "operation s (fst (cancel_restore x0 x1 x2 x3 x4 x5 s))"
| op_claim_restore_job: "operation s (fst (claim_restore_job x0 x1 s))"
| op_create_pre_restore_snapshot: "operation s (fst (create_pre_restore_snapshot x0 x1 x2 x3 x4 s))"
| op_mark_snapshot_ready: "operation s (fst (mark_snapshot_ready x0 x1 x2 s))"
| op_mark_snapshot_ready_for_job: "operation s (fst (mark_snapshot_ready_for_job x0 x1 x2 x3 x4 s))"
| op_renew_restore_lease: "operation s (fst (renew_restore_lease x0 x1 x2 s))"
| op_cancel_restore_with_lease: "operation s (fst (cancel_restore_with_lease x0 x1 x2 s))"
| op_fail_restore_job: "operation s (fst (fail_restore_job x0 x1 x2 s))"
| op_fail_restore_job_with_lease: "operation s (fst (fail_restore_job_with_lease x0 x1 x2 x3 s))"
| op_retry_restore_job_with_lease: "operation s (fst (retry_restore_job_with_lease x0 x1 x2 x3 s))"
| op_reopen_failed_restore: "operation s (fst (reopen_failed_restore x0 x1 x2 x3 x4 s))"
| op_execute_restore_with_lease: "operation s (fst (execute_restore_with_lease x0 x1 x2 x3 x4 s))"
| op_execute_restore: "operation s (fst (execute_restore x0 x1 x2 x3 s))"
| op_claim_project_purge_job: "operation s (fst (claim_project_purge_job x0 x1 s))"
| op_claim_account_purge_job: "operation s (fst (claim_account_purge_job x0 x1 s))"
| op_prepare_project_purge: "operation s (fst (prepare_project_purge x0 x1 x2 s))"
| op_complete_project_purge: "operation s (fst (complete_project_purge x0 x1 x2 s))"
| op_fail_project_purge: "operation s (fst (fail_project_purge x0 x1 x2 x3 s))"
| op_request_account_purge_export: "operation s (fst (request_account_purge_export x0 x1 x2 x3 x4 x5 x6 s))"
| op_confirm_account_purge: "operation s (fst (confirm_account_purge x0 x1 x2 x3 x4 x5 x6 s))"
| op_renew_account_purge_lease: "operation s (fst (renew_account_purge_lease x0 x1 x2 s))"
| op_complete_account_export: "operation s (fst (complete_account_export x0 x1 x2 x3 x4 x5 x6 s))"
| op_prepare_account_purge: "operation s (fst (prepare_account_purge x0 x1 x2 x3 s))"
| op_complete_account_purge: "operation s (fst (complete_account_purge x0 x1 x2 x3 s))"
| op_fail_account_purge: "operation s (fst (fail_account_purge x0 x1 x2 x3 s))"
| op_expire_account_purge_exports: "operation s (fst (expire_account_purge_exports x0 x1 s))"
| op_register_payload: "operation s (fst (register_payload x0 x1 x2 x3 x4 s))"
| op_delete_payload_row: "operation s (fst (delete_payload_row x0 x1 s))"
| op_expire_pending_snapshots: "operation s (fst (expire_pending_snapshots x0 s))"
| op_purge_expired_idempotency_records: "operation s (fst (purge_expired_idempotency_records x0 x1 s))"
| op_prune_old_auth_failures: "operation s (fst (prune_old_auth_failures x0 x1 x2 s))"
| op_consume_distributed_rate_limit: "operation s (fst (consume_distributed_rate_limit x0 x1 x2 x3 x4 s))"
| op_prune_distributed_rate_limits: "operation s (fst (prune_distributed_rate_limits x0 x1 s))"
| op_create_initial_admin: "operation s (fst (create_initial_admin x0 x1 x2 x3 x4 s))"
| op_register_user: "operation s (fst (register_user x0 x1 x2 x3 x4 x5 s))"
| op_admin_create_user: "operation s (fst (admin_create_user x0 x1 x2 x3 x4 x5 x6 s))"
| op_set_registration_enabled: "operation s (fst (set_registration_enabled x0 x1 x2 x3 s))"
| op_create_invitation: "operation s (fst (create_invitation x0 x1 x2 x3 x4 x5 s))"
| op_admin_revoke_invitation: "operation s (fst (admin_revoke_invitation x0 x1 x2 x3 x4 s))"
| op_admin_resend_invitation: "operation s (fst (admin_resend_invitation x0 x1 x2 x3 x4 x5 s))"
| op_activate_invitation: "operation s (fst (activate_invitation x0 x1 x2 x3 x4 x5 s))"
| op_admin_set_account_status: "operation s (fst (admin_set_account_status x0 x1 x2 x3 x4 x5 s))"
| op_record_auth_failure: "operation s (fst (record_auth_failure x0 x1 x2 x3 x4 x5 x6 x7 x8 x9 s))"
| op_record_sync_attempt: "operation s (fst (record_sync_attempt x0 x1 x2 s))"
| op_admin_enqueue_restore: "operation s (fst (admin_enqueue_restore x0 x1 x2 x3 x4 x5 x6 x7 s))"

text \<open>Any number of them, by any processes.\<close>

abbreviation operations :: "db \<Rightarrow> db \<Rightarrow> bool" where
  "operations \<equiv> operation\<^sup>*\<^sup>*"

text \<open>The states in between, one after another.\<close>

lemma operations_run:
  assumes "operations s t" shows "\<exists>ss. successively operation (s # ss) \<and> last (s # ss) = t"
  using assms
proof (induction rule: rtranclp_induct)
  case base
  then show ?case by (intro exI [of _ "[]"]) simp
next
  case (step t u)
  then obtain ss where "successively operation (s # ss)" "last (s # ss) = t" by blast
  with step.hyps(2) have "successively operation ((s # ss) @ [u])"
    by (subst successively_append_iff) simp
  then show ?case by (intro exI [of _ "ss @ [u]"]) simp
qed

definition by_operations :: "'a txn \<Rightarrow> bool" where
  "by_operations t \<longleftrightarrow> (\<forall>s. operations s (fst (t s)))"

named_theorems operation_intros \<open>transactions made of operations\<close>

lemma by_operation [operation_intros]:
  "by_operations (push_with_outcome a0 b0 c0 d0 e0 f0 g0 h0 i0 j0)"
  "by_operations (push a1 b1 c1 d1 e1 f1 g1 h1 i1 j1)"
  "by_operations (pull_page a2 b2 c2 d2 e2 f2 g2)"
  "by_operations (bootstrap_page a3 b3 c3 d3 e3 f3 g3)"
  "by_operations (prepare_bootstrap_manifest a4 b4 c4 d4 e4)"
  "by_operations (record_bootstrap_manifest a5 b5 c5 d5 e5 f5)"
  "by_operations (bootstrap_manifest_page a6 b6 c6 d6 e6 f6 g6 h6)"
  "by_operations (expire_bootstrap_manifests a7 b7)"
  "by_operations (create_login_session a8 b8 c8 d8 e8)"
  "by_operations (rotate_refresh_token a9 b9 c9 d9)"
  "by_operations (rotate_refresh_token_for_role a10 b10 c10 d10 e10)"
  "by_operations (logout_device a11 b11 c11 d11)"
  "by_operations (logout_device_by_refresh_token a12 b12 c12)"
  "by_operations (validate_access a13 b13 c13 d13)"
  "by_operations (change_password a14 b14 c14)"
  "by_operations (register_device a15 b15 c15 d15)"
  "by_operations (update_device a16 b16 c16)"
  "by_operations (revoke_device a17 b17 c17 d17)"
  "by_operations (create_reauth_nonce a18 b18 c18 d18 e18)"
  "by_operations (consume_reauth_nonce a19 b19 c19 d19)"
  "by_operations (revoke_reauth_nonces a20 b20)"
  "by_operations (create_project a21 b21 c21 d21)"
  "by_operations (rename_project a22 b22 c22 d22)"
  "by_operations (disable_project a23 b23 c23)"
  "by_operations (enqueue_project_purge a24 b24 c24 d24 e24 f24)"
  "by_operations (snapshot_manifest a25 b25 c25 d25 e25 f25)"
  "by_operations (record_snapshot a26 b26 c26 d26 e26 f26 g26 h26 i26 j26)"
  "by_operations (enqueue_restore a27 b27 c27 d27 e27 f27 g27 h27)"
  "by_operations (cancel_restore a28 b28 c28 d28 e28 f28)"
  "by_operations (claim_restore_job a29 b29)"
  "by_operations (create_pre_restore_snapshot a30 b30 c30 d30 e30)"
  "by_operations (mark_snapshot_ready a31 b31 c31)"
  "by_operations (mark_snapshot_ready_for_job a32 b32 c32 d32 e32)"
  "by_operations (renew_restore_lease a33 b33 c33)"
  "by_operations (cancel_restore_with_lease a34 b34 c34)"
  "by_operations (fail_restore_job a35 b35 c35)"
  "by_operations (fail_restore_job_with_lease a36 b36 c36 d36)"
  "by_operations (retry_restore_job_with_lease a37 b37 c37 d37)"
  "by_operations (reopen_failed_restore a38 b38 c38 d38 e38)"
  "by_operations (execute_restore_with_lease a39 b39 c39 d39 e39)"
  "by_operations (execute_restore a40 b40 c40 d40)"
  "by_operations (claim_project_purge_job a41 b41)"
  "by_operations (claim_account_purge_job a42 b42)"
  "by_operations (prepare_project_purge a43 b43 c43)"
  "by_operations (complete_project_purge a44 b44 c44)"
  "by_operations (fail_project_purge a45 b45 c45 d45)"
  "by_operations (request_account_purge_export a46 b46 c46 d46 e46 f46 g46)"
  "by_operations (confirm_account_purge a47 b47 c47 d47 e47 f47 g47)"
  "by_operations (renew_account_purge_lease a48 b48 c48)"
  "by_operations (complete_account_export a49 b49 c49 d49 e49 f49 g49)"
  "by_operations (prepare_account_purge a50 b50 c50 d50)"
  "by_operations (complete_account_purge a51 b51 c51 d51)"
  "by_operations (fail_account_purge a52 b52 c52 d52)"
  "by_operations (expire_account_purge_exports a53 b53)"
  "by_operations (register_payload a54 b54 c54 d54 e54)"
  "by_operations (delete_payload_row a55 b55)"
  "by_operations (expire_pending_snapshots a56)"
  "by_operations (purge_expired_idempotency_records a57 b57)"
  "by_operations (prune_old_auth_failures a58 b58 c58)"
  "by_operations (consume_distributed_rate_limit a59 b59 c59 d59 e59)"
  "by_operations (prune_distributed_rate_limits a60 b60)"
  "by_operations (create_initial_admin a61 b61 c61 d61 e61)"
  "by_operations (register_user a62 b62 c62 d62 e62 f62)"
  "by_operations (admin_create_user a63 b63 c63 d63 e63 f63 g63)"
  "by_operations (set_registration_enabled a64 b64 c64 d64)"
  "by_operations (create_invitation a65 b65 c65 d65 e65 f65)"
  "by_operations (admin_revoke_invitation a66 b66 c66 d66 e66)"
  "by_operations (admin_resend_invitation a67 b67 c67 d67 e67 f67)"
  "by_operations (activate_invitation a68 b68 c68 d68 e68 f68)"
  "by_operations (admin_set_account_status a69 b69 c69 d69 e69 f69)"
  "by_operations (record_auth_failure a70 b70 c70 d70 e70 f70 g70 h70 i70 j70)"
  "by_operations (record_sync_attempt a71 b71 c71)"
  "by_operations (admin_enqueue_restore a72 b72 c72 d72 e72 f72 g72 h72)"
  by (simp_all add: by_operations_def r_into_rtranclp operation.intros)

lemma by_operations_read: "(\<And>s. fst (t s) = s) \<Longrightarrow> by_operations t"
  by (simp add: by_operations_def)

lemma by_operations_cases [operation_intros]:
  "by_operations t \<Longrightarrow> (\<And>x. by_operations (f x)) \<Longrightarrow> by_operations (case z of None \<Rightarrow> t | Some x \<Rightarrow> f x)"
  by (cases z) simp_all

subsection \<open>Invariants\<close>

locale operation_invariant =
  fixes J :: "db \<Rightarrow> bool"
  assumes step: "operation s s' \<Longrightarrow> J s \<Longrightarrow> J s'"
begin

lemma steps: "operations s s' \<Longrightarrow> J s \<Longrightarrow> J s'"
  by (induction rule: rtranclp_induct) (auto intro: step)

lemma transaction: "by_operations t \<Longrightarrow> J s \<Longrightarrow> J (fst (t s))"
  unfolding by_operations_def by (blast intro: steps)

end

end
