(* ===== verification/Server_Store.thy ===== *)
theory Server_Store
  imports Operations Restore_Props Purge_Props
begin

text \<open>
  What the operations do to the tables that the invariants of the server are about: the store, the
  queue of restores and the nonces. Most of them leave the three alone; for the others there is one
  lemma each. Every operation keeps the invariant of the store and of the queue, no operation
  changes a revision or a finished restore, and only the detachment of a project or an account
  deletes one.
\<close>

subsection \<open>The tables\<close>

text \<open>The tables of the store, the queue of restores and the nonces.\<close>

definition core_view ::
    "db \<Rightarrow> (project_row list \<times> revision_row list \<times> head_row list \<times> change_row list) \<times> restore_row list \<times> nonce_row list" where
  "core_view s = (store_view s, restore_jobs s, reauth_nonces s)"

lemma store_view_tables [simp]:
  "store_view (s\<lparr>users := a0\<rparr>) = store_view s"
  "store_view (s\<lparr>devices := a1\<rparr>) = store_view s"
  "store_view (s\<lparr>refresh_tokens := a2\<rparr>) = store_view s"
  "store_view (s\<lparr>invitations := a3\<rparr>) = store_view s"
  "store_view (s\<lparr>reauth_nonces := a4\<rparr>) = store_view s"
  "store_view (s\<lparr>audit_events := a5\<rparr>) = store_view s"
  "store_view (s\<lparr>payloads := a6\<rparr>) = store_view s"
  "store_view (s\<lparr>bootstrap_completions := a7\<rparr>) = store_view s"
  "store_view (s\<lparr>bootstrap_manifests := a8\<rparr>) = store_view s"
  "store_view (s\<lparr>idempotency_records := a9\<rparr>) = store_view s"
  "store_view (s\<lparr>snapshots := a10\<rparr>) = store_view s"
  "store_view (s\<lparr>restore_jobs := a11\<rparr>) = store_view s"
  "store_view (s\<lparr>jobs := a12\<rparr>) = store_view s"
  "store_view (s\<lparr>account_purge_exports := a13\<rparr>) = store_view s"
  "store_view (s\<lparr>sync_attempts := a14\<rparr>) = store_view s"
  "store_view (s\<lparr>rate_buckets := a15\<rparr>) = store_view s"
  "store_view (s\<lparr>instance_settings := a16\<rparr>) = store_view s"
  by (simp_all add: store_view_def)

lemma core_view_tables [simp]:
  "core_view (s\<lparr>users := a0\<rparr>) = core_view s"
  "core_view (s\<lparr>devices := a1\<rparr>) = core_view s"
  "core_view (s\<lparr>refresh_tokens := a2\<rparr>) = core_view s"
  "core_view (s\<lparr>invitations := a3\<rparr>) = core_view s"
  "core_view (s\<lparr>audit_events := a5\<rparr>) = core_view s"
  "core_view (s\<lparr>payloads := a6\<rparr>) = core_view s"
  "core_view (s\<lparr>bootstrap_completions := a7\<rparr>) = core_view s"
  "core_view (s\<lparr>bootstrap_manifests := a8\<rparr>) = core_view s"
  "core_view (s\<lparr>idempotency_records := a9\<rparr>) = core_view s"
  "core_view (s\<lparr>snapshots := a10\<rparr>) = core_view s"
  "core_view (s\<lparr>jobs := a12\<rparr>) = core_view s"
  "core_view (s\<lparr>account_purge_exports := a13\<rparr>) = core_view s"
  "core_view (s\<lparr>sync_attempts := a14\<rparr>) = core_view s"
  "core_view (s\<lparr>rate_buckets := a15\<rparr>) = core_view s"
  "core_view (s\<lparr>instance_settings := a16\<rparr>) = core_view s"
  by (simp_all add: core_view_def store_view_def)

lemma core_view_store: "core_view s' = core_view s \<Longrightarrow> store_view s' = store_view s"
  by (simp add: core_view_def)

lemma core_view_audit [simp]:
  "core_view (insert_audit e a b c m r s) = core_view s" "core_view (insert_audit_nullable e a2 b c m r s) = core_view s"
  by (simp_all add: insert_audit_def insert_audit_nullable_def)

named_theorems view_dests \<open>helpers that keep the view\<close>

lemma view_inserts [view_dests]:
  "insert_export x1 s = Inr s' \<Longrightarrow> core_view s' = core_view s"
  "upsert_pending_user e2 u2 i2 s = Inr s' \<Longrightarrow> core_view s' = core_view s"
  "insert_payload e3 a3 b3 c3 p3 s = Inr s' \<Longrightarrow> core_view s' = core_view s"
  "insert_job j4 s = Inr s' \<Longrightarrow> core_view s' = core_view s"
  "ensure_device e6 u6 d6 s = Inr s' \<Longrightarrow> core_view s' = core_view s"
  "insert_refresh u7 d7 t7 s = Inr s' \<Longrightarrow> core_view s' = core_view s"
  "complete_bootstrap u8 d8 p8 g8 n8 s = Inr s' \<Longrightarrow> core_view s' = core_view s"
  "insert_user x9 s = Inr s' \<Longrightarrow> core_view s' = core_view s"
  "insert_manifest m10 s = Inr s' \<Longrightarrow> core_view s' = core_view s"
  "insert_snapshot x11 s = Inr s' \<Longrightarrow> core_view s' = core_view s"
  "upsert_invitation e12 i12 v12 s = Inr (s', y12) \<Longrightarrow> core_view s' = core_view s"
  by (auto simp: insert_snapshot_def upsert_invitation_def Let_def insert_export_def upsert_pending_user_def insert_payload_def insert_job_def ensure_device_def
      insert_refresh_def complete_bootstrap_def insert_user_def insert_manifest_def
      split: if_splits option.splits)

lemma view_insert_restore [view_dests]: "insert_restore r s = Inr s' \<Longrightarrow> store_view s' = store_view s"
  by (auto simp: insert_restore_def split: if_splits)

lemma view_update_restore [simp]: "store_view (update_restore P g s) = store_view s"
  by (simp add: update_restore_def)

lemma view_updates [simp]:
  "core_view (restore_audit e job a b c s) = core_view s"
  "core_view (revoke_family e f s) = core_view s"
  "core_view (detect_reuse e t r i s) = core_view s"
  "core_view (upsert_setting k v s) = core_view s"
  "core_view (update_job P g s) = core_view s"
  by (simp_all add: update_job_def restore_audit_def revoke_family_def detect_reuse_def upsert_setting_def)

lemma view_audits [simp]:
  "store_view (insert_audit e a b c m r s) = store_view s" "store_view (insert_audit_nullable e a2 b c m r s) = store_view s"
  "store_view (restore_audit e job x y z s) = store_view s"
  by (rule core_view_store, simp)+

lemma view_issue_replacement [simp]: "core_view (fst (issue_replacement x0 x1 x2 x3 x4 x5 s)) = core_view s"
proof -
  obtain s' r where run: "issue_replacement x0 x1 x2 x3 x4 x5 s = (s', r)" by (metis surj_pair)
  show ?thesis unfolding run using run
    by (auto simp: issue_replacement_def Let_def try_bind_eq_Inr split: sum.splits prod.splits if_split_asm dest!: view_dests)
qed

lemma view_request_account_purge_export [simp]:
  "core_view (fst (request_account_purge_export x0 x1 x2 x3 x4 x5 x6 s)) = core_view s"
  unfolding request_account_purge_export_def
  by (simp split: sum.split list.split prod.split) (auto simp: try_bind_eq_Inr dest!: view_dests)

lemmas view_unfolds = Let_def try_bind_eq_Inr as_conflict_def
lemmas view_splits = sum.splits option.splits prod.splits list.splits restore_status.splits if_splits

text \<open>Most operations change none of these tables.\<close>

lemma core_parts [simp]:
  "core_view (fst (rotate_refresh_token_inner x0_0 x0_1 x0_2 x0_3 x0_4 s)) = core_view s"
  "core_view (fst (claim_purge_job x1_0 x1_1 x1_2 s)) = core_view s"
  by (auto simp: view_unfolds rotate_refresh_token_inner_def claim_purge_job_def
      split: view_splits dest!: view_dests)

lemma core_views_1 [simp]:
  "core_view (fst (create_login_session x0_0 x0_1 x0_2 x0_3 x0_4 s)) = core_view s"
  "core_view (fst (rotate_refresh_token x1_0 x1_1 x1_2 x1_3 s)) = core_view s"
  "core_view (fst (rotate_refresh_token_for_role x2_0 x2_1 x2_2 x2_3 x2_4 s)) = core_view s"
  "core_view (fst (logout_device x3_0 x3_1 x3_2 x3_3 s)) = core_view s"
  "core_view (fst (logout_device_by_refresh_token x4_0 x4_1 x4_2 s)) = core_view s"
  "core_view (fst (validate_access x5_0 x5_1 x5_2 x5_3 s)) = core_view s"
  "core_view (fst (change_password x6_0 x6_1 x6_2 s)) = core_view s"
  "core_view (fst (register_device x7_0 x7_1 x7_2 x7_3 s)) = core_view s"
  "core_view (fst (update_device x8_0 x8_1 x8_2 s)) = core_view s"
  "core_view (fst (revoke_device x9_0 x9_1 x9_2 x9_3 s)) = core_view s"
  "core_view (fst (snapshot_manifest x10_0 x10_1 x10_2 x10_3 x10_4 x10_5 s)) = core_view s"
  "core_view (fst (record_snapshot x11_0 x11_1 x11_2 x11_3 x11_4 x11_5 x11_6 x11_7 x11_8 x11_9 s)) = core_view s"
  by (auto simp: view_unfolds create_login_session_def rotate_refresh_token_def rotate_refresh_token_for_role_def logout_device_def
      logout_device_by_refresh_token_def validate_access_def change_password_def register_device_def
      update_device_def revoke_device_def snapshot_manifest_def record_snapshot_def
      split: view_splits dest!: view_dests)

lemma core_views_2 [simp]:
  "core_view (fst (mark_snapshot_ready x0_0 x0_1 x0_2 s)) = core_view s"
  "core_view (fst (mark_snapshot_ready_for_job x1_0 x1_1 x1_2 x1_3 x1_4 s)) = core_view s"
  "core_view (fst (claim_project_purge_job x2_0 x2_1 s)) = core_view s"
  "core_view (fst (claim_account_purge_job x3_0 x3_1 s)) = core_view s"
  "core_view (fst (fail_project_purge x4_0 x4_1 x4_2 x4_3 s)) = core_view s"
  "core_view (fst (renew_account_purge_lease x5_0 x5_1 x5_2 s)) = core_view s"
  "core_view (fst (complete_account_export x6_0 x6_1 x6_2 x6_3 x6_4 x6_5 x6_6 s)) = core_view s"
  "core_view (fst (complete_account_purge x7_0 x7_1 x7_2 x7_3 s)) = core_view s"
  "core_view (fst (fail_account_purge x8_0 x8_1 x8_2 x8_3 s)) = core_view s"
  "core_view (fst (expire_account_purge_exports x9_0 x9_1 s)) = core_view s"
  "core_view (fst (register_payload x10_0 x10_1 x10_2 x10_3 x10_4 s)) = core_view s"
  "core_view (fst (delete_payload_row x11_0 x11_1 s)) = core_view s"
  by (auto simp: view_unfolds mark_snapshot_ready_def mark_snapshot_ready_for_job_def claim_project_purge_job_def
      claim_account_purge_job_def fail_project_purge_def renew_account_purge_lease_def complete_account_export_def
      complete_account_purge_def fail_account_purge_def expire_account_purge_exports_def register_payload_def
      delete_payload_row_def
      split: view_splits dest!: view_dests)

lemma core_views_3 [simp]:
  "core_view (fst (expire_pending_snapshots x0_0 s)) = core_view s"
  "core_view (fst (purge_expired_idempotency_records x1_0 x1_1 s)) = core_view s"
  "core_view (fst (prune_old_auth_failures x2_0 x2_1 x2_2 s)) = core_view s"
  "core_view (fst (create_initial_admin x3_0 x3_1 x3_2 x3_3 x3_4 s)) = core_view s"
  "core_view (fst (register_user x4_0 x4_1 x4_2 x4_3 x4_4 x4_5 s)) = core_view s"
  "core_view (fst (admin_create_user x5_0 x5_1 x5_2 x5_3 x5_4 x5_5 x5_6 s)) = core_view s"
  "core_view (fst (set_registration_enabled x6_0 x6_1 x6_2 x6_3 s)) = core_view s"
  "core_view (fst (create_invitation x7_0 x7_1 x7_2 x7_3 x7_4 x7_5 s)) = core_view s"
  "core_view (fst (admin_revoke_invitation x8_0 x8_1 x8_2 x8_3 x8_4 s)) = core_view s"
  "core_view (fst (admin_resend_invitation x9_0 x9_1 x9_2 x9_3 x9_4 x9_5 s)) = core_view s"
  "core_view (fst (activate_invitation x10_0 x10_1 x10_2 x10_3 x10_4 x10_5 s)) = core_view s"
  "core_view (fst (admin_set_account_status x11_0 x11_1 x11_2 x11_3 x11_4 x11_5 s)) = core_view s"
  by (auto simp: view_unfolds expire_pending_snapshots_def purge_expired_idempotency_records_def prune_old_auth_failures_def
      create_initial_admin_def register_user_def admin_create_user_def set_registration_enabled_def
      create_invitation_def admin_revoke_invitation_def admin_resend_invitation_def activate_invitation_def
      admin_set_account_status_def
      split: view_splits dest!: view_dests)

lemma core_views_4 [simp]:
  "core_view (fst (record_auth_failure x0_0 x0_1 x0_2 x0_3 x0_4 x0_5 x0_6 x0_7 x0_8 x0_9 s)) = core_view s"
  "core_view (fst (record_sync_attempt x1_0 x1_1 x1_2 s)) = core_view s"
  "core_view (fst (pull_page x2_0 x2_1 x2_2 x2_3 x2_4 x2_5 x2_6 s)) = core_view s"
  "core_view (fst (bootstrap_page x3_0 x3_1 x3_2 x3_3 x3_4 x3_5 x3_6 s)) = core_view s"
  "core_view (fst (prepare_bootstrap_manifest x4_0 x4_1 x4_2 x4_3 x4_4 s)) = core_view s"
  "core_view (fst (record_bootstrap_manifest x5_0 x5_1 x5_2 x5_3 x5_4 x5_5 s)) = core_view s"
  "core_view (fst (bootstrap_manifest_page x6_0 x6_1 x6_2 x6_3 x6_4 x6_5 x6_6 x6_7 s)) = core_view s"
  "core_view (fst (expire_bootstrap_manifests x7_0 x7_1 s)) = core_view s"
  "core_view (fst (consume_distributed_rate_limit x8_0 x8_1 x8_2 x8_3 x8_4 s)) = core_view s"
  "core_view (fst (prune_distributed_rate_limits x9_0 x9_1 s)) = core_view s"
  by (auto simp: view_unfolds record_auth_failure_def record_sync_attempt_def pull_page_def bootstrap_page_def
      prepare_bootstrap_manifest_def record_bootstrap_manifest_def bootstrap_manifest_page_def
      expire_bootstrap_manifests_def consume_distributed_rate_limit_def prune_distributed_rate_limits_def
      split: view_splits dest!: view_dests)

text \<open>The operations on restores change their queue, those on nonces their table, not the store.\<close>

lemma restores_keep_store [simp]:
  "store_view (fst (enqueue_restore x0_0 x0_1 x0_2 x0_3 x0_4 x0_5 x0_6 x0_7 s)) = store_view s"
  "store_view (fst (cancel_restore x1_0 x1_1 x1_2 x1_3 x1_4 x1_5 s)) = store_view s"
  "store_view (fst (create_pre_restore_snapshot x2_0 x2_1 x2_2 x2_3 x2_4 s)) = store_view s"
  "store_view (fst (renew_restore_lease x3_0 x3_1 x3_2 s)) = store_view s"
  "store_view (fst (fail_restore_job x4_0 x4_1 x4_2 s)) = store_view s"
  "store_view (fst (fail_restore_job_with_lease x5_0 x5_1 x5_2 x5_3 s)) = store_view s"
  "store_view (fst (retry_restore_job_with_lease x6_0 x6_1 x6_2 x6_3 s)) = store_view s"
  by (auto simp: view_unfolds enqueue_restore_def cancel_restore_def create_pre_restore_snapshot_def renew_restore_lease_def
      fail_restore_job_def fail_restore_job_with_lease_def retry_restore_job_with_lease_def
      split: view_splits dest!: view_dests core_view_store)

lemma nonces_keep_store [simp]:
  "store_view (fst (create_reauth_nonce e0 a0 d0 h0 x0 s)) = store_view s"
  "store_view (fst (consume_reauth_nonce e1 a1 d1 h1 s)) = store_view s"
  "store_view (fst (revoke_reauth_nonces a2 d2 s)) = store_view s"
  "restore_jobs (fst (create_reauth_nonce e3 a3 d3 h3 x3 s)) = restore_jobs s"
  "restore_jobs (fst (consume_reauth_nonce e4 a4 d4 h4 s)) = restore_jobs s"
  "restore_jobs (fst (revoke_reauth_nonces a5 d5 s)) = restore_jobs s"
  by (auto simp: create_reauth_nonce_def consume_reauth_nonce_def revoke_reauth_nonces_def view_unfolds split: view_splits)


subsection \<open>Operations that change projects\<close>

definition keeps_store :: "'a txn \<Rightarrow> bool" where
  "keeps_store t \<longleftrightarrow> (\<forall>s. store_inv s \<longrightarrow> store_inv (fst (t s)))"

lemma keeps_storeI: "(\<And>s. store_inv s \<Longrightarrow> store_inv (fst (t s))) \<Longrightarrow> keeps_store t"
  by (simp add: keeps_store_def)

lemma keeps_view: "(\<And>s. store_view (fst (t s)) = store_view s) \<Longrightarrow> keeps_store t"
  unfolding keeps_store_def by (metis store_inv_view)

lemma inv_of_view: "store_view s' = store_view s \<Longrightarrow> store_inv s \<Longrightarrow> store_inv s'"
  using store_inv_view by blast

lemma inv_of_status:
  "store_view s' = store_view (s\<lparr>projects := update_where P (set_status e st) (projects s)\<rparr>) \<Longrightarrow> store_inv s \<Longrightarrow> store_inv s'"
  by (erule inv_of_view) (rule store_inv_project_update, assumption, simp add: set_status_def)

lemma keeps_update_project:
  assumes "\<And>p. p_id (f p) = p_id p \<and> p_owner (f p) = p_owner p \<and> p_change_seq (f p) = p_change_seq p"
  shows "keeps_store (update_project f u pid)"
  by (rule keeps_storeI) (auto simp: update_project_def assms split: option.split intro!: store_inv_project_update)

lemma keeps_project_changes:
  "keeps_store (rename_project e u pid n)" "keeps_store (disable_project e u pid)"
  using keeps_update_project [of "set_name e n" u pid] keeps_update_project [of "set_status e PDisabled" u pid]
  by (simp_all add: keeps_store_def rename_project_def disable_project_def set_name_def set_status_def)

lemma keeps_enqueue_project_purge: "keeps_store (enqueue_project_purge e j u pid reason i)"
proof (rule keeps_storeI)
  fix s assume inv: "store_inv s"
  show "store_inv (fst (enqueue_project_purge e j u pid reason i s))"
    using inv by (auto simp: enqueue_project_purge_def Let_def split: option.split sum.split dest!: view_dests core_view_store intro: inv_of_status)
qed

lemma keeps_cancel_restore_with_lease: "keeps_store (cancel_restore_with_lease e j l)"
proof (rule keeps_storeI)
  fix s assume inv: "store_inv s"
  show "store_inv (fst (cancel_restore_with_lease e j l s))"
  proof (cases "List.find (holds_lease j l) (restore_jobs s)")
    case (Some x)
    have "store_view (fst (cancel_restore_with_lease e j l s)) = store_view (s\<lparr>projects :=
        update_where (\<lambda>p. p_id p = rj_project x \<and> p_status p = PMaintenance) (set_status e PActive) (projects s)\<rparr>)"
      if "rj_cancel_requested x"
      using Some that by (simp add: cancel_restore_with_lease_def Let_def update_restore_def) (simp add: store_view_def)
    with inv Some inv_of_status show ?thesis
      by (cases "rj_cancel_requested x") (blast, simp add: cancel_restore_with_lease_def)
  qed (simp add: cancel_restore_with_lease_def inv)
qed

lemma keeps_reopen_failed_restore: "keeps_store (reopen_failed_restore e a pid r i)"
  by (rule keeps_storeI) (auto simp: reopen_failed_restore_def Let_def split: option.split sum.split intro: inv_of_status)

lemma keeps_confirm_account_purge: "keeps_store (confirm_account_purge e j x a u r i)"
proof (rule keeps_storeI)
  fix s assume inv: "store_inv s"
  obtain s' out where run: "confirm_account_purge e j x a u r i s = (s', out)" by (metis surj_pair)
  have "store_view s' = store_view s \<or> store_view s' = store_view (s\<lparr>projects :=
      update_where (\<lambda>p. p_owner p = a \<and> p_status p \<in> {PActive, PDisabled, PMaintenance}) (set_status e PDeleting) (projects s)\<rparr>)"
    using run by (auto simp: confirm_account_purge_def Let_def split: option.splits sum.splits if_splits dest!: view_dests core_view_store)
      (auto simp: store_view_def)
  then show "store_inv (fst (confirm_account_purge e j x a u r i s))"
    unfolding run using inv by (auto intro: inv_of_view inv_of_status)
qed

lemma keeps_create_project: "keeps_store (create_project e n u name)"
proof (rule keeps_storeI)
  fix s assume inv: "store_inv s"
  have "store_inv (s\<lparr>projects := projects s @ [p]\<rparr>)"
    if fresh: "\<not> list_ex (\<lambda>p. p_id p = n) (projects s)" and p: "p_id p = n" "p_change_seq p = 0" for p
  proof -
    let ?s = "s\<lparr>projects := projects s @ [p]\<rparr>"
    have own: "owners_ok s" using inv by (simp add: store_inv_def)
    then have none: "project_log n s = []" "project_revisions n s = []"
      using fresh by (auto simp: owners_ok_def list_all_iff list_ex_iff owned_def project_log_def project_revisions_def filter_empty_conv)
    have "owners_ok ?s" using own by (auto simp: owners_ok_def list_all_iff owned_def)
    moreover have "keys_ok ?s" using inv fresh p by (auto simp: store_inv_def keys_ok_def list_ex_iff)
    moreover have "log_ok ?s = log_ok s" "head_ok ?s = head_ok s" "object_history k ?s = object_history k s" for k
      by (auto simp: log_ok_def head_ok_def object_history_def project_log_def project_revisions_def fun_eq_iff)
    moreover have "log_ok s p" using none p by (simp add: log_ok_def)
    ultimately show ?thesis using inv by (simp add: store_inv_def)
  qed
  with inv show "store_inv (fst (create_project e n u name s))"
    by (auto simp: create_project_def Let_def)
qed

lemma keeps_claim_restore_job: "keeps_store (claim_restore_job e l)"
  by (rule keeps_storeI) (rule claim_keeps_store)

lemma keeps_push: "keeps_store (push_with_outcome tm e uid did pid ids expected key hash revs)"
proof (rule keeps_storeI)
  fix s assume inv: "store_inv s"
  obtain s' out where run: "push_with_outcome tm e uid did pid ids expected key hash revs s = (s', out)" by (metis surj_pair)
  from push_keeps_store_helper [OF inv run] show "store_inv (fst (push_with_outcome tm e uid did pid ids expected key hash revs s))"
    by (simp add: run)
qed

lemma keeps_prepare_project_purge: "keeps_store (prepare_project_purge e j l)"
proof (rule keeps_storeI)
  fix s assume inv: "store_inv s"
  have "store_inv (delete_owned_rows (\<lambda>_ p. p = pid) s)" for pid
    by (rule delete_keeps_store [OF inv]) (rule refl)
  with inv show "store_inv (fst (prepare_project_purge e j l s))"
    by (auto simp: prepare_project_purge_def Let_def split: option.split intro: inv_of_view)
qed

lemma keeps_prepare_account_purge: "keeps_store (prepare_account_purge pu e j l)"
proof (rule keeps_storeI)
  fix s assume inv: "store_inv s"
  have "store_inv (delete_owned_rows (\<lambda>o' _. o' = u) s)" for u
    by (rule delete_account_keeps_store [OF inv])
  with inv show "store_inv (fst (prepare_account_purge pu e j l s))"
    by (auto simp: prepare_account_purge_def Let_def split: option.split intro: inv_of_view)
qed

subsection \<open>A restore\<close>

text \<open>The revision number of an object is unique, so a step that passes makes the next one.\<close>

lemma append_revision_unique:
  assumes "append_revision e visible r s = Inr (s', n)" and "rv_revision r = rv_revision x" and "rev_key x = rev_key r"
  shows "x \<notin> set (object_revisions s)"
  using assms
  by (auto simp: append_revision_def try_bind_eq_Inr bump_change_seq_def insert_revision_def list_ex_iff
      split: option.splits if_splits)

lemma store_inv_history:
  assumes "store_inv s" shows "history_ok (object_history k s)"
proof (cases "object_history k s")
  case (Cons r rs)
  then have "r \<in> set (object_history k s)" by simp
  then have "r \<in> set (object_revisions s)" "rev_key r = k" by (auto simp: object_history_def)
  with assms show ?thesis by (auto simp: store_inv_def list_all_iff)
qed simp

lemma append_within_history:
  assumes inv: "store_inv s" and step: "append_revision e visible r s = Inr (s', n)"
    and rev: "rv_revision r = m + 1" and m: "0 \<le> m" "m \<le> int (length (object_history (rev_key r) s))"
  shows "store_inv s'"
proof (rule append_revision_inv [OF inv step])
  let ?rs = "object_history (rev_key r) s"
  have revs: "map rv_revision ?rs = [1..int (length ?rs)]"
    using store_inv_history [OF inv] by (simp add: history_ok_def)
  have "rv_revision r \<notin> rv_revision ` set ?rs"
  proof
    assume "rv_revision r \<in> rv_revision ` set ?rs"
    then obtain x where "x \<in> set ?rs" "rv_revision r = rv_revision x" by auto
    with append_revision_unique [OF step] show False by (auto simp: object_history_def)
  qed
  then have "m + 1 \<notin> set [1..int (length ?rs)]" unfolding rev by (simp add: flip: revs)
  with m rev show "rv_revision r = int (length ?rs) + 1" by simp
qed

text \<open>
  What the loop needs of the rows read before it: no number is larger than the history. It holds even
  when a target names an object twice; the second insert then fails.
\<close>

definition rows_bounded :: "uuid \<Rightarrow> sync_record list \<Rightarrow> db \<Rightarrow> bool" where
  "rows_bounded pid rows s \<longleftrightarrow>
    list_all (\<lambda>row. \<forall>k. kind_as_str k = sr_kind row \<longrightarrow>
      0 \<le> sr_revision row \<and> sr_revision row \<le> int (length (object_history (pid, k, sr_id row) s))) rows"

lemma rows_bounded_append:
  assumes "rows_bounded pid rows s" and "object_revisions s' = object_revisions s @ [r]"
  shows "rows_bounded pid rows s'"
  using assms(1) by (fastforce simp: rows_bounded_def list_all_iff object_history_append [OF assms(2)])

lemma rows_bounded_heads:
  assumes "store_inv s"
  shows "rows_bounded pid (map snd (head_rows (\<lambda>_. True) pid s)) s"
  unfolding rows_bounded_def list_all_iff
proof (intro ballI allI impI)
  fix row k assume row: "row \<in> set (map snd (head_rows (\<lambda>_. True) pid s))" and k: "kind_as_str k = sr_kind row"
  from head_row_last [OF assms row] obtain k' where k': "sr_kind row = kind_as_str k'"
    "sr_revision row = int (length (object_log k' (sr_id row) (abs_log pid s)))" by blast
  then have "k' = k" using k by (simp add: kind_as_str_inj)
  with k' show "0 \<le> sr_revision row \<and> sr_revision row \<le> int (length (object_history (pid, k, sr_id row) s))"
    by (simp add: object_log_history)
qed

lemma restore_item_keeps:
  assumes pre: "restore_pre owner pid s" "rows_bounded pid current s"
    and step: "restore_item e owner pid current rid item s = Inr (s', applied)"
  shows "restore_pre owner pid s' \<and> rows_bounded pid current s'"
proof -
  define existing where "existing = List.find (\<lambda>row. same_item row item) current"
  define actual where "actual = (case existing of None \<Rightarrow> 0 | Some row \<Rightarrow> sr_revision row)"
  show ?thesis
  proof (cases "case existing of None \<Rightarrow> False | Some row \<Rightarrow> same_manifest_state row item")
    case True
    with step pre show ?thesis by (simp add: restore_item_def flip: existing_def)
  next
    case False
    with step obtain payload k n where k: "kind_of_str (mi_kind item) = Some k"
      and app: "append_revision e (\<lambda>_. True) (restored_revision e owner pid rid k actual payload item) s = Inr (s', n)"
      by (auto simp: restore_item_def Let_def try_bind_eq_Inr actual_def simp flip: existing_def)
    define r where "r = restored_revision e owner pid rid k actual payload item"
    have sel: "rv_project r = pid" "rev_key r = (pid, k, mi_id item)" "rv_revision r = i64_wrap (actual + 1)"
      by (simp_all add: r_def restored_revision_def rev_key_def)
    have act: "0 \<le> actual \<and> actual \<le> int (length (object_history (rev_key r) s))"
    proof (cases existing)
      case (Some row)
      then have "row \<in> set current" "same_item row item" unfolding existing_def by (auto dest: find_SomeD)
      with pre(2) kind_of_strD [OF k] show ?thesis
        by (auto simp: actual_def Some rows_bounded_def list_all_iff same_item_def sel(2))
    qed (simp add: actual_def)
    from app [folded r_def] show ?thesis
    proof (rule append_revisionE)
      fix p assume p: "p \<in> set (projects s)" "p_id p = rv_project r" "n = p_change_seq p + 1" "n \<le> i64_max"
        and rv: "object_revisions s' = object_revisions s @ [r]"
      have "n = int (length (abs_log pid s)) + 1"
        using p sel(1) pre project_seq_is_length [of s p pid] by (simp add: restore_pre_def)
      moreover have "length (object_history (rev_key r) s) \<le> length (abs_log pid s)"
        using object_log_history [of k "mi_id item" pid s] sel(2) by (metis length_filter_le length_map object_log_def)
      ultimately have "rv_revision r = actual + 1"
        using p(4) act unfolding sel(3) by (intro i64_wrap_id) auto
      with append_within_history [OF _ app [folded r_def], of actual] act pre append_revision_owned [OF app]
        rows_bounded_append [OF pre(2) rv]
      show ?thesis by (simp add: restore_pre_def)
    qed
  qed
qed

lemma restore_items_keep:
  assumes "restore_pre owner pid s" "rows_bounded pid current s"
    and "restore_items e owner pid current ids j items s = Inr (s', objects, tombstones)"
  shows "restore_pre owner pid s'"
  using assms
proof (induction items arbitrary: j s objects tombstones)
  case (Cons item items)
  from Cons.prems(3) obtain s1 applied ob tb
    where one: "restore_item e owner pid current (ids j) item s = Inr (s1, applied)"
      and more: "restore_items e owner pid current ids (Suc j) items s1 = Inr (s', ob, tb)"
    by (auto simp: try_bind_eq_Inr)
  from restore_item_keeps [OF Cons.prems(1,2) one] Cons.IH [OF _ _ more] show ?case by blast
qed simp

lemma keeps_execute_restore_with_lease: "keeps_store (execute_restore_with_lease parse_uuid e ids j l)"
proof (rule keeps_storeI)
  fix s assume inv: "store_inv s"
  have ok: "store_inv (restore_audit e job g ob tb (update_restore P f
      (s1\<lparr>projects := update_where Q (reopen_project e g) (projects s1)\<rparr>)))"
    if p: "List.find (\<lambda>p. p_id p = rj_project job \<and> p_status p = PMaintenance) (projects s) = Some p"
      and run: "restore_items e (p_owner p) (rj_project job) (map snd (head_rows (\<lambda>_. True) (rj_project job) s)) ids 0
        items s = Inr (s1, ob, tb)" for job p s1 ob tb g P f Q items
  proof -
    from p have "owned s (rj_project job) (p_owner p)" by (auto simp: owned_def list_ex_iff dest: find_SomeD)
    with inv have "restore_pre (p_owner p) (rj_project job) s1"
      by (intro restore_items_keep [OF _ rows_bounded_heads run]) (simp_all add: restore_pre_def)
    then have "store_inv (s1\<lparr>projects := update_where Q (reopen_project e g) (projects s1)\<rparr>)"
      by (intro store_inv_project_update) (simp_all add: restore_pre_def reopen_project_def)
    then show ?thesis by (rule inv_of_view [rotated]) simp
  qed
  show "store_inv (fst (execute_restore_with_lease parse_uuid e ids j l s))"
    using inv by (auto simp: execute_restore_with_lease_def Let_def ok split: option.split sum.split prod.split)
qed

subsection \<open>Every operation\<close>

lemma view_more [simp]:
  "core_view (fst (complete_project_purge x0 x1 x2 s)) = core_view s"
  by (auto simp: complete_project_purge_def Let_def split: option.splits)

lemma view_admin_enqueue_restore: "store_view (fst (admin_enqueue_restore x0 x1 x2 x3 x4 x5 x6 x7 s)) = store_view s"
  unfolding admin_enqueue_restore_def Let_def
  by (simp split: sum.split option.split) (auto dest!: view_dests core_view_store)

lemma keeps_push_response: "keeps_store (push tm e uid did pid ids expected key hash revs)"
  using keeps_push [of tm e uid did pid ids expected key hash revs]
  by (simp add: keeps_store_def push_def split: prod.split sum.split) (metis fst_conv)

lemma keeps_execute_restore: "keeps_store (execute_restore parse_uuid e ids j)"
  using keeps_execute_restore_with_lease [of parse_uuid e ids j]
  by (simp add: keeps_store_def execute_restore_def split: option.split)

lemmas keeps_all = keeps_push keeps_push_response keeps_project_changes keeps_create_project keeps_enqueue_project_purge
  keeps_claim_restore_job keeps_cancel_restore_with_lease keeps_reopen_failed_restore keeps_confirm_account_purge
  keeps_prepare_project_purge keeps_prepare_account_purge keeps_execute_restore_with_lease keeps_execute_restore

lemmas store_kept = keeps_all [unfolded keeps_store_def, rule_format]

lemmas core_views = core_parts core_views_1 core_views_2 core_views_3 core_views_4 view_more view_request_account_purge_export

lemmas store_views = restores_keep_store nonces_keep_store(1-3) view_admin_enqueue_restore

lemma inv_of_core: "store_inv s \<Longrightarrow> core_view s' = core_view s \<Longrightarrow> store_inv s'"
  by (rule inv_of_view [OF core_view_store])

lemma operation_keeps_store: "operation s s' \<Longrightarrow> store_inv s \<Longrightarrow> store_inv s'"
  by (induction rule: operation.induct)
    (erule store_kept | (erule inv_of_core, rule core_views) | (erule inv_of_view [rotated], rule store_views))+

subsection \<open>The queue\<close>

text \<open>
  An operation changes live restores or adds one, or it erases the projects of an account or one
  project, with all rows that belong to them.
\<close>

definition erases :: "(uuid \<Rightarrow> uuid \<Rightarrow> bool) \<Rightarrow> db \<Rightarrow> db \<Rightarrow> bool" where
  "erases doomed s s' \<longleftrightarrow>
     projects s' = delete_where (\<lambda>p. doomed (p_owner p) (p_id p)) (projects s)
   \<and> object_revisions s' = delete_where (\<lambda>r. doomed (rv_owner r) (rv_project r)) (object_revisions s)
   \<and> restore_jobs s' = delete_where (\<lambda>r. doomed (rj_owner r) (rj_project r)) (restore_jobs s)"

lemma erases_owned: "erases doomed s s' \<Longrightarrow> doomed uid pid \<Longrightarrow> \<not> owned s' pid uid"
  by (auto simp: erases_def owned_def list_ex_iff)

lemma erases_rows:
  assumes "erases doomed s s'"
  shows "j \<in> set (restore_jobs s) \<Longrightarrow> j \<in> set (restore_jobs s') \<or> \<not> owned s' (rj_project j) (rj_owner j)"
    and "r \<in> set (object_revisions s) \<Longrightarrow> r \<in> set (object_revisions s') \<or> \<not> owned s' (rv_project r) (rv_owner r)"
proof -
  show "j \<in> set (restore_jobs s) \<Longrightarrow> j \<in> set (restore_jobs s') \<or> \<not> owned s' (rj_project j) (rj_owner j)"
    using assms erases_owned [OF assms, of "rj_owner j" "rj_project j"] by (auto simp: erases_def)
  show "r \<in> set (object_revisions s) \<Longrightarrow> r \<in> set (object_revisions s') \<or> \<not> owned s' (rv_project r) (rv_owner r)"
    using assms erases_owned [OF assms, of "rv_owner r" "rv_project r"] by (auto simp: erases_def)
qed

definition queue_step :: "db \<Rightarrow> db \<Rightarrow> bool" where
  "queue_step s s' \<longleftrightarrow> queue_change (restore_jobs s) (restore_jobs s') \<or> (\<exists>doomed. erases doomed s s')"

lemma queue_step_same: "restore_jobs s' = restore_jobs s \<Longrightarrow> queue_step s s'"
  by (simp add: queue_step_def)

lemma queue_step_core: "core_view s' = core_view s \<Longrightarrow> queue_step s s'"
  by (simp add: core_view_def queue_step_same)

lemma queue_ok_delete:
  assumes "queue_ok js" shows "queue_ok (delete_where P js)"
proof -
  have ids: "distinct (map rj_id (delete_where P js))"
    unfolding delete_where_def using assms by (intro distinct_map_filter) (simp add: queue_ok_def)
  have "live_projects (delete_where P js) = map rj_project (filter (\<lambda>j. \<not> P j) (filter restore_live js))"
    by (simp add: live_projects_def delete_where_def conj_commute)
  moreover have "distinct (map rj_project (filter (\<lambda>j. \<not> P j) (filter restore_live js)))"
    by (rule distinct_map_filter) (use assms in \<open>simp add: queue_ok_def live_projects_def\<close>)
  ultimately show ?thesis using assms ids by (simp add: queue_ok_def list_all_iff)
qed

lemma queue_step_ok: "queue_ok (restore_jobs s) \<Longrightarrow> queue_step s s' \<Longrightarrow> queue_ok (restore_jobs s')"
  by (auto simp: queue_step_def erases_def intro: queue_change_ok queue_ok_delete)

lemma queue_step_final:
  assumes "queue_step s s'" and "j \<in> set (restore_jobs s)" and "\<not> restore_live j"
  shows "j \<in> set (restore_jobs s') \<or> \<not> owned s' (rj_project j) (rj_owner j)"
  using assms unfolding queue_step_def by (blast dest: queue_change_final erases_rows)

lemma queue_restore_step:
  assumes "queue_ok (restore_jobs s)" and "s' = restore_step tv sha pu ev s"
  shows "queue_step s s'"
  using restore_step_change [OF assms(1)] by (simp add: assms(2) queue_step_def)

lemma queue_events:
  assumes "queue_ok (restore_jobs s)"
  shows "queue_step s (fst (enqueue_restore e0 j0 u0 p0 sn0 ts0 r0 i0 s))"
    "queue_step s (fst (admin_enqueue_restore e11 j11 u11 p11 sn11 ts11 r11 i11 s))"
    "queue_step s (fst (cancel_restore e1 u1 p1 j1 r1 i1 s))"
    "queue_step s (fst (claim_restore_job e2 l2 s))"
    "queue_step s (fst (create_pre_restore_snapshot tv sha e3 sn3 j3 s))"
    "queue_step s (fst (renew_restore_lease e4 j4 l4 s))"
    "queue_step s (fst (cancel_restore_with_lease e5 j5 l5 s))"
    "queue_step s (fst (fail_restore_job e6 j6 c6 s))"
    "queue_step s (fst (fail_restore_job_with_lease e7 j7 l7 c7 s))"
    "queue_step s (fst (retry_restore_job_with_lease e8 j8 l8 c8 s))"
    "queue_step s (fst (reopen_failed_restore e9 a9 p9 r9 i9 s))"
    "queue_step s (fst (execute_restore_with_lease pu e10 ids10 j10 l10 s))"
  by (rule queue_restore_step [OF assms, of _ tv sha pu], rule restore_step.simps [symmetric])+

text \<open>Operations that leave the queue as it is, although they write tables of the store.\<close>

lemma jobs_inserts:
  "insert_job j s = Inr s' \<Longrightarrow> restore_jobs s' = restore_jobs s"
  "insert_idempotency r s = Inr s' \<Longrightarrow> restore_jobs s' = restore_jobs s"
  by (auto simp: insert_job_def insert_idempotency_def split: if_splits)

lemma queue_kept:
  "restore_jobs (fst (rename_project e u p n s)) = restore_jobs s"
  "restore_jobs (fst (disable_project e u p s)) = restore_jobs s"
  "restore_jobs (fst (create_project e i u n s)) = restore_jobs s"
  "restore_jobs (fst (enqueue_project_purge e j u p r i s)) = restore_jobs s"
  "restore_jobs (fst (confirm_account_purge e j x a u r i s)) = restore_jobs s"
  by (auto simp: rename_project_def disable_project_def update_project_def create_project_def enqueue_project_purge_def
      confirm_account_purge_def insert_audit_def insert_audit_nullable_def Let_def split: option.split sum.split dest!: jobs_inserts)

lemma jobs_push_items:
  "push_items e uid did pid ids i revs s = Inr (s', results) \<Longrightarrow> restore_jobs s' = restore_jobs s"
proof (induction revs arbitrary: i s results)
  case (Cons r rs)
  then obtain s1 res rest where one: "push_item e uid did pid (ids i) r s = Inr (s1, res)"
    and more: "push_items e uid did pid ids (Suc i) rs s1 = Inr (s', rest)"
    by (auto simp: try_bind_eq_Inr)
  have "restore_jobs s1 = restore_jobs s"
    using push_item_frame [OF one] append_revision_frame_select(7) by blast
  with Cons.IH [OF more] show ?case by simp
qed simp

lemma jobs_apply_push:
  "apply_push e uid did pid ids g key hash revs s = Inr (s', response) \<Longrightarrow> restore_jobs s' = restore_jobs s"
  by (auto simp: apply_push_def try_bind_eq_Inr Let_def dest!: jobs_push_items jobs_inserts)

lemma jobs_fail_push:
  "restore_jobs before = restore_jobs s \<Longrightarrow> restore_jobs (fst (fail_push e uid did pid key hash er before s)) = restore_jobs s"
  by (auto simp: fail_push_def store_push_failure_def as_conflict_def jobs_inserts try_bind_eq_Inr
      split: sum.splits option.splits if_splits)

lemma jobs_push:
  "restore_jobs (fst (push_with_outcome tm e uid did pid ids expected key hash revs s)) = restore_jobs s"
  by (auto simp: push_with_outcome_def Let_def jobs_fail_push dest!: jobs_apply_push split: option.split sum.split)

lemma jobs_push_response: "restore_jobs (fst (push tm e uid did pid ids expected key hash revs s)) = restore_jobs s"
  using jobs_push [of tm e uid did pid ids expected key hash revs s]
  by (simp add: push_def split: prod.split sum.split) (metis fst_conv)

lemma erases_owned_rows: "erases doomed s (delete_owned_rows doomed s)"
  by (simp add: erases_def delete_owned_rows_def)

lemma erases_frame:
  "erases doomed s s1 \<Longrightarrow> projects s2 = projects s1 \<Longrightarrow> object_revisions s2 = object_revisions s1 \<Longrightarrow>
    restore_jobs s2 = restore_jobs s1 \<Longrightarrow> erases doomed s s2"
  by (simp add: erases_def)

lemma purge_effects:
  "fst (prepare_project_purge e j l s) = s \<or> (\<exists>doomed. erases doomed s (fst (prepare_project_purge e j l s)))"
  "fst (prepare_account_purge pu e j l s) = s \<or> (\<exists>doomed. erases doomed s (fst (prepare_account_purge pu e j l s)))"
  by (auto simp: prepare_project_purge_def prepare_account_purge_def Let_def update_job_def delete_account_rows_def
      split: option.split intro!: exI erases_frame [OF erases_owned_rows])

lemma queue_purges:
  "queue_step s (fst (prepare_project_purge e j l s))" "queue_step s (fst (prepare_account_purge pu e j l s))"
  using purge_effects(1) [of e j l s] purge_effects(2) [of pu e j l s] by (auto simp: queue_step_def)

lemma queue_execute_restore:
  "queue_ok (restore_jobs s) \<Longrightarrow> queue_step s (fst (execute_restore pu e ids j s))"
  by (auto simp: execute_restore_def queue_step_same split: option.split intro: queue_events)

lemmas jobs_kept = jobs_push jobs_push_response queue_kept nonces_keep_store(4-6)

lemma operation_queue:
  "operation s s' \<Longrightarrow> queue_ok (restore_jobs s) \<Longrightarrow> queue_step s s'"
  by (induction rule: operation.induct)
    (erule queue_events queue_execute_restore | rule queue_purges
      | (rule queue_step_same, rule jobs_kept) | (rule queue_step_core, rule core_views))+

subsection \<open>Revisions\<close>

text \<open>An operation only adds revisions, or it erases their project.\<close>

definition adds_revisions :: "db \<Rightarrow> db \<Rightarrow> bool" where
  "adds_revisions s s' \<longleftrightarrow> (\<exists>new. object_revisions s' = object_revisions s @ new)"

lemma adds_same: "object_revisions s' = object_revisions s \<Longrightarrow> adds_revisions s s'"
  by (simp add: adds_revisions_def)

lemma adds_store: "store_view s' = store_view s \<Longrightarrow> adds_revisions s s'"
  by (simp add: store_view_def adds_same)

lemma adds_core: "core_view s' = core_view s \<Longrightarrow> adds_revisions s s'"
  by (rule adds_store [OF core_view_store])

lemma adds_trans: "adds_revisions s s1 \<Longrightarrow> adds_revisions s1 s' \<Longrightarrow> adds_revisions s s'"
  by (auto simp: adds_revisions_def)

lemma adds_append: "append_revision e visible r s = Inr (s', n) \<Longrightarrow> adds_revisions s s'"
  by (erule append_revisionE) (simp add: adds_revisions_def)

lemma adds_push_items:
  "push_items e uid did pid ids i revs s = Inr (s', results) \<Longrightarrow> adds_revisions s s'"
proof (induction revs arbitrary: i s results)
  case (Cons r rs)
  then obtain s1 res rest where one: "push_item e uid did pid (ids i) r s = Inr (s1, res)"
    and more: "push_items e uid did pid ids (Suc i) rs s1 = Inr (s', rest)"
    by (auto simp: try_bind_eq_Inr)
  have "adds_revisions s s1" using push_item_frame [OF one] adds_append by (auto intro: adds_same)
  then show ?case by (rule adds_trans) (rule Cons.IH [OF more])
qed (simp add: adds_same)

lemma adds_restore_items:
  "restore_items e owner pid current ids i items s = Inr (s', objects, tombstones) \<Longrightarrow> adds_revisions s s'"
proof (induction items arbitrary: i s objects tombstones)
  case (Cons item items)
  then obtain s1 applied ob tb where one: "restore_item e owner pid current (ids i) item s = Inr (s1, applied)"
    and more: "restore_items e owner pid current ids (Suc i) items s1 = Inr (s', ob, tb)"
    by (auto simp: try_bind_eq_Inr)
  from one have "adds_revisions s s1"
    by (auto simp: restore_item_def Let_def try_bind_eq_Inr split: if_splits intro: adds_same dest: adds_append)
  then show ?case by (rule adds_trans) (rule Cons.IH [OF more])
qed (simp add: adds_same)

lemma revisions_inserts:
  "insert_job j s = Inr s' \<Longrightarrow> object_revisions s' = object_revisions s"
  "insert_idempotency r s = Inr s' \<Longrightarrow> object_revisions s' = object_revisions s"
  by (auto simp: insert_job_def insert_idempotency_def split: if_splits)

lemma adds_apply_push:
  "apply_push e uid did pid ids g key hash revs s = Inr (s', response) \<Longrightarrow> adds_revisions s s'"
  by (auto simp: apply_push_def try_bind_eq_Inr Let_def adds_revisions_def dest!: adds_push_items [unfolded adds_revisions_def]
      revisions_inserts)

lemma revisions_fail_push:
  "object_revisions before = object_revisions s \<Longrightarrow>
    object_revisions (fst (fail_push e uid did pid key hash er before s)) = object_revisions s"
  by (auto simp: fail_push_def store_push_failure_def as_conflict_def revisions_inserts try_bind_eq_Inr
      split: sum.splits option.splits if_splits)

lemma adds_push: "adds_revisions s (fst (push_with_outcome tm e uid did pid ids expected key hash revs s))"
  by (auto simp: push_with_outcome_def Let_def revisions_fail_push adds_same adds_revisions_def
      dest!: adds_apply_push [unfolded adds_revisions_def] split: option.split sum.split)

lemma adds_push_response: "adds_revisions s (fst (push tm e uid did pid ids expected key hash revs s))"
  using adds_push [of s tm e uid did pid ids expected key hash revs]
  by (simp add: push_def split: prod.split sum.split) (metis fst_conv)

lemma adds_execute: "adds_revisions s (fst (execute_restore_with_lease pu e ids j l s))"
  by (auto simp: execute_restore_with_lease_def Let_def update_restore_def restore_audit_def adds_same adds_revisions_def
      dest!: adds_restore_items [unfolded adds_revisions_def] split: option.split sum.split)

lemma adds_execute_restore: "adds_revisions s (fst (execute_restore pu e ids j s))"
  by (simp add: execute_restore_def adds_same adds_execute split: option.split)

lemma revisions_kept:
  "object_revisions (fst (rename_project e0 u0 p0 n0 s)) = object_revisions s"
  "object_revisions (fst (disable_project e1 u1 p1 s)) = object_revisions s"
  "object_revisions (fst (create_project e2 i2 u2 n2 s)) = object_revisions s"
  "object_revisions (fst (enqueue_project_purge e3 j3 u3 p3 r3 i3 s)) = object_revisions s"
  "object_revisions (fst (confirm_account_purge e4 j4 x4 a4 u4 r4 i4 s)) = object_revisions s"
  "object_revisions (fst (claim_restore_job e5 l5 s)) = object_revisions s"
  "object_revisions (fst (cancel_restore_with_lease e6 j6 l6 s)) = object_revisions s"
  "object_revisions (fst (reopen_failed_restore e7 a7 p7 r7 i7 s)) = object_revisions s"
  by (auto simp: rename_project_def disable_project_def update_project_def create_project_def enqueue_project_purge_def
      confirm_account_purge_def insert_audit_def insert_audit_nullable_def Let_def claim_restore_job_def update_restore_def
      cancel_restore_with_lease_def reopen_failed_restore_def split: option.split sum.split list.split dest!: revisions_inserts)

lemma operation_revisions:
  "operation s s' \<Longrightarrow> adds_revisions s s' \<or> (\<exists>doomed. erases doomed s s')"
proof (induction rule: operation.induct)
  case (op_prepare_project_purge s x0 x1 x2)
  show ?case using purge_effects(1) [of x0 x1 x2 s] by (auto intro: adds_same)
next
  case (op_prepare_account_purge s x0 x1 x2 x3)
  show ?case using purge_effects(2) [of x0 x1 x2 x3 s] by (auto intro: adds_same)
qed (rule disjI1, (rule adds_push adds_push_response adds_execute adds_execute_restore
      | (rule adds_same, rule revisions_kept) | (rule adds_core, rule core_views) | (rule adds_store, rule store_views)))+

lemma operation_keeps_revision:
  "operation s s' \<Longrightarrow> r \<in> set (object_revisions s) \<Longrightarrow>
    r \<in> set (object_revisions s') \<or> \<not> owned s' (rv_project r) (rv_owner r)"
  using operation_revisions [of s s'] by (auto simp: adds_revisions_def dest: erases_rows(2))

interpretation store: operation_invariant store_inv
  by unfold_locales (rule operation_keeps_store)

interpretation queue: operation_invariant "\<lambda>s. queue_ok (restore_jobs s)"
  by unfold_locales (rule queue_step_ok [OF _ operation_queue])

end
