(* ===== verification/Nonces.thy ===== *)
theory Nonces
  imports Server_Store Sessions_Props
begin

text \<open>
  The life of a re-authentication nonce among all operations of the persistence layer: only
  \<open>create_reauth_nonce\<close> adds a row, and a nonce that has been consumed is spent for every process
  and for ever, unless one with the same hash is created again.
\<close>

subsection \<open>Operations that add no nonce\<close>

lemma nonces_inserts:
  "insert_restore r s = Inr s' \<Longrightarrow> reauth_nonces s' = reauth_nonces s"
  "insert_job j s = Inr s' \<Longrightarrow> reauth_nonces s' = reauth_nonces s"
  "insert_idempotency r2 s = Inr s' \<Longrightarrow> reauth_nonces s' = reauth_nonces s"
  "insert_snapshot x s = Inr s' \<Longrightarrow> reauth_nonces s' = reauth_nonces s"
  by (auto simp: insert_restore_def insert_job_def insert_idempotency_def insert_snapshot_def split: if_splits)

lemma nonces_updates [simp]:
  "reauth_nonces (update_restore P f s) = reauth_nonces s"
  "reauth_nonces (update_job P2 f2 s) = reauth_nonces s"
  "reauth_nonces (restore_audit e job a b c s) = reauth_nonces s"
  "reauth_nonces (insert_audit e a2 b2 c2 m2 r2 s) = reauth_nonces s"
  "reauth_nonces (insert_audit_nullable e a3 b2 c2 m2 r2 s) = reauth_nonces s"
  "reauth_nonces (delete_owned_rows doomed s) = reauth_nonces s"
  by (simp_all add: update_restore_def update_job_def restore_audit_def insert_audit_def insert_audit_nullable_def
      delete_owned_rows_def)

lemma nonces_append: "append_revision e visible r s = Inr (s', n) \<Longrightarrow> reauth_nonces s' = reauth_nonces s"
  by (auto simp: append_revision_def try_bind_eq_Inr bump_change_seq_def insert_revision_def upsert_head_def insert_change_def
      split: option.splits if_splits)

lemma nonces_push_items:
  "push_items e uid did pid ids i revs s = Inr (s', results) \<Longrightarrow> reauth_nonces s' = reauth_nonces s"
proof (induction revs arbitrary: i s results)
  case (Cons r rs)
  then obtain s1 res rest where one: "push_item e uid did pid (ids i) r s = Inr (s1, res)"
    and more: "push_items e uid did pid ids (Suc i) rs s1 = Inr (s', rest)"
    by (auto simp: try_bind_eq_Inr)
  have "reauth_nonces s1 = reauth_nonces s" using push_item_frame [OF one] nonces_append by blast
  with Cons.IH [OF more] show ?case by simp
qed simp

lemma nonces_apply_push:
  "apply_push e uid did pid ids g key hash revs s = Inr (s', response) \<Longrightarrow> reauth_nonces s' = reauth_nonces s"
  by (auto simp: apply_push_def try_bind_eq_Inr Let_def dest!: nonces_push_items nonces_inserts)

lemma nonces_fail_push:
  "reauth_nonces before = reauth_nonces s \<Longrightarrow>
    reauth_nonces (fst (fail_push e uid did pid key hash er before s)) = reauth_nonces s"
  by (auto simp: fail_push_def store_push_failure_def view_unfolds nonces_inserts split: view_splits)

lemma nonces_push:
  "reauth_nonces (fst (push_with_outcome tm e uid did pid ids expected key hash revs s)) = reauth_nonces s"
  "reauth_nonces (fst (push tm e uid did pid ids expected key hash revs s)) = reauth_nonces s"
proof -
  show kept: "reauth_nonces (fst (push_with_outcome tm e uid did pid ids expected key hash revs s)) = reauth_nonces s"
    by (auto simp: push_with_outcome_def Let_def nonces_fail_push dest!: nonces_apply_push split: option.split sum.split)
  show "reauth_nonces (fst (push tm e uid did pid ids expected key hash revs s)) = reauth_nonces s"
    using kept by (simp add: push_def split: prod.split sum.split) (metis fst_conv)
qed

lemma nonces_restore_items:
  "restore_items e owner pid current ids j items s = Inr (s', ob, tb) \<Longrightarrow> reauth_nonces s' = reauth_nonces s"
proof (induction items arbitrary: j s ob tb)
  case (Cons item items)
  then obtain s1 applied ob1 tb1 where one: "restore_item e owner pid current (ids j) item s = Inr (s1, applied)"
    and more: "restore_items e owner pid current ids (Suc j) items s1 = Inr (s', ob1, tb1)"
    by (auto simp: try_bind_eq_Inr)
  have "reauth_nonces s1 = reauth_nonces s"
    using one by (auto simp: restore_item_def view_unfolds dest!: nonces_append split: view_splits)
  with Cons.IH [OF more] show ?case by simp
qed simp

lemma nonces_executed:
  "reauth_nonces (fst (execute_restore_with_lease pu e ids j l s)) = reauth_nonces s"
  "reauth_nonces (fst (execute_restore pu e ids j s)) = reauth_nonces s"
proof -
  show kept: "reauth_nonces (fst (execute_restore_with_lease pu e ids j l s)) = reauth_nonces s" for l
    by (auto simp: execute_restore_with_lease_def Let_def split: option.split sum.split dest!: nonces_restore_items)
  show "reauth_nonces (fst (execute_restore pu e ids j s)) = reauth_nonces s"
    by (simp add: execute_restore_def kept split: option.split)
qed

lemma nonces_projects:
  "reauth_nonces (fst (create_project e i u n s)) = reauth_nonces s"
  "reauth_nonces (fst (rename_project e u p n s)) = reauth_nonces s"
  "reauth_nonces (fst (disable_project e u p s)) = reauth_nonces s"
  "reauth_nonces (fst (enqueue_project_purge e j u p r i s)) = reauth_nonces s"
  "reauth_nonces (fst (confirm_account_purge e j2 x a u2 r i s)) = reauth_nonces s"
  by (auto simp: create_project_def rename_project_def disable_project_def update_project_def enqueue_project_purge_def
      confirm_account_purge_def view_unfolds split: view_splits dest!: nonces_inserts)

lemma nonces_restores:
  "reauth_nonces (fst (enqueue_restore e j u pid sn ts reason rid s)) = reauth_nonces s"
  "reauth_nonces (fst (admin_enqueue_restore e j a pid sn ts reason rid s)) = reauth_nonces s"
  "reauth_nonces (fst (cancel_restore e u pid j reason rid s)) = reauth_nonces s"
  "reauth_nonces (fst (claim_restore_job e lease s)) = reauth_nonces s"
  "reauth_nonces (fst (create_pre_restore_snapshot tv sha e sn2 job s)) = reauth_nonces s"
  "reauth_nonces (fst (renew_restore_lease e j lease s)) = reauth_nonces s"
  "reauth_nonces (fst (cancel_restore_with_lease e j lease s)) = reauth_nonces s"
  "reauth_nonces (fst (fail_restore_job e j code s)) = reauth_nonces s"
  "reauth_nonces (fst (fail_restore_job_with_lease e j lease code s)) = reauth_nonces s"
  "reauth_nonces (fst (retry_restore_job_with_lease e j lease code s)) = reauth_nonces s"
  "reauth_nonces (fst (reopen_failed_restore e a pid reason rid s)) = reauth_nonces s"
  by (auto simp: enqueue_restore_def admin_enqueue_restore_def cancel_restore_def claim_restore_job_def
      create_pre_restore_snapshot_def renew_restore_lease_def cancel_restore_with_lease_def fail_restore_job_def
      fail_restore_job_with_lease_def retry_restore_job_with_lease_def reopen_failed_restore_def view_unfolds
      split: view_splits dest!: nonces_inserts)

lemma nonces_purges:
  "set (reauth_nonces (fst (prepare_project_purge e j l s))) \<subseteq> set (reauth_nonces s)"
  "set (reauth_nonces (fst (prepare_account_purge pu e j l s))) \<subseteq> set (reauth_nonces s)"
  by (auto simp: prepare_project_purge_def prepare_account_purge_def delete_account_rows_def Let_def split: option.split)

lemmas nonces_kept = nonces_push nonces_executed nonces_projects nonces_restores

lemma nonces_core: "core_view s' = core_view s \<Longrightarrow> reauth_nonces s' = reauth_nonces s"
  by (simp add: core_view_def)

subsection \<open>Operations on nonces\<close>

definition nonce_created :: "bytes \<Rightarrow> db \<Rightarrow> db \<Rightarrow> bool" where
  "nonce_created hash s s' \<longleftrightarrow> (\<exists>e actor did expires. create_reauth_nonce e actor did hash expires s = (s', Inr ()))"

definition nonce_step :: "db \<Rightarrow> db \<Rightarrow> bool" where
  "nonce_step s s' \<longleftrightarrow> set (reauth_nonces s') \<subseteq> set (reauth_nonces s)
    \<or> (\<exists>hash. nonce_created hash s s' \<and> set (reauth_nonces s') \<subseteq> set (reauth_nonces s) \<union> {n. an_hash n = hash})"

lemma nonce_step_same: "reauth_nonces s' = reauth_nonces s \<Longrightarrow> nonce_step s s'"
  by (simp add: nonce_step_def)

lemma nonce_step_create: "nonce_step s (fst (create_reauth_nonce e actor did hash expires s))"
proof (cases "snd (create_reauth_nonce e actor did hash expires s)")
  case (Inr u)
  then have "create_reauth_nonce e actor did hash expires s = (fst (create_reauth_nonce e actor did hash expires s), Inr ())"
    by (simp add: prod_eq_iff)
  then have "nonce_created hash s (fst (create_reauth_nonce e actor did hash expires s))" unfolding nonce_created_def by blast
  moreover have "set (reauth_nonces (fst (create_reauth_nonce e actor did hash expires s)))
      \<subseteq> set (reauth_nonces s) \<union> {n. an_hash n = hash}"
    by (auto simp: create_reauth_nonce_def Let_def split: sum.split)
  ultimately show ?thesis unfolding nonce_step_def by blast
qed (auto simp: create_reauth_nonce_def Let_def nonce_step_same split: sum.splits if_splits)

lemma nonce_steps:
  "nonce_step s (fst (consume_reauth_nonce e1 a1 d1 h1 s))" "nonce_step s (fst (revoke_reauth_nonces a2 d2 s))"
  "nonce_step s (fst (prepare_project_purge e3 j3 l3 s))" "nonce_step s (fst (prepare_account_purge pu e4 j4 l4 s))"
  using nonces_purges(1) [of e3 j3 l3 s] nonces_purges(2) [of pu e4 j4 l4 s]
  by (auto simp: nonce_step_def consume_reauth_nonce_def revoke_reauth_nonces_def split: sum.split)

lemma operation_nonces: "operation s s' \<Longrightarrow> nonce_step s s'"
  by (induction rule: operation.induct)
    (rule nonce_step_create nonce_steps | (rule nonce_step_same, rule nonces_kept)
      | (rule nonce_step_same, rule nonces_core, rule core_views))+

subsection \<open>A consumed nonce\<close>

text \<open>What holds along a run from its consumption on: the hash is in no row, or it has been created again.\<close>

lemma consumed_nonce_stays:
  assumes "successively operation (s # ss)" and "\<forall>n \<in> set (reauth_nonces s). an_hash n \<noteq> hash"
  shows "(\<forall>n \<in> set (reauth_nonces (last (s # ss))). an_hash n \<noteq> hash)
    \<or> (\<exists>us u u' vs. s # ss = us @ u # u' # vs \<and> nonce_created hash u u')"
  using assms
proof (induction ss arbitrary: s)
  case (Cons t ss)
  then have step: "operation s t" and run: "successively operation (t # ss)" by simp_all
  show ?case
  proof (cases "nonce_created hash s t")
    case True
    then have "s # t # ss = [] @ s # t # ss \<and> nonce_created hash s t" by simp
    then show ?thesis by blast
  next
    case False
    with operation_nonces [OF step] Cons.prems(2) have "\<forall>n \<in> set (reauth_nonces t). an_hash n \<noteq> hash"
      unfolding nonce_step_def by (elim disjE exE conjE) (blast, metis (mono_tags, lifting) Un_iff mem_Collect_eq subset_eq)
    from Cons.IH [OF run this] show ?thesis
    proof
      assume "\<exists>us u u' vs. t # ss = us @ u # u' # vs \<and> nonce_created hash u u'"
      then obtain us u u' vs where "t # ss = us @ u # u' # vs" "nonce_created hash u u'" by blast
      then have "s # t # ss = (s # us) @ u # u' # vs \<and> nonce_created hash u u'" by simp
      then show ?thesis by blast
    qed simp
  qed
qed simp

text \<open>C20. A re-authentication nonce is spent by its use, whatever the processes of the server do afterwards. Take any
  run of operations of the persistence layer after its consumption. A consumption of a nonce with the same hash at
  the end of the run, by any administrator, from any device and at any time, can only succeed if one of the
  operations of the run has created a nonce with this hash again.\<close>

theorem nonce_consumed_once:
  assumes "distinct (map an_hash (reauth_nonces s))"
    and "consume_reauth_nonce e actor did hash s = (s', Inr True)"
    and "successively operation (s' # ss)"
    and "consume_reauth_nonce e2 actor2 did2 hash (last (s' # ss)) = (t', Inr True)"
  shows "\<exists>us u u' vs e3 actor3 did3 expires. s' # ss = us @ u # u' # vs
    \<and> create_reauth_nonce e3 actor3 did3 hash expires u = (u', Inr ())"
proof -
  have "rows_affected (nonce_matches e2 actor2 did2 hash) (reauth_nonces (last (s' # ss))) = 1"
    using assms(4) by (auto simp: consume_reauth_nonce_def split: sum.splits)
  then obtain n where "n \<in> set (reauth_nonces (last (s' # ss)))" "nonce_matches e2 actor2 did2 hash n"
    by (metis rows_affected_0 zero_neq_one)
  then have "\<exists>n \<in> set (reauth_nonces (last (s' # ss))). an_hash n = hash" unfolding nonce_matches_def by blast
  with consumed_nonce_stays [OF assms(3) consumed_nonce_gone [OF assms(1,2)]]
  show ?thesis unfolding nonce_created_def by blast
qed

text \<open>The nonce is created again between two uses.\<close>

definition sample_recreated :: "db \<Rightarrow> db" where
  "sample_recreated s = fst (create_reauth_nonce sample_env ''a'' ''b'' [9] (hours 2) s)"

theorem nonce_consumed_once_witness:
  "\<exists>s' us u u' vs e3 actor3 did3 expires. consume_reauth_nonce sample_env ''a'' ''b'' [9] sample_nonce_db = (s', Inr True)
    \<and> [s', sample_recreated s'] = us @ u # u' # vs
    \<and> create_reauth_nonce e3 actor3 did3 [9] expires u = (u', Inr ())"
proof -
  define s' where "s' = fst (consume_reauth_nonce sample_env ''a'' ''b'' [9] sample_nonce_db)"
  have d: "distinct (map an_hash (reauth_nonces sample_nonce_db))" by (simp add: sample_nonce_db_def)
  have "snd (consume_reauth_nonce sample_env ''a'' ''b'' [9] sample_nonce_db) = Inr True" by code_simp
  then have run: "consume_reauth_nonce sample_env ''a'' ''b'' [9] sample_nonce_db = (s', Inr True)"
    by (simp add: s'_def prod_eq_iff)
  have "operation s' (sample_recreated s')" unfolding sample_recreated_def by (rule operation.op_create_reauth_nonce)
  then have steps: "successively operation (s' # [sample_recreated s'])" by simp
  have "snd (consume_reauth_nonce sample_env ''a'' ''b'' [9] (last (s' # [sample_recreated s']))) = Inr True"
    unfolding s'_def by code_simp
  then obtain t' where again: "consume_reauth_nonce sample_env ''a'' ''b'' [9] (last (s' # [sample_recreated s'])) = (t', Inr True)"
    by (metis prod.collapse)
  from nonce_consumed_once [OF d run steps again] run show ?thesis by blast
qed

end
