(* ===== verification/Server.thy ===== *)
theory Server
  imports Server_Store Isolation Startup
begin

text \<open>
  The server as a whole: the requests that the API serves and the timers of the worker, with any
  number of processes at once. Whatever a request or a timer does to the database is a sequence of
  operations of the persistence layer, so an invariant of the operations is one of the server.
\<close>

subsection \<open>Handlers\<close>

text \<open>What other processes do between two transactions: operations, in any number and any order.\<close>

definition by_others :: "(nat \<Rightarrow> db \<times> 'w \<Rightarrow> db \<times> 'w) \<Rightarrow> bool" where
  "by_others others \<longleftrightarrow> (\<forall>n d st. operations d (fst (others n (d, st))))"

definition operates :: "('w, 'a) handler \<Rightarrow> bool" where
  "operates h \<longleftrightarrow> (\<forall>w. operations (aw_db w) (aw_db (fst (h w))))"

named_theorems operates_intros

lemma operates_same: "(\<And>w. aw_db (fst (h w)) = aw_db w) \<Longrightarrow> operates h"
  by (simp add: operates_def)

lemma operates_steps [operates_intros]:
  "operates (h_check c)" "operates (h_return x)" "operates (h_fail er)" "operates (h_metrics g)"
  "operates (h_new_uuid rt)" "operates (h_auth er2 t)" "operates (sign_cursor rt secret cl)"
  "operates (allow_auth_request rt oper k i)"
  by (rule operates_same, simp add: h_check_def h_return_def h_fail_def h_metrics_def h_new_uuid_def h_auth_def
      sign_cursor_def allow_auth_request_def split_beta)+

lemma operates_bind [operates_intros]:
  assumes "operates m" and "\<And>x. operates (f x)" shows "operates (h_bind m f)"
  unfolding operates_def
proof
  fix w :: "'a api_world"
  obtain w1 r where m: "m w = (w1, r)" by (metis surj_pair)
  from assms(1) [unfolded operates_def, rule_format, of w] have one: "operations (aw_db w) (aw_db w1)" by (simp add: m)
  have "operations (aw_db w1) (aw_db (fst (f x w1)))" for x
    using assms(2) [of x] by (simp add: operates_def)
  with one show "operations (aw_db w) (aw_db (fst (h_bind m f w)))"
    by (cases r) (auto simp: h_bind_def m intro: rtranclp_trans)
qed

lemma operates_cases [operates_intros]:
  "operates a \<Longrightarrow> (\<And>x. operates (b x)) \<Longrightarrow> operates (case z of None \<Rightarrow> a | Some x \<Rightarrow> b x)"
  "(\<And>x. operates (c x)) \<Longrightarrow> (\<And>x. operates (d x)) \<Longrightarrow> operates (case y of Inl x \<Rightarrow> c x | Inr x \<Rightarrow> d x)"
  "(\<And>x1 x2. operates (f x1 x2)) \<Longrightarrow> operates (case p of (x1, x2) \<Rightarrow> f x1 x2)"
  "operates a \<Longrightarrow> operates a' \<Longrightarrow> operates (if q then a else a')"
  by (auto split: option.split sum.split prod.split)

lemma api_tick_operations: "by_others (ar_others rt) \<Longrightarrow> operations (aw_db w) (aw_db (api_tick rt w))"
  by (simp add: by_others_def api_tick_def split_beta)

lemma operates_txn [operates_intros]:
  assumes "by_others (ar_others rt)" and "\<And>e ids. by_operations (t e ids)"
  shows "operates (h_txn rt t)"
  unfolding operates_def
proof
  fix w :: "'a api_world"
  have "operations (aw_db (api_tick rt w)) (aw_db (fst (h_txn rt t w)))"
    using assms(2) [of "ar_clock rt (aw_steps w)" "ar_uuid rt (aw_steps w)"]
    by (simp add: h_txn_def Let_def split_beta by_operations_def)
  with api_tick_operations [OF assms(1), of w] show "operations (aw_db w) (aw_db (fst (h_txn rt t w)))"
    by (rule rtranclp_trans)
qed

lemma operates_db [operates_intros]:
  assumes "by_others (ar_others rt)" and "\<And>e ids. by_operations (t e ids)"
  shows "operates (h_db rt er t)" and "operates (h_attempt rt t)"
  unfolding h_db_def h_attempt_def by (intro operates_intros assms)+

lemma operates_query [operates_intros]:
  assumes "by_others (ar_others rt)" shows "operates (h_query rt er q)"
  unfolding h_query_def by (intro operates_intros assms by_operations_read) simp

lemma operates_store [operates_intros]:
  assumes "by_others (ar_others rt)" shows "operates (h_store rt i t)"
  using api_tick_operations [OF assms] by (simp add: operates_def h_store_def split_beta Let_def)

lemma operates_reservation [operates_intros]:
  assumes "operates m" shows "operates (h_with_reservation rt n i m)"
  unfolding operates_def
proof
  fix w :: "'a api_world"
  have "operations (aw_db w) (aw_db (fst (m (w\<lparr>aw_upload_used := used\<rparr>))))" for used
    using assms [unfolded operates_def, rule_format, of "w\<lparr>aw_upload_used := used\<rparr>"] by simp
  then show "operations (aw_db w) (aw_db (fst (h_with_reservation rt n i m w)))"
    by (simp add: h_with_reservation_def Let_def split_beta split: option.split)
qed

text \<open>The queries of an administrator.\<close>

lemma reads_operate:
  "by_operations (admin_list_invitations_page e0 u0 l0 o0)" "by_operations (admin_list_users_page u1 l1 o1)"
  "by_operations (admin_list_all_projects_page u2 l2 o2 a2)" "by_operations (admin_list_projects_page u3 x3 l3 o3)"
  "by_operations (admin_list_all_devices_page u4 l4 o4)" "by_operations (admin_list_devices_page u5 x5 l5 o5)"
  "by_operations (admin_overview u6)" "by_operations (admin_history_metadata u7 p7 n7 l7)"
  "by_operations (admin_list_operations_page u8 l8 o8)" "by_operations (admin_list_audit_events_page_filtered u9 l9 o9 a9)"
  "by_operations (admin_sync_trends e10 u10 d10)"
  by (rule by_operations_read, simp add: admin_list_invitations_page_def admin_list_users_page_def admin_list_all_projects_page_def
      admin_list_projects_page_def admin_list_all_devices_page_def admin_list_devices_page_def admin_overview_def
      admin_history_metadata_def admin_list_operations_page_def admin_list_audit_events_page_filtered_def
      admin_sync_trends_def admin_list_def split: sum.split)+

lemma guards_operate [operates_intros]:
  assumes "by_others (ar_others rt)"
  shows "operates (authenticate_access rt z1 z2)"
    "operates (authenticate_role z3 rt z4 z5)"
    "operates (authenticate rt z6 z7)"
    "operates (authenticate_admin rt z8 z9)"
    "operates (enforce_shared_rate_limit_windowed rt z10 z11 z12 z13)"
    "operates (enforce_shared_rate_limit rt z14 z15)"
  unfolding authenticate_access_def authenticate_role_def authenticate_def authenticate_admin_def
    enforce_shared_rate_limit_windowed_def enforce_shared_rate_limit_def
    Let_def
  by (insert assms, (rule operates_intros operation_intros reads_operate | assumption)+)

lemma sync_handlers_operate [operates_intros]:
  assumes "by_others (ar_others rt)"
  shows "operates (head_payload_handler rt z1 z2 z3)"
    "operates (store_upload rt z4 z5 z6 z7 z8 z9 z10)"
    "operates (put_payload_handler rt z11 z12 z13 z14 z15)"
    "operates (get_payload_handler rt z16 z17 z18)"
    "operates (stored_manifest_page rt z19 z20 z21 z22 z23 z24)"
    "operates (first_manifest_page rt z25 z26 z27 z28)"
    "operates (bootstrap_handler rt z29 z30 z31)"
    "operates (pull_handler rt z32 z33 z34)"
    "operates (record_push_attempt rt z35 z36 z37 z38 z39 z40)"
    "operates (answer_push rt z41 z42 z43 z44 z45)"
    "operates (push_handler z46 rt z47 z48 z49 z50)"
    "operates (history_response rt z51 z52 z53 z54 z55)"
    "operates (history_handler rt z56 z57 z58)"
    "operates (object_history_handler rt z59 z60 z61 z62 z63)"
    "operates (create_snapshot_handler rt z64 z65)"
    "operates (list_snapshots_handler rt z66 z67)"
    "operates (create_restore_handler rt z68 z69 z70)"
    "operates (get_restore_handler rt z71 z72 z73)"
    "operates (cancel_restore_handler rt z74 z75 z76 z77)"
  unfolding head_payload_handler_def store_upload_def put_payload_handler_def get_payload_handler_def
    stored_manifest_page_def first_manifest_page_def bootstrap_handler_def pull_handler_def record_push_attempt_def
    answer_push_def push_handler_def history_response_def history_handler_def object_history_handler_def
    create_snapshot_handler_def list_snapshots_handler_def create_restore_handler_def get_restore_handler_def
    cancel_restore_handler_def
    Let_def
  by (insert assms, (rule operates_intros operation_intros reads_operate | assumption)+)

lemma session_handlers_operate [operates_intros]:
  assumes "by_others (ar_others rt)"
  shows "operates (h_refresh_token rt z1 z2)"
    "operates (limited rt z3 z4 z5 z6 z7 z8)"
    "operates (enforce_login_ip_budget rt z9 z10 z11 z12 z13)"
    "operates (log_login_failure rt z14 z15 z16 z17 z18 z19 z20 z21 z22)"
    "operates (log_refresh_failure rt z23 z24 z25 z26 z27)"
    "operates (h_access_token rt z28 z29 z30)"
    "operates (user_token_response rt z31 z32 z33 z34)"
    "operates (cookie_token_response z35 rt z36 z37 z38 z39)"
    "operates (admin_token_response rt z40 z41 z42 z43)"
    "operates (web_token_response rt z44 z45 z46 z47)"
    "operates (login_session rt z48 z49 z50 z51 z52 z53 z54 z55 z56 z57)"
    "operates (login_handler rt z58 z59 z60)"
    "operates (admin_login_handler rt z61 z62 z63)"
    "operates (web_login_handler rt z64 z65 z66)"
    "operates (refresh_session rt z67 z68 z69 z70 z71 z72 z73 z74)"
    "operates (refresh_handler rt z75 z76 z77)"
    "operates (admin_refresh_handler rt z78 z79)"
    "operates (web_refresh_handler rt z80 z81)"
    "operates (logout_handler rt z82)"
    "operates (admin_logout_handler rt z83)"
    "operates (web_logout_handler rt z84 z85)"
    "operates (admin_reauth_handler rt z86 z87 z88)"
    "operates (activation_session rt z89 z90 z91 z92 z93 z94 z95)"
    "operates (activate_invitation_handler rt z96 z97 z98)"
    "operates (web_activate_invitation_handler rt z99 z100 z101)"
    "operates (register_handler rt z102 z103 z104 z105)"
    "operates (registration_status_handler rt z106)"
    "operates (current_user_handler rt z107)"
    "operates (change_password_handler rt z108 z109 z110 z111)"
  unfolding h_refresh_token_def limited_def enforce_login_ip_budget_def log_login_failure_def log_refresh_failure_def
    h_access_token_def user_token_response_def cookie_token_response_def admin_token_response_def
    web_token_response_def login_session_def login_handler_def admin_login_handler_def web_login_handler_def
    refresh_session_def refresh_handler_def admin_refresh_handler_def web_refresh_handler_def logout_handler_def
    admin_logout_handler_def web_logout_handler_def admin_reauth_handler_def activation_session_def
    activate_invitation_handler_def web_activate_invitation_handler_def register_handler_def
    registration_status_handler_def current_user_handler_def change_password_handler_def
    Let_def
  by (insert assms, (rule operates_intros operation_intros reads_operate | assumption)+)

lemma account_handlers_operate [operates_intros]:
  assumes "by_others (ar_others rt)"
  shows "operates (list_projects_handler rt z1)"
    "operates (create_project_handler rt z2 z3)"
    "operates (get_project_handler rt z4 z5)"
    "operates (rename_project_handler rt z6 z7 z8)"
    "operates (disable_project_handler rt z9 z10)"
    "operates (purge_project_handler rt z11 z12 z13 z14 z15)"
    "operates (list_devices_handler rt z16)"
    "operates (register_device_handler rt z17 z18)"
    "operates (update_device_handler rt z19 z20 z21)"
    "operates (revoke_device_handler rt z22 z23)"
  unfolding list_projects_handler_def create_project_handler_def get_project_handler_def rename_project_handler_def
    disable_project_handler_def purge_project_handler_def list_devices_handler_def register_device_handler_def
    update_device_handler_def revoke_device_handler_def
    Let_def
  by (insert assms, (rule operates_intros operation_intros reads_operate | assumption)+)

lemma admin_handlers_operate [operates_intros]:
  assumes "by_others (ar_others rt)"
  shows "operates (admin_list_invitations_handler rt z1 z2 z3)"
    "operates (admin_list_users_handler rt z4 z5 z6)"
    "operates (admin_list_all_projects_handler rt z7 z8 z9 z10)"
    "operates (admin_list_all_devices_handler rt z11 z12 z13)"
    "operates (admin_list_projects_handler rt z14 z15 z16 z17)"
    "operates (admin_list_devices_handler rt z18 z19 z20 z21)"
    "operates (admin_operations_handler rt z22 z23 z24)"
    "operates (admin_audit_events_handler rt z25 z26 z27 z28)"
    "operates (admin_overview_handler rt z29)"
    "operates (admin_history_handler rt z30 z31 z32 z33)"
    "operates (admin_audit_events_csv_handler z34 z35 rt z36 z37)"
    "operates (create_invitation_handler rt z38 z39 z40)"
    "operates (admin_revoke_invitation_handler rt z41 z42 z43)"
    "operates (admin_resend_invitation_handler rt z44 z45 z46)"
    "operates (admin_create_user_handler rt z47 z48 z49 z50)"
    "operates (get_registration_settings_handler rt z51)"
    "operates (update_registration_settings_handler rt z52 z53)"
    "operates (set_account_status_handler z54 rt z55 z56 z57)"
    "operates (disable_account_handler rt z58 z59 z60)"
    "operates (enable_account_handler rt z61 z62 z63)"
    "operates (admin_create_restore_handler rt z64 z65 z66)"
    "operates (reopen_restore_project_handler rt z67 z68 z69)"
    "operates (purge_account_handler rt z70 z71 z72 z73)"
    "operates (admin_trends_handler rt z74 z75)"
  unfolding admin_list_invitations_handler_def admin_list_users_handler_def admin_list_all_projects_handler_def
    admin_list_all_devices_handler_def admin_list_projects_handler_def admin_list_devices_handler_def
    admin_operations_handler_def admin_audit_events_handler_def admin_overview_handler_def admin_history_handler_def
    admin_audit_events_csv_handler_def create_invitation_handler_def admin_revoke_invitation_handler_def
    admin_resend_invitation_handler_def admin_create_user_handler_def get_registration_settings_handler_def
    update_registration_settings_handler_def set_account_status_handler_def disable_account_handler_def
    enable_account_handler_def admin_create_restore_handler_def reopen_restore_project_handler_def
    purge_account_handler_def admin_trends_handler_def
    Let_def admin_listing_def
  by (insert assms, (rule operates_intros operation_intros reads_operate | assumption)+)

subsection \<open>Requests\<close>

lemma operates_router [operates_intros]:
  assumes "by_others (ar_others (px_rt px))"
  shows "operates (check_readiness px)" "operates metrics_handler"
proof -
  show "operates (check_readiness px)"
    unfolding check_readiness_def by (insert assms, (rule operates_intros | assumption)+)
  show "operates metrics_handler" by (rule operates_same) (simp add: metrics_handler_def)
qed

lemma operates_extractors [operates_intros]:
  assumes "\<And>x. operates (k x)"
  shows "operates (with_value r z k)" and "operates (api_json f r k)" and "operates (api_limited_json f r k)"
    and "operates (api_query g r k)"
  using assms unfolding api_json_def api_limited_json_def with_value_def api_query_def
  by (intro operates_intros; simp)+

lemma operates_responses [operates_intros]:
  "operates m \<Longrightarrow> operates (h_map f m)" "operates m \<Longrightarrow> operates (respond_json n g m)"
  unfolding respond_json_def h_map_def by (intro operates_intros; assumption)+

lemma endpoint_operates:
  assumes "by_others (ar_others (px_rt px))"
  shows "operates (serve_endpoint px e args r)"
proof (cases e)
  case (Public pe)
  show ?thesis unfolding serve_endpoint_def Public
    by (cases pe; simp; (insert assms, (rule operates_intros | assumption)+))
next
  case (Account ae)
  show ?thesis unfolding serve_endpoint_def Account
    by (cases ae; simp; (insert assms, (rule operates_intros | assumption)+))
next
  case (Administration de)
  show ?thesis unfolding serve_endpoint_def Administration
    by (cases de; simp; (insert assms, (rule operates_intros | assumption)+))
qed

lemma serve_operations:
  assumes "by_others (ar_others (px_rt px))"
  shows "operations (aw_db w) (aw_db (fst (serve px r w)))"
  using endpoint_operates [OF assms]
  by (auto simp: serve_def Let_def split_beta operates_def split: routed.split)

subsection \<open>The worker\<close>

definition w_operates :: "('w, 'a) action \<Rightarrow> bool" where
  "w_operates m \<longleftrightarrow> (\<forall>w. operations (w_db w) (w_db (fst (m w))))"

lemma w_operatesD: "w_operates m \<Longrightarrow> m w = (w', r) \<Longrightarrow> operations (w_db w) (w_db w')"
  by (auto simp: w_operates_def dest: spec [of _ w])

lemma w_operates_steps [operates_intros]: "w_operates (w_return x)" "w_operates (w_fail er)"
  by (simp_all add: w_operates_def w_return_def w_fail_def)

lemma w_operates_bind [operates_intros]:
  assumes "w_operates m" and "\<And>x. w_operates (f x)" shows "w_operates (w_bind m f)"
  unfolding w_operates_def
proof
  fix w :: "'a world"
  obtain w1 r where m: "m w = (w1, r)" by (metis surj_pair)
  from w_operatesD [OF assms(1) m] show "operations (w_db w) (w_db (fst (w_bind m f w)))"
    using assms(2) by (cases r) (auto simp: w_bind_def m w_operates_def intro: rtranclp_trans)
qed

lemma w_operates_match [operates_intros]:
  assumes "w_operates m" and "\<And>er. w_operates (h er)" and "\<And>x. w_operates (f x)" shows "w_operates (w_match m h f)"
  unfolding w_operates_def
proof
  fix w :: "'a world"
  obtain w1 r where m: "m w = (w1, r)" by (metis surj_pair)
  from w_operatesD [OF assms(1) m] show "operations (w_db w) (w_db (fst (w_match m h f w)))"
    using assms(2,3) by (cases r) (auto simp: w_match_def m w_operates_def intro: rtranclp_trans)
qed

lemma w_operates_cases [operates_intros]:
  "w_operates a \<Longrightarrow> (\<And>x. w_operates (b x)) \<Longrightarrow> w_operates (case z of None \<Rightarrow> a | Some x \<Rightarrow> b x)"
  "(\<And>x. w_operates (c x)) \<Longrightarrow> (\<And>x. w_operates (d x)) \<Longrightarrow> w_operates (case y of Inl x \<Rightarrow> c x | Inr x \<Rightarrow> d x)"
  "(\<And>x1 x2. w_operates (f x1 x2)) \<Longrightarrow> w_operates (case p of (x1, x2) \<Rightarrow> f x1 x2)"
  "w_operates a \<Longrightarrow> w_operates a' \<Longrightarrow> w_operates (if q then a else a')"
  by (auto split: option.split sum.split prod.split)

lemma tick_operations: "by_others (rt_others rt) \<Longrightarrow> operations (w_db w) (w_db (tick_world rt w))"
  by (simp add: by_others_def tick_world_def split_beta)

lemma w_operates_db [operates_intros]:
  assumes "by_others (rt_others rt)" and "\<And>e ids. by_operations (t e ids)"
  shows "w_operates (db_call rt t)"
  unfolding w_operates_def
proof
  fix w :: "'a world"
  have "operations (w_db (tick_world rt w)) (w_db (fst (db_call rt t w)))"
    using assms(2) [of "rt_clock rt (w_steps w)" "rt_uuid rt (w_steps w)"]
    by (simp add: db_call_def Let_def split_beta by_operations_def)
  with tick_operations [OF assms(1), of w] show "operations (w_db w) (w_db (fst (db_call rt t w)))"
    by (rule rtranclp_trans)
qed

lemma w_operates_calls [operates_intros]:
  assumes "by_others (rt_others rt)"
  shows "w_operates (db_read rt q)" and "w_operates (store_call rt t')"
proof -
  show "w_operates (db_read rt q)"
    unfolding db_read_def by (intro w_operates_db assms by_operations_read) simp
  show "w_operates (store_call rt t')"
    using tick_operations [OF assms] by (simp add: w_operates_def store_call_def split_beta Let_def)
qed

lemma w_operates_each [operates_intros]: "(\<And>x. w_operates (f x)) \<Longrightarrow> w_operates (w_each xs f)"
  by (induction xs) (auto intro: operates_intros)

lemma w_operates_download [operates_intros]:
  assumes "by_others (rt_others rt)" shows "w_operates (download_payloads rt job lease max_bytes ps n)"
proof (induction ps arbitrary: n)
  case (Cons p ps)
  show ?case unfolding download_payloads.simps download_payload_def
    by (insert assms, (rule Cons.IH operates_intros operation_intros | assumption)+)
qed (simp add: operates_intros)

lemma worker_operates [operates_intros]:
  assumes "by_others (rt_others rt)"
  shows "w_operates (run_restore_job rt z1 z2)"
    "w_operates (run_account_purge rt z3 z4)" "w_operates (run_project_purge rt z5 z6)"
  unfolding run_restore_job_def retry_and_fail_def cancel_or_retry_def run_account_purge_def process_account_purge_job_def
    export_account_def run_project_purge_def fail_purge_with_def Let_def
  by (insert assms, (rule operates_intros operation_intros | assumption)+)

lemma cleanup_operates:
  assumes "by_others (rt_others rt)"
  shows "w_operates (cleanup_orphans rt pages)"
proof -
  have "w_operates (\<lambda>w. m (app_now (rt_clock rt (w_steps w)) - hours 24) w)" if "\<And>x. w_operates (m x)" for m :: "instant \<Rightarrow> ('a, unit) action"
    using that by (simp add: w_operates_def)
  then show ?thesis
    unfolding cleanup_orphans_def Let_def
    by (rule meta_mp) (unfold delete_keys_def clean_payload_def clean_object_def stale_keys_call_def delete_orphans_call_def,
      insert assms, (rule operates_intros operation_intros | assumption)+)
qed

lemma claim_loop_operations:
  assumes "w_operates claim" and "\<And>j. w_operates (body j)" and "claim_loop fuel claim body w = Some (w', r)"
  shows "operations (w_db w) (w_db w')"
  using assms(3)
proof (induction fuel arbitrary: w)
  case (Suc fuel)
  obtain w1 x where claim: "claim w = (w1, x)" by (metis surj_pair)
  note one = w_operatesD [OF assms(1) claim]
  show ?case
  proof (cases "\<exists>job. x = Inr (Some job)")
    case True
    then obtain job where x: "x = Inr (Some job)" ..
    obtain w2 y where body: "body job w1 = (w2, y)" by (metis surj_pair)
    note two = w_operatesD [OF assms(2) body]
    from Suc.prems consider "w' = w2" | "claim_loop fuel claim body w2 = Some (w', r)"
      by (auto simp: claim x body split: sum.splits)
    then show ?thesis using Suc.IH one two by cases (auto intro: rtranclp_trans)
  next
    case False
    with Suc.prems one show ?thesis by (auto simp: claim split: sum.splits option.splits)
  qed
qed simp

lemma loops_operate:
  assumes "by_others (rt_others rt)"
  shows "process_restore_jobs rt fuel w = Some (w', r) \<Longrightarrow> operations (w_db w) (w_db w')"
    and "process_account_purges rt fuel w = Some (w', r) \<Longrightarrow> operations (w_db w) (w_db w')"
    and "process_project_purges rt fuel w = Some (w', r) \<Longrightarrow> operations (w_db w) (w_db w')"
  unfolding process_restore_jobs_def process_account_purges_def process_project_purges_def with_job_lease_def
  by (erule claim_loop_operations [rotated 2]; (insert assms, (rule operates_intros operation_intros | assumption)+))+

lemma purges_operate:
  assumes "by_others (rt_others rt)" and "process_purge_jobs rt fuel w = Some (w', r)"
  shows "operations (w_db w) (w_db w')"
  using assms(2) loops_operate(2,3) [OF assms(1)]
  by (auto simp: process_purge_jobs_def split: option.splits sum.splits) (metis rtranclp_trans)

lemma restore_tick_operations:
  assumes "by_others (rt_others rt)" and "restore_tick rt fuel w = Some w'"
  shows "operations (w_db w) (w_db w')"
  using assms(2) loops_operate(1) [OF assms(1)] purges_operate [OF assms(1)]
  by (auto simp: restore_tick_def split: option.splits) (metis rtranclp_trans)

lemma cleanup_tick_operations:
  assumes "by_others (rt_others rt)"
  shows "operations (w_db w) (w_db (cleanup_tick rt pages w))"
proof -
  have "w_operates (db_call rt (\<lambda>e _. prune_distributed_rate_limits e n))"
    and "w_operates (db_call rt (\<lambda>e _. prune_old_auth_failures e d m))" for n d m
    using assms by (intro operates_intros operation_intros; assumption)+
  with cleanup_operates [OF assms] show ?thesis
    unfolding cleanup_tick_def Let_def w_operates_def by (blast intro: rtranclp_trans)
qed

subsection \<open>The server\<close>

text \<open>
  The database and the object store, with the memory of one API process and the number of steps of
  one worker. Processes come and go: any process may serve the next request or run the next timer,
  and between its transactions the others do what they like.
\<close>

record 'w server =
  sv_api :: "'w api_world"
  sv_ticks :: nat

definition server_db :: "'w server \<Rightarrow> db" where
  "server_db v = aw_db (sv_api v)"

definition worker_world :: "'w server \<Rightarrow> 'w world" where
  "worker_world v = \<lparr>w_db = aw_db (sv_api v), w_store = aw_store (sv_api v), w_steps = sv_ticks v\<rparr>"

definition after_worker :: "'w world \<Rightarrow> 'w server \<Rightarrow> 'w server" where
  "after_worker w v = v\<lparr>sv_api := (sv_api v)\<lparr>aw_db := w_db w, aw_store := w_store w\<rparr>, sv_ticks := w_steps w\<rparr>"

inductive server_step :: "'w server \<Rightarrow> 'w server \<Rightarrow> bool" where
  request: "by_others (ar_others (px_rt px)) \<Longrightarrow> server_step v (v\<lparr>sv_api := fst (serve px r (sv_api v))\<rparr>)"
| restores: "by_others (rt_others rt) \<Longrightarrow> restore_tick rt fuel (worker_world v) = Some w \<Longrightarrow>
    server_step v (after_worker w v)"
| cleanup: "by_others (rt_others rt) \<Longrightarrow> server_step v (after_worker (cleanup_tick rt pages (worker_world v)) v)"
| command: "server_step v (v\<lparr>sv_api := (sv_api v)
    \<lparr>aw_db := fst (create_admin en e user_id arguments first_prompt second_prompt (aw_db (sv_api v)))\<rparr>\<rparr>)"

inductive_cases server_stepE: "server_step v v'"

lemma create_admin_operations:
  "operations s (fst (create_admin en e user_id arguments first_prompt second_prompt s))"
proof -
  have one: "operations s (fst (create_initial_admin e user_id a b c s))" for a b c
    by (rule r_into_rtranclp) (rule operation.intros)
  show ?thesis
    unfolding create_admin_def by (auto split: list.split sum.split intro: one)
qed

lemma server_step_operations: "server_step v v' \<Longrightarrow> operations (server_db v) (server_db v')"
  by (erule server_stepE)
    (auto simp: server_db_def after_worker_def worker_world_def intro: serve_operations create_admin_operations
      dest: restore_tick_operations cleanup_tick_operations [where w = "worker_world v"])

lemma server_operations:
  assumes "server_step\<^sup>*\<^sup>* v v'" shows "operations (server_db v) (server_db v')"
  using assms by (induction rule: rtranclp_induct) (auto intro: rtranclp_trans dest: server_step_operations)

end
