(* ===== verification/Server_Props.thy ===== *)
theory Server_Props
  imports Server Worker_Props
begin

text \<open>
  What holds of the server over its whole life, whatever requests it gets, whenever its timers run
  and however many processes work on the database at once.
\<close>

subsection \<open>The invariants of the tables\<close>

text \<open>C23. The server keeps its tables consistent. Start from a state that satisfies the invariant of the store (every
  project's log is gapless, every object's revisions are numbered from one, every head is the last revision of its
  object) and in which the ids of the restores are distinct, no project has two live restores and no counter of
  failed attempts is beyond its bound, such as the empty database. Then all this holds after every sequence of
  requests to any endpoint by anyone, runs of the restore and cleanup timers, and commands of an operator, also when
  any other processes do any operations of the persistence layer between any two transactions.\<close>

theorem server_keeps_invariants:
  assumes "server_step\<^sup>*\<^sup>* v v'" and "store_inv (server_db v)" and "queue_ok (restore_jobs (server_db v))"
  shows "store_inv (server_db v') \<and> distinct (map rj_id (restore_jobs (server_db v')))
    \<and> distinct (live_projects (restore_jobs (server_db v'))) \<and> list_all attempts_ok (restore_jobs (server_db v'))"
  using store.steps [OF server_operations [OF assms(1)] assms(2)] queue.steps [OF server_operations [OF assms(1)] assms(3)]
  by (simp add: queue_ok_def)

subsection \<open>Nothing is lost\<close>

text \<open>What the requests, timers and commands do to the database is a run of operations.\<close>

lemma server_run:
  assumes "server_step\<^sup>*\<^sup>* v v'"
  shows "\<exists>ss. successively operation (server_db v # ss) \<and> last (server_db v # ss) = server_db v'"
  by (rule operations_run [OF server_operations [OF assms]])

text \<open>C34. No revision that was ever accepted is changed or lost. Along every run of operations of the persistence layer,
  by any processes and with any arguments, a revision stays in the database in every column as long as its
  project exists, through pushes, restores, retries, expiries and the purges of other projects and accounts.\<close>

theorem accepted_revisions_stay:
  assumes "successively operation (s # ss)" and "r \<in> set (object_revisions s)"
    and "\<forall>t \<in> set ss. owned t (rv_project r) (rv_owner r)"
  shows "\<forall>t \<in> set ss. r \<in> set (object_revisions t)"
  using assms
proof (induction ss arbitrary: s)
  case (Cons t ss)
  then have step: "operation s t" and run: "successively operation (t # ss)" and own: "owned t (rv_project r) (rv_owner r)"
    and later: "\<forall>t \<in> set ss. owned t (rv_project r) (rv_owner r)" by simp_all
  have kept: "r \<in> set (object_revisions t)" using operation_keeps_revision [OF step Cons.prems(2)] own by blast
  with Cons.IH [OF run kept later] show ?case by simp
qed simp

text \<open>The result of a restore is final as well: a restore that has succeeded, failed or been cancelled keeps its row.\<close>

theorem restore_results_stay:
  assumes "successively operation (s # ss)" and "queue_ok (restore_jobs s)"
    and "j \<in> set (restore_jobs s)" and "\<not> restore_live j" and "\<forall>t \<in> set ss. owned t (rj_project j) (rj_owner j)"
  shows "\<forall>t \<in> set ss. j \<in> set (restore_jobs t)"
  using assms(1-3,5)
proof (induction ss arbitrary: s)
  case (Cons t ss)
  then have step: "operation s t" and run: "successively operation (t # ss)" and own: "owned t (rj_project j) (rj_owner j)"
    and later: "\<forall>t \<in> set ss. owned t (rj_project j) (rj_owner j)" by simp_all
  have kept: "j \<in> set (restore_jobs t)"
    using queue_step_final [OF operation_queue [OF step Cons.prems(2)] Cons.prems(3) assms(4)] own by blast
  have "queue_ok (restore_jobs t)" by (rule queue.step [OF step Cons.prems(2)])
  with Cons.IH [OF run this kept later] kept show ?case by simp
qed simp

subsection \<open>A run\<close>

text \<open>A request of a user, then the cleanup of the worker.\<close>

definition sample_server :: "db \<Rightarrow> (string \<rightharpoonup> bytes) server" where
  "sample_server s = \<lparr>sv_api = sample_api_world s, sv_ticks = 0\<rparr>"

definition sample_served :: "db \<Rightarrow> (string \<rightharpoonup> bytes) server" where
  "sample_served s = (let v = sample_server s; v1 = v\<lparr>sv_api := fst (serve sample_process sample_create (sv_api v))\<rparr> in
     after_worker (cleanup_tick sample_runtime 1 (worker_world v1)) v1)"

lemma sample_server_db [simp]: "server_db (sample_server s) = s"
  by (simp add: server_db_def sample_server_def sample_api_world_def)

lemma sample_run: "server_step\<^sup>*\<^sup>* (sample_server s) (sample_served s)"
proof -
  have others: "by_others (ar_others (px_rt sample_process))" "by_others (rt_others sample_runtime)"
    by (simp_all add: by_others_def sample_process_def sample_api_def sample_runtime_def)
  let ?v1 = "(sample_server s)\<lparr>sv_api := fst (serve sample_process sample_create (sv_api (sample_server s)))\<rparr>"
  have "server_step (sample_server s) ?v1" by (rule server_step.request [OF others(1)])
  then have "server_step\<^sup>*\<^sup>* (sample_server s) ?v1" by (rule r_into_rtranclp)
  moreover have "server_step ?v1 (sample_served s)"
    unfolding sample_served_def Let_def by (rule server_step.cleanup [OF others(2)])
  ultimately show ?thesis by (rule rtranclp.rtrancl_into_rtrancl)
qed

lemma sample_restored_ok: "store_inv sample_restored" "queue_ok (restore_jobs sample_restored)"
proof -
  show "store_inv sample_restored"
    unfolding sample_restored_def by (rule store_kept [OF sample_claimed_inv])
  show "queue_ok (restore_jobs sample_restored)" by code_simp
qed

theorem server_keeps_invariants_witness:
  "store_inv (server_db (sample_served sample_restored))
    \<and> distinct (live_projects (restore_jobs (server_db (sample_served sample_restored))))"
  using server_keeps_invariants [OF sample_run, of sample_restored] sample_restored_ok by simp

text \<open>The project is renamed, then it is disabled: the pushed revision is still there.\<close>

theorem accepted_revisions_stay_witness:
  "hd (object_revisions sample_pushed) \<in> set (object_revisions
    (fst (disable_project sample_env ''u'' ''p'' (fst (rename_project sample_env ''u'' ''p'' ''new'' sample_pushed)))))"
proof -
  let ?s1 = "fst (rename_project sample_env ''u'' ''p'' ''new'' sample_pushed)"
  let ?s2 = "fst (disable_project sample_env ''u'' ''p'' ?s1)"
  let ?r = "hd (object_revisions sample_pushed)"
  have "operation sample_pushed ?s1" by (rule operation.op_rename_project)
  moreover have "operation ?s1 ?s2" by (rule operation.op_disable_project)
  ultimately have run: "successively operation (sample_pushed # [?s1, ?s2])" by simp
  have "object_revisions sample_pushed \<noteq> []" by code_simp
  then have r: "?r \<in> set (object_revisions sample_pushed)" by simp
  have "owned ?s1 (rv_project ?r) (rv_owner ?r)" "owned ?s2 (rv_project ?r) (rv_owner ?r)" by code_simp+
  then have "\<forall>t \<in> set [?s1, ?s2]. owned t (rv_project ?r) (rv_owner ?r)" by simp
  from accepted_revisions_stay [OF run r this] show ?thesis by simp
qed

end
