(* ===== verification/Spec2Isabelle.thy ===== *)
theory Spec2Isabelle
  imports Prelude Domain Schema Store Sample Push Push_Spec Push_Props Pull Pull_Props
    Sessions Sessions_Props Projects Restore Restore_Jobs Restore_Props
    Purge Account_Purge Account_Export Purge_Props Payloads Object_Store Object_Store_Props
    Limits Limits_Props Worker Worker_Props Accounts Accounts_Props Admin Api Cursor Cursor_Props
    Api_State Api_Sync Api_Props Api_Auth Api_Account Api_Admin
    Tenancy Trends Api_Http Api_Router Isolation
    Migrate Startup Login_Props Api_Http_Props
    Operations Server_Store Nonces Server Server_Props
begin

text \<open>
  Verification library for tasktips-cloud, the synchronisation server of TaskTips: a Rust
  workspace under \<open>crates/\<close> on PostgreSQL and an S3-compatible object store.

  \<^bold>\<open>The program.\<close> Clients keep their data on devices and synchronise projects of versioned
  objects. A device bootstraps from a manifest of the current objects, pulls the changes after a
  cursor and pushes batches of revisions, each on the revision it was made from; the payloads
  are content-addressed objects in the object store. The API process (\<open>crates/api\<close>) checks a
  request and runs one or more transactions of the persistence layer (\<open>crates/persistence\<close>) and
  requests to the object store (\<open>crates/object-store\<close>); the worker (\<open>crates/worker\<close>) runs the
  queued restores and purges and removes what has expired. Policies shared by both are in
  \<open>crates/domain\<close> and \<open>crates/application\<close>.

  \<^bold>\<open>How the code is modelled.\<close>
  \<^item> A table is a list of rows in insertion order, a row a record (\<open>Schema\<close>, after
    \<open>migrations/0001_init.sql\<close>); the database is a record of tables. SQL statements are the
    operations \<open>update_where\<close>, \<open>delete_where\<close>, \<open>filter\<close>, \<open>List.find\<close>, \<open>list_ex\<close> and \<open>sort_key\<close> on
    these lists, inserts check the primary key, the unique indexes, the CHECK and the foreign key
    constraints that the code can meet.
  \<^item> A transaction of the persistence layer is a function of type \<open>'a txn = db \<Rightarrow> db \<times>
    (persistence_error + 'a)\<close>: what is committed and what the caller gets. A transaction that
    returns an error and rolls back returns the state it started from; the few that commit
    although they fail (a detected token reuse, a stored refusal of a push) say so. The
    model runs transactions one after another.
  \<^item> Row-level security is the filter on the owner that the policies of the migrations add to
    the statements of an account; the worker's grants are modelled for the two tables on which
    they decide the outcome (\<open>Purge\<close>).
  \<^item> Identifiers are strings, new ones are arguments (\<open>Uuid::new_v4\<close>, \<open>gen_random_uuid\<close>); an instant
    is an integer of microseconds, the clock of the database and the clock of the process are the
    two members of \<open>env\<close>. \<open>i64\<close> values are integers; where the code adds without a check the sum
    wraps (\<open>i64_wrap\<close>), where the database refuses an overflow the model returns its error.
  \<^item> The worker and the API are state transformers (\<open>action\<close> in \<open>Worker\<close>, \<open>handler\<close> in \<open>Api_State\<close>)
    over the database, the object store and their own memory. Before each of their transactions
    and object store requests, \<open>rt_others\<close> and \<open>ar_others\<close> apply whatever other processes did.
  \<^item> What is not under \<open>src/\<close> is a parameter: the S3 service (\<open>s3_service\<close>), SHA-256, base64, the
    JSON and JWT codecs, the file system and the archiver. Laws a property needs of them are
    hypotheses of the property (\<open>libs_ok\<close>, the laws of \<open>s3_local\<close>) and its witness instantiates them.
  \<^item> Strings range over the characters U+0000 to U+00FF of \<open>string\<close>; the Chinese texts of error
    messages are left out.

  \<^bold>\<open>Theories.\<close>
  \<^item> \<open>Prelude\<close>: durations, 64-bit arithmetic, tables, results, JSON, string functions, and the
    locale \<open>key_update\<close> of updates that keep a row's key, interpreted at each SET clause.
  \<^item> \<open>Domain\<close> (\<open>crates/domain\<close>, \<open>crates/application\<close>), \<open>Schema\<close> (rows, errors, guards), \<open>Store\<close> (the four
    statements that append a revision; the invariant \<open>store_inv\<close> of log, heads and counters),
    \<open>Sample\<close> (the state the witnesses use).
  \<^item> \<open>Push\<close> with \<open>Push_Spec\<close> (an abstract log per project that \<open>push_refines_log\<close> refines) and
    \<open>Push_Props\<close>: idempotent retries, conflicts, contiguous sequences.
  \<^item> \<open>Pull\<close>, \<open>Pull_Props\<close>: pages of changes, bootstrap, manifests; a replica that bootstraps and
    pulls has the state of the server.
  \<^item> \<open>Sessions\<close>, \<open>Sessions_Props\<close>: logins, rotation of refresh tokens with its grace window, reuse,
    devices, nonces. \<open>Accounts\<close>, \<open>Accounts_Props\<close>: invitations, registration, status transitions.
  \<^item> \<open>Projects\<close>, \<open>Restore\<close>, \<open>Restore_Jobs\<close>, \<open>Restore_Props\<close>: projects, snapshots, the restore queue
    with leases, retries and cancellation, and the execution of a restore.
  \<^item> \<open>Purge\<close>, \<open>Account_Purge\<close>, \<open>Account_Export\<close>, \<open>Purge_Props\<close>: deletion of projects and accounts.
  \<^item> \<open>Payloads\<close>, \<open>Object_Store\<close>, \<open>Object_Store_Props\<close>: the payload catalog and the object store.
  \<^item> \<open>Limits\<close>, \<open>Limits_Props\<close>: the two rate limiters and the budget of temporary bytes, with all
    interleavings of their threads as sequences of steps.
  \<^item> \<open>Worker\<close>, \<open>Worker_Props\<close>: the loops of the worker.
  \<^item> \<open>Admin\<close>: the queries of an administrator. \<open>Api\<close>: validation and error mapping. \<open>Cursor\<close>,
    \<open>Cursor_Props\<close>: signed cursors. \<open>Api_State\<close>, \<open>Api_Sync\<close>, \<open>Api_Props\<close>: the state of the API process,
    the sync endpoints and their clients. \<open>Api_Auth\<close>: the authentication service, logins, refreshes,
    logouts, invitations, registration. \<open>Api_Account\<close>, \<open>Api_Admin\<close>: the endpoints of an account for
    its projects and devices, and those of an administrator.
  \<^item> \<open>Trends\<close>: the sync trends of an administrator, with percentiles in hundredths and UTC days.
    \<open>Api_Http\<close>: the extractors of requests with their decoders, the answers and their JSON.
    \<open>Api_Router\<close>: the route table, the dispatch of a request to its handler, the checks of
    readiness, the metrics, the answers of an unknown path and of a request that takes too long.
  \<^item> \<open>Tenancy\<close>: the part of the database that belongs to an account, the invariant \<open>tenant_ok\<close> and,
    for each operation an account calls, that the parts of the other accounts stay as they are.
    \<open>Isolation\<close>: what holds of every endpoint of the table, over the router: no answer without a
    session, no write to another account, no read of another account. \<open>Login_Props\<close>: what a login
    must have had for the session it made. \<open>Api_Http_Props\<close>: the canonical form of a push.
  \<^item> \<open>Migrate\<close>: the history of the migrations and the adoption of an existing schema. \<open>Startup\<close>: the
    commands, the configuration and the state with which the two processes start.
  \<^item> \<open>Operations\<close>: every operation of the persistence layer as a rule of one step relation on the
    database, with free arguments, and the locale of the invariants they all keep. \<open>Server_Store\<close>:
    what each operation does to the store and the queue of restores, and the interpretations of that
    locale. \<open>Nonces\<close>: the same for the nonces. \<open>Server\<close>: requests, timers and commands are sequences of
    operations. \<open>Server_Props\<close>: what holds of the server over its whole life.

  \<^bold>\<open>Bounds and fuel.\<close> Loops over rows, pages or bytes are structural or carry a measure. Three loops
  take fuel: the worker's claim loop (more fuel than live restores is enough,
  \<open>process_restore_jobs_ends\<close>, which also says what has become of every job it claimed), the listing loops of the object store (as many pages as the service
  returns, \<open>listing_ends\<close>), and the pull client (the missing changes divided by the page
  size, rounded up, is enough and no less is, \<open>pull_client_receives_all\<close>). Running out of fuel is the value \<open>None\<close>, which the theorems exclude.

  \<^bold>\<open>Not modelled.\<close> Failures of the database connection; concurrency inside a transaction beyond its
  locks; the cancellation of a handler by the timeout layer (its answer is modelled, the handler
  then is one that did not finish); logging and signals; the connection pool and its roles beyond
  the owner filters; the runner of the migrations (a parameter of \<open>migrate\<close>), and the migrations
  beyond the tables and constraints named above; the user interface, the deployment files and the
  tests.
\<close>

end
